(* ===== verification/Prelude.thy ===== *)
theory Prelude
  imports Main "HOL-Library.Word" "HOL-Library.Monad_Syntax" "HOL-Library.Signed_Division"
begin

text \<open>
  Shared vocabulary of the development: Rust's fixed-width integers, the arithmetic that panics
  on overflow in a checked build, the saturating and truncating operations the sources call,
  and the generic lemmas on lists and options the component theories use.

  Conventions. An unsigned Rust integer of width \<open>w\<close> is a \<open>w word\<close> read by \<open>uint\<close> or
  \<open>unat\<close>; a signed one is the same word read by \<open>sint\<close>. An intermediate value is computed
  in \<open>int\<close> and passed through the check of its width: \<open>None\<close> is the panic that
  Rust's overflow checks raise. A method on \<open>&mut self\<close> takes the record and returns the new
  one, paired with the method's result where it has one.
\<close>

type_synonym u8 = "8 word"
type_synonym u16 = "16 word"
type_synonym u32 = "32 word"
type_synonym u64 = "64 word"
type_synonym i8 = "8 word"
type_synonym i16 = "16 word"
type_synonym i32 = "32 word"
type_synonym i64 = "64 word"

named_theorems mc_mode "facts on the vehicle mode functions"
named_theorems mc_arith "width and range facts of the fixed-width integers"
named_theorems mc_str "facts on the string operations"

subsection \<open>Checked, saturating and truncating arithmetic\<close>

definition in_i32 :: "int \<Rightarrow> bool" where
  "in_i32 z \<longleftrightarrow> -(2 ^ 31) \<le> z \<and> z < 2 ^ 31"

definition in_i64 :: "int \<Rightarrow> bool" where
  "in_i64 z \<longleftrightarrow> -(2 ^ 63) \<le> z \<and> z < 2 ^ 63"

text \<open>The result of an arithmetic operator at a width: \<open>None\<close> when it overflows.\<close>

definition chk_i32 :: "int \<Rightarrow> int option" where
  "chk_i32 z = (if in_i32 z then Some z else None)"

definition chk_i64 :: "int \<Rightarrow> int option" where
  "chk_i64 z = (if in_i64 z then Some z else None)"

text \<open>\<open>saturating_add\<close> and \<open>saturating_sub\<close>: the exact result clamped to the width.\<close>

definition sat_i32 :: "int \<Rightarrow> int" where
  "sat_i32 z = max (-(2 ^ 31)) (min (2 ^ 31 - 1) z)"

definition sat_i64 :: "int \<Rightarrow> int" where
  "sat_i64 z = max (-(2 ^ 63)) (min (2 ^ 63 - 1) z)"

text \<open>Unsigned addition and subtraction with the overflow check.\<close>

definition uadd :: "'a::len word \<Rightarrow> 'a word \<Rightarrow> 'a word option" where
  "uadd x y = (if unat x + unat y < 2 ^ LENGTH('a) then Some (x + y) else None)"

definition usub :: "'a::len word \<Rightarrow> 'a word \<Rightarrow> 'a word option" where
  "usub x y = (if y \<le> x then Some (x - y) else None)"

lemma in_i32I: "-2147483648 \<le> z \<Longrightarrow> z \<le> 2147483647 \<Longrightarrow> in_i32 z"
  by (simp add: in_i32_def)

lemma in_i64I: "-9223372036854775808 \<le> z \<Longrightarrow> z \<le> 9223372036854775807 \<Longrightarrow> in_i64 z"
  by (simp add: in_i64_def)

lemma chk_i32_Some [simp]: "chk_i32 z = Some y \<longleftrightarrow> in_i32 z \<and> y = z"
  by (auto simp: chk_i32_def)

lemma chk_i64_Some [simp]: "chk_i64 z = Some y \<longleftrightarrow> in_i64 z \<and> y = z"
  by (auto simp: chk_i64_def)

lemma sat_i32_id [simp]: "in_i32 z \<Longrightarrow> sat_i32 z = z"
  by (auto simp: in_i32_def sat_i32_def)

lemma sat_i64_id [simp]: "in_i64 z \<Longrightarrow> sat_i64 z = z"
  by (auto simp: in_i64_def sat_i64_def)

lemma in_i32_sat [simp]: "in_i32 (sat_i32 z)"
  by (auto simp: in_i32_def sat_i32_def)

lemma in_i64_sat [simp]: "in_i64 (sat_i64 z)"
  by (auto simp: in_i64_def sat_i64_def)

lemma uadd_Some: "uadd x y = Some z \<Longrightarrow> unat z = unat x + unat y"
  for x y z :: "'a::len word"
  by (auto simp: uadd_def unat_word_ariths split: if_splits)

lemma usub_Some: "usub x y = Some z \<Longrightarrow> unat z = unat x - unat y \<and> unat y \<le> unat x"
  for x y z :: "'a::len word"
  by (auto simp: usub_def unat_sub word_le_nat_alt split: if_splits)

lemma usub_None: "usub x y = None \<longleftrightarrow> unat x < unat y"
  for x y :: "'a::len word"
  by (auto simp: usub_def word_le_nat_alt)

lemma sint_word_of_int_range [mc_arith]:
  assumes "-(2 ^ (LENGTH('a) - 1)) \<le> z" "z < 2 ^ (LENGTH('a) - 1)"
  shows "sint (word_of_int z :: 'a::len word) = z"
  using assms by (simp only: sint_sbintrunc' signed_take_bit_int_eq_self)

text \<open>Ranges of the widths the sources use, in the form \<open>linarith\<close> consumes.\<close>

lemma sint_i8_range [mc_arith]: "-128 \<le> sint (x :: i8) \<and> sint x < 128"
  using sint_ge [of x] sint_lt [of x] by simp

lemma sint_i16_range [mc_arith]: "-32768 \<le> sint (x :: i16) \<and> sint x < 32768"
  using sint_ge [of x] sint_lt [of x] by simp

lemma sint_i32_range [mc_arith]: "-2147483648 \<le> sint (x :: i32) \<and> sint x < 2147483648"
  using sint_ge [of x] sint_lt [of x] by simp

lemma uint_u8_range [mc_arith]: "0 \<le> uint (x :: u8) \<and> uint x < 256"
  using uint_lt2p [of x] by simp

lemma uint_u16_range [mc_arith]: "0 \<le> uint (x :: u16) \<and> uint x < 65536"
  using uint_lt2p [of x] by simp

lemma uint_u32_range [mc_arith]: "0 \<le> uint (x :: u32) \<and> uint x < 4294967296"
  using uint_lt2p [of x] by simp

lemma unat_u8_range [mc_arith]: "unat (x :: u8) < 256"
  using unsigned_less [of x, where ?'a = nat] by simp

text \<open>A byte below 128 keeps its value when it is reinterpreted as \<open>i8\<close>.\<close>

lemma sint_of_small_u8 [mc_arith]: "unat (x :: u8) < 128 \<Longrightarrow> sint x = int (unat x)"
proof -
  assume "unat x < 128"
  then have "int (unat x) < 128" by linarith
  then have "uint x < 128" by simp
  then have "sint (word_of_int (uint x) :: u8) = uint x"
    by (intro sint_word_of_int_range) (auto intro: order_trans [OF _ uint_ge_0])
  then show ?thesis by simp
qed

lemma xor_right_cancel [simp]: "xor a k = xor b k \<longleftrightarrow> a = b"
  for a b k :: "'a::len word"
  by (auto simp: bit_eq_iff bit_xor_iff)

lemma xor_left_cancel [simp]: "xor k a = xor k b \<longleftrightarrow> a = b"
  for a b k :: "'a::len word"
  by (auto simp: bit_eq_iff bit_xor_iff)

lemma ucast_up_inj: "LENGTH('a) \<le> LENGTH('b) \<Longrightarrow> (ucast x :: 'b::len word) = ucast y \<Longrightarrow> x = y"
  for x y :: "'a::len word"
  by (auto simp: bit_eq_iff bit_ucast_iff dest: bit_imp_le_length)

end
