(* ===== verification/Protocol.thy ===== *)
theory Protocol
  imports Prelude
begin

text \<open>
  \<^verbatim>\<open>state_tests/src/protocol.rs\<close>: the message vocabulary of the vehicle network and the two
  pure safety functions every ECU shares. The payload structures are records, the encode and
  decode functions translate field by field, \<open>bms_determine_state\<close> classifies a pack
  temperature and \<open>safety_clamp_torque\<close> applies the torque rules S1 to S3.
\<close>

subsection \<open>Node and message identifiers\<close>

definition MC_NODE_GATEWAY :: u8 where "MC_NODE_GATEWAY = 1"
definition MC_NODE_POWERTRAIN :: u8 where "MC_NODE_POWERTRAIN = 2"
definition MC_NODE_BMS :: u8 where "MC_NODE_BMS = 3"
definition MC_NODE_DASHBOARD :: u8 where "MC_NODE_DASHBOARD = 4"
definition MC_NODE_PLANT :: u8 where "MC_NODE_PLANT = 100"
definition MC_NODE_TEST_HARNESS :: u8 where "MC_NODE_TEST_HARNESS = 200"
definition MC_NODE_EVSE :: u8 where "MC_NODE_EVSE = 6"
definition MC_NODE_OTA_TOOL :: u8 where "MC_NODE_OTA_TOOL = 7"
definition MC_NODE_TELEMATICS :: u8 where "MC_NODE_TELEMATICS = 8"

definition MC_MSG_HEARTBEAT :: u32 where "MC_MSG_HEARTBEAT = 0x001"
definition MC_MSG_VEHICLE_MODE :: u32 where "MC_MSG_VEHICLE_MODE = 0x010"
definition MC_MSG_DRIVER_INPUT :: u32 where "MC_MSG_DRIVER_INPUT = 0x020"
definition MC_MSG_POWERTRAIN_STATUS :: u32 where "MC_MSG_POWERTRAIN_STATUS = 0x100"
definition MC_MSG_MOTOR_COMMAND :: u32 where "MC_MSG_MOTOR_COMMAND = 0x101"
definition MC_MSG_WHEEL_SPEED :: u32 where "MC_MSG_WHEEL_SPEED = 0x102"
definition MC_MSG_BMS_STATUS :: u32 where "MC_MSG_BMS_STATUS = 0x200"
definition MC_MSG_BMS_LIMITS :: u32 where "MC_MSG_BMS_LIMITS = 0x201"
definition MC_MSG_BMS_FAULT :: u32 where "MC_MSG_BMS_FAULT = 0x202"
definition MC_MSG_DASHBOARD_STATUS :: u32 where "MC_MSG_DASHBOARD_STATUS = 0x300"
definition MC_MSG_WARNING :: u32 where "MC_MSG_WARNING = 0x400"
definition MC_MSG_BMS_CHARGE_LIMIT :: u32 where "MC_MSG_BMS_CHARGE_LIMIT = 0x203"
definition MC_MSG_EVSE_EVENT :: u32 where "MC_MSG_EVSE_EVENT = 0x610"
definition MC_MSG_CHARGE_COMMAND :: u32 where "MC_MSG_CHARGE_COMMAND = 0x611"
definition MC_MSG_OTA_REQUEST :: u32 where "MC_MSG_OTA_REQUEST = 0x630"
definition MC_MSG_OTA_CHUNK :: u32 where "MC_MSG_OTA_CHUNK = 0x631"
definition MC_MSG_OTA_FINISH :: u32 where "MC_MSG_OTA_FINISH = 0x632"
definition MC_MSG_OTA_STATUS :: u32 where "MC_MSG_OTA_STATUS = 0x633"

subsection \<open>Modes, states and codes\<close>

datatype vehicle_mode = Off | Ready | Drive | Limp | Fault | Charging

fun mode_u8 :: "vehicle_mode \<Rightarrow> u8" where
  "mode_u8 Off = 0"
| "mode_u8 Ready = 1"
| "mode_u8 Drive = 2"
| "mode_u8 Limp = 3"
| "mode_u8 Fault = 4"
| "mode_u8 Charging = 5"

definition mode_from_u8 :: "u8 \<Rightarrow> vehicle_mode" where
  "mode_from_u8 v =
     (if v = 0 then Off else if v = 1 then Ready else if v = 2 then Drive
      else if v = 3 then Limp else if v = 4 then Fault else if v = 5 then Charging else Off)"

fun mode_name :: "vehicle_mode \<Rightarrow> string" where
  "mode_name Off = ''OFF''"
| "mode_name Ready = ''READY''"
| "mode_name Drive = ''DRIVE''"
| "mode_name Limp = ''LIMP''"
| "mode_name Fault = ''FAULT''"
| "mode_name Charging = ''CHARGING''"

datatype bms_state = BmsOk | WarnHot | LimpRequest | CriticalFault

datatype bms_fault_code =
  FaultNone | Overtemp | Overvoltage | Undervoltage | OverCurrent | CommError

datatype warning_code =
  WarnNone | BmsOvertemp | BmsOffline | PowertrainOffline | GatewayRestarted
| DashboardOffline | InvalidThrottle | CriticalBmsFault | ChargerPlugged

fun warning_u8 :: "warning_code \<Rightarrow> u8" where
  "warning_u8 WarnNone = 0"
| "warning_u8 BmsOvertemp = 1"
| "warning_u8 BmsOffline = 2"
| "warning_u8 PowertrainOffline = 3"
| "warning_u8 GatewayRestarted = 4"
| "warning_u8 DashboardOffline = 5"
| "warning_u8 InvalidThrottle = 6"
| "warning_u8 CriticalBmsFault = 7"
| "warning_u8 ChargerPlugged = 8"

subsection \<open>Safety constants\<close>

definition MC_SAFETY_LIMP_RESPONSE_MS :: u32 where "MC_SAFETY_LIMP_RESPONSE_MS = 300"
definition MC_SAFETY_GATEWAY_TIMEOUT_MS :: u32 where "MC_SAFETY_GATEWAY_TIMEOUT_MS = 250"
definition MC_SAFETY_BMS_HEARTBEAT_TIMEOUT_MS :: u32 where
  "MC_SAFETY_BMS_HEARTBEAT_TIMEOUT_MS = 300"
definition MC_SAFETY_HEARTBEAT_INTERVAL_MS :: u32 where "MC_SAFETY_HEARTBEAT_INTERVAL_MS = 100"
definition MC_BMS_TEMP_OK :: int where "MC_BMS_TEMP_OK = 60"
definition MC_BMS_TEMP_WARN :: int where "MC_BMS_TEMP_WARN = 60"
definition MC_BMS_TEMP_LIMP :: int where "MC_BMS_TEMP_LIMP = 75"
definition MC_BMS_TEMP_CRITICAL :: int where "MC_BMS_TEMP_CRITICAL = 90"
definition MC_TORQUE_LIMP_MAX_PERCENT :: u8 where "MC_TORQUE_LIMP_MAX_PERCENT = 25"
definition MC_TORQUE_FAULT_MAX_PERCENT :: u8 where "MC_TORQUE_FAULT_MAX_PERCENT = 0"

subsection \<open>Payload structures\<close>

record heartbeat_msg =
  hm_node_id :: u8
  hm_uptime_ms :: u32

record driver_input_msg =
  dm_throttle_percent :: u8
  dm_brake_pressed :: u8
  dm_gear :: u8

record vehicle_mode_msg =
  vm_mode :: u8
  vm_fault_code :: u8

record bms_status_msg =
  bs_pack_voltage_mv :: u16
  bs_pack_current_ma :: i16
  bs_pack_temp_c_x10 :: i16
  bs_soc_percent :: u8

record bms_limits_msg =
  bl_max_torque_percent :: u8
  bl_reason :: u8

record motor_command_msg =
  mc_torque_percent :: i8
  mc_enable :: u8

record wheel_speed_msg =
  ws_speed_kph_x10 :: u16

record warning_msg =
  wm_source_node :: u8
  wm_warning_code :: u8

subsection \<open>Encode and decode functions\<close>

definition encode_heartbeat :: "u8 \<Rightarrow> u32 \<Rightarrow> heartbeat_msg" where
  "encode_heartbeat node_id uptime_ms = \<lparr>hm_node_id = node_id, hm_uptime_ms = uptime_ms\<rparr>"

definition decode_heartbeat :: "heartbeat_msg \<Rightarrow> u8 \<times> u32" where
  "decode_heartbeat msg = (hm_node_id msg, hm_uptime_ms msg)"

definition encode_vehicle_mode :: "u8 \<Rightarrow> u8 \<Rightarrow> vehicle_mode_msg" where
  "encode_vehicle_mode mode fault_code = \<lparr>vm_mode = mode, vm_fault_code = fault_code\<rparr>"

definition decode_vehicle_mode :: "vehicle_mode_msg \<Rightarrow> u8 \<times> u8" where
  "decode_vehicle_mode msg = (vm_mode msg, vm_fault_code msg)"

definition encode_driver_input :: "u8 \<Rightarrow> u8 \<Rightarrow> u8 \<Rightarrow> driver_input_msg" where
  "encode_driver_input throttle brake gear =
     \<lparr>dm_throttle_percent = throttle, dm_brake_pressed = brake, dm_gear = gear\<rparr>"

definition decode_driver_input :: "driver_input_msg \<Rightarrow> u8 \<times> u8 \<times> u8" where
  "decode_driver_input msg = (dm_throttle_percent msg, dm_brake_pressed msg, dm_gear msg)"

definition encode_bms_status :: "u16 \<Rightarrow> i16 \<Rightarrow> i16 \<Rightarrow> u8 \<Rightarrow> bms_status_msg" where
  "encode_bms_status voltage_mv current_ma temp_c_x10 soc_percent =
     \<lparr>bs_pack_voltage_mv = voltage_mv, bs_pack_current_ma = current_ma,
      bs_pack_temp_c_x10 = temp_c_x10, bs_soc_percent = soc_percent\<rparr>"

definition decode_bms_status :: "bms_status_msg \<Rightarrow> u16 \<times> i16 \<times> i16 \<times> u8" where
  "decode_bms_status msg =
     (bs_pack_voltage_mv msg, bs_pack_current_ma msg, bs_pack_temp_c_x10 msg, bs_soc_percent msg)"

definition encode_bms_limits :: "u8 \<Rightarrow> u8 \<Rightarrow> bms_limits_msg" where
  "encode_bms_limits max_torque reason =
     \<lparr>bl_max_torque_percent = max_torque, bl_reason = reason\<rparr>"

definition decode_bms_limits :: "bms_limits_msg \<Rightarrow> u8 \<times> u8" where
  "decode_bms_limits msg = (bl_max_torque_percent msg, bl_reason msg)"

definition encode_motor_command :: "i8 \<Rightarrow> u8 \<Rightarrow> motor_command_msg" where
  "encode_motor_command torque enable = \<lparr>mc_torque_percent = torque, mc_enable = enable\<rparr>"

definition decode_motor_command :: "motor_command_msg \<Rightarrow> i8 \<times> u8" where
  "decode_motor_command msg = (mc_torque_percent msg, mc_enable msg)"

definition encode_wheel_speed :: "u16 \<Rightarrow> wheel_speed_msg" where
  "encode_wheel_speed speed_kph_x10 = \<lparr>ws_speed_kph_x10 = speed_kph_x10\<rparr>"

definition decode_wheel_speed :: "wheel_speed_msg \<Rightarrow> u16" where
  "decode_wheel_speed msg = ws_speed_kph_x10 msg"

definition encode_warning :: "u8 \<Rightarrow> u8 \<Rightarrow> warning_msg" where
  "encode_warning source code = \<lparr>wm_source_node = source, wm_warning_code = code\<rparr>"

definition decode_warning :: "warning_msg \<Rightarrow> u8 \<times> u8" where
  "decode_warning msg = (wm_source_node msg, wm_warning_code msg)"

subsection \<open>BMS state determination\<close>

definition bms_determine_state :: "i16 \<Rightarrow> bms_state" where
  "bms_determine_state temp_c_x10 =
     (let temp_c = sint temp_c_x10 sdiv 10
      in if temp_c > MC_BMS_TEMP_CRITICAL then CriticalFault
         else if temp_c > MC_BMS_TEMP_LIMP then LimpRequest
         else if temp_c > MC_BMS_TEMP_WARN then WarnHot
         else BmsOk)"

subsection \<open>Safety torque clamp\<close>

text \<open>
  The result and \<open>requested\<close> are \<open>i8\<close>, read by \<open>sint\<close>; \<open>effective_max as i8\<close>
  reinterprets the byte, so a limit above 127 would turn negative.
\<close>

definition effective_max :: "vehicle_mode \<Rightarrow> u8 \<Rightarrow> u8" where
  "effective_max mode bms_max_torque =
     (case mode of
        Limp \<Rightarrow> min MC_TORQUE_LIMP_MAX_PERCENT bms_max_torque
      | _ \<Rightarrow> min bms_max_torque 100)"

definition safety_clamp_torque :: "i8 \<Rightarrow> vehicle_mode \<Rightarrow> bool \<Rightarrow> u8 \<Rightarrow> i8" where
  "safety_clamp_torque requested mode brake_pressed bms_max_torque =
     (if brake_pressed then 0
      else if mode = Fault then 0
      else word_of_int (min (max (sint requested) 0) (sint (effective_max mode bms_max_torque :: i8))))"

subsection \<open>Facts on the shared functions\<close>

lemmas bms_temp_consts [mc_mode] =
  MC_BMS_TEMP_CRITICAL_def MC_BMS_TEMP_LIMP_def MC_BMS_TEMP_WARN_def MC_BMS_TEMP_OK_def

lemmas torque_consts [mc_mode] =
  MC_TORQUE_LIMP_MAX_PERCENT_def MC_TORQUE_FAULT_MAX_PERCENT_def

lemma mode_from_u8_inverse [simp]: "mode_from_u8 (mode_u8 m) = m"
  by (cases m) (simp_all add: mode_from_u8_def)

lemma mode_name_inj: "mode_name m = mode_name m' \<longleftrightarrow> m = m'"
  by (cases m; cases m') simp_all

text \<open>
  Rust's division of a temperature in tenths truncates towards zero, so a threshold of
  \<open>n\<close> degrees is passed only from \<open>10 * (n + 1)\<close> tenths on.
\<close>

lemma sdiv10_gt: "0 \<le> n \<Longrightarrow> n < z sdiv 10 \<longleftrightarrow> 10 * (n + 1) \<le> (z :: int)"
  by (cases "0 \<le> z") (auto simp: signed_divide_int_def sgn_if)

lemma bms_determine_state_tenths:
  "bms_determine_state t =
     (if 910 \<le> sint t then CriticalFault else if 760 \<le> sint t then LimpRequest
      else if 610 \<le> sint t then WarnHot else BmsOk)"
  by (simp add: bms_determine_state_def mc_mode sdiv10_gt)

lemma unat_effective_max:
  "unat (effective_max mode lim) = min (if mode = Limp then 25 else 100) (unat lim)"
proof (cases mode)
qed (simp_all add: effective_max_def mc_mode min_def word_le_nat_alt)

lemma effective_max_bounds:
  "unat (effective_max mode lim) \<le> 100" "mode = Limp \<Longrightarrow> unat (effective_max mode lim) \<le> 25"
  "unat (effective_max mode lim) \<le> unat lim"
  by (auto simp: unat_effective_max)

lemma sint_effective_max: "sint (effective_max mode lim :: i8) = int (unat (effective_max mode lim))"
  using effective_max_bounds(1) [of mode lim] by (intro sint_of_small_u8) linarith

text \<open>The clamp never leaves the range in which the byte reads the same signed and unsigned.\<close>

lemma sint_safety_clamp_torque:
  "sint (safety_clamp_torque req mode brake lim) =
     (if brake \<or> mode = Fault then 0
      else min (max (sint req) 0) (int (unat (effective_max mode lim))))"
proof -
  have "sint (word_of_int (min (max (sint req) 0) (int n)) :: i8) = min (max (sint req) 0) (int n)"
    if "n \<le> 100" for n
    using that by (intro sint_word_of_int_range) auto
  from this [OF effective_max_bounds(1), of mode lim]
  show ?thesis by (simp add: safety_clamp_torque_def sint_effective_max)
qed

end
