(* ===== verification/Bms.thy ===== *)
theory Bms
  imports Protocol
begin

text \<open>
  \<^verbatim>\<open>state_tests/src/bms.rs\<close>: the battery management state machine and the torque limit it
  publishes. \<open>bms_update\<close> records a sensor sample and re-evaluates the state; \<open>limits_compute\<close>
  turns the state into a torque limit and a reason code.
\<close>

record bms_state_machine =
  sm_state :: bms_state
  sm_temp_c_x10 :: i16
  sm_voltage_mv :: u16
  sm_current_ma :: i16
  sm_soc_percent :: u8
  sm_fault_code :: bms_fault_code
  sm_charger_plugged :: bool

definition bms_default :: bms_state_machine where
  "bms_default =
     \<lparr>sm_state = BmsOk, sm_temp_c_x10 = 250, sm_voltage_mv = 48000, sm_current_ma = 0,
      sm_soc_percent = 80, sm_fault_code = FaultNone, sm_charger_plugged = False\<rparr>"

definition determine_fault_code :: "bms_state_machine \<Rightarrow> bms_fault_code" where
  "determine_fault_code s = (case sm_state s of CriticalFault \<Rightarrow> Overtemp | _ \<Rightarrow> FaultNone)"

definition bms_update ::
  "bms_state_machine \<Rightarrow> i16 \<Rightarrow> u16 \<Rightarrow> i16 \<Rightarrow> u8 \<Rightarrow> bms_state \<times> bms_state_machine" where
  "bms_update s temp_c_x10 voltage_mv current_ma soc_percent =
     (let s = s\<lparr>sm_temp_c_x10 := temp_c_x10, sm_voltage_mv := voltage_mv,
                sm_current_ma := current_ma, sm_soc_percent := soc_percent\<rparr>;
          s = s\<lparr>sm_state := bms_determine_state temp_c_x10\<rparr>;
          s = s\<lparr>sm_fault_code := determine_fault_code s\<rparr>
      in (sm_state s, s))"

definition is_fault :: "bms_state_machine \<Rightarrow> bool" where
  "is_fault s \<longleftrightarrow> sm_state s = CriticalFault"

definition is_limp :: "bms_state_machine \<Rightarrow> bool" where
  "is_limp s \<longleftrightarrow> sm_state s = LimpRequest"

record bms_limits =
  lim_max_torque_percent :: u8
  lim_reason :: u8

definition limits_default :: bms_limits where
  "limits_default = \<lparr>lim_max_torque_percent = 255, lim_reason = 0\<rparr>"

definition limits_compute :: "bms_limits \<Rightarrow> bms_state \<Rightarrow> u8 \<times> bms_limits" where
  "limits_compute l bms_state =
     (let l = (case bms_state of
                 BmsOk \<Rightarrow> l\<lparr>lim_max_torque_percent := 255, lim_reason := 0\<rparr>
               | WarnHot \<Rightarrow> l\<lparr>lim_max_torque_percent := 255, lim_reason := 1\<rparr>
               | LimpRequest \<Rightarrow>
                   l\<lparr>lim_max_torque_percent := MC_TORQUE_LIMP_MAX_PERCENT, lim_reason := 2\<rparr>
               | CriticalFault \<Rightarrow>
                   l\<lparr>lim_max_torque_percent := MC_TORQUE_FAULT_MAX_PERCENT, lim_reason := 3\<rparr>)
      in (lim_max_torque_percent l, l))"

subsection \<open>The invariant of the state machine\<close>

text \<open>
  State and fault code are functions of the last temperature sample: the machine has no memory
  beyond it. The default value satisfies this too (25.0 degrees).
\<close>

definition bms_inv :: "bms_state_machine \<Rightarrow> bool" where
  "bms_inv s \<longleftrightarrow> sm_state s = bms_determine_state (sm_temp_c_x10 s)
     \<and> sm_fault_code s = (if is_fault s then Overtemp else FaultNone)"

lemma bms_inv_default: "bms_inv bms_default"
  by (simp add: bms_inv_def bms_default_def is_fault_def bms_determine_state_tenths)

lemma bms_update_inv: "bms_inv (snd (bms_update s t v c soc))"
  by (auto simp: bms_inv_def bms_update_def determine_fault_code_def is_fault_def Let_def
      split: bms_state.splits)

lemma bms_update_state [simp]:
  "fst (bms_update s t v c soc) = bms_determine_state t"
  "sm_state (snd (bms_update s t v c soc)) = bms_determine_state t"
  "sm_temp_c_x10 (snd (bms_update s t v c soc)) = t"
  "sm_charger_plugged (snd (bms_update s t v c soc)) = sm_charger_plugged s"
  by (simp_all add: bms_update_def Let_def)

lemma limits_compute_fst: "fst (limits_compute l st) = lim_max_torque_percent (snd (limits_compute l st))"
  by (simp add: limits_compute_def Let_def)

lemma limits_compute_value:
  "unat (fst (limits_compute l st)) =
     (case st of BmsOk \<Rightarrow> 255 | WarnHot \<Rightarrow> 255 | LimpRequest \<Rightarrow> 25 | CriticalFault \<Rightarrow> 0)"
  by (cases st) (simp_all add: limits_compute_def mc_mode)

text \<open>Hotter packs never get a larger limit.\<close>

lemma limits_antimono:
  assumes "sint t \<le> sint t'"
  shows "unat (fst (limits_compute l' (bms_determine_state t')))
       \<le> unat (fst (limits_compute l (bms_determine_state t)))"
  using assms by (simp add: limits_compute_value bms_determine_state_tenths)

end
