(* ===== verification/Alarm_Table.thy ===== *)
theory Alarm_Table
  imports Prelude
begin

text \<open>
  The list-with-active-flag table that the gateway's fault manager and the dashboard's warning
  list both are: entries are looked up by key with a loop that returns at the first match, a
  missing key is pushed at the end, and entries are switched off but never removed. The loops
  are the two functions below; the locale is the contract both tables meet and the lemmas it
  gives are interpreted once for each of them.
\<close>

text \<open>\<open>for e in &mut v { if p(e) { *e = f(e); return; } }\<close>\<close>

fun update_first :: "('e \<Rightarrow> bool) \<Rightarrow> ('e \<Rightarrow> 'e) \<Rightarrow> 'e list \<Rightarrow> 'e list" where
  "update_first p f [] = []"
| "update_first p f (e # es) = (if p e then f e # es else e # update_first p f es)"

text \<open>The same loop followed by \<open>v.push(x)\<close> when nothing matched.\<close>

definition upsert :: "('e \<Rightarrow> bool) \<Rightarrow> ('e \<Rightarrow> 'e) \<Rightarrow> 'e \<Rightarrow> 'e list \<Rightarrow> 'e list" where
  "upsert p f x es = (if list_ex p es then update_first p f es else es @ [x])"

subsection \<open>The two loops\<close>

lemma update_first_none: "\<forall>e\<in>set es. \<not> p e \<Longrightarrow> update_first p f es = es"
  by (induction es) auto

lemma update_first_split:
  "\<forall>e\<in>set as. \<not> p e \<Longrightarrow> p e \<Longrightarrow> update_first p f (as @ e # bs) = as @ f e # bs"
  by (induction as) auto

lemma find_split: "\<forall>e\<in>set as. \<not> p e \<Longrightarrow> p e \<Longrightarrow> find p (as @ e # bs) = Some e"
  by (induction as) auto

lemma update_first_cases:
  obtains (none) "\<forall>e\<in>set es. \<not> p e" "update_first p f es = es"
  | (hit) as e bs where "es = as @ e # bs" "\<forall>a\<in>set as. \<not> p a" "p e"
      "update_first p f es = as @ f e # bs" "find p es = Some e"
proof (cases "\<exists>e\<in>set es. p e")
  case True
  then obtain as e bs where "es = as @ e # bs" "p e" "\<forall>a\<in>set as. \<not> p a"
    using split_list_first_prop_iff [of es p] by blast
  moreover from this have "find p es = Some e" by (simp add: find_split)
  ultimately show ?thesis using hit by (simp add: update_first_split)
next
  case False
  then show ?thesis using none by (simp add: update_first_none)
qed

lemma map_update_first: "(\<And>e. g (f e) = g e) \<Longrightarrow> map g (update_first p f es) = map g es"
  by (induction es) auto

lemma length_update_first [simp]: "length (update_first p f es) = length es"
  by (induction es) auto

lemma update_first_distinct:
  "distinct (map g es) \<Longrightarrow> update_first (\<lambda>e. g e = k) f es = map (\<lambda>e. if g e = k then f e else e) es"
proof (induction es)
  case (Cons e es)
  then have "map (\<lambda>e'. if g e' = g e then f e' else e') es = es"
    by (intro map_idI) (auto simp: image_iff)
  with Cons show ?case by auto
qed simp

subsection \<open>The contract\<close>

locale alarm_table =
  fixes key :: "'e \<Rightarrow> 'k"
    and active :: "'e \<Rightarrow> bool"
    and activate :: "'e \<Rightarrow> 'e"
    and deactivate :: "'e \<Rightarrow> 'e"
  assumes key_activate [simp]: "key (activate e) = key e"
    and active_activate [simp]: "active (activate e)"
    and key_deactivate [simp]: "key (deactivate e) = key e"
    and active_deactivate [simp]: "\<not> active (deactivate e)"
begin

definition active_keys :: "'e list \<Rightarrow> 'k set" where
  "active_keys es = key ` {e \<in> set es. active e}"

lemma active_keys_simps [simp]:
  "active_keys [] = {}"
  "active_keys (e # es) = (if active e then insert (key e) (active_keys es) else active_keys es)"
  "active_keys (as @ bs) = active_keys as \<union> active_keys bs"
  by (auto simp: active_keys_def)

lemma active_keys_subset: "active_keys es \<subseteq> key ` set es"
  by (auto simp: active_keys_def)

lemma distinct_raise:
  assumes "distinct (map key es)" "key x = k"
  shows "distinct (map key (upsert (\<lambda>e. key e = k) activate x es))"
  using assms by (auto simp: upsert_def map_update_first list_ex_iff)

lemma active_keys_raise:
  assumes "key x = k" "active x"
  shows "active_keys (upsert (\<lambda>e. key e = k) activate x es) = insert k (active_keys es)"
proof (cases "list_ex (\<lambda>e. key e = k) es")
  case True
  then have "active_keys (update_first (\<lambda>e. key e = k) activate es) = insert k (active_keys es)"
    by (induction es) auto
  with True show ?thesis by (simp add: upsert_def)
next
  case False
  with assms show ?thesis by (simp add: upsert_def)
qed

lemma active_keys_silence:
  "active_keys (map (\<lambda>e. if key e \<in> K then deactivate e else e) es) = active_keys es - K"
  by (induction es) auto

lemma active_keys_clear_first:
  assumes "distinct (map key es)"
  shows "active_keys (update_first (\<lambda>e. key e = k \<and> active e) deactivate es) = active_keys es - {k}"
  using assms
proof (induction es)
  case (Cons e es)
  then have "key e \<notin> active_keys es" using active_keys_subset [of es] by auto
  with Cons show ?case by auto
qed simp

lemma map_key_silence:
  "map key (map (\<lambda>e. if key e \<in> K then deactivate e else e) es) = map key es"
  by (induction es) auto

end

end
