(* ===== verification/Gateway.thy ===== *)
theory Gateway
  imports Protocol Alarm_Table
begin

text \<open>
  \<^verbatim>\<open>state_tests/src/gateway.rs\<close>: the vehicle-mode authority. Three independent parts: the mode
  state machine (\<open>gateway_update\<close>, \<open>enter_drive\<close>, \<open>gateway_reboot\<close>), the heartbeat
  monitor (\<open>hb_register\<close>, \<open>hb_beat\<close>, \<open>hb_check\<close>) and the fault manager
  (\<open>fault_report\<close>, \<open>fault_clear\<close>). Elapsed times and fault counters are checked
  integers, so the operations that use them return \<open>None\<close> where the code would panic.
\<close>

subsection \<open>Gateway state machine\<close>

record gateway_state =
  gs_mode :: vehicle_mode
  gs_all_nodes_online :: bool
  gs_bms_fault_active :: bool
  gs_bms_limp_requested :: bool
  gs_active_fault_count :: u8

definition gateway_default :: gateway_state where
  "gateway_default =
     \<lparr>gs_mode = Off, gs_all_nodes_online = False, gs_bms_fault_active = False,
      gs_bms_limp_requested = False, gs_active_fault_count = 0\<rparr>"

definition determine_mode :: "vehicle_mode \<Rightarrow> bool \<Rightarrow> bool \<Rightarrow> bool \<Rightarrow> vehicle_mode" where
  "determine_mode current all_nodes_online bms_fault_active bms_limp_requested =
     (if current = Fault then Fault
      else if bms_fault_active then Fault
      else if current = Charging then Charging
      else if bms_limp_requested then Limp
      else (case current of
              Off \<Rightarrow> if all_nodes_online then Ready else Off
            | Ready \<Rightarrow> if \<not> all_nodes_online then Off else Ready
            | Drive \<Rightarrow> if \<not> all_nodes_online then Ready else Drive
            | Limp \<Rightarrow> if all_nodes_online then Ready else Off
            | _ \<Rightarrow> Off))"

definition gateway_update ::
  "gateway_state \<Rightarrow> bool \<Rightarrow> bool \<Rightarrow> bool \<Rightarrow> u8 \<Rightarrow> vehicle_mode \<times> gateway_state" where
  "gateway_update s all_nodes_online bms_fault_active bms_limp_requested fault_count =
     (let s = s\<lparr>gs_all_nodes_online := all_nodes_online, gs_bms_fault_active := bms_fault_active,
                gs_bms_limp_requested := bms_limp_requested, gs_active_fault_count := fault_count\<rparr>;
          s = s\<lparr>gs_mode := determine_mode (gs_mode s) all_nodes_online bms_fault_active bms_limp_requested\<rparr>
      in (gs_mode s, s))"

definition enter_drive :: "gateway_state \<Rightarrow> gateway_state" where
  "enter_drive s = (if gs_mode s = Ready then s\<lparr>gs_mode := Drive\<rparr> else s)"

definition gateway_reboot :: "gateway_state \<Rightarrow> gateway_state" where
  "gateway_reboot s = gateway_default"

subsection \<open>Heartbeat monitor\<close>

record heartbeat_node =
  hn_node_id :: u8
  hn_online :: bool
  hn_last_beat_ms :: u32
  hn_timeout_ms :: u32

record heartbeat_monitor =
  hb_nodes :: "heartbeat_node list"

definition hb_new :: heartbeat_monitor where
  "hb_new = \<lparr>hb_nodes = []\<rparr>"

definition hb_register :: "heartbeat_monitor \<Rightarrow> u8 \<Rightarrow> u32 \<Rightarrow> heartbeat_monitor" where
  "hb_register m node_id timeout_ms =
     m\<lparr>hb_nodes := hb_nodes m @ [\<lparr>hn_node_id = node_id, hn_online = False,
                                   hn_last_beat_ms = 0, hn_timeout_ms = timeout_ms\<rparr>]\<rparr>"

definition hb_beat :: "heartbeat_monitor \<Rightarrow> u8 \<Rightarrow> u32 \<Rightarrow> heartbeat_monitor" where
  "hb_beat m node_id now_ms =
     m\<lparr>hb_nodes := update_first (\<lambda>n. hn_node_id n = node_id)
                     (\<lambda>n. n\<lparr>hn_last_beat_ms := now_ms, hn_online := True\<rparr>) (hb_nodes m)\<rparr>"

definition hb_expired :: "u32 \<Rightarrow> heartbeat_node \<Rightarrow> bool option" where
  "hb_expired now_ms n =
     (if hn_online n
      then do { elapsed \<leftarrow> usub now_ms (hn_last_beat_ms n); Some (elapsed \<ge> hn_timeout_ms n) }
      else Some False)"

fun check_nodes :: "u32 \<Rightarrow> heartbeat_node list \<Rightarrow> (nat \<times> heartbeat_node list) option" where
  "check_nodes now_ms [] = Some (0, [])"
| "check_nodes now_ms (n # ns) =
     do { expired \<leftarrow> hb_expired now_ms n;
          (transitions, ns') \<leftarrow> check_nodes now_ms ns;
          Some (if expired then (Suc transitions, n\<lparr>hn_online := False\<rparr> # ns')
                else (transitions, n # ns')) }"

definition hb_check :: "heartbeat_monitor \<Rightarrow> u32 \<Rightarrow> (nat \<times> heartbeat_monitor) option" where
  "hb_check m now_ms =
     do { (transitions, ns) \<leftarrow> check_nodes now_ms (hb_nodes m);
          Some (transitions, m\<lparr>hb_nodes := ns\<rparr>) }"

definition all_online :: "heartbeat_monitor \<Rightarrow> bool" where
  "all_online m = (if hb_nodes m = [] then False else list_all hn_online (hb_nodes m))"

definition is_online :: "heartbeat_monitor \<Rightarrow> u8 \<Rightarrow> bool" where
  "is_online m node_id = list_ex (\<lambda>n. hn_node_id n = node_id \<and> hn_online n) (hb_nodes m)"

subsection \<open>Fault manager\<close>

record fault_entry =
  fe_source_node :: u8
  fe_fault_code :: u8
  fe_active :: bool
  fe_severity :: u8

record fault_manager =
  fm_faults :: "fault_entry list"
  fm_critical_count :: u8
  fm_warning_count :: u8

definition fm_new :: fault_manager where
  "fm_new = \<lparr>fm_faults = [], fm_critical_count = 0, fm_warning_count = 0\<rparr>"

definition count_up :: "fault_manager \<Rightarrow> u8 \<Rightarrow> fault_manager option" where
  "count_up m severity =
     (if severity = 2 then do { c \<leftarrow> uadd (fm_critical_count m) 1; Some (m\<lparr>fm_critical_count := c\<rparr>) }
      else if severity = 1 then do { c \<leftarrow> uadd (fm_warning_count m) 1; Some (m\<lparr>fm_warning_count := c\<rparr>) }
      else Some m)"

definition count_down :: "fault_manager \<Rightarrow> u8 \<Rightarrow> fault_manager option" where
  "count_down m severity =
     (if severity = 2 then do { c \<leftarrow> usub (fm_critical_count m) 1; Some (m\<lparr>fm_critical_count := c\<rparr>) }
      else if severity = 1 then do { c \<leftarrow> usub (fm_warning_count m) 1; Some (m\<lparr>fm_warning_count := c\<rparr>) }
      else Some m)"

definition fault_key :: "fault_entry \<Rightarrow> u8 \<times> u8" where
  "fault_key f = (fe_source_node f, fe_fault_code f)"

definition fault_report :: "fault_manager \<Rightarrow> u8 \<Rightarrow> u8 \<Rightarrow> u8 \<Rightarrow> fault_manager option" where
  "fault_report m source code severity =
     (case find (\<lambda>f. fault_key f = (source, code)) (fm_faults m) of
        Some f \<Rightarrow>
          do { m \<leftarrow> (if \<not> fe_active f then count_up m severity else Some m);
               Some (m\<lparr>fm_faults := update_first (\<lambda>f. fault_key f = (source, code))
                         (\<lambda>f. f\<lparr>fe_active := True, fe_severity := severity\<rparr>) (fm_faults m)\<rparr>) }
      | None \<Rightarrow>
          count_up (m\<lparr>fm_faults := fm_faults m @ [\<lparr>fe_source_node = source, fe_fault_code = code,
                                                     fe_active = True, fe_severity = severity\<rparr>]\<rparr>) severity)"

definition fault_clear :: "fault_manager \<Rightarrow> u8 \<Rightarrow> u8 \<Rightarrow> fault_manager option" where
  "fault_clear m source code =
     (case find (\<lambda>f. fault_key f = (source, code) \<and> fe_active f) (fm_faults m) of
        Some f \<Rightarrow>
          do { m \<leftarrow> count_down m (fe_severity f);
               Some (m\<lparr>fm_faults := update_first (\<lambda>f. fault_key f = (source, code) \<and> fe_active f)
                         (\<lambda>f. f\<lparr>fe_active := False\<rparr>) (fm_faults m)\<rparr>) }
      | None \<Rightarrow> Some m)"

definition has_critical :: "fault_manager \<Rightarrow> bool" where
  "has_critical m \<longleftrightarrow> fm_critical_count m > 0"

definition active_count :: "fault_manager \<Rightarrow> u8" where
  "active_count m = of_nat (length (filter fe_active (fm_faults m)))"

subsection \<open>Mode machine: runs and reachable states\<close>

datatype gw_op = Update bool bool bool u8 | EnterDrive | Reboot

fun gw_step :: "gateway_state \<Rightarrow> gw_op \<Rightarrow> gateway_state" where
  "gw_step s (Update online fault limp n) = snd (gateway_update s online fault limp n)"
| "gw_step s EnterDrive = enter_drive s"
| "gw_step s Reboot = gateway_reboot s"

fun gw_run :: "gateway_state \<Rightarrow> gw_op list \<Rightarrow> gateway_state" where
  "gw_run s [] = s"
| "gw_run s (op # ops) = gw_run (gw_step s op) ops"

inductive gw_reachable :: "gateway_state \<Rightarrow> bool" where
  init: "gw_reachable gateway_default"
| step: "gw_reachable s \<Longrightarrow> gw_reachable (gw_step s op)"

lemma gateway_update_simps [simp]:
  "fst (gateway_update s online fault limp n) = determine_mode (gs_mode s) online fault limp"
  "gs_mode (snd (gateway_update s online fault limp n)) = determine_mode (gs_mode s) online fault limp"
  "gs_bms_fault_active (snd (gateway_update s online fault limp n)) = fault"
  "gs_all_nodes_online (snd (gateway_update s online fault limp n)) = online"
  "gs_bms_limp_requested (snd (gateway_update s online fault limp n)) = limp"
  by (simp_all add: gateway_update_def Let_def)

lemma gw_run_append: "gw_run s (as @ bs) = gw_run (gw_run s as) bs"
  by (induction as arbitrary: s) simp_all

lemma gw_run_reachable: "gw_reachable s \<Longrightarrow> gw_reachable (gw_run s ops)"
  by (induction ops arbitrary: s) (auto intro: gw_reachable.step)

lemma determine_mode_fault [mc_mode]:
  "determine_mode Fault online fault limp = Fault"
  "determine_mode m online True limp = Fault"
  by (simp_all add: determine_mode_def)

lemma determine_mode_Fault_iff [mc_mode]:
  "determine_mode m online fault limp = Fault \<longleftrightarrow> m = Fault \<or> fault"
  by (cases m) (auto simp: determine_mode_def)

lemma determine_mode_Drive_iff [mc_mode]:
  "determine_mode m online fault limp = Drive \<longleftrightarrow> m = Drive \<and> online \<and> \<not> fault \<and> \<not> limp"
  by (cases m) (auto simp: determine_mode_def)

lemma determine_mode_Charging_iff [mc_mode]:
  "determine_mode m online fault limp = Charging \<longleftrightarrow> m = Charging \<and> \<not> fault"
  by (cases m) (auto simp: determine_mode_def)

lemma determine_mode_Limp_iff [mc_mode]:
  "determine_mode m online fault limp = Limp \<longleftrightarrow> limp \<and> \<not> fault \<and> m \<noteq> Fault \<and> m \<noteq> Charging"
  by (cases m) (auto simp: determine_mode_def)

text \<open>
  What the last inputs say about the mode of a reachable state: the recorded inputs and the mode
  agree, and the mirror never enters \<open>Charging\<close> (no operation of the Rust model sets it).
\<close>

definition gw_inv :: "gateway_state \<Rightarrow> bool" where
  "gw_inv s \<longleftrightarrow> (gs_bms_fault_active s \<longrightarrow> gs_mode s = Fault)
     \<and> (gs_bms_limp_requested s \<longrightarrow> gs_mode s \<in> {Limp, Fault})
     \<and> gs_mode s \<noteq> Charging"

lemma gw_inv_default: "gw_inv gateway_default"
  by (simp add: gw_inv_def gateway_default_def)

lemma gw_inv_step: "gw_inv s \<Longrightarrow> gw_inv (gw_step s op)"
  by (cases op)
    (auto simp: gw_inv_def enter_drive_def gateway_reboot_def gateway_default_def mc_mode)

lemma gw_reachable_inv: "gw_reachable s \<Longrightarrow> gw_inv s"
  by (induction rule: gw_reachable.induct) (auto intro: gw_inv_default gw_inv_step)

text \<open>The operations since the last reboot of a run, and whether one reports a critical fault.\<close>

definition since_reboot :: "gw_op list \<Rightarrow> gw_op list" where
  "since_reboot ops = rev (takeWhile (\<lambda>op. op \<noteq> Reboot) (rev ops))"

fun reports_fault :: "gw_op \<Rightarrow> bool" where
  "reports_fault (Update _ fault _ _) = fault"
| "reports_fault _ = False"

lemma since_reboot_snoc:
  "since_reboot [] = []"
  "since_reboot (ops @ [op]) = (if op = Reboot then [] else since_reboot ops @ [op])"
  by (simp_all add: since_reboot_def)

lemma gw_step_Fault_iff:
  "gs_mode (gw_step s op) = Fault \<longleftrightarrow> op \<noteq> Reboot \<and> (gs_mode s = Fault \<or> reports_fault op)"
  by (cases op) (auto simp: mc_mode enter_drive_def gateway_reboot_def gateway_default_def)

lemma gw_run_Fault_iff:
  "gs_mode (gw_run gateway_default ops) = Fault \<longleftrightarrow> (\<exists>op\<in>set (since_reboot ops). reports_fault op)"
proof (induction ops rule: rev_induct)
  case Nil
  show ?case by (simp add: since_reboot_snoc gateway_default_def)
next
  case (snoc op ops)
  then show ?case by (auto simp: gw_run_append gw_step_Fault_iff since_reboot_snoc)
qed

subsection \<open>Heartbeat monitor: runs and the abstract log\<close>

datatype hb_op = Beat u8 u32 | Check u32

fun hb_step :: "heartbeat_monitor \<Rightarrow> hb_op \<Rightarrow> heartbeat_monitor option" where
  "hb_step m (Beat i t) = Some (hb_beat m i t)"
| "hb_step m (Check t) = map_option snd (hb_check m t)"

fun hb_run :: "heartbeat_monitor \<Rightarrow> hb_op list \<Rightarrow> heartbeat_monitor option" where
  "hb_run m [] = Some m"
| "hb_run m (op # ops) = do { m' \<leftarrow> hb_step m op; hb_run m' ops }"

fun op_time :: "hb_op \<Rightarrow> u32" where
  "op_time (Beat _ t) = t"
| "op_time (Check t) = t"

text \<open>The abstract monitor: the time of a node's last beat in the log of operations.\<close>

fun last_beat :: "hb_op list \<Rightarrow> u8 \<Rightarrow> u32 option" where
  "last_beat [] i = None"
| "last_beat (Beat j t # ops) i =
     (case last_beat ops i of Some t' \<Rightarrow> Some t' | None \<Rightarrow> if i = j then Some t else None)"
| "last_beat (Check t # ops) i = last_beat ops i"

definition hb_registered :: "(u8 \<times> u32) list \<Rightarrow> heartbeat_monitor" where
  "hb_registered cfg = fold (\<lambda>(i, t) m. hb_register m i t) cfg hb_new"

lemma last_beat_snoc [simp]:
  "last_beat (ops @ [Beat j t]) i = (if i = j then Some t else last_beat ops i)"
  "last_beat (ops @ [Check t]) i = last_beat ops i"
  by (induction ops i rule: last_beat.induct) (auto split: option.splits)

lemma last_beat_Beat:
  "last_beat (ops @ [Beat j t]) = (\<lambda>i. if i = j then Some t else last_beat ops i)"
  by (rule ext) simp

lemma last_beat_Check: "last_beat (ops @ [Check t]) = last_beat ops"
  by (rule ext) simp

lemma hb_run_append: "hb_run m (as @ bs) = hb_run m as \<bind> (\<lambda>m'. hb_run m' bs)"
  by (induction as arbitrary: m) (auto split: Option.bind_splits)

text \<open>
  The coupling between a node and the log at the current time: an online node carries its last
  beat; an offline node never beat or has been silent for its timeout.
\<close>

definition node_ok :: "(u8 \<Rightarrow> u32 option) \<Rightarrow> u32 \<Rightarrow> heartbeat_node \<Rightarrow> bool" where
  "node_ok lb now n \<longleftrightarrow>
     (if hn_online n then lb (hn_node_id n) = Some (hn_last_beat_ms n) \<and> hn_last_beat_ms n \<le> now
      else lb (hn_node_id n) = None
         \<or> (\<exists>t. lb (hn_node_id n) = Some t \<and> t \<le> now \<and> hn_timeout_ms n \<le> now - t))"

definition cfg_of :: "heartbeat_monitor \<Rightarrow> (u8 \<times> u32) list" where
  "cfg_of m = map (\<lambda>n. (hn_node_id n, hn_timeout_ms n)) (hb_nodes m)"

definition hb_coupled :: "heartbeat_monitor \<Rightarrow> (u8 \<Rightarrow> u32 option) \<Rightarrow> u32 \<Rightarrow> bool" where
  "hb_coupled m lb now \<longleftrightarrow> (\<forall>n\<in>set (hb_nodes m). node_ok lb now n)"

lemma hb_nodes_registered:
  "hb_nodes (hb_registered cfg) =
     map (\<lambda>(i, t). \<lparr>hn_node_id = i, hn_online = False, hn_last_beat_ms = 0, hn_timeout_ms = t\<rparr>) cfg"
proof -
  have "hb_nodes (fold (\<lambda>(i, t) m. hb_register m i t) cfg m) = hb_nodes m @
     map (\<lambda>(i, t). \<lparr>hn_node_id = i, hn_online = False, hn_last_beat_ms = 0, hn_timeout_ms = t\<rparr>) cfg"
    for m by (induction cfg arbitrary: m) (auto simp: hb_register_def)
  from this [of hb_new] show ?thesis by (simp add: hb_registered_def hb_new_def)
qed

lemma cfg_of_registered: "cfg_of (hb_registered cfg) = cfg"
  by (simp add: cfg_of_def hb_nodes_registered comp_def case_prod_beta)

lemma hb_coupled_registered: "hb_coupled (hb_registered cfg) (\<lambda>i. None) now"
  by (auto simp: hb_coupled_def node_ok_def hb_nodes_registered)

lemma sub_mono_u32: "t \<le> now \<Longrightarrow> now \<le> later \<Longrightarrow> d \<le> now - t \<Longrightarrow> d \<le> later - t"
  for t now later d :: u32
  by (simp add: word_le_nat_alt unat_sub)

lemma node_ok_later: "node_ok lb now n \<Longrightarrow> now \<le> later \<Longrightarrow> node_ok lb later n"
  unfolding node_ok_def by (auto split: if_splits intro: sub_mono_u32 order_trans)

lemma hb_coupled_later: "hb_coupled m lb now \<Longrightarrow> now \<le> later \<Longrightarrow> hb_coupled m lb later"
  by (auto simp: hb_coupled_def intro: node_ok_later)

abbreviation hb_ids :: "heartbeat_monitor \<Rightarrow> u8 list" where
  "hb_ids m \<equiv> map hn_node_id (hb_nodes m)"

lemma hb_beat_nodes:
  "distinct (hb_ids m) \<Longrightarrow> hb_nodes (hb_beat m i t) =
     map (\<lambda>n. if hn_node_id n = i then n\<lparr>hn_last_beat_ms := t, hn_online := True\<rparr> else n) (hb_nodes m)"
  by (simp add: hb_beat_def update_first_distinct)

lemma hb_beat_frame [simp]: "cfg_of (hb_beat m i t) = cfg_of m" "hb_ids (hb_beat m i t) = hb_ids m"
  by (simp_all add: cfg_of_def hb_beat_def map_update_first)

lemma hb_coupled_beat:
  assumes "hb_coupled m lb now" "now \<le> t" "distinct (hb_ids m)"
  shows "hb_coupled (hb_beat m i t) (\<lambda>j. if j = i then Some t else lb j) t"
proof -
  have "node_ok lb t n" if "n \<in> set (hb_nodes m)" for n
    using assms(1,2) that by (auto simp: hb_coupled_def intro: node_ok_later)
  then have "node_ok (\<lambda>j. if j = i then Some t else lb j) t
      (if hn_node_id n = i then n\<lparr>hn_last_beat_ms := t, hn_online := True\<rparr> else n)"
    if "n \<in> set (hb_nodes m)" for n
    using that by (cases "hn_node_id n = i") (simp_all add: node_ok_def)
  then show ?thesis
    by (simp only: hb_coupled_def hb_beat_nodes [OF assms(3)] set_map ball_simps) blast
qed

text \<open>The nodes a check at \<open>now\<close> takes offline.\<close>

definition hb_dead :: "u32 \<Rightarrow> heartbeat_node \<Rightarrow> bool" where
  "hb_dead now n \<longleftrightarrow> hn_online n \<and> hn_timeout_ms n \<le> now - hn_last_beat_ms n"

lemma check_nodes_value:
  "\<forall>n\<in>set ns. hn_online n \<longrightarrow> hn_last_beat_ms n \<le> now \<Longrightarrow>
   check_nodes now ns = Some (length (filter (hb_dead now) ns),
     map (\<lambda>n. if hb_dead now n then n\<lparr>hn_online := False\<rparr> else n) ns)"
  by (induction ns) (auto simp: hb_expired_def hb_dead_def usub_def)

lemma hb_check_value:
  assumes "hb_coupled m lb now"
  shows "hb_check m now = Some (length (filter (hb_dead now) (hb_nodes m)),
     m\<lparr>hb_nodes := map (\<lambda>n. if hb_dead now n then n\<lparr>hn_online := False\<rparr> else n) (hb_nodes m)\<rparr>)"
proof -
  have "\<forall>n\<in>set (hb_nodes m). hn_online n \<longrightarrow> hn_last_beat_ms n \<le> now"
    using assms by (auto simp: hb_coupled_def node_ok_def split: if_splits)
  then show ?thesis by (simp add: hb_check_def check_nodes_value)
qed

lemma node_ok_check:
  "node_ok lb now n \<Longrightarrow> node_ok lb now (if hb_dead now n then n\<lparr>hn_online := False\<rparr> else n)"
  by (auto simp: node_ok_def hb_dead_def split: if_splits)

lemma hb_check_coupled:
  assumes "hb_coupled m lb now"
  shows "\<exists>k m'. hb_check m now = Some (k, m') \<and> hb_coupled m' lb now \<and> cfg_of m' = cfg_of m
           \<and> hb_ids m' = hb_ids m
           \<and> (\<forall>n\<in>set (hb_nodes m'). hn_online n \<longrightarrow> now - hn_last_beat_ms n < hn_timeout_ms n)"
  using assms node_ok_check
  by (auto simp: hb_check_value cfg_of_def comp_def hb_coupled_def if_distrib hb_dead_def not_le
      cong: if_cong)

text \<open>Every run with a non-decreasing clock keeps the coupling, and no check in it panics.\<close>

definition hb_clock_ok :: "hb_op list \<Rightarrow> bool" where
  "hb_clock_ok ops \<longleftrightarrow> sorted (map op_time ops)"

definition clock_of :: "hb_op list \<Rightarrow> u32" where
  "clock_of ops = (if ops = [] then 0 else op_time (last ops))"

lemma hb_clock_snoc:
  "hb_clock_ok (ops @ [op]) \<Longrightarrow> hb_clock_ok ops \<and> clock_of ops \<le> op_time op"
  by (cases ops rule: rev_cases) (auto simp: hb_clock_ok_def clock_of_def sorted_append)

lemma hb_run_coupled:
  assumes "distinct (map fst cfg)" "hb_clock_ok ops"
  shows "\<exists>m. hb_run (hb_registered cfg) ops = Some m \<and> cfg_of m = cfg
     \<and> hb_coupled m (last_beat ops) (clock_of ops) \<and> hb_ids m = map fst cfg"
  using assms(2)
proof (induction ops rule: rev_induct)
  case Nil
  then show ?case
    using hb_coupled_registered [of cfg 0]
    by (simp add: cfg_of_registered clock_of_def hb_nodes_registered comp_def case_prod_beta)
next
  case (snoc op ops)
  then obtain m where m: "hb_run (hb_registered cfg) ops = Some m" "cfg_of m = cfg"
      "hb_coupled m (last_beat ops) (op_time op)" "hb_ids m = map fst cfg"
    using hb_clock_snoc hb_coupled_later by blast
  have ck: "clock_of (ops @ [op]) = op_time op" by (simp add: clock_of_def)
  show ?case
  proof (cases op)
    case (Beat i t)
    with m assms(1) have "hb_coupled (hb_beat m i t) (last_beat (ops @ [op])) t"
      using hb_coupled_beat [OF m(3), of t i] by (simp add: last_beat_Beat)
    with m ck Beat show ?thesis by (simp add: hb_run_append last_beat_Beat)
  next
    case (Check t)
    with m obtain k m' where "hb_check m t = Some (k, m')" "hb_coupled m' (last_beat ops) t"
        "cfg_of m' = cfg_of m" "hb_ids m' = hb_ids m"
      using hb_check_coupled [of m "last_beat ops" t] by auto
    with m ck Check show ?thesis by (simp add: hb_run_append last_beat_Check)
  qed
qed

lemma hb_run_then_check:
  assumes "distinct (map fst cfg)" "hb_clock_ok (ops @ [Check now])" "(i, timeout) \<in> set cfg"
  shows "\<exists>m. hb_run (hb_registered cfg) (ops @ [Check now]) = Some m
     \<and> (is_online m i \<longleftrightarrow> (\<exists>t. last_beat ops i = Some t \<and> now - t < timeout))"
proof -
  obtain m where m: "hb_run (hb_registered cfg) ops = Some m" "cfg_of m = cfg"
      "hb_coupled m (last_beat ops) now" "hb_ids m = map fst cfg"
    using hb_run_coupled [OF assms(1), of ops] hb_clock_snoc [OF assms(2)] hb_coupled_later
    by fastforce
  obtain k m' where m': "hb_check m now = Some (k, m')" "hb_coupled m' (last_beat ops) now"
      "cfg_of m' = cfg" "hb_ids m' = map fst cfg"
      "\<forall>n\<in>set (hb_nodes m'). hn_online n \<longrightarrow> now - hn_last_beat_ms n < hn_timeout_ms n"
    using hb_check_coupled [OF m(3)] m by auto
  obtain n where n: "n \<in> set (hb_nodes m')" "hn_node_id n = i" "hn_timeout_ms n = timeout"
    using assms(3) m'(3) by (auto simp: cfg_of_def)
  have "inj_on hn_node_id (set (hb_nodes m'))"
    using assms(1) m'(4) by (metis distinct_map)
  then have "is_online m' i \<longleftrightarrow> hn_online n"
    using n by (auto simp: is_online_def list_ex_iff dest: inj_onD)
  also have "\<dots> \<longleftrightarrow> (\<exists>t. last_beat ops i = Some t \<and> now - t < timeout)"
    using n m'(2,5) by (fastforce simp: hb_coupled_def node_ok_def split: if_splits)
  finally show ?thesis using m m' by (simp add: hb_run_append)
qed

text \<open>A registered node is alive when its last beat is younger than its timeout.\<close>

definition alive :: "hb_op list \<Rightarrow> u32 \<Rightarrow> u8 \<times> u32 \<Rightarrow> bool" where
  "alive ops now node \<longleftrightarrow> (\<exists>t. last_beat ops (fst node) = Some t \<and> now - t < snd node)"

lemma all_online_iff:
  assumes "distinct (map fst cfg)" "hb_clock_ok (ops @ [Check now])" "cfg \<noteq> []"
  shows "\<exists>m. hb_run (hb_registered cfg) (ops @ [Check now]) = Some m
     \<and> (all_online m \<longleftrightarrow> list_all (alive ops now) cfg)"
proof -
  obtain m where m: "hb_run (hb_registered cfg) (ops @ [Check now]) = Some m" "cfg_of m = cfg"
      "hb_ids m = map fst cfg"
    using hb_run_coupled [OF assms(1,2)] by blast
  have one: "is_online m (fst node) \<longleftrightarrow> alive ops now node" if "node \<in> set cfg" for node
    using hb_run_then_check [OF assms(1,2), of "fst node" "snd node"] that m(1)
    by (simp add: alive_def)
  have inj: "inj_on hn_node_id (set (hb_nodes m))" using assms(1) m(3) by (metis distinct_map)
  have on: "is_online m (hn_node_id n) \<longleftrightarrow> hn_online n" if "n \<in> set (hb_nodes m)" for n
    using that inj by (auto simp: is_online_def list_ex_iff dest: inj_onD)
  have cfg: "set cfg = (\<lambda>n. (hn_node_id n, hn_timeout_ms n)) ` set (hb_nodes m)"
    using m(2) by (auto simp: cfg_of_def)
  have "hb_nodes m \<noteq> []" using assms(3) m(2) by (auto simp: cfg_of_def)
  then have "all_online m \<longleftrightarrow> (\<forall>n\<in>set (hb_nodes m). is_online m (hn_node_id n))"
    using on by (auto simp: all_online_def list_all_iff)
  also have "\<dots> \<longleftrightarrow> (\<forall>node\<in>set cfg. is_online m (fst node))" unfolding cfg by simp
  also have "\<dots> \<longleftrightarrow> list_all (alive ops now) cfg" using one by (auto simp: list_all_iff)
  finally show ?thesis using m(1) by blast
qed

subsection \<open>Fault manager: the counters and the table\<close>

text \<open>The fault table meets the contract of the alarm table for every reported severity.\<close>

interpretation ft: alarm_table fault_key fe_active
  "\<lambda>f. f\<lparr>fe_active := True, fe_severity := sev\<rparr>" "\<lambda>f. f\<lparr>fe_active := False\<rparr>" for sev
  by unfold_locales (simp_all add: fault_key_def)

definition active_with :: "u8 \<Rightarrow> fault_manager \<Rightarrow> nat" where
  "active_with sev m = length (filter (\<lambda>f. fe_active f \<and> fe_severity f = sev) (fm_faults m))"

text \<open>The counters count the active entries of their severity, and no key occurs twice.\<close>

definition fm_inv :: "fault_manager \<Rightarrow> bool" where
  "fm_inv m \<longleftrightarrow> distinct (map fault_key (fm_faults m))
     \<and> unat (fm_critical_count m) = active_with 2 m \<and> unat (fm_warning_count m) = active_with 1 m"

lemma fm_inv_new: "fm_inv fm_new"
  by (simp add: fm_inv_def fm_new_def active_with_def)

lemma count_up_Some:
  "count_up m sev = Some m' \<Longrightarrow> fm_faults m' = fm_faults m
     \<and> unat (fm_critical_count m') = unat (fm_critical_count m) + (if sev = 2 then 1 else 0)
     \<and> unat (fm_warning_count m') = unat (fm_warning_count m) + (if sev = 1 then 1 else 0)"
  by (auto simp: count_up_def split: if_splits Option.bind_splits dest: uadd_Some)

lemma count_down_Some:
  "count_down m sev = Some m' \<Longrightarrow> fm_faults m' = fm_faults m
     \<and> unat (fm_critical_count m') = unat (fm_critical_count m) - (if sev = 2 then 1 else 0)
     \<and> unat (fm_warning_count m') = unat (fm_warning_count m) - (if sev = 1 then 1 else 0)"
  by (auto simp: count_down_def split: if_splits Option.bind_splits dest: usub_Some)

lemma count_down_defined:
  "\<lbrakk>sev = 2 \<Longrightarrow> 0 < unat (fm_critical_count m); sev = 1 \<Longrightarrow> 0 < unat (fm_warning_count m)\<rbrakk>
   \<Longrightarrow> \<exists>m'. count_down m sev = Some m'"
  by (auto simp: count_down_def usub_def word_le_nat_alt)

text \<open>A report keeps the active severity of its key: it never re-grades a fault that is active.\<close>

definition same_grade :: "fault_manager \<Rightarrow> u8 \<Rightarrow> u8 \<Rightarrow> u8 \<Rightarrow> bool" where
  "same_grade m source code sev \<longleftrightarrow>
     (\<forall>f\<in>set (fm_faults m). fault_key f = (source, code) \<and> fe_active f \<longrightarrow> fe_severity f = sev)"

lemma fault_report_faults:
  "fault_report m s c sev = Some m' \<Longrightarrow> fm_faults m' =
     upsert (\<lambda>f. fault_key f = (s, c)) (\<lambda>f. f\<lparr>fe_active := True, fe_severity := sev\<rparr>)
       \<lparr>fe_source_node = s, fe_fault_code = c, fe_active = True, fe_severity = sev\<rparr> (fm_faults m)"
  by (auto simp: fault_report_def upsert_def list_ex_iff find_None_iff find_Some_iff dest: count_up_Some
      split: option.splits Option.bind_splits if_splits)

lemma fault_report_inv:
  assumes inv: "fm_inv m" and grade: "same_grade m s c sev" and r: "fault_report m s c sev = Some m'"
  shows "fm_inv m'"
proof -
  have d: "distinct (map fault_key (fm_faults m'))"
    unfolding fault_report_faults [OF r] using inv
    by (intro ft.distinct_raise) (simp_all add: fm_inv_def fault_key_def)
  show ?thesis
  proof (cases rule: update_first_cases [of "fm_faults m" "\<lambda>f. fault_key f = (s, c)"
        "\<lambda>f. f\<lparr>fe_active := True, fe_severity := sev\<rparr>"])
    case none
    then have "find (\<lambda>f. fault_key f = (s, c)) (fm_faults m) = None" by (simp add: find_None_iff)
    with r d inv show ?thesis
      by (auto simp: fault_report_def fm_inv_def active_with_def dest!: count_up_Some)
  next
    case (hit as f bs)
    with r d inv grade show ?thesis
      by (auto simp: fault_report_def fm_inv_def active_with_def same_grade_def
          split: if_splits Option.bind_splits dest!: count_up_Some)
  qed
qed

lemma fault_clear_inv:
  assumes inv: "fm_inv m"
  shows "\<exists>m'. fault_clear m s c = Some m' \<and> fm_inv m'
    \<and> ft.active_keys (fm_faults m') = ft.active_keys (fm_faults m) - {(s, c)}"
proof (cases rule: update_first_cases [of "fm_faults m" "\<lambda>f. fault_key f = (s, c) \<and> fe_active f"
      "\<lambda>f. f\<lparr>fe_active := False\<rparr>"])
  case none
  then have "find (\<lambda>f. fault_key f = (s, c) \<and> fe_active f) (fm_faults m) = None"
    by (simp add: find_None_iff)
  with none inv show ?thesis by (auto simp: fault_clear_def ft.active_keys_def)
next
  case (hit as f bs)
  obtain m1 where m1: "count_down m (fe_severity f) = Some m1"
    using count_down_defined [of "fe_severity f" m] hit inv by (auto simp: fm_inv_def active_with_def)
  from inv have d: "distinct (map fault_key (fm_faults m))" by (simp add: fm_inv_def)
  let ?m' = "m1\<lparr>fm_faults := as @ f\<lparr>fe_active := False\<rparr> # bs\<rparr>"
  have "fault_clear m s c = Some ?m'"
    using hit m1 count_down_Some [OF m1] by (simp add: fault_clear_def)
  moreover have "ft.active_keys (fm_faults ?m') = ft.active_keys (fm_faults m) - {(s, c)}"
    using ft.active_keys_clear_first [OF d, of "(s, c)"] hit(4) by simp
  moreover have "map fault_key (fm_faults ?m') = map fault_key (fm_faults m)"
    using hit(1) by (simp add: fault_key_def)
  ultimately show ?thesis using hit inv d count_down_Some [OF m1]
    by (auto simp: fm_inv_def active_with_def)
qed

lemma has_critical_iff:
  "fm_inv m \<Longrightarrow> has_critical m \<longleftrightarrow> (\<exists>f\<in>set (fm_faults m). fe_active f \<and> fe_severity f = 2)"
  by (auto simp: has_critical_def fm_inv_def active_with_def word_less_nat_alt filter_empty_conv)

text \<open>The fault managers the gateway can get to while no active fault is re-graded.\<close>

inductive fm_reachable :: "fault_manager \<Rightarrow> bool" where
  fresh: "fm_reachable fm_new"
| report: "fm_reachable m \<Longrightarrow> same_grade m s c sev \<Longrightarrow> fault_report m s c sev = Some m' \<Longrightarrow> fm_reachable m'"
| clear: "fm_reachable m \<Longrightarrow> fault_clear m s c = Some m' \<Longrightarrow> fm_reachable m'"

lemma fm_reachable_inv: "fm_reachable m \<Longrightarrow> fm_inv m"
proof (induction rule: fm_reachable.induct)
  case fresh
  show ?case by (rule fm_inv_new)
next
  case (report m s c sev m')
  then show ?case by (blast intro: fault_report_inv)
next
  case (clear m s c m')
  then show ?case using fault_clear_inv [of m s c] by auto
qed

subsection \<open>Properties\<close>

text \<open>
  Claim C2. FAULT latches: after any sequence of updates, drive requests and reboots from power-on,
  the vehicle is in FAULT exactly when some update since the last reboot reported a critical BMS
  fault. Nothing else enters FAULT and nothing but a reboot leaves it.
\<close>

theorem gateway_fault_latches:
  "gs_mode (gw_run gateway_default ops) = Fault \<longleftrightarrow> list_ex reports_fault (since_reboot ops)"
  by (simp add: gw_run_Fault_iff list_ex_iff)

text \<open>
  In every reachable gateway state the mode agrees with the inputs of the last update: an
  active BMS fault means FAULT, a limp request means LIMP or FAULT, and the model never reaches
  CHARGING by its own operations.
\<close>

theorem gateway_mode_agrees_with_inputs:
  assumes "gw_reachable s"
  shows "(gs_bms_fault_active s \<longrightarrow> gs_mode s = Fault)
     \<and> (gs_bms_limp_requested s \<longrightarrow> gs_mode s \<in> {Limp, Fault}) \<and> gs_mode s \<noteq> Charging"
  using gw_reachable_inv [OF assms] by (simp add: gw_inv_def)

theorem gateway_mode_agrees_with_inputs_witness:
  "gs_mode (gw_run gateway_default [Update True False True 0]) \<in> {Limp, Fault}"
proof -
  have "gw_reachable (gw_run gateway_default [Update True False True 0])"
    by (rule gw_run_reachable) (rule gw_reachable.init)
  from gateway_mode_agrees_with_inputs [OF this] show ?thesis by simp
qed

text \<open>
  How DRIVE comes about: a step ends in DRIVE exactly when it is a drive request in READY
  or DRIVE, or an update in DRIVE with every node online, no BMS fault and no limp request.
\<close>

theorem gateway_drive_entry:
  "gs_mode (gw_step s op) = Drive \<longleftrightarrow>
     (op = EnterDrive \<and> gs_mode s \<in> {Ready, Drive})
     \<or> (gs_mode s = Drive \<and> (\<exists>n. op = Update True False False n))"
  by (cases op) (auto simp: mc_mode enter_drive_def gateway_reboot_def gateway_default_def)

text \<open>
  The guard of a drive request looks at the mode only. Losing a node while driving leads
  to READY, from where a drive request is granted although the node is still offline; the next
  update with the node offline falls back to READY again.
\<close>

theorem drive_granted_with_node_offline:
  "let s = gw_run gateway_default
             [Update True False False 0, EnterDrive, Update False False False 0, EnterDrive]
   in gs_mode s = Drive \<and> \<not> gs_all_nodes_online s
      \<and> gs_mode (gw_step s (Update False False False 0)) = Ready"
  by (simp add: Let_def enter_drive_def gateway_update_def gateway_default_def determine_mode_def)

text \<open>
  Claim C5. The heartbeat monitor implements its log. Register nodes with distinct ids, then run any
  beats and checks whose clock never goes back: no check panics, and after a check at \<open>now\<close> a
  node is online exactly when it has sent a beat and its last beat is younger than its timeout.
\<close>

theorem heartbeat_monitor_refines_log:
  assumes "distinct (map fst cfg)" "sorted (map op_time (ops @ [Check now]))" "(i, timeout) \<in> set cfg"
  shows "\<exists>m. hb_run (hb_registered cfg) (ops @ [Check now]) = Some m
     \<and> (is_online m i \<longleftrightarrow> (\<exists>t. last_beat ops i = Some t \<and> now - t < timeout))"
  using hb_run_then_check [OF assms(1) _ assms(3)] assms(2) by (simp add: hb_clock_ok_def)

theorem heartbeat_monitor_refines_log_witness:
  "\<exists>m. hb_run (hb_registered [(3, 300), (2, 300)]) ([Beat 3 100, Beat 2 350] @ [Check 420]) = Some m
     \<and> \<not> is_online m 3"
proof -
  have "\<exists>m. hb_run (hb_registered [(3, 300), (2, 300)]) ([Beat 3 100, Beat 2 350] @ [Check 420]) = Some m
     \<and> (is_online m 3 \<longleftrightarrow> (\<exists>t. last_beat [Beat 3 100, Beat 2 350] 3 = Some t \<and> 420 - t < 300))"
    by (rule heartbeat_monitor_refines_log) simp_all
  then show ?thesis by simp
qed

text \<open>
  Claim C6. While no active fault is re-graded, the fault counters are exact: \<open>has_critical\<close>
  holds exactly when an active entry has severity 2, clearing never underflows a counter, and a
  clear removes exactly its key from the active faults.
\<close>

theorem fault_counters_exact:
  assumes "fm_reachable m"
  shows "(has_critical m \<longleftrightarrow> list_ex (\<lambda>f. fe_active f \<and> fe_severity f = 2) (fm_faults m))
    \<and> (\<exists>m'. fault_clear m s c = Some m'
        \<and> fault_key ` {f \<in> set (fm_faults m'). fe_active f}
          = fault_key ` {f \<in> set (fm_faults m). fe_active f} - {(s, c)})"
  using has_critical_iff fault_clear_inv [of m s c] fm_reachable_inv [OF assms]
  by (simp add: list_ex_iff ft.active_keys_def) blast

theorem fault_counters_exact_witness:
  "has_critical (fm_new\<lparr>fm_faults := [\<lparr>fe_source_node = 3, fe_fault_code = 1, fe_active = True, fe_severity = 2\<rparr>],
     fm_critical_count := 1\<rparr>)"
proof -
  let ?m = "fm_new\<lparr>fm_faults := [\<lparr>fe_source_node = 3, fe_fault_code = 1, fe_active = True, fe_severity = 2\<rparr>],
     fm_critical_count := 1\<rparr>"
  have "fm_reachable ?m"
    by (rule fm_reachable.report [OF fm_reachable.fresh, of 3 1 2])
      (simp_all add: same_grade_def fault_report_def fm_new_def count_up_def uadd_def)
  from fault_counters_exact [OF this] show ?thesis by simp
qed

text \<open>
  Re-grading an active fault breaks the counters: a warning reported again as critical
  leaves \<open>has_critical\<close> false although a critical fault is active, and clearing it panics on
  the decrement of a zero counter.
\<close>

theorem fault_escalation_undercounts:
  "do { m \<leftarrow> fault_report fm_new 3 1 1; fault_report m 3 1 2 } =
     Some \<lparr>fm_faults = [\<lparr>fe_source_node = 3, fe_fault_code = 1, fe_active = True, fe_severity = 2\<rparr>],
           fm_critical_count = 0, fm_warning_count = 1\<rparr>
   \<and> do { m \<leftarrow> fault_report fm_new 3 1 1; m \<leftarrow> fault_report m 3 1 2; Some (has_critical m) } = Some False
   \<and> do { m \<leftarrow> fault_report fm_new 3 1 1; m \<leftarrow> fault_report m 3 1 2; fault_clear m 3 1 } = None"
  by (simp add: fault_report_def fault_clear_def fm_new_def count_up_def count_down_def uadd_def
      usub_def has_critical_def fault_key_def)

end
