(* ===== verification/Liveness.thy ===== *)
theory Liveness
  imports Prelude
begin

text \<open>
  The contract of a timeout watch: something that is told when its peer beats, is asked at times
  whether the peer has gone silent, and then answers from the last beat and a fixed timeout. The
  locale's parameters are the operations and the run of a sequence of them; its client lemma says
  that under a clock that never goes back a check answers exactly what the log of beats says.
\<close>

datatype watch_op = WBeat u32 | WCheck u32

fun watch_time :: "watch_op \<Rightarrow> u32" where
  "watch_time (WBeat t) = t"
| "watch_time (WCheck t) = t"

definition last_wbeat :: "watch_op list \<Rightarrow> u32 option" where
  "last_wbeat ops = (let bs = filter (\<lambda>op. case op of WBeat _ \<Rightarrow> True | WCheck _ \<Rightarrow> False) ops
     in if bs = [] then None else Some (watch_time (last bs)))"

lemma last_wbeat_simps [simp]:
  "last_wbeat [] = None"
  "last_wbeat (ops @ [WBeat t]) = Some t"
  "last_wbeat (ops @ [WCheck t]) = last_wbeat ops"
  by (simp_all add: last_wbeat_def)

definition watch_clock :: "watch_op list \<Rightarrow> u32" where
  "watch_clock ops = (if ops = [] then 0 else watch_time (last ops))"

lemma watch_clock_snoc:
  "sorted (map watch_time (ops @ [op])) \<Longrightarrow>
     sorted (map watch_time ops) \<and> watch_clock ops \<le> watch_time op"
  by (cases ops rule: rev_cases) (auto simp: watch_clock_def sorted_append)

locale timeout_watch =
  fixes init :: 's
    and beat :: "'s \<Rightarrow> u32 \<Rightarrow> 's"
    and check :: "'s \<Rightarrow> u32 \<Rightarrow> (bool \<times> 's) option"
    and alive :: "'s \<Rightarrow> bool"
    and last_beat_ms :: "'s \<Rightarrow> u32"
    and timeout :: u32
    and run :: "'s \<Rightarrow> watch_op list \<Rightarrow> 's option"
  assumes init_dead: "\<not> alive init"
    and beat_alive: "alive (beat s t)"
    and beat_last: "last_beat_ms (beat s t) = t"
    and check_dead: "\<not> alive s \<Longrightarrow> \<exists>s'. check s now = Some (True, s') \<and> \<not> alive s'"
    and check_alive: "\<lbrakk>alive s; last_beat_ms s \<le> now\<rbrakk> \<Longrightarrow>
       \<exists>s'. check s now = Some (timeout \<le> now - last_beat_ms s, s')
          \<and> (alive s' \<longleftrightarrow> now - last_beat_ms s < timeout) \<and> last_beat_ms s' = last_beat_ms s"
    and run_Nil: "run s [] = Some s"
    and run_beat: "run s (WBeat t # ops) = run (beat s t) ops"
    and run_check: "run s (WCheck t # ops) = check s t \<bind> (\<lambda>r. run (snd r) ops)"
begin

lemmas run_simps = run_Nil run_beat run_check

lemma run_append: "run s (as @ bs) = run s as \<bind> (\<lambda>s'. run s' bs)"
proof (induction as arbitrary: s)
  case (Cons op as)
  then show ?case by (cases op) (simp_all add: run_simps)
qed (simp add: run_simps)

text \<open>The state after a run and the log it abstracts to.\<close>

definition coupled :: "'s \<Rightarrow> u32 option \<Rightarrow> u32 \<Rightarrow> bool" where
  "coupled s lb now \<longleftrightarrow>
     (if alive s then lb = Some (last_beat_ms s) \<and> last_beat_ms s \<le> now
      else lb = None \<or> (\<exists>t. lb = Some t \<and> t \<le> now \<and> timeout \<le> now - t))"

lemma coupled_later: "coupled s lb now \<Longrightarrow> now \<le> later \<Longrightarrow> coupled s lb later"
  by (auto simp: coupled_def word_le_nat_alt unat_sub split: if_splits)

lemma coupled_beat: "coupled (beat s t) (Some t) t"
  by (simp add: coupled_def beat_alive beat_last)

lemma coupled_check:
  assumes "coupled s lb now"
  shows "\<exists>off s'. check s now = Some (off, s') \<and> coupled s' lb now
     \<and> (off \<longleftrightarrow> \<not> (\<exists>t. lb = Some t \<and> now - t < timeout)) \<and> (alive s' \<longleftrightarrow> \<not> off)"
proof (cases "alive s")
  case True
  with assms have lb: "lb = Some (last_beat_ms s)" "last_beat_ms s \<le> now" by (simp_all add: coupled_def)
  obtain s' where "check s now = Some (timeout \<le> now - last_beat_ms s, s')"
      "alive s' \<longleftrightarrow> now - last_beat_ms s < timeout" "last_beat_ms s' = last_beat_ms s"
    using check_alive [OF True lb(2)] by blast
  moreover from this lb have "coupled s' lb now" by (simp add: coupled_def not_less)
  ultimately show ?thesis using lb by (auto simp: not_less not_le)
next
  case False
  then obtain s' where "check s now = Some (True, s')" "\<not> alive s'" using check_dead by blast
  with assms False show ?thesis by (auto simp: coupled_def not_less)
qed

lemma run_coupled:
  "sorted (map watch_time ops) \<Longrightarrow>
     \<exists>s. run init ops = Some s \<and> coupled s (last_wbeat ops) (watch_clock ops)"
proof (induction ops rule: rev_induct)
  case Nil
  show ?case by (simp add: run_simps coupled_def init_dead)
next
  case (snoc op ops)
  then obtain s where s: "run init ops = Some s" "coupled s (last_wbeat ops) (watch_time op)"
    using watch_clock_snoc coupled_later by blast
  have ck: "watch_clock (ops @ [op]) = watch_time op" by (simp add: watch_clock_def)
  show ?case
  proof (cases op)
    case (WBeat t)
    with s ck show ?thesis by (simp add: run_append run_simps coupled_beat)
  next
    case (WCheck t)
    with s coupled_check [of s "last_wbeat ops" t] ck show ?thesis
      by (auto simp: run_append run_simps)
  qed
qed

lemma run_then_check:
  assumes "sorted (map watch_time (ops @ [WCheck now]))"
  shows "\<exists>s off s'. run init ops = Some s \<and> check s now = Some (off, s')
     \<and> (off \<longleftrightarrow> \<not> (\<exists>t. last_wbeat ops = Some t \<and> now - t < timeout)) \<and> (alive s' \<longleftrightarrow> \<not> off)"
proof -
  obtain s where "run init ops = Some s" "coupled s (last_wbeat ops) now"
    using watch_clock_snoc [OF assms] run_coupled coupled_later by fastforce
  with coupled_check show ?thesis by blast
qed

end

end
