(* ===== verification/Powertrain.thy ===== *)
theory Powertrain
  imports Protocol Liveness
begin

text \<open>
  \<^verbatim>\<open>state_tests/src/powertrain.rs\<close>: the torque controller, which turns the driver's throttle into a
  motor command under the safety clamp, and the watchdog that disables torque when the gateway
  stops sending heartbeats.
\<close>

subsection \<open>Torque controller\<close>

record torque_controller =
  tc_throttle_percent :: u8
  tc_brake_pressed :: bool
  tc_gear :: u8
  tc_vehicle_mode :: vehicle_mode
  tc_bms_torque_limit :: u8
  tc_output_torque :: i8
  tc_motor_enable :: bool

definition torque_default :: torque_controller where
  "torque_default =
     \<lparr>tc_throttle_percent = 0, tc_brake_pressed = False, tc_gear = 0, tc_vehicle_mode = Off,
      tc_bms_torque_limit = 255, tc_output_torque = 0, tc_motor_enable = True\<rparr>"

definition set_input :: "torque_controller \<Rightarrow> u8 \<Rightarrow> bool \<Rightarrow> u8 \<Rightarrow> torque_controller" where
  "set_input c throttle brake gear =
     c\<lparr>tc_throttle_percent := throttle, tc_brake_pressed := brake, tc_gear := gear\<rparr>"

definition set_mode :: "torque_controller \<Rightarrow> vehicle_mode \<Rightarrow> torque_controller" where
  "set_mode c mode = c\<lparr>tc_vehicle_mode := mode\<rparr>"

definition set_bms_limit :: "torque_controller \<Rightarrow> u8 \<Rightarrow> torque_controller" where
  "set_bms_limit c max_torque = c\<lparr>tc_bms_torque_limit := max_torque\<rparr>"

definition torque_compute :: "torque_controller \<Rightarrow> i8 \<times> torque_controller" where
  "torque_compute c =
     (if tc_throttle_percent c > 100
      then (0, c\<lparr>tc_output_torque := 0, tc_motor_enable := False\<rparr>)
      else let requested = (tc_throttle_percent c :: i8);
               c = c\<lparr>tc_output_torque := safety_clamp_torque requested (tc_vehicle_mode c)
                                            (tc_brake_pressed c) (tc_bms_torque_limit c)\<rparr>;
               c = c\<lparr>tc_motor_enable := tc_vehicle_mode c \<noteq> Fault\<rparr>
           in (tc_output_torque c, c))"

definition is_throttle_invalid :: "torque_controller \<Rightarrow> bool" where
  "is_throttle_invalid c \<longleftrightarrow> tc_throttle_percent c > 100"

subsection \<open>Watchdog task\<close>

record watchdog_task =
  wd_last_gateway_beat_ms :: u32
  wd_gateway_online :: bool
  wd_torque_disabled :: bool

definition watchdog_default :: watchdog_task where
  "watchdog_default =
     \<lparr>wd_last_gateway_beat_ms = 0, wd_gateway_online = False, wd_torque_disabled = True\<rparr>"

definition gateway_beat :: "watchdog_task \<Rightarrow> u32 \<Rightarrow> watchdog_task" where
  "gateway_beat w now_ms =
     w\<lparr>wd_last_gateway_beat_ms := now_ms, wd_gateway_online := True, wd_torque_disabled := False\<rparr>"

definition watchdog_check :: "watchdog_task \<Rightarrow> u32 \<Rightarrow> (bool \<times> watchdog_task) option" where
  "watchdog_check w now_ms =
     (if \<not> wd_gateway_online w then Some (True, w\<lparr>wd_torque_disabled := True\<rparr>)
      else do {
        elapsed \<leftarrow> usub now_ms (wd_last_gateway_beat_ms w);
        Some (if elapsed \<ge> MC_SAFETY_GATEWAY_TIMEOUT_MS
              then (True, w\<lparr>wd_gateway_online := False, wd_torque_disabled := True\<rparr>)
              else (False, w\<lparr>wd_torque_disabled := False\<rparr>)) })"

definition watchdog_reset :: "watchdog_task \<Rightarrow> watchdog_task" where
  "watchdog_reset w = watchdog_default"

subsection \<open>The controller's output\<close>

lemma throttle_valid_sint: "\<not> tc_throttle_percent c > 100 \<Longrightarrow>
    sint (tc_throttle_percent c :: i8) = int (unat (tc_throttle_percent c))"
  by (intro sint_of_small_u8) (simp add: word_less_nat_alt)

lemma torque_compute_output:
  "sint (fst (torque_compute c)) =
     (if tc_throttle_percent c > 100 \<or> tc_brake_pressed c \<or> tc_vehicle_mode c = Fault then 0
      else int (min (unat (tc_throttle_percent c))
                    (unat (effective_max (tc_vehicle_mode c) (tc_bms_torque_limit c)))))"
  by (auto simp: torque_compute_def Let_def sint_safety_clamp_torque throttle_valid_sint
      of_nat_min)

lemma torque_compute_state:
  "snd (torque_compute c) = c\<lparr>tc_output_torque := fst (torque_compute c),
     tc_motor_enable := (\<not> is_throttle_invalid c \<and> tc_vehicle_mode c \<noteq> Fault)\<rparr>"
  by (simp add: torque_compute_def Let_def is_throttle_invalid_def)

subsection \<open>The watchdog meets the watch contract\<close>

fun wd_run :: "watchdog_task \<Rightarrow> watch_op list \<Rightarrow> watchdog_task option" where
  "wd_run w [] = Some w"
| "wd_run w (WBeat t # ops) = wd_run (gateway_beat w t) ops"
| "wd_run w (WCheck t # ops) = do { r \<leftarrow> watchdog_check w t; wd_run (snd r) ops }"

interpretation wd: timeout_watch watchdog_default gateway_beat watchdog_check wd_gateway_online
  wd_last_gateway_beat_ms MC_SAFETY_GATEWAY_TIMEOUT_MS wd_run
  by unfold_locales
    (auto simp: watchdog_default_def gateway_beat_def watchdog_check_def usub_def not_le)

lemma watchdog_check_flag:
  "watchdog_check w now = Some (off, w') \<Longrightarrow> wd_torque_disabled w' = off"
  by (auto simp: watchdog_check_def split: if_splits Option.bind_splits)

subsection \<open>Properties\<close>

text \<open>
  Claim C19. The motor command is exactly the clamped throttle: 0 when the throttle is out of range
  (S6), the brake is pressed (S1) or the mode is FAULT (S2), and otherwise the throttle limited to
  100, to 25 in LIMP (S3) and to the BMS limit. It is never negative and never above 100. In OFF, READY and CHARGING
  the code commands it like in DRIVE, although the vehicle model of the documents blocks torque there.
\<close>

theorem torque_command_exact:
  "sint (fst (torque_compute c)) =
     (if tc_throttle_percent c > 100 \<or> tc_brake_pressed c \<or> tc_vehicle_mode c = Fault then 0
      else int (min (unat (tc_throttle_percent c))
             (min (if tc_vehicle_mode c = Limp then 25 else 100) (unat (tc_bms_torque_limit c)))))
   \<and> tc_output_torque (snd (torque_compute c)) = fst (torque_compute c)
   \<and> tc_motor_enable (snd (torque_compute c))
       = (\<not> tc_throttle_percent c > 100 \<and> tc_vehicle_mode c \<noteq> Fault)
   \<and> 0 \<le> sint (fst (torque_compute c)) \<and> sint (fst (torque_compute c)) \<le> 100"
  by (auto simp: torque_compute_output torque_compute_state unat_effective_max is_throttle_invalid_def)

text \<open>
  The clamp distinguishes LIMP and FAULT only: in OFF, READY and CHARGING the controller
  commands the same torque with the motor enabled as in DRIVE.
\<close>

theorem torque_not_blocked_outside_drive:
  assumes "mode \<noteq> Limp" "mode \<noteq> Fault"
  shows "fst (torque_compute (set_mode c mode)) = fst (torque_compute (set_mode c Drive))
     \<and> tc_motor_enable (snd (torque_compute (set_mode c mode)))
       = tc_motor_enable (snd (torque_compute (set_mode c Drive)))"
  using assms
  by (simp add: torque_compute_def set_mode_def Let_def safety_clamp_torque_def effective_max_def
      split: vehicle_mode.splits)

theorem torque_not_blocked_outside_drive_witness:
  "fst (torque_compute (set_mode (set_input torque_default 50 False 0) Off)) = 50"
proof -
  have "fst (torque_compute (set_mode (set_input torque_default 50 False 0) Off))
      = fst (torque_compute (set_mode (set_input torque_default 50 False 0) Drive))"
    using torque_not_blocked_outside_drive [of Off] by simp
  then show ?thesis
    by (simp add: torque_compute_def set_mode_def set_input_def torque_default_def Let_def
        safety_clamp_torque_def effective_max_def)
qed

text \<open>
  Claim C20. The gateway watchdog (S4): run any beats and checks whose clock never goes back; no check
  panics, and a check at \<open>now\<close> disables torque exactly when no gateway heartbeat has been seen
  or the last one is 250 ms old or older.
\<close>

theorem watchdog_disables_torque_on_silence:
  assumes "sorted (map watch_time (ops @ [WCheck now]))"
  shows "\<exists>w off w'. wd_run watchdog_default ops = Some w \<and> watchdog_check w now = Some (off, w')
     \<and> wd_torque_disabled w' = off
     \<and> (off \<longleftrightarrow> \<not> (\<exists>t. last_wbeat ops = Some t \<and> now - t < 250))"
  using wd.run_then_check [OF assms] watchdog_check_flag
  unfolding MC_SAFETY_GATEWAY_TIMEOUT_MS_def by blast

theorem watchdog_disables_torque_on_silence_witness:
  "\<exists>w w'. wd_run watchdog_default [WBeat 100, WCheck 300] = Some w \<and> watchdog_check w 350 = Some (True, w')"
proof -
  have "\<exists>w off w'. wd_run watchdog_default [WBeat 100, WCheck 300] = Some w
     \<and> watchdog_check w 350 = Some (off, w') \<and> wd_torque_disabled w' = off
     \<and> (off \<longleftrightarrow> \<not> (\<exists>t. last_wbeat [WBeat 100, WCheck 300] = Some t \<and> 350 - t < 250))"
    by (rule watchdog_disables_torque_on_silence) simp
  then show ?thesis by (auto simp: last_wbeat_def)
qed

end
