(* ===== verification/Dashboard.thy ===== *)
theory Dashboard
  imports Protocol Alarm_Table
begin

text \<open>
  \<^verbatim>\<open>state_tests/src/dashboard.rs\<close>: what the driver sees. The dashboard keeps the last mode, speed and
  battery readings and a list of warnings, and shows the most severe active one;
  \<open>WarningDisplay\<close> is the incremental version of the same choice.
\<close>

record dashboard_warning =
  dw_warning_code :: u8
  dw_active :: bool
  dw_source_node :: u8

record dashboard_state =
  ds_vehicle_mode :: vehicle_mode
  ds_speed_kph_x10 :: u16
  ds_soc_percent :: u8
  ds_battery_temp_c_x10 :: i16
  ds_battery_voltage_mv :: u16
  ds_warnings :: "dashboard_warning list"
  ds_initialized :: bool
  ds_booted :: bool

definition dashboard_default :: dashboard_state where
  "dashboard_default =
     \<lparr>ds_vehicle_mode = Off, ds_speed_kph_x10 = 0, ds_soc_percent = 0, ds_battery_temp_c_x10 = 0,
      ds_battery_voltage_mv = 0, ds_warnings = [], ds_initialized = False, ds_booted = True\<rparr>"

definition dash_set_mode :: "dashboard_state \<Rightarrow> vehicle_mode \<Rightarrow> dashboard_state" where
  "dash_set_mode s mode = s\<lparr>ds_vehicle_mode := mode, ds_initialized := True\<rparr>"

definition dash_set_speed :: "dashboard_state \<Rightarrow> u16 \<Rightarrow> dashboard_state" where
  "dash_set_speed s speed_kph_x10 = s\<lparr>ds_speed_kph_x10 := speed_kph_x10, ds_initialized := True\<rparr>"

definition dash_set_battery :: "dashboard_state \<Rightarrow> u8 \<Rightarrow> i16 \<Rightarrow> u16 \<Rightarrow> dashboard_state" where
  "dash_set_battery s soc_percent temp_c_x10 voltage_mv =
     s\<lparr>ds_soc_percent := soc_percent, ds_battery_temp_c_x10 := temp_c_x10,
       ds_battery_voltage_mv := voltage_mv, ds_initialized := True\<rparr>"

definition add_warning :: "dashboard_state \<Rightarrow> u8 \<Rightarrow> u8 \<Rightarrow> dashboard_state" where
  "add_warning s warning_code source_node =
     s\<lparr>ds_warnings := upsert (\<lambda>w. (dw_warning_code w, dw_source_node w) = (warning_code, source_node))
         (\<lambda>w. w\<lparr>dw_active := True\<rparr>)
         \<lparr>dw_warning_code = warning_code, dw_active = True, dw_source_node = source_node\<rparr>
         (ds_warnings s)\<rparr>"

definition clear_warning :: "dashboard_state \<Rightarrow> u8 \<Rightarrow> dashboard_state" where
  "clear_warning s warning_code =
     s\<lparr>ds_warnings := map (\<lambda>w. if dw_warning_code w = warning_code then w\<lparr>dw_active := False\<rparr> else w)
         (ds_warnings s)\<rparr>"

definition clear_node_warnings :: "dashboard_state \<Rightarrow> u8 \<Rightarrow> dashboard_state" where
  "clear_node_warnings s source_node =
     s\<lparr>ds_warnings := map (\<lambda>w. if dw_source_node w = source_node then w\<lparr>dw_active := False\<rparr> else w)
         (ds_warnings s)\<rparr>"

definition warning_severity :: "u8 \<Rightarrow> u8" where
  "warning_severity code =
     (if code = warning_u8 CriticalBmsFault then 3
      else if code = warning_u8 BmsOvertemp then 2
      else if code = warning_u8 PowertrainOffline then 2
      else if code = warning_u8 GatewayRestarted then 2
      else if code = warning_u8 BmsOffline then 1
      else if code = warning_u8 DashboardOffline then 1
      else if code = warning_u8 InvalidThrottle then 1
      else if code = warning_u8 ChargerPlugged then 1
      else 0)"

fun top_loop :: "u8 \<Rightarrow> u8 \<Rightarrow> dashboard_warning list \<Rightarrow> u8" where
  "top_loop top_code top_severity [] = top_code"
| "top_loop top_code top_severity (w # ws) =
     (if \<not> dw_active w then top_loop top_code top_severity ws
      else let sev = warning_severity (dw_warning_code w)
           in if sev > top_severity then top_loop (dw_warning_code w) sev ws
              else top_loop top_code top_severity ws)"

definition top_warning :: "dashboard_state \<Rightarrow> u8" where
  "top_warning s = top_loop (warning_u8 WarnNone) 0 (ds_warnings s)"

definition dashboard_reboot :: "dashboard_state \<Rightarrow> dashboard_state" where
  "dashboard_reboot s = dashboard_default\<lparr>ds_booted := False\<rparr>"

record warning_display =
  wdp_displayed_warning :: u8
  wdp_severity :: u8

definition display_default :: warning_display where
  "display_default = \<lparr>wdp_displayed_warning = warning_u8 WarnNone, wdp_severity = 0\<rparr>"

definition display_update :: "warning_display \<Rightarrow> u8 \<Rightarrow> u8 \<Rightarrow> u8 \<times> warning_display" where
  "display_update d warning_code severity =
     (let d = (if severity > wdp_severity d
               then d\<lparr>wdp_displayed_warning := warning_code, wdp_severity := severity\<rparr> else d)
      in (wdp_displayed_warning d, d))"

definition display_clear :: "warning_display \<Rightarrow> warning_display" where
  "display_clear d = d\<lparr>wdp_displayed_warning := warning_u8 WarnNone, wdp_severity := 0\<rparr>"

subsection \<open>The warning list as a set of active warnings\<close>

definition warning_key :: "dashboard_warning \<Rightarrow> u8 \<times> u8" where
  "warning_key w = (dw_warning_code w, dw_source_node w)"

interpretation wt: alarm_table warning_key dw_active
  "\<lambda>w. w\<lparr>dw_active := True\<rparr>" "\<lambda>w. w\<lparr>dw_active := False\<rparr>"
  by unfold_locales (simp_all add: warning_key_def)

abbreviation active_warnings :: "dashboard_state \<Rightarrow> (u8 \<times> u8) set" where
  "active_warnings s \<equiv> wt.active_keys (ds_warnings s)"

lemma add_warning_upsert:
  "ds_warnings (add_warning s c n) = upsert (\<lambda>w. warning_key w = (c, n)) (\<lambda>w. w\<lparr>dw_active := True\<rparr>)
     \<lparr>dw_warning_code = c, dw_active = True, dw_source_node = n\<rparr> (ds_warnings s)"
  by (simp add: add_warning_def warning_key_def)

lemma clear_warning_silence:
  "ds_warnings (clear_warning s c) =
     map (\<lambda>w. if warning_key w \<in> {(c, n) |n. True} then w\<lparr>dw_active := False\<rparr> else w) (ds_warnings s)"
  by (simp add: clear_warning_def warning_key_def)

lemma clear_node_warnings_silence:
  "ds_warnings (clear_node_warnings s n) =
     map (\<lambda>w. if warning_key w \<in> {(c, n) |c. True} then w\<lparr>dw_active := False\<rparr> else w) (ds_warnings s)"
  by (simp add: clear_node_warnings_def warning_key_def)

lemma active_add_warning: "active_warnings (add_warning s c n) = insert (c, n) (active_warnings s)"
  unfolding add_warning_upsert by (rule wt.active_keys_raise) (simp_all add: warning_key_def)

lemma active_clear_warning: "active_warnings (clear_warning s c) = active_warnings s - {(c, n) |n. True}"
  unfolding clear_warning_silence by (rule wt.active_keys_silence)

lemma active_clear_node:
  "active_warnings (clear_node_warnings s n) = active_warnings s - {(c, n) |c. True}"
  unfolding clear_node_warnings_silence by (rule wt.active_keys_silence)

lemma distinct_warnings:
  assumes "distinct (map warning_key (ds_warnings s))"
  shows "distinct (map warning_key (ds_warnings (add_warning s c n)))"
    and "distinct (map warning_key (ds_warnings (clear_warning s c)))"
    and "distinct (map warning_key (ds_warnings (clear_node_warnings s n)))"
proof -
  show "distinct (map warning_key (ds_warnings (add_warning s c n)))"
    unfolding add_warning_upsert using assms
    by (rule wt.distinct_raise) (simp add: warning_key_def)
qed (simp_all only: clear_warning_silence clear_node_warnings_silence wt.map_key_silence assms)

subsection \<open>The top warning\<close>

lemma warning_severity_0 [simp]: "warning_severity 0 = 0"
  by (simp add: warning_severity_def)

text \<open>
  The loop ends with the first warning that reaches the largest severity, and only a severity above
  the one it started with replaces the code it started with.
\<close>

lemma top_loop_ge: "warning_severity code \<le> warning_severity (top_loop code (warning_severity code) ws)"
proof (induction ws arbitrary: code)
  case (Cons w ws)
  from Cons.IH [of code] Cons.IH [of "dw_warning_code w"] show ?case
    by (auto simp: Let_def)
qed simp

lemma top_loop_max:
  "w \<in> set ws \<Longrightarrow> dw_active w \<Longrightarrow>
     warning_severity (dw_warning_code w) \<le> warning_severity (top_loop code (warning_severity code) ws)"
proof (induction ws arbitrary: code)
  case (Cons v ws)
  then show ?case
    using top_loop_ge [of "dw_warning_code v" ws] top_loop_ge [of code ws]
    by (auto simp: Let_def not_less intro: order_trans)
qed simp

lemma top_loop_first:
  "top_loop code (warning_severity code) ws = code \<or>
   (\<exists>as w bs. ws = as @ w # bs \<and> dw_active w
      \<and> top_loop code (warning_severity code) ws = dw_warning_code w
      \<and> warning_severity code < warning_severity (dw_warning_code w)
      \<and> (\<forall>a\<in>set as. dw_active a \<longrightarrow>
           warning_severity (dw_warning_code a) < warning_severity (dw_warning_code w)))"
  (is "_ \<or> ?first code ws")
proof (induction ws arbitrary: code)
  case (Cons v ws)
  let ?sev = "\<lambda>w. warning_severity (dw_warning_code w)"
  have lift: "?first code (v # ws)"
    if "?first c ws" "top_loop code (warning_severity code) (v # ws) = top_loop c (warning_severity c) ws"
      "warning_severity code \<le> warning_severity c" "dw_active v \<longrightarrow> ?sev v \<le> warning_severity c" for c
  proof -
    from that(1) obtain as w bs where *: "ws = as @ w # bs" "dw_active w"
        "top_loop c (warning_severity c) ws = dw_warning_code w" "warning_severity c < ?sev w"
        "\<forall>a\<in>set as. dw_active a \<longrightarrow> ?sev a < ?sev w" by blast
    show ?thesis
      by (rule exI [of _ "v # as"], rule exI [of _ w], rule exI [of _ bs]) (use * that in auto)
  qed
  show ?case
  proof (cases "dw_active v \<and> warning_severity code < ?sev v")
    case True
    then have t: "top_loop code (warning_severity code) (v # ws) = top_loop (dw_warning_code v) (?sev v) ws"
      by (simp add: Let_def)
    from Cons.IH [of "dw_warning_code v"] show ?thesis
    proof
      assume "top_loop (dw_warning_code v) (?sev v) ws = dw_warning_code v"
      with True t show ?thesis by (intro disjI2 exI [of _ "[]"] exI [of _ v] exI [of _ ws]) simp
    next
      assume "?first (dw_warning_code v) ws"
      moreover from True have "warning_severity code \<le> ?sev v" by (simp add: order_less_imp_le)
      ultimately have "?first code (v # ws)" using lift [OF _ t] by simp
      then show ?thesis ..
    qed
  next
    case False
    then have t: "top_loop code (warning_severity code) (v # ws) = top_loop code (warning_severity code) ws"
      by (auto simp: Let_def)
    with Cons.IH [of code] lift [of code] False show ?thesis by (auto simp: not_less)
  qed
qed simp

lemma top_warning_loop: "top_warning s = top_loop 0 (warning_severity 0) (ds_warnings s)"
  by (simp add: top_warning_def)

subsection \<open>The incremental display\<close>

fun display_run :: "warning_display \<Rightarrow> (u8 \<times> u8) list \<Rightarrow> warning_display" where
  "display_run d [] = d"
| "display_run d ((code, sev) # us) = display_run (snd (display_update d code sev)) us"

lemma display_run_top_loop:
  "wdp_displayed_warning (display_run \<lparr>wdp_displayed_warning = code, wdp_severity = sev\<rparr>
     (map (\<lambda>w. (dw_warning_code w, warning_severity (dw_warning_code w))) (filter dw_active ws)))
   = top_loop code sev ws"
  by (induction ws arbitrary: code sev) (simp_all add: display_update_def Let_def)

subsection \<open>Properties\<close>

text \<open>
  The dashboard's warning list behaves as a set of active (code, source) pairs: adding
  inserts the pair, clearing a code removes it for every source, clearing a node removes all its
  warnings, and none of them stores a pair twice.
\<close>

theorem dashboard_warnings_are_a_set:
  assumes "distinct (map warning_key (ds_warnings s))"
  shows "active_warnings (add_warning s c n) = insert (c, n) (active_warnings s)
     \<and> active_warnings (clear_warning s c) = {(c', n') \<in> active_warnings s. c' \<noteq> c}
     \<and> active_warnings (clear_node_warnings s n) = {(c', n') \<in> active_warnings s. n' \<noteq> n}
     \<and> distinct (map warning_key (ds_warnings (add_warning s c n)))
     \<and> distinct (map warning_key (ds_warnings (clear_warning s c)))
     \<and> distinct (map warning_key (ds_warnings (clear_node_warnings s n)))"
  by (auto simp: active_add_warning active_clear_warning active_clear_node distinct_warnings [OF assms])

theorem dashboard_warnings_are_a_set_witness:
  "active_warnings (clear_warning (add_warning (add_warning dashboard_default 1 3) 7 3) 1) = {(7, 3)}"
proof -
  have e: "active_warnings (add_warning (add_warning dashboard_default 1 3) 7 3) = {(7, 3), (1, 3)}"
    by (simp add: active_add_warning) (simp add: dashboard_default_def)
  have "distinct (map warning_key (ds_warnings (add_warning (add_warning dashboard_default 1 3) 7 3)))"
    by (intro distinct_warnings) (simp add: dashboard_default_def)
  from dashboard_warnings_are_a_set [OF this, of 0 0] dashboard_warnings_are_a_set [OF this, of 1 0] e
  show ?thesis by auto
qed

text \<open>
  Claim C21. The displayed warning is a most severe active one, and the earliest added of those: no
  active warning is more severe, every active warning listed before it is strictly less severe, and 0
  (none) is shown only when no active warning has a severity.
\<close>

theorem top_warning_is_most_severe:
  "(\<forall>w. w \<in> set (ds_warnings s) \<and> dw_active w \<longrightarrow>
       warning_severity (dw_warning_code w) \<le> warning_severity (top_warning s))
   \<and> (top_warning s = 0 \<or>
      (\<exists>as w bs. ds_warnings s = as @ w # bs \<and> dw_active w \<and> top_warning s = dw_warning_code w
         \<and> (\<forall>a\<in>set as. dw_active a \<longrightarrow>
              warning_severity (dw_warning_code a) < warning_severity (top_warning s))))"
proof (intro conjI allI impI)
  show "warning_severity (dw_warning_code w) \<le> warning_severity (top_warning s)"
    if "w \<in> set (ds_warnings s) \<and> dw_active w" for w
    using that top_loop_max [of w "ds_warnings s" 0] unfolding top_warning_loop by blast
  show "top_warning s = 0 \<or>
      (\<exists>as w bs. ds_warnings s = as @ w # bs \<and> dw_active w \<and> top_warning s = dw_warning_code w
         \<and> (\<forall>a\<in>set as. dw_active a \<longrightarrow>
              warning_severity (dw_warning_code a) < warning_severity (top_warning s)))"
    using top_loop_first [of 0 "ds_warnings s"] unfolding top_warning_loop by metis
qed

theorem top_warning_is_most_severe_witness:
  "3 \<le> warning_severity (top_warning (add_warning (add_warning dashboard_default 2 3) 7 3))"
proof -
  let ?s = "add_warning (add_warning dashboard_default 2 3) 7 3"
  let ?w = "\<lparr>dw_warning_code = 7, dw_active = True, dw_source_node = 3\<rparr>"
  have "?w \<in> set (ds_warnings ?s) \<and> dw_active ?w"
    by (simp add: add_warning_def upsert_def dashboard_default_def)
  with top_warning_is_most_severe [of ?s, THEN conjunct1, rule_format]
  have "warning_severity (dw_warning_code ?w) \<le> warning_severity (top_warning ?s)" .
  then show ?thesis by (simp add: warning_severity_def [of 7])
qed

text \<open>
  The incremental display agrees with the list: feeding a fresh \<open>WarningDisplay\<close> the
  active warnings in list order with their severities shows the dashboard's top warning.
\<close>

theorem display_agrees_with_top_warning:
  "wdp_displayed_warning (display_run display_default
     (map (\<lambda>w. (dw_warning_code w, warning_severity (dw_warning_code w)))
          (filter dw_active (ds_warnings s)))) = top_warning s"
  by (simp add: display_default_def display_run_top_loop top_warning_def)

end
