(* ===== verification/Digest.thy ===== *)
theory Digest
  imports Prelude
begin

text \<open>
  The contract of a byte digest computed by a loop: every step is injective in the running state and
  in the byte it consumes. The lemma the clients need is that replacing one byte of the input always
  changes the digest. The OTA record CRC and the trace hash both meet the contract.
\<close>

locale injective_digest =
  fixes step :: "'s \<Rightarrow> 'b \<Rightarrow> 's"
  assumes state_inj: "step s b = step s' b \<Longrightarrow> s = s'"
    and byte_inj: "step s b = step s b' \<Longrightarrow> b = b'"
begin

lemma foldl_state_inj: "foldl step s bs = foldl step s' bs \<Longrightarrow> s = s'"
  by (induction bs arbitrary: s s') (auto dest: state_inj)

lemma one_byte_changes_digest:
  "foldl step s (as @ x # bs) = foldl step s (as @ y # bs) \<longleftrightarrow> x = y"
  by (auto dest: foldl_state_inj byte_inj)

end

end
