(* ===== verification/Ota_Slot.thy ===== *)
theory Ota_Slot
  imports Digest "HOL-Library.Sublist"
begin

unbundle bit_operations_syntax

text \<open>
  \<^verbatim>\<open>state_tests/src/ota_slot.rs\<close>: the A/B slot model of an over-the-air update. The state machine
  decides whether an update commits or rolls back; the metadata record is its 32-byte persistent
  form, protected by a CRC-32, of which the bootloader keeps two copies.
\<close>

subsection \<open>States and slots\<close>

datatype ota_state = Idle | Downloading | Verifying | CommitPending | Rebooting | Healthy | RolledBack

fun ota_state_u8 :: "ota_state \<Rightarrow> u8" where
  "ota_state_u8 Idle = 0"
| "ota_state_u8 Downloading = 1"
| "ota_state_u8 Verifying = 2"
| "ota_state_u8 CommitPending = 3"
| "ota_state_u8 Rebooting = 4"
| "ota_state_u8 Healthy = 5"
| "ota_state_u8 RolledBack = 6"

definition SLOT_A :: u8 where "SLOT_A = 0"
definition SLOT_B :: u8 where "SLOT_B = 1"

definition other_slot :: "u8 \<Rightarrow> u8" where
  "other_slot slot = (if slot = SLOT_A then SLOT_B else SLOT_A)"

record ota_slot_model =
  om_active_slot :: u8
  om_target_slot :: u8
  om_state :: ota_state
  om_image_written :: bool
  om_crc_ok :: bool
  om_committed :: bool
  om_boot_healthy :: bool
  om_rolled_back :: bool
  om_abort_reason :: u8

definition ota_new :: ota_slot_model where
  "ota_new =
     \<lparr>om_active_slot = SLOT_A, om_target_slot = SLOT_A, om_state = Idle, om_image_written = False,
      om_crc_ok = False, om_committed = False, om_boot_healthy = False, om_rolled_back = False,
      om_abort_reason = 0\<rparr>"

definition begin_download :: "ota_slot_model \<Rightarrow> ota_slot_model" where
  "begin_download m =
     (if om_state m \<noteq> Idle then m
      else m\<lparr>om_target_slot := other_slot (om_active_slot m), om_image_written := False,
             om_crc_ok := False, om_committed := False, om_state := Downloading\<rparr>)"

definition rollback :: "ota_slot_model \<Rightarrow> ota_slot_model" where
  "rollback m =
     (if om_state m = Healthy then m
      else m\<lparr>om_target_slot := om_active_slot m, om_image_written := False, om_committed := False,
             om_boot_healthy := False, om_rolled_back := True, om_state := RolledBack\<rparr>)"

definition finish_download :: "ota_slot_model \<Rightarrow> bool \<Rightarrow> bool \<times> ota_slot_model" where
  "finish_download m complete =
     (if om_state m \<noteq> Downloading then (False, m)
      else if \<not> complete then (False, rollback m)
      else (True, m\<lparr>om_image_written := True\<rparr>))"

definition verify :: "ota_slot_model \<Rightarrow> bool \<Rightarrow> bool \<times> ota_slot_model" where
  "verify m crc_ok =
     (if om_state m \<noteq> Downloading then (False, m)
      else let m = m\<lparr>om_state := Verifying, om_crc_ok := crc_ok\<rparr>
           in if \<not> crc_ok then (False, rollback m) else (True, m))"

definition commit :: "ota_slot_model \<Rightarrow> bool \<times> ota_slot_model" where
  "commit m =
     (if om_state m \<noteq> Verifying then (False, m)
      else if \<not> om_image_written m \<or> \<not> om_crc_ok m then (False, rollback m)
      else (True, m\<lparr>om_committed := True, om_state := CommitPending\<rparr>))"

definition ota_reboot :: "ota_slot_model \<Rightarrow> ota_slot_model" where
  "ota_reboot m = (if om_state m \<noteq> CommitPending then m else m\<lparr>om_state := Rebooting\<rparr>)"

definition health_check :: "ota_slot_model \<Rightarrow> bool \<Rightarrow> bool \<times> ota_slot_model" where
  "health_check m healthy =
     (if om_state m \<noteq> Rebooting then (False, m)
      else if healthy \<and> om_committed m
      then (True, m\<lparr>om_boot_healthy := True, om_active_slot := om_target_slot m, om_state := Healthy\<rparr>)
      else (False, rollback (m\<lparr>om_boot_healthy := False\<rparr>)))"

definition boot_slot :: "ota_slot_model \<Rightarrow> u8" where
  "boot_slot m = (if om_state m = Healthy \<and> om_committed m then om_target_slot m else om_active_slot m)"

definition ota_abort :: "ota_slot_model \<Rightarrow> u8 \<Rightarrow> ota_slot_model" where
  "ota_abort m reason =
     (if om_state m = Healthy then m else (rollback m)\<lparr>om_abort_reason := reason\<rparr>)"

definition ota_state_from_u8 :: "u8 \<Rightarrow> ota_state" where
  "ota_state_from_u8 v =
     (if v = 0 then Idle else if v = 1 then Downloading else if v = 2 then Verifying
      else if v = 3 then CommitPending else if v = 4 then Rebooting else if v = 5 then Healthy
      else RolledBack)"

subsection \<open>The persistent metadata record\<close>

definition OTA_META_MAGIC :: u32 where "OTA_META_MAGIC = 0x4D434F54"
definition OTA_META_FORMAT_VERSION :: u8 where "OTA_META_FORMAT_VERSION = 1"
definition OTA_META_RECORD_SIZE :: nat where "OTA_META_RECORD_SIZE = 32"

text \<open>One iteration of the inner loop, and the two loops of \<open>crc32\<close>.\<close>

definition crc_bit :: "u32 \<Rightarrow> u32" where
  "crc_bit crc = (let mask = - (crc AND 1) in drop_bit 1 crc XOR (0xEDB88320 AND mask))"

definition crc_byte :: "u32 \<Rightarrow> u8 \<Rightarrow> u32" where
  "crc_byte crc byte = (crc_bit ^^ 8) (crc XOR ucast byte)"

definition crc32 :: "u8 list \<Rightarrow> u32" where
  "crc32 data = foldl crc_byte 0xFFFFFFFF data XOR 0xFFFFFFFF"

record meta_record =
  mr_magic :: u32
  mr_format_version :: u8
  mr_active_slot :: u8
  mr_target_slot :: u8
  mr_state :: u8
  mr_committed :: u8
  mr_boot_attempt_count :: u8
  mr_healthy :: u8
  mr_abort_reason :: u8
  mr_generation :: u32
  mr_image_length :: u32
  mr_image_crc32 :: u32
  mr_reserved :: u32
  mr_record_crc32 :: u32

definition le_bytes :: "u32 \<Rightarrow> u8 list" where
  "le_bytes x = [ucast x, ucast (drop_bit 8 x), ucast (drop_bit 16 x), ucast (drop_bit 24 x)]"

text \<open>The sources fill the 32-byte array slice by slice, in this order and without gaps.\<close>

definition to_bytes :: "meta_record \<Rightarrow> u8 list" where
  "to_bytes r =
     le_bytes (mr_magic r)
     @ [mr_format_version r, mr_active_slot r, mr_target_slot r, mr_state r, mr_committed r,
        mr_boot_attempt_count r, mr_healthy r, mr_abort_reason r]
     @ le_bytes (mr_generation r) @ le_bytes (mr_image_length r) @ le_bytes (mr_image_crc32 r)
     @ le_bytes (mr_reserved r) @ le_bytes (mr_record_crc32 r)"

definition compute_record_crc32 :: "meta_record \<Rightarrow> u32" where
  "compute_record_crc32 r = crc32 (take 28 (to_bytes r))"

definition finalize :: "meta_record \<Rightarrow> meta_record" where
  "finalize r =
     (let r = r\<lparr>mr_magic := OTA_META_MAGIC, mr_format_version := OTA_META_FORMAT_VERSION\<rparr>
      in r\<lparr>mr_record_crc32 := compute_record_crc32 r\<rparr>)"

definition is_valid :: "meta_record \<Rightarrow> bool" where
  "is_valid r \<longleftrightarrow> mr_magic r = OTA_META_MAGIC \<and> mr_format_version r = OTA_META_FORMAT_VERSION
     \<and> mr_record_crc32 r = compute_record_crc32 r"

definition select_record :: "meta_record \<Rightarrow> meta_record \<Rightarrow> meta_record option" where
  "select_record a b =
     (case (is_valid a, is_valid b) of
        (True, True) \<Rightarrow> Some (if mr_generation a \<ge> mr_generation b then a else b)
      | (True, False) \<Rightarrow> Some a
      | (False, True) \<Rightarrow> Some b
      | (False, False) \<Rightarrow> None)"

definition recover_after_reset :: "ota_slot_model \<Rightarrow> meta_record \<Rightarrow> ota_slot_model" where
  "recover_after_reset m r =
     (let committed_or_later = mr_state r \<ge> ota_state_u8 CommitPending
      in m\<lparr>om_active_slot := mr_active_slot r, om_target_slot := mr_target_slot r,
           om_state := ota_state_from_u8 (mr_state r), om_committed := mr_committed r \<noteq> 0,
           om_boot_healthy := mr_healthy r \<noteq> 0, om_abort_reason := mr_abort_reason r,
           om_image_written := committed_or_later, om_crc_ok := committed_or_later,
           om_rolled_back := mr_state r = ota_state_u8 RolledBack\<rparr>)"

subsection \<open>The CRC step is injective\<close>

lemma crc_bit_alt: "crc_bit c = drop_bit 1 c XOR (if odd c then 0xEDB88320 else 0)"
proof -
  have "c AND 1 = (if odd c then 1 else 0)" by (simp add: and_one_eq odd_iff_mod_2_eq_one)
  then show ?thesis by (simp add: crc_bit_def Let_def)
qed

lemma crc_bit_top: "bit (crc_bit c) 31 \<longleftrightarrow> odd c"
proof -
  have "bit (0xEDB88320 :: u32) 31" by simp
  moreover have "\<not> bit c 32" by (auto dest: bit_imp_le_length)
  ultimately show ?thesis by (simp add: crc_bit_alt bit_simps)
qed

lemma crc_bit_inj: "crc_bit c = crc_bit d \<Longrightarrow> c = d"
proof -
  assume eq: "crc_bit c = crc_bit d"
  then have par: "odd c = odd d" by (metis crc_bit_top)
  with eq have "drop_bit 1 c = drop_bit 1 d" by (auto simp: crc_bit_alt split: if_splits)
  then have "c div 2 = d div 2" by (simp add: drop_bit_eq_div)
  moreover have "c mod 2 = d mod 2" using par by (simp add: mod_2_eq_odd)
  ultimately show "c = d" by (metis div_mult_mod_eq)
qed

lemma crc_bits_inj: "(crc_bit ^^ n) c = (crc_bit ^^ n) d \<Longrightarrow> c = d"
  by (induction n) (auto dest: crc_bit_inj)

interpretation crc: injective_digest crc_byte
proof unfold_locales
  fix s s' :: u32 and b b' :: u8
  show "crc_byte s b = crc_byte s' b \<Longrightarrow> s = s'"
    unfolding crc_byte_def by (drule crc_bits_inj) simp
  show "crc_byte s b = crc_byte s b' \<Longrightarrow> b = b'"
    unfolding crc_byte_def by (drule crc_bits_inj) (simp, rule ucast_up_inj [where 'b = 32], simp_all)
qed

lemma crc32_one_byte: "crc32 (as @ x # bs) = crc32 (as @ y # bs) \<longleftrightarrow> x = y"
  unfolding crc32_def by (simp only: xor_right_cancel crc.one_byte_changes_digest)

subsection \<open>The record layout\<close>

lemma length_le_bytes [simp]: "length (le_bytes x) = 4"
  by (simp add: le_bytes_def)

lemma le_bytes_inj [simp]: "le_bytes x = le_bytes y \<longleftrightarrow> x = y"
proof
  assume "le_bytes x = le_bytes y"
  then have e: "(ucast (drop_bit k x) :: u8) = ucast (drop_bit k y)" if "k \<in> {0, 8, 16, 24}" for k
    using that by (auto simp: le_bytes_def)
  have b: "bit x (k + i) = bit y (k + i)" if "k \<in> {0, 8, 16, 24}" "i < 8" for k i
    using e [OF that(1)] that(2) by (auto simp: bit_eq_iff bit_ucast_iff bit_drop_bit_eq)
  show "x = y"
  proof (rule bit_word_eqI)
    fix n assume "n < LENGTH(32)"
    then have "n div 8 * 8 \<in> {0, 8, 16, 24}" "n mod 8 < 8" by auto
    from b [OF this] show "bit x n = bit y n" by simp
  qed
qed simp

lemma length_to_bytes: "length (to_bytes r) = OTA_META_RECORD_SIZE"
  by (simp add: to_bytes_def OTA_META_RECORD_SIZE_def)

lemma to_bytes_inj: "to_bytes r = to_bytes r' \<Longrightarrow> r = r'"
  by (simp add: to_bytes_def)

text \<open>The protected prefix and the CRC field.\<close>

lemma to_bytes_split: "to_bytes r = take 28 (to_bytes r) @ le_bytes (mr_record_crc32 r)"
  by (simp add: to_bytes_def)

lemma finalize_valid: "is_valid (finalize r)"
  by (simp add: is_valid_def finalize_def Let_def compute_record_crc32_def to_bytes_def)

text \<open>
  A record whose image on flash differs from a valid one in a single byte is invalid: in the prefix
  the stored CRC no longer matches, in the CRC field it is the computed one that still does.
\<close>

lemma corrupted_record_invalid:
  assumes v: "is_valid r" and b: "to_bytes r = as @ x # bs" "to_bytes r' = as @ y # bs" and ne: "x \<noteq> y"
  shows "\<not> is_valid r'"
proof
  assume v': "is_valid r'"
  have len: "length (as @ x # bs) = 32"
    using length_to_bytes [of r] b(1) by (simp add: OTA_META_RECORD_SIZE_def)
  show False
  proof (cases "length as < 28")
    case True
    then have t: "take 28 (as @ z # bs) = as @ z # take (27 - length as) bs" for z
      by (simp add: take_Cons' Suc_diff_Suc)
    from True len have d: "drop 28 (as @ x # bs) = drop 28 (as @ y # bs)"
      by (simp add: drop_Cons')
    have "le_bytes (mr_record_crc32 r) = le_bytes (mr_record_crc32 r')"
      using d b to_bytes_split [of r] to_bytes_split [of r'] len length_to_bytes
      by (metis append_eq_conv_conj append_take_drop_id)
    then have "compute_record_crc32 r = compute_record_crc32 r'"
      using v v' by (simp add: is_valid_def)
    then show False using ne unfolding compute_record_crc32_def b t crc32_one_byte by simp
  next
    case False
    then have "take 28 (to_bytes r) = take 28 (to_bytes r')" by (simp add: b)
    then have "mr_record_crc32 r = mr_record_crc32 r'"
      using v v' by (simp add: is_valid_def compute_record_crc32_def)
    then have "to_bytes r = to_bytes r'"
      using \<open>take 28 (to_bytes r) = take 28 (to_bytes r')\<close> to_bytes_split by metis
    with b ne show False by simp
  qed
qed

subsection \<open>Runs of the state machine\<close>

datatype ota_op =
  BeginDownload | FinishDownload bool | Verify bool | Commit | OtaReboot | HealthCheck bool
| Rollback | Abort u8

fun ota_step :: "ota_slot_model \<Rightarrow> ota_op \<Rightarrow> ota_slot_model" where
  "ota_step m BeginDownload = begin_download m"
| "ota_step m (FinishDownload c) = snd (finish_download m c)"
| "ota_step m (Verify c) = snd (verify m c)"
| "ota_step m Commit = snd (commit m)"
| "ota_step m OtaReboot = ota_reboot m"
| "ota_step m (HealthCheck h) = snd (health_check m h)"
| "ota_step m Rollback = rollback m"
| "ota_step m (Abort reason) = ota_abort m reason"

fun ota_run :: "ota_slot_model \<Rightarrow> ota_op list \<Rightarrow> ota_slot_model" where
  "ota_run m [] = m"
| "ota_run m (op # ops) = ota_run (ota_step m op) ops"

lemma ota_run_append: "ota_run m (as @ bs) = ota_run (ota_run m as) bs"
  by (induction as arbitrary: m) simp_all

lemmas ota_op_defs = begin_download_def finish_download_def verify_def commit_def ota_reboot_def
  health_check_def rollback_def ota_abort_def other_slot_def SLOT_A_def SLOT_B_def Let_def

text \<open>
  The invariant: what each state has already established. An image is armed only when it was written
  completely and verified, and the active slot differs from the old one only in \<open>Healthy\<close>.
\<close>

definition ota_inv :: "ota_slot_model \<Rightarrow> bool" where
  "ota_inv m \<longleftrightarrow>
     (case om_state m of
        Idle \<Rightarrow> \<not> om_committed m \<and> \<not> om_image_written m
      | Downloading \<Rightarrow> om_target_slot m = other_slot (om_active_slot m) \<and> \<not> om_committed m
      | Verifying \<Rightarrow> om_target_slot m = other_slot (om_active_slot m) \<and> om_crc_ok m \<and> \<not> om_committed m
      | CommitPending \<Rightarrow> om_target_slot m = other_slot (om_active_slot m)
          \<and> om_committed m \<and> om_image_written m \<and> om_crc_ok m
      | Rebooting \<Rightarrow> om_target_slot m = other_slot (om_active_slot m)
          \<and> om_committed m \<and> om_image_written m \<and> om_crc_ok m
      | Healthy \<Rightarrow> om_target_slot m = om_active_slot m
          \<and> om_committed m \<and> om_image_written m \<and> om_crc_ok m \<and> om_boot_healthy m
      | RolledBack \<Rightarrow> om_target_slot m = om_active_slot m
          \<and> \<not> om_committed m \<and> \<not> om_image_written m \<and> \<not> om_boot_healthy m)"

lemma ota_inv_new: "ota_inv ota_new"
  by (simp add: ota_inv_def ota_new_def)

lemma ota_inv_step: "ota_inv m \<Longrightarrow> ota_inv (ota_step m op)"
  by (cases op; cases "om_state m") (auto simp: ota_inv_def ota_op_defs)

lemma ota_inv_run: "ota_inv m \<Longrightarrow> ota_inv (ota_run m ops)"
  by (induction ops arbitrary: m) (auto intro: ota_inv_step)

text \<open>The operations that a state of a run from \<open>ota_new\<close> proves to have happened, in order.\<close>

fun ota_evidence :: "ota_slot_model \<Rightarrow> ota_op list" where
  "ota_evidence m =
     (case om_state m of
        Idle \<Rightarrow> []
      | Downloading \<Rightarrow> BeginDownload # (if om_image_written m then [FinishDownload True] else [])
      | Verifying \<Rightarrow> BeginDownload # (if om_image_written m then [FinishDownload True] else []) @ [Verify True]
      | CommitPending \<Rightarrow> [BeginDownload, FinishDownload True, Verify True, Commit]
      | Rebooting \<Rightarrow> [BeginDownload, FinishDownload True, Verify True, Commit, OtaReboot]
      | Healthy \<Rightarrow>
          [BeginDownload, FinishDownload True, Verify True, Commit, OtaReboot, HealthCheck True]
      | RolledBack \<Rightarrow> [])"

lemma evidence_step:
  "ota_inv m \<Longrightarrow> ota_evidence (ota_step m op) = []
     \<or> ota_evidence (ota_step m op) = ota_evidence m
     \<or> ota_evidence (ota_step m op) = ota_evidence m @ [op]"
  by (cases op; cases "om_state m") (auto simp: ota_inv_def ota_op_defs)

lemma evidence_subseq: "subseq (ota_evidence (ota_run ota_new ops)) ops"
proof (induction ops rule: rev_induct)
  case Nil
  show ?case by (simp add: ota_new_def)
next
  case (snoc op ops)
  let ?m = "ota_run ota_new ops"
  from evidence_step [OF ota_inv_run [OF ota_inv_new], of ops op]
  show ?case
  proof (elim disjE)
    assume "ota_evidence (ota_step ?m op) = ota_evidence ?m"
    with snoc show ?thesis
      by (simp add: ota_run_append subseq_rev_drop_many del: ota_evidence.simps)
  next
    assume "ota_evidence (ota_step ?m op) = ota_evidence ?m @ [op]"
    with snoc show ?thesis
      by (simp add: ota_run_append list_emb_append_mono del: ota_evidence.simps)
  qed (simp add: ota_run_append del: ota_evidence.simps)
qed

lemma active_slot_step:
  "ota_inv m \<Longrightarrow> om_active_slot (ota_step m op) =
     (if om_state (ota_step m op) = Healthy \<and> om_state m \<noteq> Healthy
      then other_slot (om_active_slot m) else om_active_slot m)"
  by (cases op; cases "om_state m") (auto simp: ota_inv_def ota_op_defs)

lemma healthy_absorbing: "om_state m = Healthy \<Longrightarrow> ota_step m op = m"
  by (cases op) (simp_all add: ota_op_defs)

lemma active_slot_run:
  "om_active_slot (ota_run ota_new ops) = (if om_state (ota_run ota_new ops) = Healthy then SLOT_B else SLOT_A)"
proof (induction ops rule: rev_induct)
  case Nil
  show ?case by (simp add: ota_new_def)
next
  case (snoc op ops)
  let ?m = "ota_run ota_new ops"
  have "ota_inv ?m" by (intro ota_inv_run ota_inv_new)
  from active_slot_step [OF this, of op] snoc healthy_absorbing [of ?m op] show ?case
    by (auto simp: ota_run_append other_slot_def)
qed

lemma boot_slot_active: "ota_inv m \<Longrightarrow> boot_slot m = om_active_slot m"
  by (auto simp: boot_slot_def ota_inv_def)

text \<open>A record that persists the decision fields of a model.\<close>

definition persists :: "meta_record \<Rightarrow> ota_slot_model \<Rightarrow> bool" where
  "persists r m \<longleftrightarrow> mr_active_slot r = om_active_slot m \<and> mr_target_slot r = om_target_slot m
     \<and> mr_state r = ota_state_u8 (om_state m) \<and> (mr_committed r \<noteq> 0 \<longleftrightarrow> om_committed m)
     \<and> (mr_healthy r \<noteq> 0 \<longleftrightarrow> om_boot_healthy m) \<and> mr_abort_reason r = om_abort_reason m"

lemma ota_state_roundtrip [simp]: "ota_state_from_u8 (ota_state_u8 st) = st"
  by (cases st) (simp_all add: ota_state_from_u8_def)

lemma ota_state_u8_inj [simp]: "ota_state_u8 a = ota_state_u8 b \<longleftrightarrow> a = b"
  by (metis ota_state_roundtrip)

lemma recover_fields:
  "om_state (recover_after_reset m0 r) = ota_state_from_u8 (mr_state r)"
  "om_active_slot (recover_after_reset m0 r) = mr_active_slot r"
  "om_target_slot (recover_after_reset m0 r) = mr_target_slot r"
  "om_committed (recover_after_reset m0 r) = (mr_committed r \<noteq> 0)"
  "om_image_written (recover_after_reset m0 r) = (mr_state r \<ge> 3)"
  by (simp_all add: recover_after_reset_def Let_def)

lemma persists_recover:
  assumes "persists r m"
  shows "om_state (recover_after_reset m0 r) = om_state m"
    "om_active_slot (recover_after_reset m0 r) = om_active_slot m"
    "boot_slot (recover_after_reset m0 r) = boot_slot m"
  using assms by (auto simp: recover_fields persists_def boot_slot_def)

text \<open>The active slot moves only in a healthy self-test of a committed update.\<close>

definition boots_active :: "ota_slot_model \<Rightarrow> bool" where
  "boots_active m \<longleftrightarrow> (om_state m = Healthy \<longrightarrow> om_target_slot m = om_active_slot m)"

lemma boots_active_step: "boots_active m \<Longrightarrow> boots_active (ota_step m op)"
  by (cases op) (auto simp: boots_active_def ota_op_defs)

lemma boots_active_slot: "boots_active m \<Longrightarrow> boot_slot m = om_active_slot m"
  by (auto simp: boots_active_def boot_slot_def)

lemma active_slot_moves:
  "om_active_slot (ota_step m op) \<noteq> om_active_slot m \<Longrightarrow> op = HealthCheck True \<and> om_state m = Rebooting"
  by (cases op) (auto simp: ota_op_defs split: if_splits)

lemma active_slot_needs_health:
  "HealthCheck True \<notin> set ops \<Longrightarrow> boots_active m \<Longrightarrow>
     om_active_slot (ota_run m ops) = om_active_slot m \<and> boots_active (ota_run m ops)"
proof (induction ops arbitrary: m)
  case (Cons op ops)
  with active_slot_moves [of m op] boots_active_step [of m op] Cons.IH [of "ota_step m op"]
  show ?case by auto
qed simp

text \<open>A download that was not finished before the reset cannot get past \<open>Verifying\<close>.\<close>

definition unarmed :: "ota_slot_model \<Rightarrow> bool" where
  "unarmed m \<longleftrightarrow> om_state m = RolledBack \<or> (om_state m = Verifying \<and> \<not> om_image_written m)"

lemma unarmed_step:
  "unarmed m \<Longrightarrow> unarmed (ota_step m op) \<and> om_active_slot (ota_step m op) = om_active_slot m"
  by (cases op) (auto simp: unarmed_def ota_op_defs)

lemma unarmed_run:
  "unarmed m \<Longrightarrow> unarmed (ota_run m ops) \<and> om_active_slot (ota_run m ops) = om_active_slot m"
proof (induction ops arbitrary: m)
  case (Cons op ops)
  with unarmed_step [of m op] Cons.IH [of "ota_step m op"] show ?case by simp
qed simp

lemma unarmed_boot: "unarmed m \<Longrightarrow> boot_slot m = om_active_slot m"
  by (auto simp: unarmed_def boot_slot_def)

subsection \<open>Properties\<close>

text \<open>
  Claim C22. The bootloader leaves slot A only through the whole update protocol: if a run of any
  operations from a fresh model ends with another boot slot, then a download was begun, completed,
  verified, committed, rebooted into and found healthy, in this order, and the boot slot is then B.
\<close>

theorem ota_boot_slot_needs_full_protocol:
  assumes "boot_slot (ota_run ota_new ops) \<noteq> SLOT_A"
  shows "boot_slot (ota_run ota_new ops) = SLOT_B
     \<and> subseq [BeginDownload, FinishDownload True, Verify True, Commit, OtaReboot, HealthCheck True] ops"
proof -
  have b: "boot_slot (ota_run ota_new ops) = om_active_slot (ota_run ota_new ops)"
    by (intro boot_slot_active ota_inv_run ota_inv_new)
  with assms active_slot_run [of ops] have h: "om_state (ota_run ota_new ops) = Healthy"
    by (auto split: if_splits)
  with evidence_subseq [of ops] b active_slot_run [of ops] show ?thesis by simp
qed

theorem ota_boot_slot_needs_full_protocol_witness:
  "let ops = [BeginDownload, FinishDownload True, Commit, Verify True, Commit, OtaReboot, HealthCheck True]
   in boot_slot (ota_run ota_new ops) \<noteq> SLOT_A \<and> boot_slot (ota_run ota_new ops) = SLOT_B"
proof -
  let ?ops = "[BeginDownload, FinishDownload True, Commit, Verify True, Commit, OtaReboot, HealthCheck True]"
  have "boot_slot (ota_run ota_new ?ops) \<noteq> SLOT_A"
    by (simp add: ota_op_defs ota_new_def boot_slot_def)
  with ota_boot_slot_needs_full_protocol [OF this] show ?thesis unfolding Let_def by blast
qed

text \<open>
  An update is armed only for a good image: in every state of a run from a fresh model,
  \<open>committed\<close> implies that the image was written completely and its CRC verified, and the target
  is the inactive slot until the update is healthy; a healthy update is never undone.
\<close>

theorem ota_committed_implies_verified:
  "let m = ota_run ota_new ops in
     (om_committed m \<longleftrightarrow> om_state m \<in> {CommitPending, Rebooting, Healthy})
   \<and> (om_committed m \<longrightarrow> om_image_written m \<and> om_crc_ok m)
   \<and> (om_state m \<in> {Downloading, Verifying, CommitPending, Rebooting} \<longrightarrow>
        om_target_slot m = other_slot (om_active_slot m))
   \<and> (om_state m = Healthy \<longrightarrow> ota_run m ops' = m)"
proof -
  have "ota_inv (ota_run ota_new ops)" by (intro ota_inv_run ota_inv_new)
  moreover have "om_state m = Healthy \<Longrightarrow> ota_run m ops' = m" for m
    by (induction ops' arbitrary: m) (simp_all add: healthy_absorbing)
  ultimately show ?thesis
    by (cases "om_state (ota_run ota_new ops)") (simp_all add: ota_inv_def Let_def)
qed

theorem ota_committed_implies_verified_witness:
  "ota_run (ota_run ota_new [BeginDownload, FinishDownload True, Verify True, Commit, OtaReboot, HealthCheck True])
     [Rollback, Abort 3] =
   ota_run ota_new [BeginDownload, FinishDownload True, Verify True, Commit, OtaReboot, HealthCheck True]"
proof -
  let ?ops = "[BeginDownload, FinishDownload True, Verify True, Commit, OtaReboot, HealthCheck True]"
  have "om_state (ota_run ota_new ?ops) = Healthy"
    by (simp add: ota_op_defs ota_new_def)
  with ota_committed_implies_verified [of ?ops "[Rollback, Abort 3]"] show ?thesis
    by (simp only: Let_def)
qed

text \<open>
  Claim C23. Power-cut safety: a model recovered from a persisted record is in the persisted state and
  boots the same slot; whatever operations follow, the boot slot changes only if a healthy self-test is
  among them, and an update that was cut while verifying never changes it.
\<close>

theorem ota_recovery_is_safe:
  assumes "persists r (ota_run ota_new before)"
  shows "let m = ota_run ota_new before; m' = recover_after_reset m0 r in
       om_state m' = om_state m \<and> boot_slot m' = boot_slot m
     \<and> (HealthCheck True \<notin> set ops \<longrightarrow> boot_slot (ota_run m' ops) = boot_slot m)
     \<and> (om_state m = Verifying \<longrightarrow> boot_slot (ota_run m' ops) = boot_slot m)"
proof -
  let ?m = "ota_run ota_new before" and ?m' = "recover_after_reset m0 r"
  have inv: "ota_inv ?m" by (intro ota_inv_run ota_inv_new)
  have ba: "boots_active ?m'"
    using assms inv by (auto simp: boots_active_def recover_fields persists_def ota_inv_def)
  have "om_state ?m = Verifying \<Longrightarrow> unarmed ?m'"
    using assms by (simp add: unarmed_def recover_fields persists_def ota_state_from_u8_def)
  then show ?thesis
    using persists_recover [OF assms] active_slot_needs_health [OF _ ba, of ops] boots_active_slot
      unarmed_run [of ?m' ops] unarmed_boot ba boot_slot_active [OF inv]
    by (simp add: Let_def)
qed

theorem ota_recovery_is_safe_witness:
  "boot_slot (ota_run (recover_after_reset ota_new
      \<lparr>mr_magic = 0, mr_format_version = 1, mr_active_slot = 0, mr_target_slot = 1, mr_state = 2, mr_committed = 0,
       mr_boot_attempt_count = 0, mr_healthy = 0, mr_abort_reason = 0, mr_generation = 1, mr_image_length = 0,
       mr_image_crc32 = 0, mr_reserved = 0, mr_record_crc32 = 0\<rparr>) [Commit, OtaReboot, HealthCheck True]) = SLOT_A"
proof -
  let ?r = "\<lparr>mr_magic = 0, mr_format_version = 1, mr_active_slot = 0, mr_target_slot = 1, mr_state = 2, mr_committed = 0,
       mr_boot_attempt_count = 0, mr_healthy = 0, mr_abort_reason = 0, mr_generation = 1, mr_image_length = 0,
       mr_image_crc32 = 0, mr_reserved = 0, mr_record_crc32 = 0\<rparr>"
  let ?b = "[BeginDownload, FinishDownload True, Verify True]"
  have p: "persists ?r (ota_run ota_new ?b)"
    by (simp add: persists_def ota_op_defs ota_new_def)
  have "om_state (ota_run ota_new ?b) = Verifying" "boot_slot (ota_run ota_new ?b) = SLOT_A"
    by (simp_all add: ota_op_defs ota_new_def boot_slot_def)
  with ota_recovery_is_safe [OF p, of ota_new "[Commit, OtaReboot, HealthCheck True]"]
  show ?thesis by (simp only: Let_def)
qed

text \<open>
  Claim C24. The metadata record survives damage to one copy: a finalized record is valid, a record
  whose 32 bytes differ from those of a valid one in exactly one byte is not, and of a valid copy and
  such a damaged one the bootloader selects the valid copy, in either order.
\<close>

theorem ota_record_detects_one_byte_damage:
  assumes "is_valid r" "to_bytes r = as @ x # bs" "to_bytes r' = as @ y # bs" "x \<noteq> y" "is_valid good"
  shows "\<not> is_valid r' \<and> select_record good r' = Some good \<and> select_record r' good = Some good
     \<and> is_valid (finalize r')"
  using corrupted_record_invalid [OF assms(1-4)] assms(5) by (simp add: select_record_def finalize_valid)

theorem ota_record_detects_one_byte_damage_witness:
  "\<not> is_valid ((finalize \<lparr>mr_magic = 0, mr_format_version = 0, mr_active_slot = 0, mr_target_slot = 1, mr_state = 3,
       mr_committed = 1, mr_boot_attempt_count = 0, mr_healthy = 0, mr_abort_reason = 0, mr_generation = 7,
       mr_image_length = 4096, mr_image_crc32 = 0xDEADBEEF, mr_reserved = 0, mr_record_crc32 = 0\<rparr>)\<lparr>mr_target_slot := 0\<rparr>)"
proof -
  let ?r = "finalize \<lparr>mr_magic = 0, mr_format_version = 0, mr_active_slot = 0, mr_target_slot = 1, mr_state = 3,
       mr_committed = 1, mr_boot_attempt_count = 0, mr_healthy = 0, mr_abort_reason = 0, mr_generation = 7,
       mr_image_length = 4096, mr_image_crc32 = 0xDEADBEEF, mr_reserved = 0, mr_record_crc32 = 0\<rparr>"
  have t: "mr_target_slot ?r = 1" by (simp add: finalize_def Let_def)
  have v: "is_valid ?r" by (rule finalize_valid)
  have "to_bytes ?r = take 6 (to_bytes ?r) @ 1 # drop 7 (to_bytes ?r)"
    "to_bytes (?r\<lparr>mr_target_slot := 0\<rparr>) = take 6 (to_bytes ?r) @ 0 # drop 7 (to_bytes ?r)"
    by (simp_all add: to_bytes_def t le_bytes_def)
  from ota_record_detects_one_byte_damage [OF v this _ v] show ?thesis by simp
qed

text \<open>
  The bootloader picks the newest valid record: \<open>select_record\<close> fails exactly when both
  copies are invalid, and otherwise returns a valid copy whose generation no valid copy exceeds.
\<close>

theorem ota_select_newest_valid:
  "(select_record a b = None \<longleftrightarrow> \<not> is_valid a \<and> \<not> is_valid b)
   \<and> (select_record a b = Some r \<longrightarrow> r \<in> {a, b} \<and> is_valid r
        \<and> (\<forall>r'. r' \<in> {a, b} \<and> is_valid r' \<longrightarrow> mr_generation r' \<le> mr_generation r))"
  by (auto simp: select_record_def split: if_splits bool.splits)

theorem ota_select_newest_valid_witness:
  "let a = finalize \<lparr>mr_magic = 0, mr_format_version = 0, mr_active_slot = 0, mr_target_slot = 1, mr_state = 5,
       mr_committed = 1, mr_boot_attempt_count = 0, mr_healthy = 0, mr_abort_reason = 0, mr_generation = 5,
       mr_image_length = 0, mr_image_crc32 = 0, mr_reserved = 0, mr_record_crc32 = 0\<rparr>
   in select_record a a \<noteq> None"
  using ota_select_newest_valid finalize_valid by (simp add: Let_def)

end
