(* ===== verification/Vehicle.thy ===== *)
theory Vehicle
  imports Prelude
begin

text \<open>
  \<^verbatim>\<open>plant/src/vehicle.rs\<close>: the longitudinal dynamics of the simulated vehicle. The speed is a
  \<open>u16\<close> in tenths of km/h, the update is computed in \<open>i32\<close> and truncated back; the lemmas show
  when the multiplication cannot overflow and when the truncation loses nothing.
\<close>

record vehicle_plant =
  vp_speed_kph_x10 :: u16
  vp_throttle_percent :: u8
  vp_brake_pressed :: bool
  vp_motor_torque_percent :: i8
  vp_charger_plugged :: bool

definition vehicle_new :: vehicle_plant where
  "vehicle_new = \<lparr>vp_speed_kph_x10 = 0, vp_throttle_percent = 0, vp_brake_pressed = False,
                  vp_motor_torque_percent = 0, vp_charger_plugged = False\<rparr>"

text \<open>\<open>dt_ms as i32\<close> reinterprets the word, so \<open>dt\<close> is \<open>sint dt_ms\<close>.\<close>

definition vehicle_step :: "u32 \<Rightarrow> vehicle_plant \<Rightarrow> vehicle_plant option" where
  "vehicle_step dt_ms v = do {
     let effective_torque = (if vp_brake_pressed v then 0 else sint (vp_motor_torque_percent v));
     accel \<leftarrow> chk_i32 (effective_torque * sint dt_ms);
     let delta = accel sdiv 100;
     loss \<leftarrow> chk_i32 (uint (vp_speed_kph_x10 v) * sint dt_ms);
     let drag = loss sdiv 10000;
     let new_speed = max (sat_i32 (sat_i32 (uint (vp_speed_kph_x10 v) + delta) - drag)) 0;
     Some (v\<lparr>vp_speed_kph_x10 := word_of_int new_speed\<rparr>)
   }"

definition set_driver_input :: "u8 \<Rightarrow> bool \<Rightarrow> vehicle_plant \<Rightarrow> vehicle_plant" where
  "set_driver_input throttle_percent brake_pressed v =
     v\<lparr>vp_throttle_percent := throttle_percent, vp_brake_pressed := brake_pressed\<rparr>"

definition set_motor_torque :: "i8 \<Rightarrow> vehicle_plant \<Rightarrow> vehicle_plant" where
  "set_motor_torque torque_percent v = v\<lparr>vp_motor_torque_percent := torque_percent\<rparr>"

subsection \<open>The reference update over the integers\<close>

definition torque_in_force :: "vehicle_plant \<Rightarrow> int" where
  "torque_in_force v = (if vp_brake_pressed v then 0 else sint (vp_motor_torque_percent v))"

definition speed_after :: "int \<Rightarrow> int \<Rightarrow> int \<Rightarrow> int" where
  "speed_after dt torque s = max 0 (s + torque * dt sdiv 100 - s * dt sdiv 10000)"

lemma sint_small_u32: "uint (d :: u32) < 2 ^ 31 \<Longrightarrow> sint d = uint d"
proof -
  assume "uint d < 2 ^ 31"
  then have "sint (word_of_int (uint d) :: u32) = uint d"
    by (intro sint_word_of_int_range) (auto intro: order_trans [OF _ uint_ge_0])
  then show ?thesis by simp
qed

lemma sdiv_pos_nonneg [simp]: "0 \<le> z \<Longrightarrow> 0 < c \<Longrightarrow> z sdiv c = z div (c :: int)"
  by (cases "z = 0") (auto simp: signed_divide_int_def sgn_if)

lemma sdiv_pos_neg: "z < 0 \<Longrightarrow> 0 < c \<Longrightarrow> z sdiv c = - ((- z) div (c :: int))"
  by (auto simp: signed_divide_int_def sgn_if)

lemma sdiv_abs_le: "0 < c \<Longrightarrow> \<bar>z sdiv c\<bar> \<le> \<bar>z\<bar>" for z c :: int
proof -
  assume "0 < c"
  have "w div c \<le> w" "0 \<le> w div c" if "0 \<le> w" for w
    using that \<open>0 < c\<close> zdiv_mono2 [of w 1 c] by (auto simp: pos_imp_zdiv_nonneg_iff)
  from this [of z] this [of "- z"] show ?thesis
    using \<open>0 < c\<close> by (cases "0 \<le> z") (auto simp: sdiv_pos_neg)
qed

lemma sdiv_nonpos: "z \<le> 0 \<Longrightarrow> 0 < c \<Longrightarrow> z sdiv c \<le> (0 :: int)"
  by (cases "z = 0") (auto simp: sdiv_pos_neg pos_imp_zdiv_nonneg_iff)

lemma speed_after_nonneg: "0 \<le> speed_after dt torque s"
  by (simp add: speed_after_def)

text \<open>
  For a torque of at most \<open>cap\<close> percent the drag balances the drive at \<open>100 * cap\<close>: the speed
  never passes that value once below it, whatever the tick length up to ten seconds.
\<close>

lemma speed_after_cap:
  assumes "0 \<le> dt" "dt \<le> 10000" "torque \<le> cap" "0 \<le> cap" "0 \<le> s" "s \<le> 100 * cap"
  shows "speed_after dt torque s \<le> 100 * cap"
proof -
  define k where "k = 100 * cap - s"
  have k: "0 \<le> k" using assms by (simp add: k_def)
  have accel: "torque * dt sdiv 100 \<le> cap * dt div 100"
  proof (cases "0 \<le> torque * dt")
    case True
    have "torque * dt \<le> cap * dt" using assms by (simp add: mult_right_mono)
    with True show ?thesis by (simp add: zdiv_mono1)
  next
    case False
    then have "torque * dt sdiv 100 \<le> 0" by (intro sdiv_nonpos) auto
    moreover have "0 \<le> cap * dt div 100" using assms by (simp add: pos_imp_zdiv_nonneg_iff)
    ultimately show ?thesis by linarith
  qed
  have "k * dt \<le> k * 10000" using k assms by (simp add: mult_left_mono)
  then have "cap * dt * 100 - k * 10000 \<le> s * dt"
    by (simp add: k_def algebra_simps)
  then have "(cap * dt * 100 - k * 10000) div 10000 \<le> s * dt div 10000"
    by (rule zdiv_mono1) simp
  moreover have "(cap * dt * 100 - k * 10000) div 10000 = cap * dt div 100 - k"
  proof -
    have "(cap * dt * 100 - k * 10000) div 10000 = ((cap * dt - k * 100) * 100) div (100 * 100)"
      by (simp add: algebra_simps)
    also have "\<dots> = (cap * dt - k * 100) div 100" by simp
    also have "\<dots> = cap * dt div 100 - k" by simp
    finally show ?thesis .
  qed
  ultimately have "cap * dt div 100 - k \<le> s * dt sdiv 10000" using assms by simp
  with accel show ?thesis using assms by (simp add: speed_after_def k_def)
qed

lemma speed_after_brake: "0 \<le> dt \<Longrightarrow> 0 \<le> s \<Longrightarrow> torque \<le> 0 \<Longrightarrow> speed_after dt torque s \<le> s"
proof -
  assume "0 \<le> dt" "0 \<le> s" "torque \<le> 0"
  then have "torque * dt sdiv 100 \<le> 0" "0 \<le> s * dt sdiv 10000"
    by (auto intro!: sdiv_nonpos simp: mult_nonpos_nonneg pos_imp_zdiv_nonneg_iff)
  with \<open>0 \<le> s\<close> show ?thesis by (simp add: speed_after_def)
qed

subsection \<open>The word-level step computes the reference\<close>

lemma torque_in_force_range: "-128 \<le> torque_in_force v \<and> torque_in_force v \<le> 127"
  using sint_i8_range [of "vp_motor_torque_percent v"] by (auto simp: torque_in_force_def)

text \<open>No multiplication of the step overflows for a tick of at most ten seconds.\<close>

lemma vehicle_step_total:
  assumes "uint dt \<le> 10000"
  shows "vehicle_step dt v =
    Some (v\<lparr>vp_speed_kph_x10 :=
      word_of_int (speed_after (uint dt) (torque_in_force v) (uint (vp_speed_kph_x10 v)))\<rparr>)"
proof -
  let ?s = "uint (vp_speed_kph_x10 v)" and ?t = "torque_in_force v" and ?d = "uint dt"
  have d: "sint dt = ?d" using assms by (intro sint_small_u32) simp
  have s: "0 \<le> ?s" "?s < 65536" using uint_u16_range [of "vp_speed_kph_x10 v"] by auto
  have "\<bar>?t\<bar> * ?d \<le> 128 * 10000"
    using torque_in_force_range [of v] assms by (intro mult_mono) auto
  then have a: "\<bar>?t * ?d\<bar> \<le> 1280000" by (simp add: abs_mult)
  have "?s * ?d \<le> 65535 * 10000" using s assms by (intro mult_mono) auto
  then have l: "0 \<le> ?s * ?d" "?s * ?d \<le> 655350000" using s by auto
  have da: "\<bar>?t * ?d sdiv 100\<bar> \<le> 1280000" using sdiv_abs_le [of 100 "?t * ?d"] a by linarith
  have dl: "0 \<le> ?s * ?d sdiv 10000" "?s * ?d sdiv 10000 \<le> 655350000"
    using l sdiv_abs_le [of 10000 "?s * ?d"] by (auto simp: pos_imp_zdiv_nonneg_iff)
  have i1: "in_i32 (?s + ?t * ?d sdiv 100)" using da s by (intro in_i32I) linarith+
  have i2: "in_i32 (?s + ?t * ?d sdiv 100 - ?s * ?d sdiv 10000)"
    using da s dl by (intro in_i32I) linarith+
  have c1: "chk_i32 (?t * ?d) = Some (?t * ?d)" using a by (simp add: in_i32I abs_le_iff)
  have "in_i32 (?s * ?d)" using l by (intro in_i32I) linarith+
  then have c2: "chk_i32 (?s * ?d) = Some (?s * ?d)" by simp
  show ?thesis
    unfolding vehicle_step_def d torque_in_force_def [symmetric]
    by (simp only: Let_def c1 c2 Option.bind.bind_lunit sat_i32_id [OF i1] sat_i32_id [OF i2]
        speed_after_def max.commute)
qed

text \<open>Below the drag balance the truncation to \<open>u16\<close> is the identity.\<close>

lemma vehicle_step_speed:
  assumes "uint dt \<le> 10000" "uint (vp_speed_kph_x10 v) \<le> 12700"
  obtains v' where "vehicle_step dt v = Some v'"
    "uint (vp_speed_kph_x10 v') =
       speed_after (uint dt) (torque_in_force v) (uint (vp_speed_kph_x10 v))"
    "uint (vp_speed_kph_x10 v') \<le> 12700"
    "v' = v\<lparr>vp_speed_kph_x10 := vp_speed_kph_x10 v'\<rparr>"
proof -
  let ?n = "speed_after (uint dt) (torque_in_force v) (uint (vp_speed_kph_x10 v))"
  have "?n \<le> 100 * 127"
    using assms torque_in_force_range [of v] by (intro speed_after_cap) auto
  moreover have "0 \<le> ?n" by (rule speed_after_nonneg)
  ultimately have "uint (word_of_int ?n :: u16) = ?n" by (simp add: uint_word_of_int)
  with \<open>?n \<le> _\<close> show ?thesis
    using that vehicle_step_total [OF assms(1), of v] by simp
qed

subsection \<open>Driving\<close>

lemma vehicle_fields [simp]:
  "vp_speed_kph_x10 (set_driver_input t b v) = vp_speed_kph_x10 v"
  "vp_speed_kph_x10 (set_motor_torque q v) = vp_speed_kph_x10 v"
  "vp_brake_pressed (set_driver_input t b v) = b"
  "vp_brake_pressed (set_motor_torque q v) = vp_brake_pressed v"
  "vp_throttle_percent (set_driver_input t b v) = t"
  "vp_throttle_percent (set_motor_torque q v) = vp_throttle_percent v"
  "vp_motor_torque_percent (set_motor_torque q v) = q"
  by (simp_all add: set_driver_input_def set_motor_torque_def)

text \<open>
  For a tick of at most ten seconds a step of the vehicle never overflows, and from any
  speed that at most \<open>cap\<close> percent of torque can sustain, it leaves the exact integer
  result, unwrapped, still sustainable at \<open>cap\<close>; with the brake pressed the speed does not
  rise.
\<close>

theorem vehicle_speed_never_wraps:
  assumes "uint dt \<le> 10000" "sint (vp_motor_torque_percent v) \<le> cap" "0 \<le> cap" "cap \<le> 127"
    and "uint (vp_speed_kph_x10 v) \<le> 100 * cap"
  shows "\<exists>v'. vehicle_step dt v = Some v' \<and>
    uint (vp_speed_kph_x10 v') =
      speed_after (uint dt) (torque_in_force v) (uint (vp_speed_kph_x10 v)) \<and>
    uint (vp_speed_kph_x10 v') \<le> 100 * cap \<and>
    (\<not> vp_brake_pressed v \<or> vp_speed_kph_x10 v' \<le> vp_speed_kph_x10 v)"
proof -
  have "uint (vp_speed_kph_x10 v) \<le> 12700" using assms by linarith
  from vehicle_step_speed [OF assms(1) this] obtain v' where v': "vehicle_step dt v = Some v'"
    "uint (vp_speed_kph_x10 v') =
       speed_after (uint dt) (torque_in_force v) (uint (vp_speed_kph_x10 v))"
    by blast
  have "torque_in_force v \<le> cap" using assms by (simp add: torque_in_force_def)
  then have "uint (vp_speed_kph_x10 v') \<le> 100 * cap"
    unfolding v'(2) using assms by (intro speed_after_cap) auto
  moreover have "vp_speed_kph_x10 v' \<le> vp_speed_kph_x10 v" if "vp_brake_pressed v"
    unfolding word_le_def v'(2) using that by (intro speed_after_brake) (auto simp: torque_in_force_def)
  ultimately show ?thesis using v' by blast
qed

theorem vehicle_speed_never_wraps_witness:
  "\<exists>v'. vehicle_step 10 (set_motor_torque 30 vehicle_new) = Some v' \<and>
    uint (vp_speed_kph_x10 v') = 3"
proof -
  have eq: "speed_after 10 30 0 = 3" by (simp add: speed_after_def)
  show ?thesis
    using vehicle_speed_never_wraps [of 10 "set_motor_torque 30 vehicle_new" 100]
    by (auto simp: vehicle_new_def set_motor_torque_def torque_in_force_def eq)
qed

end
