(* ===== verification/Battery.thy ===== *)
theory Battery
  imports Vehicle
begin

text \<open>
  \<^verbatim>\<open>plant/src/battery.rs\<close>: state of charge, temperature, current and voltage of the pack. The
  updates run in \<open>i64\<close> and are stored at 8, 16 and 32 bits; the lemmas give the ranges in which
  no operator overflows and no store truncates. An \<open>f32\<close> occurs only as the integral
  temperature of an injected fault, so it is modelled by its integer value with the rounding of
  the 24-bit significand written out.
\<close>

record battery_model =
  bt_soc_percent :: u8
  bt_soc_milli :: i64
  bt_temp_c_x10 :: i16
  bt_voltage_mv :: u16
  bt_current_ma :: i32
  bt_nominal_voltage_mv :: u16

definition battery_default :: battery_model where
  "battery_default = \<lparr>bt_soc_percent = 80, bt_soc_milli = 80000, bt_temp_c_x10 = 250,
     bt_voltage_mv = 48000, bt_current_ma = 0, bt_nominal_voltage_mv = 48000\<rparr>"

definition battery_new :: battery_model where
  "battery_new = battery_default"

text \<open>
  All operands are unsigned and \<open>nominal * soc\<close> is at most \<open>65535 * 255\<close>, inside \<open>u32\<close>;
  \<open>unsigned_abs\<close> of an \<open>i32\<close> is its absolute value; the last cast truncates to 16 bits.
\<close>

definition calc_voltage :: "battery_model \<Rightarrow> u16" where
  "calc_voltage b =
     (let soc_factor = unat (bt_soc_percent b);
          sag = nat \<bar>sint (bt_current_ma b)\<bar> div 10;
          v = unat (bt_nominal_voltage_mv b) * soc_factor div 100
      in of_nat (v - sag))"

definition battery_with_state :: "u8 \<Rightarrow> i16 \<Rightarrow> battery_model" where
  "battery_with_state soc_percent temp_c_x10 =
     (let soc_milli = word_of_int (uint soc_percent * 1000);
          b = battery_default\<lparr>bt_soc_percent := soc_percent, bt_soc_milli := soc_milli,
                              bt_temp_c_x10 := temp_c_x10\<rparr>
      in b\<lparr>bt_voltage_mv := calc_voltage b\<rparr>)"

text \<open>The two updates share their last half, which the source writes twice.\<close>

definition heat_and_cool :: "int \<Rightarrow> int \<Rightarrow> battery_model \<Rightarrow> battery_model option" where
  "heat_and_cool i_amps dt b = do {
     sq \<leftarrow> chk_i64 (i_amps * i_amps);
     heat \<leftarrow> chk_i64 (sq * dt);
     let heat_rise = heat sdiv 25000;
     let above_ambient = max (sint (bt_temp_c_x10 b) - 250) 0;
     cool \<leftarrow> chk_i64 (above_ambient * dt);
     let cooling = cool sdiv 100000;
     let new_temp = max (sat_i64 (sat_i64 (sint (bt_temp_c_x10 b) + heat_rise) - cooling)) 200;
     let b' = b\<lparr>bt_temp_c_x10 := word_of_int new_temp\<rparr>;
     Some (b'\<lparr>bt_voltage_mv := calc_voltage b'\<rparr>)
   }"

text \<open>\<open>((soc_milli + 500) / 1000).min(100) as u8\<close>\<close>

definition store_soc :: "int \<Rightarrow> battery_model \<Rightarrow> battery_model option" where
  "store_soc milli b = do {
     r \<leftarrow> chk_i64 (milli + 500);
     Some (b\<lparr>bt_soc_milli := word_of_int milli,
             bt_soc_percent := word_of_int (min (r sdiv 1000) 100)\<rparr>)
   }"

definition battery_step :: "i8 \<Rightarrow> u32 \<Rightarrow> battery_model \<Rightarrow> battery_model option" where
  "battery_step torque_percent dt_ms b = do {
     let dt = uint dt_ms;
     let abs_torque = \<bar>sint torque_percent\<bar>;
     current_ma \<leftarrow> chk_i64 (abs_torque * 500);
     let b1 = b\<lparr>bt_current_ma := word_of_int current_ma\<rparr>;
     let capacity_mah = 50000;
     charge \<leftarrow> chk_i64 (current_ma * dt);
     charge \<leftarrow> chk_i64 (charge * 1000);
     let soc_drop_milli = charge sdiv (3600 * capacity_mah);
     let milli = max (sat_i64 (sint (bt_soc_milli b1) - soc_drop_milli)) 0;
     b2 \<leftarrow> store_soc milli b1;
     heat_and_cool (current_ma sdiv 1000) dt b2
   }"

definition battery_step_with_current :: "i32 \<Rightarrow> u32 \<Rightarrow> battery_model \<Rightarrow> battery_model option" where
  "battery_step_with_current current_ma dt_ms b = do {
     let dt = uint dt_ms;
     let b1 = b\<lparr>bt_current_ma := current_ma\<rparr>;
     let current = sint current_ma;
     let capacity_mah = 50000;
     charge \<leftarrow> chk_i64 (current * dt);
     charge \<leftarrow> chk_i64 (charge * 1000);
     let soc_delta_milli = charge sdiv (3600 * capacity_mah);
     diff \<leftarrow> chk_i64 (sint (bt_soc_milli b1) - soc_delta_milli);
     let milli = max 0 (min 100000 diff);
     b2 \<leftarrow> store_soc milli b1;
     heat_and_cool (\<bar>current\<bar> sdiv 1000) dt b2
   }"

definition current_ma_i16 :: "battery_model \<Rightarrow> i16" where
  "current_ma_i16 b = word_of_int (max (-32768) (min 32767 (sint (bt_current_ma b))))"

subsection \<open>Injected temperatures\<close>

text \<open>
  A natural number as an \<open>f32\<close>: the significand keeps 24 bits, a longer number is rounded to
  the nearest representable one, ties to the even significand.
\<close>

fun f32_exponent :: "nat \<Rightarrow> nat" where
  "f32_exponent n = (if n < 2 ^ 24 then 0 else Suc (f32_exponent (n div 2)))"

declare f32_exponent.simps [simp del]

definition f32_round :: "nat \<Rightarrow> nat" where
  "f32_round n =
     (let e = f32_exponent n; q = n div 2 ^ e; r = n mod 2 ^ e
      in (if 2 * r > 2 ^ e \<or> 2 * r = 2 ^ e \<and> odd q then q + 1 else q) * 2 ^ e)"

text \<open>\<open>(temp_c * 10.0) as i16\<close>: a rounded product and a saturating cast.\<close>

definition force_temperature :: "nat \<Rightarrow> battery_model \<Rightarrow> battery_model" where
  "force_temperature temp_c b =
     b\<lparr>bt_temp_c_x10 := word_of_int (min (int (f32_round (temp_c * 10))) 32767)\<rparr>"

lemma f32_round_small: "n < 2 ^ 24 \<Longrightarrow> f32_round n = n"
  by (simp add: f32_round_def f32_exponent.simps [of n])

lemma f32_exponent_bound: "2 ^ 24 \<le> n \<Longrightarrow> 2 ^ 23 * 2 ^ f32_exponent n \<le> n"
proof (induction n rule: f32_exponent.induct)
  case (1 n)
  show ?case
  proof (cases "n div 2 < 2 ^ 24")
    case True
    with 1 show ?thesis by (simp add: f32_exponent.simps [of n] f32_exponent.simps [of "n div 2"])
  next
    case False
    with 1 have "2 ^ 23 * 2 ^ f32_exponent (n div 2) \<le> n div 2" by simp
    with 1 show ?thesis by (simp add: f32_exponent.simps [of n])
  qed
qed

lemma f32_round_large: "2 ^ 24 \<le> n \<Longrightarrow> 2 ^ 23 \<le> f32_round n"
proof -
  assume n: "2 ^ 24 \<le> n"
  define p where "p = (2 :: nat) ^ f32_exponent n"
  have "2 ^ 23 * p \<le> n" using f32_exponent_bound [OF n] by (simp add: p_def)
  then have "2 ^ 23 \<le> n div p"
    by (simp add: p_def less_eq_div_iff_mult_less_eq)
  then have "2 ^ 23 * 1 \<le> n div p * p" by (intro mult_mono) (auto simp: p_def)
  then show ?thesis
    unfolding f32_round_def Let_def p_def [symmetric] by (auto simp: algebra_simps)
qed

text \<open>The detour through \<open>f32\<close> never shows: the stored tenths are exact or saturated.\<close>

lemma force_temperature_exact:
  "bt_temp_c_x10 (force_temperature (f32_round n) b) = word_of_int (min (10 * int n) 32767)"
proof (cases "n < 2 ^ 20")
  case True
  then have "f32_round n = n" "f32_round (n * 10) = n * 10" by (auto intro!: f32_round_small)
  then show ?thesis by (simp add: force_temperature_def mult.commute)
next
  case False
  have big: "3277 \<le> f32_round m" if "3277 \<le> m" for m
    using f32_round_small [of m] f32_round_large [of m] that by (cases "m < 2 ^ 24") auto
  from big [of n] big [of "f32_round n * 10"] False
  have "32767 \<le> int (f32_round (f32_round n * 10))"
  proof (cases "f32_round n * 10 < 2 ^ 24")
    case True
    then show ?thesis using f32_round_small [OF True] big [of n] False by simp
  next
    case large: False
    then show ?thesis using f32_round_large [of "f32_round n * 10"] by simp
  qed
  with False show ?thesis by (simp add: force_temperature_def)
qed

subsection \<open>The invariant of the pack\<close>

text \<open>
  The precise charge is between empty and full, the published percentage is its rounding, and
  the nominal voltage is the constant of the constructor.
\<close>

definition soc_round :: "int \<Rightarrow> int" where
  "soc_round milli = min ((milli + 500) div 1000) 100"

definition battery_ok :: "battery_model \<Rightarrow> bool" where
  "battery_ok b \<longleftrightarrow>
     0 \<le> sint (bt_soc_milli b) \<and> sint (bt_soc_milli b) \<le> 100000 \<and>
     uint (bt_soc_percent b) = soc_round (sint (bt_soc_milli b)) \<and>
     bt_nominal_voltage_mv b = 48000"

lemma battery_default_ok: "battery_ok battery_default"
  by (simp add: battery_ok_def battery_default_def soc_round_def)

lemma battery_with_state_ok: "uint soc \<le> 100 \<Longrightarrow> battery_ok (battery_with_state soc temp)"
proof -
  assume soc: "uint soc \<le> 100"
  have "sint (word_of_int (uint soc * 1000) :: i64) = uint soc * 1000"
    using soc by (intro sint_word_of_int_range) (auto intro: order_trans [OF _ mult_nonneg_nonneg])
  moreover have "(uint soc * 1000 + 500) div 1000 = uint soc" by simp
  ultimately show ?thesis using soc
    by (simp add: battery_ok_def battery_with_state_def battery_default_def soc_round_def Let_def)
qed

lemma soc_round_bounds: "0 \<le> m \<Longrightarrow> 0 \<le> soc_round m \<and> soc_round m \<le> 100"
  by (auto simp: soc_round_def pos_imp_zdiv_nonneg_iff)

lemma soc_round_mono: "m \<le> n \<Longrightarrow> soc_round m \<le> soc_round n"
  unfolding soc_round_def by (intro min.mono zdiv_mono1) auto

text \<open>On a well-formed pack no term of the voltage is truncated.\<close>

lemma calc_voltage_exact:
  assumes "battery_ok b"
  shows "int (unat (calc_voltage b)) =
           max 0 (480 * uint (bt_soc_percent b) - \<bar>sint (bt_current_ma b)\<bar> div 10)"
proof -
  let ?s = "unat (bt_soc_percent b)" and ?g = "nat \<bar>sint (bt_current_ma b)\<bar> div 10"
  have s: "uint (bt_soc_percent b) \<le> 100"
    using assms soc_round_bounds by (simp add: battery_ok_def)
  then have "int ?s \<le> 100" by simp
  then have s': "?s \<le> 100" by linarith
  have v: "unat (bt_nominal_voltage_mv b) * ?s div 100 = 480 * ?s"
    using assms by (simp add: battery_ok_def)
  have "unat (of_nat (480 * ?s - ?g) :: u16) = 480 * ?s - ?g"
    using s' by (simp add: unat_of_nat)
  then have "int (unat (calc_voltage b)) = int (480 * ?s - ?g)"
    by (simp add: calc_voltage_def Let_def v)
  also have "\<dots> = max 0 (480 * int ?s - int ?g)" by linarith
  also have "int ?g = \<bar>sint (bt_current_ma b)\<bar> div 10" by (simp add: zdiv_int)
  finally show ?thesis by simp
qed

subsection \<open>The shared second half of an update\<close>

lemma store_soc_total:
  assumes "0 \<le> milli" "milli \<le> 100000"
  shows "store_soc milli b = Some (b\<lparr>bt_soc_milli := word_of_int milli,
                                     bt_soc_percent := word_of_int (soc_round milli)\<rparr>)"
  using assms by (simp add: store_soc_def chk_i64_def in_i64_def soc_round_def)

lemma store_soc_values:
  assumes "0 \<le> milli" "milli \<le> 100000"
  shows "sint (word_of_int milli :: i64) = milli"
    and "uint (word_of_int (soc_round milli) :: u8) = soc_round milli"
  using assms soc_round_bounds [of milli]
  by (auto intro!: sint_word_of_int_range simp: uint_word_of_int)

definition temp_after :: "int \<Rightarrow> int \<Rightarrow> int \<Rightarrow> int" where
  "temp_after i_amps dt t =
     max 200 (t + i_amps * i_amps * dt div 25000 - max (t - 250) 0 * dt div 100000)"

lemma heat_and_cool_total:
  assumes "0 \<le> i" "i \<le> 2147483" "0 \<le> dt" "dt \<le> 1000000"
  shows "heat_and_cool i dt b =
    (let b' = b\<lparr>bt_temp_c_x10 := word_of_int (temp_after i dt (sint (bt_temp_c_x10 b)))\<rparr>
     in Some (b'\<lparr>bt_voltage_mv := calc_voltage b'\<rparr>))"
proof -
  let ?t = "sint (bt_temp_c_x10 b)"
  let ?above = "max (?t - 250) 0"
  have t: "-32768 \<le> ?t" "?t < 32768" using sint_i16_range [of "bt_temp_c_x10 b"] by auto
  have "i * i \<le> 2147483 * 2147483" using assms by (intro mult_mono) auto
  then have sq: "0 \<le> i * i" "i * i \<le> 4611683235289" by auto
  have "i * i * dt \<le> 4611683235289 * 1000000" using assms sq by (intro mult_mono) auto
  then have h: "0 \<le> i * i * dt" "i * i * dt \<le> 4611683235289000000" using assms sq by auto
  have "?above * dt \<le> 32768 * 1000000" using assms t by (intro mult_mono) auto
  then have c: "0 \<le> ?above * dt" "?above * dt \<le> 32768000000" using assms by auto
  have hd: "0 \<le> i * i * dt div 25000" "i * i * dt div 25000 \<le> 4611683235289000000"
    using h zdiv_mono2 [of "i * i * dt" 1 25000] by (auto simp: pos_imp_zdiv_nonneg_iff)
  have cd: "0 \<le> ?above * dt div 100000" "?above * dt div 100000 \<le> 32768000000"
    using c zdiv_mono2 [of "?above * dt" 1 100000] by (auto simp: pos_imp_zdiv_nonneg_iff)
  have chks: "chk_i64 (i * i) = Some (i * i)" "chk_i64 (i * i * dt) = Some (i * i * dt)"
    "chk_i64 (?above * dt) = Some (?above * dt)"
    using sq h c by (simp_all only: chk_i64_Some simp_thms) (rule in_i64I; linarith)+
  have divs: "i * i * dt sdiv 25000 = i * i * dt div 25000"
    "?above * dt sdiv 100000 = ?above * dt div 100000"
    using h c by (simp_all only: sdiv_pos_nonneg zero_less_numeral)
  have s1: "sat_i64 (?t + i * i * dt div 25000) = ?t + i * i * dt div 25000"
    using t hd by (intro sat_i64_id in_i64I) linarith+
  have s2: "sat_i64 (?t + i * i * dt div 25000 - ?above * dt div 100000)
              = ?t + i * i * dt div 25000 - ?above * dt div 100000"
    using t hd cd by (intro sat_i64_id in_i64I) linarith+
  have "max (?t + i * i * dt div 25000 - ?above * dt div 100000) 200 = temp_after i dt ?t"
    by (simp only: temp_after_def max.commute)
  then show ?thesis
    unfolding heat_and_cool_def by (simp only: Let_def chks Option.bind.bind_lunit divs s1 s2)
qed

text \<open>
  Traction current is at most 64 A; there the cooling outweighs the heating above 1663.4 degrees,
  so the sixteen bits of the temperature are never exceeded. Cooling alone stops at ambient.
\<close>

lemma temp_after_bounds:
  assumes "0 \<le> i" "i \<le> 64" "0 \<le> dt" "dt \<le> 10000"
  shows "200 \<le> temp_after i dt t" "temp_after i dt t \<le> max t 18272"
    "250 \<le> t \<Longrightarrow> 250 \<le> temp_after i dt t"
proof -
  have i2: "i * i \<le> 64 * 64" using assms by (intro mult_mono) auto
  then have "i * i * dt \<le> 4096 * dt" using assms by (intro mult_right_mono) auto
  then have heat: "i * i * dt div 25000 \<le> 4096 * dt div 25000" by (rule zdiv_mono1) simp
  have heat0: "0 \<le> i * i * dt div 25000" using assms by (simp add: pos_imp_zdiv_nonneg_iff)
  have cool0: "0 \<le> max (t - 250) 0 * dt div 100000"
    using assms by (simp add: pos_imp_zdiv_nonneg_iff)
  show "200 \<le> temp_after i dt t" by (simp add: temp_after_def)
  show "temp_after i dt t \<le> max t 18272"
  proof (cases "16634 \<le> t")
    case True
    then have "16384 * dt \<le> max (t - 250) 0 * dt" using assms by (intro mult_right_mono) auto
    then have "16384 * dt div 100000 \<le> max (t - 250) 0 * dt div 100000" by (rule zdiv_mono1) simp
    moreover have "16384 * dt div 100000 = 4096 * dt div 25000"
      using div_mult_mult1 [of 4 "4096 * dt" 25000] by simp
    ultimately have "t + i * i * dt div 25000 - max (t - 250) 0 * dt div 100000 \<le> t"
      using heat by linarith
    with True show ?thesis unfolding temp_after_def by linarith
  next
    case False
    have "4096 * dt div 25000 \<le> 4096 * 10000 div 25000" using assms by (intro zdiv_mono1) auto
    then have "i * i * dt div 25000 \<le> 1638" using heat by simp
    with False cool0 show ?thesis by (simp add: temp_after_def)
  qed
  show "250 \<le> temp_after i dt t" if "250 \<le> t"
  proof -
    have "max (t - 250) 0 * dt \<le> (t - 250) * 100000" using assms that by (intro mult_mono) auto
    then have "max (t - 250) 0 * dt div 100000 \<le> (t - 250) * 100000 div 100000"
      by (rule zdiv_mono1) simp
    with heat0 that show ?thesis by (simp add: temp_after_def)
  qed
qed

text \<open>A pack above 91 degrees is still above it after a step of at most 100 ms.\<close>

lemma temp_after_hot:
  assumes "910 \<le> t" "0 \<le> i" "0 \<le> dt" "dt \<le> 100"
  shows "910 \<le> temp_after i dt t"
proof -
  have "(t - 250) * dt \<le> (t - 250) * 100" using assms by (intro mult_left_mono) auto
  then have "(t - 250) * dt div 100000 \<le> (t - 250) * 100 div 100000" by (rule zdiv_mono1) simp
  also have "\<dots> \<le> (99999 + (t - 910) * 100000) div 100000" using assms(1) by (intro zdiv_mono1) auto
  also have "\<dots> = t - 910" by simp
  finally have "max (t - 250) 0 * dt div 100000 \<le> t - 910" using assms(1) by (simp add: max_def)
  moreover have "0 \<le> i * i * dt div 25000" using assms by (simp add: pos_imp_zdiv_nonneg_iff)
  ultimately show ?thesis unfolding temp_after_def by linarith
qed


subsection \<open>The two updates\<close>

definition soc_after :: "int \<Rightarrow> int \<Rightarrow> int \<Rightarrow> int" where
  "soc_after current dt milli = max 0 (min 100000 (milli - current * dt * 1000 sdiv 180000000))"

lemma soc_after_range: "0 \<le> soc_after c dt m" "soc_after c dt m \<le> 100000"
  by (auto simp: soc_after_def)

lemma soc_after_discharge: "0 \<le> c \<Longrightarrow> 0 \<le> dt \<Longrightarrow> 0 \<le> m \<Longrightarrow> soc_after c dt m \<le> m"
  by (simp add: soc_after_def pos_imp_zdiv_nonneg_iff min_le_iff_disj)

lemma soc_after_charge: "c \<le> 0 \<Longrightarrow> 0 \<le> dt \<Longrightarrow> m \<le> 100000 \<Longrightarrow> m \<le> soc_after c dt m"
  using sdiv_nonpos [of "c * dt * 1000" 180000000] by (simp add: soc_after_def mult_nonpos_nonneg)

text \<open>The state both updates leave: charge, percentage, temperature, current and voltage.\<close>

definition battery_updated :: "int \<Rightarrow> int \<Rightarrow> battery_model \<Rightarrow> battery_model" where
  "battery_updated current dt b =
     (let milli = soc_after current dt (sint (bt_soc_milli b));
          b' = b\<lparr>bt_current_ma := word_of_int current, bt_soc_milli := word_of_int milli,
                 bt_soc_percent := word_of_int (soc_round milli),
                 bt_temp_c_x10 := word_of_int
                   (temp_after (\<bar>current\<bar> div 1000) dt (sint (bt_temp_c_x10 b)))\<rparr>
      in b'\<lparr>bt_voltage_mv := calc_voltage b'\<rparr>)"

lemma battery_updated_ok: "battery_ok b \<Longrightarrow> battery_ok (battery_updated c dt b)"
  using store_soc_values [OF soc_after_range]
  by (simp add: battery_ok_def battery_updated_def Let_def soc_after_range)

lemma battery_updated_soc:
  "sint (bt_soc_milli (battery_updated c dt b)) = soc_after c dt (sint (bt_soc_milli b))"
  using store_soc_values [OF soc_after_range] by (simp add: battery_updated_def Let_def)

lemma battery_updated_voltage:
  "bt_voltage_mv (battery_updated c dt b) = calc_voltage (battery_updated c dt b)"
  by (simp add: battery_updated_def Let_def calc_voltage_def)

lemma charge_no_overflow:
  assumes "\<bar>c\<bar> \<le> 2147483648" "0 \<le> dt" "dt \<le> 1000000"
  shows "chk_i64 (c * dt) = Some (c * dt)" "chk_i64 (c * dt * 1000) = Some (c * dt * 1000)"
    "\<bar>c * dt * 1000 sdiv 180000000\<bar> \<le> 2147483648000000000"
proof -
  have "\<bar>c * dt * 1000\<bar> = \<bar>c\<bar> * dt * 1000" using assms by (simp add: abs_mult)
  also have "\<dots> \<le> 2147483648 * 1000000 * 1000" using assms by (intro mult_mono) auto
  finally have b: "\<bar>c * dt * 1000\<bar> \<le> 2147483648000000000" by simp
  then show "chk_i64 (c * dt) = Some (c * dt)" "chk_i64 (c * dt * 1000) = Some (c * dt * 1000)"
    by (simp_all only: chk_i64_Some simp_thms) (rule in_i64I; linarith)+
  show "\<bar>c * dt * 1000 sdiv 180000000\<bar> \<le> 2147483648000000000"
    using b sdiv_abs_le [of 180000000 "c * dt * 1000"] by linarith
qed

lemma battery_step_with_current_total:
  assumes ok: "battery_ok b" and dt: "uint dt \<le> 1000000"
  shows "battery_step_with_current c dt b = Some (battery_updated (sint c) (uint dt) b)"
proof -
  let ?c = "sint c" and ?dt = "uint dt" and ?m = "sint (bt_soc_milli b)"
  have c: "\<bar>?c\<bar> \<le> 2147483648" using sint_i32_range [of c] by linarith
  note ch = charge_no_overflow [OF c uint_ge_0 dt]
  have m: "0 \<le> ?m" "?m \<le> 100000" using ok by (auto simp: battery_ok_def)
  have d: "chk_i64 (?m - ?c * ?dt * 1000 sdiv 180000000) = Some (?m - ?c * ?dt * 1000 sdiv 180000000)"
    using m ch(3) by (simp only: chk_i64_Some simp_thms) (rule in_i64I; linarith)
  have i: "0 \<le> \<bar>?c\<bar> div 1000" "\<bar>?c\<bar> div 1000 \<le> 2147483"
    using c zdiv_mono1 [OF c, of 1000] by (auto simp: pos_imp_zdiv_nonneg_iff)
  have amps: "\<bar>?c\<bar> sdiv 1000 = \<bar>?c\<bar> div 1000" by simp
  show ?thesis
    unfolding battery_step_with_current_def battery_updated_def amps
    by (simp add: Let_def ch d soc_after_def [symmetric] store_soc_total [OF soc_after_range]
        heat_and_cool_total [OF i uint_ge_0 dt])
qed

text \<open>
  A traction step is the update for the current its torque draws: half an ampere per percent.
\<close>

definition traction_current :: "i8 \<Rightarrow> int" where
  "traction_current torque = \<bar>sint torque\<bar> * 500"

lemma traction_current_range: "0 \<le> traction_current t" "traction_current t \<le> 64000"
  using sint_i8_range [of t] by (auto simp: traction_current_def)

lemma battery_step_total:
  assumes ok: "battery_ok b" and dt: "uint dt \<le> 10000"
  shows "battery_step t dt b = Some (battery_updated (traction_current t) (uint dt) b)"
proof -
  let ?c = "traction_current t" and ?dt = "uint dt" and ?m = "sint (bt_soc_milli b)"
  have c: "0 \<le> ?c" "?c \<le> 64000" by (fact traction_current_range)+
  have dt': "uint dt \<le> 1000000" using dt by simp
  note ch = charge_no_overflow [OF _ uint_ge_0 dt', of ?c]
  have m: "0 \<le> ?m" "?m \<le> 100000" using ok by (auto simp: battery_ok_def)
  have drop: "0 \<le> ?c * ?dt * 1000 sdiv 180000000" using c by (simp add: pos_imp_zdiv_nonneg_iff)
  have "sat_i64 (?m - ?c * ?dt * 1000 sdiv 180000000) = ?m - ?c * ?dt * 1000 sdiv 180000000"
    using m ch(3) c by (intro sat_i64_id in_i64I) linarith+
  then have milli: "max (sat_i64 (?m - ?c * ?dt * 1000 sdiv 180000000)) 0 = soc_after ?c ?dt ?m"
    using m drop unfolding soc_after_def by linarith
  have i: "0 \<le> ?c div 1000" "?c div 1000 \<le> 2147483"
    using c zdiv_mono1 [OF c(2), of 1000] by (auto simp: pos_imp_zdiv_nonneg_iff)
  have amps: "?c sdiv 1000 = ?c div 1000" using c by simp
  have ch': "chk_i64 (?c * ?dt) = Some (?c * ?dt)" "chk_i64 (?c * ?dt * 1000) = Some (?c * ?dt * 1000)"
    using ch c by auto
  have c1: "chk_i64 ?c = Some ?c" using c by (simp only: chk_i64_Some simp_thms) (rule in_i64I; linarith)
  show ?thesis
    unfolding battery_step_def Let_def traction_current_def [symmetric]
    by (simp add: Let_def c1 ch' milli amps battery_updated_def store_soc_total [OF soc_after_range]
        heat_and_cool_total [OF i uint_ge_0 dt'] c del: sdiv_pos_nonneg)
qed

subsection \<open>Properties of the pack\<close>

lemma battery_updated_temp:
  assumes "0 \<le> c" "c \<le> 64000" "0 \<le> dt" "dt \<le> 10000"
  shows "sint (bt_temp_c_x10 (battery_updated c dt b)) =
           temp_after (c div 1000) dt (sint (bt_temp_c_x10 b))"
    and "200 \<le> sint (bt_temp_c_x10 (battery_updated c dt b))"
proof -
  let ?t = "sint (bt_temp_c_x10 b)"
  have i: "0 \<le> c div 1000" "c div 1000 \<le> 64"
    using assms zdiv_mono1 [of c 64000 1000] by (auto simp: pos_imp_zdiv_nonneg_iff)
  note tb = temp_after_bounds [OF i assms(3,4), of ?t]
  have "sint (word_of_int (temp_after (c div 1000) dt ?t) :: i16) = temp_after (c div 1000) dt ?t"
    using tb(1,2) sint_i16_range [of "bt_temp_c_x10 b"] by (intro sint_word_of_int_range) auto
  then show "sint (bt_temp_c_x10 (battery_updated c dt b)) = temp_after (c div 1000) dt ?t"
    using assms by (simp add: battery_updated_def Let_def)
  with tb(1) show "200 \<le> sint (bt_temp_c_x10 (battery_updated c dt b))" by simp
qed

lemma traction_drop:
  assumes "battery_ok b"
  shows "soc_after (traction_current t) (uint dt) (sint (bt_soc_milli b)) =
    max 0 (sint (bt_soc_milli b) - traction_current t * uint dt div 180000)"
proof -
  have c: "0 \<le> traction_current t * uint dt * 1000" using traction_current_range(1) [of t] by simp
  have "traction_current t * uint dt * 1000 sdiv 180000000 = traction_current t * uint dt * 1000 div (180000 * 1000)"
    using c by simp
  also have "\<dots> = traction_current t * uint dt div 180000" by (rule div_mult_mult2) simp
  finally have "traction_current t * uint dt * 1000 sdiv 180000000 = traction_current t * uint dt div 180000" .
  moreover have "0 \<le> traction_current t * uint dt div 180000"
    using traction_current_range(1) [of t] by (simp add: pos_imp_zdiv_nonneg_iff)
  ultimately show ?thesis using assms by (simp only: soc_after_def battery_ok_def) linarith
qed



text \<open>
  With an explicit pack current and a tick of at most a thousand seconds the update
  never overflows; a positive current never raises the charge, a negative one never lowers it,
  the charge is clamped between empty and full, and the current put on the bus is the pack
  current saturated to sixteen bits.
\<close>

theorem battery_current_direction:
  assumes "battery_ok b" "uint dt \<le> 1000000"
  shows "\<exists>b'. battery_step_with_current current dt b = Some b' \<and> battery_ok b' \<and>
    bt_current_ma b' = current \<and>
    sint (bt_soc_milli b') = soc_after (sint current) (uint dt) (sint (bt_soc_milli b)) \<and>
    (if 0 \<le> sint current then bt_soc_percent b' \<le> bt_soc_percent b
     else bt_soc_percent b \<le> bt_soc_percent b') \<and>
    sint (current_ma_i16 b') = max (-32768) (min 32767 (sint current))"
proof -
  let ?b = "battery_updated (sint current) (uint dt) b"
  have ok: "battery_ok ?b" using battery_updated_ok [OF assms(1)] .
  have cur: "bt_current_ma ?b = current" by (simp add: battery_updated_def Let_def)
  have soc: "uint (bt_soc_percent x) = soc_round (sint (bt_soc_milli x))" "0 \<le> sint (bt_soc_milli x)"
    "sint (bt_soc_milli x) \<le> 100000" if "battery_ok x" for x
    using that by (auto simp: battery_ok_def)
  have "if 0 \<le> sint current then bt_soc_percent ?b \<le> bt_soc_percent b
        else bt_soc_percent b \<le> bt_soc_percent ?b"
    using soc [OF assms(1)] soc(1) [OF ok]
    by (auto simp: word_le_def battery_updated_soc intro!: soc_round_mono soc_after_discharge soc_after_charge)
  moreover have "sint (current_ma_i16 ?b) = max (-32768) (min 32767 (sint current))"
    unfolding current_ma_i16_def cur by (intro sint_word_of_int_range) auto
  ultimately show ?thesis
    using battery_step_with_current_total [OF assms] ok cur by (simp add: battery_updated_soc)
qed

theorem battery_current_direction_witness:
  "\<exists>b'. battery_step_with_current (- 32000) 10 battery_default = Some b' \<and>
     bt_soc_percent battery_default \<le> bt_soc_percent b'"
  using battery_current_direction [of battery_default 10 "- 32000"] battery_default_ok by auto

end
