(* ===== verification/Plant.thy ===== *)
theory Plant
  imports Battery "HOL-Library.Multiset"
begin

text \<open>
  \<^verbatim>\<open>plant/src/sensors.rs\<close> and \<^verbatim>\<open>plant/src/model.rs\<close>: the sensor snapshot and the plant model that
  the simulation steps. \<open>World::inject_can_frame\<close> belongs to the simulator, so it is an argument
  of \<open>do_step\<close> acting on an arbitrary world; what reaches it is exact. The lemmas show that the
  published bytes decode to the state, and that the cursor over the sorted queue of driver
  inputs applies the input that is due, as long as inputs are queued ahead of time.
\<close>

subsection \<open>Sensor readings\<close>

record sensor_readings =
  sr_wheel_speed_kph_x10 :: u16
  sr_pack_voltage_mv :: u16
  sr_pack_current_ma :: i16
  sr_pack_temp_c_x10 :: i16
  sr_soc_percent :: u8

definition from_plant :: "vehicle_plant \<Rightarrow> battery_model \<Rightarrow> sensor_readings" where
  "from_plant vehicle battery =
     \<lparr>sr_wheel_speed_kph_x10 = vp_speed_kph_x10 vehicle,
      sr_pack_voltage_mv = bt_voltage_mv battery,
      sr_pack_current_ma = current_ma_i16 battery,
      sr_pack_temp_c_x10 = bt_temp_c_x10 battery,
      sr_soc_percent = bt_soc_percent battery\<rparr>"

subsection \<open>The plant model\<close>

definition CAN_ID_WHEEL_SPEED :: u32 where "CAN_ID_WHEEL_SPEED = 0x102"
definition CAN_ID_PLANT_SENSORS :: u32 where "CAN_ID_PLANT_SENSORS = 0x500"
definition CAN_ID_MOTOR_COMMAND :: u32 where "CAN_ID_MOTOR_COMMAND = 0x100"

record pending_input =
  pi_at :: u64
  pi_throttle_percent :: u8
  pi_brake_pressed :: bool

record microcar_plant =
  mp_vehicle :: vehicle_plant
  mp_battery :: battery_model
  mp_pending_inputs :: "pending_input list"
  mp_input_cursor :: nat
  mp_tick_ms :: u32
  mp_plant_machine_id :: u64
  mp_bus_name :: string

type_synonym 'w can_injector = "string \<Rightarrow> u64 \<Rightarrow> u32 \<Rightarrow> u8 list \<Rightarrow> u64 \<Rightarrow> 'w \<Rightarrow> 'w"

definition plant_new :: "u32 \<Rightarrow> microcar_plant" where
  "plant_new tick_ms =
     \<lparr>mp_vehicle = vehicle_new, mp_battery = battery_new, mp_pending_inputs = [],
      mp_input_cursor = 0, mp_tick_ms = tick_ms, mp_plant_machine_id = 0,
      mp_bus_name = ''vcan0''\<rparr>"

definition with_machine_id :: "u64 \<Rightarrow> microcar_plant \<Rightarrow> microcar_plant" where
  "with_machine_id machine p = p\<lparr>mp_plant_machine_id := machine\<rparr>"

definition with_bus :: "string \<Rightarrow> microcar_plant \<Rightarrow> microcar_plant" where
  "with_bus name p = p\<lparr>mp_bus_name := name\<rparr>"

text \<open>The \<open>while\<close> loop of \<open>do_step\<close>.\<close>

definition input_due :: "u64 \<Rightarrow> microcar_plant \<Rightarrow> bool" where
  "input_due now p \<longleftrightarrow> mp_input_cursor p < length (mp_pending_inputs p) \<and>
     pi_at (mp_pending_inputs p ! mp_input_cursor p) \<le> now"

definition apply_next_input :: "microcar_plant \<Rightarrow> microcar_plant" where
  "apply_next_input p =
     (let input = mp_pending_inputs p ! mp_input_cursor p;
          v = set_driver_input (pi_throttle_percent input) (pi_brake_pressed input) (mp_vehicle p);
          v = set_motor_torque (pi_throttle_percent input) v
      in p\<lparr>mp_vehicle := v, mp_input_cursor := mp_input_cursor p + 1\<rparr>)"

function apply_inputs :: "u64 \<Rightarrow> microcar_plant \<Rightarrow> microcar_plant" where
  "apply_inputs now p =
     (if input_due now p then apply_inputs now (apply_next_input p) else p)"
  by pat_completeness auto
termination
  by (relation "measure (\<lambda>(now, p). length (mp_pending_inputs p) - mp_input_cursor p)")
    (auto simp: input_due_def apply_next_input_def Let_def)

declare apply_inputs.simps [simp del]

definition to_be_bytes16 :: "u16 \<Rightarrow> u8 list" where
  "to_be_bytes16 x = [ucast (drop_bit 8 x), ucast x]"

definition plant_frame_data :: "sensor_readings \<Rightarrow> u8 list" where
  "plant_frame_data r =
     [sr_soc_percent r] @ to_be_bytes16 (sr_pack_voltage_mv r)
       @ to_be_bytes16 (sr_pack_temp_c_x10 r) @ to_be_bytes16 (sr_pack_current_ma r)"

definition do_step :: "'w can_injector \<Rightarrow> u64 \<Rightarrow> 'w \<Rightarrow> microcar_plant \<Rightarrow> (microcar_plant \<times> 'w) option"
  where
  "do_step inject_can_frame now world p = do {
     let p1 = apply_inputs now p;
     vehicle \<leftarrow> vehicle_step (mp_tick_ms p1) (mp_vehicle p1);
     battery \<leftarrow> battery_step (vp_motor_torque_percent vehicle) (mp_tick_ms p1) (mp_battery p1);
     let p2 = p1\<lparr>mp_vehicle := vehicle, mp_battery := battery\<rparr>;
     let readings = from_plant vehicle battery;
     let speed_data = to_be_bytes16 (sr_wheel_speed_kph_x10 readings);
     let world1 = inject_can_frame (mp_bus_name p2) (mp_plant_machine_id p2) CAN_ID_WHEEL_SPEED
                    speed_data now world;
     let bms_data = plant_frame_data readings;
     let world2 = inject_can_frame (mp_bus_name p2) (mp_plant_machine_id p2) CAN_ID_PLANT_SENSORS
                    bms_data now world1;
     Some (p2, world2)
   }"

text \<open>\<open>sort_by_key\<close> is stable, and so is \<open>sort_key\<close>.\<close>

definition queue_driver_input :: "u64 \<Rightarrow> u8 \<Rightarrow> bool \<Rightarrow> microcar_plant \<Rightarrow> microcar_plant" where
  "queue_driver_input at throttle_percent brake_pressed p =
     p\<lparr>mp_pending_inputs := sort_key pi_at (mp_pending_inputs p @
          [\<lparr>pi_at = at, pi_throttle_percent = throttle_percent, pi_brake_pressed = brake_pressed\<rparr>])\<rparr>"

definition apply_fault :: "string \<Rightarrow> string \<Rightarrow> u32 option \<Rightarrow> microcar_plant \<Rightarrow> bool \<times> microcar_plant" where
  "apply_fault target fault_type value p =
     (if target = ''battery'' \<and> fault_type = ''force_temperature'' then
        (case value of
           Some temp_c \<Rightarrow>
             (True, p\<lparr>mp_battery := force_temperature (f32_round (unat temp_c)) (mp_battery p)\<rparr>)
         | None \<Rightarrow> (False, p))
      else (False, p))"

subsection \<open>The published frames decode to the state\<close>

definition be16 :: "u8 \<Rightarrow> u8 \<Rightarrow> u16" where
  "be16 hi lo = or (push_bit 8 (ucast hi)) (ucast lo)"

fun decode_plant_frame :: "u8 list \<Rightarrow> (u8 \<times> u16 \<times> i16 \<times> i16) option" where
  "decode_plant_frame [soc, v1, v0, t1, t0, c1, c0] = Some (soc, be16 v1 v0, be16 t1 t0, be16 c1 c0)"
| "decode_plant_frame _ = None"

lemma be16_to_be_bytes: "be16 (ucast (drop_bit 8 x)) (ucast x) = (x :: u16)"
  by (rule bit_word_eqI)
    (auto simp: be16_def bit_simps not_less dest: bit_imp_le_length)

lemma decode_plant_frame_data:
  "decode_plant_frame (plant_frame_data r) =
     Some (sr_soc_percent r, sr_pack_voltage_mv r, sr_pack_temp_c_x10 r, sr_pack_current_ma r)"
  by (simp add: plant_frame_data_def to_be_bytes16_def be16_to_be_bytes)

subsection \<open>The input queue\<close>

lemma apply_next_input_simps [simp]:
  "mp_pending_inputs (apply_next_input p) = mp_pending_inputs p"
  "mp_input_cursor (apply_next_input p) = Suc (mp_input_cursor p)"
  "mp_battery (apply_next_input p) = mp_battery p"
  "mp_tick_ms (apply_next_input p) = mp_tick_ms p"
  by (simp_all add: apply_next_input_def Let_def)

lemma apply_inputs_frame [simp]:
  "mp_pending_inputs (apply_inputs now p) = mp_pending_inputs p"
  "mp_battery (apply_inputs now p) = mp_battery p"
  "mp_tick_ms (apply_inputs now p) = mp_tick_ms p"
  "vp_speed_kph_x10 (mp_vehicle (apply_inputs now p)) = vp_speed_kph_x10 (mp_vehicle p)"
  by (induction now p rule: apply_inputs.induct; subst apply_inputs.simps;
      simp add: apply_next_input_def Let_def)+

text \<open>The driver controls as the triple the vehicle keeps.\<close>

definition controls :: "microcar_plant \<Rightarrow> u8 \<times> bool \<times> i8" where
  "controls p = (vp_throttle_percent (mp_vehicle p), vp_brake_pressed (mp_vehicle p),
                 vp_motor_torque_percent (mp_vehicle p))"

definition input_controls :: "pending_input \<Rightarrow> u8 \<times> bool \<times> i8" where
  "input_controls i = (pi_throttle_percent i, pi_brake_pressed i, pi_throttle_percent i)"

definition controls_in_force :: "pending_input list \<Rightarrow> u8 \<times> bool \<times> i8" where
  "controls_in_force applied = (if applied = [] then (0, False, 0) else input_controls (last applied))"

text \<open>
  The loop moves the cursor over the due prefix of what it has not applied yet, and the controls
  are those of the last input it passed.
\<close>

lemma apply_inputs_spec:
  fixes now p
  defines "due \<equiv> takeWhile (\<lambda>i. pi_at i \<le> now) (drop (mp_input_cursor p) (mp_pending_inputs p))"
  shows "mp_input_cursor (apply_inputs now p) = mp_input_cursor p + length due"
    and "controls (apply_inputs now p) = (if due = [] then controls p else input_controls (last due))"
proof -
  have *: "mp_input_cursor (apply_inputs now p) = mp_input_cursor p +
      length (takeWhile (\<lambda>i. pi_at i \<le> now) (drop (mp_input_cursor p) (mp_pending_inputs p))) \<and>
    controls (apply_inputs now p) =
      (let d = takeWhile (\<lambda>i. pi_at i \<le> now) (drop (mp_input_cursor p) (mp_pending_inputs p))
       in if d = [] then controls p else input_controls (last d))"
  proof (induction now p rule: apply_inputs.induct)
    case (1 now p)
    let ?c = "mp_input_cursor p" and ?xs = "mp_pending_inputs p"
    show ?case
    proof (cases "input_due now p")
      case True
      then have "drop ?c ?xs = ?xs ! ?c # drop (Suc ?c) ?xs" "pi_at (?xs ! ?c) \<le> now"
        by (auto simp: input_due_def Cons_nth_drop_Suc)
      moreover have "controls (apply_next_input p) = input_controls (?xs ! ?c)"
        by (simp add: controls_def input_controls_def apply_next_input_def Let_def)
      moreover have "apply_inputs now p = apply_inputs now (apply_next_input p)"
        using True by (simp add: apply_inputs.simps [of now p])
      ultimately show ?thesis using 1 [OF True] by (simp add: Let_def)
    next
      case False
      then have "takeWhile (\<lambda>i. pi_at i \<le> now) (drop ?c ?xs) = []"
        by (cases "?c < length ?xs") (auto simp: input_due_def Cons_nth_drop_Suc [symmetric])
      with False show ?thesis by (simp add: apply_inputs.simps [of now p])
    qed
  qed
  then show "mp_input_cursor (apply_inputs now p) = mp_input_cursor p + length due"
    "controls (apply_inputs now p) = (if due = [] then controls p else input_controls (last due))"
    by (simp_all add: due_def Let_def)
qed

lemma sorted_filter_le_takeWhile:
  "sorted (map f xs) \<Longrightarrow> filter (\<lambda>x. f x \<le> t) xs = takeWhile (\<lambda>x. f x \<le> t) xs"
  for f :: "'a \<Rightarrow> 'k::linorder"
proof (induction xs)
  case (Cons a xs)
  have "filter (\<lambda>x. f x \<le> t) xs = []" if "\<not> f a \<le> t"
    unfolding filter_empty_conv using that Cons.prems by auto
  with Cons show ?case by auto
qed simp

lemma sorted_filter_le_split:
  fixes f :: "'a \<Rightarrow> 'k::linorder"
  assumes "sorted (map f xs)" "s \<le> t"
  shows "filter (\<lambda>x. f x \<le> t) xs = filter (\<lambda>x. f x \<le> s) xs @
           takeWhile (\<lambda>x. f x \<le> t) (drop (length (filter (\<lambda>x. f x \<le> s) xs)) xs)"
  using assms(1)
proof (induction xs)
  case (Cons x xs)
  show ?case
  proof (cases "f x \<le> s")
    case True
    with Cons assms(2) show ?thesis by auto
  next
    case False
    with Cons.prems have "filter (\<lambda>x. f x \<le> s) xs = []" by (auto simp: filter_empty_conv)
    with False show ?thesis using sorted_filter_le_takeWhile [OF Cons.prems, of t] by simp
  qed
qed simp

lemma sort_key_append_sorted: "sort_key f (sort_key f xs @ ys) = sort_key f (xs @ ys)"
proof -
  have "filter (\<lambda>x. f k = f x) (sort_key f zs) = filter (\<lambda>x. f k = f x) zs" for k zs
    using sort_key_stable [of f "f k" zs] by (simp add: eq_commute)
  then show ?thesis by (intro properties_for_sort_key) auto
qed

subsection \<open>Runs of the plant\<close>

text \<open>What the simulator does with a plant: queue inputs and step it.\<close>

datatype plant_call = QueueInput u64 u8 bool | StepAt u64

fun run_plant :: "'w can_injector \<Rightarrow> plant_call list \<Rightarrow> 'w \<Rightarrow> microcar_plant \<Rightarrow> (microcar_plant \<times> 'w) option"
  where
  "run_plant inject [] world p = Some (p, world)"
| "run_plant inject (QueueInput at throttle brake # cs) world p =
     run_plant inject cs world (queue_driver_input at throttle brake p)"
| "run_plant inject (StepAt now # cs) world p =
     do { (p', world') \<leftarrow> do_step inject now world p; run_plant inject cs world' p' }"

fun queued :: "plant_call list \<Rightarrow> pending_input list" where
  "queued [] = []"
| "queued (QueueInput at throttle brake # cs) =
     \<lparr>pi_at = at, pi_throttle_percent = throttle, pi_brake_pressed = brake\<rparr> # queued cs"
| "queued (StepAt now # cs) = queued cs"

text \<open>
  Inputs are queued ahead of time when each is scheduled after the last step so far, and the
  steps do not go back in time. \<open>None\<close>: no step yet.
\<close>

fun passed_by :: "u64 option \<Rightarrow> u64 \<Rightarrow> bool" where
  "passed_by None at = False"
| "passed_by (Some t) at = (at \<le> t)"

fun ahead_of_time :: "u64 option \<Rightarrow> plant_call list \<Rightarrow> bool" where
  "ahead_of_time t [] = True"
| "ahead_of_time t (QueueInput at throttle brake # cs) = (\<not> passed_by t at \<and> ahead_of_time t cs)"
| "ahead_of_time t (StepAt now # cs) =
     ((case t of None \<Rightarrow> True | Some s \<Rightarrow> s \<le> now) \<and> ahead_of_time (Some now) cs)"

fun last_step :: "u64 option \<Rightarrow> plant_call list \<Rightarrow> u64 option" where
  "last_step t [] = t"
| "last_step t (QueueInput at throttle brake # cs) = last_step t cs"
| "last_step t (StepAt now # cs) = last_step (Some now) cs"

definition due_inputs :: "u64 option \<Rightarrow> pending_input list \<Rightarrow> pending_input list" where
  "due_inputs t log = filter (\<lambda>i. passed_by t (pi_at i)) (sort_key pi_at log)"

definition plant_inv :: "pending_input list \<Rightarrow> u64 option \<Rightarrow> microcar_plant \<Rightarrow> bool" where
  "plant_inv log t p \<longleftrightarrow>
     mp_pending_inputs p = sort_key pi_at log \<and>
     mp_input_cursor p = length (due_inputs t log) \<and>
     controls p = controls_in_force (due_inputs t log) \<and>
     uint (vp_speed_kph_x10 (mp_vehicle p)) \<le> 12700 \<and> battery_ok (mp_battery p) \<and>
     uint (mp_tick_ms p) \<le> 10000"

lemma plant_inv_new: "uint tick \<le> 10000 \<Longrightarrow> plant_inv [] None (plant_new tick)"
  by (simp add: plant_inv_def plant_new_def due_inputs_def controls_def controls_in_force_def
      vehicle_new_def battery_new_def battery_default_ok)

lemma plant_inv_queue:
  assumes "plant_inv log t p" "\<not> passed_by t at"
  shows "plant_inv (log @ [\<lparr>pi_at = at, pi_throttle_percent = throttle, pi_brake_pressed = brake\<rparr>]) t
           (queue_driver_input at throttle brake p)"
  using assms by (simp add: plant_inv_def queue_driver_input_def sort_key_append_sorted
      due_inputs_def filter_sort controls_def)

lemma due_inputs_split:
  assumes "case t of None \<Rightarrow> True | Some s \<Rightarrow> s \<le> now"
  shows "due_inputs (Some now) log = due_inputs t log @
    takeWhile (\<lambda>i. pi_at i \<le> now) (drop (length (due_inputs t log)) (sort_key pi_at log))"
  using assms sorted_filter_le_split [of pi_at "sort_key pi_at log"]
    sorted_filter_le_takeWhile [of pi_at "sort_key pi_at log" now]
  by (cases t) (auto simp: due_inputs_def)

lemma plant_inv_apply:
  assumes "plant_inv log t p" "case t of None \<Rightarrow> True | Some s \<Rightarrow> s \<le> now"
  shows "plant_inv log (Some now) (apply_inputs now p)"
  using assms due_inputs_split [OF assms(2), of log]
  by (auto simp: plant_inv_def apply_inputs_spec controls_in_force_def)

lemma do_step_total:
  assumes "plant_inv log t p" "case t of None \<Rightarrow> True | Some s \<Rightarrow> s \<le> now"
  obtains p' world' where "do_step inject now world p = Some (p', world')"
    "plant_inv log (Some now) p'"
proof -
  let ?p = "apply_inputs now p"
  have inv: "plant_inv log (Some now) ?p" by (rule plant_inv_apply [OF assms])
  then have ok: "uint (mp_tick_ms ?p) \<le> 10000" "uint (vp_speed_kph_x10 (mp_vehicle ?p)) \<le> 12700"
    "battery_ok (mp_battery ?p)"
    by (auto simp: plant_inv_def)
  obtain v where v: "vehicle_step (mp_tick_ms ?p) (mp_vehicle ?p) = Some v"
    "uint (vp_speed_kph_x10 v) \<le> 12700" "v = (mp_vehicle ?p)\<lparr>vp_speed_kph_x10 := vp_speed_kph_x10 v\<rparr>"
    by (rule vehicle_step_speed [OF ok(1,2)])
  have same: "vp_throttle_percent v = vp_throttle_percent (mp_vehicle ?p)"
    "vp_brake_pressed v = vp_brake_pressed (mp_vehicle ?p)"
    "vp_motor_torque_percent v = vp_motor_torque_percent (mp_vehicle ?p)"
    by (subst v(3), simp)+
  let ?b = "battery_updated (traction_current (vp_motor_torque_percent v)) (uint (mp_tick_ms ?p))
              (mp_battery ?p)"
  have b: "battery_step (vp_motor_torque_percent v) (mp_tick_ms ?p) (mp_battery ?p) = Some ?b"
    by (rule battery_step_total [OF ok(3,1)])
  have "plant_inv log (Some now) (?p\<lparr>mp_vehicle := v, mp_battery := ?b\<rparr>)"
    using inv v(2) battery_updated_ok [OF ok(3)] same by (simp add: plant_inv_def controls_def)
  then show ?thesis using that v(1) b by (simp add: do_step_def Let_def)
qed

lemma run_plant_inv:
  "plant_inv log t p \<Longrightarrow> ahead_of_time t cs \<Longrightarrow>
   \<exists>p' world'. run_plant inject cs world p = Some (p', world') \<and>
     plant_inv (log @ queued cs) (last_step t cs) p'"
proof (induction cs arbitrary: log t p world)
  case (Cons c cs)
  show ?case
  proof (cases c)
    case (QueueInput at throttle brake)
    with Cons.prems have "plant_inv (log @ queued [c]) t (queue_driver_input at throttle brake p)"
      by (simp add: plant_inv_queue)
    from Cons.IH [OF this, of world] Cons.prems QueueInput show ?thesis by simp
  next
    case (StepAt now)
    with Cons.prems have "plant_inv log t p" "case t of None \<Rightarrow> True | Some s \<Rightarrow> s \<le> now" by simp_all
    then obtain p1 w1 where "do_step inject now world p = Some (p1, w1)"
      and inv: "plant_inv log (Some now) p1"
      by (rule do_step_total)
    with Cons.IH [OF inv, of w1] Cons.prems StepAt show ?thesis by simp
  qed
qed simp

text \<open>
  Claim C28. A plant with a tick of at most ten seconds never panics, in any run whose inputs are
  queued ahead of time and whatever the bus does with the frames. At every point of such a run
  the throttle, brake and torque in force are those of the last input due by the latest step, in
  order of scheduled time and, among equals, of queueing; the queue holds every input in that
  order, the speed has not wrapped and the pack is well formed.
\<close>

theorem plant_applies_inputs_on_time:
  assumes "uint tick \<le> 10000" "ahead_of_time None cs"
  shows "\<exists>p world'. run_plant inject cs world (plant_new tick) = Some (p, world') \<and>
    mp_pending_inputs p = sort_key pi_at (queued cs) \<and>
    controls p = controls_in_force (due_inputs (last_step None cs) (queued cs)) \<and>
    uint (vp_speed_kph_x10 (mp_vehicle p)) \<le> 12700 \<and> battery_ok (mp_battery p)"
  using run_plant_inv [OF plant_inv_new [OF assms(1)] assms(2), of inject world]
  by (auto simp: plant_inv_def)

theorem plant_applies_inputs_on_time_witness:
  "\<exists>p world'. run_plant (\<lambda>bus sender can_id data now frames. (can_id, data) # frames)
      [QueueInput 5 40 False, QueueInput 0 20 False, StepAt 0, StepAt 10] [] (plant_new 10)
      = Some (p, world') \<and> controls p = (40, False, 40)"
  using plant_applies_inputs_on_time [of 10
      "[QueueInput 5 40 False, QueueInput 0 20 False, StepAt 0, StepAt 10]"
      "\<lambda>bus sender can_id data now frames. (can_id, data) # frames" "[]"]
  by (auto simp: due_inputs_def controls_in_force_def input_controls_def)

text \<open>
  An input queued for a time the plant has already passed is lost and an older one is
  applied again: the sort moves the cursor's position, so after the late input the next step
  re-applies the input that was already in force.
\<close>

theorem late_input_is_skipped:
  "(let p1 = apply_inputs 20 (queue_driver_input 10 40 False (plant_new 10));
        p2 = apply_inputs 30 (queue_driver_input 5 90 True p1)
    in controls p1 = (40, False, 40) \<and> mp_input_cursor p1 = 1 \<and>
       map input_controls (mp_pending_inputs p2) = [(90, True, 90), (40, False, 40)] \<and>
       controls p2 = (40, False, 40) \<and> mp_input_cursor p2 = 2)"
  by (simp add: Let_def queue_driver_input_def plant_new_def apply_inputs.simps input_due_def
      apply_next_input_def controls_def input_controls_def)

lemma do_step_frames:
  assumes "do_step inject now world p = Some (p', world')"
  shows "\<exists>hi lo data.
    world' = inject (mp_bus_name p') (mp_plant_machine_id p') 0x500 data now
               (inject (mp_bus_name p') (mp_plant_machine_id p') 0x102 [hi, lo] now world) \<and>
    be16 hi lo = vp_speed_kph_x10 (mp_vehicle p') \<and>
    decode_plant_frame data = Some (bt_soc_percent (mp_battery p'), bt_voltage_mv (mp_battery p'),
      bt_temp_c_x10 (mp_battery p'), current_ma_i16 (mp_battery p'))"
proof -
  let ?r = "from_plant (mp_vehicle p') (mp_battery p')"
  have "world' = inject (mp_bus_name p') (mp_plant_machine_id p') 0x500 (plant_frame_data ?r) now
      (inject (mp_bus_name p') (mp_plant_machine_id p') 0x102
         (to_be_bytes16 (sr_wheel_speed_kph_x10 ?r)) now world)"
    using assms by (auto simp: do_step_def Let_def CAN_ID_PLANT_SENSORS_def CAN_ID_WHEEL_SPEED_def
        bind_eq_Some_conv)
  then show ?thesis
    using decode_plant_frame_data [of ?r] be16_to_be_bytes [of "vp_speed_kph_x10 (mp_vehicle p')"]
    by (auto simp: to_be_bytes16_def from_plant_def)
qed

lemma do_step_tick: "do_step inject now world p = Some (p', world') \<Longrightarrow> mp_tick_ms p' = mp_tick_ms p"
  by (auto simp: do_step_def Let_def bind_eq_Some_conv)

lemma run_plant_tick:
  "run_plant inject cs world p = Some (p', world') \<Longrightarrow> mp_tick_ms p' = mp_tick_ms p"
  by (induction inject cs world p rule: run_plant.induct)
    (auto simp: bind_eq_Some_conv queue_driver_input_def dest: do_step_tick)

text \<open>
  A step that does not panic puts exactly two frames on the plant's bus, the wheel
  speed and then the sensors, and both decode to the state the step leaves.
\<close>

theorem plant_frames_decode:
  assumes "do_step inject now world p = Some (p', world')"
  shows "\<exists>hi lo data.
    world' = inject (mp_bus_name p') (mp_plant_machine_id p') 0x500 data now
               (inject (mp_bus_name p') (mp_plant_machine_id p') 0x102 [hi, lo] now world) \<and>
    be16 hi lo = vp_speed_kph_x10 (mp_vehicle p') \<and>
    decode_plant_frame data = Some (bt_soc_percent (mp_battery p'), bt_voltage_mv (mp_battery p'),
      bt_temp_c_x10 (mp_battery p'), current_ma_i16 (mp_battery p'))"
  by (rule do_step_frames [OF assms])

theorem plant_frames_decode_witness:
  "\<exists>p' hi lo data frames. frames = [(0x500 :: u32, data), (0x102, [hi, lo])] \<and>
     do_step (\<lambda>bus sender can_id data now frames. (can_id, data) # frames) 0 [] (plant_new 10)
       = Some (p', frames) \<and>
     be16 hi lo = vp_speed_kph_x10 (mp_vehicle p')"
proof -
  have inv: "plant_inv [] None (plant_new 10)" by (simp add: plant_inv_new)
  obtain p' frames where
    "do_step (\<lambda>bus sender can_id data now frames. (can_id, data) # frames) 0 [] (plant_new 10)
       = Some (p', frames)"
    by (rule do_step_total [OF inv]) auto
  from this plant_frames_decode [OF this] show ?thesis by auto
qed

lemma apply_fault_value:
  "apply_fault target fault_type value p =
     (case value of
        Some v \<Rightarrow>
          (if target = ''battery'' \<and> fault_type = ''force_temperature''
           then (True, p\<lparr>mp_battery := (mp_battery p)
                    \<lparr>bt_temp_c_x10 := word_of_int (min (10 * uint v) 32767)\<rparr>\<rparr>)
           else (False, p))
      | None \<Rightarrow> (False, p))"
proof -
  have "force_temperature (f32_round (unat v)) b
          = b\<lparr>bt_temp_c_x10 := word_of_int (min (10 * uint v) 32767)\<rparr>" for v :: u32 and b
    using force_temperature_exact [of "unat v" b] by (simp add: force_temperature_def)
  then show ?thesis by (simp add: apply_fault_def split: option.split)
qed

text \<open>The first step after an injected temperature of 91 degrees or more still reports it.\<close>

lemma sint_forced_temp: "sint (word_of_int (min (10 * uint (v :: u32)) 32767) :: i16) = min (10 * uint v) 32767"
proof (rule sint_word_of_int_range)
  show "- (2 ^ (LENGTH(16) - 1)) \<le> min (10 * uint v) 32767"
    by (rule order_trans [of _ 0]) auto
qed auto

lemma step_after_forced_temp:
  assumes "plant_inv log t p" "case t of None \<Rightarrow> True | Some s \<Rightarrow> s \<le> now"
    "uint (mp_tick_ms p) \<le> 100" "91 \<le> uint v"
  obtains p' world' where
    "do_step inject now world (snd (apply_fault ''battery'' ''force_temperature'' (Some v) p))
       = Some (p', world')"
    "910 \<le> sint (bt_temp_c_x10 (mp_battery p'))"
proof -
  let ?f = "p\<lparr>mp_battery := (mp_battery p)\<lparr>bt_temp_c_x10 := word_of_int (min (10 * uint v) 32767)\<rparr>\<rparr>"
  have f: "snd (apply_fault ''battery'' ''force_temperature'' (Some v) p) = ?f"
    by (simp add: apply_fault_value)
  have inv: "plant_inv log t ?f"
    using assms(1) by (simp add: plant_inv_def battery_ok_def controls_def)
  obtain p' world' where step: "do_step inject now world ?f = Some (p', world')"
    by (rule do_step_total [OF inv assms(2)])
  then obtain torque where
    b: "battery_step torque (mp_tick_ms p) (mp_battery ?f) = Some (mp_battery p')"
    by (auto simp: do_step_def Let_def bind_eq_Some_conv)
  have ok: "battery_ok (mp_battery ?f)" "uint (mp_tick_ms p) \<le> 10000"
    using inv assms(3) by (simp_all add: plant_inv_def)
  let ?c = "traction_current torque"
  have "mp_battery p' = battery_updated ?c (uint (mp_tick_ms p)) (mp_battery ?f)"
    using b battery_step_total [OF ok] by simp
  then have "sint (bt_temp_c_x10 (mp_battery p')) =
      temp_after (?c div 1000) (uint (mp_tick_ms p)) (min (10 * uint v) 32767)"
    using battery_updated_temp(1) [OF traction_current_range uint_ge_0 ok(2), of torque "mp_battery ?f"]
    by (simp add: sint_forced_temp)
  moreover have "910 \<le> \<dots>"
    using assms(3,4) traction_current_range [of torque]
    by (intro temp_after_hot) (auto simp: pos_imp_zdiv_nonneg_iff)
  ultimately show ?thesis using that step f by simp
qed


text \<open>
  An injected temperature reaches the pack in tenths of a degree, exactly below
  3276.7 degrees and saturated above, despite the detour through \<open>f32\<close>; every other target, fault
  or missing value changes nothing and is reported as not handled.
\<close>

theorem apply_fault_exact:
  "apply_fault target fault_type value p =
     (case value of
        Some v \<Rightarrow>
          (if target = ''battery'' \<and> fault_type = ''force_temperature''
           then (True, p\<lparr>mp_battery := (mp_battery p)
                    \<lparr>bt_temp_c_x10 := word_of_int (min (10 * uint v) 32767)\<rparr>\<rparr>)
           else (False, p))
      | None \<Rightarrow> (False, p))"
  by (rule apply_fault_value)

end
