(* ===== verification/Rust_Str.thy ===== *)
theory Rust_Str
  imports Prelude "HOL-Library.Sublist"
begin

text \<open>
  Rust strings and the standard-library string methods the tooling calls. A \<open>str\<close> is the list of
  its UTF-8 bytes; a byte is a \<open>char\<close>. Patterns are ASCII, so searching byte by byte finds the
  same positions as Rust. White space is Unicode white space, given by its byte sequences: since
  no continuation byte starts one, a scan byte by byte sees exactly the white space characters.
\<close>

definition byte_of :: "char \<Rightarrow> nat" where
  "byte_of c = of_char c"

lemma byte_of_inj: "byte_of a = byte_of b \<longleftrightarrow> a = b"
  by (simp add: byte_of_def)

lemma byte_of_lt: "byte_of c < 256"
  by (simp add: byte_of_def)

subsection \<open>Prefixes, substrings and separators\<close>

fun starts_with :: "string \<Rightarrow> string \<Rightarrow> bool" where
  "starts_with s [] = True"
| "starts_with [] (p # ps) = False"
| "starts_with (c # s) (p # ps) = (c = p \<and> starts_with s ps)"

fun contains :: "string \<Rightarrow> string \<Rightarrow> bool" where
  "contains [] p = (p = [])"
| "contains (c # s) p = (starts_with (c # s) p \<or> contains s p)"

definition ends_with :: "string \<Rightarrow> string \<Rightarrow> bool" where
  "ends_with s p = starts_with (rev s) (rev p)"

fun strip_prefix :: "string \<Rightarrow> string \<Rightarrow> string option" where
  "strip_prefix s [] = Some s"
| "strip_prefix [] (p # ps) = None"
| "strip_prefix (c # s) (p # ps) = (if c = p then strip_prefix s ps else None)"

definition strip_suffix :: "string \<Rightarrow> string \<Rightarrow> string option" where
  "strip_suffix s p = map_option rev (strip_prefix (rev s) (rev p))"

text \<open>\<open>find_str s p\<close>: the part before the first occurrence of \<open>p\<close> and the part after it.\<close>

fun split_once :: "string \<Rightarrow> string \<Rightarrow> (string \<times> string) option" where
  "split_once [] p = (if p = [] then Some ([], []) else None)"
| "split_once (c # s) p =
     (case strip_prefix (c # s) p of
        Some rest \<Rightarrow> Some ([], rest)
      | None \<Rightarrow> map_option (\<lambda>(a, b). (c # a, b)) (split_once s p))"

text \<open>\<open>split(c)\<close> for a single-byte separator: always at least one piece.\<close>

fun split_char :: "char \<Rightarrow> string \<Rightarrow> string list" where
  "split_char d [] = [[]]"
| "split_char d (c # s) =
     (if c = d then [] # split_char d s
      else (case split_char d s of [] \<Rightarrow> [[c]] | p # ps \<Rightarrow> (c # p) # ps))"

fun join :: "string \<Rightarrow> string list \<Rightarrow> string" where
  "join sep [] = []"
| "join sep [x] = x"
| "join sep (x # y # zs) = x @ sep @ join sep (y # zs)"

text \<open>\<open>lines()\<close>: split at line feeds, drop one carriage return before each, no last empty line.\<close>

definition drop_cr :: "string \<Rightarrow> string" where
  "drop_cr l = (if l \<noteq> [] \<and> last l = CHR 0x0D then butlast l else l)"

definition lines :: "string \<Rightarrow> string list" where
  "lines s = (let ps = split_char CHR 0x0A s
              in map drop_cr (butlast ps) @ (if last ps = [] then [] else [last ps]))"

lemma starts_with_prefix [mc_str]: "starts_with s p \<longleftrightarrow> prefix p s"
  by (induction s p rule: starts_with.induct) auto

lemma contains_sublist [mc_str]: "contains s p \<longleftrightarrow> sublist p s"
proof (induction s)
  case (Cons c s)
  then show ?case by (auto simp: starts_with_prefix sublist_Cons_right)
qed simp

lemma strip_prefix_Some [mc_str]: "strip_prefix s p = Some r \<longleftrightarrow> s = p @ r"
  by (induction s p rule: strip_prefix.induct) auto

lemma strip_prefix_append [simp]: "strip_prefix (p @ r) p = Some r"
  by (simp add: strip_prefix_Some)

lemma strip_prefix_None: "strip_prefix s p = None \<longleftrightarrow> \<not> prefix p s"
  by (induction s p rule: strip_prefix.induct) auto

lemma strip_suffix_Some [mc_str]: "strip_suffix s p = Some r \<longleftrightarrow> s = r @ p"
proof -
  have "strip_suffix s p = Some r \<longleftrightarrow> rev s = rev p @ rev r"
    by (auto simp: strip_suffix_def strip_prefix_Some)
  also have "\<dots> \<longleftrightarrow> s = r @ p" by (metis rev_append rev_rev_ident)
  finally show ?thesis .
qed

lemma split_once_Some: "split_once s p = Some (a, b) \<Longrightarrow> s = a @ p @ b"
proof (induction s arbitrary: a b)
  case (Cons c s)
  then show ?case
    by (auto split: option.splits if_splits simp: strip_prefix_Some map_option_case)
qed (auto split: if_splits)

lemma split_once_char: "c \<notin> set a \<Longrightarrow> split_once (a @ c # b) [c] = Some (a, b)"
  by (induction a) auto

lemma join_Cons: "xs \<noteq> [] \<Longrightarrow> join sep (x # xs) = x @ sep @ join sep xs"
  by (cases xs) auto

lemma join_snoc: "join sep (xs @ [y]) = (if xs = [] then y else join sep xs @ sep @ y)"
proof (induction xs)
  case (Cons x xs)
  then show ?case by (cases "xs = []") (simp_all add: join_Cons)
qed simp

lemma join_eq_Nil: "[] \<notin> set xs \<Longrightarrow> join sep xs = [] \<longleftrightarrow> xs = []"
  by (induction sep xs rule: join.induct) auto

subsection \<open>White space\<close>

text \<open>The number of bytes of the white space character a string starts with, 0 if none.\<close>

fun ws_len :: "string \<Rightarrow> nat" where
  "ws_len [] = 0"
| "ws_len (a # s) =
     (if byte_of a \<in> {9, 10, 11, 12, 13, 32} then 1
      else case s of
        [] \<Rightarrow> 0
      | b # s' \<Rightarrow>
         (if byte_of a = 0xC2 \<and> byte_of b \<in> {0x85, 0xA0} then 2
          else case s' of
            [] \<Rightarrow> 0
          | c # _ \<Rightarrow>
             (if byte_of a = 0xE1 \<and> byte_of b = 0x9A \<and> byte_of c = 0x80
               \<or> byte_of a = 0xE2 \<and> byte_of b = 0x80 \<and>
                   (0x80 \<le> byte_of c \<and> byte_of c \<le> 0x8A \<or> byte_of c \<in> {0xA8, 0xA9, 0xAF})
               \<or> byte_of a = 0xE2 \<and> byte_of b = 0x81 \<and> byte_of c = 0x9F
               \<or> byte_of a = 0xE3 \<and> byte_of b = 0x80 \<and> byte_of c = 0x80
              then 3 else 0)))"

lemma ws_len_le: "ws_len s \<le> length s"
  by (induction s rule: ws_len.induct) (auto split: list.splits)

declare ws_len.simps(2) [simp del]

function trim_start :: "string \<Rightarrow> string" where
  "trim_start s = (if ws_len s = 0 then s else trim_start (drop (ws_len s) s))"
  by pat_completeness auto
termination
proof (relation "measure length")
  fix s assume "ws_len s \<noteq> 0"
  then show "(drop (ws_len s) s, s) \<in> measure length"
    using ws_len_le [of s] by auto
qed simp

declare trim_start.simps [simp del]

text \<open>The longest white space suffix is found by trying the byte lengths 1, 2 and 3 at the end.\<close>

definition ws_len_end :: "string \<Rightarrow> nat" where
  "ws_len_end s =
     (let n = length s
      in if 1 \<le> n \<and> ws_len (drop (n - 1) s) = 1 then 1
         else if 2 \<le> n \<and> ws_len (drop (n - 2) s) = 2 then 2
         else if 3 \<le> n \<and> ws_len (drop (n - 3) s) = 3 then 3
         else 0)"

function trim_end :: "string \<Rightarrow> string" where
  "trim_end s = (if ws_len_end s = 0 then s else trim_end (take (length s - ws_len_end s) s))"
  by pat_completeness auto
termination
  by (relation "measure length") (auto simp: ws_len_end_def Let_def split: if_splits)

declare trim_end.simps [simp del]

definition trim :: "string \<Rightarrow> string" where
  "trim s = trim_end (trim_start s)"

text \<open>\<open>split_whitespace()\<close>: the maximal pieces between white space, none of them empty.\<close>

function split_ws :: "string \<Rightarrow> string \<Rightarrow> string list" where
  "split_ws word s =
     (if s = [] then (if word = [] then [] else [word])
      else if ws_len s = 0 then split_ws (word @ [hd s]) (tl s)
      else (if word = [] then [] else [word]) @ split_ws [] (drop (ws_len s) s))"
  by pat_completeness auto
termination
proof (relation "measure (\<lambda>(w, s). length s)")
  fix word s :: string assume "s \<noteq> []" "ws_len s \<noteq> 0"
  then show "(([], drop (ws_len s) s), word, s) \<in> measure (\<lambda>(w, s). length s)"
    using ws_len_le [of s] by auto
qed auto

declare split_ws.simps [simp del]

definition split_whitespace :: "string \<Rightarrow> string list" where
  "split_whitespace s = split_ws [] s"

subsection \<open>Numbers as text\<close>

definition quoted :: "string \<Rightarrow> string" where
  "quoted s = [CHR 0x27] @ s @ [CHR 0x27]"

definition digit_char :: "nat \<Rightarrow> char" where
  "digit_char d = char_of (48 + d)"

fun show_nat :: "nat \<Rightarrow> string" where
  "show_nat n = (if n < 10 then [digit_char n] else show_nat (n div 10) @ [digit_char (n mod 10)])"

declare show_nat.simps [simp del]

definition show_int :: "int \<Rightarrow> string" where
  "show_int z = (if z < 0 then ''-'' @ show_nat (nat (- z)) else show_nat (nat z))"

definition show_bool :: "bool \<Rightarrow> string" where
  "show_bool b = (if b then ''true'' else ''false'')"

definition hex_char :: "nat \<Rightarrow> char" where
  "hex_char d = (if d < 10 then char_of (48 + d) else char_of (87 + d))"

fun show_hex :: "nat \<Rightarrow> string" where
  "show_hex n = (if n < 16 then [hex_char n] else show_hex (n div 16) @ [hex_char (n mod 16)])"

declare show_hex.simps [simp del]

text \<open>\<open>{:0wx}\<close> and \<open>{:#0wx}\<close>, whose width counts the prefix.\<close>

definition pad_left :: "nat \<Rightarrow> char \<Rightarrow> string \<Rightarrow> string" where
  "pad_left w c s = replicate (w - length s) c @ s"

definition show_hex_width :: "nat \<Rightarrow> nat \<Rightarrow> string" where
  "show_hex_width w n = pad_left w CHR ''0'' (show_hex n)"

definition show_hex_prefixed :: "nat \<Rightarrow> nat \<Rightarrow> string" where
  "show_hex_prefixed w n = ''0x'' @ show_hex_width (w - 2) n"

text \<open>\<open>str::parse\<close> on the unsigned types: an optional plus sign, digits, no overflow.\<close>

definition dec_digit :: "char \<Rightarrow> nat option" where
  "dec_digit c = (if 48 \<le> byte_of c \<and> byte_of c \<le> 57 then Some (byte_of c - 48) else None)"

definition hex_digit :: "char \<Rightarrow> nat option" where
  "hex_digit c =
     (if 48 \<le> byte_of c \<and> byte_of c \<le> 57 then Some (byte_of c - 48)
      else if 65 \<le> byte_of c \<and> byte_of c \<le> 70 then Some (byte_of c - 55)
      else if 97 \<le> byte_of c \<and> byte_of c \<le> 102 then Some (byte_of c - 87)
      else None)"

fun parse_digits :: "(char \<Rightarrow> nat option) \<Rightarrow> nat \<Rightarrow> nat \<Rightarrow> string \<Rightarrow> nat option" where
  "parse_digits dig base acc [] = Some acc"
| "parse_digits dig base acc (c # s) =
     (case dig c of None \<Rightarrow> None | Some d \<Rightarrow> parse_digits dig base (base * acc + d) s)"

definition strip_plus :: "string \<Rightarrow> string" where
  "strip_plus s = (case s of c # t \<Rightarrow> if c = CHR ''+'' then t else s | [] \<Rightarrow> [])"

definition parse_radix :: "(char \<Rightarrow> nat option) \<Rightarrow> nat \<Rightarrow> nat \<Rightarrow> string \<Rightarrow> nat option" where
  "parse_radix dig base w s =
     (let t = strip_plus s
      in if t = [] then None
         else case parse_digits dig base 0 t of
                None \<Rightarrow> None
              | Some n \<Rightarrow> if n < 2 ^ w then Some n else None)"

text \<open>The bound is compared as an integer when the function is evaluated.\<close>

lemma parse_radix_code [code]:
  "parse_radix dig base w s =
     (let t = strip_plus s
      in if t = [] then None
         else case parse_digits dig base 0 t of
                None \<Rightarrow> None
              | Some n \<Rightarrow> if int n < 2 ^ w then Some n else None)"
  by (simp add: parse_radix_def Let_def cong: option.case_cong if_cong)

definition parse_dec :: "nat \<Rightarrow> string \<Rightarrow> nat option" where
  "parse_dec = parse_radix dec_digit 10"

definition parse_hex :: "nat \<Rightarrow> string \<Rightarrow> nat option" where
  "parse_hex = parse_radix hex_digit 16"

definition parse_u64 :: "string \<Rightarrow> u64 option" where
  "parse_u64 s = map_option of_nat (parse_dec 64 s)"

definition parse_u32 :: "string \<Rightarrow> u32 option" where
  "parse_u32 s = map_option of_nat (parse_dec 32 s)"

definition parse_u8 :: "string \<Rightarrow> u8 option" where
  "parse_u8 s = map_option of_nat (parse_dec 8 s)"

text \<open>\<open>i8\<close>: a minus sign is allowed and the range is \<open>-128..127\<close>.\<close>

definition parse_i8 :: "string \<Rightarrow> i8 option" where
  "parse_i8 s =
     (case s of
        c # t \<Rightarrow>
          if c = CHR ''-'' then
            (if t = [] then None
             else case parse_digits dec_digit 10 0 t of
                    Some n \<Rightarrow> if n \<le> 128 then Some (word_of_int (- int n)) else None
                  | None \<Rightarrow> None)
          else (case parse_dec 7 s of Some n \<Rightarrow> Some (of_nat n) | None \<Rightarrow> None)
      | [] \<Rightarrow> None)"

subsection \<open>Printing and parsing are inverse\<close>

lemma byte_of_char_of: "n < 256 \<Longrightarrow> byte_of (char_of n) = n"
  by (simp add: byte_of_def of_char_of)

lemma dec_digit_digit_char [simp]: "d < 10 \<Longrightarrow> dec_digit (digit_char d) = Some d"
  by (simp add: dec_digit_def digit_char_def byte_of_char_of)

lemma hex_digit_hex_char [simp]: "d < 16 \<Longrightarrow> hex_digit (hex_char d) = Some d"
  by (auto simp: hex_digit_def hex_char_def byte_of_char_of)

lemma parse_digits_append:
  "parse_digits dig b acc (s @ t) =
     (case parse_digits dig b acc s of None \<Rightarrow> None | Some a \<Rightarrow> parse_digits dig b a t)"
  by (induction dig b acc s rule: parse_digits.induct) (auto split: option.split)

lemma parse_digits_show_nat [simp]: "parse_digits dec_digit 10 0 (show_nat n) = Some n"
proof (induction n rule: show_nat.induct)
  case (1 n)
  then show ?case
    by (cases "n < 10") (simp_all add: show_nat.simps [of n] parse_digits_append)
qed

lemma parse_digits_show_hex [simp]: "parse_digits hex_digit 16 0 (show_hex n) = Some n"
proof (induction n rule: show_hex.induct)
  case (1 n)
  then show ?case
    by (cases "n < 16") (simp_all add: show_hex.simps [of n] parse_digits_append)
qed

definition ascii_digit :: "char \<Rightarrow> bool" where
  "ascii_digit c \<longleftrightarrow> 48 \<le> byte_of c \<and> byte_of c \<le> 57"

lemma ascii_digit_digit_char: "d < 10 \<Longrightarrow> ascii_digit (digit_char d)"
  by (simp add: ascii_digit_def digit_char_def byte_of_char_of)

lemma show_nat_digits: "list_all ascii_digit (show_nat n)"
proof (induction n rule: show_nat.induct)
  case (1 n)
  then show ?case
    by (cases "n < 10") (simp_all add: show_nat.simps [of n] ascii_digit_digit_char)
qed

lemma show_nat_nonempty [simp]: "show_nat n \<noteq> []"
  by (simp add: show_nat.simps [of n])

lemma show_nat_no_sep: "\<not> ascii_digit c \<Longrightarrow> c \<notin> set (show_nat n)"
  using show_nat_digits [of n] by (auto simp: list_all_iff)

lemma strip_plus_digits: "list_all ascii_digit s \<Longrightarrow> strip_plus s = s"
  by (cases s) (auto simp: strip_plus_def ascii_digit_def byte_of_def)

lemma parse_dec_show_nat: "n < 2 ^ w \<Longrightarrow> parse_dec w (show_nat n) = Some n"
  by (simp add: parse_dec_def parse_radix_def Let_def strip_plus_digits [OF show_nat_digits])

lemma show_nat_inj [simp]: "show_nat m = show_nat n \<longleftrightarrow> m = n"
  by (metis parse_digits_show_nat option.inject)

lemma parse_u64_show [simp]: "parse_u64 (show_nat (unat x)) = Some x"
  using unsigned_less [of x, where ?'a = nat] by (simp add: parse_u64_def parse_dec_show_nat)

lemma parse_u32_show [simp]: "parse_u32 (show_nat (unat x)) = Some x"
  using unsigned_less [of x, where ?'a = nat] by (simp add: parse_u32_def parse_dec_show_nat)

lemma parse_u8_show [simp]: "parse_u8 (show_nat (unat x)) = Some x"
  using unsigned_less [of x, where ?'a = nat] by (simp add: parse_u8_def parse_dec_show_nat)

subsection \<open>White space free text\<close>

text \<open>Bytes above the space and below 128 neither are nor start a white space character.\<close>

definition graphic :: "char \<Rightarrow> bool" where
  "graphic c \<longleftrightarrow> 32 < byte_of c \<and> byte_of c < 128"

lemma ws_len_graphic [simp]: "graphic c \<Longrightarrow> ws_len (c # s) = 0"
  by (simp add: graphic_def ws_len.simps split: list.split)

lemma ws_len_space [simp]: "ws_len (CHR '' '' # s) = 1"
  by (simp add: byte_of_def ws_len.simps)

lemma ascii_digit_graphic: "ascii_digit c \<Longrightarrow> graphic c"
  by (simp add: ascii_digit_def graphic_def)

lemma trim_start_graphic: "graphic c \<Longrightarrow> trim_start (c # s) = c # s"
  by (simp add: trim_start.simps)

lemma trim_start_Nil [simp]: "trim_start [] = []"
  by (simp add: trim_start.simps)

lemma split_ws_word:
  "list_all graphic w \<Longrightarrow> split_ws acc (w @ CHR '' '' # s) =
     (if acc @ w = [] then [] else [acc @ w]) @ split_ws [] s"
proof (induction w arbitrary: acc)
  case Nil
  then show ?case by (subst split_ws.simps) simp
next
  case (Cons c w)
  then show ?case by (subst split_ws.simps) simp
qed

lemma split_ws_last: "list_all graphic w \<Longrightarrow> split_ws acc w = (if acc @ w = [] then [] else [acc @ w])"
proof (induction w arbitrary: acc)
  case Nil
  then show ?case by (subst split_ws.simps) simp
next
  case (Cons c w)
  then show ?case by (subst split_ws.simps) simp
qed

lemma split_whitespace_Cons:
  "list_all graphic w \<Longrightarrow> w \<noteq> [] \<Longrightarrow> split_whitespace (w @ CHR '' '' # s) = w # split_whitespace s"
  by (simp add: split_whitespace_def split_ws_word)

lemma split_whitespace_word: "list_all graphic w \<Longrightarrow> w \<noteq> [] \<Longrightarrow> split_whitespace w = [w]"
  by (simp add: split_whitespace_def split_ws_last)

lemma split_whitespace_space: "split_whitespace (CHR '' '' # s) = split_whitespace s"
  unfolding split_whitespace_def using split_ws_word [of "[]" "[]" s] by simp

lemma show_nat_graphic: "list_all graphic (show_nat n)"
  using show_nat_digits [of n] by (auto simp: list_all_iff ascii_digit_graphic)

end
