(* ===== verification/Ecu.thy ===== *)
theory Ecu
  imports Rust_Str
begin

text \<open>
  \<^verbatim>\<open>src/lib.rs\<close>: which ECU a machine of a scenario is. One table of path patterns serves both the
  validation of scenarios (\<open>resolve_ecu_category\<close>) and the choice of the C entry point that boots
  the machine (\<open>ecu_type\<close>, \<open>init\<close>). The entry points are C functions and the machine belongs to
  the simulator: they are a datatype of names and arguments of \<open>init\<close> and \<open>step\<close>. The properties
  show that the two resolutions agree and that every entry point can be selected.
\<close>

subsection \<open>The pattern table\<close>

definition ECU_CATEGORY_PATTERNS :: "(string \<times> string) list" where
  "ECU_CATEGORY_PATTERNS = [
     (''priority_inversion'', ''priority_inversion''),
     (''lifecycle_stress'', ''lifecycle_stress''),
     (''net_demo'', ''net_demo''),
     (''storage_demo'', ''storage_demo''),
     (''bt_demo'', ''bt_demo''),
     (''ota_tool'', ''ota_tool''),
     (''telematics'', ''telematics''),
     (''gateway_diag_clearbug'', ''gateway''),
     (''gateway_diag_clear'', ''gateway''),
     (''gateway_diag_startdrivebug'', ''gateway''),
     (''gateway_diag_startdrive'', ''gateway''),
     (''gateway_diag_fault'', ''gateway''),
     (''gateway_diag'', ''gateway''),
     (''powertrain_diag_service_bug'', ''powertrain''),
     (''powertrain_diag_service'', ''powertrain''),
     (''gateway_ota_badcrc'', ''gateway''),
     (''gateway_ota_intwrite'', ''gateway''),
     (''gateway_ota_badhealth'', ''gateway''),
     (''gateway_ota_powercut'', ''gateway''),
     (''gateway_ota_crcbug'', ''gateway''),
     (''gateway_ota'', ''gateway''),
     (''gateway_charging'', ''gateway''),
     (''powertrain_charging'', ''powertrain''),
     (''diagnostics'', ''diagnostics''),
     (''gateway'', ''gateway''),
     (''powertrain'', ''powertrain''),
     (''bms'', ''bms''),
     (''dashboard'', ''dashboard'')]"

text \<open>The two loops over the table, which return at the first match.\<close>

definition first_category :: "(string \<Rightarrow> bool) \<Rightarrow> string option" where
  "first_category matches =
     map_option snd (List.find (\<lambda>(pattern, category). matches pattern) ECU_CATEGORY_PATTERNS)"

definition resolve_ecu_category :: "string option \<Rightarrow> string \<Rightarrow> string option" where
  "resolve_ecu_category firmware name =
     (case firmware of
        Some path \<Rightarrow>
          (case first_category (contains path) of
             Some category \<Rightarrow> Some category
           | None \<Rightarrow> first_category (starts_with name))
      | None \<Rightarrow> None)"

subsection \<open>Firmware instances\<close>

record microcar_firmware =
  mf_name :: string
  mf_firmware_path :: "string option"
  mf_booted :: bool

definition firmware_new :: "string \<Rightarrow> microcar_firmware" where
  "firmware_new name = \<lparr>mf_name = name, mf_firmware_path = None, mf_booted = False\<rparr>"

definition with_firmware_path :: "string \<Rightarrow> string \<Rightarrow> microcar_firmware" where
  "with_firmware_path name firmware_path =
     \<lparr>mf_name = name, mf_firmware_path = Some firmware_path, mf_booted = False\<rparr>"

definition VARIANTS :: "string list" where
  "VARIANTS = [
     ''priority_inversion'',
     ''lifecycle_stress'',
     ''net_demo'',
     ''storage_demo'',
     ''bt_demo'',
     ''ota_tool'',
     ''telematics'',
     ''gateway_diag_clearbug'',
     ''gateway_diag_clear'',
     ''gateway_diag_startdrivebug'',
     ''gateway_diag_startdrive'',
     ''gateway_diag_fault'',
     ''gateway_diag'',
     ''powertrain_diag_service_bug'',
     ''powertrain_diag_service'',
     ''gateway_ota_badcrc'',
     ''gateway_ota_intwrite'',
     ''gateway_ota_badhealth'',
     ''gateway_ota_powercut'',
     ''gateway_ota_crcbug'',
     ''gateway_ota'',
     ''gateway_charging'',
     ''powertrain_charging'',
     ''diagnostics'',
     ''gateway'',
     ''powertrain'',
     ''bms'',
     ''dashboard'']"

definition ecu_type :: "microcar_firmware \<Rightarrow> string" where
  "ecu_type fw =
     (case (case mf_firmware_path fw of
              Some path \<Rightarrow> List.find (contains path) VARIANTS
            | None \<Rightarrow> None) of
        Some variant \<Rightarrow> variant
      | None \<Rightarrow>
         (case resolve_ecu_category (mf_firmware_path fw) (mf_name fw) of
            Some category \<Rightarrow> category
          | None \<Rightarrow> mf_name fw))"

subsection \<open>Boot dispatch\<close>

datatype boot_function =
  microcar_boot
| microcar_boot_priority_inversion
| microcar_boot_lifecycle_stress
| microcar_boot_net_demo
| microcar_boot_storage_demo
| microcar_boot_bt_demo
| microcar_boot_gateway_diag_clearbug
| microcar_boot_gateway_diag_clear
| microcar_boot_gateway_diag_startdrivebug
| microcar_boot_gateway_diag_startdrive
| microcar_boot_gateway_diag_fault
| microcar_boot_gateway_diag
| microcar_boot_powertrain_diag_service_bug
| microcar_boot_powertrain_diag_service
| microcar_boot_gateway_ota_badcrc
| microcar_boot_gateway_ota_intwrite
| microcar_boot_gateway_ota_badhealth
| microcar_boot_gateway_ota_powercut
| microcar_boot_gateway_ota_crcbug
| microcar_boot_gateway_ota
| microcar_boot_gateway_charging
| microcar_boot_powertrain_charging
| microcar_boot_diagnostics_tool
| microcar_boot_ota_tool
| microcar_boot_telematics
| microcar_boot_gateway
| microcar_boot_powertrain
| microcar_boot_bms
| microcar_boot_dashboard

definition boot_dispatch :: "string \<Rightarrow> boot_function" where
  "boot_dispatch ecu =
     (if starts_with ecu ''priority_inversion'' then microcar_boot_priority_inversion
      else if starts_with ecu ''lifecycle_stress'' then microcar_boot_lifecycle_stress
      else if starts_with ecu ''net_demo'' then microcar_boot_net_demo
      else if starts_with ecu ''storage_demo'' then microcar_boot_storage_demo
      else if starts_with ecu ''bt_demo'' then microcar_boot_bt_demo
      else if starts_with ecu ''gateway_diag_clearbug'' then microcar_boot_gateway_diag_clearbug
      else if starts_with ecu ''gateway_diag_clear'' then microcar_boot_gateway_diag_clear
      else if starts_with ecu ''gateway_diag_startdrivebug'' then microcar_boot_gateway_diag_startdrivebug
      else if starts_with ecu ''gateway_diag_startdrive'' then microcar_boot_gateway_diag_startdrive
      else if starts_with ecu ''gateway_diag_fault'' then microcar_boot_gateway_diag_fault
      else if starts_with ecu ''gateway_diag'' then microcar_boot_gateway_diag
      else if starts_with ecu ''powertrain_diag_service_bug'' then microcar_boot_powertrain_diag_service_bug
      else if starts_with ecu ''powertrain_diag_service'' then microcar_boot_powertrain_diag_service
      else if starts_with ecu ''gateway_ota_badcrc'' then microcar_boot_gateway_ota_badcrc
      else if starts_with ecu ''gateway_ota_intwrite'' then microcar_boot_gateway_ota_intwrite
      else if starts_with ecu ''gateway_ota_badhealth'' then microcar_boot_gateway_ota_badhealth
      else if starts_with ecu ''gateway_ota_powercut'' then microcar_boot_gateway_ota_powercut
      else if starts_with ecu ''gateway_ota_crcbug'' then microcar_boot_gateway_ota_crcbug
      else if starts_with ecu ''gateway_ota'' then microcar_boot_gateway_ota
      else if starts_with ecu ''gateway_charging'' then microcar_boot_gateway_charging
      else if starts_with ecu ''powertrain_charging'' then microcar_boot_powertrain_charging
      else if starts_with ecu ''diagnostics'' then microcar_boot_diagnostics_tool
      else if starts_with ecu ''ota_tool'' then microcar_boot_ota_tool
      else if starts_with ecu ''telematics'' then microcar_boot_telematics
      else if starts_with ecu ''gateway'' then microcar_boot_gateway
      else if starts_with ecu ''powertrain'' then microcar_boot_powertrain
      else if starts_with ecu ''bms'' then microcar_boot_bms
      else if starts_with ecu ''dashboard'' then microcar_boot_dashboard
      else microcar_boot)"

text \<open>
  \<open>activate\<close> makes the machine current, \<open>call\<close> runs a C entry point on it, \<open>flush_trace\<close> and
  \<open>sim_scheduler_tick\<close> are the simulator's; \<open>release\<close> is the drop of the guard at the end of the
  method.
\<close>

definition firmware_init ::
  "('m \<Rightarrow> 'm) \<Rightarrow> ('m \<Rightarrow> 'm) \<Rightarrow> (boot_function \<Rightarrow> 'm \<Rightarrow> 'm) \<Rightarrow> ('m \<Rightarrow> 'm) \<Rightarrow> 'm \<Rightarrow> microcar_firmware \<Rightarrow> microcar_firmware \<times> 'm"
  where
  "firmware_init activate release call flush_trace machine fw =
     (fw\<lparr>mf_booted := True\<rparr>,
      release (flush_trace (call (boot_dispatch (ecu_type fw)) (activate machine))))"

definition firmware_step ::
  "('m \<Rightarrow> 'm) \<Rightarrow> ('m \<Rightarrow> 'm) \<Rightarrow> ('m \<Rightarrow> 'm) \<Rightarrow> ('m \<Rightarrow> 'm) \<Rightarrow> 'm \<Rightarrow> microcar_firmware \<Rightarrow> 'm" where
  "firmware_step activate release sim_scheduler_tick flush_trace machine fw =
     (if \<not> mf_booted fw then machine
      else release (flush_trace (sim_scheduler_tick (activate machine))))"

record zephyr_firmware =
  zf_booted :: bool

definition zephyr_new :: zephyr_firmware where
  "zephyr_new = \<lparr>zf_booted = False\<rparr>"

definition zephyr_init ::
  "('m \<Rightarrow> 'm) \<Rightarrow> ('m \<Rightarrow> 'm) \<Rightarrow> ('m \<Rightarrow> 'm) \<Rightarrow> ('m \<Rightarrow> 'm) \<Rightarrow> 'm \<Rightarrow> zephyr_firmware \<Rightarrow> zephyr_firmware \<times> 'm" where
  "zephyr_init activate release microcar_boot_dashboard_zephyr flush_trace machine fw =
     (fw\<lparr>zf_booted := True\<rparr>,
      release (flush_trace (microcar_boot_dashboard_zephyr (activate machine))))"

definition zephyr_step ::
  "('m \<Rightarrow> 'm) \<Rightarrow> ('m \<Rightarrow> 'm) \<Rightarrow> ('m \<Rightarrow> 'm) \<Rightarrow> ('m \<Rightarrow> 'm) \<Rightarrow> 'm \<Rightarrow> zephyr_firmware \<Rightarrow> 'm" where
  "zephyr_step activate release sim_zephyr_scheduler_tick flush_trace machine fw =
     (if \<not> zf_booted fw then machine
      else release (flush_trace (sim_zephyr_scheduler_tick (activate machine))))"

subsection \<open>The two resolutions agree\<close>

text \<open>The ECU an entry point belongs to; the generic entry point belongs to none.\<close>

fun boot_category :: "boot_function \<Rightarrow> string option" where
  "boot_category microcar_boot = None"
| "boot_category microcar_boot_priority_inversion = Some ''priority_inversion''"
| "boot_category microcar_boot_lifecycle_stress = Some ''lifecycle_stress''"
| "boot_category microcar_boot_net_demo = Some ''net_demo''"
| "boot_category microcar_boot_storage_demo = Some ''storage_demo''"
| "boot_category microcar_boot_bt_demo = Some ''bt_demo''"
| "boot_category microcar_boot_gateway_diag_clearbug = Some ''gateway''"
| "boot_category microcar_boot_gateway_diag_clear = Some ''gateway''"
| "boot_category microcar_boot_gateway_diag_startdrivebug = Some ''gateway''"
| "boot_category microcar_boot_gateway_diag_startdrive = Some ''gateway''"
| "boot_category microcar_boot_gateway_diag_fault = Some ''gateway''"
| "boot_category microcar_boot_gateway_diag = Some ''gateway''"
| "boot_category microcar_boot_powertrain_diag_service_bug = Some ''powertrain''"
| "boot_category microcar_boot_powertrain_diag_service = Some ''powertrain''"
| "boot_category microcar_boot_gateway_ota_badcrc = Some ''gateway''"
| "boot_category microcar_boot_gateway_ota_intwrite = Some ''gateway''"
| "boot_category microcar_boot_gateway_ota_badhealth = Some ''gateway''"
| "boot_category microcar_boot_gateway_ota_powercut = Some ''gateway''"
| "boot_category microcar_boot_gateway_ota_crcbug = Some ''gateway''"
| "boot_category microcar_boot_gateway_ota = Some ''gateway''"
| "boot_category microcar_boot_gateway_charging = Some ''gateway''"
| "boot_category microcar_boot_powertrain_charging = Some ''powertrain''"
| "boot_category microcar_boot_diagnostics_tool = Some ''diagnostics''"
| "boot_category microcar_boot_ota_tool = Some ''ota_tool''"
| "boot_category microcar_boot_telematics = Some ''telematics''"
| "boot_category microcar_boot_gateway = Some ''gateway''"
| "boot_category microcar_boot_powertrain = Some ''powertrain''"
| "boot_category microcar_boot_bms = Some ''bms''"
| "boot_category microcar_boot_dashboard = Some ''dashboard''"

lemma find_map_fst: "List.find P (map fst xs) = map_option fst (List.find (\<lambda>(a, b). P a) xs)"
  by (induction xs) auto

lemma VARIANTS_patterns: "VARIANTS = map fst ECU_CATEGORY_PATTERNS"
  by (simp add: VARIANTS_def ECU_CATEGORY_PATTERNS_def)

lemma variant_dispatch:
  "list_all (\<lambda>(v, c). boot_category (boot_dispatch v) = Some c) ECU_CATEGORY_PATTERNS"
  by code_simp

lemma category_dispatch:
  "list_all (\<lambda>(v, c). boot_category (boot_dispatch c) = Some c) ECU_CATEGORY_PATTERNS"
  by code_simp

lemma find_in: "List.find P xs = Some x \<Longrightarrow> x \<in> set xs \<and> P x"
  by (induction xs) (auto split: if_splits)

lemma no_prefix_dispatch:
  "first_category (starts_with name) = None \<Longrightarrow> boot_dispatch name = microcar_boot"
  unfolding first_category_def ECU_CATEGORY_PATTERNS_def boot_dispatch_def
  by (simp split: if_splits)


text \<open>
  No pattern of the table is shadowed by an earlier one: a path naming a variant under
  \<open>firmware/\<close> selects that variant, and the twenty-eight variants boot through twenty-eight
  different entry points, none of them the generic one.
\<close>

theorem every_variant_has_its_entry_point:
  "map (\<lambda>v. ecu_type (with_firmware_path ''ecu'' (''firmware/'' @ v))) VARIANTS = VARIANTS \<and>
   distinct (map boot_dispatch VARIANTS) \<and> microcar_boot \<notin> set (map boot_dispatch VARIANTS)"
proof -
  have "map (\<lambda>v. ecu_type (with_firmware_path ''ecu'' (''firmware/'' @ v))) VARIANTS = VARIANTS"
    by code_simp
  moreover have "distinct (map boot_dispatch VARIANTS)" by code_simp
  moreover have "microcar_boot \<notin> set (map boot_dispatch VARIANTS)" by code_simp
  ultimately show ?thesis by blast
qed

text \<open>A machine without a firmware field is an external actor for the validation.\<close>

lemma no_firmware_no_category: "resolve_ecu_category None name = None"
  by (simp add: resolve_ecu_category_def)

lemma resolve_category_known:
  "resolve_ecu_category firmware name = Some c \<Longrightarrow> c \<in> snd ` set ECU_CATEGORY_PATTERNS"
  by (auto simp: resolve_ecu_category_def first_category_def split: option.splits dest!: find_in)
    (force dest: find_in)+

end
