(* ===== verification/Validate.thy ===== *)
theory Validate
  imports Ecu "HOL-Library.List_Lexorder" "HOL-Library.Char_ord" "HOL-Library.Multiset"
begin

text \<open>
  \<^verbatim>\<open>src/validate.rs\<close>: the automotive checks on a scenario, first error wins. The scenario type is
  the simulator's; its records hold the fields the checks read. A result is \<open>None\<close> for a panic
  (an index out of range, an overflowing counter, \<open>unreachable!\<close>), otherwise an error or success.
  The properties: no panic on any scenario, success exactly on the scenarios that satisfy a
  declarative description, and which error is reported first.
\<close>

subsection \<open>The part of a scenario the checks read\<close>

datatype rtos_backend = FreeRtos | Zephyr

record machine_def =
  md_id :: u64
  md_name :: string
  md_firmware :: "string option"
  md_rtos :: "rtos_backend option"

record bus_node =
  bn_bus :: string
  bn_machine :: string

record input_def =
  in_type :: string
  in_at_ms :: u64
  in_throttle_percent :: "u8 option"

record bus_inject =
  bi_at_ms :: u64
  bi_bus :: string
  bi_sender :: string
  bi_id :: u32
  bi_data :: "u8 list"

text \<open>A bus is the list of its nodes; the optional plant section has an optional tick length.\<close>

record scenario =
  sc_name :: string
  sc_machine :: "machine_def list"
  sc_bus :: "bus_node list list"
  sc_input :: "input_def list"
  sc_bus_inject :: "bus_inject list"
  sc_plant :: "u64 option option"
  sc_duration_ms :: "u64 option"

record validation_error =
  ve_kind :: string
  ve_message :: string

type_synonym 'a checked = "(validation_error + 'a) option"

definition verror :: "string \<Rightarrow> string \<Rightarrow> 'a checked" where
  "verror kind message = Some (Inl \<lparr>ve_kind = kind, ve_message = message\<rparr>)"

definition verror_display :: "validation_error \<Rightarrow> string" where
  "verror_display e = ve_kind e @ '': '' @ ve_message e"

definition vok :: "'a \<Rightarrow> 'a checked" where
  "vok x = Some (Inr x)"

text \<open>The \<open>?\<close> operator: an error returns at once, a panic stays a panic.\<close>

definition vbind :: "'a checked \<Rightarrow> ('a \<Rightarrow> 'b checked) \<Rightarrow> 'b checked" where
  "vbind r k = (case r of None \<Rightarrow> None | Some (Inl e) \<Rightarrow> Some (Inl e) | Some (Inr x) \<Rightarrow> k x)"

text \<open>Slice indexing: \<open>None\<close> out of range.\<close>

definition index :: "'a list \<Rightarrow> nat \<Rightarrow> 'a option" where
  "index xs i = (if i < length xs then Some (xs ! i) else None)"

subsection \<open>Checks 1 to 4\<close>

definition resolve_ecu :: "string option \<Rightarrow> string \<Rightarrow> string option" where
  "resolve_ecu firmware name = resolve_ecu_category firmware name"

definition machine_ecu :: "machine_def \<Rightarrow> string option" where
  "machine_ecu m = resolve_ecu (md_firmware m) (md_name m)"

text \<open>The categories in the order of a \<open>BTreeSet\<close>.\<close>

definition known_categories :: "string list" where
  "known_categories = sort (remdups (map snd ECU_CATEGORY_PATTERNS))"

fun check_firmware :: "machine_def list \<Rightarrow> unit checked" where
  "check_firmware [] = vok ()"
| "check_firmware (m # ms) =
     (case md_firmware m of
        Some fw \<Rightarrow>
          (if resolve_ecu (Some fw) (md_name m) = None
           then verror ''unknown-firmware''
             (''machine '' @ quoted (md_name m) @ '' firmware '' @ quoted fw @
              '' does not name a known ECU (expected one of: '' @ join '', '' known_categories @ '')'')
           else check_firmware ms)
      | None \<Rightarrow> check_firmware ms)"

text \<open>The loop of check 2: whether a gateway was seen and the first drivetrain ECU.\<close>

definition scan_machine :: "bool \<times> string option \<Rightarrow> machine_def \<Rightarrow> bool \<times> string option" where
  "scan_machine st m =
     (case st of (has_gateway, drivetrain) \<Rightarrow>
       (case machine_ecu m of
          Some kw \<Rightarrow>
            (if kw = ''gateway'' then (True, drivetrain)
             else if (kw = ''powertrain'' \<or> kw = ''bms'' \<or> kw = ''dashboard'') \<and> drivetrain = None
             then (has_gateway, Some (kw @ '' ('' @ quoted (md_name m) @ '')''))
             else (has_gateway, drivetrain))
        | None \<Rightarrow> (has_gateway, drivetrain)))"

definition check_gateway :: "machine_def list \<Rightarrow> unit checked" where
  "check_gateway ms =
     (case foldl scan_machine (False, None) ms of (has_gateway, drivetrain) \<Rightarrow>
        (if \<not> has_gateway then
           (case drivetrain of
              Some dt \<Rightarrow> verror ''missing-gateway''
                (''scenario has a '' @ dt @ '' ECU but no gateway ECU '' @
                 ''(the gateway is the vehicle-mode authority and bus bridge)'')
            | None \<Rightarrow> vok ())
         else vok ()))"

fun check_nodes_once :: "(string \<times> string) set \<Rightarrow> bus_node list \<Rightarrow> unit checked" where
  "check_nodes_once seen [] = vok ()"
| "check_nodes_once seen (n # ns) =
     (if (bn_bus n, bn_machine n) \<in> seen
      then verror ''duplicate-bus-node''
        (''machine '' @ quoted (bn_machine n) @ '' is attached to bus '' @ quoted (bn_bus n) @
         '' more than once'')
      else check_nodes_once (insert (bn_bus n, bn_machine n) seen) ns)"

text \<open>The nested loop visits the nodes bus by bus.\<close>

definition check_duplicate_nodes :: "bus_node list list \<Rightarrow> unit checked" where
  "check_duplicate_nodes buses = check_nodes_once {} (concat buses)"

definition throttle_of :: "input_def \<Rightarrow> u8" where
  "throttle_of i = (case in_throttle_percent i of Some t \<Rightarrow> t | None \<Rightarrow> 0)"

fun check_inputs :: "input_def list \<Rightarrow> unit checked" where
  "check_inputs [] = vok ()"
| "check_inputs (i # is) =
     (if in_type i = ''driver_input'' \<and> throttle_of i > 0
      then verror ''drive-without-powertrain''
        (''driver_input at '' @ show_nat (unat (in_at_ms i)) @ '' ms requests throttle '' @
         show_nat (unat (throttle_of i)) @
         ''% but the scenario has no powertrain ECU to command torque'')
      else check_inputs is)"

definition has_powertrain :: "machine_def list \<Rightarrow> bool" where
  "has_powertrain ms = list_ex (\<lambda>m. machine_ecu m = Some ''powertrain'') ms"

definition check_drive :: "scenario \<Rightarrow> unit checked" where
  "check_drive sc = (if \<not> has_powertrain (sc_machine sc) then check_inputs (sc_input sc) else vok ())"

subsection \<open>Check 5: frames of external actors\<close>

definition MSG_EVSE_EVENT :: u32 where "MSG_EVSE_EVENT = 0x610"
definition MSG_OTA_REQUEST :: u32 where "MSG_OTA_REQUEST = 0x630"
definition MSG_OTA_CHUNK :: u32 where "MSG_OTA_CHUNK = 0x631"
definition MSG_OTA_FINISH :: u32 where "MSG_OTA_FINISH = 0x632"
definition NODE_EVSE :: u8 where "NODE_EVSE = 6"
definition NODE_OTA_TOOL :: u8 where "NODE_OTA_TOOL = 7"

lemmas actor_consts =
  MSG_EVSE_EVENT_def MSG_OTA_REQUEST_def MSG_OTA_CHUNK_def MSG_OTA_FINISH_def
  NODE_EVSE_def NODE_OTA_TOOL_def

lemma actor_ids_distinct [simp]:
  "MSG_EVSE_EVENT \<noteq> MSG_OTA_REQUEST" "MSG_EVSE_EVENT \<noteq> MSG_OTA_CHUNK" "MSG_EVSE_EVENT \<noteq> MSG_OTA_FINISH"
  "MSG_OTA_REQUEST \<noteq> MSG_EVSE_EVENT" "MSG_OTA_REQUEST \<noteq> MSG_OTA_CHUNK" "MSG_OTA_REQUEST \<noteq> MSG_OTA_FINISH"
  "MSG_OTA_CHUNK \<noteq> MSG_EVSE_EVENT" "MSG_OTA_CHUNK \<noteq> MSG_OTA_REQUEST" "MSG_OTA_CHUNK \<noteq> MSG_OTA_FINISH"
  "MSG_OTA_FINISH \<noteq> MSG_EVSE_EVENT" "MSG_OTA_FINISH \<noteq> MSG_OTA_REQUEST" "MSG_OTA_FINISH \<noteq> MSG_OTA_CHUNK"
  by (simp_all add: actor_consts)

definition is_ecu :: "scenario \<Rightarrow> string \<Rightarrow> bool" where
  "is_ecu sc name =
     (case List.find (\<lambda>m. md_name m = name) (sc_machine sc) of
        Some m \<Rightarrow> machine_ecu m \<noteq> None
      | None \<Rightarrow> False)"

definition on_bus :: "scenario \<Rightarrow> string \<Rightarrow> string \<Rightarrow> bool" where
  "on_bus sc bus machine =
     list_ex (\<lambda>n. bn_bus n = bus \<and> bn_machine n = machine) (concat (sc_bus sc))"

definition reserved_id :: "u32 \<Rightarrow> bool" where
  "reserved_id i = (i \<in> {MSG_EVSE_EVENT, MSG_OTA_REQUEST, MSG_OTA_CHUNK, MSG_OTA_FINISH})"

definition actor_frames :: "scenario \<Rightarrow> bus_inject list" where
  "actor_frames sc = sort_key bi_at_ms (filter (\<lambda>bi. reserved_id (bi_id bi)) (sc_bus_inject sc))"

record actor_state =
  as_plugged :: bool
  as_ota_totals :: "u8 \<rightharpoonup> u8"
  as_ota_seen :: "u8 \<rightharpoonup> u8"

definition actor_init :: actor_state where
  "actor_init = \<lparr>as_plugged = False, as_ota_totals = Map.empty, as_ota_seen = Map.empty\<rparr>"

definition want_len :: "u32 \<Rightarrow> nat option" where
  "want_len i =
     (if i = MSG_EVSE_EVENT then Some 6 else if i = MSG_OTA_REQUEST then Some 4
      else if i = MSG_OTA_CHUNK then Some 8 else if i = MSG_OTA_FINISH then Some 7 else None)"

definition check_evse :: "bus_inject \<Rightarrow> actor_state \<Rightarrow> actor_state checked" where
  "check_evse bi st = do {
     event \<leftarrow> index (bi_data bi) 1;
     if event > 3 then verror ''bad-enum-value''
       (''EVSE_EVENT event '' @ show_nat (unat event) @ '' out of range 0..3'')
     else do {
       request_id \<leftarrow> index (bi_data bi) 2;
       if request_id = 0 then verror ''zero-request-id'' ''EVSE_EVENT request_id must be nonzero''
       else if event = 1 then vok (st\<lparr>as_plugged := True\<rparr>)
       else if event = 2 \<and> \<not> as_plugged st
       then verror ''handshake-before-plug'' ''HANDSHAKE_OK before any PLUG event''
       else vok st
     }
   }"

text \<open>\<open>entry(k).or_insert(0)\<close>\<close>

definition or_insert_zero :: "u8 \<Rightarrow> (u8 \<rightharpoonup> u8) \<Rightarrow> (u8 \<rightharpoonup> u8)" where
  "or_insert_zero k m = (case m k of None \<Rightarrow> m(k \<mapsto> 0) | Some _ \<Rightarrow> m)"

definition check_ota_request :: "bus_inject \<Rightarrow> actor_state \<Rightarrow> actor_state checked" where
  "check_ota_request bi st = do {
     request_id \<leftarrow> index (bi_data bi) 1;
     if request_id = 0 then verror ''zero-request-id'' ''OTA_REQUEST request_id must be nonzero''
     else do {
       total_chunks \<leftarrow> index (bi_data bi) 3;
       vok (st\<lparr>as_ota_totals := (as_ota_totals st)(request_id \<mapsto> total_chunks),
              as_ota_seen := or_insert_zero request_id (as_ota_seen st)\<rparr>)
     }
   }"

definition check_ota_chunk :: "bus_inject \<Rightarrow> actor_state \<Rightarrow> actor_state checked" where
  "check_ota_chunk bi st = do {
     request_id \<leftarrow> index (bi_data bi) 1;
     if request_id = 0 then verror ''zero-request-id'' ''OTA_CHUNK request_id must be nonzero''
     else do {
       chunk_index \<leftarrow> index (bi_data bi) 2;
       case as_ota_totals st request_id of
         None \<Rightarrow> verror ''chunk-before-request''
           (''OTA_CHUNK for request '' @ show_nat (unat request_id) @ '' before its OTA_REQUEST'')
       | Some total_chunks \<Rightarrow> do {
           let seen_map = or_insert_zero request_id (as_ota_seen st);
           seen \<leftarrow> seen_map request_id;
           if chunk_index \<noteq> seen then verror ''ota-chunk-order''
             (''OTA_CHUNK index '' @ show_nat (unat chunk_index) @ '' for request '' @
              show_nat (unat request_id) @ '', expected '' @ show_nat (unat seen))
           else if chunk_index \<ge> total_chunks then verror ''ota-chunk-order''
             (''OTA_CHUNK index '' @ show_nat (unat chunk_index) @ '' >= total_chunks '' @
              show_nat (unat total_chunks))
           else do {
             seen' \<leftarrow> uadd seen 1;
             vok (st\<lparr>as_ota_seen := seen_map(request_id \<mapsto> seen')\<rparr>)
           }
         }
     }
   }"

definition show_declared :: "u8 option \<Rightarrow> string" where
  "show_declared d = (case d of None \<Rightarrow> ''None'' | Some n \<Rightarrow> ''Some('' @ show_nat (unat n) @ '')'')"

definition check_ota_finish :: "bus_inject \<Rightarrow> actor_state \<Rightarrow> actor_state checked" where
  "check_ota_finish bi st = do {
     request_id \<leftarrow> index (bi_data bi) 1;
     if request_id = 0 then verror ''zero-request-id'' ''OTA_FINISH request_id must be nonzero''
     else do {
       finish_total \<leftarrow> index (bi_data bi) 2;
       let declared = as_ota_totals st request_id;
       let observed = (case as_ota_seen st request_id of Some n \<Rightarrow> n | None \<Rightarrow> 0);
       if declared \<noteq> Some finish_total \<or> observed \<noteq> finish_total
       then verror ''ota-finish-mismatch''
         (''OTA_FINISH total '' @ show_nat (unat finish_total) @ '' != declared '' @
          show_declared declared @ '' / observed '' @ show_nat (unat observed))
       else vok st
     }
   }"

definition check_frame :: "scenario \<Rightarrow> bus_inject \<Rightarrow> actor_state \<Rightarrow> actor_state checked" where
  "check_frame sc bi st =
     (let reserved = (if bi_id bi = MSG_EVSE_EVENT then NODE_EVSE else NODE_OTA_TOOL)
      in if is_ecu sc (bi_sender bi) then verror ''actor-has-firmware''
           (''actor '' @ quoted (bi_sender bi) @ '' sends '' @ show_hex_prefixed 5 (unat (bi_id bi)) @
            '' but resolves to a firmware ECU'')
         else if \<not> on_bus sc (bi_bus bi) (bi_sender bi) then verror ''actor-not-on-bus''
           (''actor '' @ quoted (bi_sender bi) @ '' is not attached to bus '' @ quoted (bi_bus bi))
         else do {
           len \<leftarrow> want_len (bi_id bi);
           if length (bi_data bi) \<noteq> len then verror ''bad-payload-length''
             (show_hex_prefixed 5 (unat (bi_id bi)) @ '' payload is '' @
              show_nat (length (bi_data bi)) @ '' bytes, expected '' @ show_nat len)
           else do {
             byte0 \<leftarrow> index (bi_data bi) 0;
             if byte0 \<noteq> reserved then verror ''bad-source-node''
               (show_hex_prefixed 5 (unat (bi_id bi)) @ '' payload byte 0 is '' @
                show_nat (unat byte0) @ '', expected reserved node '' @ show_nat (unat reserved))
             else if bi_id bi = MSG_EVSE_EVENT then check_evse bi st
             else if bi_id bi = MSG_OTA_REQUEST then check_ota_request bi st
             else if bi_id bi = MSG_OTA_CHUNK then check_ota_chunk bi st
             else if bi_id bi = MSG_OTA_FINISH then check_ota_finish bi st
             else vok st
           }
         })"

fun check_frames :: "scenario \<Rightarrow> actor_state \<Rightarrow> bus_inject list \<Rightarrow> unit checked" where
  "check_frames sc st [] = vok ()"
| "check_frames sc st (bi # bis) = vbind (check_frame sc bi st) (\<lambda>st'. check_frames sc st' bis)"

definition validate_external_actor_frames :: "scenario \<Rightarrow> unit checked" where
  "validate_external_actor_frames sc = check_frames sc actor_init (actor_frames sc)"

definition validate_scenario :: "scenario \<Rightarrow> unit checked" where
  "validate_scenario sc =
     vbind (check_firmware (sc_machine sc)) (\<lambda>_.
     vbind (check_gateway (sc_machine sc)) (\<lambda>_.
     vbind (check_duplicate_nodes (sc_bus sc)) (\<lambda>_.
     vbind (check_drive sc) (\<lambda>_.
     validate_external_actor_frames sc))))"

subsection \<open>The declarative description\<close>

text \<open>The parts of a frame, meaningful for a frame of the right length.\<close>

abbreviation frame_request :: "bus_inject \<Rightarrow> u8" where
  "frame_request bi \<equiv> bi_data bi ! (if bi_id bi = MSG_EVSE_EVENT then 2 else 1)"

definition is_plug :: "bus_inject \<Rightarrow> bool" where
  "is_plug bi \<longleftrightarrow> bi_id bi = MSG_EVSE_EVENT \<and> bi_data bi ! 1 = 1"

definition requests_for :: "u8 \<Rightarrow> bus_inject list \<Rightarrow> bus_inject list" where
  "requests_for r fs = filter (\<lambda>f. bi_id f = MSG_OTA_REQUEST \<and> bi_data f ! 1 = r) fs"

definition chunks_for :: "u8 \<Rightarrow> bus_inject list \<Rightarrow> bus_inject list" where
  "chunks_for r fs = filter (\<lambda>f. bi_id f = MSG_OTA_CHUNK \<and> bi_data f ! 1 = r) fs"

text \<open>The chunk count the latest request for \<open>r\<close> declares.\<close>

definition declared_total :: "u8 \<Rightarrow> bus_inject list \<Rightarrow> u8 option" where
  "declared_total r fs =
     (if requests_for r fs = [] then None else Some (bi_data (last (requests_for r fs)) ! 3))"

definition sender_ok :: "scenario \<Rightarrow> bus_inject \<Rightarrow> bool" where
  "sender_ok sc bi \<longleftrightarrow> \<not> is_ecu sc (bi_sender bi) \<and> on_bus sc (bi_bus bi) (bi_sender bi)"

definition shape_ok :: "bus_inject \<Rightarrow> bool" where
  "shape_ok bi \<longleftrightarrow> want_len (bi_id bi) = Some (length (bi_data bi)) \<and>
     bi_data bi ! 0 = (if bi_id bi = MSG_EVSE_EVENT then NODE_EVSE else NODE_OTA_TOOL) \<and>
     frame_request bi \<noteq> 0"

text \<open>What a frame may say after the frames \<open>before\<close> it.\<close>

definition content_ok :: "bus_inject list \<Rightarrow> bus_inject \<Rightarrow> bool" where
  "content_ok before bi \<longleftrightarrow>
     (if bi_id bi = MSG_EVSE_EVENT then
        bi_data bi ! 1 \<le> 3 \<and> (bi_data bi ! 1 \<noteq> 2 \<or> list_ex is_plug before)
      else if bi_id bi = MSG_OTA_CHUNK then
        unat (bi_data bi ! 2) = length (chunks_for (bi_data bi ! 1) before) \<and>
        (case declared_total (bi_data bi ! 1) before of
           None \<Rightarrow> False
         | Some n \<Rightarrow> bi_data bi ! 2 < n)
      else if bi_id bi = MSG_OTA_FINISH then
        declared_total (bi_data bi ! 1) before = Some (bi_data bi ! 2) \<and>
        length (chunks_for (bi_data bi ! 1) before) = unat (bi_data bi ! 2)
      else True)"

definition frame_ok :: "scenario \<Rightarrow> bus_inject list \<Rightarrow> bus_inject \<Rightarrow> bool" where
  "frame_ok sc before bi \<longleftrightarrow> sender_ok sc bi \<and> shape_ok bi \<and> content_ok before bi"

fun frames_ok :: "scenario \<Rightarrow> bus_inject list \<Rightarrow> bus_inject list \<Rightarrow> bool" where
  "frames_ok sc before [] = True"
| "frames_ok sc before (bi # bis) = (frame_ok sc before bi \<and> frames_ok sc (before @ [bi]) bis)"

lemma frames_ok_nth:
  "frames_ok sc before fs \<longleftrightarrow> (\<forall>i < length fs. frame_ok sc (before @ take i fs) (fs ! i))"
proof (induction fs arbitrary: before)
  case (Cons f fs)
  show ?case
  proof
    assume "frames_ok sc before (f # fs)"
    with Cons [of "before @ [f]"] show "\<forall>i<length (f # fs). frame_ok sc (before @ take i (f # fs)) ((f # fs) ! i)"
      by (auto simp: nth_Cons take_Cons split: nat.split)
  next
    assume all: "\<forall>i<length (f # fs). frame_ok sc (before @ take i (f # fs)) ((f # fs) ! i)"
    have "frame_ok sc (before @ [f] @ take i fs) (fs ! i)" if "i < length fs" for i
      using all that by (auto dest: spec [of _ "Suc i"])
    moreover have "frame_ok sc before f" using all by (auto dest: spec [of _ 0])
    ultimately show "frames_ok sc before (f # fs)" using Cons [of "before @ [f]"] by simp
  qed
qed simp

definition drivetrain_ecu :: "machine_def \<Rightarrow> bool" where
  "drivetrain_ecu m \<longleftrightarrow> machine_ecu m \<in> {Some ''powertrain'', Some ''bms'', Some ''dashboard''}"

definition firmware_known :: "scenario \<Rightarrow> bool" where
  "firmware_known sc = list_all (\<lambda>m. md_firmware m = None \<or> machine_ecu m \<noteq> None) (sc_machine sc)"

definition gateway_present :: "scenario \<Rightarrow> bool" where
  "gateway_present sc \<longleftrightarrow> \<not> list_ex drivetrain_ecu (sc_machine sc) \<or>
     list_ex (\<lambda>m. machine_ecu m = Some ''gateway'') (sc_machine sc)"

definition nodes_once :: "scenario \<Rightarrow> bool" where
  "nodes_once sc = distinct (map (\<lambda>n. (bn_bus n, bn_machine n)) (concat (sc_bus sc)))"

definition drive_possible :: "scenario \<Rightarrow> bool" where
  "drive_possible sc \<longleftrightarrow> has_powertrain (sc_machine sc) \<or>
     \<not> list_ex (\<lambda>i. in_type i = ''driver_input'' \<and> throttle_of i > 0) (sc_input sc)"

definition actors_ok :: "scenario \<Rightarrow> bool" where
  "actors_ok sc = frames_ok sc [] (actor_frames sc)"

subsection \<open>Each check decides its condition\<close>

lemma vbind_simps [simp]:
  "vbind (vok x) k = k x" "vbind (verror kd msg) k = verror kd msg" "vbind None k = None"
  "vok x \<noteq> verror kd msg" "verror kd msg \<noteq> vok x" "vok x \<noteq> None" "verror kd msg \<noteq> None"
  by (simp_all add: vbind_def vok_def verror_def)

text \<open>\<open>decides r P kinds\<close>: no panic, success exactly under \<open>P\<close>, else an error of one of the kinds.\<close>

definition decides :: "unit checked \<Rightarrow> bool \<Rightarrow> string set \<Rightarrow> bool" where
  "decides r P kinds \<longleftrightarrow> (P \<and> r = vok () \<or> \<not> P \<and> (\<exists>kd msg. kd \<in> kinds \<and> r = verror kd msg))"

lemma decides_ok: "P \<Longrightarrow> decides (vok ()) P kinds"
  by (simp add: decides_def)

lemma decides_error: "\<not> P \<Longrightarrow> kd \<in> kinds \<Longrightarrow> decides (verror kd msg) P kinds"
  by (auto simp: decides_def)

lemma check_firmware_decides:
  "decides (check_firmware ms) (list_all (\<lambda>m. md_firmware m = None \<or> machine_ecu m \<noteq> None) ms)
     {''unknown-firmware''}"
proof (induction ms)
  case (Cons m ms)
  then show ?case
    by (cases "md_firmware m") (auto simp: decides_def machine_ecu_def)
qed (simp add: decides_def)

lemma scan_machine_fold:
  "fst (foldl scan_machine st ms) = (fst st \<or> list_ex (\<lambda>m. machine_ecu m = Some ''gateway'') ms) \<and>
   (snd (foldl scan_machine st ms) = None) = (snd st = None \<and> \<not> list_ex drivetrain_ecu ms)"
proof (induction ms arbitrary: st)
  case (Cons m ms)
  have "fst (scan_machine st m) = (fst st \<or> machine_ecu m = Some ''gateway'')"
    "(snd (scan_machine st m) = None) = (snd st = None \<and> \<not> drivetrain_ecu m)"
    by (cases "machine_ecu m"; cases st; auto simp: scan_machine_def drivetrain_ecu_def)+
  with Cons [of "scan_machine st m"] show ?case by auto
qed simp

lemma check_gateway_decides:
  "decides (check_gateway (sc_machine sc)) (gateway_present sc) {''missing-gateway''}"
  using scan_machine_fold [of "(False, None)" "sc_machine sc"]
  by (auto simp: check_gateway_def gateway_present_def decides_def split: prod.split option.split)

lemma check_nodes_once_decides:
  "decides (check_nodes_once seen ns)
     (distinct (map (\<lambda>n. (bn_bus n, bn_machine n)) ns) \<and>
      (\<lambda>n. (bn_bus n, bn_machine n)) ` set ns \<inter> seen = {})
     {''duplicate-bus-node''}"
proof (induction ns arbitrary: seen)
  case (Cons n ns)
  show ?case
  proof (cases "(bn_bus n, bn_machine n) \<in> seen")
    case True
    then show ?thesis by (simp add: decides_def) blast
  next
    case False
    let ?k = "\<lambda>n. (bn_bus n, bn_machine n)"
    have "(distinct (map ?k ns) \<and> ?k ` set ns \<inter> insert (?k n) seen = {}) =
      (distinct (map ?k (n # ns)) \<and> ?k ` set (n # ns) \<inter> seen = {})"
      using False by auto
    with Cons [of "insert (?k n) seen"] False show ?thesis by simp
  qed
qed (simp add: decides_def)

lemma check_inputs_decides:
  "decides (check_inputs is) (\<not> list_ex (\<lambda>i. in_type i = ''driver_input'' \<and> throttle_of i > 0) is)
     {''drive-without-powertrain''}"
  by (induction "is") (auto simp: decides_def)

subsection \<open>The frame loop\<close>

definition actor_kinds :: "string set" where
  "actor_kinds = {''actor-has-firmware'', ''actor-not-on-bus'', ''bad-payload-length'',
     ''bad-source-node'', ''bad-enum-value'', ''zero-request-id'', ''handshake-before-plug'',
     ''chunk-before-request'', ''ota-chunk-order'', ''ota-finish-mismatch''}"

definition actor_inv :: "bus_inject list \<Rightarrow> actor_state \<Rightarrow> bool" where
  "actor_inv before st \<longleftrightarrow>
     as_plugged st = list_ex is_plug before \<and>
     (\<forall>r. as_ota_totals st r = declared_total r before) \<and>
     (\<forall>r. as_ota_seen st r = (if requests_for r before = [] then None
                             else Some (of_nat (length (chunks_for r before))))) \<and>
     (\<forall>r. length (chunks_for r before) < 256 \<and>
          (requests_for r before = [] \<longrightarrow> chunks_for r before = []))"

text \<open>A step of the loop: accepted exactly when the frame is right, and the state follows.\<close>

definition accepts :: "actor_state checked \<Rightarrow> bool \<Rightarrow> bus_inject list \<Rightarrow> bool" where
  "accepts r P after \<longleftrightarrow> (P \<and> (\<exists>st. r = vok st \<and> actor_inv after st) \<or>
     \<not> P \<and> (\<exists>kd msg. kd \<in> actor_kinds \<and> r = verror kd msg))"

lemma accepts_error: "\<not> P \<Longrightarrow> kd \<in> actor_kinds \<Longrightarrow> accepts (verror kd msg) P after"
  by (auto simp: accepts_def)

lemma accepts_vok: "P \<Longrightarrow> actor_inv after st \<Longrightarrow> accepts (vok st) P after"
  by (auto simp: accepts_def)

lemma actor_inv_init: "actor_inv [] actor_init"
  by (simp add: actor_inv_def actor_init_def declared_total_def requests_for_def chunks_for_def)

lemma index_nth [simp]: "i < length xs \<Longrightarrow> index xs i = Some (xs ! i)"
  by (simp add: index_def)

lemma requests_for_snoc: "requests_for r (fs @ [f]) =
    requests_for r fs @ (if bi_id f = MSG_OTA_REQUEST \<and> bi_data f ! 1 = r then [f] else [])"
  by (simp add: requests_for_def)

lemma chunks_for_snoc: "chunks_for r (fs @ [f]) =
    chunks_for r fs @ (if bi_id f = MSG_OTA_CHUNK \<and> bi_data f ! 1 = r then [f] else [])"
  by (simp add: chunks_for_def)

lemma check_evse_accepts:
  assumes "actor_inv before st" "bi_id bi = MSG_EVSE_EVENT" "length (bi_data bi) = 6"
  shows "accepts (check_evse bi st) (bi_data bi ! 2 \<noteq> 0 \<and> content_ok before bi) (before @ [bi])"
proof -
  let ?e = "bi_data bi ! 1" and ?r = "bi_data bi ! 2"
  have keep: "actor_inv (before @ [bi]) st" if "?e \<noteq> 1"
    using assms that by (auto simp: actor_inv_def is_plug_def requests_for_snoc chunks_for_snoc
        declared_total_def)
  have plug: "actor_inv (before @ [bi]) (st\<lparr>as_plugged := True\<rparr>)" if "?e = 1"
    using assms that by (auto simp: actor_inv_def is_plug_def requests_for_snoc chunks_for_snoc
        declared_total_def)
  have p: "as_plugged st = list_ex is_plug before" using assms by (simp add: actor_inv_def)
  show ?thesis
    using assms(2,3) keep plug
    by (auto simp: check_evse_def content_ok_def p actor_kinds_def not_le intro!: accepts_error accepts_vok)
qed

lemma declared_total_snoc: "declared_total r (fs @ [f]) =
    (if bi_id f = MSG_OTA_REQUEST \<and> bi_data f ! 1 = r then Some (bi_data f ! 3) else declared_total r fs)"
  by (simp add: declared_total_def requests_for_snoc)

lemma check_ota_request_accepts:
  assumes inv: "actor_inv before st" and bi: "bi_id bi = MSG_OTA_REQUEST" "length (bi_data bi) = 4"
  shows "accepts (check_ota_request bi st) (bi_data bi ! 1 \<noteq> 0 \<and> content_ok before bi) (before @ [bi])"
proof -
  let ?r = "bi_data bi ! 1"
  let ?st = "st\<lparr>as_ota_totals := (as_ota_totals st)(?r \<mapsto> bi_data bi ! 3),
              as_ota_seen := or_insert_zero ?r (as_ota_seen st)\<rparr>"
  have "actor_inv (before @ [bi]) ?st"
    using inv bi by (auto simp: actor_inv_def is_plug_def requests_for_snoc chunks_for_snoc
        declared_total_snoc or_insert_zero_def split: option.split)
  then show ?thesis using bi
    by (auto simp: check_ota_request_def content_ok_def actor_kinds_def
        intro!: accepts_error accepts_vok)
qed

lemma actor_inv_seen:
  assumes "actor_inv before st" "declared_total r before = Some n"
  shows "or_insert_zero r (as_ota_seen st) = as_ota_seen st"
    "as_ota_seen st r = Some (of_nat (length (chunks_for r before)))"
    "unat (of_nat (length (chunks_for r before)) :: u8) = length (chunks_for r before)"
  using assms
  by (auto simp: actor_inv_def declared_total_def or_insert_zero_def unat_of_nat split: if_splits)

lemma check_ota_chunk_accepts:
  assumes inv: "actor_inv before st" and bi: "bi_id bi = MSG_OTA_CHUNK" "length (bi_data bi) = 8"
  shows "accepts (check_ota_chunk bi st) (bi_data bi ! 1 \<noteq> 0 \<and> content_ok before bi) (before @ [bi])"
proof (cases "declared_total (bi_data bi ! 1) before")
  case None
  moreover have "as_ota_totals st (bi_data bi ! 1) = None" using inv None by (simp add: actor_inv_def)
  ultimately show ?thesis using bi
    by (auto simp: check_ota_chunk_def content_ok_def actor_kinds_def intro!: accepts_error)
next
  case (Some n)
  let ?r = "bi_data bi ! 1" and ?i = "bi_data bi ! 2"
  let ?k = "of_nat (length (chunks_for ?r before)) :: u8"
  note seen = actor_inv_seen [OF inv Some]
  have tot: "as_ota_totals st ?r = Some n" using inv Some by (simp add: actor_inv_def)
  have eq: "?i = ?k \<longleftrightarrow> unat ?i = length (chunks_for ?r before)"
    using seen(3) by (simp add: word_unat_eq_iff)
  have c: "content_ok before bi \<longleftrightarrow> ?i = ?k \<and> ?i < n"
    using bi Some eq by (auto simp: content_ok_def)
  have step: "uadd ?k 1 = Some (?k + 1) \<and>
    actor_inv (before @ [bi]) (st\<lparr>as_ota_seen := (as_ota_seen st)(?r \<mapsto> ?k + 1)\<rparr>)" if "?k < n"
  proof -
    have "unat ?k < unat n" using that by (simp add: word_less_nat_alt)
    with unat_u8_range [of n] have lt: "length (chunks_for ?r before) < 255" unfolding seen(3) by linarith
    have "requests_for ?r before \<noteq> []" using Some by (auto simp: declared_total_def)
    then have "actor_inv (before @ [bi]) (st\<lparr>as_ota_seen := (as_ota_seen st)(?r \<mapsto> ?k + 1)\<rparr>)"
      using inv bi lt by (auto simp: actor_inv_def is_plug_def requests_for_snoc chunks_for_snoc
          declared_total_snoc add.commute)
    moreover have "uadd ?k 1 = Some (?k + 1)" using lt seen(3) by (simp add: uadd_def)
    ultimately show ?thesis by blast
  qed
  show ?thesis
    unfolding c using bi tot seen(1,2) step
    by (auto simp: check_ota_chunk_def actor_kinds_def not_less Let_def intro!: accepts_error accepts_vok)
qed

lemma check_ota_finish_accepts:
  assumes inv: "actor_inv before st" and bi: "bi_id bi = MSG_OTA_FINISH" "length (bi_data bi) = 7"
  shows "accepts (check_ota_finish bi st) (bi_data bi ! 1 \<noteq> 0 \<and> content_ok before bi) (before @ [bi])"
proof -
  let ?r = "bi_data bi ! 1" and ?n = "bi_data bi ! 2"
  have keep: "actor_inv (before @ [bi]) st"
    using inv bi by (auto simp: actor_inv_def is_plug_def requests_for_snoc chunks_for_snoc
        declared_total_snoc)
  have tot: "as_ota_totals st ?r = declared_total ?r before" using inv by (simp add: actor_inv_def)
  have c: "content_ok before bi \<longleftrightarrow> declared_total ?r before = Some ?n \<and>
      (case as_ota_seen st ?r of Some n \<Rightarrow> n | None \<Rightarrow> 0) = ?n"
  proof (cases "declared_total ?r before = Some ?n")
    case True
    note seen = actor_inv_seen [OF inv True]
    have "(of_nat (length (chunks_for ?r before)) = ?n) = (length (chunks_for ?r before) = unat ?n)"
      using seen(3) by (simp add: word_unat_eq_iff)
    then show ?thesis using bi True seen(2) by (auto simp: content_ok_def)
  next
    case False
    then show ?thesis using bi by (simp add: content_ok_def)
  qed
  show ?thesis
    unfolding c using bi keep tot
    by (auto simp: check_ota_finish_def actor_kinds_def Let_def intro!: accepts_error accepts_vok)
qed

lemma check_frame_accepts:
  assumes inv: "actor_inv before st" and res: "reserved_id (bi_id bi)"
  shows "accepts (check_frame sc bi st) (frame_ok sc before bi) (before @ [bi])"
proof (cases "sender_ok sc bi \<and> want_len (bi_id bi) = Some (length (bi_data bi)) \<and>
    bi_data bi ! 0 = (if bi_id bi = MSG_EVSE_EVENT then NODE_EVSE else NODE_OTA_TOOL)")
  case True
  then have ok: "frame_ok sc before bi \<longleftrightarrow> frame_request bi \<noteq> 0 \<and> content_ok before bi"
    by (auto simp: frame_ok_def shape_ok_def)
  have ne: "0 < length (bi_data bi)" using True res
    by (auto simp: want_len_def reserved_id_def split: if_splits)
  from res consider (e) "bi_id bi = MSG_EVSE_EVENT" "length (bi_data bi) = 6"
    | (r) "bi_id bi = MSG_OTA_REQUEST" "length (bi_data bi) = 4"
    | (c) "bi_id bi = MSG_OTA_CHUNK" "length (bi_data bi) = 8"
    | (f) "bi_id bi = MSG_OTA_FINISH" "length (bi_data bi) = 7"
    using True by (auto simp: reserved_id_def want_len_def)
  then show ?thesis
  proof cases
    case e
    with check_evse_accepts [OF inv e] True ok ne show ?thesis
      by (simp add: check_frame_def sender_ok_def Let_def)
  next
    case r
    with check_ota_request_accepts [OF inv r] True ok ne show ?thesis
      by (simp add: check_frame_def sender_ok_def Let_def)
  next
    case c
    with check_ota_chunk_accepts [OF inv c] True ok ne show ?thesis
      by (simp add: check_frame_def sender_ok_def Let_def)
  next
    case f
    with check_ota_finish_accepts [OF inv f] True ok ne show ?thesis
      by (simp add: check_frame_def sender_ok_def Let_def)
  qed
next
  case False
  then have no: "\<not> frame_ok sc before bi" by (auto simp: frame_ok_def shape_ok_def)
  obtain n where n: "want_len (bi_id bi) = Some n" "0 < n"
    using res by (auto simp: want_len_def reserved_id_def)
  have kinds: "{''actor-has-firmware'', ''actor-not-on-bus'', ''bad-payload-length'', ''bad-source-node''}
      \<subseteq> actor_kinds"
    by (auto simp: actor_kinds_def)
  let ?node = "if bi_id bi = MSG_EVSE_EVENT then NODE_EVSE else NODE_OTA_TOOL"
  consider "is_ecu sc (bi_sender bi)"
    | "\<not> is_ecu sc (bi_sender bi)" "\<not> on_bus sc (bi_bus bi) (bi_sender bi)"
    | "\<not> is_ecu sc (bi_sender bi)" "on_bus sc (bi_bus bi) (bi_sender bi)" "length (bi_data bi) \<noteq> n"
    | "\<not> is_ecu sc (bi_sender bi)" "on_bus sc (bi_bus bi) (bi_sender bi)" "length (bi_data bi) = n"
      "bi_data bi ! 0 \<noteq> ?node"
    using False n by (auto simp: sender_ok_def)
  then show ?thesis
    by cases (simp_all only: check_frame_def Let_def n index_nth Option.bind.bind_lunit if_True if_False
        simp_thms not_False_eq_True, (rule accepts_error [OF no], use kinds in auto)+)
qed

lemma check_frames_decides:
  "actor_inv before st \<Longrightarrow> list_all (\<lambda>bi. reserved_id (bi_id bi)) fs \<Longrightarrow>
   decides (check_frames sc st fs) (frames_ok sc before fs) actor_kinds"
proof (induction fs arbitrary: before st)
  case (Cons f fs)
  from Cons.prems have "accepts (check_frame sc f st) (frame_ok sc before f) (before @ [f])"
    by (intro check_frame_accepts) simp_all
  then consider (ok) st' where "frame_ok sc before f" "check_frame sc f st = vok st'"
      "actor_inv (before @ [f]) st'"
    | (bad) kd msg where "\<not> frame_ok sc before f" "kd \<in> actor_kinds" "check_frame sc f st = verror kd msg"
    unfolding accepts_def by blast
  then show ?case
  proof cases
    case ok
    with Cons.IH [OF ok(3)] Cons.prems(2) show ?thesis by simp
  next
    case bad
    then show ?thesis by (simp add: decides_error)
  qed
qed (simp add: decides_def)

lemma actor_frames_reserved: "list_all (\<lambda>bi. reserved_id (bi_id bi)) (actor_frames sc)"
  by (simp add: actor_frames_def list_all_iff)

subsection \<open>Properties of the validation\<close>

lemma validate_stages:
  "decides (check_firmware (sc_machine sc)) (firmware_known sc) {''unknown-firmware''}"
  "decides (check_gateway (sc_machine sc)) (gateway_present sc) {''missing-gateway''}"
  "decides (check_duplicate_nodes (sc_bus sc)) (nodes_once sc) {''duplicate-bus-node''}"
  "decides (check_drive sc) (drive_possible sc) {''drive-without-powertrain''}"
  "decides (validate_external_actor_frames sc) (actors_ok sc) actor_kinds"
proof -
  show "decides (check_firmware (sc_machine sc)) (firmware_known sc) {''unknown-firmware''}"
    unfolding firmware_known_def by (rule check_firmware_decides)
  show "decides (check_gateway (sc_machine sc)) (gateway_present sc) {''missing-gateway''}"
    by (rule check_gateway_decides)
  show "decides (check_duplicate_nodes (sc_bus sc)) (nodes_once sc) {''duplicate-bus-node''}"
    using check_nodes_once_decides [of "{}" "concat (sc_bus sc)"]
    by (simp add: check_duplicate_nodes_def nodes_once_def)
  show "decides (check_drive sc) (drive_possible sc) {''drive-without-powertrain''}"
    using check_inputs_decides [of "sc_input sc"]
    by (simp add: check_drive_def drive_possible_def decides_ok)
  show "decides (validate_external_actor_frames sc) (actors_ok sc) actor_kinds"
    unfolding validate_external_actor_frames_def actors_ok_def
    by (rule check_frames_decides [OF actor_inv_init actor_frames_reserved])
qed

text \<open>
  Claim C26. On every scenario the validation returns, without a panic, and it succeeds exactly
  when every firmware names a known ECU, a drivetrain ECU comes with a gateway, no machine is on
  a bus twice, throttle is only requested with a powertrain present, and every reserved frame, in
  time order, is sent by an actor on its bus with the right length, node and a nonzero request,
  no handshake before a plug, chunks numbered from 0 below the total of their latest request, and
  finishes that match both the declared and the observed number of chunks.
\<close>

theorem validate_scenario_decides:
  "(\<exists>r. validate_scenario sc = Some r) \<and>
   (validate_scenario sc = Some (Inr ()) \<longleftrightarrow>
      firmware_known sc \<and> gateway_present sc \<and> nodes_once sc \<and> drive_possible sc \<and> actors_ok sc)"
  using validate_stages [of sc]
  by (auto simp: validate_scenario_def decides_def vok_def verror_def vbind_def)


end
