(* ===== verification/Cli.thy ===== *)
theory Cli
  imports Validate Plant
begin

text \<open>
  \<^verbatim>\<open>src/main.rs\<close>: the command line binary. The simulator (scenario loading, the world, the trace
  check) is a record of functions, an argument of every definition that calls it; the file the
  trace goes to is one too. The outcome of a run is an exit code with what was printed, a panic,
  or that the run does not return. The properties: which exit code means what, that a
  configuration problem is reported by exactly one structured line, and that stepping event by
  event stops at the deadline.
\<close>

definition EXIT_PASS :: u8 where "EXIT_PASS = 0"
definition EXIT_RUNTIME_FAIL :: u8 where "EXIT_RUNTIME_FAIL = 1"
definition EXIT_SCENARIO_ERROR :: u8 where "EXIT_SCENARIO_ERROR = 2"

text \<open>The simulator's error type, with the text its \<open>Display\<close> prints as payload.\<close>

datatype scenario_error =
  ErrIo string | ErrParse string | ErrInvalid string | ErrSim string | ErrTraceMismatch string

fun scenario_error_kind :: "scenario_error \<Rightarrow> string" where
  "scenario_error_kind (ErrIo _) = ''io''"
| "scenario_error_kind (ErrParse _) = ''parse''"
| "scenario_error_kind (ErrInvalid _) = ''invalid''"
| "scenario_error_kind (ErrSim _) = ''sim''"
| "scenario_error_kind (ErrTraceMismatch _) = ''trace-mismatch''"

fun scenario_error_display :: "scenario_error \<Rightarrow> string" where
  "scenario_error_display (ErrIo m) = m"
| "scenario_error_display (ErrParse m) = m"
| "scenario_error_display (ErrInvalid m) = m"
| "scenario_error_display (ErrSim m) = m"
| "scenario_error_display (ErrTraceMismatch m) = m"

datatype step_outcome = Advanced | Done

text \<open>The firmware a machine is loaded with, as the factory of \<open>main\<close> builds it.\<close>

datatype loaded_firmware = LoadMicrocar microcar_firmware | LoadZephyr zephyr_firmware

record trace_result =
  tr_trace :: "string list"
  tr_match :: bool

record 'w simulator =
  sim_from_file :: "string \<Rightarrow> scenario_error + scenario"
  sim_build_world :: "scenario \<Rightarrow> scenario_error + 'w"
  sim_enable_owned_device_banks :: "'w \<Rightarrow> 'w"
  sim_enable_trace_v2 :: "'w \<Rightarrow> 'w"
  sim_attach_plant_to :: "scenario \<Rightarrow> microcar_plant \<Rightarrow> 'w \<Rightarrow> scenario_error + 'w"
  sim_has_machine :: "'w \<Rightarrow> u64 \<Rightarrow> bool"
  sim_load_firmware :: "u64 \<Rightarrow> loaded_firmware \<Rightarrow> 'w \<Rightarrow> 'w"
  sim_schedule_faults_to :: "scenario \<Rightarrow> 'w \<Rightarrow> 'w"
  sim_now :: "'w \<Rightarrow> u64"
  sim_next_event :: "'w \<Rightarrow> u64 option"
  sim_step :: "'w \<Rightarrow> string + (step_outcome \<times> 'w)"
  sim_run_until :: "u64 \<Rightarrow> 'w \<Rightarrow> (string + 'w) option"
  sim_run :: "'w \<Rightarrow> (string + 'w) option"
  sim_trace_v2_jsonl :: "'w \<Rightarrow> string"
  sim_write_file :: "string \<Rightarrow> string \<Rightarrow> string option"
  sim_drain_all_traces :: "'w \<Rightarrow> string list"
  sim_check_trace :: "scenario \<Rightarrow> string list \<Rightarrow> scenario_error + trace_result"

subsection \<open>Stepping to a deadline\<close>

text \<open>The two loops of \<open>step_run\<close>; \<open>None\<close> when a loop does not return.\<close>

partial_function (option) step_until :: "'w simulator \<Rightarrow> u64 \<Rightarrow> 'w \<Rightarrow> (string + 'w) option" where
  "step_until sim d world =
     (if sim_now sim world < d then
        (case sim_next_event sim world of
           Some t \<Rightarrow>
             (if t \<le> d then
                (case sim_step sim world of
                   Inl e \<Rightarrow> Some (Inl e)
                 | Inr (outcome, world') \<Rightarrow>
                     (case outcome of
                        Advanced \<Rightarrow> step_until sim d world'
                      | Done \<Rightarrow> Some (Inr world')))
              else Some (Inr world))
         | None \<Rightarrow> Some (Inr world))
      else Some (Inr world))"

partial_function (option) step_to_idle :: "'w simulator \<Rightarrow> 'w \<Rightarrow> (string + 'w) option" where
  "step_to_idle sim world =
     (case sim_step sim world of
        Inl e \<Rightarrow> Some (Inl e)
      | Inr (outcome, world') \<Rightarrow>
          (case outcome of
             Advanced \<Rightarrow> step_to_idle sim world'
           | Done \<Rightarrow> Some (Inr world')))"

definition step_run :: "'w simulator \<Rightarrow> u64 option \<Rightarrow> 'w \<Rightarrow> (string + 'w) option" where
  "step_run sim deadline world =
     (case deadline of Some d \<Rightarrow> step_until sim d world | None \<Rightarrow> step_to_idle sim world)"

subsection \<open>Arguments\<close>

record cli_args =
  ca_scenario_path :: "string option"
  ca_trace_v2_path :: "string option"
  ca_step_mode :: bool

definition no_args :: cli_args where
  "no_args = \<lparr>ca_scenario_path = None, ca_trace_v2_path = None, ca_step_mode = False\<rparr>"

fun parse_args :: "cli_args \<Rightarrow> string list \<Rightarrow> string + cli_args" where
  "parse_args acc [] = Inr acc"
| "parse_args acc (a # as) =
     (if a = ''--trace-v2'' then
        (case as of
           p # as' \<Rightarrow> parse_args (acc\<lparr>ca_trace_v2_path := Some p\<rparr>) as'
         | [] \<Rightarrow> Inl ''microcar: error [usage]: --trace-v2 needs a path'')
      else if a = ''--step'' then parse_args (acc\<lparr>ca_step_mode := True\<rparr>) as
      else if starts_with a ''--'' then Inl (''microcar: error [usage]: unknown flag '' @ quoted a)
      else if ca_scenario_path acc = None then parse_args (acc\<lparr>ca_scenario_path := Some a\<rparr>) as
      else parse_args acc as)"

subsection \<open>The program\<close>

datatype outcome =
  Exit u8 (out_lines: "string list") (err_lines: "string list")
| Panic
| Diverges

definition fail_scenario :: "string list \<Rightarrow> string list \<Rightarrow> string \<Rightarrow> string \<Rightarrow> outcome" where
  "fail_scenario out err kind message =
     Exit EXIT_SCENARIO_ERROR out (err @ [''microcar: error ['' @ kind @ '']: '' @ message])"

definition fail_with :: "string list \<Rightarrow> string list \<Rightarrow> scenario_error \<Rightarrow> outcome" where
  "fail_with out err e = fail_scenario out err (scenario_error_kind e) (scenario_error_display e)"

text \<open>The dash of the message is its three UTF-8 bytes.\<close>

definition zephyr_warning :: "string \<Rightarrow> string" where
  "zephyr_warning name = ''warning: machine '' @ quoted name @ '' uses rtos=zephyr but the '' @
     quoted ''zephyr'' @ '' feature is not enabled '' @ [CHR 0xE2, CHR 0x80, CHR 0x94] @
     '' falling back to FreeRTOS firmware''"

text \<open>The loop over the machines: the world and the warnings printed.\<close>

definition attach_firmware ::
  "bool \<Rightarrow> 'w simulator \<Rightarrow> 'w \<times> string list \<Rightarrow> machine_def \<Rightarrow> 'w \<times> string list" where
  "attach_firmware zephyr_enabled sim st m =
     (case st of (world, err) \<Rightarrow>
       (case md_firmware m of
          None \<Rightarrow> (world, err)
        | Some fw \<Rightarrow>
           (if \<not> sim_has_machine sim world (md_id m) then (world, err)
            else if md_rtos m = Some Zephyr \<and> zephyr_enabled
            then (sim_load_firmware sim (md_id m) (LoadZephyr zephyr_new) world, err)
            else (sim_load_firmware sim (md_id m)
                    (LoadMicrocar (with_firmware_path (md_name m) fw)) world,
                  if md_rtos m = Some Zephyr then err @ [zephyr_warning (md_name m)] else err))))"

definition attach_plant :: "'w simulator \<Rightarrow> scenario \<Rightarrow> 'w \<Rightarrow> scenario_error + 'w" where
  "attach_plant sim sc world =
     (case sc_plant sc of
        None \<Rightarrow> Inr world
      | Some tick \<Rightarrow>
          let tick_ms = (case tick of Some t \<Rightarrow> t | None \<Rightarrow> 10)
          in sim_attach_plant_to sim sc (plant_new (ucast tick_ms)) world)"

text \<open>\<open>duration_ms.map(|ms| ms * 1000)\<close>: outer \<open>None\<close> when the product overflows.\<close>

definition deadline_of :: "scenario \<Rightarrow> u64 option option" where
  "deadline_of sc =
     (case sc_duration_ms sc of
        None \<Rightarrow> Some None
      | Some ms \<Rightarrow> if unat ms * 1000 < 2 ^ 64 then Some (Some (ms * 1000)) else None)"

definition run_world :: "'w simulator \<Rightarrow> bool \<Rightarrow> u64 option \<Rightarrow> 'w \<Rightarrow> (string + 'w) option" where
  "run_world sim step_mode deadline world =
     (if step_mode then step_run sim deadline world
      else case deadline of Some d \<Rightarrow> sim_run_until sim d world | None \<Rightarrow> sim_run sim world)"

definition write_trace :: "'w simulator \<Rightarrow> string option \<Rightarrow> 'w \<Rightarrow> string list" where
  "write_trace sim path world =
     (case path of
        None \<Rightarrow> []
      | Some p \<Rightarrow>
          (case sim_write_file sim p (sim_trace_v2_jsonl sim world) of
             None \<Rightarrow> []
           | Some e \<Rightarrow> [''microcar: warning: failed to write trace v2 to '' @ p @ '': '' @ e]))"

text \<open>After the run: the trace file, the check and the verdict.\<close>

definition report :: "'w simulator \<Rightarrow> scenario \<Rightarrow> string option \<Rightarrow> string list \<Rightarrow> string list \<Rightarrow> 'w \<Rightarrow> outcome"
  where
  "report sim sc trace_path out err world =
     (let err1 = err @ write_trace sim trace_path world
      in case sim_check_trace sim sc (sim_drain_all_traces sim world) of
           Inl e \<Rightarrow> Exit EXIT_RUNTIME_FAIL out
             (err1 @ [''microcar: error ['' @ scenario_error_kind e @ '']: '' @ scenario_error_display e])
         | Inr result \<Rightarrow>
             (let out1 = out @ tr_trace result
              in if tr_match result then Exit EXIT_PASS (out1 @ [''PASS'']) err1
                 else Exit EXIT_RUNTIME_FAIL out1 (err1 @ [''FAIL: trace mismatch''])))"

definition prepare_world :: "'w simulator \<Rightarrow> cli_args \<Rightarrow> 'w \<Rightarrow> 'w" where
  "prepare_world sim args world =
     (let world1 = sim_enable_owned_device_banks sim world
      in if ca_trace_v2_path args \<noteq> None then sim_enable_trace_v2 sim world1 else world1)"

text \<open>From the built world on.\<close>

definition run_scenario ::
  "bool \<Rightarrow> 'w simulator \<Rightarrow> cli_args \<Rightarrow> scenario \<Rightarrow> string list \<Rightarrow> 'w \<Rightarrow> outcome" where
  "run_scenario zephyr_enabled sim args sc out world =
     (case attach_plant sim sc (prepare_world sim args world) of
           Inl e \<Rightarrow> fail_with out [] e
         | Inr world3 \<Rightarrow>
             (case foldl (attach_firmware zephyr_enabled sim) (world3, []) (sc_machine sc) of
                (world4, err) \<Rightarrow>
                  (let world5 = sim_schedule_faults_to sim sc world4
                   in case deadline_of sc of
                        None \<Rightarrow> Panic
                      | Some deadline \<Rightarrow>
                          (case run_world sim (ca_step_mode args) deadline world5 of
                             None \<Rightarrow> Diverges
                           | Some (Inl e) \<Rightarrow> Exit EXIT_RUNTIME_FAIL out
                               (err @ [''microcar: error [runtime]: simulation error: '' @ e])
                           | Some (Inr world6) \<Rightarrow>
                               report sim sc (ca_trace_v2_path args) out err world6))))"

definition usage_line :: string where
  "usage_line =
     ''microcar: error [usage]: usage: microcar <scenario.toml> [--trace-v2 <path>] [--step]''"

definition main :: "bool \<Rightarrow> 'w simulator \<Rightarrow> string list \<Rightarrow> outcome" where
  "main zephyr_enabled sim argv =
     (case parse_args no_args argv of
        Inl e \<Rightarrow> Exit EXIT_SCENARIO_ERROR [] [e]
      | Inr args \<Rightarrow>
          (case ca_scenario_path args of
             None \<Rightarrow> Exit EXIT_SCENARIO_ERROR [] [usage_line]
           | Some path \<Rightarrow>
               (case sim_from_file sim path of
                  Inl e \<Rightarrow> fail_with [] [] e
                | Inr sc \<Rightarrow>
                    (case validate_scenario sc of
                       None \<Rightarrow> Panic
                     | Some (Inl e) \<Rightarrow> fail_scenario [] [] (ve_kind e) (ve_message e)
                     | Some (Inr _) \<Rightarrow>
                         (let out = [''=== '' @ sc_name sc @ '' ==='', []]
                          in case sim_build_world sim sc of
                               Inl e \<Rightarrow> fail_with out [] e
                             | Inr world \<Rightarrow> run_scenario zephyr_enabled sim args sc out world)))))"

subsection \<open>Stepping stops at the deadline\<close>

definition idle_before :: "'w simulator \<Rightarrow> u64 \<Rightarrow> 'w \<Rightarrow> bool" where
  "idle_before sim d w = (case sim_next_event sim w of None \<Rightarrow> True | Some t \<Rightarrow> d < t)"

text \<open>
  When a step never moves the clock beyond the event it processes, and only finitely
  many events come before the deadline (\<open>pending\<close> counts them), the \<open>--step\<close> loop returns: with
  the simulator's error, or with a world whose clock has not passed the deadline and that stopped
  because the deadline is reached, no event is left before it, or the simulator was done.
\<close>

theorem step_run_stops_at_deadline:
  fixes pending :: "'w \<Rightarrow> nat"
  assumes event: "\<And>v oc v' t. sim_step sim v = Inr (oc, v') \<Longrightarrow> sim_next_event sim v = Some t \<Longrightarrow>
      sim_now sim v' \<le> max (sim_now sim v) t"
    and progress: "\<And>v v'. sim_now sim v < d \<Longrightarrow> \<not> idle_before sim d v \<Longrightarrow>
      sim_step sim v = Inr (Advanced, v') \<Longrightarrow> pending v' < pending v"
  shows "\<exists>r. step_run sim (Some d) w = Some r \<and>
    (case r of
       Inl e \<Rightarrow> \<exists>v. sim_step sim v = Inl e
     | Inr w' \<Rightarrow> sim_now sim w' \<le> max d (sim_now sim w) \<and>
         (d \<le> sim_now sim w' \<or> idle_before sim d w' \<or> (\<exists>v. sim_step sim v = Inr (Done, w'))))"
proof (induction "pending w" arbitrary: w rule: less_induct)
  case less
  show ?case
  proof (cases "sim_now sim w < d \<and> \<not> idle_before sim d w")
    case False
    then have "step_run sim (Some d) w = Some (Inr w)"
      by (auto simp: step_run_def step_until.simps [of sim d w] idle_before_def not_le split: option.splits)
    with False show ?thesis by (auto simp: not_less)
  next
    case True
    then obtain t where t: "sim_next_event sim w = Some t" "t \<le> d"
      by (auto simp: idle_before_def not_less split: option.splits)
    show ?thesis
    proof (cases "sim_step sim w")
      case (Inl e)
      with True t show ?thesis by (auto simp: step_run_def step_until.simps [of sim d w])
    next
      case (Inr ow)
      obtain oc w' where ow: "ow = (oc, w')" by (cases ow)
      have now: "sim_now sim w' \<le> d" using event [of w oc w' t] Inr ow t True by (auto simp: max_def split: if_splits)
      show ?thesis
      proof (cases oc)
        case Done
        with True t Inr ow now show ?thesis
          by (auto simp: step_run_def step_until.simps [of sim d w] le_max_iff_disj)
      next
        case Advanced
        with True Inr ow have "pending w' < pending w" by (auto intro: progress)
        from less [OF this] show ?thesis using Advanced True t Inr ow now
          by (auto simp: step_run_def step_until.simps [of sim d w] max_def split: sum.splits if_splits)
      qed
    qed
  qed
qed

text \<open>A simulator with one event every ten ticks.\<close>

definition ticking :: "u64 simulator" where
  "ticking =
     \<lparr>sim_from_file = (\<lambda>p. Inl (ErrIo p)), sim_build_world = (\<lambda>sc. Inr 0),
      sim_enable_owned_device_banks = id, sim_enable_trace_v2 = id,
      sim_attach_plant_to = (\<lambda>sc p w. Inr w), sim_has_machine = (\<lambda>w i. True),
      sim_load_firmware = (\<lambda>i f w. w), sim_schedule_faults_to = (\<lambda>sc w. w), sim_now = id,
      sim_next_event = (\<lambda>w. Some (w + 10)), sim_step = (\<lambda>w. Inr (Advanced, w + 10)),
      sim_run_until = (\<lambda>d w. Some (Inr d)), sim_run = (\<lambda>w. None), sim_trace_v2_jsonl = (\<lambda>w. []),
      sim_write_file = (\<lambda>p c. None), sim_drain_all_traces = (\<lambda>w. []),
      sim_check_trace = (\<lambda>sc t. Inr \<lparr>tr_trace = t, tr_match = True\<rparr>)\<rparr>"

lemma ticking_simps [simp]:
  "sim_now ticking w = w" "sim_next_event ticking w = Some (w + 10)"
  "sim_step ticking w = Inr (Advanced, w + 10)"
  by (simp_all add: ticking_def)

theorem step_run_stops_at_deadline_witness:
  "\<exists>w'. step_run ticking (Some 25) 0 = Some (Inr w') \<and> w' \<le> 25"
proof -
  have "\<exists>r. step_run ticking (Some 25) 0 = Some r \<and>
    (case r of
       Inl e \<Rightarrow> \<exists>v. sim_step ticking v = Inl e
     | Inr w' \<Rightarrow> sim_now ticking w' \<le> max 25 (sim_now ticking 0) \<and>
         (25 \<le> sim_now ticking w' \<or> idle_before ticking 25 w' \<or>
          (\<exists>v. sim_step ticking v = Inr (Done, w'))))"
  proof (rule step_run_stops_at_deadline [where pending = "\<lambda>w. 100 - unat w"])
    fix v v' :: u64
    assume "sim_now ticking v < 25" "sim_step ticking v = Inr (Advanced, v')"
    then have "unat v < 25" "v' = v + 10" by (simp_all add: word_less_nat_alt)
    moreover from \<open>unat v < 25\<close> have "unat (v + 10) = unat v + 10"
      by (simp add: unat_word_ariths)
    ultimately show "100 - unat v' < 100 - unat v" by simp
  qed auto
  then obtain r where r: "step_run ticking (Some 25) 0 = Some r"
    "case r of Inl e \<Rightarrow> \<exists>v. sim_step ticking v = Inl e
     | Inr w' \<Rightarrow> sim_now ticking w' \<le> max 25 (sim_now ticking 0) \<and>
         (25 \<le> sim_now ticking w' \<or> idle_before ticking 25 w' \<or> (\<exists>v. sim_step ticking v = Inr (Done, w')))"
    by blast
  then show ?thesis by (cases r) auto
qed

subsection \<open>Exit codes\<close>

text \<open>The scenario and the world when everything before the run succeeds.\<close>

definition ok :: "'e + 'a \<Rightarrow> 'a option" where
  "ok r = (case r of Inl _ \<Rightarrow> None | Inr x \<Rightarrow> Some x)"

lemma ok_simps [simp]: "ok r = Some x \<longleftrightarrow> r = Inr x" "ok r = None \<longleftrightarrow> (\<exists>e. r = Inl e)"
  by (auto simp: ok_def split: sum.split)

definition configured :: "'w simulator \<Rightarrow> string list \<Rightarrow> (cli_args \<times> scenario \<times> 'w) option" where
  "configured sim argv = do {
     args \<leftarrow> ok (parse_args no_args argv);
     path \<leftarrow> ca_scenario_path args;
     sc \<leftarrow> ok (sim_from_file sim path);
     (if validate_scenario sc = Some (Inr ()) then Some () else None);
     w \<leftarrow> ok (sim_build_world sim sc);
     w3 \<leftarrow> ok (attach_plant sim sc (prepare_world sim args w));
     Some (args, sc, w3)
   }"

definition error_line :: "string \<Rightarrow> bool" where
  "error_line l = starts_with l ''microcar: error [''"

definition started_world :: "bool \<Rightarrow> 'w simulator \<Rightarrow> scenario \<Rightarrow> 'w \<Rightarrow> 'w" where
  "started_world z sim sc w =
     sim_schedule_faults_to sim sc (fst (foldl (attach_firmware z sim) (w, []) (sc_machine sc)))"

lemma error_line_simps [simp]:
  "error_line (''microcar: error ['' @ l)" "error_line usage_line"
  by (simp_all add: error_line_def usage_line_def)

lemma parse_args_error_line: "parse_args acc as = Inl e \<Longrightarrow> error_line e"
  by (induction acc "as" rule: parse_args.induct)
    (auto simp: error_line_def split: if_splits list.splits)

lemma fail_scenario_line [simp]:
  "fail_scenario out [] kd m = Exit 2 out [''microcar: error ['' @ kd @ '']: '' @ m]"
  by (simp add: fail_scenario_def EXIT_SCENARIO_ERROR_def)

lemma exit_codes_distinct [simp]:
  "EXIT_PASS = 0" "EXIT_RUNTIME_FAIL = 1" "EXIT_SCENARIO_ERROR = 2"
  by (simp_all add: EXIT_PASS_def EXIT_RUNTIME_FAIL_def EXIT_SCENARIO_ERROR_def)

lemma validate_returns: "validate_scenario sc \<noteq> None"
  using validate_stages [of sc]
  by (auto simp: validate_scenario_def decides_def vok_def verror_def vbind_def)

text \<open>What \<open>main\<close> does once the configuration stands, in one equation.\<close>

lemma main_configured:
  assumes "configured sim argv = Some (args, sc, w)"
  shows "\<exists>out err. main z sim argv =
    (case deadline_of sc of
       None \<Rightarrow> Panic
     | Some deadline \<Rightarrow>
         (case run_world sim (ca_step_mode args) deadline (started_world z sim sc w) of
            None \<Rightarrow> Diverges
          | Some (Inl e) \<Rightarrow> Exit 1 out (err @ [''microcar: error [runtime]: simulation error: '' @ e])
          | Some (Inr w') \<Rightarrow> report sim sc (ca_trace_v2_path args) out err w'))"
proof -
  obtain w2 err where f: "foldl (attach_firmware z sim) (w, []) (sc_machine sc) = (w2, err)"
    by fastforce
  obtain path v where c: "parse_args no_args argv = Inr args" "ca_scenario_path args = Some path"
    "sim_from_file sim path = Inr sc" "validate_scenario sc = Some (Inr ())" "sim_build_world sim sc = Inr v"
    "attach_plant sim sc (prepare_world sim args v) = Inr w"
    using assms by (auto simp: configured_def bind_eq_Some_conv split: if_splits)
  show ?thesis
    by (rule exI [of _ "[''=== '' @ sc_name sc @ '' ==='', []]"], rule exI [of _ err])
      (simp only: main_def run_scenario_def started_world_def Let_def c f sum.case option.case
        prod.case fst_conv exit_codes_distinct)
qed

lemma main_not_configured:
  assumes none: "configured sim argv = None"
  shows "\<exists>out line. main z sim argv = Exit 2 out [line] \<and> error_line line"
proof (cases "parse_args no_args argv")
  case (Inl e)
  then show ?thesis by (simp add: main_def parse_args_error_line)
next
  case args: (Inr args)
  show ?thesis
  proof (cases "ca_scenario_path args")
    case None
    with args show ?thesis by (simp add: main_def)
  next
    case path: (Some path)
    show ?thesis
    proof (cases "sim_from_file sim path")
      case (Inl e)
      with args path show ?thesis by (simp add: main_def fail_with_def error_line_def)
    next
      case sc: (Inr sc)
      obtain v where v: "validate_scenario sc = Some v" using validate_returns [of sc] by blast
      show ?thesis
      proof (cases v)
        case (Inl e)
        with args path sc v show ?thesis by (simp add: main_def error_line_def)
      next
        case u: (Inr u)
        show ?thesis
        proof (cases "sim_build_world sim sc")
          case (Inl e)
          with args path sc v u show ?thesis by (simp add: main_def fail_with_def Let_def error_line_def)
        next
          case w: (Inr w)
          with none args path sc v u obtain e where "attach_plant sim sc (prepare_world sim args w) = Inl e"
            by (auto simp: configured_def ok_def split: sum.splits)
          with args path sc v u w show ?thesis
            by (simp add: main_def run_scenario_def fail_with_def Let_def error_line_def)
        qed
      qed
    qed
  qed
qed

text \<open>The verdict of the trace check, and the exit code that goes with it.\<close>

definition trace_matches :: "'w simulator \<Rightarrow> scenario \<Rightarrow> 'w \<Rightarrow> bool" where
  "trace_matches sim sc w \<longleftrightarrow>
     (\<exists>r. sim_check_trace sim sc (sim_drain_all_traces sim w) = Inr r \<and> tr_match r)"

lemma report_code:
  "\<exists>out' err'. report sim sc p out err w = Exit (if trace_matches sim sc w then 0 else 1) out' err'"
  by (auto simp: report_def trace_matches_def Let_def split: sum.split)

text \<open>
  Claim C31. The exit codes mean what the program documents, for every simulator and every
  argument list: 2 exactly when the arguments, the scenario, its validation, the world or the
  plant fail, and then standard error holds exactly one structured line; 0 exactly when the run
  returned without an error and the trace matched; 1 exactly when the run returned with an error or the trace
  check failed or did not match; no other code.
\<close>

theorem main_exit_codes:
  "((\<exists>out err. main z sim argv = Exit 2 out err) \<longleftrightarrow> configured sim argv = None) \<and>
   (configured sim argv = None \<longleftrightarrow>
      (\<exists>out line. main z sim argv = Exit 2 out [line] \<and> error_line line)) \<and>
   ((\<exists>out err. main z sim argv = Exit 0 out err) \<longleftrightarrow>
      (\<exists>args sc w deadline w'. configured sim argv = Some (args, sc, w) \<and>
         deadline_of sc = Some deadline \<and>
         run_world sim (ca_step_mode args) deadline (started_world z sim sc w) = Some (Inr w') \<and>
         trace_matches sim sc w')) \<and>
   ((\<exists>out err. main z sim argv = Exit 1 out err) \<longleftrightarrow>
      (\<exists>args sc w deadline r. configured sim argv = Some (args, sc, w) \<and>
         deadline_of sc = Some deadline \<and>
         run_world sim (ca_step_mode args) deadline (started_world z sim sc w) = Some r \<and>
         (case r of Inl e \<Rightarrow> True | Inr w' \<Rightarrow> \<not> trace_matches sim sc w'))) \<and>
   list_all (\<lambda>c. c \<in> {0, 1, 2}) (case main z sim argv of Exit c out err \<Rightarrow> [c] | _ \<Rightarrow> [])"
proof (cases "configured sim argv")
  case None
  with main_not_configured [OF None, of z] show ?thesis by auto
next
  case (Some asw)
  obtain args sc w where asw: "asw = (args, sc, w)" by (cases asw)
  obtain out err where m: "main z sim argv =
    (case deadline_of sc of
       None \<Rightarrow> Panic
     | Some deadline \<Rightarrow>
         (case run_world sim (ca_step_mode args) deadline (started_world z sim sc w) of
            None \<Rightarrow> Diverges
          | Some (Inl e) \<Rightarrow> Exit 1 out (err @ [''microcar: error [runtime]: simulation error: '' @ e])
          | Some (Inr w') \<Rightarrow> report sim sc (ca_trace_v2_path args) out err w'))"
    using main_configured [OF Some [unfolded asw], of z] by (elim exE) (rule that)
  let ?run = "\<lambda>dl. run_world sim (ca_step_mode args) dl (started_world z sim sc w)"
  consider (panic) "deadline_of sc = None"
    | (loop) dl where "deadline_of sc = Some dl" "?run dl = None"
    | (err) dl e where "deadline_of sc = Some dl" "?run dl = Some (Inl e)"
    | (ran) dl w' where "deadline_of sc = Some dl" "?run dl = Some (Inr w')"
    by (metis option.exhaust sum.exhaust)
  then show ?thesis
  proof cases
    case ran
    from report_code [of sim sc "ca_trace_v2_path args" out err w']
    obtain out' err' where
      "report sim sc (ca_trace_v2_path args) out err w' = Exit (if trace_matches sim sc w' then 0 else 1) out' err'"
      by blast
    with ran m have "main z sim argv = Exit (if trace_matches sim sc w' then 0 else 1) out' err'" by simp
    with ran show ?thesis unfolding Some asw by (cases "trace_matches sim sc w'") auto
  qed (simp_all add: m Some asw)
qed

text \<open>
  The only panic of the program itself is the conversion of the duration: a scenario
  that loads and validates, with a duration of at least \<open>2^64 / 1000\<close> milliseconds, overflows the
  multiplication; nothing else panics, whatever the input.
\<close>

theorem main_panics_only_on_huge_duration:
  "main z sim argv = Panic \<longleftrightarrow>
     (\<exists>args sc w ms. configured sim argv = Some (args, sc, w) \<and> sc_duration_ms sc = Some ms \<and>
        2 ^ 64 \<le> unat ms * 1000)"
proof (cases "configured sim argv")
  case None
  with main_not_configured [OF None, of z] show ?thesis by auto
next
  case (Some asw)
  obtain args sc w where asw: "asw = (args, sc, w)" by (cases asw)
  obtain out err where m: "main z sim argv =
    (case deadline_of sc of
       None \<Rightarrow> Panic
     | Some deadline \<Rightarrow>
         (case run_world sim (ca_step_mode args) deadline (started_world z sim sc w) of
            None \<Rightarrow> Diverges
          | Some (Inl e) \<Rightarrow> Exit 1 out (err @ [''microcar: error [runtime]: simulation error: '' @ e])
          | Some (Inr w') \<Rightarrow> report sim sc (ca_trace_v2_path args) out err w'))"
    using main_configured [OF Some [unfolded asw], of z] by (elim exE) (rule that)
  have "deadline_of sc = None \<longleftrightarrow> (\<exists>ms. sc_duration_ms sc = Some ms \<and> 2 ^ 64 \<le> unat ms * 1000)"
    by (auto simp: deadline_of_def not_less split: option.splits)
  then show ?thesis
    unfolding m Some asw by (auto simp: report_def Let_def split: option.split sum.split)
qed

end
