(* ===== verification/Runner.thy ===== *)
theory Runner
  imports Rust_Str
begin

text \<open>
  \<^verbatim>\<open>dogfood/src/runner.rs\<close>: running one scenario in a child process under a wall-clock timeout. The
  operating system (spawning, polling and killing the child, the clock, what the pipes deliver) is
  a record of functions on an arbitrary state, an argument of the definitions; the loop, the
  classification of the outcome and the selection of the trace lines are exact. The properties:
  the run always ends, a child that does not exit is killed and reported as a timeout, and the
  status follows from how the child ended.
\<close>

definition TAIL_LINES :: nat where "TAIL_LINES = 20"

datatype run_status = RPass | RFail | RTimeout | RPanic

fun status_as_str :: "run_status \<Rightarrow> string" where
  "status_as_str RPass = ''PASS''"
| "status_as_str RFail = ''FAIL''"
| "status_as_str RTimeout = ''TIMEOUT''"
| "status_as_str RPanic = ''PANIC''"

definition is_clean :: "run_status \<Rightarrow> bool" where
  "is_clean s \<longleftrightarrow> s = RPass"

text \<open>The exit code is an \<open>i32\<close>; the wall time a \<open>Duration\<close>, in milliseconds.\<close>

record scenario_run =
  rn_scenario :: string
  rn_status :: run_status
  rn_exit_code :: "i32 option"
  rn_trace :: "string list"
  rn_wall_ms :: nat
  rn_stdout_tail :: "string list"
  rn_stderr_tail :: "string list"

definition wall_ms :: "scenario_run \<Rightarrow> nat" where
  "wall_ms run = rn_wall_ms run"

subsection \<open>Lines\<close>

definition is_trace_event :: "string \<Rightarrow> bool" where
  "is_trace_event line =
     (let t = trim line
      in if t = [] then False
         else if starts_with t ''=== '' \<and> ends_with t '' ==='' then False
         else if t = ''PASS'' \<or> starts_with t ''FAIL'' then False
         else True)"

text \<open>Reading stops at the first line that is not valid text.\<close>

fun read_all_lines :: "string option list \<Rightarrow> string list" where
  "read_all_lines [] = []"
| "read_all_lines (Some l # ls) = l # read_all_lines ls"
| "read_all_lines (None # ls) = []"

definition tail :: "'a list \<Rightarrow> nat \<Rightarrow> 'a list" where
  "tail v n = drop (length v - n) v"

text \<open>\<open>Path::file_stem\<close> on a Unix path.\<close>

definition file_name :: "string \<Rightarrow> string option" where
  "file_name path =
     (let comps = filter (\<lambda>c. c \<noteq> [] \<and> c \<noteq> ''.'') (split_char CHR ''/'' path)
      in if comps = [] \<or> last comps = ''..'' then None else Some (last comps))"

definition before_last_dot :: "string \<Rightarrow> string" where
  "before_last_dot name =
     (let stem = rev (tl (dropWhile (\<lambda>c. c \<noteq> CHR ''.'') (rev name)))
      in if CHR ''.'' \<in> set name \<and> stem \<noteq> [] then stem else name)"

definition file_stem :: "string \<Rightarrow> string option" where
  "file_stem path = map_option before_last_dot (file_name path)"

definition scenario_name :: "string \<Rightarrow> string" where
  "scenario_name path = (case file_stem path of Some s \<Rightarrow> s | None \<Rightarrow> path)"

subsection \<open>Running the child\<close>

record exit_status =
  es_success :: bool
  es_code :: "i32 option"

datatype wait_result = Exited exit_status | StillRunning | WaitFailed

text \<open>
  \<open>os_spawn\<close> returns the text of the error when the child could not be started; \<open>os_time_max\<close> is the
  last instant the clock can represent.
\<close>

record 'o os =
  os_spawn :: "string \<Rightarrow> string list \<Rightarrow> 'o \<Rightarrow> string option \<times> 'o"
  os_try_wait :: "'o \<Rightarrow> wait_result \<times> 'o"
  os_clock :: "'o \<Rightarrow> nat"
  os_time_max :: nat
  os_kill :: "'o \<Rightarrow> 'o"
  os_wait :: "'o \<Rightarrow> 'o"
  os_sleep :: "'o \<Rightarrow> 'o"
  os_stdout :: "'o \<Rightarrow> string option list option"
  os_stderr :: "'o \<Rightarrow> string option list option"

text \<open>The polling loop: the exit status if any, whether the child was killed, the state left.\<close>

partial_function (option) wait_loop ::
  "'o os \<Rightarrow> nat \<Rightarrow> 'o \<Rightarrow> (exit_status option \<times> bool \<times> 'o) option" where
  "wait_loop os deadline s =
     (case os_try_wait os s of (result, s1) \<Rightarrow>
        (case result of
           Exited status \<Rightarrow> Some (Some status, False, s1)
         | StillRunning \<Rightarrow>
             (if os_clock os s1 \<ge> deadline then Some (None, True, os_wait os (os_kill os s1))
              else wait_loop os deadline (os_sleep os s1))
         | WaitFailed \<Rightarrow> Some (None, False, s1)))"

text \<open>\<open>Instant + Duration\<close> panics when the sum cannot be represented.\<close>

definition instant_add :: "'o os \<Rightarrow> nat \<Rightarrow> nat \<Rightarrow> nat option" where
  "instant_add os t d = (if t + d \<le> os_time_max os then Some (t + d) else None)"

definition classify :: "bool \<Rightarrow> bool \<Rightarrow> bool \<Rightarrow> run_status" where
  "classify timed_out success panicked =
     (if timed_out then RTimeout else if success then RPass else if panicked then RPanic else RFail)"

definition joined :: "string option list option \<Rightarrow> string list" where
  "joined h = (case h of Some ls \<Rightarrow> read_all_lines ls | None \<Rightarrow> [])"

definition spawn_failed :: "string \<Rightarrow> string \<Rightarrow> nat \<Rightarrow> string \<Rightarrow> scenario_run" where
  "spawn_failed name bin wall e =
     \<lparr>rn_scenario = name, rn_status = RFail, rn_exit_code = None, rn_trace = [], rn_wall_ms = wall,
      rn_stdout_tail = [], rn_stderr_tail = [''failed to spawn '' @ bin @ '': '' @ e]\<rparr>"

definition collect_run ::
  "'o os \<Rightarrow> string \<Rightarrow> nat \<Rightarrow> exit_status option \<Rightarrow> bool \<Rightarrow> 'o \<Rightarrow> scenario_run" where
  "collect_run os name start status timed_out s =
     (let stdout_lines = joined (os_stdout os s);
          stderr_lines = joined (os_stderr os s);
          success = (case status of Some st \<Rightarrow> es_success st | None \<Rightarrow> False);
          exit_code = (case status of Some st \<Rightarrow> es_code st | None \<Rightarrow> None);
          panicked = list_ex (\<lambda>l. contains l ''panicked'') stderr_lines
      in \<lparr>rn_scenario = name, rn_status = classify timed_out success panicked,
          rn_exit_code = exit_code, rn_trace = filter is_trace_event stdout_lines,
          rn_wall_ms = os_clock os s - start,
          rn_stdout_tail = tail stdout_lines TAIL_LINES,
          rn_stderr_tail = tail stderr_lines TAIL_LINES\<rparr>)"

definition run_scenario_args ::
  "'o os \<Rightarrow> string \<Rightarrow> string \<Rightarrow> nat \<Rightarrow> string list \<Rightarrow> 'o \<Rightarrow> (scenario_run \<times> 'o) option" where
  "run_scenario_args os microcar_bin scenario timeout extra_args s =
     (let name = scenario_name scenario; start = os_clock os s
      in case os_spawn os microcar_bin (scenario # extra_args) s of
           (Some e, s1) \<Rightarrow> Some (spawn_failed name microcar_bin (os_clock os s1 - start) e, s1)
         | (None, s1) \<Rightarrow> do {
             deadline \<leftarrow> instant_add os start timeout;
             (status, timed_out, s2) \<leftarrow> wait_loop os deadline s1;
             Some (collect_run os name start status timed_out s2, s2)
           })"

definition runner_run_scenario :: "'o os \<Rightarrow> string \<Rightarrow> string \<Rightarrow> nat \<Rightarrow> 'o \<Rightarrow> (scenario_run \<times> 'o) option" where
  "runner_run_scenario os microcar_bin scenario timeout s =
     run_scenario_args os microcar_bin scenario timeout [] s"

subsection \<open>The loop ends\<close>

definition polled_ok :: "'o os \<Rightarrow> nat \<Rightarrow> exit_status option \<times> bool \<times> 'o \<Rightarrow> bool" where
  "polled_ok os deadline r =
     (case r of (status, timed_out, s') \<Rightarrow>
        (timed_out \<longrightarrow> status = None \<and>
           (\<exists>v v'. os_try_wait os v = (StillRunning, v') \<and> deadline \<le> os_clock os v' \<and>
              s' = os_wait os (os_kill os v'))) \<and>
        (\<not> timed_out \<longrightarrow> (\<exists>v. os_try_wait os v =
           (case status of Some st \<Rightarrow> Exited st | None \<Rightarrow> WaitFailed, s'))))"

lemma wait_loop_ends:
  assumes wait: "\<And>v r v'. os_try_wait os v = (r, v') \<Longrightarrow> os_clock os v \<le> os_clock os v'"
    and sleep: "\<And>v. os_clock os v < os_clock os (os_sleep os v)"
  shows "\<exists>r. wait_loop os deadline s = Some r \<and> polled_ok os deadline r"
proof (induction "deadline - os_clock os s" arbitrary: s rule: less_induct)
  case less
  obtain r s1 where w: "os_try_wait os s = (r, s1)" by fastforce
  show ?case
  proof (cases r)
    case StillRunning
    show ?thesis
    proof (cases "deadline \<le> os_clock os s1")
      case True
      with w StillRunning show ?thesis
        by (simp add: wait_loop.simps [of os deadline s] polled_ok_def) blast
    next
      case False
      from wait [OF w] sleep [of s1] False
      have "deadline - os_clock os (os_sleep os s1) < deadline - os_clock os s" by linarith
      from less [OF this] w StillRunning False show ?thesis
        by (simp add: wait_loop.simps [of os deadline s])
    qed
  qed (use w in \<open>auto simp: wait_loop.simps [of os deadline s] polled_ok_def\<close>)
qed

lemma classify_iff:
  "classify t s p = RTimeout \<longleftrightarrow> t" "classify t s p = RPass \<longleftrightarrow> \<not> t \<and> s"
  "classify t s p = RPanic \<longleftrightarrow> \<not> t \<and> \<not> s \<and> p" "classify t s p = RFail \<longleftrightarrow> \<not> t \<and> \<not> s \<and> \<not> p"
  by (auto simp: classify_def)

text \<open>
  Claim C34. When the clock does not go back and sleeping lets time pass, a run whose deadline the clock
  can represent always ends, whatever the child does: with a failure if it could not be spawned;
  otherwise with a timeout exactly when the child was still running at the deadline, and then it
  was killed, a pass exactly when it exited successfully, and with a panic or a failure otherwise,
  told apart by its error output. A deadline beyond the clock's range panics, after the child was
  spawned.
\<close>

theorem run_always_ends:
  assumes "\<And>v r v'. os_try_wait os v = (r, v') \<Longrightarrow> os_clock os v \<le> os_clock os v'"
    and "\<And>v. os_clock os v < os_clock os (os_sleep os v)"
  shows "case os_spawn os bin (scenario # extra) s of
      (Some e, s1) \<Rightarrow>
        (\<exists>run. run_scenario_args os bin scenario timeout extra s = Some (run, s1) \<and>
           rn_scenario run = scenario_name scenario \<and> rn_status run = RFail \<and> rn_trace run = [])
    | (None, s1) \<Rightarrow>
        if os_time_max os < os_clock os s + timeout
        then run_scenario_args os bin scenario timeout extra s = None
        else
         (\<exists>run status timed_out s2.
            run_scenario_args os bin scenario timeout extra s = Some (run, s2) \<and>
            wait_loop os (os_clock os s + timeout) s1 = Some (status, timed_out, s2) \<and>
            polled_ok os (os_clock os s + timeout) (status, timed_out, s2) \<and>
            rn_scenario run = scenario_name scenario \<and>
            (rn_status run = RTimeout) = timed_out \<and>
            (rn_status run = RPass) = (\<not> timed_out \<and> (\<exists>st. status = Some st \<and> es_success st)) \<and>
            (rn_status run = RPanic) = (\<not> timed_out \<and> \<not> (\<exists>st. status = Some st \<and> es_success st) \<and>
               list_ex (\<lambda>l. contains l ''panicked'') (joined (os_stderr os s2))) \<and>
            rn_trace run = filter is_trace_event (joined (os_stdout os s2)) \<and>
            length (rn_stdout_tail run) \<le> 20 \<and> length (rn_stderr_tail run) \<le> 20)"
proof -
  obtain err s1 where sp: "os_spawn os bin (scenario # extra) s = (err, s1)" by fastforce
  show ?thesis
  proof (cases err)
    case (Some e)
    with sp show ?thesis by (simp add: run_scenario_args_def spawn_failed_def Let_def)
  next
    case None
    obtain status timed_out s2 where
      w: "wait_loop os (os_clock os s + timeout) s1 = Some (status, timed_out, s2)"
      and p: "polled_ok os (os_clock os s + timeout) (status, timed_out, s2)"
      using wait_loop_ends [of os "os_clock os s + timeout" s1] assms by force
    show ?thesis using sp None w p
      by (auto simp: run_scenario_args_def instant_add_def collect_run_def Let_def classify_iff tail_def
          TAIL_LINES_def split: option.splits)
  qed
qed

text \<open>A child that never exits, on a clock of five-millisecond naps.\<close>

definition stuck_child :: "nat os" where
  "stuck_child =
     \<lparr>os_spawn = (\<lambda>bin argv s. (None, s)), os_try_wait = (\<lambda>s. (StillRunning, s)), os_clock = id,
      os_time_max = 1000000, os_kill = id, os_wait = id, os_sleep = (\<lambda>s. s + 5),
      os_stdout = (\<lambda>s. Some []), os_stderr = (\<lambda>s. Some [])\<rparr>"

theorem run_always_ends_witness:
  "(\<exists>run s'. run_scenario_args stuck_child ''microcar'' ''scenarios/a.toml'' 100 [] 0 = Some (run, s') \<and>
     rn_status run = RTimeout) \<and>
   run_scenario_args stuck_child ''microcar'' ''scenarios/a.toml'' 2000000 [] 0 = None"
proof -
  have h: "os_clock stuck_child v \<le> os_clock stuck_child v'"
    if "os_try_wait stuck_child v = (r, v')" for v v' r
    using that by (auto simp: stuck_child_def)
  have h2: "os_clock stuck_child u < os_clock stuck_child (os_sleep stuck_child u)" for u
    by (simp add: stuck_child_def)
  have never: "timed_out" if "polled_ok stuck_child d (status, timed_out, s2)" for d status timed_out s2
    using that by (auto simp: polled_ok_def stuck_child_def split: option.splits)
  have sp: "os_spawn stuck_child b a s = (None, s)" "os_time_max stuck_child = 1000000"
    "os_clock stuck_child 0 = 0" for a b s by (simp_all add: stuck_child_def)
  have "\<exists>run s'. run_scenario_args stuck_child ''microcar'' ''scenarios/a.toml'' 100 [] 0 = Some (run, s') \<and>
     rn_status run = RTimeout"
    using run_always_ends [where os = stuck_child and bin = "''microcar''" and extra = "[]"
      and scenario = "''scenarios/a.toml''" and s = 0 and timeout = 100, OF h h2] never
    by (fastforce simp: sp)
  moreover have "run_scenario_args stuck_child ''microcar'' ''scenarios/a.toml'' 2000000 [] 0 = None"
    using run_always_ends [where os = stuck_child and bin = "''microcar''" and extra = "[]"
      and scenario = "''scenarios/a.toml''" and s = 0 and timeout = 2000000, OF h h2]
    by (simp add: sp)
  ultimately show ?thesis ..
qed

end
