(* ===== verification/Invariants.thy ===== *)
theory Invariants
  imports Runner "HOL-Library.AList"
begin

text \<open>
  \<^verbatim>\<open>dogfood/src/invariants.rs\<close>: the checks a finished run is put through. An invariant is its name
  and its check; the map of the virtual-time check is an association list. The property of that
  check gives its verdict declaratively, per machine: a time may only decrease to a value that no
  earlier time of the machine is below.
\<close>

datatype check_status = CPass | CFail | CSkipped

fun check_as_str :: "check_status \<Rightarrow> string" where
  "check_as_str CPass = ''PASS''"
| "check_as_str CFail = ''FAIL''"
| "check_as_str CSkipped = ''SKIP''"

record invariant_result =
  ir_name :: string
  ir_status :: check_status
  ir_message :: string

definition inv_pass :: "string \<Rightarrow> string \<Rightarrow> invariant_result" where
  "inv_pass name message = \<lparr>ir_name = name, ir_status = CPass, ir_message = message\<rparr>"

definition inv_fail :: "string \<Rightarrow> string \<Rightarrow> invariant_result" where
  "inv_fail name message = \<lparr>ir_name = name, ir_status = CFail, ir_message = message\<rparr>"

definition inv_skipped :: "string \<Rightarrow> string \<Rightarrow> invariant_result" where
  "inv_skipped name message = \<lparr>ir_name = name, ir_status = CSkipped, ir_message = message\<rparr>"

definition is_fail :: "invariant_result \<Rightarrow> bool" where
  "is_fail r \<longleftrightarrow> ir_status r = CFail"

record invariant =
  iv_name :: string
  iv_check :: "scenario_run \<Rightarrow> invariant_result"

subsection \<open>Virtual time\<close>

definition parse_machine_time :: "string \<Rightarrow> (string \<times> u64) option" where
  "parse_machine_time line =
     (let trimmed = trim_start line
      in if \<not> starts_with trimmed ''[machine.'' then None
         else case split_whitespace trimmed of
                machine # t # _ \<Rightarrow> map_option (\<lambda>time. (machine, time)) (parse_u64 t)
              | _ \<Rightarrow> None)"

record vtm_state =
  vt_state :: "(string \<times> (u64 \<times> u64)) list"
  vt_checked :: nat
  vt_segments :: nat

definition vtm_init :: vtm_state where
  "vtm_init = \<lparr>vt_state = [], vt_checked = 0, vt_segments = 0\<rparr>"

definition backward_message :: "string \<Rightarrow> u64 \<Rightarrow> u64 \<Rightarrow> u64 \<Rightarrow> string \<Rightarrow> string" where
  "backward_message machine seg_start prev time line =
     ''virtual time went backward for '' @ machine @ '' within a segment (seg_start='' @
     show_nat (unat seg_start) @ ''): '' @ show_nat (unat prev) @ '' -> '' @ show_nat (unat time) @
     '' in line: '' @ line"

definition vtm_line :: "vtm_state \<Rightarrow> string \<Rightarrow> string + vtm_state" where
  "vtm_line st line =
     (case parse_machine_time line of
        None \<Rightarrow> Inr st
      | Some (machine, time) \<Rightarrow>
         (let st1 = st\<lparr>vt_checked := vt_checked st + 1\<rparr>
          in case map_of (vt_state st) machine of
               None \<Rightarrow> Inr (st1\<lparr>vt_state := AList.update machine (time, time) (vt_state st),
                               vt_segments := vt_segments st + 1\<rparr>)
             | Some (seg_start, prev) \<Rightarrow>
                 (if time \<ge> prev
                  then Inr (st1\<lparr>vt_state := AList.update machine (seg_start, time) (vt_state st)\<rparr>)
                  else if time \<le> seg_start
                  then Inr (st1\<lparr>vt_state := AList.update machine (time, time) (vt_state st),
                               vt_segments := vt_segments st + 1\<rparr>)
                  else Inl (backward_message machine seg_start prev time line))))"

fun vtm_loop :: "vtm_state \<Rightarrow> string list \<Rightarrow> string + vtm_state" where
  "vtm_loop st [] = Inr st"
| "vtm_loop st (line # ls) =
     (case vtm_line st line of Inl e \<Rightarrow> Inl e | Inr st' \<Rightarrow> vtm_loop st' ls)"

definition virtual_time_monotonic :: "scenario_run \<Rightarrow> invariant_result" where
  "virtual_time_monotonic run =
     (case vtm_loop vtm_init (rn_trace run) of
        Inl e \<Rightarrow> inv_fail ''VirtualTimeMonotonic'' e
      | Inr st \<Rightarrow>
          (if vt_checked st = 0
           then inv_skipped ''VirtualTimeMonotonic''
             (''no parseable '' @ quoted ''[machine.N] <time> ...'' @ '' lines in trace'')
           else inv_pass ''VirtualTimeMonotonic''
             (show_nat (vt_checked st) @ '' timed lines across '' @ show_nat (length (vt_state st)) @
              '' machine(s) / '' @ show_nat (vt_segments st) @
              '' segment(s), non-decreasing within every segment'')))"

subsection \<open>The other checks\<close>

definition show_exit_code :: "i32 option \<Rightarrow> string" where
  "show_exit_code c = (case c of None \<Rightarrow> ''None'' | Some n \<Rightarrow> ''Some('' @ show_int (sint n) @ '')'')"

definition process_terminated_cleanly :: "scenario_run \<Rightarrow> invariant_result" where
  "process_terminated_cleanly run =
     (case rn_status run of
        RPass \<Rightarrow> inv_pass ''ProcessTerminatedCleanly'' ''exited 0, no timeout, no panic''
      | RTimeout \<Rightarrow> inv_fail ''ProcessTerminatedCleanly''
          ''process exceeded wall-clock timeout and was killed''
      | RPanic \<Rightarrow> inv_fail ''ProcessTerminatedCleanly''
          (''process panicked (exit '' @ show_exit_code (rn_exit_code run) @ ''); stderr tail: '' @
           join '' | '' (rn_stderr_tail run))
      | RFail \<Rightarrow> inv_fail ''ProcessTerminatedCleanly''
          (''process exited non-zero (exit '' @ show_exit_code (rn_exit_code run) @
           ''); stderr tail: '' @ join '' | '' (rn_stderr_tail run)))"

definition trace_non_empty :: "scenario_run \<Rightarrow> invariant_result" where
  "trace_non_empty run =
     (if rn_trace run = [] then inv_fail ''TraceNonEmpty'' ''trace has no event lines''
      else inv_pass ''TraceNonEmpty'' (show_nat (length (rn_trace run)) @ '' trace event lines''))"

definition stub_invariant :: "string \<Rightarrow> string \<Rightarrow> invariant" where
  "stub_invariant name todo =
     \<lparr>iv_name = name, iv_check = (\<lambda>_. inv_skipped name (''TODO: '' @ todo))\<rparr>"

definition default_invariants :: "invariant list" where
  "default_invariants =
     [\<lparr>iv_name = ''VirtualTimeMonotonic'', iv_check = virtual_time_monotonic\<rparr>,
      \<lparr>iv_name = ''ProcessTerminatedCleanly'', iv_check = process_terminated_cleanly\<rparr>,
      \<lparr>iv_name = ''TraceNonEmpty'', iv_check = trace_non_empty\<rparr>,
      stub_invariant ''RunUntilNeverOvershoots''
        ''needs the run_until deadline and the final virtual time exposed in the trace'',
      stub_invariant ''SteppedEqualsContinuous''
        ''needs a stepped-execution mode to compare against continuous run_until'',
      stub_invariant ''KeyframeRestoreReproduces''
        ''needs keyframe snapshot/restore support and a post-restore trace'',
      stub_invariant ''NoDroppedOrDuplicatedFrames''
        ''needs per-frame tx/rx identity + fault annotations in the trace'',
      stub_invariant ''GatewayForwardingPreservesCorrelationId''
        ''needs correlation IDs and source/dest identity on forwarded frames'',
      stub_invariant ''InspectDevicesMatchesTrace''
        ''needs an InspectDevices state dump to reconcile against trace-derived state'',
      stub_invariant ''ConcurrentEqualsSolo''
        ''needs the simfarm lane (N concurrent sessions in one server process)'']"

definition check_all :: "scenario_run \<Rightarrow> invariant list \<Rightarrow> invariant_result list" where
  "check_all run invs = map (\<lambda>inv. iv_check inv run) invs"

definition check_default :: "scenario_run \<Rightarrow> invariant_result list" where
  "check_default run = check_all run default_invariants"

definition any_failed :: "invariant_result list \<Rightarrow> bool" where
  "any_failed results = list_ex is_fail results"

subsection \<open>The verdict on virtual time\<close>

definition times_of :: "string \<Rightarrow> string list \<Rightarrow> u64 list" where
  "times_of machine ls =
     concat (map (\<lambda>l. case parse_machine_time l of
                         Some (m, t) \<Rightarrow> if m = machine then [t] else []
                       | None \<Rightarrow> []) ls)"

text \<open>Each time keeps up with the one before, or starts a new segment at or below all earlier ones.\<close>

definition segmented :: "u64 list \<Rightarrow> bool" where
  "segmented ts \<longleftrightarrow>
     (\<forall>i < length ts. i = 0 \<or> ts ! (i - 1) \<le> ts ! i \<or> (\<forall>j < i. ts ! i \<le> ts ! j))"

lemma segmented_snoc:
  "segmented (ts @ [t]) \<longleftrightarrow> segmented ts \<and> (ts = [] \<or> last ts \<le> t \<or> (\<forall>x \<in> set ts. t \<le> x))"
proof -
  have "(\<forall>i < length (ts @ [t]). P i) \<longleftrightarrow> (\<forall>i < length ts. P i) \<and> P (length ts)" for P
    by (auto simp: less_Suc_eq)
  then have "segmented (ts @ [t]) \<longleftrightarrow>
      (\<forall>i < length ts. i = 0 \<or> (ts @ [t]) ! (i - 1) \<le> (ts @ [t]) ! i \<or> (\<forall>j < i. (ts @ [t]) ! i \<le> (ts @ [t]) ! j)) \<and>
      (length ts = 0 \<or> (ts @ [t]) ! (length ts - 1) \<le> t \<or> (\<forall>j < length ts. t \<le> (ts @ [t]) ! j))"
    unfolding segmented_def by simp
  also have "\<dots> \<longleftrightarrow> segmented ts \<and> (ts = [] \<or> last ts \<le> t \<or> (\<forall>x \<in> set ts. t \<le> x))"
    by (auto simp: segmented_def nth_append last_conv_nth all_set_conv_all_nth)
  finally show ?thesis .
qed

text \<open>What the map entry of a machine says about its times so far.\<close>

fun tracks :: "u64 list \<Rightarrow> (u64 \<times> u64) option \<Rightarrow> bool" where
  "tracks ts None = (ts = [])"
| "tracks ts (Some (seg_start, prev)) =
     (ts \<noteq> [] \<and> prev = last ts \<and> seg_start \<in> set ts \<and> (\<forall>x \<in> set ts. seg_start \<le> x))"

definition vtm_inv :: "string list \<Rightarrow> vtm_state \<Rightarrow> bool" where
  "vtm_inv seen st \<longleftrightarrow>
     vt_checked st = length (filter (\<lambda>l. parse_machine_time l \<noteq> None) seen) \<and>
     (\<forall>m. segmented (times_of m seen)) \<and>
     (\<forall>m. tracks (times_of m seen) (map_of (vt_state st) m))"

lemma vtm_inv_segments [simp]: "vtm_inv seen (st\<lparr>vt_segments := n\<rparr>) = vtm_inv seen st"
  by (simp add: vtm_inv_def)

lemma times_of_snoc:
  "times_of m (ls @ [l]) = times_of m ls @
     (case parse_machine_time l of Some (m', t) \<Rightarrow> if m' = m then [t] else [] | None \<Rightarrow> [])"
  by (simp add: times_of_def)

lemma vtm_line_inv:
  assumes inv: "vtm_inv seen st"
  shows "case vtm_line st l of
      Inr st' \<Rightarrow> vtm_inv (seen @ [l]) st'
    | Inl e \<Rightarrow> \<exists>m. \<not> segmented (times_of m (seen @ [l]))"
proof (cases "parse_machine_time l")
  case None
  then have eq: "times_of m (seen @ [l]) = times_of m seen" for m by (simp add: times_of_snoc)
  have "vtm_inv (seen @ [l]) st" using inv None unfolding vtm_inv_def eq by simp
  with None show ?thesis by (simp add: vtm_line_def)
next
  case (Some mt)
  obtain m t where mt: "mt = (m, t)" by (cases mt)
  have others: "times_of m' (seen @ [l]) = times_of m' seen" if "m' \<noteq> m" for m'
    using Some mt that by (simp add: times_of_snoc)
  have mine: "times_of m (seen @ [l]) = times_of m seen @ [t]"
    using Some mt by (simp add: times_of_snoc)
  have seg: "segmented (times_of m' seen)" for m' using inv by (simp add: vtm_inv_def)
  have keep: "vtm_inv (seen @ [l]) (st\<lparr>vt_checked := vt_checked st + 1,
      vt_state := AList.update m (s, t) (vt_state st)\<rparr>)"
    if "segmented (times_of m seen @ [t])" "s \<in> set (times_of m seen @ [t])"
      "\<forall>x \<in> set (times_of m seen @ [t]). s \<le> x" for s
    unfolding vtm_inv_def
  proof (intro conjI allI)
    fix m'
    show "segmented (times_of m' (seen @ [l]))"
      using that(1) mine others seg by (cases "m' = m") auto
    show "tracks (times_of m' (seen @ [l])) (map_of (vt_state (st\<lparr>vt_checked := vt_checked st + 1,
        vt_state := AList.update m (s, t) (vt_state st)\<rparr>)) m')"
      using that mine others inv by (cases "m' = m") (simp_all add: update_conv' vtm_inv_def)
  qed (use inv Some mt in \<open>simp add: vtm_inv_def\<close>)
  show ?thesis
  proof (cases "map_of (vt_state st) m")
    case None
    then have "times_of m seen = []" using inv by (metis tracks.simps(1) vtm_inv_def)
    then have "vtm_inv (seen @ [l]) (st\<lparr>vt_checked := vt_checked st + 1,
      vt_state := AList.update m (t, t) (vt_state st)\<rparr>)"
      by (intro keep) (simp_all add: segmented_def)
    with Some mt None show ?thesis by (simp add: vtm_line_def)
  next
    case old: (Some sp)
    obtain s p where sp: "sp = (s, p)" by (cases sp)
    have st: "times_of m seen \<noteq> []" "p = last (times_of m seen)" "s \<in> set (times_of m seen)"
      "\<forall>x \<in> set (times_of m seen). s \<le> x"
      using inv old sp unfolding vtm_inv_def by (metis tracks.simps(2))+
    have "s \<le> p" using st by (simp add: last_in_set)
    consider (up) "p \<le> t" | (down) "\<not> p \<le> t" "t \<le> s" | (bad) "\<not> p \<le> t" "\<not> t \<le> s" by blast
    then show ?thesis
    proof cases
      case up
      have "vtm_inv (seen @ [l]) (st\<lparr>vt_checked := vt_checked st + 1,
          vt_state := AList.update m (s, t) (vt_state st)\<rparr>)"
        using up st order_trans [OF \<open>s \<le> p\<close> up] seg by (intro keep) (auto simp: segmented_snoc)
      with Some mt old sp up show ?thesis by (simp add: vtm_line_def)
    next
      case down
      then have "\<forall>x \<in> set (times_of m seen). t \<le> x" using st(4) order_trans by blast
      then have "vtm_inv (seen @ [l]) (st\<lparr>vt_checked := vt_checked st + 1,
          vt_state := AList.update m (t, t) (vt_state st)\<rparr>)"
        using seg by (intro keep) (auto simp: segmented_snoc)
      with Some mt old sp down show ?thesis by (simp add: vtm_line_def)
    next
      case bad
      with st have "\<not> segmented (times_of m (seen @ [l]))"
        unfolding mine segmented_snoc by auto
      with Some mt old sp bad show ?thesis by (auto simp: vtm_line_def)
    qed
  qed
qed

lemma segmented_prefix: "segmented (ts @ us) \<Longrightarrow> segmented ts"
proof (induction us rule: rev_induct)
  case (snoc u us)
  then show ?case by (simp add: segmented_snoc flip: append_assoc)
qed simp

lemma times_of_append: "times_of m (ls @ ls') = times_of m ls @ times_of m ls'"
  by (simp add: times_of_def)

lemma vtm_loop_inv:
  "vtm_inv seen st \<Longrightarrow> (case vtm_loop st ls of
      Inr st' \<Rightarrow> vtm_inv (seen @ ls) st'
    | Inl e \<Rightarrow> \<exists>m. \<not> segmented (times_of m (seen @ ls)))"
proof (induction ls arbitrary: seen st)
  case (Cons l ls)
  show ?case
  proof (cases "vtm_line st l")
    case (Inl e)
    with vtm_line_inv [OF Cons.prems, of l] obtain m where "\<not> segmented (times_of m (seen @ [l]))" by auto
    then have "\<not> segmented (times_of m ((seen @ [l]) @ ls))"
      using segmented_prefix by (auto simp only: times_of_append [of m "seen @ [l]" ls])
    with Inl show ?thesis by auto
  next
    case (Inr st')
    with vtm_line_inv [OF Cons.prems, of l] have "vtm_inv (seen @ [l]) st'" by simp
    from Cons.IH [OF this] Inr show ?thesis
      by (simp only: append_assoc append.simps vtm_loop.simps sum.case)
  qed
qed simp

lemma vtm_inv_init: "vtm_inv [] vtm_init"
  by (simp add: vtm_inv_def vtm_init_def times_of_def segmented_def)

lemma virtual_time_status:
  "ir_status (virtual_time_monotonic run) =
     (if \<exists>m. \<not> segmented (times_of m (rn_trace run)) then CFail
      else if \<not> list_ex (\<lambda>l. parse_machine_time l \<noteq> None) (rn_trace run) then CSkipped
      else CPass)"
proof (cases "vtm_loop vtm_init (rn_trace run)")
  case (Inl e)
  with vtm_loop_inv [OF vtm_inv_init, of "rn_trace run"] show ?thesis
    by (auto simp: virtual_time_monotonic_def inv_fail_def)
next
  case (Inr st)
  with vtm_loop_inv [OF vtm_inv_init, of "rn_trace run"] have inv: "vtm_inv (rn_trace run) st" by simp
  then have "\<not> (\<exists>m. \<not> segmented (times_of m (rn_trace run)))"
    "vt_checked st = 0 \<longleftrightarrow> \<not> list_ex (\<lambda>l. parse_machine_time l \<noteq> None) (rn_trace run)"
    by (auto simp: vtm_inv_def list_ex_iff filter_empty_conv)
  with Inr show ?thesis by (simp add: virtual_time_monotonic_def inv_skipped_def inv_pass_def)
qed

text \<open>
  The virtual-time check fails exactly when some machine's times, in trace order, have a
  decrease that does not go down to (or below) every earlier time of that machine; it is skipped
  exactly when no line carries a time, and passes otherwise.
\<close>

theorem virtual_time_verdict:
  "ir_status (virtual_time_monotonic run) =
     (if \<exists>m. \<not> segmented (times_of m (rn_trace run)) then CFail
      else if \<not> list_ex (\<lambda>l. parse_machine_time l \<noteq> None) (rn_trace run) then CSkipped
      else CPass)"
  by (rule virtual_time_status)

text \<open>A run is accepted by the default set exactly when its three implemented checks do not fail.\<close>

lemma any_failed_default:
  "any_failed (check_default run) \<longleftrightarrow>
     is_fail (virtual_time_monotonic run) \<or> rn_status run \<noteq> RPass \<or> rn_trace run = []"
  by (cases "rn_status run")
    (auto simp: any_failed_def check_default_def check_all_def default_invariants_def stub_invariant_def
      is_fail_def inv_skipped_def inv_pass_def inv_fail_def process_terminated_cleanly_def trace_non_empty_def)

end
