(* ===== verification/Trace_Hash.thy ===== *)
theory Trace_Hash
  imports Rust_Str Digest
begin

text \<open>
  \<^verbatim>\<open>dogfood/src/trace_hash.rs\<close>: the normalisation of trace lines and their FNV-1a hash. The
  properties: normalising is collapsing white space and hiding pointers, and is idempotent on
  ASCII lines (but not on other lines, which the source says); the hash is a function of the
  joined text and changes whenever one byte of it changes.
\<close>

subsection \<open>Normalisation\<close>

text \<open>
  The loop over the characters: what was collected, whether white space is pending, the rest. A
  character that is not white space is pushed byte by byte.
\<close>

function collapse_loop :: "string \<Rightarrow> bool \<Rightarrow> string \<Rightarrow> string" where
  "collapse_loop collapsed prev_ws line =
     (if line = [] then collapsed
      else if ws_len line = 0
      then collapse_loop (collapsed @ (if prev_ws then '' '' else []) @ [hd line]) False (tl line)
      else collapse_loop collapsed (prev_ws \<or> collapsed \<noteq> []) (drop (ws_len line) line))"
  by pat_completeness auto
termination
proof (relation "measure (\<lambda>(c, p, s). length s)")
  fix c p and line :: string assume "line \<noteq> []" "ws_len line \<noteq> 0"
  then show "((c, p \<or> c \<noteq> [], drop (ws_len line) line), c, p, line) \<in> measure (\<lambda>(c, p, s). length s)"
    using ws_len_le [of line] by auto
qed auto

declare collapse_loop.simps [simp del]

definition is_hexdigit :: "char \<Rightarrow> bool" where
  "is_hexdigit c \<longleftrightarrow> hex_digit c \<noteq> None"

definition pointer_start :: "string \<Rightarrow> bool" where
  "pointer_start s =
     (case s of
        a # b # rest \<Rightarrow> a = CHR ''0'' \<and> (b = CHR ''x'' \<or> b = CHR ''X'') \<and>
          8 \<le> length (takeWhile is_hexdigit rest)
      | _ \<Rightarrow> False)"

text \<open>\<open>out.push(byte as char)\<close>: the byte read as a Latin-1 character, encoded again in UTF-8.\<close>

definition push_byte_as_char :: "char \<Rightarrow> string" where
  "push_byte_as_char c =
     (if byte_of c < 128 then [c]
      else [char_of (0xC0 + byte_of c div 64), char_of (0x80 + byte_of c mod 64)])"

function scrub_pointers :: "string \<Rightarrow> string" where
  "scrub_pointers s =
     (if s = [] then []
      else if pointer_start s then ''0xPTR'' @ scrub_pointers (dropWhile is_hexdigit (drop 2 s))
      else push_byte_as_char (hd s) @ scrub_pointers (tl s))"
  by pat_completeness auto
termination
proof (relation "measure length")
  fix s :: string assume "s \<noteq> []"
  then show "(dropWhile is_hexdigit (drop 2 s), s) \<in> measure length"
    using length_dropWhile_le [of is_hexdigit "drop 2 s"] by (cases s) auto
qed auto

declare scrub_pointers.simps [simp del]

definition normalize_line :: "string \<Rightarrow> string" where
  "normalize_line line = scrub_pointers (collapse_loop [] False line)"

definition normalize_trace :: "string list \<Rightarrow> string list" where
  "normalize_trace ls = map normalize_line ls"

subsection \<open>Hashing\<close>

definition FNV_OFFSET_BASIS :: u64 where "FNV_OFFSET_BASIS = 0xcbf29ce484222325"
definition FNV_PRIME :: u64 where "FNV_PRIME = 0x00000100000001b3"

definition fnv_byte :: "u64 \<Rightarrow> char \<Rightarrow> u64" where
  "fnv_byte hash byte = xor hash (of_nat (byte_of byte)) * FNV_PRIME"

text \<open>The loop over the lines; \<open>idx > 0\<close> separates them.\<close>

fun fnv_lines :: "nat \<Rightarrow> u64 \<Rightarrow> string list \<Rightarrow> u64" where
  "fnv_lines idx hash [] = hash"
| "fnv_lines idx hash (line # ls) =
     (let hash1 = (if idx > 0 then fnv_byte hash CHR 0x0A else hash)
      in fnv_lines (idx + 1) (foldl fnv_byte hash1 line) ls)"

definition trace_hash :: "string list \<Rightarrow> string" where
  "trace_hash ls = show_hex_width 16 (unat (fnv_lines 0 FNV_OFFSET_BASIS ls))"

definition normalized_hash :: "string list \<Rightarrow> string" where
  "normalized_hash ls = trace_hash (normalize_trace ls)"

subsection \<open>Collapsing is splitting and joining\<close>

lemma collapse_loop_split_ws:
  assumes "out = join '' '' (ds @ (if word = [] then [] else [word]))"
    "prev = (word = [] \<and> ds \<noteq> [])" "[] \<notin> set ds"
  shows "collapse_loop out prev s = join '' '' (ds @ split_ws word s)"
  using assms
proof (induction word s arbitrary: ds out prev rule: split_ws.induct)
  case (1 word s)
  consider (nil) "s = []" | (char) "s \<noteq> []" "ws_len s = 0" | (ws) "s \<noteq> []" "ws_len s \<noteq> 0" by blast
  then show ?case
  proof cases
    case nil
    with "1.prems" show ?thesis by (simp add: collapse_loop.simps split_ws.simps)
  next
    case char
    have "out @ (if prev then '' '' else []) @ [hd s] = join '' '' (ds @ [word @ [hd s]])"
      using "1.prems" by (cases "word = []") (simp_all add: join_snoc)
    with "1.IH"(1) [OF char, of _ ds False] "1.prems"(3) char show ?thesis
      by (subst collapse_loop.simps, subst split_ws.simps) simp
  next
    case ws
    let ?ds = "ds @ (if word = [] then [] else [word])"
    have "[] \<notin> set ?ds" using "1.prems"(3) by auto
    moreover have "(prev \<or> out \<noteq> []) = (?ds \<noteq> [])"
      using "1.prems" join_eq_Nil [OF calculation] by auto
    ultimately show ?thesis using "1.IH"(2) [OF ws, of out ?ds "prev \<or> out \<noteq> []"] "1.prems"(1) ws
      by (subst collapse_loop.simps, subst split_ws.simps) simp
  qed
qed

lemma collapse_is_join: "collapse_loop [] False s = join '' '' (split_whitespace s)"
  using collapse_loop_split_ws [of "[]" "[]" "[]" False s] by (simp add: split_whitespace_def)

subsection \<open>Idempotence on ASCII\<close>

definition ascii :: "string \<Rightarrow> bool" where
  "ascii s = list_all (\<lambda>c. byte_of c < 128) s"

text \<open>Words of a collapsed ASCII line: not empty, without white space.\<close>

definition word_char :: "char \<Rightarrow> bool" where
  "word_char c \<longleftrightarrow> byte_of c < 128 \<and> byte_of c \<notin> {9, 10, 11, 12, 13, 32}"

definition word_text :: "string \<Rightarrow> bool" where
  "word_text w \<longleftrightarrow> w \<noteq> [] \<and> list_all word_char w"

lemma ws_len_ascii: "byte_of c < 128 \<Longrightarrow> ws_len (c # s) = (if word_char c then 0 else 1)"
  by (simp add: ws_len.simps word_char_def split: list.split)

lemma word_char_ascii: "word_char c \<Longrightarrow> byte_of c < 128"
  by (simp add: word_char_def)

lemma word_char_ptr: "list_all word_char ''0xPTR''"
  by (simp add: word_char_def byte_of_def)

lemma split_ws_words:
  "ascii s \<Longrightarrow> (word = [] \<or> word_text word) \<Longrightarrow> list_all word_text (split_ws word s)"
proof (induction word s rule: split_ws.induct)
  case (1 word s)
  show ?case
  proof (cases s)
    case Nil
    with 1 show ?thesis by (auto simp: split_ws.simps)
  next
    case (Cons c t)
    then have c: "byte_of c < 128" "ascii t" using "1.prems"(1) by (simp_all add: ascii_def)
    show ?thesis
    proof (cases "word_char c")
      case True
      then have "word_text (word @ [c])" using "1.prems"(2) by (auto simp: word_text_def)
      with "1.IH"(1) Cons c True show ?thesis by (subst split_ws.simps) (simp add: ws_len_ascii)
    next
      case False
      with "1.IH"(2) Cons c have "list_all word_text (split_ws [] t)" by (simp add: ws_len_ascii)
      with False Cons c "1.prems"(2) show ?thesis by (subst split_ws.simps) (auto simp: ws_len_ascii)
    qed
  qed
qed

lemma split_ws_word_text:
  "list_all word_char w \<Longrightarrow>
   split_ws acc (w @ s) = split_ws (acc @ w) s"
proof (induction w arbitrary: acc)
  case (Cons c w)
  then show ?case by (subst split_ws.simps) (simp add: ws_len_ascii word_char_ascii)
qed simp

lemma split_ws_space: "split_ws acc (CHR '' '' # s) = (if acc = [] then [] else [acc]) @ split_ws [] s"
  by (subst split_ws.simps) simp

lemma split_join_words: "list_all word_text ws \<Longrightarrow> split_ws [] (join '' '' ws) = ws"
proof (induction "'' ''" ws rule: join.induct)
  case (2 x)
  then show ?case using split_ws_word_text [of x "[]" "[]"]
    by (auto simp: word_text_def split_ws.simps [of _ "[]"])
next
  case (3 x y zs)
  then show ?case using split_ws_word_text [of x "[]" "CHR '' '' # join '' '' (y # zs)"]
    by (auto simp: word_text_def split_ws_space)
qed (simp add: split_ws.simps)

text \<open>Hiding pointers keeps the leading hexadecimal digits of every suffix.\<close>

lemma scrub_simps:
  "scrub_pointers [] = []"
  "pointer_start s \<Longrightarrow> scrub_pointers s = ''0xPTR'' @ scrub_pointers (dropWhile is_hexdigit (drop 2 s))"
  "\<not> pointer_start (c # s) \<Longrightarrow> byte_of c < 128 \<Longrightarrow> scrub_pointers (c # s) = c # scrub_pointers s"
  by (subst scrub_pointers.simps; auto simp: pointer_start_def push_byte_as_char_def)+

lemma not_hex [simp]: "\<not> is_hexdigit CHR ''x''" "\<not> is_hexdigit CHR ''X''" "\<not> is_hexdigit CHR ''P''"
  "is_hexdigit CHR ''0''"
  by (simp_all add: is_hexdigit_def hex_digit_def byte_of_def)

lemma pointer_start_cases:
  "pointer_start s \<Longrightarrow> \<exists>x r. s = CHR ''0'' # x # r \<and> (x = CHR ''x'' \<or> x = CHR ''X'') \<and>
     8 \<le> length (takeWhile is_hexdigit r)"
  by (auto simp: pointer_start_def split: list.splits)

lemma ascii_dropWhile: "ascii s \<Longrightarrow> ascii (dropWhile P (drop n s))"
  unfolding ascii_def list_all_iff by (meson set_dropWhileD set_drop_subset subsetD)

lemma scrub_hexrun:
  "ascii s \<Longrightarrow> takeWhile is_hexdigit (scrub_pointers s) = takeWhile is_hexdigit s \<and>
     (s \<noteq> [] \<longrightarrow> scrub_pointers s \<noteq> [] \<and> hd (scrub_pointers s) = hd s)"
proof (induction s)
  case (Cons c s)
  show ?case
  proof (cases "pointer_start (c # s)")
    case True
    then show ?thesis by (auto dest!: pointer_start_cases simp: scrub_simps(2))
  next
    case False
    with Cons show ?thesis by (simp add: scrub_simps(3) ascii_def)
  qed
qed (simp add: scrub_simps)

lemma scrub_no_pointer:
  assumes "ascii (c # s)" "\<not> pointer_start (c # s)"
  shows "\<not> pointer_start (c # scrub_pointers s)"
proof
  assume "pointer_start (c # scrub_pointers s)"
  then obtain x r where p: "c = CHR ''0''" "scrub_pointers s = x # r" "x = CHR ''x'' \<or> x = CHR ''X''"
    "8 \<le> length (takeWhile is_hexdigit r)"
    by (auto dest!: pointer_start_cases)
  have as: "ascii s" using assms by (simp add: ascii_def)
  have "s \<noteq> []" using p by (auto simp: scrub_simps)
  with scrub_hexrun [OF as] p obtain t where t: "s = x # t" by (cases s) auto
  have "\<not> pointer_start s" using p t by (auto simp: pointer_start_def split: list.splits)
  with t as have "scrub_pointers s = x # scrub_pointers t" by (simp add: scrub_simps(3) ascii_def)
  with p t as scrub_hexrun [of t] have "8 \<le> length (takeWhile is_hexdigit t)" by (simp add: ascii_def)
  with p t assms(2) show False by (auto simp: pointer_start_def)
qed

lemma scrub_literal:
  "scrub_pointers (''0xPTR'' @ s) = ''0xPTR'' @ scrub_pointers s"
  by (simp add: scrub_simps(3) pointer_start_def byte_of_def split: list.split)

lemma scrub_idempotent: "ascii s \<Longrightarrow> scrub_pointers (scrub_pointers s) = scrub_pointers s"
proof (induction s rule: scrub_pointers.induct)
  case (1 s)
  show ?case
  proof (cases s)
    case Nil
    then show ?thesis by (simp add: scrub_simps)
  next
    case (Cons c t)
    show ?thesis
    proof (cases "pointer_start s")
      case True
      let ?r = "dropWhile is_hexdigit (drop 2 s)"
      have "scrub_pointers (scrub_pointers ?r) = scrub_pointers ?r"
        using "1.IH"(1) True Cons ascii_dropWhile [OF "1.prems"] by blast
      then show ?thesis by (simp only: scrub_simps(2) [OF True] scrub_literal)
    next
      case False
      with "1.IH"(2) "1.prems" Cons have "scrub_pointers (scrub_pointers t) = scrub_pointers t"
        by (simp add: ascii_def)
      with False "1.prems" Cons scrub_no_pointer [of c t] show ?thesis
        by (simp add: scrub_simps(3) ascii_def)
    qed
  qed
qed

text \<open>A space separates what is hidden before it from what is hidden after it.\<close>

lemma not_hex_space [simp]: "\<not> is_hexdigit CHR '' ''"
  by (simp add: is_hexdigit_def hex_digit_def byte_of_def)

lemma takeWhile_hex_space: "takeWhile is_hexdigit (r @ CHR '' '' # s) = takeWhile is_hexdigit r"
  by (induction r) auto

lemma dropWhile_hex_space: "dropWhile is_hexdigit (r @ CHR '' '' # s) = dropWhile is_hexdigit r @ CHR '' '' # s"
  by (induction r) auto

lemma pointer_start_space: "pointer_start (w @ CHR '' '' # s) = pointer_start w"
  by (cases w; cases "tl w") (auto simp: pointer_start_def takeWhile_hex_space split: list.split)

lemma scrub_space: "scrub_pointers (w @ CHR '' '' # s) = scrub_pointers w @ CHR '' '' # scrub_pointers s"
proof (induction w rule: scrub_pointers.induct)
  case (1 w)
  show ?case
  proof (cases w)
    case Nil
    then show ?thesis
      by (simp add: scrub_simps pointer_start_def byte_of_def split: list.split)
  next
    case (Cons c t)
    show ?thesis
    proof (cases "pointer_start w")
      case True
      then obtain x r where w: "w = CHR ''0'' # x # r" by (auto dest: pointer_start_cases)
      have p: "pointer_start (w @ CHR '' '' # s)" using True by (simp add: pointer_start_space)
      have "dropWhile is_hexdigit (drop 2 (w @ CHR '' '' # s)) = dropWhile is_hexdigit (drop 2 w) @ CHR '' '' # s"
        by (simp add: w dropWhile_hex_space)
      moreover have "w \<noteq> []" by (simp add: w)
      ultimately show ?thesis
        using "1.IH"(1) [OF _ True] by (simp only: scrub_simps(2) [OF True] scrub_simps(2) [OF p] append_assoc) blast
    next
      case False
      then have "\<not> pointer_start (w @ CHR '' '' # s)" by (simp add: pointer_start_space)
      with False "1.IH"(2) Cons show ?thesis
        by (simp add: scrub_pointers.simps [of "c # t"] scrub_pointers.simps [of "c # t @ _"])
    qed
  qed
qed

lemma scrub_word_text: "word_text w \<Longrightarrow> word_text (scrub_pointers w)"
proof (induction w rule: scrub_pointers.induct)
  case (1 w)
  show ?case
  proof (cases "pointer_start w")
    case True
    let ?r = "dropWhile is_hexdigit (drop 2 w)"
    have "list_all word_char ?r"
      using "1.prems" unfolding word_text_def list_all_iff
      by (meson set_dropWhileD set_drop_subset subsetD)
    then have "?r = [] \<or> word_text ?r" by (auto simp: word_text_def)
    moreover have "w \<noteq> []" using True by (auto simp: pointer_start_def)
    ultimately have "scrub_pointers ?r = [] \<or> word_text (scrub_pointers ?r)"
      using "1.IH"(1) [OF _ True] by (metis scrub_simps(1))
    then show ?thesis
      unfolding scrub_simps(2) [OF True] using word_char_ptr by (auto simp: word_text_def)
  next
    case False
    with 1 show ?thesis
    proof (cases w)
      case (Cons c t)
      with 1 have c: "word_char c" "list_all word_char t" by (auto simp: word_text_def)
      then have "t = [] \<or> word_text (scrub_pointers t)" using "1.IH"(2) False Cons by (auto simp: word_text_def)
      with False Cons c show ?thesis by (auto simp: scrub_simps word_char_ascii word_text_def)
    qed (simp add: word_text_def)
  qed
qed

lemma scrub_join: "scrub_pointers (join '' '' ws) = join '' '' (map scrub_pointers ws)"
proof (induction "'' ''" ws rule: join.induct)
  case (3 x y zs)
  then show ?case by (simp add: scrub_space)
qed (simp_all add: scrub_simps)

lemma ascii_join: "list_all word_text ws \<Longrightarrow> ascii (join '' '' ws)"
proof -
  have sp: "byte_of CHR '' '' < 128" by (simp add: byte_of_def)
  assume "list_all word_text ws"
  then show ?thesis
    by (induction "'' ''" ws rule: join.induct)
      (auto simp: ascii_def word_text_def list_all_iff word_char_ascii sp)
qed

lemma normalize_line_words:
  "ascii l \<Longrightarrow> \<exists>ws. list_all word_text ws \<and> normalize_line l = join '' '' ws \<and>
     normalize_line l = scrub_pointers (normalize_line l)"
proof -
  assume l: "ascii l"
  let ?ws = "map scrub_pointers (split_whitespace l)"
  have w: "list_all word_text (split_whitespace l)"
    unfolding split_whitespace_def by (rule split_ws_words [OF l]) simp
  then have "list_all word_text ?ws" by (auto simp: list_all_iff scrub_word_text)
  moreover have n: "normalize_line l = join '' '' ?ws"
    by (simp add: normalize_line_def collapse_is_join scrub_join)
  moreover have "scrub_pointers (normalize_line l) = normalize_line l"
    unfolding normalize_line_def collapse_is_join by (rule scrub_idempotent [OF ascii_join [OF w]])
  ultimately show ?thesis by auto
qed

subsection \<open>Properties\<close>

text \<open>
  Normalising a line is splitting it at white space, hiding every pointer, and joining
  the words with single spaces; on a trace of ASCII lines it is idempotent.
\<close>

theorem normalize_trace_idempotent:
  assumes "list_all ascii ls"
  shows "normalize_trace ls = map (\<lambda>l. join '' '' (map scrub_pointers (split_whitespace l))) ls \<and>
    normalize_trace (normalize_trace ls) = normalize_trace ls"
proof -
  have "normalize_line (normalize_line l) = normalize_line l" if "l \<in> set ls" for l
  proof -
    have "ascii l" using assms that by (simp add: list_all_iff)
    from normalize_line_words [OF this] obtain ws where ws: "list_all word_text ws"
      "normalize_line l = join '' '' ws" "scrub_pointers (normalize_line l) = normalize_line l"
      by auto
    then show ?thesis
      by (simp add: normalize_line_def [of "join '' '' ws"] collapse_is_join split_whitespace_def
          split_join_words)
  qed
  then show ?thesis
    by (simp add: normalize_trace_def normalize_line_def collapse_is_join scrub_join)
qed

theorem normalize_trace_idempotent_witness:
  "normalize_trace (normalize_trace [''[machine.1]    0x12345678  a'']) =
     normalize_trace [''[machine.1]    0x12345678  a'']"
proof -
  have "list_all ascii [''[machine.1]    0x12345678  a'']" by (simp add: ascii_def byte_of_def)
  from normalize_trace_idempotent [OF this] show ?thesis by blast
qed

text \<open>
  On other text normalising is not idempotent: each pass encodes the bytes of a
  non-ASCII character again, so the letter e with an acute accent grows from two bytes to four and
  then to eight.
\<close>

theorem normalize_not_idempotent_beyond_ascii:
  "length (hd (normalize_trace [[CHR 0xC3, CHR 0xA9]])) = 4 \<and>
   length (hd (normalize_trace (normalize_trace [[CHR 0xC3, CHR 0xA9]]))) = 8"
  by code_simp

subsection \<open>The hash\<close>

definition FNV_INVERSE :: u64 where "FNV_INVERSE = 0xce965057aff6957b"

lemma fnv_mult_cancel: "x * FNV_PRIME = y * FNV_PRIME \<Longrightarrow> x = y"
proof -
  assume "x * FNV_PRIME = y * FNV_PRIME"
  then have "x * (FNV_PRIME * FNV_INVERSE) = y * (FNV_PRIME * FNV_INVERSE)"
    by (metis mult.assoc)
  moreover have "FNV_PRIME * FNV_INVERSE = 1"
    by (simp add: FNV_PRIME_def FNV_INVERSE_def)
  ultimately show ?thesis by simp
qed

interpretation fnv: injective_digest fnv_byte
proof unfold_locales
  fix s s' :: u64 and b b' :: char
  show "fnv_byte s b = fnv_byte s' b \<Longrightarrow> s = s'"
    unfolding fnv_byte_def by (drule fnv_mult_cancel) simp
  assume "fnv_byte s b = fnv_byte s b'"
  then have "(of_nat (byte_of b) :: u64) = of_nat (byte_of b')"
    unfolding fnv_byte_def by (auto dest: fnv_mult_cancel)
  then have "byte_of b = byte_of b'"
    using byte_of_lt [of b] byte_of_lt [of b'] by (simp add: of_nat_inverse word_of_nat_eq_iff take_bit_nat_eq_self)
  then show "b = b'" by (simp add: byte_of_inj)
qed

lemma fnv_lines_later: "0 < idx \<Longrightarrow> fnv_lines idx h ls = foldl fnv_byte h (concat (map (\<lambda>l. CHR 0x0A # l) ls))"
  by (induction idx h ls rule: fnv_lines.induct) (auto simp: Let_def)

lemma fnv_lines_join: "fnv_lines 0 h ls = foldl fnv_byte h (join [CHR 0x0A] ls)"
proof (cases ls)
  case (Cons l ls')
  have "join [CHR 0x0A] (l # ls') = l @ concat (map (\<lambda>l. CHR 0x0A # l) ls')"
  proof (induction ls' arbitrary: l)
    case (Cons m ms)
    then show ?case using Cons [of m] by simp
  qed simp
  with Cons show ?thesis by (simp add: fnv_lines_later)
qed simp

lemma pad_hex_inj: "show_hex_width w m = show_hex_width w n \<Longrightarrow> m = n"
proof -
  have z: "parse_digits hex_digit 16 0 (replicate k CHR ''0'' @ s) = parse_digits hex_digit 16 0 s" for k s
    by (induction k) (simp_all add: hex_digit_def byte_of_def)
  assume "show_hex_width w m = show_hex_width w n"
  then have "parse_digits hex_digit 16 0 (show_hex_width w m) = parse_digits hex_digit 16 0 (show_hex_width w n)"
    by simp
  then show "m = n" by (simp add: show_hex_width_def pad_left_def z)
qed

lemma trace_hash_eq_iff:
  "trace_hash ls = trace_hash ls' \<longleftrightarrow>
     foldl fnv_byte FNV_OFFSET_BASIS (join [CHR 0x0A] ls) = foldl fnv_byte FNV_OFFSET_BASIS (join [CHR 0x0A] ls')"
  unfolding trace_hash_def fnv_lines_join
  by (auto dest: pad_hex_inj simp: word_unat_eq_iff)

text \<open>
  Claim C33. The hash of a trace depends only on its lines joined by line feeds, and two traces whose
  joined texts differ in exactly one byte have different hashes.
\<close>

theorem trace_hash_detects_one_byte:
  assumes "join [CHR 0x0A] ls = as @ x # bs" "join [CHR 0x0A] ls' = as @ y # bs"
  shows "trace_hash ls = trace_hash ls' \<longleftrightarrow> x = y"
  unfolding trace_hash_eq_iff assms by (rule fnv.one_byte_changes_digest)

theorem trace_hash_detects_one_byte_witness:
  "trace_hash [''ab'', ''c''] \<noteq> trace_hash [''ab'', ''d'']"
  using trace_hash_detects_one_byte [of "[''ab'', ''c'']" "''ab'' @ [CHR 0x0A]" "CHR ''c''" "[]"
      "[''ab'', ''d'']" "CHR ''d''"] by simp

end
