(* ===== verification/Json.thy ===== *)
theory Json
  imports Rust_Str
begin

text \<open>
  \<^verbatim>\<open>dogfood/src/json.rs\<close>: the JSON emitter every report is printed with. The grammar of RFC 8259 is
  an inductive relation between texts and the values they stand for, written without reference to
  the emitter; the property is that what the emitter prints is a JSON text for the value it was
  given.
\<close>

type_synonym u128 = "128 word"

datatype json =
  JNull
| JBool bool
| JInt i64
| JUInt u128
| JStr string
| JArr "json list"
| JObj "(string \<times> json) list"

definition json_str :: "string \<Rightarrow> json" where
  "json_str s = JStr s"

subsection \<open>The emitter\<close>

text \<open>One character of \<open>write_escaped\<close>; the bytes of longer characters pass unchanged.\<close>

definition escape_char :: "char \<Rightarrow> string" where
  "escape_char c =
     (if c = CHR 0x22 then [CHR 0x5C, CHR 0x22]
      else if c = CHR 0x5C then [CHR 0x5C, CHR 0x5C]
      else if c = CHR 0x0A then [CHR 0x5C, CHR ''n'']
      else if c = CHR 0x0D then [CHR 0x5C, CHR ''r'']
      else if c = CHR 0x09 then [CHR 0x5C, CHR ''t'']
      else if c = CHR 0x08 then [CHR 0x5C, CHR ''b'']
      else if c = CHR 0x0C then [CHR 0x5C, CHR ''f'']
      else if byte_of c < 0x20 then [CHR 0x5C, CHR ''u''] @ show_hex_width 4 (byte_of c)
      else [c])"

definition write_escaped :: "string \<Rightarrow> string" where
  "write_escaped s = [CHR 0x22] @ concat (map escape_char s) @ [CHR 0x22]"

definition push_indent :: "nat \<Rightarrow> string" where
  "push_indent level = concat (replicate level ''  '')"

abbreviation nl :: string where "nl \<equiv> [CHR 0x0A]"

fun json_write :: "nat \<Rightarrow> json \<Rightarrow> string"
  and write_items :: "nat \<Rightarrow> json list \<Rightarrow> string"
  and write_fields :: "nat \<Rightarrow> (string \<times> json) list \<Rightarrow> string" where
  "json_write indent JNull = ''null''"
| "json_write indent (JBool b) = (if b then ''true'' else ''false'')"
| "json_write indent (JInt n) = show_int (sint n)"
| "json_write indent (JUInt n) = show_nat (unat n)"
| "json_write indent (JStr s) = write_escaped s"
| "json_write indent (JArr items) =
     (if items = [] then ''[]''
      else ''['' @ nl @ write_items indent items @ push_indent indent @ '']'')"
| "json_write indent (JObj fields) =
     (if fields = [] then ''{}''
      else ''{'' @ nl @ write_fields indent fields @ push_indent indent @ ''}'')"
| "write_items indent [] = []"
| "write_items indent (item # items) =
     push_indent (indent + 1) @ json_write (indent + 1) item @ (if items \<noteq> [] then '','' else []) @
     nl @ write_items indent items"
| "write_fields indent [] = []"
| "write_fields indent (kv # fields) =
     push_indent (indent + 1) @ write_escaped (fst kv) @ '': '' @ json_write (indent + 1) (snd kv) @
     (if fields \<noteq> [] then '','' else []) @ nl @ write_fields indent fields"

definition to_pretty :: "json \<Rightarrow> string" where
  "to_pretty j = json_write 0 j @ nl"

subsection \<open>The grammar of RFC 8259\<close>

datatype json_value =
  VNull | VBool bool | VNumber int | VString string | VArray "json_value list"
| VObject "(string \<times> json_value) list"

definition json_ws :: "string \<Rightarrow> bool" where
  "json_ws s = list_all (\<lambda>c. byte_of c \<in> {0x20, 0x09, 0x0A, 0x0D}) s"

text \<open>An integer: no leading zero, an optional minus sign.\<close>

definition digits_text :: "string \<Rightarrow> bool" where
  "digits_text s \<longleftrightarrow> s \<noteq> [] \<and> list_all ascii_digit s \<and> (hd s = CHR ''0'' \<longrightarrow> s = ''0'')"

inductive number_text :: "int \<Rightarrow> string \<Rightarrow> bool" where
  pos: "digits_text s \<Longrightarrow> parse_digits dec_digit 10 0 s = Some n \<Longrightarrow> number_text (int n) s"
| neg: "digits_text s \<Longrightarrow> parse_digits dec_digit 10 0 s = Some n \<Longrightarrow> number_text (- int n) (CHR ''-'' # s)"

inductive char_text :: "char \<Rightarrow> string \<Rightarrow> bool" where
  plain: "0x20 \<le> byte_of c \<Longrightarrow> byte_of c \<noteq> 0x22 \<Longrightarrow> byte_of c \<noteq> 0x5C \<Longrightarrow> char_text c [c]"
| quote: "char_text (CHR 0x22) [CHR 0x5C, CHR 0x22]"
| backslash: "char_text (CHR 0x5C) [CHR 0x5C, CHR 0x5C]"
| solidus: "char_text (CHR ''/'') [CHR 0x5C, CHR ''/'']"
| backspace: "char_text (CHR 0x08) [CHR 0x5C, CHR ''b'']"
| formfeed: "char_text (CHR 0x0C) [CHR 0x5C, CHR ''f'']"
| newline: "char_text (CHR 0x0A) [CHR 0x5C, CHR ''n'']"
| return: "char_text (CHR 0x0D) [CHR 0x5C, CHR ''r'']"
| tab: "char_text (CHR 0x09) [CHR 0x5C, CHR ''t'']"
| unicode: "length ds = 4 \<Longrightarrow> parse_digits hex_digit 16 0 ds = Some (byte_of c) \<Longrightarrow> byte_of c < 128 \<Longrightarrow>
    char_text c ([CHR 0x5C, CHR ''u''] @ ds)"

definition string_text :: "string \<Rightarrow> string \<Rightarrow> bool" where
  "string_text s t \<longleftrightarrow>
     (\<exists>ts. list_all2 char_text s ts \<and> t = [CHR 0x22] @ concat ts @ [CHR 0x22])"

text \<open>Elements and members are separated by commas, with white space around every token.\<close>

inductive value_text :: "json_value \<Rightarrow> string \<Rightarrow> bool"
  and elements_text :: "json_value list \<Rightarrow> string \<Rightarrow> bool"
  and members_text :: "(string \<times> json_value) list \<Rightarrow> string \<Rightarrow> bool" where
  vnull: "value_text VNull ''null''"
| vtrue: "value_text (VBool True) ''true''"
| vfalse: "value_text (VBool False) ''false''"
| vnumber: "number_text n t \<Longrightarrow> value_text (VNumber n) t"
| vstring: "string_text s t \<Longrightarrow> value_text (VString s) t"
| varray_empty: "json_ws w \<Longrightarrow> value_text (VArray []) (''['' @ w @ '']'')"
| varray: "elements_text vs t \<Longrightarrow> value_text (VArray vs) (''['' @ t @ '']'')"
| vobject_empty: "json_ws w \<Longrightarrow> value_text (VObject []) (''{'' @ w @ ''}'')"
| vobject: "members_text ms t \<Longrightarrow> value_text (VObject ms) (''{'' @ t @ ''}'')"
| last_element: "json_ws w \<Longrightarrow> value_text v t \<Longrightarrow> json_ws w' \<Longrightarrow> elements_text [v] (w @ t @ w')"
| more_elements: "json_ws w \<Longrightarrow> value_text v t \<Longrightarrow> json_ws w' \<Longrightarrow> elements_text vs ts \<Longrightarrow>
    elements_text (v # vs) (w @ t @ w' @ '','' @ ts)"
| last_member: "json_ws w \<Longrightarrow> string_text k kt \<Longrightarrow> json_ws w' \<Longrightarrow> json_ws w'' \<Longrightarrow> value_text v t \<Longrightarrow>
    json_ws w''' \<Longrightarrow> members_text [(k, v)] (w @ kt @ w' @ '':'' @ w'' @ t @ w''')"
| more_members: "json_ws w \<Longrightarrow> string_text k kt \<Longrightarrow> json_ws w' \<Longrightarrow> json_ws w'' \<Longrightarrow> value_text v t \<Longrightarrow>
    json_ws w''' \<Longrightarrow> members_text ms ts \<Longrightarrow>
    members_text ((k, v) # ms) (w @ kt @ w' @ '':'' @ w'' @ t @ w''' @ '','' @ ts)"

definition json_text :: "json_value \<Rightarrow> string \<Rightarrow> bool" where
  "json_text v t \<longleftrightarrow> (\<exists>w t' w'. json_ws w \<and> value_text v t' \<and> json_ws w' \<and> t = w @ t' @ w')"

fun value_of :: "json \<Rightarrow> json_value" where
  "value_of JNull = VNull"
| "value_of (JBool b) = VBool b"
| "value_of (JInt n) = VNumber (sint n)"
| "value_of (JUInt n) = VNumber (int (unat n))"
| "value_of (JStr s) = VString s"
| "value_of (JArr items) = VArray (map value_of items)"
| "value_of (JObj fields) = VObject (map (\<lambda>(k, v). (k, value_of v)) fields)"

subsection \<open>The emitter follows the grammar\<close>

lemma json_ws_simps [simp]:
  "json_ws []" "json_ws nl" "json_ws '' ''" "json_ws (push_indent n)"
  "json_ws (u @ v) = (json_ws u \<and> json_ws v)" "json_ws (CHR 0x0A # v) = json_ws v"
  by (auto simp: json_ws_def push_indent_def byte_of_def list_all_iff)

lemma digits_text_show_nat: "digits_text (show_nat n)"
proof -
  have "hd (show_nat n) = CHR ''0'' \<longrightarrow> show_nat n = ''0''"
  proof (induction n rule: show_nat.induct)
    case (1 n)
    show ?case
    proof (cases "n < 10")
      case True
      then show ?thesis by (simp add: show_nat.simps [of n])
    next
      case False
      have "m = 0" if "show_nat m = ''0''" for m
        using parse_digits_show_nat [of m] that by (simp add: dec_digit_def byte_of_def)
      from this [of "n div 10"] False 1 show ?thesis by (auto simp: show_nat.simps [of n])
    qed
  qed
  then show ?thesis by (simp add: digits_text_def show_nat_digits)
qed

lemma number_text_show_int: "number_text z (show_int z)"
proof (cases "z < 0")
  case True
  then have "number_text (- int (nat (- z))) (CHR ''-'' # show_nat (nat (- z)))"
    by (intro number_text.neg digits_text_show_nat) simp
  with True show ?thesis by (simp add: show_int_def)
next
  case False
  then have "number_text (int (nat z)) (show_nat (nat z))"
    by (intro number_text.pos digits_text_show_nat) simp
  with False show ?thesis by (simp add: show_int_def)
qed

lemma show_hex_small: "n < 16 \<Longrightarrow> show_hex n = [hex_char n]"
  by (simp add: show_hex.simps)

lemma escape_char_text: "char_text c (escape_char c)"
proof -
  have special: "char_text c (escape_char c)" if "c \<in> {CHR 0x22, CHR 0x5C, CHR 0x0A, CHR 0x0D, CHR 0x09, CHR 0x08, CHR 0x0C}"
    using that by (elim insertE emptyE)
      (simp_all add: escape_char_def quote backslash newline return tab backspace formfeed)
  show ?thesis
  proof (cases "c \<in> {CHR 0x22, CHR 0x5C, CHR 0x0A, CHR 0x0D, CHR 0x09, CHR 0x08, CHR 0x0C}")
    case True
    then show ?thesis by (rule special)
  next
    case ns: False
    show ?thesis
    proof (cases "byte_of c < 0x20")
      case True
      let ?ds = "show_hex_width 4 (byte_of c)"
      have z: "parse_digits hex_digit 16 0 (replicate k CHR ''0'' @ s) = parse_digits hex_digit 16 0 s" for k s
        by (induction k) (simp_all add: hex_digit_def byte_of_def)
      have "length (show_hex (byte_of c)) \<le> 2"
        using True by (simp add: show_hex.simps [of "byte_of c"] show_hex_small)
      then have "length ?ds = 4" by (simp add: show_hex_width_def pad_left_def)
      moreover have "parse_digits hex_digit 16 0 ?ds = Some (byte_of c)"
        by (simp add: show_hex_width_def pad_left_def z)
      ultimately have "char_text c ([CHR 0x5C, CHR ''u''] @ ?ds)"
        using True by (intro char_text.unicode) auto
      with True ns show ?thesis by (simp add: escape_char_def)
    next
      case False
      have "byte_of c \<noteq> 0x22" "byte_of c \<noteq> 0x5C"
        using ns byte_of_inj [of c "CHR 0x22"] byte_of_inj [of c "CHR 0x5C"] by (auto simp: byte_of_def)
      with False ns show ?thesis by (simp add: escape_char_def char_text.plain)
    qed
  qed
qed

lemma write_escaped_text: "string_text s (write_escaped s)"
  unfolding string_text_def write_escaped_def
  by (intro exI [of _ "map escape_char s"]) (simp add: list_all2_conv_all_nth escape_char_text)

lemma elements_step:
  assumes "value_text v t" "items \<noteq> [] \<Longrightarrow> elements_text vs (nl @ rest)" "items = [] \<Longrightarrow> vs = [] \<and> json_ws rest"
  shows "elements_text (v # vs) (nl @ push_indent n @ t @ (if items \<noteq> [] then '','' else []) @ nl @ rest)"
proof (cases "items = []")
  case True
  have "elements_text [v] ((nl @ push_indent n) @ t @ (nl @ rest))"
    using assms True by (intro last_element) auto
  with True assms(3) show ?thesis by simp
next
  case False
  have "elements_text (v # vs) ((nl @ push_indent n) @ t @ [] @ '','' @ (nl @ rest))"
    using assms False by (intro more_elements) auto
  with False show ?thesis by simp
qed

lemma members_step:
  assumes "value_text v t" "fields \<noteq> [] \<Longrightarrow> members_text ms (nl @ rest)" "fields = [] \<Longrightarrow> ms = [] \<and> json_ws rest"
  shows "members_text ((k, v) # ms)
    (nl @ push_indent n @ write_escaped k @ '': '' @ t @ (if fields \<noteq> [] then '','' else []) @ nl @ rest)"
proof (cases "fields = []")
  case True
  have "members_text [(k, v)] ((nl @ push_indent n) @ write_escaped k @ [] @ '':'' @ '' '' @ t @ (nl @ rest))"
    using assms True by (intro last_member write_escaped_text) auto
  with True assms(3) show ?thesis by simp
next
  case False
  have "members_text ((k, v) # ms)
      ((nl @ push_indent n) @ write_escaped k @ [] @ '':'' @ '' '' @ t @ [] @ '','' @ (nl @ rest))"
    using assms False by (intro more_members write_escaped_text) auto
  with False show ?thesis by simp
qed

lemma emitter_conforms:
  "value_text (value_of j) (json_write indent j)"
  "\<And>w. items \<noteq> [] \<Longrightarrow> json_ws w \<Longrightarrow>
     elements_text (map value_of items) (nl @ write_items indent items @ w)"
  "\<And>w. fields \<noteq> [] \<Longrightarrow> json_ws w \<Longrightarrow>
     members_text (map (\<lambda>(k, v). (k, value_of v)) fields) (nl @ write_fields indent fields @ w)"
proof (induction indent j and indent items and indent fields
    rule: json_write_write_items_write_fields.induct)
  case (6 indent items)
  show ?case
  proof (cases "items = []")
    case True
    then show ?thesis using varray_empty [of "[]"] by simp
  next
    case False
    from varray [OF "6" [OF False, of "push_indent indent"]] False show ?thesis by simp
  qed
next
  case (7 indent fields)
  show ?case
  proof (cases "fields = []")
    case True
    then show ?thesis using vobject_empty [of "[]"] by simp
  next
    case False
    from vobject [OF "7" [OF False, of "push_indent indent"]] False show ?thesis by simp
  qed
next
  case (9 indent item items)
  from elements_step [OF "9.IH"(1), of items "map value_of items" "write_items indent items @ w" "indent + 1"]
    "9.IH"(2) "9.prems" show ?case by auto
next
  case (11 indent kv fields)
  obtain k v where kv: "kv = (k, v)" by (cases kv)
  from members_step [OF "11.IH"(1), of fields "map (\<lambda>(k, v). (k, value_of v)) fields"
      "write_fields indent fields @ w" k "indent + 1"]
    "11.IH"(2) "11.prems" kv show ?case by auto
next
  case (4 indent n)
  have "number_text (int (unat n)) (show_nat (unat n))"
    by (intro number_text.pos digits_text_show_nat parse_digits_show_nat)
  from vnumber [OF this] show ?case by simp
qed (auto intro: vnull vtrue vfalse vnumber vstring number_text_show_int write_escaped_text)

lemma pretty_conforms: "json_text (value_of j) (to_pretty j)"
proof -
  have "to_pretty j = [] @ json_write 0 j @ nl" by (simp add: to_pretty_def)
  then show ?thesis unfolding json_text_def using emitter_conforms(1) [of j 0] json_ws_simps(1,2) by blast
qed

text \<open>
  Claim C32. Whatever value a report hands to the emitter, the printed text is a JSON text in the
  grammar of RFC 8259, and the value it stands for is that value: numbers without leading zeros,
  every string with its quotes, backslashes and control characters escaped so that it reads back
  unchanged, arrays and objects in order.
\<close>

theorem to_pretty_is_json: "json_text (value_of j) (to_pretty j)"
  by (rule pretty_conforms)

end
