(* ===== verification/Summary.thy ===== *)
theory Summary
  imports Invariants Trace_Hash Json
begin

text \<open>
  \<^verbatim>\<open>dogfood/src/determinism.rs\<close> and \<^verbatim>\<open>dogfood/src/summary.rs\<close>: repeating a scenario, comparing the
  trace hashes, and rolling everything up into the summary CI reads. The properties: the totals add up, and the
  verdict of the summary is what it is documented to be, for the first run of each scenario.
\<close>

subsection \<open>Repeated runs\<close>

record determinism_report =
  dr_scenario :: string
  dr_repeats :: nat
  dr_hashes :: "string list"
  dr_deterministic :: bool
  dr_runs :: "scenario_run list"

definition first :: "'a list \<Rightarrow> 'a option" where
  "first xs = (case xs of [] \<Rightarrow> None | x # _ \<Rightarrow> Some x)"

definition report_trace_hash :: "determinism_report \<Rightarrow> string option" where
  "report_trace_hash r = first (dr_hashes r)"

definition first_run :: "determinism_report \<Rightarrow> scenario_run option" where
  "first_run r = first (dr_runs r)"

definition any_run_unclean :: "determinism_report \<Rightarrow> bool" where
  "any_run_unclean r = list_ex (\<lambda>run. rn_status run \<noteq> RPass) (dr_runs r)"

fun repeat_runs ::
  "'o os \<Rightarrow> string \<Rightarrow> string \<Rightarrow> nat \<Rightarrow> nat \<Rightarrow> 'o \<Rightarrow> (scenario_run list \<times> 'o) option" where
  "repeat_runs os bin scenario timeout 0 s = Some ([], s)"
| "repeat_runs os bin scenario timeout (Suc n) s = do {
     (run, s1) \<leftarrow> runner_run_scenario os bin scenario timeout s;
     (runs, s2) \<leftarrow> repeat_runs os bin scenario timeout n s1;
     Some (run # runs, s2)
   }"

definition determinism_report_of :: "string \<Rightarrow> nat \<Rightarrow> scenario_run list \<Rightarrow> determinism_report" where
  "determinism_report_of scenario repeats runs =
     (let hashes = map (\<lambda>r. normalized_hash (rn_trace r)) runs;
          name = foldl (\<lambda>_ r. rn_scenario r) scenario runs
      in \<lparr>dr_scenario = name, dr_repeats = repeats, dr_hashes = hashes,
          dr_deterministic =
            (case first hashes of Some h \<Rightarrow> list_all (\<lambda>h'. h' = h) hashes | None \<Rightarrow> False),
          dr_runs = runs\<rparr>)"

definition check_solo_vs_repeat ::
  "'o os \<Rightarrow> string \<Rightarrow> string \<Rightarrow> nat \<Rightarrow> nat \<Rightarrow> 'o \<Rightarrow> (determinism_report \<times> 'o) option" where
  "check_solo_vs_repeat os bin scenario n timeout s = do {
     let repeats = max n 1;
     (runs, s') \<leftarrow> repeat_runs os bin scenario timeout repeats s;
     Some (determinism_report_of scenario repeats runs, s')
   }"

subsection \<open>Scenario summaries\<close>

definition HARNESS_VERSION :: string where "HARNESS_VERSION = ''0.1.0''"

record invariant_entry =
  ie_name :: string
  ie_status :: check_status
  ie_message :: string

definition entry_from :: "invariant_result \<Rightarrow> invariant_entry" where
  "entry_from r = \<lparr>ie_name = ir_name r, ie_status = ir_status r, ie_message = ir_message r\<rparr>"

record scenario_summary =
  ss_name :: string
  ss_status :: run_status
  ss_wall_ms :: nat
  ss_trace_hash :: string
  ss_repeats :: nat
  ss_deterministic :: bool
  ss_repeat_hashes :: "string list"
  ss_invariants :: "invariant_entry list"

definition from_determinism :: "determinism_report \<Rightarrow> scenario_summary" where
  "from_determinism report =
     (case (case first_run report of
              Some run \<Rightarrow> (rn_status run, wall_ms run, map entry_from (check_default run))
            | None \<Rightarrow> (RFail, 0, [])) of
        (status, wall, invariants) \<Rightarrow>
          \<lparr>ss_name = dr_scenario report, ss_status = status, ss_wall_ms = wall,
           ss_trace_hash = (case report_trace_hash report of Some h \<Rightarrow> h | None \<Rightarrow> []),
           ss_repeats = dr_repeats report, ss_deterministic = dr_deterministic report,
           ss_repeat_hashes = dr_hashes report, ss_invariants = invariants\<rparr>)"

definition summary_passed :: "scenario_summary \<Rightarrow> bool" where
  "summary_passed s \<longleftrightarrow> ss_status s = RPass \<and> ss_deterministic s \<and>
     \<not> list_ex (\<lambda>i. ie_status i = CFail) (ss_invariants s)"

definition entry_json :: "invariant_entry \<Rightarrow> json" where
  "entry_json i = JObj [(''name'', json_str (ie_name i)),
     (''status'', json_str (check_as_str (ie_status i))), (''message'', json_str (ie_message i))]"

definition summary_entry_json :: "scenario_summary \<Rightarrow> json" where
  "summary_entry_json s = JObj
     [(''name'', json_str (ss_name s)),
      (''status'', json_str (status_as_str (ss_status s))),
      (''passed'', JBool (summary_passed s)),
      (''wall_ms'', JUInt (of_nat (ss_wall_ms s))),
      (''trace_hash'', json_str (ss_trace_hash s)),
      (''repeats'', JUInt (of_nat (ss_repeats s))),
      (''deterministic'', JBool (ss_deterministic s)),
      (''repeat_hashes'', JArr (map json_str (ss_repeat_hashes s))),
      (''invariants'', JArr (map entry_json (ss_invariants s)))]"

subsection \<open>Totals\<close>

record totals =
  to_scenarios :: nat
  to_passed :: nat
  to_failed :: nat
  to_invariants_passed :: nat
  to_invariants_failed :: nat
  to_invariants_skipped :: nat

definition count_invariant :: "totals \<Rightarrow> invariant_entry \<Rightarrow> totals" where
  "count_invariant t i =
     (case ie_status i of
        CPass \<Rightarrow> t\<lparr>to_invariants_passed := to_invariants_passed t + 1\<rparr>
      | CFail \<Rightarrow> t\<lparr>to_invariants_failed := to_invariants_failed t + 1\<rparr>
      | CSkipped \<Rightarrow> t\<lparr>to_invariants_skipped := to_invariants_skipped t + 1\<rparr>)"

definition count_scenario :: "totals \<Rightarrow> scenario_summary \<Rightarrow> totals" where
  "count_scenario t s =
     (let t1 = (if summary_passed s then t\<lparr>to_passed := to_passed t + 1\<rparr>
                else t\<lparr>to_failed := to_failed t + 1\<rparr>)
      in foldl count_invariant t1 (ss_invariants s))"

record summary =
  su_harness_version :: string
  su_scenarios :: "scenario_summary list"
  su_totals :: totals

definition summary_new :: "scenario_summary list \<Rightarrow> summary" where
  "summary_new scenarios =
     \<lparr>su_harness_version = HARNESS_VERSION, su_scenarios = scenarios,
      su_totals = foldl count_scenario
        \<lparr>to_scenarios = length scenarios, to_passed = 0, to_failed = 0, to_invariants_passed = 0,
         to_invariants_failed = 0, to_invariants_skipped = 0\<rparr> scenarios\<rparr>"

definition all_passed :: "summary \<Rightarrow> bool" where
  "all_passed s \<longleftrightarrow> to_failed (su_totals s) = 0 \<and> to_scenarios (su_totals s) > 0"

definition summary_json :: "summary \<Rightarrow> json" where
  "summary_json s = JObj
     [(''harness_version'', json_str (su_harness_version s)),
      (''scenarios'', JArr (map summary_entry_json (su_scenarios s))),
      (''totals'', JObj
        [(''scenarios'', JUInt (of_nat (to_scenarios (su_totals s)))),
         (''passed'', JUInt (of_nat (to_passed (su_totals s)))),
         (''failed'', JUInt (of_nat (to_failed (su_totals s)))),
         (''invariants_passed'', JUInt (of_nat (to_invariants_passed (su_totals s)))),
         (''invariants_failed'', JUInt (of_nat (to_invariants_failed (su_totals s)))),
         (''invariants_skipped'', JUInt (of_nat (to_invariants_skipped (su_totals s))))])]"

definition to_json_string :: "summary \<Rightarrow> string" where
  "to_json_string s = to_pretty (summary_json s)"

definition build_summary :: "determinism_report list \<Rightarrow> summary" where
  "build_summary reports = summary_new (map from_determinism reports)"

subsection \<open>The totals add up\<close>

lemma count_invariants:
  "to_passed (foldl count_invariant t is) = to_passed t"
  "to_failed (foldl count_invariant t is) = to_failed t"
  "to_scenarios (foldl count_invariant t is) = to_scenarios t"
  "to_invariants_passed (foldl count_invariant t is) =
     to_invariants_passed t + length (filter (\<lambda>i. ie_status i = CPass) is)"
  "to_invariants_failed (foldl count_invariant t is) =
     to_invariants_failed t + length (filter (\<lambda>i. ie_status i = CFail) is)"
  "to_invariants_skipped (foldl count_invariant t is) =
     to_invariants_skipped t + length (filter (\<lambda>i. ie_status i = CSkipped) is)"
  by (induction "is" arbitrary: t) (auto simp: count_invariant_def split: check_status.split)

lemma count_scenarios:
  "to_scenarios (foldl count_scenario t ss) = to_scenarios t"
  "to_passed (foldl count_scenario t ss) = to_passed t + length (filter summary_passed ss)"
  "to_failed (foldl count_scenario t ss) = to_failed t + length (filter (\<lambda>s. \<not> summary_passed s) ss)"
  "to_invariants_passed (foldl count_scenario t ss) = to_invariants_passed t +
     length (filter (\<lambda>i. ie_status i = CPass) (concat (map ss_invariants ss)))"
  "to_invariants_failed (foldl count_scenario t ss) = to_invariants_failed t +
     length (filter (\<lambda>i. ie_status i = CFail) (concat (map ss_invariants ss)))"
  "to_invariants_skipped (foldl count_scenario t ss) = to_invariants_skipped t +
     length (filter (\<lambda>i. ie_status i = CSkipped) (concat (map ss_invariants ss)))"
  by (induction ss arbitrary: t) (simp_all add: count_scenario_def count_invariants Let_def)

lemma all_passed_new: "all_passed (summary_new ss) \<longleftrightarrow> ss \<noteq> [] \<and> list_all summary_passed ss"
  by (auto simp: all_passed_def summary_new_def count_scenarios filter_empty_conv list_all_iff)

lemma from_determinism_passed:
  "summary_passed (from_determinism r) \<longleftrightarrow>
     (\<exists>run. first_run r = Some run \<and> dr_deterministic r \<and> rn_status run = RPass \<and>
        rn_trace run \<noteq> [] \<and> \<not> is_fail (virtual_time_monotonic run))"
proof (cases "first_run r")
  case None
  then show ?thesis by (simp add: from_determinism_def summary_passed_def)
next
  case (Some run)
  have "list_ex (\<lambda>i. ie_status i = CFail) (map entry_from (check_default run)) = any_failed (check_default run)"
    by (simp add: any_failed_def list_ex_iff entry_from_def is_fail_def)
  with Some show ?thesis
    by (auto simp: from_determinism_def summary_passed_def any_failed_default)
qed

text \<open>
  The summary accepts a list of repeated runs exactly when it is not empty and, for every
  scenario, the first run exited cleanly with a non-empty trace whose virtual times never go
  back inside a segment, and all runs have the same trace hash; the passed and failed counts add
  up to the number of scenarios, and the invariant counts to the number of invariants checked.
\<close>

theorem summary_verdict:
  "(all_passed (build_summary reports) \<longleftrightarrow> reports \<noteq> [] \<and>
      list_all (\<lambda>r. \<exists>run. first_run r = Some run \<and> dr_deterministic r \<and> rn_status run = RPass \<and>
        rn_trace run \<noteq> [] \<and> ir_status (virtual_time_monotonic run) \<noteq> CFail) reports) \<and>
   (let t = su_totals (build_summary reports)
    in to_passed t + to_failed t = length reports \<and> to_scenarios t = length reports \<and>
       to_invariants_passed t + to_invariants_failed t + to_invariants_skipped t =
         length (concat (map (ss_invariants \<circ> from_determinism) reports)))"
proof -
  let ?ss = "map from_determinism reports"
  have three: "length (filter (\<lambda>i. ie_status i = CPass) is) + length (filter (\<lambda>i. ie_status i = CFail) is)
      + length (filter (\<lambda>i. ie_status i = CSkipped) is) = length is" for "is"
  proof (induction "is")
    case (Cons i "is")
    then show ?case by (cases "ie_status i") auto
  qed simp
  have "all_passed (build_summary reports) \<longleftrightarrow> reports \<noteq> [] \<and>
      list_all (\<lambda>r. summary_passed (from_determinism r)) reports"
    by (simp add: build_summary_def all_passed_new list_all_iff)
  moreover have "(let t = su_totals (summary_new ?ss)
    in to_passed t + to_failed t = length ?ss \<and> to_scenarios t = length ?ss \<and>
       to_invariants_passed t + to_invariants_failed t + to_invariants_skipped t =
         length (concat (map ss_invariants ?ss)))"
    unfolding Let_def summary_new_def summary.simps count_scenarios totals.simps add_0
    by (simp only: sum_length_filter_compl three simp_thms)
  ultimately show ?thesis
    by (simp only: from_determinism_passed is_fail_def build_summary_def length_map map_map)
qed

text \<open>A child that prints the same trace every time but exits cleanly only the first time.\<close>

definition flaky_child :: "nat os" where
  "flaky_child =
     \<lparr>os_spawn = (\<lambda>bin argv s. (None, s + 1)),
      os_try_wait = (\<lambda>s. (Exited \<lparr>es_success = (s = 1), es_code = Some (if s = 1 then 0 else 1)\<rparr>, s)),
      os_clock = id, os_time_max = 1000000, os_kill = id, os_wait = id, os_sleep = (\<lambda>s. s + 5),
      os_stdout = (\<lambda>s. Some [Some ''x'']), os_stderr = (\<lambda>s. Some [])\<rparr>"

text \<open>
  A later run that does not end cleanly goes unnoticed when it prints the same trace: a
  scenario that passed once and then failed, with equal traces, is summarised as passed, although
  the report knows that a run was unclean.
\<close>

theorem unclean_repeat_is_not_reported:
  "case check_solo_vs_repeat flaky_child ''microcar'' ''a.toml'' 2 1000 0 of
     Some (report, _) \<Rightarrow> any_run_unclean report \<and> all_passed (build_summary [report])
   | None \<Rightarrow> False"
proof -
  have x: "parse_machine_time ''x'' = None" "is_trace_event ''x''"
    by (simp_all add: parse_machine_time_def Let_def trim_start.simps ws_len.simps byte_of_def
        is_trace_event_def trim_def trim_end.simps ws_len_end_def ends_with_def)
  have run: "runner_run_scenario flaky_child b p 1000 s =
      Some (\<lparr>rn_scenario = scenario_name p, rn_status = (if s = 0 then RPass else RFail),
             rn_exit_code = Some (if s = 0 then 0 else 1), rn_trace = [''x''], rn_wall_ms = 1,
             rn_stdout_tail = [''x''], rn_stderr_tail = []\<rparr>, s + 1)" if "s < 10" for b p s
    using that by (simp add: runner_run_scenario_def run_scenario_args_def instant_add_def flaky_child_def
        Let_def wait_loop.simps collect_run_def joined_def classify_def tail_def TAIL_LINES_def x)
  show ?thesis
    by (simp add: check_solo_vs_repeat_def numeral_2_eq_2 run determinism_report_of_def Let_def first_def
        any_run_unclean_def build_summary_def all_passed_new from_determinism_passed first_run_def
        is_fail_def virtual_time_monotonic_def vtm_line_def vtm_init_def inv_skipped_def x)
qed

end
