(* ===== verification/Lane.thy ===== *)
theory Lane
  imports Runner Json "HOL-Library.List_Lexorder" "HOL-Library.Char_ord"
begin

text \<open>
  What the \<open>ota\<close>, \<open>charging\<close> and \<open>diagnostics\<close> lanes of the dogfood harness share: user trace
  events, checks, results, reports, the discovery of scenario files, and the way a scenario is run
  and judged. The three source files repeat this code word for word; the development has it
  once, mapped to \<^verbatim>\<open>dogfood/src/ota.rs\<close>, and the lanes instantiate it. The file system is a record of
  functions. The locale states what a lane provides (a parser of expectations that never returns
  none, an evaluation that is exact) and what follows: the verdict on a scenario and on a lane.
\<close>

subsection \<open>User trace events\<close>

fun first_some :: "'a option list \<Rightarrow> 'a option" where
  "first_some [] = None"
| "first_some (Some x # xs) = Some x"
| "first_some (None # xs) = first_some xs"

record user_trace =
  ut_machine :: u64
  ut_label :: string
  ut_value :: u32

definition unquote :: "string \<Rightarrow> string option" where
  "unquote s = do { r \<leftarrow> strip_prefix s [CHR 0x22]; strip_suffix r [CHR 0x22] }"

definition parse_user_trace_line :: "string \<Rightarrow> user_trace option" where
  "parse_user_trace_line line = do {
     rest \<leftarrow> strip_prefix (trim_start line) ''[machine.'';
     (machine_s, rest) \<leftarrow> split_once rest '']'';
     machine \<leftarrow> parse_u64 machine_s;
     (case split_whitespace rest of
        at # kind # label # eq # value # _ \<Rightarrow> do {
          _ \<leftarrow> parse_u64 at;
          if kind \<noteq> ''user-u32'' then None
          else do {
            l \<leftarrow> unquote label;
            if eq \<noteq> ''='' then None
            else do {
              v \<leftarrow> parse_u32 value;
              Some \<lparr>ut_machine = machine, ut_label = l, ut_value = v\<rparr>
            }
          }
        }
      | _ \<Rightarrow> None)
   }"

definition user_traces :: "string list \<Rightarrow> user_trace list" where
  "user_traces ls = List.map_filter parse_user_trace_line ls"

definition traced :: "u64 \<Rightarrow> string \<Rightarrow> user_trace \<Rightarrow> bool" where
  "traced machine label e \<longleftrightarrow> ut_machine e = machine \<and> ut_label e = label"

definition values_of :: "user_trace list \<Rightarrow> u64 \<Rightarrow> string \<Rightarrow> u32 list" where
  "values_of trace machine label = map ut_value (filter (traced machine label) trace)"

definition any_value :: "user_trace list \<Rightarrow> u64 \<Rightarrow> string \<Rightarrow> u32 \<Rightarrow> bool" where
  "any_value trace machine label want =
     list_ex (\<lambda>e. traced machine label e \<and> ut_value e = want) trace"

definition last_value :: "user_trace list \<Rightarrow> u64 \<Rightarrow> string \<Rightarrow> u32 option" where
  "last_value trace machine label =
     (let vs = values_of trace machine label in if vs = [] then None else Some (last vs))"

lemma any_value_iff: "any_value trace machine label want \<longleftrightarrow> want \<in> set (values_of trace machine label)"
  by (auto simp: any_value_def values_of_def list_ex_iff)

lemma split_whitespace_pad: "split_whitespace (replicate n CHR '' '' @ s) = split_whitespace s"
  by (induction n) (simp_all add: split_whitespace_space)

lemma graphic_literals [simp]:
  "graphic CHR 0x22" "graphic CHR ''=''" "list_all graphic ''user-u32''" "list_all graphic ''=''"
  by (simp_all add: graphic_def byte_of_def)

text \<open>
  The comments of \<^verbatim>\<open>telematics.rs\<close> and \<^verbatim>\<open>debug_gym_corpus.rs\<close> document a trace line as the machine in brackets, the
  time, the kind of the event and its detail,
  which for \<open>user-u32\<close> is a quoted label, an equals sign and a number.
\<close>

lemma event_words:
  "kind \<noteq> [] \<Longrightarrow> list_all graphic kind \<Longrightarrow>
   split_whitespace (CHR '' '' # replicate padding CHR '' '' @ show_nat at @ CHR '' '' # kind @ CHR '' '' # detail) =
     show_nat at # kind # split_whitespace detail"
  by (simp add: split_whitespace_space split_whitespace_pad split_whitespace_Cons show_nat_graphic)

lemma user_detail_words:
  assumes "list_all graphic label"
  shows "split_whitespace ([CHR 0x22] @ label @ [CHR 0x22] @ '' = '' @ show_nat (unat v)) = [[CHR 0x22] @ label @ [CHR 0x22], ''='', show_nat (unat v)]"
proof -
  have "split_whitespace (''='' @ CHR '' '' # show_nat (unat v)) = [''='', show_nat (unat v)]"
    by (subst split_whitespace_Cons) (simp_all add: split_whitespace_word show_nat_graphic)
  then have "split_whitespace (([CHR 0x22] @ label @ [CHR 0x22]) @ CHR '' '' # ''='' @ CHR '' '' # show_nat (unat v))
      = [[CHR 0x22] @ label @ [CHR 0x22], ''='', show_nat (unat v)]"
    using assms by (subst split_whitespace_Cons) simp_all
  then show ?thesis by simp
qed

lemma parse_event_line:
  fixes at :: u64
  assumes "kind \<noteq> []" "list_all graphic kind"
  shows "parse_user_trace_line (''[machine.'' @ show_nat (unat machine) @ '']'' @ CHR '' '' # replicate padding CHR '' '' @
      show_nat (unat at) @ CHR '' '' # kind @ CHR '' '' # detail) =
    (case split_whitespace detail of
       label # eq # value # _ \<Rightarrow>
         (if kind \<noteq> ''user-u32'' then None
          else do {
            l \<leftarrow> unquote label;
            if eq \<noteq> ''='' then None
            else do { v \<leftarrow> parse_u32 value; Some \<lparr>ut_machine = machine, ut_label = l, ut_value = v\<rparr> }
          })
     | _ \<Rightarrow> None)"
proof -
  let ?tail = "CHR '' '' # replicate padding CHR '' '' @ show_nat (unat at) @ CHR '' '' # kind @ CHR '' '' # detail"
  let ?line = "''[machine.'' @ show_nat (unat machine) @ '']'' @ ?tail"
  have "CHR '']'' \<notin> set (show_nat (unat machine))"
    by (rule show_nat_no_sep) (simp add: ascii_digit_def byte_of_def)
  then have sp: "split_once (show_nat (unat machine) @ '']'' @ ?tail) '']'' = Some (show_nat (unat machine), ?tail)"
    using split_once_char [of "CHR '']''" "show_nat (unat machine)" ?tail] by simp
  have tr: "trim_start ?line = ?line" by (simp add: trim_start_graphic graphic_def byte_of_def)
  show ?thesis
    unfolding parse_user_trace_line_def tr
    unfolding strip_prefix_append Option.bind.bind_lunit sp case_prod_conv parse_u64_show event_words [OF assms] list.case
    by (auto split: list.split)
qed

text \<open>
  Claim C35. For every printer of trace lines that keeps to the documented form, whatever the padding before the time, the trace parser reads from the printed trace exactly the user events, in their order, each with its machine,
  label and value, for labels and kinds of visible ASCII characters; events of other kinds leave nothing.
\<close>

theorem user_trace_roundtrip:
  fixes print_user :: "u64 \<Rightarrow> u64 \<Rightarrow> string \<Rightarrow> u32 \<Rightarrow> string"
    and print_other :: "u64 \<Rightarrow> u64 \<Rightarrow> string \<Rightarrow> string \<Rightarrow> string"
  assumes user_form: "\<And>machine at label v. \<exists>padding. print_user machine at label v =
      ''[machine.'' @ show_nat (unat machine) @ '']'' @ CHR '' '' # replicate padding CHR '' '' @
      show_nat (unat at) @ CHR '' '' # ''user-u32'' @ CHR '' '' #
      [CHR 0x22] @ label @ [CHR 0x22] @ '' = '' @ show_nat (unat v)"
    and other_form: "\<And>machine at kind detail. \<exists>padding. print_other machine at kind detail =
      ''[machine.'' @ show_nat (unat machine) @ '']'' @ CHR '' '' # replicate padding CHR '' '' @
      show_nat (unat at) @ CHR '' '' # kind @ CHR '' '' # detail"
    and visible: "list_all (\<lambda>(machine, at, e). case e of
      Inl (kind, detail) \<Rightarrow> kind \<noteq> [] \<and> kind \<noteq> ''user-u32'' \<and> list_all graphic kind
    | Inr (label, v) \<Rightarrow> list_all graphic label) events"
  shows "user_traces (map (\<lambda>(machine, at, e). case e of
      Inl (kind, detail) \<Rightarrow> print_other machine at kind detail
    | Inr (label, v) \<Rightarrow> print_user machine at label v) events)
    = List.map_filter (\<lambda>(machine, at, e). case e of
        Inl _ \<Rightarrow> None
      | Inr (label, v) \<Rightarrow> Some \<lparr>ut_machine = machine, ut_label = label, ut_value = v\<rparr>) events"
proof -
  have uq: "unquote ([CHR 0x22] @ label @ [CHR 0x22]) = Some label" for label
    by (simp add: unquote_def strip_suffix_Some)
  have user: "parse_user_trace_line (print_user machine at label v) =
      Some \<lparr>ut_machine = machine, ut_label = label, ut_value = v\<rparr>" if "list_all graphic label" for machine at label v
    using user_form [of machine at label v]
    by (auto simp: parse_event_line [OF _ graphic_literals(3)] user_detail_words [OF that] uq simp del: append.simps)
  have other: "parse_user_trace_line (print_other machine at kind detail) = None"
    if "kind \<noteq> []" "kind \<noteq> ''user-u32''" "list_all graphic kind" for machine at kind detail
    using other_form [of machine at kind detail] that(2)
    by (auto simp: parse_event_line [OF that(1,3)] split: list.split simp del: append.simps)
  show ?thesis
    using visible by (induction events) (auto simp: user_traces_def map_filter_simps user other split: sum.splits)
qed

theorem user_trace_roundtrip_witness:
  "user_traces [''[machine.1]        10500 can-rx receiver=1'', ''[machine.1]        10500 user-u32 \"ota_state\" = 3'']
     = [\<lparr>ut_machine = 1, ut_label = ''ota_state'', ut_value = 3\<rparr>]"
proof -
  let ?other = "\<lambda>(machine :: u64) (at :: u64) kind detail. ''[machine.'' @ show_nat (unat machine) @ '']'' @ CHR '' '' #
      replicate 7 CHR '' '' @ show_nat (unat at) @ CHR '' '' # kind @ CHR '' '' # detail"
  let ?user = "\<lambda>machine at label (v :: u32). ?other machine at ''user-u32''
      ([CHR 0x22] @ label @ [CHR 0x22] @ '' = '' @ show_nat (unat v))"
  let ?events = "[(1, 10500, Inl (''can-rx'', ''receiver=1'')), (1, 10500, Inr (''ota_state'', 3))]"
  have form: "\<exists>padding. ?other machine at kind detail = ''[machine.'' @ show_nat (unat machine) @ '']'' @ CHR '' '' #
      replicate padding CHR '' '' @ show_nat (unat at) @ CHR '' '' # kind @ CHR '' '' # detail" for machine at kind detail
    by (rule exI [of _ 7]) (rule refl)
  have digits: "show_nat 10500 = ''10500''" "show_nat (Suc 0) = ''1''" "show_nat 3 = ''3''"
    by (simp_all add: show_nat.simps digit_char_def char_of_def bit_0)
  have pad: "replicate 7 CHR '' '' = ''       ''" by (simp add: numeral_eq_Suc)
  note user_trace_roundtrip [of ?user ?other ?events, OF form form]
  then show ?thesis by (simp add: map_filter_simps graphic_def byte_of_def digits pad)
qed

subsection \<open>Checks, results and reports\<close>

record lane_check =
  ck_name :: string
  ck_passed :: bool
  ck_detail :: string

definition mk_check :: "string \<Rightarrow> bool \<Rightarrow> string \<Rightarrow> lane_check" where
  "mk_check name passed detail = \<lparr>ck_name = name, ck_passed = passed, ck_detail = detail\<rparr>"

lemma mk_check_passed [simp]: "ck_passed (mk_check name passed detail) = passed"
  by (simp add: mk_check_def)

record lane_result =
  lr_name :: string
  lr_passed :: bool
  lr_run_error :: "string option"
  lr_checks :: "lane_check list"

definition lane_totals :: "lane_result list \<Rightarrow> nat \<times> nat" where
  "lane_totals scenarios =
     (let passed = length (filter lr_passed scenarios) in (passed, length scenarios - passed))"

definition lane_passed :: "lane_result list \<Rightarrow> bool" where
  "lane_passed scenarios \<longleftrightarrow> scenarios \<noteq> [] \<and> list_all lr_passed scenarios"

definition check_json :: "lane_check \<Rightarrow> json" where
  "check_json c = JObj [(''name'', json_str (ck_name c)), (''passed'', JBool (ck_passed c)),
                        (''detail'', json_str (ck_detail c))]"

definition result_json :: "lane_result \<Rightarrow> json" where
  "result_json s = JObj
     ([(''name'', json_str (lr_name s)), (''passed'', JBool (lr_passed s)),
       (''checks'', JArr (map check_json (lr_checks s)))] @
      (case lr_run_error s of Some e \<Rightarrow> [(''run_error'', json_str e)] | None \<Rightarrow> []))"

definition lane_json :: "string \<Rightarrow> lane_result list \<Rightarrow> json" where
  "lane_json lane scenarios =
     (case lane_totals scenarios of (passed, failed) \<Rightarrow> JObj
        [(''lane'', json_str lane), (''passed'', JBool (lane_passed scenarios)),
         (''scenarios_passed'', JUInt (of_nat passed)), (''scenarios_failed'', JUInt (of_nat failed)),
         (''scenarios'', JArr (map result_json scenarios))])"

subsection \<open>Files\<close>

text \<open>An error is the text it displays as; a directory lists paths, or errors, in any order.\<close>

record file_system =
  fs_read_dir :: "string \<Rightarrow> string + (string + string) list"
  fs_read_to_string :: "string \<Rightarrow> string + string"

definition file_extension :: "string \<Rightarrow> string option" where
  "file_extension path =
     (case file_name path of
        None \<Rightarrow> None
      | Some name \<Rightarrow>
          (if before_last_dot name = name then None
           else Some (drop (length (before_last_dot name) + 1) name)))"

fun keep_toml :: "(string + string) list \<Rightarrow> string + string list" where
  "keep_toml [] = Inr []"
| "keep_toml (Inl e # es) = Inl e"
| "keep_toml (Inr path # es) =
     (case keep_toml es of
        Inl e \<Rightarrow> Inl e
      | Inr ps \<Rightarrow> Inr (if file_extension path = Some ''toml'' then path # ps else ps))"

definition discover_scenarios :: "file_system \<Rightarrow> string \<Rightarrow> string + string list" where
  "discover_scenarios fs dir =
     (case fs_read_dir fs dir of
        Inl e \<Rightarrow> Inl e
      | Inr entries \<Rightarrow> (case keep_toml entries of Inl e \<Rightarrow> Inl e | Inr ps \<Rightarrow> Inr (sort ps)))"

subsection \<open>Running and judging a scenario\<close>

definition run_error_detail :: "scenario_run \<Rightarrow> string" where
  "run_error_detail run =
     (if rn_stderr_tail run = [] then ''run exited '' @ status_as_str (rn_status run)
      else last (rn_stderr_tail run))"

text \<open>
  \<open>lane\<close> is the lane's name, the default name of a scenario; \<open>parse\<close> reads the expectations from
  the scenario's text and \<open>evaluate\<close> checks one of them.
\<close>

definition judge_run ::
  "string \<Rightarrow> (string \<Rightarrow> 'e list) \<Rightarrow> ('e \<Rightarrow> user_trace list \<Rightarrow> lane_check) \<Rightarrow> file_system \<Rightarrow> string \<Rightarrow>
   scenario_run \<Rightarrow> lane_result" where
  "judge_run lane parse evaluate fs scenario run =
     (let name = (case file_stem scenario of Some s \<Rightarrow> s | None \<Rightarrow> lane)
      in if rn_status run \<noteq> RPass then
           \<lparr>lr_name = name, lr_passed = False, lr_run_error = Some (run_error_detail run), lr_checks = []\<rparr>
         else
           (let trace = user_traces (rn_trace run)
            in case fs_read_to_string fs scenario of
                 Inl e \<Rightarrow>
                   \<lparr>lr_name = name, lr_passed = False,
                    lr_run_error = Some (''failed to parse '' @ lane @ '' expectations: '' @ e),
                    lr_checks = []\<rparr>
               | Inr content \<Rightarrow>
                   (let checks = map (\<lambda>exp. evaluate exp trace) (parse content)
                    in \<lparr>lr_name = name, lr_passed = (checks \<noteq> [] \<and> list_all ck_passed checks),
                        lr_run_error = None, lr_checks = checks\<rparr>)))"

fun run_each ::
  "('p \<Rightarrow> 'o \<Rightarrow> ('r \<times> 'o) option) \<Rightarrow> 'p list \<Rightarrow> 'o \<Rightarrow> ('r list \<times> 'o) option" where
  "run_each run [] s = Some ([], s)"
| "run_each run (p # ps) s = do {
     (r, s1) \<leftarrow> run p s;
     (rs, s2) \<leftarrow> run_each run ps s1;
     Some (r # rs, s2)
   }"

definition run_lane ::
  "(string \<Rightarrow> 'o \<Rightarrow> (lane_result \<times> 'o) option) \<Rightarrow> file_system \<Rightarrow> string \<Rightarrow> 'o \<Rightarrow>
   (string + lane_result list) option" where
  "run_lane run fs dir s =
     (case discover_scenarios fs dir of
        Inl e \<Rightarrow> Some (Inl e)
      | Inr scenarios \<Rightarrow> do { (results, _) \<leftarrow> run_each run scenarios s; Some (Inr results) })"

text \<open>Expectations are comment lines with the lane's prefix; the default stands when none is read.\<close>

definition directive_args :: "string \<Rightarrow> string \<Rightarrow> string option" where
  "directive_args marker line = map_option trim (strip_prefix (trim line) marker)"

definition read_directives :: "string \<Rightarrow> (string \<Rightarrow> 'e option) \<Rightarrow> 'e \<Rightarrow> string \<Rightarrow> 'e list" where
  "read_directives marker parse_one dflt content =
     (let out = List.map_filter (\<lambda>l. Option.bind (directive_args marker l) parse_one) (lines content)
      in if out = [] then [dflt] else out)"

lemma read_directives_nonempty: "read_directives marker parse_one dflt content \<noteq> []"
  by (simp add: read_directives_def Let_def)

definition parse_kv_str :: "string \<Rightarrow> string \<Rightarrow> string option" where
  "parse_kv_str s key =
     first_some (map (\<lambda>part. strip_prefix part (key @ ''='')) (split_whitespace s))"

definition show_opt :: "('a \<Rightarrow> string) \<Rightarrow> 'a option \<Rightarrow> string" where
  "show_opt f o' = (case o' of None \<Rightarrow> ''None'' | Some x \<Rightarrow> ''Some('' @ f x @ '')'')"

definition show_list :: "('a \<Rightarrow> string) \<Rightarrow> 'a list \<Rightarrow> string" where
  "show_list f xs = ''['' @ join '', '' (map f xs) @ '']''"

text \<open>A byte of a packed trace value: \<open>(value >> n) as u8\<close>.\<close>

definition byte_at :: "nat \<Rightarrow> u32 \<Rightarrow> u8" where
  "byte_at n v = ucast (drop_bit n v)"

subsection \<open>What a lane promises\<close>

text \<open>The verdicts of the runs, each from the state the one before leaves.\<close>

fun all_accepted :: "('p \<Rightarrow> 'o \<Rightarrow> (bool \<times> 'o) option) \<Rightarrow> 'p list \<Rightarrow> 'o \<Rightarrow> bool option" where
  "all_accepted accepted [] s = Some True"
| "all_accepted accepted (p # ps) s = do {
     (ok, s1) \<leftarrow> accepted p s;
     oks \<leftarrow> all_accepted accepted ps s1;
     Some (ok \<and> oks)
   }"

definition verdict_by :: "('r \<Rightarrow> bool) \<Rightarrow> ('p \<Rightarrow> 'o \<Rightarrow> ('r \<times> 'o) option) \<Rightarrow> 'p \<Rightarrow> 'o \<Rightarrow> (bool \<times> 'o) option" where
  "verdict_by ok run p s = map_option (\<lambda>(r, s'). (ok r, s')) (run p s)"

lemma run_each_accepted:
  "map_option (\<lambda>(rs, s'). list_all ok rs) (run_each run ps s) = all_accepted (verdict_by ok run) ps s"
proof (induction ps arbitrary: s)
  case (Cons p ps)
  show ?case
  proof (cases "run p s")
    case (Some r)
    obtain x s1 where r: "r = (x, s1)" by (cases r)
    then show ?thesis using Cons [of s1, symmetric] Some
      by (cases "run_each run ps s1") (auto simp: verdict_by_def)
  qed (simp add: verdict_by_def)
qed simp

lemma run_each_length: "run_each run ps s = Some (rs, s') \<Longrightarrow> length rs = length ps"
  by (induction ps arbitrary: s rs) (auto simp: bind_eq_Some_conv)

text \<open>
  What every report of the harness promises of the results it lists: the totals count the passed
  and the other ones, and the report passes when it is not empty and all of its results passed.
\<close>

locale judged_report =
  fixes ok :: "'r \<Rightarrow> bool"
    and report_totals :: "'r list \<Rightarrow> nat \<times> nat"
    and report_passed :: "'r list \<Rightarrow> bool"
  assumes totals: "report_totals rs = (length (filter ok rs), length rs - length (filter ok rs))"
    and passed: "report_passed rs \<longleftrightarrow> rs \<noteq> [] \<and> list_all ok rs"
begin

lemma totals_sum: "fst (report_totals rs) + snd (report_totals rs) = length rs"
  by (simp add: totals)

lemma failed_count: "snd (report_totals rs) = length (filter (\<lambda>r. \<not> ok r) rs)"
  using sum_length_filter_compl [of ok rs] by (simp add: totals)

lemma passed_iff_totals: "report_passed rs \<longleftrightarrow> 0 < fst (report_totals rs) \<and> snd (report_totals rs) = 0"
proof -
  have "snd (report_totals rs) = 0 \<longleftrightarrow> list_all ok rs"
    by (auto simp: failed_count filter_empty_conv list_all_iff)
  then show ?thesis using totals_sum [of rs] by (auto simp: passed)
qed

lemma run_each_passed:
  "map_option (\<lambda>x. report_passed (fst x)) (run_each run ps s) =
   map_option (\<lambda>oks. ps \<noteq> [] \<and> oks) (all_accepted (verdict_by ok run) ps s)"
proof (cases "run_each run ps s")
  case (Some r)
  obtain rs s' where r: "r = (rs, s')" by (cases r)
  have "length rs = length ps" using Some r by (simp add: run_each_length)
  with Some r run_each_accepted [of ok run ps s, symmetric] show ?thesis by (auto simp: passed)
qed (use run_each_accepted [of ok run ps s, symmetric] in simp)

end

interpretation lane: judged_report lr_passed lane_totals lane_passed
  by unfold_locales (simp_all add: lane_totals_def lane_passed_def Let_def)

text \<open>
  A scenario is accepted when its run passed, its file can be read and every expectation in it
  holds of the trace.
\<close>

definition accepted_run ::
  "(string \<Rightarrow> 'e list) \<Rightarrow> ('e \<Rightarrow> user_trace list \<Rightarrow> bool) \<Rightarrow> 'o os \<Rightarrow> file_system \<Rightarrow> string \<Rightarrow> nat \<Rightarrow>
   string \<Rightarrow> 'o \<Rightarrow> (bool \<times> 'o) option" where
  "accepted_run parse holds os fs bin timeout p s =
     map_option (\<lambda>(run, s'). (rn_status run = RPass \<and>
         (case fs_read_to_string fs p of
            Inr content \<Rightarrow> list_all (\<lambda>e. holds e (user_traces (rn_trace run))) (parse content)
          | Inl e \<Rightarrow> False), s'))
       (run_scenario_args os bin p timeout [] s)"

locale expectation_lane =
  fixes lane :: string
    and parse :: "string \<Rightarrow> 'e list"
    and evaluate :: "'e \<Rightarrow> user_trace list \<Rightarrow> lane_check"
    and holds :: "'e \<Rightarrow> user_trace list \<Rightarrow> bool"
  assumes some_expectation: "parse content \<noteq> []"
    and exact: "ck_passed (evaluate e trace) = holds e trace"
begin

lemma verdict:
  "lr_passed (judge_run lane parse evaluate fs scenario run) \<longleftrightarrow>
     rn_status run = RPass \<and>
     (\<exists>content. fs_read_to_string fs scenario = Inr content \<and>
        list_all (\<lambda>e. holds e (user_traces (rn_trace run))) (parse content))"
  by (auto simp: judge_run_def Let_def list_all_iff exact some_expectation split: sum.split)

lemma lane_verdict:
  "map_option (map_sum id lane_passed)
     (run_lane (\<lambda>p s. do { (run, s') \<leftarrow> run_scenario_args os bin p timeout [] s;
                           Some (judge_run lane parse evaluate fs p run, s') }) fs dir s) =
   (case discover_scenarios fs dir of
      Inl e \<Rightarrow> Some (Inl e)
    | Inr ps \<Rightarrow> map_option (\<lambda>ok. Inr (ps \<noteq> [] \<and> ok)) (all_accepted (accepted_run parse holds os fs bin timeout) ps s))"
proof (cases "discover_scenarios fs dir")
  case (Inr ps)
  let ?run = "\<lambda>p s. do { (run, s') \<leftarrow> run_scenario_args os bin p timeout [] s;
                        Some (judge_run lane parse evaluate fs p run, s') }"
  have "verdict_by lr_passed ?run p s = accepted_run parse holds os fs bin timeout p s" for p s
    by (cases "run_scenario_args os bin p timeout [] s")
      (auto simp: accepted_run_def verdict verdict_by_def split: sum.split)
  then have "verdict_by lr_passed ?run = accepted_run parse holds os fs bin timeout" by (intro ext)
  then have "map_option (\<lambda>ok. ps \<noteq> [] \<and> ok) (all_accepted (accepted_run parse holds os fs bin timeout) ps s) =
      map_option (\<lambda>x. lane_passed (fst x)) (run_each ?run ps s)"
    by (simp add: lane.run_each_passed)
  then have "map_option Inr (map_option (\<lambda>ok. ps \<noteq> [] \<and> ok)
        (all_accepted (accepted_run parse holds os fs bin timeout) ps s)) =
      map_option Inr (map_option (\<lambda>x. lane_passed (fst x)) (run_each ?run ps s))"
    by (rule arg_cong)
  then have "map_option (\<lambda>ok. Inr (ps \<noteq> [] \<and> ok)) (all_accepted (accepted_run parse holds os fs bin timeout) ps s) =
      map_option (\<lambda>x. Inr (lane_passed (fst x))) (run_each ?run ps s)"
    by (simp only: option.map_comp comp_def)
  then show ?thesis
    by (cases "run_each ?run ps s") (auto simp: Inr run_lane_def)
qed (simp add: run_lane_def)

lemma error_iff_not_judged:
  "lr_run_error (judge_run lane parse evaluate fs scenario run) = None \<longleftrightarrow>
     lr_checks (judge_run lane parse evaluate fs scenario run) \<noteq> []"
  by (auto simp: judge_run_def Let_def some_expectation split: sum.split)

end

end
