(* ===== verification/Ota_Lane.thy ===== *)
theory Ota_Lane
  imports Lane
begin

text \<open>
  \<^verbatim>\<open>dogfood/src/ota.rs\<close>: the over-the-air update lane, on the shared parts of \<open>Lane\<close>. The property
  gives the verdict on a scenario by the meaning of its expectations.
\<close>

definition OTA_NODE_GATEWAY :: u64 where "OTA_NODE_GATEWAY = 1"

datatype ota_expectation =
  StateSequence "u32 list" | CrcOk | CrcBad | Healthy | RolledBack | ActiveSlot u32

definition state_values :: "user_trace list \<Rightarrow> u64 \<Rightarrow> u32 list" where
  "state_values trace machine = values_of trace machine ''ota_state''"

text \<open>One iterator over \<open>have\<close> is consumed by the search for each wanted value in turn.\<close>

fun is_subsequence :: "'a list \<Rightarrow> 'a list \<Rightarrow> bool" where
  "is_subsequence have_vals [] = True"
| "is_subsequence have_vals (w # ws) =
     (case dropWhile (\<lambda>h. h \<noteq> w) have_vals of
        [] \<Rightarrow> False
      | _ # rest \<Rightarrow> is_subsequence rest ws)"

definition show_u32s :: "u32 list \<Rightarrow> string" where
  "show_u32s xs = ''['' @ join '', '' (map (\<lambda>x. show_nat (unat x)) xs) @ '']''"

definition parse_ota_directive :: "string \<Rightarrow> ota_expectation option" where
  "parse_ota_directive rest =
     (case strip_prefix rest ''state-sequence '' of
        Some args \<Rightarrow>
          Some (StateSequence
            (List.map_filter (\<lambda>s. parse_u32 (trim s)) (split_char CHR '','' (trim args))))
      | None \<Rightarrow>
          (if rest = ''crc-ok'' then Some CrcOk
           else if rest = ''crc-bad'' then Some CrcBad
           else if rest = ''healthy'' then Some Healthy
           else if rest = ''rolled-back'' then Some RolledBack
           else case strip_prefix rest ''active-slot '' of
                  Some v \<Rightarrow> map_option ActiveSlot (parse_u32 (trim v))
                | None \<Rightarrow> None))"

definition parse_ota_expectations :: "string \<Rightarrow> ota_expectation list" where
  "parse_ota_expectations content = read_directives ''# ota-expect:'' parse_ota_directive Healthy content"

fun evaluate_ota :: "ota_expectation \<Rightarrow> user_trace list \<Rightarrow> lane_check" where
  "evaluate_ota (StateSequence want) trace =
     (let hv = state_values trace OTA_NODE_GATEWAY;
          passed = (want \<noteq> [] \<and> is_subsequence hv want)
      in mk_check ''state-sequence'' passed
           (if passed then ''OTA states stepped through the expected sequence '' @ show_u32s want @
              '' (traced '' @ show_u32s hv @ '')''
            else ''expected ota_state subsequence '' @ show_u32s want @ ''; traced '' @ show_u32s hv))"
| "evaluate_ota CrcOk trace =
     (let passed = any_value trace OTA_NODE_GATEWAY ''ota_crc_ok'' 1
      in mk_check ''crc-ok'' passed
           (if passed then ''image CRC/signature verified (ota_crc_ok=1)''
            else ''expected an ota_crc_ok=1 trace event; saw none''))"
| "evaluate_ota CrcBad trace =
     (let saw_bad = any_value trace OTA_NODE_GATEWAY ''ota_crc_ok'' 0;
          saw_ok = any_value trace OTA_NODE_GATEWAY ''ota_crc_ok'' 1;
          passed = (saw_bad \<and> \<not> saw_ok)
      in mk_check ''crc-bad'' passed
           (if passed then ''corrupt image failed verification (ota_crc_ok=0, never ota_crc_ok=1)''
            else if saw_ok then ''expected a failed CRC but saw an ota_crc_ok=1 (image verified)''
            else ''expected an ota_crc_ok=0 trace event; saw none''))"
| "evaluate_ota Healthy trace =
     (let passed = any_value trace OTA_NODE_GATEWAY ''ota_boot_result'' 1
      in mk_check ''healthy'' passed
           (if passed then ''new slot booted healthy and update committed (ota_boot_result=1)''
            else ''expected an ota_boot_result=1 trace event; saw none''))"
| "evaluate_ota RolledBack trace =
     (let passed = any_value trace OTA_NODE_GATEWAY ''ota_rollback'' 1
      in mk_check ''rolled-back'' passed
           (if passed then ''update aborted and reverted to the previous good slot (ota_rollback=1)''
            else ''expected an ota_rollback=1 trace event; saw none''))"
| "evaluate_ota (ActiveSlot want) trace =
     (let hv = last_value trace OTA_NODE_GATEWAY ''ota_active_slot'';
          passed = (hv = Some want)
      in mk_check ''active-slot'' passed
           (case hv of
              Some v \<Rightarrow>
                (if passed then ''bootloader active slot is '' @ show_nat (unat v) @ '' (as expected)''
                 else ''expected active slot '' @ show_nat (unat want) @ ''; traced '' @ show_nat (unat v))
            | None \<Rightarrow> ''expected an ota_active_slot='' @ show_nat (unat want) @
                 '' trace event; saw none''))"

definition run_ota_scenario ::
  "'o os \<Rightarrow> file_system \<Rightarrow> string \<Rightarrow> nat \<Rightarrow> string \<Rightarrow> 'o \<Rightarrow> (lane_result \<times> 'o) option" where
  "run_ota_scenario os fs bin timeout scenario s = do {
     (run, s') \<leftarrow> run_scenario_args os bin scenario timeout [] s;
     Some (judge_run ''ota'' parse_ota_expectations evaluate_ota fs scenario run, s')
   }"

definition run_ota ::
  "'o os \<Rightarrow> file_system \<Rightarrow> string \<Rightarrow> string \<Rightarrow> nat \<Rightarrow> 'o \<Rightarrow> (string + lane_result list) option" where
  "run_ota os fs bin dir timeout s = run_lane (run_ota_scenario os fs bin timeout) fs dir s"

definition ota_json :: "lane_result list \<Rightarrow> json" where
  "ota_json report = lane_json ''ota'' report"

subsection \<open>The meaning of the expectations\<close>

lemma is_subsequence_iff: "is_subsequence xs ys \<longleftrightarrow> subseq ys xs"
proof (induction ys arbitrary: xs)
  case (Cons y ys)
  show ?case
  proof (induction xs)
    case (Cons x xs)
    then show ?case using \<open>\<And>xs. is_subsequence xs ys \<longleftrightarrow> subseq ys xs\<close> by (cases "x = y") auto
  qed simp
qed simp

fun ota_holds :: "ota_expectation \<Rightarrow> user_trace list \<Rightarrow> bool" where
  "ota_holds (StateSequence want) tr \<longleftrightarrow> want \<noteq> [] \<and> subseq want (values_of tr 1 ''ota_state'')"
| "ota_holds CrcOk tr \<longleftrightarrow> 1 \<in> set (values_of tr 1 ''ota_crc_ok'')"
| "ota_holds CrcBad tr \<longleftrightarrow> 0 \<in> set (values_of tr 1 ''ota_crc_ok'') \<and> 1 \<notin> set (values_of tr 1 ''ota_crc_ok'')"
| "ota_holds Healthy tr \<longleftrightarrow> 1 \<in> set (values_of tr 1 ''ota_boot_result'')"
| "ota_holds RolledBack tr \<longleftrightarrow> 1 \<in> set (values_of tr 1 ''ota_rollback'')"
| "ota_holds (ActiveSlot want) tr \<longleftrightarrow>
     values_of tr 1 ''ota_active_slot'' \<noteq> [] \<and> last (values_of tr 1 ''ota_active_slot'') = want"

interpretation ota: expectation_lane "''ota''" parse_ota_expectations evaluate_ota ota_holds
proof unfold_locales
  show "parse_ota_expectations content \<noteq> []" for content
    by (simp add: parse_ota_expectations_def read_directives_nonempty)
  show "ck_passed (evaluate_ota e tr) = ota_holds e tr" for e tr
    by (cases e) (auto simp: Let_def mk_check_def any_value_iff is_subsequence_iff state_values_def
        last_value_def OTA_NODE_GATEWAY_def)
qed

text \<open>
  A scenario of the update lane passes exactly when its run passed, its file could be
  read, and every expectation in it holds of the events the gateway traced: the wanted states in
  order as a subsequence, a verified (or only failed) checksum, a healthy boot, a rollback, or the
  last active slot.
\<close>

theorem ota_lane_verdict:
  "map_option (\<lambda>(r, s'). (lr_passed r, s')) (run_ota_scenario os fs bin timeout scenario s) =
   map_option (\<lambda>(run, s'). (rn_status run = RPass \<and>
       (\<exists>content. fs_read_to_string fs scenario = Inr content \<and>
          list_all (\<lambda>e. ota_holds e (user_traces (rn_trace run))) (parse_ota_expectations content)), s'))
     (run_scenario_args os bin scenario timeout [] s)"
proof (cases "run_scenario_args os bin scenario timeout [] s")
  case None
  then show ?thesis by (simp add: run_ota_scenario_def)
next
  case (Some rs)
  obtain run s' where "rs = (run, s')" by (cases rs)
  with Some show ?thesis by (simp add: run_ota_scenario_def ota.verdict)
qed

end
