(* ===== verification/Charging_Lane.thy ===== *)
theory Charging_Lane
  imports Lane
begin

text \<open>
  \<^verbatim>\<open>dogfood/src/charging.rs\<close>: the charging lane, on the shared parts of \<open>Lane\<close>. The property gives
  the verdict on a scenario by the meaning of its expectations.
\<close>

definition CHG_NODE_GATEWAY :: u64 where "CHG_NODE_GATEWAY = 1"
definition CHG_NODE_POWERTRAIN :: u64 where "CHG_NODE_POWERTRAIN = 2"
definition VEHICLE_CHARGING :: u32 where "VEHICLE_CHARGING = 5"

datatype charging_expectation = ChargingMode | DriveBlocked | MotorTorque i8

record motor_command =
  mo_torque :: i8
  mo_enable :: u8

definition motor_commands :: "user_trace list \<Rightarrow> motor_command list" where
  "motor_commands trace =
     map (\<lambda>e. \<lparr>mo_torque = byte_at 8 (ut_value e), mo_enable = byte_at 0 (ut_value e)\<rparr>)
       (filter (traced CHG_NODE_POWERTRAIN ''charging_motor_command'') trace)"

text \<open>\<open>rfind\<close>: the last matching event.\<close>

definition charging_last_value :: "user_trace list \<Rightarrow> u64 \<Rightarrow> string \<Rightarrow> u32 option" where
  "charging_last_value trace machine label =
     map_option ut_value (List.find (traced machine label) (rev trace))"

definition charging_parse_kv_i8 :: "string \<Rightarrow> string \<Rightarrow> i8 option" where
  "charging_parse_kv_i8 s key = do { v \<leftarrow> parse_kv_str s key; parse_i8 v }"

definition parse_charging_directive :: "string \<Rightarrow> charging_expectation option" where
  "parse_charging_directive rest =
     (if rest = ''charging-mode'' then Some ChargingMode
      else if rest = ''drive-blocked'' then Some DriveBlocked
      else case strip_prefix rest ''motor-torque '' of
             Some args \<Rightarrow>
               Some (MotorTorque (case charging_parse_kv_i8 args ''max'' of Some m \<Rightarrow> m | None \<Rightarrow> 0))
           | None \<Rightarrow> None)"

definition parse_charging_expectations :: "string \<Rightarrow> charging_expectation list" where
  "parse_charging_expectations content =
     read_directives ''# charging-expect:'' parse_charging_directive ChargingMode content"

definition show_u32 :: "u32 \<Rightarrow> string" where
  "show_u32 v = show_nat (unat v)"

definition show_command :: "motor_command \<Rightarrow> string" where
  "show_command c = ''('' @ show_int (sint (mo_torque c)) @ '', '' @ show_nat (unat (mo_enable c)) @ '')''"

fun evaluate_charging :: "charging_expectation \<Rightarrow> user_trace list \<Rightarrow> lane_check" where
  "evaluate_charging ChargingMode trace =
     (let passed = any_value trace CHG_NODE_GATEWAY ''gateway_charging_state'' VEHICLE_CHARGING
      in mk_check ''charging-mode'' passed
           (if passed then ''gateway entered CHARGING after plug-in''
            else ''expected a gateway_charging_state == '' @ show_u32 VEHICLE_CHARGING @ ''; last was '' @
              show_opt show_u32 (charging_last_value trace CHG_NODE_GATEWAY ''gateway_charging_state'')))"
| "evaluate_charging DriveBlocked trace =
     (let blocked = charging_last_value trace CHG_NODE_GATEWAY ''charging_drive_blocked'';
          still_charging =
            (charging_last_value trace CHG_NODE_GATEWAY ''gateway_charging_state'' = Some VEHICLE_CHARGING);
          passed = (blocked = Some 1 \<and> still_charging)
      in mk_check ''drive-blocked'' passed
           (if passed then ''drive request while plugged was refused; vehicle stayed in CHARGING''
            else ''expected charging_drive_blocked=1 and mode still CHARGING; got blocked='' @
              show_opt show_u32 blocked @ '' still_charging='' @ show_bool still_charging))"
| "evaluate_charging (MotorTorque mx) trace =
     (let cmds = motor_commands trace;
          passed = (cmds \<noteq> [] \<and> list_all (\<lambda>c. sint (mo_torque c) \<le> sint mx \<and> mo_enable c = 0) cmds)
      in mk_check ''motor-torque'' passed
           (if passed then ''all '' @ show_nat (length cmds) @ '' CHARGING motor command(s) clamped torque <= '' @
              show_int (sint mx) @ '' with motor disabled''
            else if cmds = [] then ''expected charging_motor_command trace events; saw none''
            else ''expected CHARGING torque <= '' @ show_int (sint mx) @ '' and motor disabled; saw '' @
              show_list show_command cmds))"

definition run_charging_scenario ::
  "'o os \<Rightarrow> file_system \<Rightarrow> string \<Rightarrow> nat \<Rightarrow> string \<Rightarrow> 'o \<Rightarrow> (lane_result \<times> 'o) option" where
  "run_charging_scenario os fs bin timeout scenario s = do {
     (run, s') \<leftarrow> run_scenario_args os bin scenario timeout [] s;
     Some (judge_run ''charging'' parse_charging_expectations evaluate_charging fs scenario run, s')
   }"

definition run_charging ::
  "'o os \<Rightarrow> file_system \<Rightarrow> string \<Rightarrow> string \<Rightarrow> nat \<Rightarrow> 'o \<Rightarrow> (string + lane_result list) option" where
  "run_charging os fs bin dir timeout s = run_lane (run_charging_scenario os fs bin timeout) fs dir s"

definition charging_json :: "lane_result list \<Rightarrow> json" where
  "charging_json report = lane_json ''charging'' report"

subsection \<open>The meaning of the expectations\<close>

lemma charging_last_value_eq: "charging_last_value = last_value"
proof (intro ext)
  fix trace machine label
  have "List.find P (rev xs) = (if filter P xs = [] then None else Some (last (filter P xs)))"
    for P and xs :: "user_trace list"
    by (induction xs rule: rev_induct) auto
  then show "charging_last_value trace machine label = last_value trace machine label"
    by (auto simp: charging_last_value_def last_value_def values_of_def Let_def last_map)
qed

text \<open>A traced motor command packs the torque above the enable flag.\<close>

fun charging_holds :: "charging_expectation \<Rightarrow> user_trace list \<Rightarrow> bool" where
  "charging_holds ChargingMode tr \<longleftrightarrow> 5 \<in> set (values_of tr 1 ''gateway_charging_state'')"
| "charging_holds DriveBlocked tr \<longleftrightarrow>
     last_value tr 1 ''charging_drive_blocked'' = Some 1 \<and>
     last_value tr 1 ''gateway_charging_state'' = Some 5"
| "charging_holds (MotorTorque mx) tr \<longleftrightarrow>
     values_of tr 2 ''charging_motor_command'' \<noteq> [] \<and>
     list_all (\<lambda>v. sint (byte_at 8 v) \<le> sint mx \<and> byte_at 0 v = 0) (values_of tr 2 ''charging_motor_command'')"

interpretation chg: expectation_lane "''charging''" parse_charging_expectations evaluate_charging charging_holds
proof unfold_locales
  show "parse_charging_expectations content \<noteq> []" for content
    by (simp add: parse_charging_expectations_def read_directives_nonempty)
  show "ck_passed (evaluate_charging e tr) = charging_holds e tr" for e tr
    by (cases e) (auto simp: Let_def any_value_iff charging_last_value_eq CHG_NODE_GATEWAY_def
        CHG_NODE_POWERTRAIN_def VEHICLE_CHARGING_def motor_commands_def values_of_def list_all_iff)
qed

text \<open>
  A scenario of the charging lane passes exactly when its run passed, its file could be
  read, and every expectation holds: the gateway reached CHARGING, a drive request was refused and
  the last mode is still CHARGING, or there are motor commands and every one keeps the torque at
  most at the limit with the motor disabled.
\<close>

theorem charging_lane_verdict:
  "map_option (\<lambda>(r, s'). (lr_passed r, s')) (run_charging_scenario os fs bin timeout scenario s) =
   map_option (\<lambda>(run, s'). (rn_status run = RPass \<and>
       (\<exists>content. fs_read_to_string fs scenario = Inr content \<and>
          list_all (\<lambda>e. charging_holds e (user_traces (rn_trace run))) (parse_charging_expectations content)), s'))
     (run_scenario_args os bin scenario timeout [] s)"
proof (cases "run_scenario_args os bin scenario timeout [] s")
  case None
  then show ?thesis by (simp add: run_charging_scenario_def)
next
  case (Some rs)
  obtain run s' where "rs = (run, s')" by (cases rs)
  with Some show ?thesis by (simp add: run_charging_scenario_def chg.verdict)
qed

end
