(* ===== verification/Btree.thy ===== *)
theory Btree
  imports Main "HOL-Library.Product_Lexorder"
begin

text \<open>
  The ordered collections of the Rust standard library the harness uses: a \<open>BTreeMap\<close> is its
  association list in key order, a \<open>BTreeSet\<close> its elements in order. Iteration is the list itself, and
  two collections are equal when the lists are.
\<close>

text \<open>\<open>BTreeMap::insert\<close> on an association list in key order.\<close>

fun btree_insert :: "'k::linorder \<Rightarrow> 'v \<Rightarrow> ('k \<times> 'v) list \<Rightarrow> ('k \<times> 'v) list" where
  "btree_insert k v [] = [(k, v)]"
| "btree_insert k v ((k', v') # xs) =
     (if k = k' then (k, v) # xs else if k < k' then (k, v) # (k', v') # xs
      else (k', v') # btree_insert k v xs)"

text \<open>\<open>*map.entry(k).or_default() += 1\<close>, and counting the elements of a sequence with it.\<close>

definition btree_bump :: "'k::linorder \<Rightarrow> ('k \<times> nat) list \<Rightarrow> ('k \<times> nat) list" where
  "btree_bump k m = btree_insert k (case map_of m k of Some c \<Rightarrow> c + 1 | None \<Rightarrow> 1) m"

definition tally :: "'k::linorder list \<Rightarrow> ('k \<times> nat) list" where
  "tally xs = foldl (\<lambda>m x. btree_bump x m) [] xs"

text \<open>Collecting into a \<open>BTreeSet\<close>.\<close>

definition btree_set :: "'k::linorder list \<Rightarrow> 'k list" where
  "btree_set xs = foldl (\<lambda>s x. insort_insert x s) [] xs"

subsection \<open>Facts\<close>

lemma map_of_btree_insert: "map_of (btree_insert k v xs) = (map_of xs)(k \<mapsto> v)"
  by (induction k v xs rule: btree_insert.induct) (auto simp: fun_eq_iff)

lemma set_btree_insert: "set (btree_insert k v xs) \<subseteq> insert (k, v) (set xs)"
  by (induction k v xs rule: btree_insert.induct) auto

lemma keys_btree_insert: "fst ` set (btree_insert k v xs) = insert k (fst ` set xs)"
  by (induction k v xs rule: btree_insert.induct) auto

lemma sorted_btree_insert: "sorted_wrt (<) (map fst xs) \<Longrightarrow> sorted_wrt (<) (map fst (btree_insert k v xs))"
proof (induction k v xs rule: btree_insert.induct)
  case (2 k v k' v' xs)
  have "fst ` set (btree_insert k v xs) = insert k (fst ` set xs)" by (rule keys_btree_insert)
  then have "\<forall>y \<in> set (map fst (btree_insert k v xs)). k' < y" if "k' < k"
    using that 2 by auto
  with 2 show ?case by (auto simp: not_less)
qed simp

lemma tally_snoc: "tally (xs @ [x]) = btree_bump x (tally xs)"
  by (simp add: tally_def)

lemma map_of_tally:
  "map_of (tally xs) k = (if count_list xs k = 0 then None else Some (count_list xs k))"
proof (induction xs arbitrary: k rule: rev_induct)
  case Nil
  show ?case by (simp add: tally_def)
next
  case (snoc x xs)
  show ?case by (simp add: tally_snoc btree_bump_def map_of_btree_insert snoc)
qed

lemma sorted_tally: "sorted_wrt (<) (map fst (tally xs))"
proof (induction xs rule: rev_induct)
  case Nil
  show ?case by (simp add: tally_def)
next
  case (snoc x xs)
  then show ?case by (simp add: tally_snoc btree_bump_def sorted_btree_insert)
qed

lemma keys_tally: "set (map fst (tally xs)) = set xs"
proof -
  have "set (map fst (tally xs)) = dom (map_of (tally xs))" by (simp add: dom_map_of_conv_image_fst)
  also have "\<dots> = set xs" by (auto simp: map_of_tally dom_def count_list_0_iff split: if_splits)
  finally show ?thesis .
qed

lemma values_tally: "(k, c) \<in> set (tally xs) \<longleftrightarrow> k \<in> set xs \<and> c = count_list xs k"
proof -
  have "distinct (map fst (tally xs))" using sorted_tally strict_sorted_iff by blast
  then have "(k, c) \<in> set (tally xs) \<longleftrightarrow> map_of (tally xs) k = Some c" by simp
  also have "\<dots> \<longleftrightarrow> k \<in> set xs \<and> c = count_list xs k" by (auto simp: map_of_tally count_list_0_iff)
  finally show ?thesis .
qed

lemma btree_set_eq: "btree_set xs = sorted_list_of_set (set xs)"
proof (induction xs rule: rev_induct)
  case Nil
  show ?case by (simp add: btree_set_def)
next
  case (snoc x xs)
  then show ?case
    by (cases "x \<in> set xs") (simp_all add: btree_set_def insort_insert_key_def insert_absorb)
qed

lemma set_btree_set [simp]: "set (btree_set xs) = set xs"
  by (simp add: btree_set_eq)

lemma sorted_btree_set: "sorted_wrt (<) (btree_set xs)"
  by (simp add: btree_set_eq)

lemma btree_set_eq_iff:
  "sorted_wrt (<) ys \<Longrightarrow> btree_set xs = ys \<longleftrightarrow> set xs = set ys"
  by (metis set_btree_set sorted_btree_set strict_sorted_equal)

lemma values_one: "list_all (\<lambda>c. c = 1) (map snd (tally xs)) \<longleftrightarrow> (\<forall>k. k \<in> set xs \<longrightarrow> count_list xs k = 1)"
proof -
  have "c \<in> snd ` set (tally xs) \<longleftrightarrow> (\<exists>k. (k, c) \<in> set (tally xs))" for c by force
  then have "snd ` set (tally xs) = count_list xs ` set xs" by (auto simp: values_tally)
  moreover have "list_all (\<lambda>c. c = 1) (map snd (tally xs)) \<longleftrightarrow> (\<forall>c\<in>snd ` set (tally xs). c = 1)"
    by (simp add: list_all_iff)
  ultimately show ?thesis by auto
qed

text \<open>Every element is counted once exactly when the sequence has no repetition.\<close>

lemma tally_ones: "list_all (\<lambda>c. c = 1) (map snd (tally xs)) \<longleftrightarrow> distinct xs"
  unfolding values_one by (induction xs) (auto simp: count_list_0_iff split: if_splits)

text \<open>The keys are as expected and every count is one: each expected element occurs exactly once.\<close>

lemma tally_exactly_once:
  assumes "sorted_wrt (<) ys"
  shows "map fst (tally xs) = ys \<and> list_all (\<lambda>c. c = 1) (map snd (tally xs)) \<longleftrightarrow>
    (\<forall>k. count_list xs k = (if k \<in> set ys then 1 else 0))"
proof -
  have "map fst (tally xs) = ys \<longleftrightarrow> set xs = set ys"
    using assms sorted_tally keys_tally by (metis strict_sorted_equal)
  moreover have "set xs = set ys \<and> (\<forall>k. k \<in> set xs \<longrightarrow> count_list xs k = 1) \<longleftrightarrow>
      (\<forall>k. count_list xs k = (if k \<in> set ys then 1 else 0))"
    by (metis count_list_0_iff subset_antisym subsetI zero_neq_one)
  ultimately show ?thesis unfolding values_one by simp
qed

end
