(* ===== verification/Diagnostics_Lane.thy ===== *)
theory Diagnostics_Lane
  imports Lane Btree "HOL-Library.Product_Lexorder"
begin

text \<open>
  \<^verbatim>\<open>dogfood/src/diagnostics.rs\<close>: the diagnostics lane, on the shared parts of \<open>Lane\<close>. The gateway
  traces each response in two packed words; the map they are collected in is an association list
  kept in key order. The property gives the verdict on a scenario by the meaning of its expectations,
  in which the time of a torque expectation plays no part.
\<close>

definition DIAG_NODE_GATEWAY :: u64 where "DIAG_NODE_GATEWAY = 1"
definition DIAG_NODE_POWERTRAIN :: u64 where "DIAG_NODE_POWERTRAIN = 2"
definition DIAG_START_SESSION :: u8 where "DIAG_START_SESSION = 1"
definition DIAG_READ_MODE :: u8 where "DIAG_READ_MODE = 2"
definition DIAG_READ_DTCS :: u8 where "DIAG_READ_DTCS = 3"
definition DIAG_ACTUATOR_TEST :: u8 where "DIAG_ACTUATOR_TEST = 6"
definition DIAG_OK :: u8 where "DIAG_OK = 0"
definition VEHICLE_SERVICE :: u8 where "VEHICLE_SERVICE = 6"

lemmas diag_consts =
  DIAG_NODE_GATEWAY_def DIAG_NODE_POWERTRAIN_def DIAG_START_SESSION_def DIAG_READ_MODE_def
  DIAG_READ_DTCS_def DIAG_ACTUATOR_TEST_def DIAG_OK_def VEHICLE_SERVICE_def

record diag_response =
  dg_service :: u8
  dg_req :: u8
  dg_status :: u8
  dg_value0 :: u8
  dg_value1 :: u8

datatype diag_expectation =
  ServiceMode | Dtc u8 u8 "u8 option" | Actuator u8 | DiagMotorTorque i8 u64

definition decode_response_head :: "u32 \<Rightarrow> diag_response" where
  "decode_response_head v =
     \<lparr>dg_service = byte_at 16 v, dg_req = byte_at 24 v, dg_status = byte_at 8 v,
      dg_value0 = byte_at 0 v, dg_value1 = 0\<rparr>"

definition decode_response_v1 :: "u32 \<Rightarrow> (u8 \<times> u8) \<times> u8" where
  "decode_response_v1 v = ((byte_at 16 v, byte_at 24 v), byte_at 0 v)"

text \<open>One event of the gateway: a response head replaces the entry, a second word completes it.\<close>

definition collect_event ::
  "((u8 \<times> u8) \<times> diag_response) list \<Rightarrow> user_trace \<Rightarrow> ((u8 \<times> u8) \<times> diag_response) list" where
  "collect_event responses event =
     (if ut_label event = ''gateway_diag_response'' then
        (let r = decode_response_head (ut_value event)
         in btree_insert (dg_service r, dg_req r) r responses)
      else if ut_label event = ''gateway_diag_response_v1'' then
        (case decode_response_v1 (ut_value event) of (key, value1) \<Rightarrow>
          (let r = (case map_of responses key of
                      Some r \<Rightarrow> r
                    | None \<Rightarrow> \<lparr>dg_service = fst key, dg_req = snd key, dg_status = 0,
                               dg_value0 = 0, dg_value1 = 0\<rparr>)
           in btree_insert key (r\<lparr>dg_value1 := value1\<rparr>) responses))
      else responses)"

definition collect_diag_responses :: "user_trace list \<Rightarrow> diag_response list" where
  "collect_diag_responses trace =
     map snd (foldl collect_event [] (filter (\<lambda>e. ut_machine e = DIAG_NODE_GATEWAY) trace))"

definition response :: "diag_response list \<Rightarrow> u8 \<Rightarrow> u8 \<Rightarrow> diag_response option" where
  "response responses service req =
     List.find (\<lambda>r. dg_service r = service \<and> dg_req r = req) responses"

definition collect_service_motor_commands :: "user_trace list \<Rightarrow> i8 list" where
  "collect_service_motor_commands trace =
     map (\<lambda>e. byte_at 8 (ut_value e)) (filter (traced DIAG_NODE_POWERTRAIN ''diag_motor_command'') trace)"

definition parse_kv_u8 :: "string \<Rightarrow> string \<Rightarrow> u8 option" where
  "parse_kv_u8 s key = do { v \<leftarrow> parse_kv_str s key; parse_u8 v }"

definition parse_kv_i8 :: "string \<Rightarrow> string \<Rightarrow> i8 option" where
  "parse_kv_i8 s key = do { v \<leftarrow> parse_kv_str s key; parse_i8 v }"

definition parse_kv_u64 :: "string \<Rightarrow> string \<Rightarrow> u64 option" where
  "parse_kv_u64 s key = do { v \<leftarrow> parse_kv_str s key; parse_u64 v }"

definition or_else :: "'a option \<Rightarrow> 'a \<Rightarrow> 'a" where
  "or_else x d = (case x of Some v \<Rightarrow> v | None \<Rightarrow> d)"

definition parse_diag_directive :: "string \<Rightarrow> diag_expectation option" where
  "parse_diag_directive rest =
     (if rest = ''service-mode'' then Some ServiceMode
      else case strip_prefix rest ''dtc '' of
        Some args \<Rightarrow>
          Some (Dtc (or_else (parse_kv_u8 args ''req'') 3) (or_else (parse_kv_u8 args ''count'') 0)
                 (parse_kv_u8 args ''code''))
      | None \<Rightarrow>
         (case strip_prefix rest ''actuator '' of
            Some args \<Rightarrow>
              (let status = or_else (parse_kv_str args ''status'') ''ok''
               in Some (Actuator (if status = ''ok'' then DIAG_OK
                                  else if status = ''rejected'' then 1 else DIAG_OK)))
          | None \<Rightarrow>
             (case strip_prefix rest ''motor-torque '' of
                Some args \<Rightarrow>
                  Some (DiagMotorTorque (or_else (parse_kv_i8 args ''max'') 0)
                         (or_else (parse_kv_u64 args ''after_ms'') 0))
              | None \<Rightarrow> None)))"

definition parse_diag_expectations :: "string \<Rightarrow> diag_expectation list" where
  "parse_diag_expectations content =
     read_directives ''# diagnostics-expect:'' parse_diag_directive ServiceMode content"

definition response_payload :: "diag_response \<Rightarrow> u8 list" where
  "response_payload r = [1, dg_service r, dg_req r, dg_status r, dg_value0 r, dg_value1 r]"

definition show_u8 :: "u8 \<Rightarrow> string" where
  "show_u8 v = show_nat (unat v)"

definition show_i8 :: "i8 \<Rightarrow> string" where
  "show_i8 v = show_int (sint v)"

definition show_payload :: "diag_response option \<Rightarrow> string" where
  "show_payload r = show_opt (\<lambda>r. show_list show_u8 (response_payload r)) r"

definition in_service :: "diag_response option \<Rightarrow> bool" where
  "in_service r = (case r of Some r \<Rightarrow> dg_status r = DIAG_OK \<and> dg_value0 r = VEHICLE_SERVICE | None \<Rightarrow> False)"

definition dtc_matches :: "u8 \<Rightarrow> u8 option \<Rightarrow> diag_response option \<Rightarrow> bool" where
  "dtc_matches count code r =
     (case r of
        Some r \<Rightarrow> dg_status r = DIAG_OK \<and> dg_value0 r = count \<and>
          (case code of None \<Rightarrow> True | Some c \<Rightarrow> dg_value1 r = c)
      | None \<Rightarrow> False)"

definition has_status :: "u8 \<Rightarrow> diag_response option \<Rightarrow> bool" where
  "has_status status r = (case r of Some r \<Rightarrow> dg_status r = status | None \<Rightarrow> False)"

fun evaluate_diag :: "diag_expectation \<Rightarrow> diag_response list \<Rightarrow> i8 list \<Rightarrow> lane_check" where
  "evaluate_diag ServiceMode responses cmds =
     (let start = response responses DIAG_START_SESSION 1;
          mode = response responses DIAG_READ_MODE 2;
          passed = (in_service start \<and> in_service mode)
      in mk_check ''service-mode'' passed
           (if passed then ''gateway entered SERVICE and read-mode returned SERVICE''
            else ''expected START_SESSION and READ_MODE status=0 mode=6; start='' @ show_payload start @
              '' mode='' @ show_payload mode))"
| "evaluate_diag (Dtc req count code) responses cmds =
     (let resp = response responses DIAG_READ_DTCS req;
          passed = dtc_matches count code resp
      in mk_check (''dtc-req-'' @ show_u8 req) passed
           (if passed then
              (case code of
                 Some c \<Rightarrow> ''request '' @ show_u8 req @ '' returned '' @ show_u8 count @
                   '' DTC(s), first code '' @ show_u8 c
               | None \<Rightarrow> ''request '' @ show_u8 req @ '' returned '' @ show_u8 count @ '' DTC(s)'')
            else ''expected READ_DTCS req='' @ show_u8 req @ '' count='' @ show_u8 count @ '' code='' @
              show_opt show_u8 code @ ''; got '' @ show_payload resp))"
| "evaluate_diag (Actuator status) responses cmds =
     (let resp = response responses DIAG_ACTUATOR_TEST 6;
          passed = has_status status resp
      in mk_check ''actuator-test'' passed
           (if passed then ''actuator self-test returned status '' @ show_u8 status
            else ''expected ACTUATOR_TEST status '' @ show_u8 status @ ''; got '' @ show_payload resp))"
| "evaluate_diag (DiagMotorTorque mx after_ms) responses cmds =
     (let passed = (cmds \<noteq> [] \<and> list_all (\<lambda>t. sint t \<le> sint mx) cmds)
      in mk_check ''motor-torque'' passed
           (if passed then ''all '' @ show_nat (length cmds) @ '' SERVICE motor command(s) were <= '' @
              show_i8 mx @ '' (expectation after '' @ show_nat (unat after_ms) @ ''ms)''
            else ''expected SERVICE motor torque <= '' @ show_i8 mx @ ''; saw '' @ show_list show_i8 cmds))"

definition evaluate_diag_trace :: "diag_expectation \<Rightarrow> user_trace list \<Rightarrow> lane_check" where
  "evaluate_diag_trace exp trace =
     evaluate_diag exp (collect_diag_responses trace) (collect_service_motor_commands trace)"

definition run_diagnostics_scenario ::
  "'o os \<Rightarrow> file_system \<Rightarrow> string \<Rightarrow> nat \<Rightarrow> string \<Rightarrow> 'o \<Rightarrow> (lane_result \<times> 'o) option" where
  "run_diagnostics_scenario os fs bin timeout scenario s = do {
     (run, s') \<leftarrow> run_scenario_args os bin scenario timeout [] s;
     Some (judge_run ''diagnostics'' parse_diag_expectations evaluate_diag_trace fs scenario run, s')
   }"

definition run_diagnostics ::
  "'o os \<Rightarrow> file_system \<Rightarrow> string \<Rightarrow> string \<Rightarrow> nat \<Rightarrow> 'o \<Rightarrow> (string + lane_result list) option" where
  "run_diagnostics os fs bin dir timeout s =
     run_lane (run_diagnostics_scenario os fs bin timeout) fs dir s"

definition diagnostics_json :: "lane_result list \<Rightarrow> json" where
  "diagnostics_json report = lane_json ''diagnostics'' report"

subsection \<open>Collecting responses is key by key\<close>

text \<open>The entry of one key after one event, and after the gateway's events.\<close>

definition key_step :: "u8 \<times> u8 \<Rightarrow> diag_response option \<Rightarrow> user_trace \<Rightarrow> diag_response option" where
  "key_step key r e =
     (if ut_label e = ''gateway_diag_response'' \<and> (byte_at 16 (ut_value e), byte_at 24 (ut_value e)) = key
      then Some (decode_response_head (ut_value e))
      else if ut_label e = ''gateway_diag_response_v1'' \<and> (byte_at 16 (ut_value e), byte_at 24 (ut_value e)) = key
      then Some ((case r of Some r \<Rightarrow> r
                  | None \<Rightarrow> \<lparr>dg_service = fst key, dg_req = snd key, dg_status = 0, dg_value0 = 0, dg_value1 = 0\<rparr>)
                 \<lparr>dg_value1 := byte_at 0 (ut_value e)\<rparr>)
      else r)"

definition diag_entry :: "u8 \<Rightarrow> u8 \<Rightarrow> user_trace list \<Rightarrow> diag_response option" where
  "diag_entry service req trace =
     foldl (key_step (service, req)) None (filter (\<lambda>e. ut_machine e = 1) trace)"

definition keyed :: "((u8 \<times> u8) \<times> diag_response) list \<Rightarrow> bool" where
  "keyed rs \<longleftrightarrow> (\<forall>(k, r) \<in> set rs. k = (dg_service r, dg_req r)) \<and> sorted_wrt (<) (map fst rs)"

lemma collect_event_keyed: "keyed rs \<Longrightarrow> keyed (collect_event rs e)"
proof -
  assume rs: "keyed rs"
  have ins: "keyed (btree_insert k r rs)" if "k = (dg_service r, dg_req r)" for k r
    using that rs set_btree_insert [of k r rs] by (auto simp: keyed_def sorted_btree_insert)
  have kd: "k = (dg_service r, dg_req r)" if "map_of rs k = Some r" for k r
    using rs map_of_SomeD [OF that] by (auto simp: keyed_def)
  show ?thesis
    unfolding collect_event_def decode_response_v1_def Let_def prod.case
    by (auto simp: rs intro!: ins split: option.split dest!: kd)
qed

lemma collect_event_key: "map_of (collect_event rs e) k = key_step k (map_of rs k) e"
  unfolding collect_event_def key_step_def decode_response_v1_def Let_def prod.case
  by (auto simp: map_of_btree_insert decode_response_head_def split: option.split)

lemma collect_fold:
  "keyed rs \<Longrightarrow> keyed (foldl collect_event rs es) \<and>
     map_of (foldl collect_event rs es) k = foldl (key_step k) (map_of rs k) es"
  by (induction es arbitrary: rs) (auto simp: collect_event_keyed collect_event_key)

lemma find_map_of:
  assumes "keyed rs"
  shows "List.find (\<lambda>r. dg_service r = service \<and> dg_req r = req) (map snd rs) = map_of rs (service, req)"
  using assms
proof (induction rs)
  case (Cons kr rs)
  obtain k r where kr: "kr = (k, r)" by (cases kr)
  with Cons.prems have "keyed rs" "k = (dg_service r, dg_req r)" by (auto simp: keyed_def)
  with Cons.IH kr show ?case by auto
qed simp

lemma response_is_entry: "response (collect_diag_responses trace) service req = diag_entry service req trace"
proof -
  have "keyed []" by (simp add: keyed_def)
  from collect_fold [OF this] show ?thesis
    by (simp add: response_def collect_diag_responses_def find_map_of diag_entry_def DIAG_NODE_GATEWAY_def)
qed

fun diag_holds :: "diag_expectation \<Rightarrow> user_trace list \<Rightarrow> bool" where
  "diag_holds ServiceMode tr \<longleftrightarrow> in_service (diag_entry 1 1 tr) \<and> in_service (diag_entry 2 2 tr)"
| "diag_holds (Dtc req count code) tr \<longleftrightarrow> dtc_matches count code (diag_entry 3 req tr)"
| "diag_holds (Actuator status) tr \<longleftrightarrow> has_status status (diag_entry 6 6 tr)"
| "diag_holds (DiagMotorTorque mx after_ms) tr \<longleftrightarrow>
     values_of tr 2 ''diag_motor_command'' \<noteq> [] \<and>
     list_all (\<lambda>v. sint (byte_at 8 v) \<le> sint mx) (values_of tr 2 ''diag_motor_command'')"

interpretation dia: expectation_lane "''diagnostics''" parse_diag_expectations evaluate_diag_trace diag_holds
proof unfold_locales
  show "parse_diag_expectations content \<noteq> []" for content
    by (simp add: parse_diag_expectations_def read_directives_nonempty)
  show "ck_passed (evaluate_diag_trace e tr) = diag_holds e tr" for e tr
    by (cases e) (auto simp: evaluate_diag_trace_def Let_def response_is_entry diag_consts
        collect_service_motor_commands_def values_of_def list_all_iff)
qed

text \<open>
  A scenario of the diagnostics lane passes exactly when its run passed, its file could be
  read, and every expectation holds of the responses the gateway traced, each put together from
  its own words in order: service mode entered and read back, the trouble code count and first
  code of a request, the status of the actuator test, or a torque limit kept by every traced
  motor command, from the start of the run whatever time the expectation names.
\<close>

theorem diagnostics_lane_verdict:
  "map_option (\<lambda>(r, s'). (lr_passed r, s')) (run_diagnostics_scenario os fs bin timeout scenario s) =
   map_option (\<lambda>(run, s'). (rn_status run = RPass \<and>
       (\<exists>content. fs_read_to_string fs scenario = Inr content \<and>
          list_all (\<lambda>e. diag_holds e (user_traces (rn_trace run))) (parse_diag_expectations content)), s'))
     (run_scenario_args os bin scenario timeout [] s)"
proof (cases "run_scenario_args os bin scenario timeout [] s")
  case None
  then show ?thesis by (simp add: run_diagnostics_scenario_def)
next
  case (Some rs)
  obtain run s' where "rs = (run, s')" by (cases rs)
  with Some show ?thesis by (simp add: run_diagnostics_scenario_def dia.verdict)
qed

end
