(* ===== verification/Topology_Lane.thy ===== *)
theory Topology_Lane
  imports Lane Btree
begin

text \<open>
  \<^verbatim>\<open>dogfood/src/topology.rs\<close>: the topology lane. Probes with unique CAN ids are declared in a scenario's
  comments with the exact set of receivers; the lane counts the receptions in the human trace and
  checks correlation, causality and identity in the records of a second run. The temporary file
  of that run is a record of functions, like the operating system.
\<close>

subsection \<open>Probes and results\<close>

text \<open>A \<open>BTreeSet\<close> is a strictly increasing list.\<close>

record probe =
  pb_id :: u32
  pb_id_hex :: string
  pb_expect :: "u64 list"

record probe_result =
  pr_id_hex :: string
  pr_expected :: "u64 list"
  pr_actual :: "(u64 \<times> nat) list"
  pr_passed :: bool
  pr_detail :: string

record correlation_result =
  cr_id_hex :: string
  cr_passed :: bool
  cr_detail :: string

record topology_result =
  tr_name :: string
  tr_probes :: "probe_result list"
  tr_correlations :: "correlation_result list"
  tr_passed :: bool
  tr_run_error :: "string option"

record v2_edge =
  ve_correlation_id :: u64
  ve_parent_id :: u64
  ve_direction :: string
  ve_message_id :: u32
  ve_source :: u64
  ve_destination :: u64

definition topology_totals :: "topology_result list \<Rightarrow> nat \<times> nat" where
  "topology_totals scenarios =
     (let passed = length (filter tr_passed scenarios) in (passed, length scenarios - passed))"

definition topology_passed :: "topology_result list \<Rightarrow> bool" where
  "topology_passed scenarios \<longleftrightarrow> scenarios \<noteq> [] \<and> list_all tr_passed scenarios"

interpretation topo: judged_report tr_passed topology_totals topology_passed
  by unfold_locales (simp_all add: topology_totals_def topology_passed_def Let_def)

definition u64_json :: "u64 \<Rightarrow> json" where
  "u64_json x = JUInt (ucast x)"

definition probe_json :: "probe_result \<Rightarrow> json" where
  "probe_json p = JObj
     [(''id'', json_str (pr_id_hex p)),
      (''expected'', JArr (map u64_json (pr_expected p))),
      (''actual'', JArr (map (\<lambda>(r, c). JObj [(''receiver'', u64_json r), (''count'', JUInt (of_nat c))])
                          (pr_actual p))),
      (''passed'', JBool (pr_passed p)),
      (''detail'', json_str (pr_detail p))]"

definition correlation_json :: "correlation_result \<Rightarrow> json" where
  "correlation_json c = JObj
     [(''id'', json_str (cr_id_hex c)), (''passed'', JBool (cr_passed c)),
      (''detail'', json_str (cr_detail c))]"

definition topology_result_json :: "topology_result \<Rightarrow> json" where
  "topology_result_json s = JObj
     ([(''name'', json_str (tr_name s)), (''passed'', JBool (tr_passed s)),
       (''probes'', JArr (map probe_json (tr_probes s))),
       (''correlations'', JArr (map correlation_json (tr_correlations s)))] @
      (case tr_run_error s of Some e \<Rightarrow> [(''run_error'', json_str e)] | None \<Rightarrow> []))"

definition topology_json :: "topology_result list \<Rightarrow> json" where
  "topology_json scenarios =
     (case topology_totals scenarios of (passed, failed) \<Rightarrow> JObj
        [(''lane'', json_str ''topology''), (''passed'', JBool (topology_passed scenarios)),
         (''scenarios_passed'', JUInt (of_nat passed)), (''scenarios_failed'', JUInt (of_nat failed)),
         (''scenarios'', JArr (map topology_result_json scenarios))])"

subsection \<open>Reading probes and receptions\<close>

definition parse_hex_u32 :: "string \<Rightarrow> u32 option" where
  "parse_hex_u32 str =
     (let s = trim str
      in case (case strip_prefix s ''0x'' of Some hex \<Rightarrow> Some hex | None \<Rightarrow> strip_prefix s ''0X'') of
           Some hex \<Rightarrow> map_option of_nat (parse_hex 32 hex)
         | None \<Rightarrow> parse_u32 s)"

definition normalize_hex :: "string \<Rightarrow> string" where
  "normalize_hex s =
     (case parse_hex_u32 s of Some n \<Rightarrow> show_hex_prefixed 6 (unat n) | None \<Rightarrow> s)"

definition insert_receiver :: "u64 list \<Rightarrow> string \<Rightarrow> u64 list" where
  "insert_receiver expect piece =
     (let r = trim piece
      in if r = [] then expect
         else case parse_u64 r of Some n \<Rightarrow> insort_insert n expect | None \<Rightarrow> expect)"

definition probe_token ::
  "u32 option \<times> string \<times> u64 list \<Rightarrow> string \<Rightarrow> u32 option \<times> string \<times> u64 list" where
  "probe_token st tok =
     (case st of (i, id_hex, expect) \<Rightarrow>
        (case strip_prefix tok ''probe='' of
           Some v \<Rightarrow> (parse_hex_u32 v, normalize_hex v, expect)
         | None \<Rightarrow>
             (case strip_prefix tok ''expect='' of
                Some v \<Rightarrow> (i, id_hex, foldl insert_receiver expect (split_char CHR '','' v))
              | None \<Rightarrow> (i, id_hex, expect))))"

definition parse_probe_line :: "string \<Rightarrow> probe option" where
  "parse_probe_line line = do {
     rest \<leftarrow> strip_prefix (trim_start line) ''# topology-probe:'';
     (case foldl probe_token (None, [], []) (split_whitespace rest) of (i, id_hex, expect) \<Rightarrow>
        map_option (\<lambda>n. \<lparr>pb_id = n, pb_id_hex = id_hex, pb_expect = expect\<rparr>) i)
   }"

definition parse_probes :: "file_system \<Rightarrow> string \<Rightarrow> string + probe list" where
  "parse_probes fs path =
     (case fs_read_to_string fs path of
        Inl e \<Rightarrow> Inl e
      | Inr content \<Rightarrow> Inr (List.map_filter parse_probe_line (lines content)))"

definition can_rx_token :: "u64 option \<times> u32 option \<Rightarrow> string \<Rightarrow> u64 option \<times> u32 option" where
  "can_rx_token st tok =
     (case strip_prefix tok ''receiver='' of
        Some v \<Rightarrow> (parse_u64 v, snd st)
      | None \<Rightarrow>
          (case strip_prefix tok ''id='' of
             Some v \<Rightarrow> (fst st, parse_hex_u32 v)
           | None \<Rightarrow> st))"

definition parse_can_rx :: "string \<Rightarrow> (u64 \<times> u32) option" where
  "parse_can_rx line =
     (if \<not> contains line ''can-rx'' then None
      else case foldl can_rx_token (None, None) (split_whitespace line) of
             (Some r, Some i) \<Rightarrow> Some (r, i)
           | _ \<Rightarrow> None)"

subsection \<open>Evaluating a probe\<close>

definition show_u64 :: "u64 \<Rightarrow> string" where
  "show_u64 x = show_nat (unat x)"

definition show_set :: "u64 list \<Rightarrow> string" where
  "show_set xs = ''{'' @ join '', '' (map show_u64 xs) @ ''}''"

definition show_count :: "u64 \<times> nat \<Rightarrow> string" where
  "show_count p = ''('' @ show_u64 (fst p) @ '', '' @ show_nat (snd p) @ '')''"

definition evaluate_probe :: "probe \<Rightarrow> (u64 \<times> nat) list \<Rightarrow> probe_result" where
  "evaluate_probe probe actual =
     (let actual_set = map fst actual;
          set_matches = (actual_set = pb_expect probe);
          no_dupes = list_all (\<lambda>c. c = 1) (map snd actual);
          passed = (set_matches \<and> no_dupes);
          detail =
            (if passed then
               (if pb_expect probe = [] then ''no receivers (as expected)''
                else ''received once by exactly '' @ show_set (pb_expect probe))
             else if \<not> set_matches then
               (let unexpected = filter (\<lambda>r. r \<notin> set (pb_expect probe)) actual_set;
                    missing = filter (\<lambda>r. r \<notin> set actual_set) (pb_expect probe)
                in ''receiver mismatch: expected '' @ show_set (pb_expect probe) @ '', got '' @
                   show_set actual_set @ '' (unexpected='' @ show_set unexpected @ '', missing='' @
                   show_set missing @ '')'')
             else ''duplicate injection: '' @ show_list show_count (filter (\<lambda>p. snd p \<noteq> 1) actual))
      in \<lparr>pr_id_hex = pb_id_hex probe, pr_expected = pb_expect probe, pr_actual = actual,
          pr_passed = passed, pr_detail = detail\<rparr>)"

subsection \<open>Trace v2 records\<close>

definition json_u64 :: "string \<Rightarrow> string \<Rightarrow> u64 option" where
  "json_u64 line key = do {
     (_, rest) \<leftarrow> split_once line ([CHR 0x22] @ key @ [CHR 0x22] @ '':'');
     parse_u64 (takeWhile ascii_digit rest)
   }"

definition json_string :: "string \<Rightarrow> string \<Rightarrow> string option" where
  "json_string line key = do {
     (_, rest) \<leftarrow> split_once line ([CHR 0x22] @ key @ [CHR 0x22] @ '':'' @ [CHR 0x22]);
     (v, _) \<leftarrow> split_once rest [CHR 0x22];
     Some v
   }"

definition parse_v2_line :: "string \<Rightarrow> v2_edge option" where
  "parse_v2_line line = do {
     correlation_id \<leftarrow> json_u64 line ''correlation_id'';
     let parent_id = (case json_u64 line ''parent_id'' of Some p \<Rightarrow> p | None \<Rightarrow> 0);
     direction \<leftarrow> json_string line ''direction'';
     message_id \<leftarrow> json_u64 line ''message_id'';
     source \<leftarrow> json_u64 line ''source'';
     destination \<leftarrow> json_u64 line ''destination'';
     Some \<lparr>ve_correlation_id = correlation_id, ve_parent_id = parent_id, ve_direction = direction,
           ve_message_id = ucast message_id, ve_source = source, ve_destination = destination\<rparr>
   }"

text \<open>The temporary file: its directory, the process id in its name, reading and removing it.\<close>

record 'o temp_files =
  tf_dir :: string
  tf_pid :: nat
  tf_read :: "string \<Rightarrow> 'o \<Rightarrow> string + string"
  tf_remove :: "string \<Rightarrow> 'o \<Rightarrow> 'o"

definition path_join :: "string \<Rightarrow> string \<Rightarrow> string" where
  "path_join dir name = (if dir = [] \<or> last dir = CHR ''/'' then dir @ name else dir @ ''/'' @ name)"

definition v2_path :: "'o temp_files \<Rightarrow> string \<Rightarrow> string" where
  "v2_path tf scenario =
     path_join (tf_dir tf)
       (''microcar_tv2_'' @ show_nat (tf_pid tf) @ ''_'' @
        (case file_stem scenario of Some s \<Rightarrow> s | None \<Rightarrow> ''scn'') @ ''.jsonl'')"

definition run_scenario_v2 ::
  "'o os \<Rightarrow> 'o temp_files \<Rightarrow> string \<Rightarrow> string \<Rightarrow> nat \<Rightarrow> 'o \<Rightarrow> (v2_edge list \<times> 'o) option" where
  "run_scenario_v2 os tf bin scenario timeout s =
     (let tmp = v2_path tf scenario
      in case os_spawn os bin [scenario, ''--trace-v2'', tmp] s of
           (Some e, s1) \<Rightarrow> Some ([], s1)
         | (None, s1) \<Rightarrow> do {
             deadline \<leftarrow> instant_add os (os_clock os s1) timeout;
             (_, _, s2) \<leftarrow> wait_loop os deadline s1;
             let edges = (case tf_read tf tmp s2 of
                            Inr content \<Rightarrow> List.map_filter parse_v2_line (lines content)
                          | Inl e \<Rightarrow> []);
             Some (edges, tf_remove tf tmp s2)
           })"

definition edges_of :: "string \<Rightarrow> probe \<Rightarrow> v2_edge list \<Rightarrow> v2_edge list" where
  "edges_of direction probe edges =
     filter (\<lambda>e. ve_message_id e = pb_id probe \<and> ve_direction e = direction) edges"

definition head_or_zero :: "u64 list \<Rightarrow> u64" where
  "head_or_zero xs = (case xs of x # _ \<Rightarrow> x | [] \<Rightarrow> 0)"

definition evaluate_correlation :: "probe \<Rightarrow> v2_edge list \<Rightarrow> correlation_result" where
  "evaluate_correlation probe edges =
     (let rx = edges_of ''rx'' probe edges;
          tx = edges_of ''tx'' probe edges
      in if pb_expect probe = [] then
           (let passed = (rx = []);
                detail = (if passed then ''no delivery edges (as expected)''
                          else ''expected no delivery edges, saw '' @ show_nat (length rx))
            in \<lparr>cr_id_hex = pb_id_hex probe, cr_passed = passed, cr_detail = detail\<rparr>)
         else
           (let all_corr = btree_set (map ve_correlation_id rx);
                roots = filter (\<lambda>e. ve_parent_id e = 0) rx;
                root_corr = btree_set (map ve_correlation_id roots);
                root_sources = btree_set (map ve_source roots);
                dests = btree_set (map ve_destination rx);
                forwarded = length (filter (\<lambda>e. ve_parent_id e \<noteq> 0) rx);
                one_root = (length root_corr = 1 \<and> length root_sources = 1);
                causal_ok = list_all (\<lambda>e. ve_parent_id e = 0 \<or> ve_parent_id e \<in> set all_corr) rx;
                dests_ok = (dests = pb_expect probe);
                no_dupes = list_all (\<lambda>c. c = 1) (map snd (tally (map ve_destination rx)));
                tx_root_ok = list_ex (\<lambda>e. ve_correlation_id e \<in> set root_corr) tx;
                passed = (rx \<noteq> [] \<and> one_root \<and> causal_ok \<and> dests_ok \<and> no_dupes \<and> tx_root_ok);
                root = head_or_zero root_corr;
                detail =
                  (if passed \<and> forwarded = 0 then
                     ''root correlation '' @ show_u64 root @ '', source '' @
                     show_u64 (head_or_zero root_sources) @ '', delivered to '' @ show_set dests
                   else if passed then
                     ''root correlation '' @ show_u64 root @ '' + '' @ show_nat forwarded @
                     '' forwarded edge(s) preserving parent, delivered to '' @ show_set dests
                   else if rx = [] then ''no trace v2 delivery edges (is --trace-v2 supported?)''
                   else
                     ''mismatch: root_corr='' @ show_set root_corr @ '' root_sources='' @
                     show_set root_sources @ '' dests='' @ show_set dests @ '' (expected '' @
                     show_set (pb_expect probe) @ '') one_root='' @ show_bool one_root @
                     '' causal_ok='' @ show_bool causal_ok @ '' no_dupes='' @ show_bool no_dupes @
                     '' tx_root_ok='' @ show_bool tx_root_ok)
            in \<lparr>cr_id_hex = pb_id_hex probe, cr_passed = passed, cr_detail = detail\<rparr>))"

subsection \<open>Running the lane\<close>

definition count_reception ::
  "(u32 \<times> (u64 \<times> nat) list) list \<Rightarrow> string \<Rightarrow> (u32 \<times> (u64 \<times> nat) list) list" where
  "count_reception by_id line =
     (case parse_can_rx line of
        Some (receiver, i) \<Rightarrow>
          btree_insert i
            (btree_bump receiver (case map_of by_id i of Some m \<Rightarrow> m | None \<Rightarrow> [])) by_id
      | None \<Rightarrow> by_id)"

definition run_error_of :: "scenario_run \<Rightarrow> string option" where
  "run_error_of run =
     (if rn_status run \<noteq> RPass
      then Some (''scenario did not run cleanly: '' @ status_as_str (rn_status run) @ '' (exit '' @
                 show_opt (\<lambda>c. show_int (sint c)) (rn_exit_code run) @ '')'')
      else None)"

definition run_topology_scenario ::
  "'o os \<Rightarrow> 'o temp_files \<Rightarrow> file_system \<Rightarrow> string \<Rightarrow> nat \<Rightarrow> string \<Rightarrow> 'o \<Rightarrow>
   (topology_result \<times> 'o) option" where
  "run_topology_scenario os tf fs bin timeout scenario s = do {
     let probes = (case parse_probes fs scenario of Inr ps \<Rightarrow> ps | Inl e \<Rightarrow> []);
     (run, s1) \<leftarrow> runner_run_scenario os bin scenario timeout s;
     let run_error = run_error_of run;
     let by_id = foldl count_reception [] (rn_trace run);
     let probe_results = map (\<lambda>p. evaluate_probe p
           (case map_of by_id (pb_id p) of Some m \<Rightarrow> m | None \<Rightarrow> [])) probes;
     (edges, s2) \<leftarrow> (if run_error = None then run_scenario_v2 os tf bin scenario timeout s1
                      else Some ([], s1));
     let correlations = map (\<lambda>p. evaluate_correlation p edges) probes;
     let passed = (run_error = None \<and> probe_results \<noteq> [] \<and> list_all pr_passed probe_results
                   \<and> list_all cr_passed correlations);
     Some (\<lparr>tr_name = rn_scenario run, tr_probes = probe_results, tr_correlations = correlations,
            tr_passed = passed, tr_run_error = run_error\<rparr>, s2)
   }"

fun keep_probed :: "file_system \<Rightarrow> (string + string) list \<Rightarrow> string + string list" where
  "keep_probed fs [] = Inr []"
| "keep_probed fs (Inl e # es) = Inl e"
| "keep_probed fs (Inr path # es) =
     (if file_extension path \<noteq> Some ''toml'' then keep_probed fs es
      else case parse_probes fs path of
             Inl e \<Rightarrow> Inl e
           | Inr probes \<Rightarrow>
               (case keep_probed fs es of
                  Inl e \<Rightarrow> Inl e
                | Inr ps \<Rightarrow> Inr (if probes = [] then ps else path # ps)))"

definition discover_topology :: "file_system \<Rightarrow> string \<Rightarrow> string + string list" where
  "discover_topology fs dir =
     (case fs_read_dir fs dir of
        Inl e \<Rightarrow> Inl e
      | Inr entries \<Rightarrow> (case keep_probed fs entries of Inl e \<Rightarrow> Inl e | Inr ps \<Rightarrow> Inr (sort ps)))"

definition run_topology ::
  "'o os \<Rightarrow> 'o temp_files \<Rightarrow> file_system \<Rightarrow> string \<Rightarrow> string \<Rightarrow> nat \<Rightarrow> 'o \<Rightarrow>
   (string + topology_result list) option" where
  "run_topology os tf fs bin dir timeout s =
     (case discover_topology fs dir of
        Inl e \<Rightarrow> Some (Inl e)
      | Inr scenarios \<Rightarrow> do {
          (results, _) \<leftarrow> run_each (run_topology_scenario os tf fs bin timeout) scenarios s;
          Some (Inr results)
        })"

subsection \<open>What the lane decides\<close>

text \<open>The receptions of an identifier in a trace, in order.\<close>

definition receptions :: "string list \<Rightarrow> u32 \<Rightarrow> u64 list" where
  "receptions trace i = map fst (filter (\<lambda>p. snd p = i) (List.map_filter parse_can_rx trace))"

lemma receptions_snoc:
  "receptions (ls @ [l]) i = receptions ls i @
     (case parse_can_rx l of Some (r, j) \<Rightarrow> if j = i then [r] else [] | None \<Rightarrow> [])"
  by (simp add: receptions_def map_filter_def split: option.splits)

lemma count_reception_tally:
  "(case map_of (foldl count_reception [] ls) i of Some m \<Rightarrow> m | None \<Rightarrow> []) = tally (receptions ls i)"
proof (induction ls arbitrary: i rule: rev_induct)
  case Nil
  show ?case by (simp add: receptions_def tally_def map_filter_def)
next
  case (snoc l ls)
  show ?case
  proof (cases "parse_can_rx l")
    case None
    then show ?thesis using snoc by (simp add: count_reception_def receptions_snoc)
  next
    case (Some rj)
    obtain r j where "rj = (r, j)" by (cases rj)
    with Some snoc [of i] snoc [of j] show ?thesis
      by (simp add: count_reception_def receptions_snoc map_of_btree_insert tally_snoc)
  qed
qed

lemma insort_insert_strict: "sorted_wrt (<) xs \<Longrightarrow> sorted_wrt (<) (insort_insert x xs)" for x :: u64
  by (simp add: strict_sorted_iff sorted_insort_insert distinct_insort_insert)

lemma insert_receiver_sorted: "sorted_wrt (<) xs \<Longrightarrow> sorted_wrt (<) (foldl insert_receiver xs ps)"
  by (induction ps arbitrary: xs)
    (auto simp: insert_receiver_def Let_def intro: insort_insert_strict split: option.split)

lemma probe_token_sorted:
  "sorted_wrt (<) (snd (snd st)) \<Longrightarrow> sorted_wrt (<) (snd (snd (foldl probe_token st toks)))"
  by (induction toks arbitrary: st)
    (auto simp: probe_token_def case_prod_beta insert_receiver_sorted split: option.split)

lemma parse_probe_line_sorted: "parse_probe_line line = Some p \<Longrightarrow> sorted_wrt (<) (pb_expect p)"
  using probe_token_sorted [of "(None, [], [])"]
  by (fastforce simp: parse_probe_line_def bind_eq_Some_conv case_prod_beta)

lemma parse_probes_sorted:
  assumes "parse_probes fs path = Inr ps" "p \<in> set ps"
  shows "sorted_wrt (<) (pb_expect p)"
proof -
  obtain line where "parse_probe_line line = Some p"
    using assms by (auto simp: parse_probes_def map_filter_def split: sum.splits)
  then show ?thesis by (rule parse_probe_line_sorted)
qed

definition delivered_once :: "string list \<Rightarrow> probe \<Rightarrow> bool" where
  "delivered_once trace p \<longleftrightarrow>
     (\<forall>r. count_list (receptions trace (pb_id p)) r = (if r \<in> set (pb_expect p) then 1 else 0))"

lemma evaluate_probe_exact:
  "sorted_wrt (<) (pb_expect p) \<Longrightarrow>
   pr_passed (evaluate_probe p (tally (receptions trace (pb_id p)))) \<longleftrightarrow> delivered_once trace p"
  using tally_exactly_once [of "pb_expect p" "receptions trace (pb_id p)"]
  by (simp add: evaluate_probe_def Let_def delivered_once_def)

text \<open>
  The records of a probe are sound when there are no deliveries for a probe nobody should receive,
  and otherwise one original send: every delivery that was not forwarded has the same correlation
  and source, a send has this correlation, every forwarded delivery names a delivered frame as its
  parent, and the destinations are the expected receivers, each once.
\<close>

definition one_send :: "probe \<Rightarrow> v2_edge list \<Rightarrow> bool" where
  "one_send p edges \<longleftrightarrow>
     (let rx = edges_of ''rx'' p edges; roots = filter (\<lambda>e. ve_parent_id e = 0) rx
      in if pb_expect p = [] then rx = []
         else (\<exists>corr source.
                 set (map ve_correlation_id roots) = {corr} \<and> set (map ve_source roots) = {source} \<and>
                 corr \<in> ve_correlation_id ` set (edges_of ''tx'' p edges)) \<and>
              ve_parent_id ` set rx \<subseteq> insert 0 (ve_correlation_id ` set rx) \<and>
              set (map ve_destination rx) = set (pb_expect p) \<and> distinct (map ve_destination rx))"

lemma length_btree_set: "length (btree_set xs) = 1 \<longleftrightarrow> (\<exists>x. set xs = {x})"
  by (simp add: btree_set_eq card_1_singleton_iff)

lemma singleton_roots:
  "(\<exists>x. A = {x}) \<and> (\<exists>y. B = {y}) \<and> (\<exists>e\<in>T. f e \<in> A) \<longleftrightarrow> (\<exists>x y. A = {x} \<and> B = {y} \<and> x \<in> f ` T)"
  by (auto simp: image_iff)

lemma evaluate_correlation_exact:
  assumes "sorted_wrt (<) (pb_expect p)"
  shows "cr_passed (evaluate_correlation p edges) \<longleftrightarrow> one_send p edges"
proof (cases "pb_expect p = []")
  case True
  then show ?thesis by (simp add: evaluate_correlation_def one_send_def Let_def)
next
  case False
  let ?rx = "edges_of ''rx'' p edges" and ?tx = "edges_of ''tx'' p edges"
  let ?roots = "filter (\<lambda>e. ve_parent_id e = 0) ?rx"
  have tx: "(length (btree_set (map ve_correlation_id ?roots)) = 1 \<and>
      length (btree_set (map ve_source ?roots)) = 1 \<and>
      list_ex (\<lambda>e. ve_correlation_id e \<in> set (btree_set (map ve_correlation_id ?roots))) ?tx) \<longleftrightarrow>
    (\<exists>corr source. set (map ve_correlation_id ?roots) = {corr} \<and> set (map ve_source ?roots) = {source} \<and>
       corr \<in> ve_correlation_id ` set ?tx)"
    unfolding length_btree_set set_btree_set list_ex_iff by (rule singleton_roots)
  have causal: "list_all (\<lambda>e. ve_parent_id e = 0 \<or> ve_parent_id e \<in> set (btree_set (map ve_correlation_id ?rx))) ?rx
      \<longleftrightarrow> ve_parent_id ` set ?rx \<subseteq> insert 0 (ve_correlation_id ` set ?rx)"
    by (auto simp: list_all_iff)
  have rx: "?rx \<noteq> []" if "set (map ve_destination ?rx) = set (pb_expect p)" using that False by auto
  have "cr_passed (evaluate_correlation p edges) \<longleftrightarrow> ?rx \<noteq> [] \<and>
      (length (btree_set (map ve_correlation_id ?roots)) = 1 \<and>
       length (btree_set (map ve_source ?roots)) = 1 \<and>
       list_ex (\<lambda>e. ve_correlation_id e \<in> set (btree_set (map ve_correlation_id ?roots))) ?tx) \<and>
      list_all (\<lambda>e. ve_parent_id e = 0 \<or> ve_parent_id e \<in> set (btree_set (map ve_correlation_id ?rx))) ?rx \<and>
      btree_set (map ve_destination ?rx) = pb_expect p \<and>
      list_all (\<lambda>c. c = 1) (map snd (tally (map ve_destination ?rx)))"
    using False unfolding evaluate_correlation_def Let_def by (simp del: length_0_conv) blast
  then show ?thesis
    using False rx unfolding tx causal btree_set_eq_iff [OF assms] tally_ones one_send_def Let_def by auto
qed

text \<open>The verdict on a scenario, as its two runs and the conditions on what they trace.\<close>

definition topology_accepted ::
  "'o os \<Rightarrow> 'o temp_files \<Rightarrow> file_system \<Rightarrow> string \<Rightarrow> nat \<Rightarrow> string \<Rightarrow> 'o \<Rightarrow> (bool \<times> 'o) option" where
  "topology_accepted os tf fs bin timeout scenario s =
   do { (run, s1) \<leftarrow> runner_run_scenario os bin scenario timeout s;
        if rn_status run \<noteq> RPass then Some (False, s1)
        else do {
          (edges, s2) \<leftarrow> run_scenario_v2 os tf bin scenario timeout s1;
          Some (\<exists>p ps. parse_probes fs scenario = Inr (p # ps) \<and>
                  list_all (\<lambda>p. delivered_once (rn_trace run) p \<and> one_send p edges) (p # ps), s2) } }"

lemma run_topology_accepted:
  "verdict_by tr_passed (run_topology_scenario os tf fs bin timeout) = topology_accepted os tf fs bin timeout"
proof (intro ext)
  fix scenario s
  define probes where "probes = (case parse_probes fs scenario of Inr ps \<Rightarrow> ps | Inl e \<Rightarrow> [])"
  have sorted: "sorted_wrt (<) (pb_expect p)" if "p \<in> set probes" for p
    using that by (auto simp: probes_def split: sum.splits dest: parse_probes_sorted [OF sym])
  have some: "(\<exists>p ps. parse_probes fs scenario = Inr (p # ps) \<and> list_all P (p # ps)) \<longleftrightarrow>
      probes \<noteq> [] \<and> list_all P probes" for P
    by (cases probes) (auto simp: probes_def split: sum.splits)
  have verdict: "list_all pr_passed (map (\<lambda>p. evaluate_probe p (tally (receptions trace (pb_id p)))) probes) \<and>
      list_all cr_passed (map (\<lambda>p. evaluate_correlation p edges) probes) \<longleftrightarrow>
      list_all (\<lambda>p. delivered_once trace p \<and> one_send p edges) probes" for trace edges
    using sorted evaluate_probe_exact evaluate_correlation_exact by (auto simp: list_all_iff)
  show "verdict_by tr_passed (run_topology_scenario os tf fs bin timeout) scenario s =
      topology_accepted os tf fs bin timeout scenario s"
    unfolding verdict_by_def topology_accepted_def some verdict [symmetric] run_topology_scenario_def probes_def [symmetric]
    by (cases "runner_run_scenario os bin scenario timeout s")
      (auto simp: run_error_of_def Let_def count_reception_tally split: Option.bind_splits)
qed

text \<open>
  A topology scenario passes exactly when its run passed, its file declares a probe, and
  for every probe each machine received the frame exactly once if it is expected to and never
  otherwise, and the records of the second run show one original send with its deliveries. The
  second run takes place exactly when the first one passed.
\<close>

theorem topology_verdict:
  "map_option (\<lambda>(r, s'). (tr_passed r, s')) (run_topology_scenario os tf fs bin timeout scenario s) =
   do { (run, s1) \<leftarrow> runner_run_scenario os bin scenario timeout s;
        if rn_status run \<noteq> RPass then Some (False, s1)
        else do {
          (edges, s2) \<leftarrow> run_scenario_v2 os tf bin scenario timeout s1;
          Some (\<exists>p ps. parse_probes fs scenario = Inr (p # ps) \<and>
                  list_all (\<lambda>p. delivered_once (rn_trace run) p \<and> one_send p edges) (p # ps), s2) } }"
  using run_topology_accepted [of os tf fs bin timeout, THEN fun_cong, THEN fun_cong, of scenario s]
  unfolding verdict_by_def topology_accepted_def .

end
