(* ===== verification/Telematics_Lane.thy ===== *)
theory Telematics_Lane
  imports Lane
begin

text \<open>
  \<^verbatim>\<open>dogfood/src/telematics.rs\<close>: the telematics lane, five fixed checks on the events the telematics ECU
  traces. Results and report are those of \<open>Lane\<close>; the file has its own parser of user events and its
  own discovery, which passes over entries that cannot be read. Summing the received bytes can
  overflow, which is a panic: \<open>None\<close>.
\<close>

definition STATUS_RECORD_BYTES :: u32 where "STATUS_RECORD_BYTES = 11"
definition MIN_EXPECTED_RECORDS :: u32 where "MIN_EXPECTED_RECORDS = 10"

record telem_trace =
  tt_label :: string
  tt_value :: u32

subsection \<open>Trace parsing\<close>

definition split_label_eq :: "string \<Rightarrow> (string \<times> string) option" where
  "split_label_eq s = do {
     (before, after) \<leftarrow> split_once s ''='';
     label \<leftarrow> unquote (trim before);
     Some (label, trim after)
   }"

definition parse_user_u32 :: "string \<Rightarrow> (u64 \<times> telem_trace) option" where
  "parse_user_u32 str = do {
     let line = trim str;
     rest \<leftarrow> strip_prefix line ''[machine.'';
     (machine_s, rest) \<leftarrow> split_once rest '']'';
     machine_id \<leftarrow> parse_u64 machine_s;
     let after = trim_start rest;
     (_, parts) \<leftarrow> split_once after '' '';
     (kind, remainder) \<leftarrow> split_once parts '' '';
     if kind \<noteq> ''user-u32'' then None
     else do {
       (label, val_str) \<leftarrow> split_label_eq remainder;
       value \<leftarrow> parse_u32 (trim val_str);
       Some (machine_id, \<lparr>tt_label = label, tt_value = value\<rparr>)
     }
   }"

definition collect_telem_traces :: "string list \<Rightarrow> u64 \<Rightarrow> telem_trace list" where
  "collect_telem_traces trace_lines machine_id =
     map snd (filter (\<lambda>p. fst p = machine_id) (List.map_filter parse_user_u32 trace_lines))"

definition label_values :: "telem_trace list \<Rightarrow> string \<Rightarrow> u32 list" where
  "label_values traces label = map tt_value (filter (\<lambda>t. tt_label t = label) traces)"

subsection \<open>The checks\<close>

definition show_word :: "u32 \<Rightarrow> string" where
  "show_word x = show_nat (unat x)"

definition check_booted :: "telem_trace list \<Rightarrow> lane_check" where
  "check_booted traces =
     (case label_values traces ''telematics_boot'' of
        [] \<Rightarrow> mk_check ''telematics_booted'' False ''no telematics_boot event found''
      | b # _ \<Rightarrow> mk_check ''telematics_booted'' (b = 1) (''telematics_boot = '' @ show_word b))"

definition check_heartbeat_monotonic :: "telem_trace list \<Rightarrow> lane_check" where
  "check_heartbeat_monotonic traces =
     (let hb = label_values traces ''telem_hb''
      in if hb = [] then mk_check ''heartbeat_monotonic'' False ''no telem_hb events found''
         else
           (let ticks = filter (\<lambda>v. v > 0) hb
            in if ticks = [] then
                 mk_check ''heartbeat_monotonic'' False
                   ''only boot-time heartbeat (0); no periodic ticks found''
               else
                 mk_check ''heartbeat_monotonic'' (successively (<) ticks)
                   (show_nat (length ticks) @ '' heartbeat ticks: '' @ show_word (hd ticks) @ ''..'' @
                    show_word (last ticks))))"

definition check_send_record_size :: "telem_trace list \<Rightarrow> lane_check" where
  "check_send_record_size traces =
     (let sent = label_values traces ''telem_net_sent''
      in if sent = [] then mk_check ''send_record_size'' False ''no telem_net_sent events found''
         else
           (let all_11 = list_all (\<lambda>s. s = STATUS_RECORD_BYTES) sent;
                bad = filter (\<lambda>s. s \<noteq> STATUS_RECORD_BYTES) sent
            in mk_check ''send_record_size'' all_11
                 (if all_11 then
                    show_nat (length sent) @ '' sends '' @ [CHR 0xC3, CHR 0x97] @ '' '' @
                    show_word STATUS_RECORD_BYTES @ '' bytes each''
                  else
                    show_nat (length (filter (\<lambda>s. s = STATUS_RECORD_BYTES) sent)) @ ''/'' @
                    show_nat (length sent) @ '' sends at '' @ show_word STATUS_RECORD_BYTES @
                    '' bytes; unexpected: '' @ show_list show_word bad)))"

definition check_minimum_record_count :: "telem_trace list \<Rightarrow> lane_check" where
  "check_minimum_record_count traces =
     (let sent = label_values traces ''telem_net_sent'';
          n = (of_nat (length sent) :: u32)
      in mk_check ''minimum_records'' (n \<ge> MIN_EXPECTED_RECORDS)
           (show_word n @ '' records sent (minimum '' @ show_word MIN_EXPECTED_RECORDS @ '')''))"

fun sum_u32 :: "u32 \<Rightarrow> u32 list \<Rightarrow> u32 option" where
  "sum_u32 acc [] = Some acc"
| "sum_u32 acc (x # xs) = do { a \<leftarrow> uadd acc x; sum_u32 a xs }"

definition check_recv_non_decreasing :: "telem_trace list \<Rightarrow> lane_check option" where
  "check_recv_non_decreasing traces =
     (let recv = label_values traces ''telem_net_recv''
      in if recv = [] then
           Some (mk_check ''recv_non_decreasing'' True ''no received frames (skipped)'')
         else do {
           let non_decreasing = successively (\<lambda>a b. b \<ge> a) recv;
           total \<leftarrow> sum_u32 0 recv;
           Some (mk_check ''recv_non_decreasing'' non_decreasing
             (show_nat (length recv) @ '' recv events, total '' @ show_word total @
              '' bytes (non-decreasing: '' @ show_bool non_decreasing @ '')''))
         })"

definition check_all_telematics :: "telem_trace list \<Rightarrow> lane_check list option" where
  "check_all_telematics traces = do {
     recv \<leftarrow> check_recv_non_decreasing traces;
     Some [check_booted traces, check_heartbeat_monotonic traces, check_send_record_size traces,
           check_minimum_record_count traces, recv]
   }"

subsection \<open>Running the lane\<close>

definition entry_path :: "string + string \<Rightarrow> string option" where
  "entry_path e = (case e of Inr p \<Rightarrow> Some p | Inl err \<Rightarrow> None)"

definition discover_telematics :: "file_system \<Rightarrow> string \<Rightarrow> string + string list" where
  "discover_telematics fs dir =
     (case fs_read_dir fs dir of
        Inl e \<Rightarrow> Inl e
      | Inr entries \<Rightarrow>
          Inr (sort (filter (\<lambda>p. file_extension p = Some ''toml'') (List.map_filter entry_path entries))))"

fun status_debug :: "run_status \<Rightarrow> string" where
  "status_debug RPass = ''Pass''"
| "status_debug RFail = ''Fail''"
| "status_debug RTimeout = ''Timeout''"
| "status_debug RPanic = ''Panic''"

definition run_telematics_scenario ::
  "'o os \<Rightarrow> string \<Rightarrow> nat \<Rightarrow> string \<Rightarrow> 'o \<Rightarrow> (lane_result \<times> 'o) option" where
  "run_telematics_scenario os bin timeout scenario s = do {
     let name = scenario_name scenario;
     (run, s1) \<leftarrow> runner_run_scenario os bin scenario timeout s;
     if rn_status run \<noteq> RPass then
       (let detail = (if rn_stderr_tail run = [] then status_debug (rn_status run)
                      else last (rn_stderr_tail run))
        in Some (\<lparr>lr_name = name, lr_passed = False, lr_run_error = Some detail, lr_checks = []\<rparr>, s1))
     else do {
       let traces = collect_telem_traces (rn_trace run) 1;
       checks \<leftarrow> check_all_telematics traces;
       Some (\<lparr>lr_name = name, lr_passed = list_all ck_passed checks, lr_run_error = None,
              lr_checks = checks\<rparr>, s1)
     }
   }"

definition run_telematics ::
  "'o os \<Rightarrow> file_system \<Rightarrow> string \<Rightarrow> string \<Rightarrow> nat \<Rightarrow> 'o \<Rightarrow> (string + lane_result list) option" where
  "run_telematics os fs bin dir timeout s =
     (case discover_telematics fs dir of
        Inl e \<Rightarrow> Some (Inl e)
      | Inr scenarios \<Rightarrow> do {
          (results, _) \<leftarrow> run_each (run_telematics_scenario os bin timeout) scenarios s;
          Some (Inr results)
        })"

definition telematics_json :: "lane_result list \<Rightarrow> json" where
  "telematics_json report = lane_json ''telematics'' report"

subsection \<open>What the checks decide\<close>

lemma sum_u32_value:
  "sum_u32 acc xs = (if unat acc + sum_list (map unat xs) < 2 ^ 32
     then Some (acc + of_nat (sum_list (map unat xs))) else None)"
proof (induction xs arbitrary: acc)
  case Nil
  show ?case using unsigned_less [of acc, where ?'a = nat] by simp
next
  case (Cons x xs)
  show ?case
  proof (cases "unat acc + unat x < 2 ^ 32")
    case True
    then have u: "uadd acc x = Some (acc + x)" by (simp add: uadd_def)
    then have "unat (acc + x) = unat acc + unat x" by (rule uadd_Some)
    with u Cons [of "acc + x"] show ?thesis by (simp add: add_ac)
  next
    case False
    then show ?thesis by (simp add: uadd_def)
  qed
qed

text \<open>
  The meaning of the five checks, on the values traced under each label: the first boot event is
  1, the heartbeats after boot exist and increase strictly, every record has 11 bytes, there are
  ten records (of the count kept in 32 bits), and received counts never decrease.
\<close>

definition telematics_ok :: "(string \<Rightarrow> u32 list) \<Rightarrow> bool" where
  "telematics_ok v \<longleftrightarrow>
     (\<exists>more. v ''telematics_boot'' = 1 # more) \<and>
     filter (\<lambda>x. x > 0) (v ''telem_hb'') \<noteq> [] \<and> sorted_wrt (<) (filter (\<lambda>x. x > 0) (v ''telem_hb'')) \<and>
     set (v ''telem_net_sent'') = {11} \<and> 10 \<le> length (v ''telem_net_sent'') mod 2 ^ 32 \<and>
     sorted (v ''telem_net_recv'')"

lemma check_all_exact:
  assumes "sum_list (map unat (label_values tr ''telem_net_recv'')) < 2 ^ 32"
  shows "\<exists>checks. check_all_telematics tr = Some checks \<and>
     (list_all ck_passed checks \<longleftrightarrow> telematics_ok (label_values tr))"
proof -
  have boot: "ck_passed (check_booted tr) \<longleftrightarrow> (\<exists>more. label_values tr ''telematics_boot'' = 1 # more)"
    by (auto simp: check_booted_def split: list.split)
  have hb: "ck_passed (check_heartbeat_monotonic tr) \<longleftrightarrow>
      filter (\<lambda>x. x > 0) (label_values tr ''telem_hb'') \<noteq> [] \<and>
      sorted_wrt (<) (filter (\<lambda>x. x > 0) (label_values tr ''telem_hb''))"
    by (auto simp: check_heartbeat_monotonic_def Let_def successively_conv_sorted_wrt)
  have sent: "ck_passed (check_send_record_size tr) \<longleftrightarrow> set (label_values tr ''telem_net_sent'') = {11}"
    by (cases "label_values tr ''telem_net_sent''")
      (auto simp: check_send_record_size_def Let_def list_all_iff STATUS_RECORD_BYTES_def)
  have cnt: "ck_passed (check_minimum_record_count tr) \<longleftrightarrow>
      10 \<le> length (label_values tr ''telem_net_sent'') mod 2 ^ 32"
    by (simp add: check_minimum_record_count_def Let_def MIN_EXPECTED_RECORDS_def word_le_nat_alt
        unsigned_of_nat take_bit_eq_mod)
  obtain total where "sum_u32 0 (label_values tr ''telem_net_recv'') = Some total"
    using assms by (simp add: sum_u32_value)
  then have "map_option ck_passed (check_recv_non_decreasing tr) = Some (sorted (label_values tr ''telem_net_recv''))"
    by (simp add: check_recv_non_decreasing_def successively_conv_sorted_wrt Let_def)
  then obtain recv where "check_recv_non_decreasing tr = Some recv"
    "ck_passed recv \<longleftrightarrow> sorted (label_values tr ''telem_net_recv'')" by blast
  with boot hb sent cnt show ?thesis
    by (auto simp: check_all_telematics_def telematics_ok_def)
qed

lemma check_all_overflow:
  "\<not> sum_list (map unat (label_values tr ''telem_net_recv'')) < 2 ^ 32 \<Longrightarrow> check_all_telematics tr = None"
  by (auto simp: check_all_telematics_def check_recv_non_decreasing_def Let_def sum_u32_value)

text \<open>
  Claim C39. A telematics scenario passes exactly when its run passed and the values traced by
  machine 1 satisfy the five conditions. The judgement itself panics exactly when the run passed
  and the traced byte counts sum to more than 32 bits hold.
\<close>

theorem telematics_verdict:
  "map_option (\<lambda>(r, s'). (lr_passed r, s')) (run_telematics_scenario os bin timeout scenario s) =
   do { (run, s1) \<leftarrow> runner_run_scenario os bin scenario timeout s;
        let v = label_values (collect_telem_traces (rn_trace run) 1);
        if rn_status run \<noteq> RPass then Some (False, s1)
        else if sum_list (map unat (v ''telem_net_recv'')) < 2 ^ 32 then Some (telematics_ok v, s1)
        else None }"
proof (cases "runner_run_scenario os bin scenario timeout s")
  case None
  then show ?thesis by (simp add: run_telematics_scenario_def)
next
  case (Some rs)
  obtain run s1 where "rs = (run, s1)" by (cases rs)
  with Some show ?thesis
    using check_all_exact [of "collect_telem_traces (rn_trace run) 1"]
      check_all_overflow [of "collect_telem_traces (rn_trace run) 1"]
    by (auto simp: run_telematics_scenario_def Let_def)
qed

end
