(* ===== verification/Toml_Zoo.thy ===== *)
theory Toml_Zoo
  imports Lane
begin

text \<open>
  \<^verbatim>\<open>dogfood/src/toml_zoo.rs\<close>: the lane of malformed scenarios. A corpus file names the kind of error it
  must produce; the binary must report this kind on a structured line, exit with code 2 and not
  panic. A healthy scenario runs beside a malformed one; the two threads see the operating system
  through states of their own, of which nothing is assumed.
\<close>

definition ZOO_EXIT_SCENARIO_ERROR :: i32 where "ZOO_EXIT_SCENARIO_ERROR = 2"

record toml_zoo_case =
  tz_name :: string
  tz_path :: string
  tz_expected_kind :: string

record case_result =
  cs_name :: string
  cs_expected_kind :: string
  cs_actual_kind :: "string option"
  cs_status :: run_status
  cs_exit_code :: "i32 option"
  cs_passed :: bool
  cs_detail :: string

record sibling_isolation =
  si_healthy_scenario :: string
  si_healthy_status :: run_status
  si_bad_scenario :: string
  si_bad_status :: run_status
  si_bad_exit_code :: "i32 option"
  si_isolated :: bool

record toml_zoo_report =
  zr_cases :: "case_result list"
  zr_sibling :: "sibling_isolation option"

definition zoo_totals :: "toml_zoo_report \<Rightarrow> nat \<times> nat" where
  "zoo_totals r =
     (let passed = length (filter cs_passed (zr_cases r)) in (passed, length (zr_cases r) - passed))"

definition zoo_passed :: "toml_zoo_report \<Rightarrow> bool" where
  "zoo_passed r \<longleftrightarrow> zr_cases r \<noteq> [] \<and> list_all cs_passed (zr_cases r) \<and>
     (case zr_sibling r of Some s \<Rightarrow> si_isolated s | None \<Rightarrow> True)"

definition case_json :: "case_result \<Rightarrow> json" where
  "case_json c = JObj
     [(''name'', json_str (cs_name c)), (''expected_kind'', json_str (cs_expected_kind c)),
      (''actual_kind'', json_str (case cs_actual_kind c of Some k \<Rightarrow> k | None \<Rightarrow> [])),
      (''status'', json_str (status_as_str (cs_status c))),
      (''exit_code'',
         (case cs_exit_code c of
            Some code \<Rightarrow> if 0 \<le> sint code then JUInt (scast code) else json_str ''none''
          | None \<Rightarrow> json_str ''none'')),
      (''passed'', JBool (cs_passed c)), (''detail'', json_str (cs_detail c))]"

definition sibling_json :: "sibling_isolation \<Rightarrow> json" where
  "sibling_json s = JObj
     [(''healthy_scenario'', json_str (si_healthy_scenario s)),
      (''healthy_status'', json_str (status_as_str (si_healthy_status s))),
      (''bad_scenario'', json_str (si_bad_scenario s)),
      (''bad_status'', json_str (status_as_str (si_bad_status s))),
      (''isolated'', JBool (si_isolated s))]"

definition zoo_json :: "toml_zoo_report \<Rightarrow> json" where
  "zoo_json r =
     (case zoo_totals r of (passed, failed) \<Rightarrow> JObj
        ([(''lane'', json_str ''toml_zoo''), (''passed'', JBool (zoo_passed r)),
          (''cases_passed'', JUInt (of_nat passed)), (''cases_failed'', JUInt (of_nat failed)),
          (''cases'', JArr (map case_json (zr_cases r)))] @
         (case zr_sibling r of Some s \<Rightarrow> [(''sibling_isolation'', sibling_json s)] | None \<Rightarrow> [])))"

subsection \<open>Kinds\<close>

definition expected_kind_line :: "string \<Rightarrow> string option" where
  "expected_kind_line line = do {
     rest \<leftarrow> strip_prefix (trim_start line) ''# expect-kind:'';
     let kind = trim rest;
     if kind \<noteq> [] then Some kind else None
   }"

definition parse_expected_kind :: "file_system \<Rightarrow> string \<Rightarrow> string option" where
  "parse_expected_kind fs path =
     (case fs_read_to_string fs path of
        Inl e \<Rightarrow> None
      | Inr content \<Rightarrow> first_some (map expected_kind_line (lines content)))"

definition error_kind_line :: "string \<Rightarrow> string option" where
  "error_kind_line line = do {
     (_, after) \<leftarrow> split_once line ''microcar: error ['';
     (kind, _) \<leftarrow> split_once after '']'';
     Some kind
   }"

definition parse_error_kind :: "scenario_run \<Rightarrow> string option" where
  "parse_error_kind run = first_some (map error_kind_line (rn_stderr_tail run))"

fun keep_cases :: "file_system \<Rightarrow> (string + string) list \<Rightarrow> string + toml_zoo_case list" where
  "keep_cases fs [] = Inr []"
| "keep_cases fs (Inl e # es) = Inl e"
| "keep_cases fs (Inr path # es) =
     (case keep_cases fs es of
        Inl e \<Rightarrow> Inl e
      | Inr cs \<Rightarrow>
          (if file_extension path \<noteq> Some ''toml'' then Inr cs
           else case parse_expected_kind fs path of
                  None \<Rightarrow> Inr cs
                | Some kind \<Rightarrow>
                    Inr (\<lparr>tz_name = scenario_name path, tz_path = path, tz_expected_kind = kind\<rparr> # cs)))"

definition discover_cases :: "file_system \<Rightarrow> string \<Rightarrow> string + toml_zoo_case list" where
  "discover_cases fs dir =
     (case fs_read_dir fs dir of
        Inl e \<Rightarrow> Inl e
      | Inr entries \<Rightarrow>
          (case keep_cases fs entries of Inl e \<Rightarrow> Inl e | Inr cs \<Rightarrow> Inr (sort_key tz_path cs)))"

subsection \<open>Judging\<close>

text \<open>The \<open>Debug\<close> form of a string: exact on ASCII; other bytes are printed as they are.\<close>

definition debug_char :: "char \<Rightarrow> string" where
  "debug_char c =
     (if c = CHR 0x22 then [CHR 0x5C, CHR 0x22]
      else if c = CHR 0x5C then [CHR 0x5C, CHR 0x5C]
      else if c = CHR 0x00 then [CHR 0x5C, CHR ''0'']
      else if c = CHR 0x09 then [CHR 0x5C, CHR ''t'']
      else if c = CHR 0x0A then [CHR 0x5C, CHR ''n'']
      else if c = CHR 0x0D then [CHR 0x5C, CHR ''r'']
      else if byte_of c < 0x20 \<or> byte_of c = 0x7F
      then [CHR 0x5C, CHR ''u'', CHR ''{''] @ show_hex (byte_of c) @ ''}''
      else [c])"

definition debug_str :: "string \<Rightarrow> string" where
  "debug_str s = [CHR 0x22] @ concat (map debug_char s) @ [CHR 0x22]"

definition show_code :: "i32 \<Rightarrow> string" where
  "show_code c = show_int (sint c)"

definition evaluate_case :: "toml_zoo_case \<Rightarrow> scenario_run \<Rightarrow> case_result" where
  "evaluate_case c run =
     (let actual_kind = parse_error_kind run;
          no_panic = (rn_status run \<noteq> RPanic);
          exit_ok = (rn_exit_code run = Some ZOO_EXIT_SCENARIO_ERROR);
          kind_ok = (actual_kind = Some (tz_expected_kind c));
          passed = (no_panic \<and> exit_ok \<and> kind_ok);
          detail =
            (if passed then
               ''structured error ['' @ tz_expected_kind c @ ''], exit '' @ show_code ZOO_EXIT_SCENARIO_ERROR
             else if \<not> no_panic then
               ''PANICKED (status='' @ status_as_str (rn_status run) @ '', exit='' @
               show_opt show_code (rn_exit_code run) @ ''); stderr: '' @
               (if rn_stderr_tail run = [] then [] else last (rn_stderr_tail run))
             else
               ''status='' @ status_as_str (rn_status run) @ '' exit='' @
               show_opt show_code (rn_exit_code run) @ '' kind='' @ show_opt debug_str actual_kind @
               ''; expected ['' @ tz_expected_kind c @ ''] with exit '' @ show_code ZOO_EXIT_SCENARIO_ERROR)
      in \<lparr>cs_name = tz_name c, cs_expected_kind = tz_expected_kind c, cs_actual_kind = actual_kind,
          cs_status = rn_status run, cs_exit_code = rn_exit_code run, cs_passed = passed,
          cs_detail = detail\<rparr>)"

text \<open>The states in which the two threads start, and what they leave, are their own.\<close>

definition run_sibling_isolation ::
  "'o os \<Rightarrow> string \<Rightarrow> string \<Rightarrow> string \<Rightarrow> nat \<Rightarrow> 'o \<Rightarrow> 'o \<Rightarrow> sibling_isolation option" where
  "run_sibling_isolation os bin healthy bad timeout sh sb = do {
     (h, _) \<leftarrow> runner_run_scenario os bin healthy timeout sh;
     (b, _) \<leftarrow> runner_run_scenario os bin bad timeout sb;
     let isolated = (rn_status h = RPass \<and> rn_status b \<noteq> RPanic
                     \<and> rn_exit_code b = Some ZOO_EXIT_SCENARIO_ERROR);
     Some \<lparr>si_healthy_scenario = rn_scenario h, si_healthy_status = rn_status h,
           si_bad_scenario = rn_scenario b, si_bad_status = rn_status b,
           si_bad_exit_code = rn_exit_code b, si_isolated = isolated\<rparr>
   }"

definition run_case ::
  "'o os \<Rightarrow> string \<Rightarrow> nat \<Rightarrow> toml_zoo_case \<Rightarrow> 'o \<Rightarrow> (case_result \<times> 'o) option" where
  "run_case os bin timeout c s = do {
     (run, s1) \<leftarrow> runner_run_scenario os bin (tz_path c) timeout s;
     Some (evaluate_case c run, s1)
   }"

text \<open>\<open>sib\<close> gives the states the sibling threads start in, from the state the cases leave.\<close>

definition run_toml_zoo ::
  "'o os \<Rightarrow> file_system \<Rightarrow> string \<Rightarrow> string \<Rightarrow> nat \<Rightarrow> string option \<Rightarrow> ('o \<Rightarrow> 'o \<times> 'o) \<Rightarrow> 'o \<Rightarrow>
   (string + toml_zoo_report) option" where
  "run_toml_zoo os fs bin dir timeout healthy sib s =
     (case discover_cases fs dir of
        Inl e \<Rightarrow> Some (Inl e)
      | Inr cases \<Rightarrow> do {
          (results, s1) \<leftarrow> run_each (run_case os bin timeout) cases s;
          sibling \<leftarrow> (case (healthy, cases) of
                        (Some h, bad # _) \<Rightarrow>
                          map_option Some (run_sibling_isolation os bin h (tz_path bad) timeout
                            (fst (sib s1)) (snd (sib s1)))
                      | _ \<Rightarrow> Some None);
          Some (Inr \<lparr>zr_cases = results, zr_sibling = sibling\<rparr>)
        })"

subsection \<open>What a case decides\<close>

lemma evaluate_case_passed:
  "cs_passed (evaluate_case c run) \<longleftrightarrow>
     rn_status run \<noteq> RPanic \<and> rn_exit_code run = Some 2 \<and> parse_error_kind run = Some (tz_expected_kind c)"
  by (simp add: evaluate_case_def Let_def ZOO_EXIT_SCENARIO_ERROR_def)

text \<open>The line the binary prints is read back, whatever its message.\<close>

lemma error_kind_line_printed:
  assumes "CHR '']'' \<notin> set kind"
  shows "error_kind_line (''microcar: error ['' @ kind @ '']: '' @ msg) = Some kind"
proof -
  have "split_once (''microcar: error ['' @ r) ''microcar: error ['' = Some ([], r)" for r
    by simp
  moreover have "split_once (kind @ CHR '']'' # '': '' @ msg) '']'' = Some (kind, '': '' @ msg)"
    using assms by (rule split_once_char)
  ultimately show ?thesis by (simp add: error_kind_line_def)
qed

end
