(* ===== verification/Simfarm.thy ===== *)
theory Simfarm
  imports Summary
begin

text \<open>
  \<^verbatim>\<open>dogfood/src/simfarm.rs\<close>: the same scenario run alone and many times at once, repeatedly, and beside
  a malformed one. Each thread sees the operating system through a state of its own, of which
  nothing is assumed, so every interleaving of the children is covered; a report exists when every
  thread returns. The properties give the three verdicts.
\<close>

record run_hash =
  rh_hash :: string
  rh_status :: run_status
  rh_wall_ms :: nat

definition rh_from_run :: "scenario_run \<Rightarrow> run_hash" where
  "rh_from_run run = \<lparr>rh_hash = normalized_hash (rn_trace run), rh_status = rn_status run,
                      rh_wall_ms = wall_ms run\<rparr>"

definition run_hash_json :: "run_hash \<Rightarrow> json" where
  "run_hash_json r = JObj
     [(''hash'', json_str (rh_hash r)), (''status'', json_str (status_as_str (rh_status r))),
      (''wall_ms'', JUInt (of_nat (rh_wall_ms r)))]"

record simfarm_report =
  sf_scenario :: string
  sf_n :: nat
  sf_solo_hash :: string
  sf_concurrent :: "run_hash list"
  sf_all_match :: bool
  sf_all_clean :: bool

definition simfarm_passed :: "simfarm_report \<Rightarrow> bool" where
  "simfarm_passed r \<longleftrightarrow> sf_all_match r \<and> sf_all_clean r"

definition simfarm_json :: "simfarm_report \<Rightarrow> json" where
  "simfarm_json r = JObj
     [(''lane'', json_str ''simfarm''), (''scenario'', json_str (sf_scenario r)),
      (''n'', JUInt (of_nat (sf_n r))), (''solo_hash'', json_str (sf_solo_hash r)),
      (''concurrent'', JArr (map run_hash_json (sf_concurrent r))),
      (''all_match'', JBool (sf_all_match r)), (''all_clean'', JBool (sf_all_clean r)),
      (''passed'', JBool (simfarm_passed r))]"

record churn_report =
  ch_scenario :: string
  ch_iterations :: nat
  ch_first_hash :: string
  ch_distinct_hashes :: nat
  ch_clean :: nat
  ch_stable :: bool

definition churn_passed :: "churn_report \<Rightarrow> bool" where
  "churn_passed r = ch_stable r"

definition churn_json :: "churn_report \<Rightarrow> json" where
  "churn_json r = JObj
     [(''lane'', json_str ''churn''), (''scenario'', json_str (ch_scenario r)),
      (''iterations'', JUInt (of_nat (ch_iterations r))), (''first_hash'', json_str (ch_first_hash r)),
      (''distinct_hashes'', JUInt (of_nat (ch_distinct_hashes r))),
      (''clean'', JUInt (of_nat (ch_clean r))), (''stable'', JBool (ch_stable r)),
      (''passed'', JBool (churn_passed r))]"

record panic_isolation_report =
  pi_healthy_scenario :: string
  pi_bad_scenario :: string
  pi_healthy_status :: run_status
  pi_healthy_hash :: string
  pi_healthy_solo_hash :: string
  pi_bad_status :: run_status
  pi_bad_exit_code :: "i32 option"
  pi_isolated :: bool

definition isolation_passed :: "panic_isolation_report \<Rightarrow> bool" where
  "isolation_passed r = pi_isolated r"

definition exit_code_json :: "i32 option \<Rightarrow> json" where
  "exit_code_json code =
     (case code of
        Some c \<Rightarrow> if 0 \<le> sint c then JUInt (scast c) else json_str (show_int (sint c))
      | None \<Rightarrow> json_str ''none'')"

definition isolation_json :: "panic_isolation_report \<Rightarrow> json" where
  "isolation_json r = JObj
     [(''lane'', json_str ''panic_isolation''), (''healthy_scenario'', json_str (pi_healthy_scenario r)),
      (''bad_scenario'', json_str (pi_bad_scenario r)),
      (''healthy_status'', json_str (status_as_str (pi_healthy_status r))),
      (''healthy_hash'', json_str (pi_healthy_hash r)),
      (''healthy_solo_hash'', json_str (pi_healthy_solo_hash r)),
      (''bad_status'', json_str (status_as_str (pi_bad_status r))),
      (''bad_exit_code'', exit_code_json (pi_bad_exit_code r)),
      (''isolated'', JBool (pi_isolated r)), (''passed'', JBool (isolation_passed r))]"

subsection \<open>The runs\<close>

text \<open>One thread per start state, joined in order.\<close>

fun run_concurrent ::
  "'o os \<Rightarrow> string \<Rightarrow> string \<Rightarrow> nat \<Rightarrow> 'o list \<Rightarrow> scenario_run list option" where
  "run_concurrent os bin scenario timeout [] = Some []"
| "run_concurrent os bin scenario timeout (s # ss) = do {
     (run, _) \<leftarrow> runner_run_scenario os bin scenario timeout s;
     runs \<leftarrow> run_concurrent os bin scenario timeout ss;
     Some (run # runs)
   }"

text \<open>\<open>start s i\<close> is the state the \<open>i\<close>-th thread starts in when the solo run leaves \<open>s\<close>.\<close>

definition run_simfarm ::
  "'o os \<Rightarrow> string \<Rightarrow> string \<Rightarrow> nat \<Rightarrow> nat \<Rightarrow> ('o \<Rightarrow> nat \<Rightarrow> 'o) \<Rightarrow> 'o \<Rightarrow> simfarm_report option" where
  "run_simfarm os bin scenario copies timeout start s = do {
     let n = max copies 1;
     (solo, s1) \<leftarrow> runner_run_scenario os bin scenario timeout s;
     let solo_hash = normalized_hash (rn_trace solo);
     runs \<leftarrow> run_concurrent os bin scenario timeout (map (start s1) [0..<n]);
     let concurrent = map rh_from_run runs;
     let all_match = list_all (\<lambda>r. rh_hash r = solo_hash) concurrent;
     let all_clean = (rn_status solo = RPass \<and> list_all (\<lambda>r. rh_status r = RPass) concurrent);
     Some \<lparr>sf_scenario = rn_scenario solo, sf_n = n, sf_solo_hash = solo_hash,
           sf_concurrent = concurrent, sf_all_match = all_match, sf_all_clean = all_clean\<rparr>
   }"

text \<open>The loop of \<open>run_churn\<close>: the last name, the number of clean runs, the hashes.\<close>

fun churn_loop ::
  "'o os \<Rightarrow> string \<Rightarrow> string \<Rightarrow> nat \<Rightarrow> nat \<Rightarrow> string \<times> nat \<times> string list \<Rightarrow> 'o \<Rightarrow>
   ((string \<times> nat \<times> string list) \<times> 'o) option" where
  "churn_loop os bin scenario timeout 0 acc s = Some (acc, s)"
| "churn_loop os bin scenario timeout (Suc k) (name, clean, hashes) s = do {
     (run, s1) \<leftarrow> runner_run_scenario os bin scenario timeout s;
     churn_loop os bin scenario timeout k
       (rn_scenario run, if rn_status run = RPass then clean + 1 else clean,
        hashes @ [normalized_hash (rn_trace run)]) s1
   }"

definition note_hash :: "string list \<Rightarrow> string \<Rightarrow> string list" where
  "note_hash seen h = (if h \<in> set seen then seen else seen @ [h])"

definition count_distinct :: "string list \<Rightarrow> nat" where
  "count_distinct hashes = length (foldl note_hash [] hashes)"

definition run_churn ::
  "'o os \<Rightarrow> string \<Rightarrow> string \<Rightarrow> nat \<Rightarrow> nat \<Rightarrow> 'o \<Rightarrow> (churn_report \<times> 'o) option" where
  "run_churn os bin scenario rounds timeout s = do {
     let iterations = max rounds 1;
     ((name, clean, hashes), s') \<leftarrow> churn_loop os bin scenario timeout iterations (scenario, 0, []) s;
     let first_hash = (case hashes of h # _ \<Rightarrow> h | [] \<Rightarrow> []);
     let distinct_hashes = count_distinct hashes;
     let stable = (clean = iterations \<and> distinct_hashes = 1);
     Some (\<lparr>ch_scenario = name, ch_iterations = iterations, ch_first_hash = first_hash,
            ch_distinct_hashes = distinct_hashes, ch_clean = clean, ch_stable = stable\<rparr>, s')
   }"

definition run_panic_isolation ::
  "'o os \<Rightarrow> string \<Rightarrow> string \<Rightarrow> string \<Rightarrow> nat \<Rightarrow> ('o \<Rightarrow> 'o \<times> 'o) \<Rightarrow> 'o \<Rightarrow> panic_isolation_report option"
  where
  "run_panic_isolation os bin healthy bad timeout start s = do {
     (solo, s1) \<leftarrow> runner_run_scenario os bin healthy timeout s;
     let solo_hash = normalized_hash (rn_trace solo);
     (healthy_run, _) \<leftarrow> runner_run_scenario os bin healthy timeout (fst (start s1));
     (bad_run, _) \<leftarrow> runner_run_scenario os bin bad timeout (snd (start s1));
     let healthy_hash = normalized_hash (rn_trace healthy_run);
     let isolated = (rn_status healthy_run = RPass \<and> healthy_hash = solo_hash
                     \<and> rn_status bad_run \<noteq> RPanic);
     Some \<lparr>pi_healthy_scenario = rn_scenario solo, pi_bad_scenario = rn_scenario bad_run,
           pi_healthy_status = rn_status healthy_run, pi_healthy_hash = healthy_hash,
           pi_healthy_solo_hash = solo_hash, pi_bad_status = rn_status bad_run,
           pi_bad_exit_code = rn_exit_code bad_run, pi_isolated = isolated\<rparr>
   }"

subsection \<open>What the reports decide\<close>

lemma note_hash_set: "set (foldl note_hash seen hs) = set seen \<union> set hs"
  by (induction hs arbitrary: seen) (auto simp: note_hash_def)

lemma note_hash_distinct: "distinct seen \<Longrightarrow> distinct (foldl note_hash seen hs)"
  by (induction hs arbitrary: seen) (auto simp: note_hash_def)

lemma count_distinct_card: "count_distinct hs = card (set hs)"
  using distinct_card [OF note_hash_distinct [of "[]" hs]] note_hash_set [of "[]" hs]
  by (simp add: count_distinct_def)

text \<open>The successive runs of a scenario, each from the state the one before left.\<close>

fun successive_runs ::
  "'o os \<Rightarrow> string \<Rightarrow> string \<Rightarrow> nat \<Rightarrow> nat \<Rightarrow> 'o \<Rightarrow> scenario_run list option" where
  "successive_runs os bin scenario timeout 0 s = Some []"
| "successive_runs os bin scenario timeout (Suc k) s = do {
     (run, s1) \<leftarrow> runner_run_scenario os bin scenario timeout s;
     runs \<leftarrow> successive_runs os bin scenario timeout k s1;
     Some (run # runs)
   }"

lemma successive_runs_length:
  "successive_runs os bin scenario timeout k s = Some runs \<Longrightarrow> length runs = k"
  by (induction k arbitrary: s runs) (auto simp: bind_eq_Some_conv)

lemma churn_loop_runs:
  "map_option (\<lambda>r. snd (fst r))
     (churn_loop os bin scenario timeout k (name, clean, hashes) s) =
   map_option (\<lambda>runs. (clean + length (filter (\<lambda>r. rn_status r = RPass) runs),
       hashes @ map (\<lambda>r. normalized_hash (rn_trace r)) runs))
     (successive_runs os bin scenario timeout k s)"
proof (induction k arbitrary: name clean hashes s)
  case (Suc k)
  show ?case
  proof (cases "runner_run_scenario os bin scenario timeout s")
    case (Some rs)
    obtain run s1 where rs: "rs = (run, s1)" by (cases rs)
    let ?runs = "successive_runs os bin scenario timeout k s1"
    have "map_option (\<lambda>r. snd (fst r))
        (churn_loop os bin scenario timeout (Suc k) (name, clean, hashes) s) =
      map_option (\<lambda>runs. ((if rn_status run = RPass then clean + 1 else clean) +
           length (filter (\<lambda>r. rn_status r = RPass) runs),
         (hashes @ [normalized_hash (rn_trace run)]) @ map (\<lambda>r. normalized_hash (rn_trace r)) runs)) ?runs"
      using Some rs Suc by simp
    also have "\<dots> = map_option (\<lambda>runs. (clean + length (filter (\<lambda>r. rn_status r = RPass) runs),
       hashes @ map (\<lambda>r. normalized_hash (rn_trace r)) runs))
     (successive_runs os bin scenario timeout (Suc k) s)"
      using Some rs by (cases ?runs) simp_all
    finally show ?thesis .
  qed simp
qed simp

text \<open>
  The churn check passes exactly when each of the successive runs (at least one) ended
  cleanly and all their normalised traces have the same hash; it returns exactly when every run
  does.
\<close>

theorem churn_verdict:
  "map_option (\<lambda>(r, s'). churn_passed r) (run_churn os bin scenario rounds timeout s) =
   map_option (\<lambda>runs. list_all (\<lambda>r. rn_status r = RPass) runs \<and>
       (\<exists>h. set (map (\<lambda>r. normalized_hash (rn_trace r)) runs) = {h}))
     (successive_runs os bin scenario timeout (max rounds 1) s)"
proof -
  let ?n = "max rounds 1"
  let ?loop = "churn_loop os bin scenario timeout ?n (scenario, 0, []) s"
  have "map_option (\<lambda>(r, s'). churn_passed r) (run_churn os bin scenario rounds timeout s) =
      map_option (\<lambda>(clean, hashes). clean = ?n \<and> (\<exists>h. set hashes = {h}))
        (map_option (\<lambda>r. snd (fst r)) ?loop)"
    by (cases ?loop) (auto simp: run_churn_def Let_def churn_passed_def count_distinct_card
        card_1_singleton_iff)
  also have "\<dots> = map_option (\<lambda>runs. length (filter (\<lambda>r. rn_status r = RPass) runs) = ?n \<and>
       (\<exists>h. set (map (\<lambda>r. normalized_hash (rn_trace r)) runs) = {h}))
     (successive_runs os bin scenario timeout ?n s)"
    unfolding churn_loop_runs by (simp add: option.map_comp comp_def)
  also have "\<dots> = map_option (\<lambda>runs. list_all (\<lambda>r. rn_status r = RPass) runs \<and>
       (\<exists>h. set (map (\<lambda>r. normalized_hash (rn_trace r)) runs) = {h}))
     (successive_runs os bin scenario timeout ?n s)"
  proof (rule option.map_cong0)
    fix runs assume "runs \<in> set_option (successive_runs os bin scenario timeout ?n s)"
    then have "length runs = ?n" by (simp add: successive_runs_length elem_set)
    then have "length (filter (\<lambda>r. rn_status r = RPass) runs) = ?n \<longleftrightarrow> list_all (\<lambda>r. rn_status r = RPass) runs"
      by (metis filter_True length_filter_less less_irrefl list_all_iff)
    then show "(length (filter (\<lambda>r. rn_status r = RPass) runs) = ?n \<and>
       (\<exists>h. set (map (\<lambda>r. normalized_hash (rn_trace r)) runs) = {h})) =
      (list_all (\<lambda>r. rn_status r = RPass) runs \<and>
       (\<exists>h. set (map (\<lambda>r. normalized_hash (rn_trace r)) runs) = {h}))" by simp
  qed
  finally show ?thesis .
qed

text \<open>
  The farm passes exactly when the solo run and every concurrent run ended cleanly with
  traces of one and the same hash, whatever states the threads start in; it returns exactly when
  all of the runs do.
\<close>

theorem simfarm_verdict:
  "map_option simfarm_passed (run_simfarm os bin scenario copies timeout start s) =
   do { (solo, s1) \<leftarrow> runner_run_scenario os bin scenario timeout s;
        runs \<leftarrow> run_concurrent os bin scenario timeout (map (start s1) [0..<max copies 1]);
        Some (list_all (\<lambda>r. rn_status r = RPass \<and>
                normalized_hash (rn_trace r) = normalized_hash (rn_trace solo)) (solo # runs)) }"
  by (cases "runner_run_scenario os bin scenario timeout s")
    (auto simp: run_simfarm_def Let_def simfarm_passed_def rh_from_run_def list_all_iff
      split: Option.bind_splits)

end
