(* ===== verification/Debug_Gym.thy ===== *)
theory Debug_Gym
  imports Summary Lane
begin

text \<open>
  \<^verbatim>\<open>dogfood/src/debug_gym.rs\<close>: a scenario is run to completion and event by event, and must give the
  same trace, stay before its deadline and never turn a clock back. The deadline is read from
  the text of the scenario, in milliseconds; its conversion to microseconds can overflow, which is
  a panic (\<open>None\<close>).
\<close>

record gym_result =
  gy_name :: string
  gy_stepped_equals_continuous :: bool
  gy_continuous_hash :: string
  gy_stepped_hash :: string
  gy_deadline :: "u64 option"
  gy_max_trace_time :: u64
  gy_no_overshoot :: bool
  gy_clock_monotonic :: bool
  gy_passed :: bool
  gy_detail :: string

definition gym_totals :: "gym_result list \<Rightarrow> nat \<times> nat" where
  "gym_totals scenarios =
     (let passed = length (filter gy_passed scenarios) in (passed, length scenarios - passed))"

definition gym_all_passed :: "gym_result list \<Rightarrow> bool" where
  "gym_all_passed scenarios \<longleftrightarrow> scenarios \<noteq> [] \<and> list_all gy_passed scenarios"

interpretation gym: judged_report gy_passed gym_totals gym_all_passed
  by unfold_locales (simp_all add: gym_totals_def gym_all_passed_def Let_def)

definition gym_result_json :: "gym_result \<Rightarrow> json" where
  "gym_result_json s = JObj
     [(''name'', json_str (gy_name s)),
      (''stepped_equals_continuous'', JBool (gy_stepped_equals_continuous s)),
      (''continuous_hash'', json_str (gy_continuous_hash s)),
      (''stepped_hash'', json_str (gy_stepped_hash s)),
      (''deadline'', (case gy_deadline s of Some d \<Rightarrow> JUInt (ucast d) | None \<Rightarrow> json_str ''none'')),
      (''max_trace_time'', JUInt (ucast (gy_max_trace_time s))),
      (''no_overshoot'', JBool (gy_no_overshoot s)),
      (''clock_monotonic'', JBool (gy_clock_monotonic s)),
      (''passed'', JBool (gy_passed s)), (''detail'', json_str (gy_detail s))]"

definition gym_json :: "gym_result list \<Rightarrow> json" where
  "gym_json scenarios =
     (case gym_totals scenarios of (passed, failed) \<Rightarrow> JObj
        [(''lane'', json_str ''debug_gym''), (''passed'', JBool (gym_all_passed scenarios)),
         (''scenarios_passed'', JUInt (of_nat passed)), (''scenarios_failed'', JUInt (of_nat failed)),
         (''scenarios'', JArr (map gym_result_json scenarios))])"

definition duration_line :: "string \<Rightarrow> u64 option" where
  "duration_line line = do {
     rest \<leftarrow> strip_prefix (trim_start line) ''duration_ms'';
     (_, val) \<leftarrow> split_once rest ''='';
     parse_u64 (trim val)
   }"

definition parse_duration_ms :: "file_system \<Rightarrow> string \<Rightarrow> u64 option" where
  "parse_duration_ms fs path =
     (case fs_read_to_string fs path of
        Inl e \<Rightarrow> None
      | Inr content \<Rightarrow> first_some (map duration_line (lines content)))"

text \<open>The time of a line, and the loop that keeps the largest.\<close>

definition line_time :: "string \<Rightarrow> u64 option" where
  "line_time line =
     (let t = trim_start line
      in if \<not> starts_with t ''[machine.'' then None
         else case split_whitespace t of
                _ # tok # _ \<Rightarrow> parse_u64 tok
              | _ \<Rightarrow> None)"

definition max_step :: "u64 \<Rightarrow> string \<Rightarrow> u64" where
  "max_step mx line = (case line_time line of Some v \<Rightarrow> if v > mx then v else mx | None \<Rightarrow> mx)"

definition max_trace_time :: "string list \<Rightarrow> u64" where
  "max_trace_time trace = foldl max_step 0 trace"

definition gym_deadline :: "file_system \<Rightarrow> string \<Rightarrow> u64 option option" where
  "gym_deadline fs scenario =
     (case parse_duration_ms fs scenario of
        None \<Rightarrow> Some None
      | Some ms \<Rightarrow> if unat ms * 1000 < 2 ^ 64 then Some (Some (ms * 1000)) else None)"

definition run_one ::
  "'o os \<Rightarrow> file_system \<Rightarrow> string \<Rightarrow> nat \<Rightarrow> string \<Rightarrow> 'o \<Rightarrow> (gym_result \<times> 'o) option" where
  "run_one os fs bin timeout scenario s = do {
     (continuous, s1) \<leftarrow> runner_run_scenario os bin scenario timeout s;
     (stepped, s2) \<leftarrow> run_scenario_args os bin scenario timeout [''--step''] s1;
     let continuous_hash = normalized_hash (rn_trace continuous);
     let stepped_hash = normalized_hash (rn_trace stepped);
     let clean = (rn_status continuous = RPass \<and> rn_status stepped = RPass);
     let same = (clean \<and> continuous_hash = stepped_hash);
     deadline \<leftarrow> gym_deadline fs scenario;
     let max_t = max_trace_time (rn_trace continuous);
     let no_overshoot = (case deadline of Some d \<Rightarrow> max_t \<le> d | None \<Rightarrow> True);
     let mono = virtual_time_monotonic continuous;
     let clock_monotonic = (ir_status mono \<noteq> CFail);
     let passed = (clean \<and> same \<and> no_overshoot \<and> clock_monotonic);
     let detail =
       (if passed then
          ''stepped==continuous (hash '' @ take (min (length continuous_hash) 12) continuous_hash @
          ''), max_time '' @ show_nat (unat max_t) @
          (case deadline of Some d \<Rightarrow> '' <= deadline '' @ show_nat (unat d) | None \<Rightarrow> []) @
          '', clock monotonic''
        else if \<not> clean then
          ''run not clean: continuous='' @ status_as_str (rn_status continuous) @ '' stepped='' @
          status_as_str (rn_status stepped)
        else if \<not> same then
          ''stepped != continuous ('' @ stepped_hash @ '' vs '' @ continuous_hash @ '')''
        else if \<not> no_overshoot then
          ''run_until overshoot: max_time '' @ show_nat (unat max_t) @ '' > deadline '' @
          show_opt (\<lambda>d. show_nat (unat d)) deadline
        else ''clock moved backward: '' @ ir_message mono);
     Some (\<lparr>gy_name = rn_scenario continuous, gy_stepped_equals_continuous = same,
            gy_continuous_hash = continuous_hash, gy_stepped_hash = stepped_hash,
            gy_deadline = deadline, gy_max_trace_time = max_t, gy_no_overshoot = no_overshoot,
            gy_clock_monotonic = clock_monotonic, gy_passed = passed, gy_detail = detail\<rparr>, s2)
   }"

definition run_debug_gym ::
  "'o os \<Rightarrow> file_system \<Rightarrow> string \<Rightarrow> string list \<Rightarrow> nat \<Rightarrow> 'o \<Rightarrow> (gym_result list \<times> 'o) option" where
  "run_debug_gym os fs bin scenarios timeout s = run_each (run_one os fs bin timeout) scenarios s"

subsection \<open>What the lane decides\<close>

lemma max_step_le:
  "max_step mx l \<le> d \<longleftrightarrow> mx \<le> d \<and> (case line_time l of Some v \<Rightarrow> v \<le> d | None \<Rightarrow> True)"
  by (auto simp: max_step_def split: option.split)

lemma max_step_fold: "foldl max_step mx ls \<le> d \<longleftrightarrow> mx \<le> d \<and> list_all (\<lambda>t. t \<le> d) (List.map_filter line_time ls)"
proof (induction ls arbitrary: mx)
  case (Cons l ls)
  have "foldl max_step (max_step mx l) ls \<le> d \<longleftrightarrow>
      max_step mx l \<le> d \<and> list_all (\<lambda>t. t \<le> d) (List.map_filter line_time ls)"
    by (rule Cons)
  then show ?case
    by (cases "line_time l") (simp_all add: max_step_le map_filter_simps conj_ac)
qed (simp add: map_filter_simps)

lemma max_trace_time_le:
  "max_trace_time trace \<le> d \<longleftrightarrow> list_all (\<lambda>t. t \<le> d) (List.map_filter line_time trace)"
  by (simp add: max_trace_time_def max_step_fold)

definition within_deadline :: "u64 option \<Rightarrow> string list \<Rightarrow> bool" where
  "within_deadline deadline trace =
     (case deadline of Some d \<Rightarrow> list_all (\<lambda>t. t \<le> d) (List.map_filter line_time trace) | None \<Rightarrow> True)"

text \<open>The verdict on a scenario, as its two runs and the conditions on their traces.\<close>

definition gym_accepted ::
  "'o os \<Rightarrow> file_system \<Rightarrow> string \<Rightarrow> nat \<Rightarrow> string \<Rightarrow> 'o \<Rightarrow> (bool \<times> 'o) option" where
  "gym_accepted os fs bin timeout scenario s =
   do { (continuous, s1) \<leftarrow> runner_run_scenario os bin scenario timeout s;
        (stepped, s2) \<leftarrow> run_scenario_args os bin scenario timeout [''--step''] s1;
        deadline \<leftarrow> gym_deadline fs scenario;
        Some (rn_status continuous = RPass \<and> rn_status stepped = RPass \<and>
              normalized_hash (rn_trace continuous) = normalized_hash (rn_trace stepped) \<and>
              within_deadline deadline (rn_trace continuous) \<and>
              (\<forall>m. segmented (times_of m (rn_trace continuous))), s2) }"

lemma run_one_accepted: "verdict_by gy_passed (run_one os fs bin timeout) = gym_accepted os fs bin timeout"
proof (intro ext)
  fix scenario s
  have mono: "ir_status (virtual_time_monotonic run) \<noteq> CFail \<longleftrightarrow> (\<forall>m. segmented (times_of m (rn_trace run)))"
    for run by (simp add: virtual_time_status)
  have dl: "(case d of Some d \<Rightarrow> max_trace_time tr \<le> d | None \<Rightarrow> True) = within_deadline d tr" for d tr
    by (simp add: within_deadline_def max_trace_time_le split: option.split)
  show "verdict_by gy_passed (run_one os fs bin timeout) scenario s = gym_accepted os fs bin timeout scenario s"
    unfolding verdict_by_def gym_accepted_def run_one_def
    by (cases "runner_run_scenario os bin scenario timeout s")
      (auto simp: Let_def mono dl split: Option.bind_splits)
qed

text \<open>
  A scenario passes the gym exactly when the run to completion and the run event by
  event both end cleanly with the same trace hash, no traced time lies beyond the deadline, and
  each machine's times decrease only by restarting at or below all of its earlier ones. The gym
  returns exactly when both runs do and the deadline does not overflow.
\<close>

theorem debug_gym_verdict:
  "map_option (\<lambda>(r, s'). (gy_passed r, s')) (run_one os fs bin timeout scenario s) =
   do { (continuous, s1) \<leftarrow> runner_run_scenario os bin scenario timeout s;
        (stepped, s2) \<leftarrow> run_scenario_args os bin scenario timeout [''--step''] s1;
        deadline \<leftarrow> gym_deadline fs scenario;
        Some (rn_status continuous = RPass \<and> rn_status stepped = RPass \<and>
              normalized_hash (rn_trace continuous) = normalized_hash (rn_trace stepped) \<and>
              within_deadline deadline (rn_trace continuous) \<and>
              (\<forall>m. segmented (times_of m (rn_trace continuous))), s2) }"
  using run_one_accepted [of os fs bin timeout, THEN fun_cong, THEN fun_cong, of scenario s]
  unfolding verdict_by_def gym_accepted_def .

end
