(* ===== verification/Debug_Gym_Corpus.thy ===== *)
theory Debug_Gym_Corpus
  imports Topology_Lane
begin

unbundle bit_operations_syntax

text \<open>
  \<^verbatim>\<open>dogfood/src/debug_gym_corpus.rs\<close>: the corpus of seeded bugs. A seed pairs a scenario that runs a
  buggy firmware with one that runs the correct firmware; it passes when the documented symptom
  shows in the first trace, the correct behaviour in the second, and the traces differ at the
  documented point. The trace parser and the trace queries are those of \<open>Lane\<close>, whose source has
  the same text. The properties give the verdict of a seed and of the corpus by conditions on the
  two traces, and show that two equal traces never pass.
\<close>

subsection \<open>Constants and decoding\<close>

definition CORPUS_NODE_GATEWAY :: u64 where "CORPUS_NODE_GATEWAY = 1"
definition CORPUS_NODE_POWERTRAIN :: u64 where "CORPUS_NODE_POWERTRAIN = 2"
definition CORPUS_READ_DTCS :: u8 where "CORPUS_READ_DTCS = 3"
definition REQ_READ_DTCS_PRE :: u8 where "REQ_READ_DTCS_PRE = 3"
definition REQ_READ_DTCS_POST :: u8 where "REQ_READ_DTCS_POST = 5"
definition CORPUS_START_SESSION :: u8 where "CORPUS_START_SESSION = 1"
definition CORPUS_OK :: u8 where "CORPUS_OK = 0"
definition CORPUS_REJECTED :: u8 where "CORPUS_REJECTED = 1"
definition CORPUS_VEHICLE_DRIVE :: u8 where "CORPUS_VEHICLE_DRIVE = 2"
definition CORPUS_VEHICLE_SERVICE :: u8 where "CORPUS_VEHICLE_SERVICE = 6"

lemmas corpus_consts =
  CORPUS_NODE_GATEWAY_def CORPUS_NODE_POWERTRAIN_def CORPUS_READ_DTCS_def REQ_READ_DTCS_PRE_def
  REQ_READ_DTCS_POST_def CORPUS_START_SESSION_def CORPUS_OK_def CORPUS_REJECTED_def
  CORPUS_VEHICLE_DRIVE_def CORPUS_VEHICLE_SERVICE_def

text \<open>Characters of the messages outside ASCII, in UTF-8.\<close>

definition em_dash :: string where "em_dash = [CHR 0xE2, CHR 0x80, CHR 0x94]"
definition right_arrow :: string where "right_arrow = [CHR 0xE2, CHR 0x86, CHR 0x92]"

definition last_opt :: "'a list \<Rightarrow> 'a option" where
  "last_opt xs = (if xs = [] then None else Some (last xs))"

definition corpus_state_values :: "user_trace list \<Rightarrow> u64 \<Rightarrow> u32 list" where
  "corpus_state_values trace machine = values_of trace machine ''ota_state''"

record service_command =
  sc_torque :: i8
  sc_motor_enable :: bool

definition service_motor_commands :: "user_trace list \<Rightarrow> service_command list" where
  "service_motor_commands trace =
     map (\<lambda>e. \<lparr>sc_torque = ucast (drop_bit 8 (ut_value e) AND 0xff),
               sc_motor_enable = (ut_value e AND 0x1 = 1)\<rparr>)
       (filter (traced CORPUS_NODE_POWERTRAIN ''diag_motor_command'') trace)"

definition packed_byte :: "nat \<Rightarrow> u32 \<Rightarrow> u8" where
  "packed_byte n v = ucast (drop_bit n v AND 0xff)"

definition find_response :: "user_trace list \<Rightarrow> u8 \<Rightarrow> u8 \<Rightarrow> u32 option" where
  "find_response trace service req =
     List.find (\<lambda>v. packed_byte 24 v = req \<and> packed_byte 16 v = service)
       (map ut_value (filter (traced CORPUS_NODE_GATEWAY ''gateway_diag_response'') trace))"

definition diag_response_value0 :: "user_trace list \<Rightarrow> u8 \<Rightarrow> u8 \<Rightarrow> u8 option" where
  "diag_response_value0 trace service req = map_option (packed_byte 0) (find_response trace service req)"

definition dtc_count :: "user_trace list \<Rightarrow> u8 \<Rightarrow> u8 option" where
  "dtc_count trace req = diag_response_value0 trace CORPUS_READ_DTCS req"

definition diag_response_status_value0 :: "user_trace list \<Rightarrow> u8 \<Rightarrow> u8 \<Rightarrow> (u8 \<times> u8) option" where
  "diag_response_status_value0 trace service req =
     map_option (\<lambda>v. (packed_byte 8 v, packed_byte 0 v)) (find_response trace service req)"

subsection \<open>Seeds\<close>

datatype seed_kind = OtaRollback | ServiceTorqueClamp | ClearAllDtcs | StartSessionInDrive

record seed =
  sd_name :: string
  sd_kind :: seed_kind
  sd_description :: string
  sd_symptom :: string
  sd_primitive :: string
  sd_failing_scenario :: string
  sd_fixed_scenario :: string

definition seed_ota_rollback :: seed where
  "seed_ota_rollback =
     \<lparr>sd_name = ''ota_rollback'', sd_kind = OtaRollback,
      sd_description =
        ''A broken OTA CRC check accepts a corrupt image as valid, so the slot model commits and '' @
        ''boots the bad slot instead of rolling back to the known-good slot.'',
      sd_symptom =
        ''A corrupt OTA image reaches HEALTHY (ota_boot_result=1) with no ota_rollback '' @
        em_dash @
        '' the vehicle boots unverified firmware.'',
      sd_primitive =
        ''state trace / continue_until(ota_state): step to VERIFYING and inspect ota_crc_ok '' @
        em_dash @
        '' the buggy firmware reports ota_crc_ok=1 on a corrupt image where the fix reports 0, so '' @
        ''the runs diverge into HEALTHY vs ROLLED_BACK.'',
      sd_failing_scenario = ''ota_rollback_bug/failing.toml'',
      sd_fixed_scenario = ''ota_rollback_bug/fixed.toml''\<rparr>"

definition seed_service_torque :: seed where
  "seed_service_torque =
     \<lparr>sd_name = ''service_torque'', sd_kind = ServiceTorqueClamp,
      sd_description =
        ''The powertrain skips the SERVICE-mode safety clamp, so a diagnostic service session '' @
        ''still commands drive torque with the motor enabled.'',
      sd_symptom =
        ''During a SERVICE session an 80% throttle demand produces a diag_motor_command with '' @
        ''torque>0 and motor_enable=1 '' @
        em_dash @
        '' the drivetrain is live while the vehicle is being serviced.'',
      sd_primitive =
        ''message breakpoint / continue_until on the diag_motor_command trace: stop at the '' @
        ''SERVICE-mode motor command and inspect the torque + motor_enable '' @
        em_dash @
        '' the buggy firmware commands torque>0/enabled where the fix commands 0/disabled.'',
      sd_failing_scenario = ''service_torque_bug/failing.toml'',
      sd_fixed_scenario = ''service_torque_bug/fixed.toml''\<rparr>"

definition seed_clear_all_dtcs :: seed where
  "seed_clear_all_dtcs =
     \<lparr>sd_name = ''clear_all_dtcs'', sd_kind = ClearAllDtcs,
      sd_description =
        ''A diagnostic CLEAR_DTCS scoped to the BMS wrongly clears EVERY node's DTCs '' @
        ''(fault_manager_clear_all instead of fault_manager_clear_node), silently dropping an '' @
        ''unrelated powertrain fault that was never serviced.'',
      sd_symptom =
        ''After a BMS-scoped clear, a follow-up READ_DTCS reports 0 DTCs '' @
        em_dash @
        '' the powertrain fault has vanished (the fix leaves 1 behind).'',
      sd_primitive =
        ''message breakpoint / continue_until on the gateway_diag_response trace: stop at the '' @
        ''post-clear READ_DTCS response and inspect its count '' @
        em_dash @
        '' the buggy firmware reports 0 where the fix reports 1, so the runs diverge at the clear.'',
      sd_failing_scenario = ''clear_dtcs_bug/failing.toml'',
      sd_fixed_scenario = ''clear_dtcs_bug/fixed.toml''\<rparr>"

definition seed_start_session_in_drive :: seed where
  "seed_start_session_in_drive =
     \<lparr>sd_name = ''start_session_in_drive'', sd_kind = StartSessionInDrive,
      sd_description =
        ''The gateway skips the safety guard that refuses a diagnostic START_SESSION while the '' @
        ''vehicle is in DRIVE, so a service session opens mid-drive and the vehicle is commanded '' @
        ''out of DRIVE into SERVICE while moving.'',
      sd_symptom =
        ''A START_SESSION request sent while in DRIVE is accepted (gateway_diag_response '' @
        ''status=OK, mode=SERVICE) instead of rejected '' @
        em_dash @
        '' the drivetrain state machine leaves DRIVE mid-drive.'',
      sd_primitive =
        ''message breakpoint / continue_until on the gateway_diag_response trace: stop at the '' @
        ''START_SESSION response and inspect its status + mode '' @
        em_dash @
        '' the buggy firmware reports OK/SERVICE where the fix reports REJECTED/DRIVE.'',
      sd_failing_scenario = ''start_session_drive_bug/failing.toml'',
      sd_fixed_scenario = ''start_session_drive_bug/fixed.toml''\<rparr>"

definition builtin_seeds :: "seed list" where
  "builtin_seeds = [seed_ota_rollback, seed_service_torque, seed_clear_all_dtcs, seed_start_session_in_drive]"

record seed_result =
  sr_name :: string
  sr_description :: string
  sr_symptom :: string
  sr_primitive :: string
  sr_passed :: bool
  sr_run_error :: "string option"
  sr_checks :: "lane_check list"

definition corpus_totals :: "seed_result list \<Rightarrow> nat \<times> nat" where
  "corpus_totals seeds =
     (let passed = length (filter sr_passed seeds) in (passed, length seeds - passed))"

definition corpus_passed :: "seed_result list \<Rightarrow> bool" where
  "corpus_passed seeds \<longleftrightarrow> seeds \<noteq> [] \<and> list_all sr_passed seeds"

interpretation corpus: judged_report sr_passed corpus_totals corpus_passed
  by unfold_locales (simp_all add: corpus_totals_def corpus_passed_def Let_def)

definition seed_result_json :: "seed_result \<Rightarrow> json" where
  "seed_result_json s = JObj
     ([(''name'', json_str (sr_name s)), (''description'', json_str (sr_description s)),
       (''symptom'', json_str (sr_symptom s)), (''primitive'', json_str (sr_primitive s)),
       (''passed'', JBool (sr_passed s)), (''checks'', JArr (map check_json (sr_checks s)))] @
      (case sr_run_error s of Some e \<Rightarrow> [(''run_error'', json_str e)] | None \<Rightarrow> []))"

definition corpus_json :: "seed_result list \<Rightarrow> json" where
  "corpus_json seeds =
     (case corpus_totals seeds of (passed, failed) \<Rightarrow> JObj
        [(''lane'', json_str ''debug_gym_corpus''), (''passed'', JBool (corpus_passed seeds)),
         (''seeds_passed'', JUInt (of_nat passed)), (''seeds_failed'', JUInt (of_nat failed)),
         (''seeds'', JArr (map seed_result_json seeds))])"

subsection \<open>Judging the two traces\<close>

definition show_uint :: "'a::len word \<Rightarrow> string" where
  "show_uint v = show_nat (unat v)"

definition show_pair :: "u8 \<times> u8 \<Rightarrow> string" where
  "show_pair p = ''('' @ show_uint (fst p) @ '', '' @ show_uint (snd p) @ '')''"

definition evaluate_start_session_in_drive :: "user_trace list \<Rightarrow> user_trace list \<Rightarrow> lane_check list" where
  "evaluate_start_session_in_drive failing fixed =
     (let f = diag_response_status_value0 failing CORPUS_START_SESSION 1;
          x = diag_response_status_value0 fixed CORPUS_START_SESSION 1;
          bug_reproduced = (f = Some (CORPUS_OK, CORPUS_VEHICLE_SERVICE));
          reproduced_detail =
            (if bug_reproduced then
               ''buggy firmware accepted START_SESSION mid-drive (status=OK, mode=SERVICE) '' @ em_dash @
               '' the DRIVE guard was skipped''
             else
               ''expected the buggy firmware to accept START_SESSION mid-drive (status=OK, '' @
               ''mode=SERVICE); got '' @ show_opt show_pair f);
          bug_fixed = (x = Some (CORPUS_REJECTED, CORPUS_VEHICLE_DRIVE));
          fixed_detail =
            (if bug_fixed then
               ''fixed firmware rejected START_SESSION mid-drive (status=REJECTED, mode=DRIVE) '' @
               em_dash @ '' the vehicle stayed in DRIVE''
             else
               ''expected the fixed firmware to reject START_SESSION mid-drive (status=REJECTED, '' @
               ''mode=DRIVE); got '' @ show_opt show_pair x);
          f_status = map_option fst f;
          x_status = map_option fst x;
          diverge = (f_status = Some CORPUS_OK \<and> x_status = Some CORPUS_REJECTED);
          diverge_detail =
            (if diverge then ''START_SESSION status diverges: OK/accepted (buggy) vs REJECTED (fixed)''
             else
               ''expected START_SESSION status OK (buggy) vs REJECTED (fixed); got '' @
               show_opt show_uint f_status @ '' vs '' @ show_opt show_uint x_status)
      in [mk_check ''bug-reproduced'' bug_reproduced reproduced_detail,
          mk_check ''bug-fixed'' bug_fixed fixed_detail,
          mk_check ''traces-diverge'' diverge diverge_detail])"

definition evaluate_clear_all_dtcs :: "user_trace list \<Rightarrow> user_trace list \<Rightarrow> lane_check list" where
  "evaluate_clear_all_dtcs f x =
     (let f_pre = dtc_count f REQ_READ_DTCS_PRE;
          f_post = dtc_count f REQ_READ_DTCS_POST;
          x_pre = dtc_count x REQ_READ_DTCS_PRE;
          x_post = dtc_count x REQ_READ_DTCS_POST;
          bug_reproduced = (f_pre = Some 2 \<and> f_post = Some 0);
          reproduced_detail =
            (if bug_reproduced then
               ''buggy firmware cleared ALL DTCs on a BMS-scoped clear: 2 before, 0 after '' @
               ''(the powertrain fault was silently dropped)''
             else
               ''expected the buggy firmware to go 2 '' @ right_arrow @ '' 0 DTCs on a BMS-scoped clear; '' @
               ''got pre='' @ show_opt show_uint f_pre @ '' post='' @ show_opt show_uint f_post);
          bug_fixed = (x_pre = Some 2 \<and> x_post = Some 1);
          fixed_detail =
            (if bug_fixed then
               ''fixed firmware cleared only BMS DTCs: 2 before, 1 after (the powertrain '' @
               ''fault survived the BMS-scoped clear)''
             else
               ''expected the fixed firmware to go 2 '' @ right_arrow @ '' 1 DTCs on a BMS-scoped clear; '' @
               ''got pre='' @ show_opt show_uint x_pre @ '' post='' @ show_opt show_uint x_post);
          diverge = (f_post = Some 0 \<and> x_post = Some 1);
          diverge_detail =
            (if diverge then ''post-clear READ_DTCS count diverges: 0 (buggy) vs 1 (fixed)''
             else
               ''expected post-clear count 0 (buggy) vs 1 (fixed); got '' @ show_opt show_uint f_post @
               '' vs '' @ show_opt show_uint x_post)
      in [mk_check ''bug-reproduced'' bug_reproduced reproduced_detail,
          mk_check ''bug-fixed'' bug_fixed fixed_detail,
          mk_check ''traces-diverge'' diverge diverge_detail])"

text \<open>\<open>iter().map(torque).max().unwrap_or(0)\<close>, in the signed order.\<close>

definition max_i8 :: "i8 \<Rightarrow> i8 \<Rightarrow> i8" where
  "max_i8 a b = (if sint a \<le> sint b then b else a)"

definition max_torque :: "service_command list \<Rightarrow> i8" where
  "max_torque cmds = (case map sc_torque cmds of [] \<Rightarrow> 0 | t # ts \<Rightarrow> foldl max_i8 t ts)"

definition evaluate_service_torque_clamp :: "user_trace list \<Rightarrow> user_trace list \<Rightarrow> lane_check list" where
  "evaluate_service_torque_clamp failing fixed =
     (let f = service_motor_commands failing;
          x = service_motor_commands fixed;
          bug_reproduced = (f \<noteq> [] \<and> list_ex (\<lambda>c. sint (sc_torque c) > 0 \<and> sc_motor_enable c) f);
          f_max = max_torque f;
          reproduced_detail =
            (if bug_reproduced then
               ''buggy firmware commanded drive torque in SERVICE (max torque '' @ show_int (sint f_max) @
               '', motor enabled) '' @ em_dash @ '' the SERVICE clamp was skipped''
             else if f = [] then
               ''expected SERVICE-mode diag_motor_command events from the buggy firmware; saw none''
             else
               ''expected the buggy firmware to command torque>0 in SERVICE; max torque was '' @
               show_int (sint f_max));
          bug_fixed = (x \<noteq> [] \<and> list_all (\<lambda>c. sc_torque c = 0 \<and> \<not> sc_motor_enable c) x);
          x_max = max_torque x;
          fixed_detail =
            (if bug_fixed then
               ''fixed firmware clamped every SERVICE motor command to torque 0 with the motor disabled''
             else if x = [] then
               ''expected SERVICE-mode diag_motor_command events from the fixed firmware; saw none''
             else
               ''expected the fixed firmware to clamp SERVICE torque to 0; max torque was '' @
               show_int (sint x_max));
          diverge = (sint f_max > 0 \<and> x_max = 0);
          diverge_detail =
            (if diverge then
               ''SERVICE motor commands diverge: buggy max torque '' @ show_int (sint f_max) @
               '' (motor enabled) vs fixed 0 '' @ ''(motor disabled)''
             else
               ''expected divergence (buggy torque>0 vs fixed 0); got buggy '' @ show_int (sint f_max) @
               '' vs fixed '' @ show_int (sint x_max))
      in [mk_check ''bug-reproduced'' bug_reproduced reproduced_detail,
          mk_check ''bug-fixed'' bug_fixed fixed_detail,
          mk_check ''traces-diverge'' diverge diverge_detail])"

definition evaluate_ota_rollback :: "user_trace list \<Rightarrow> user_trace list \<Rightarrow> lane_check list" where
  "evaluate_ota_rollback f x =
     (let booted = any_value f CORPUS_NODE_GATEWAY ''ota_boot_result'' 1;
          no_rollback = (\<not> any_value f CORPUS_NODE_GATEWAY ''ota_rollback'' 1);
          bug_reproduced = (booted \<and> no_rollback);
          reproduced_detail =
            (if bug_reproduced then
               ''buggy firmware booted the corrupt image (ota_boot_result=1, no ota_rollback)''
             else if \<not> booted then
               ''expected the buggy firmware to reach a healthy boot (ota_boot_result=1); it did not''
             else ''expected the buggy firmware NOT to roll back, but it emitted ota_rollback=1'');
          rolled_back = any_value x CORPUS_NODE_GATEWAY ''ota_rollback'' 1;
          slot_a = (last_value x CORPUS_NODE_GATEWAY ''ota_active_slot'' = Some 0);
          never_booted = (\<not> any_value x CORPUS_NODE_GATEWAY ''ota_boot_result'' 1);
          bug_fixed = (rolled_back \<and> slot_a \<and> never_booted);
          fixed_detail =
            (if bug_fixed then
               ''fixed firmware rolled back to slot A (ota_rollback=1, ota_active_slot=0, never booted)''
             else if \<not> rolled_back then
               ''expected the fixed firmware to roll back (ota_rollback=1); it did not''
             else if \<not> slot_a then
               ''expected the fixed firmware to stay on slot A (ota_active_slot=0)''
             else
               ''expected the fixed firmware to never boot the corrupt image, but ota_boot_result=1'');
          f_crc = last_value f CORPUS_NODE_GATEWAY ''ota_crc_ok'';
          x_crc = last_value x CORPUS_NODE_GATEWAY ''ota_crc_ok'';
          crc_diverges = (f_crc = Some 1 \<and> x_crc = Some 0);
          f_end = last_opt (corpus_state_values f CORPUS_NODE_GATEWAY);
          x_end = last_opt (corpus_state_values x CORPUS_NODE_GATEWAY);
          state_diverges = (f_end = Some 5 \<and> x_end = Some 6);
          diverge = (crc_diverges \<and> state_diverges);
          diverge_detail =
            (if diverge then
               ''traces diverge at VERIFYING: ota_crc_ok 1 (buggy) vs 0 (fixed), ending HEALTHY(5) vs '' @
               ''ROLLED_BACK(6)''
             else
               ''expected divergence crc_ok 1 vs 0 and end-state 5 vs 6; got crc '' @
               show_opt show_uint f_crc @ '' vs '' @ show_opt show_uint x_crc @ '', end '' @
               show_opt show_uint f_end @ '' vs '' @ show_opt show_uint x_end)
      in [mk_check ''bug-reproduced'' bug_reproduced reproduced_detail,
          mk_check ''bug-fixed'' bug_fixed fixed_detail,
          mk_check ''traces-diverge'' diverge diverge_detail])"

fun evaluate_seed :: "seed_kind \<Rightarrow> user_trace list \<Rightarrow> user_trace list \<Rightarrow> lane_check list" where
  "evaluate_seed OtaRollback failing fixed = evaluate_ota_rollback failing fixed"
| "evaluate_seed ServiceTorqueClamp failing fixed = evaluate_service_torque_clamp failing fixed"
| "evaluate_seed ClearAllDtcs failing fixed = evaluate_clear_all_dtcs failing fixed"
| "evaluate_seed StartSessionInDrive failing fixed = evaluate_start_session_in_drive failing fixed"

subsection \<open>Running a seed\<close>

definition corpus_run_error :: "scenario_run \<Rightarrow> string \<Rightarrow> string" where
  "corpus_run_error run which =
     (let tail = (case last_opt (rn_stderr_tail run) of
                    Some l \<Rightarrow> l
                  | None \<Rightarrow> ''exited '' @ status_as_str (rn_status run))
      in which @ '' scenario run failed: '' @ tail)"

definition seed_result_of :: "seed \<Rightarrow> string option \<Rightarrow> lane_check list \<Rightarrow> bool \<Rightarrow> seed_result" where
  "seed_result_of sd run_error checks passed =
     \<lparr>sr_name = sd_name sd, sr_description = sd_description sd, sr_symptom = sd_symptom sd,
      sr_primitive = sd_primitive sd, sr_passed = passed, sr_run_error = run_error, sr_checks = checks\<rparr>"

definition run_seed ::
  "'o os \<Rightarrow> string \<Rightarrow> string \<Rightarrow> nat \<Rightarrow> seed \<Rightarrow> 'o \<Rightarrow> (seed_result \<times> 'o) option" where
  "run_seed os bin dir timeout sd s = do {
     let failing_path = path_join dir (sd_failing_scenario sd);
     let fixed_path = path_join dir (sd_fixed_scenario sd);
     (failing, s1) \<leftarrow> run_scenario_args os bin failing_path timeout [] s;
     if rn_status failing \<noteq> RPass
     then Some (seed_result_of sd (Some (corpus_run_error failing ''failing'')) [] False, s1)
     else do {
       (fixed, s2) \<leftarrow> run_scenario_args os bin fixed_path timeout [] s1;
       if rn_status fixed \<noteq> RPass
       then Some (seed_result_of sd (Some (corpus_run_error fixed ''fixed'')) [] False, s2)
       else (let checks = evaluate_seed (sd_kind sd) (user_traces (rn_trace failing))
                            (user_traces (rn_trace fixed));
                 passed = (checks \<noteq> [] \<and> list_all ck_passed checks)
             in Some (seed_result_of sd None checks passed, s2))
     }
   }"

definition run_corpus ::
  "'o os \<Rightarrow> string \<Rightarrow> string \<Rightarrow> nat \<Rightarrow> 'o \<Rightarrow> (seed_result list \<times> 'o) option" where
  "run_corpus os bin dir timeout s = run_each (run_seed os bin dir timeout) builtin_seeds s"

subsection \<open>Packed responses\<close>

text \<open>The word in which the gateway traces a response, by its documented layout.\<close>

record diag_reply =
  rp_req :: u8
  rp_service :: u8
  rp_status :: u8
  rp_value0 :: u8

definition pack_reply :: "diag_reply \<Rightarrow> u32" where
  "pack_reply r = push_bit 24 (ucast (rp_req r)) OR push_bit 16 (ucast (rp_service r)) OR
     push_bit 8 (ucast (rp_status r)) OR ucast (rp_value0 r)"

lemma bit_ucast_u8: "bit (ucast (b :: u8) :: u32) n \<longleftrightarrow> bit b n"
  using bit_imp_le_length [of b n] by (auto simp: bit_ucast_iff)

lemma and_ff: "v AND 0xff = take_bit 8 v" for v :: u32
  by (simp add: take_bit_eq_mask mask_eq_exp_minus_1)

lemma packed_byte_eq: "packed_byte n v = byte_at n v"
  unfolding packed_byte_def byte_at_def and_ff
  by (rule bit_word_eqI) (auto simp: bit_simps)

lemma packed_byte_pack:
  "packed_byte 24 (pack_reply r) = rp_req r" "packed_byte 16 (pack_reply r) = rp_service r"
  "packed_byte 8 (pack_reply r) = rp_status r" "packed_byte 0 (pack_reply r) = rp_value0 r"
proof -
  have hi: "\<not> bit b n" if "8 \<le> n" for b :: u8 and n
    using that bit_imp_le_length [of b n] by auto
  show "packed_byte 24 (pack_reply r) = rp_req r" "packed_byte 16 (pack_reply r) = rp_service r"
    "packed_byte 8 (pack_reply r) = rp_status r" "packed_byte 0 (pack_reply r) = rp_value0 r"
    unfolding packed_byte_eq byte_at_def pack_reply_def
    by (rule bit_word_eqI; simp add: bit_simps bit_ucast_u8 hi)+
qed

lemma find_map: "List.find P (map f xs) = map_option f (List.find (P \<circ> f) xs)"
  by (induction xs) auto

text \<open>
  When the gateway traces its responses in the documented layout (request, service, status and first
  value in one word each), the corpus reads back, for every service and request, the status and the
  value of the first response to this request.
\<close>

theorem packed_replies_are_read_back:
  assumes "values_of trace 1 ''gateway_diag_response'' = map pack_reply replies"
  shows "diag_response_status_value0 trace service req =
    map_option (\<lambda>r. (rp_status r, rp_value0 r))
      (List.find (\<lambda>r. rp_req r = req \<and> rp_service r = service) replies)"
  using assms
  by (simp add: diag_response_status_value0_def find_response_def CORPUS_NODE_GATEWAY_def
      values_of_def find_map comp_def packed_byte_pack option.map_comp)

theorem packed_replies_are_read_back_witness:
  "diag_response_status_value0
     [\<lparr>ut_machine = 1, ut_label = ''gateway_diag_response'', ut_value = 0x01010006\<rparr>,
      \<lparr>ut_machine = 1, ut_label = ''gateway_diag_response'', ut_value = 0x05030002\<rparr>] 3 5 = Some (0, 2)"
proof -
  let ?replies = "[\<lparr>rp_req = 1, rp_service = 1, rp_status = 0, rp_value0 = 6\<rparr>,
    \<lparr>rp_req = 5, rp_service = 3, rp_status = 0, rp_value0 = 2\<rparr>]"
  show ?thesis
    by (subst packed_replies_are_read_back [of _ ?replies])
      (simp_all add: values_of_def traced_def pack_reply_def push_bit_eq_mult)
qed

subsection \<open>What a seed shows\<close>

lemma max_i8_pos: "0 < sint (max_i8 a b) \<longleftrightarrow> 0 < sint a \<or> 0 < sint b"
  by (auto simp: max_i8_def)

lemma fold_max_pos: "0 < sint (foldl max_i8 t ts) \<longleftrightarrow> 0 < sint t \<or> list_ex (\<lambda>u. 0 < sint u) ts"
  by (induction ts arbitrary: t) (auto simp: max_i8_pos)

lemma max_torque_pos: "0 < sint (max_torque cmds) \<longleftrightarrow> list_ex (\<lambda>c. 0 < sint (sc_torque c)) cmds"
  by (cases cmds) (auto simp: max_torque_def fold_max_pos list_ex_iff)

lemma max_torque_zero: "list_all (\<lambda>c. sc_torque c = 0) cmds \<Longrightarrow> max_torque cmds = 0"
proof -
  have "list_all (\<lambda>u. u = 0) ts \<Longrightarrow> foldl max_i8 0 ts = 0" for ts
    by (induction ts) (auto simp: max_i8_def)
  then show "list_all (\<lambda>c. sc_torque c = 0) cmds \<Longrightarrow> max_torque cmds = 0"
    by (cases cmds) (auto simp: max_torque_def list_all_iff)
qed

text \<open>The first word traced for a response, and the torque and enable bit of a motor command.\<close>

definition first_reply :: "user_trace list \<Rightarrow> u8 \<Rightarrow> u8 \<Rightarrow> u32 option" where
  "first_reply tr service req =
     List.find (\<lambda>v. byte_at 24 v = req \<and> byte_at 16 v = service) (values_of tr 1 ''gateway_diag_response'')"

fun seed_shown :: "seed_kind \<Rightarrow> user_trace list \<Rightarrow> user_trace list \<Rightarrow> bool" where
  "seed_shown OtaRollback f x \<longleftrightarrow>
     1 \<in> set (values_of f 1 ''ota_boot_result'') \<and> 1 \<notin> set (values_of f 1 ''ota_rollback'') \<and>
     last_value f 1 ''ota_crc_ok'' = Some 1 \<and> last_value f 1 ''ota_state'' = Some 5 \<and>
     1 \<in> set (values_of x 1 ''ota_rollback'') \<and> 1 \<notin> set (values_of x 1 ''ota_boot_result'') \<and>
     last_value x 1 ''ota_active_slot'' = Some 0 \<and>
     last_value x 1 ''ota_crc_ok'' = Some 0 \<and> last_value x 1 ''ota_state'' = Some 6"
| "seed_shown ServiceTorqueClamp f x \<longleftrightarrow>
     (\<exists>v \<in> set (values_of f 2 ''diag_motor_command''). 0 < sint (byte_at 8 v) \<and> bit v 0) \<and>
     values_of x 2 ''diag_motor_command'' \<noteq> [] \<and>
     (\<forall>v \<in> set (values_of x 2 ''diag_motor_command''). byte_at 8 v = 0 \<and> \<not> bit v 0)"
| "seed_shown ClearAllDtcs f x \<longleftrightarrow>
     map_option (byte_at 0) (first_reply f 3 3) = Some 2 \<and>
     map_option (byte_at 0) (first_reply f 3 5) = Some 0 \<and>
     map_option (byte_at 0) (first_reply x 3 3) = Some 2 \<and>
     map_option (byte_at 0) (first_reply x 3 5) = Some 1"
| "seed_shown StartSessionInDrive f x \<longleftrightarrow>
     map_option (\<lambda>v. (byte_at 8 v, byte_at 0 v)) (first_reply f 1 1) = Some (0, 6) \<and>
     map_option (\<lambda>v. (byte_at 8 v, byte_at 0 v)) (first_reply x 1 1) = Some (1, 2)"

lemma find_response_first: "find_response tr service req = first_reply tr service req"
  by (simp add: find_response_def first_reply_def values_of_def packed_byte_eq CORPUS_NODE_GATEWAY_def)

lemma last_opt_values: "last_opt (corpus_state_values tr m) = last_value tr m ''ota_state''"
  by (simp add: last_opt_def corpus_state_values_def last_value_def Let_def)

lemma and_one_bit: "v AND 1 = 1 \<longleftrightarrow> bit v 0" for v :: u32
  by (simp add: bit_0 and_one_eq odd_iff_mod_2_eq_one)

lemma service_motor_commands_eq:
  "service_motor_commands tr =
     map (\<lambda>v. \<lparr>sc_torque = byte_at 8 v, sc_motor_enable = bit v 0\<rparr>) (values_of tr 2 ''diag_motor_command'')"
  by (simp add: service_motor_commands_def values_of_def CORPUS_NODE_POWERTRAIN_def and_one_bit
      packed_byte_eq [unfolded packed_byte_def])

lemma ota_rollback_exact: "list_all ck_passed (evaluate_ota_rollback f x) \<longleftrightarrow> seed_shown OtaRollback f x"
  by (auto simp: evaluate_ota_rollback_def Let_def any_value_iff last_opt_values CORPUS_NODE_GATEWAY_def)

lemma service_torque_exact:
  "list_all ck_passed (evaluate_service_torque_clamp f x) \<longleftrightarrow> seed_shown ServiceTorqueClamp f x"
proof -
  have "max_torque cs = 0" if "list_all (\<lambda>c. sc_torque c = 0 \<and> \<not> sc_motor_enable c) cs" for cs
    using that by (intro max_torque_zero) (auto simp: list_all_iff)
  then have "list_all ck_passed (evaluate_service_torque_clamp f x) \<longleftrightarrow>
      list_ex (\<lambda>c. 0 < sint (sc_torque c) \<and> sc_motor_enable c) (service_motor_commands f) \<and>
      service_motor_commands x \<noteq> [] \<and>
      list_all (\<lambda>c. sc_torque c = 0 \<and> \<not> sc_motor_enable c) (service_motor_commands x)"
    by (auto simp: evaluate_service_torque_clamp_def Let_def max_torque_pos list_ex_iff)
  then show ?thesis by (simp add: service_motor_commands_eq list_ex_iff list_all_iff)
qed

lemma clear_dtcs_exact: "list_all ck_passed (evaluate_clear_all_dtcs f x) \<longleftrightarrow> seed_shown ClearAllDtcs f x"
  by (auto simp: evaluate_clear_all_dtcs_def Let_def dtc_count_def diag_response_value0_def
      find_response_first packed_byte_eq corpus_consts)

lemma start_session_exact:
  "list_all ck_passed (evaluate_start_session_in_drive f x) \<longleftrightarrow> seed_shown StartSessionInDrive f x"
  by (auto simp: evaluate_start_session_in_drive_def Let_def diag_response_status_value0_def
      find_response_first packed_byte_eq corpus_consts)

lemma evaluate_seed_exact: "list_all ck_passed (evaluate_seed kind f x) \<longleftrightarrow> seed_shown kind f x"
  by (cases kind) (simp_all only: evaluate_seed.simps ota_rollback_exact service_torque_exact
      clear_dtcs_exact start_session_exact)

lemma evaluate_seed_three: "length (evaluate_seed kind f x) = 3"
  by (cases kind) (simp_all add: evaluate_ota_rollback_def evaluate_service_torque_clamp_def
      evaluate_clear_all_dtcs_def evaluate_start_session_in_drive_def Let_def)

lemma seed_shown_differs: "seed_shown kind f x \<Longrightarrow> f \<noteq> x"
  by (cases kind) auto

text \<open>The verdict on a seed, as the two runs and the condition on their traces.\<close>

definition seed_accepted :: "'o os \<Rightarrow> string \<Rightarrow> string \<Rightarrow> nat \<Rightarrow> seed \<Rightarrow> 'o \<Rightarrow> (bool \<times> 'o) option" where
  "seed_accepted os bin dir timeout sd s = do {
     (failing, s1) \<leftarrow> run_scenario_args os bin (path_join dir (sd_failing_scenario sd)) timeout [] s;
     if rn_status failing \<noteq> RPass then Some (False, s1)
     else do {
       (fixed, s2) \<leftarrow> run_scenario_args os bin (path_join dir (sd_fixed_scenario sd)) timeout [] s1;
       Some (rn_status fixed = RPass \<and>
             seed_shown (sd_kind sd) (user_traces (rn_trace failing)) (user_traces (rn_trace fixed)), s2)
     }
   }"

lemma run_seed_accepted: "verdict_by sr_passed (run_seed os bin dir timeout) = seed_accepted os bin dir timeout"
proof (intro ext)
  fix sd s
  have "evaluate_seed k f x \<noteq> []" for k f x
    using evaluate_seed_three [of k f x] by auto
  then show "verdict_by sr_passed (run_seed os bin dir timeout) sd s = seed_accepted os bin dir timeout sd s"
    by (auto simp: verdict_by_def run_seed_def seed_accepted_def Let_def seed_result_of_def evaluate_seed_exact
        split: Option.bind_splits)
qed

text \<open>
  A seed passes exactly when both of its runs end cleanly, the failing scenario first, and the
  two traces show the bug: the documented symptom in the first and the documented behaviour in the
  second, as conditions on the traced values. No trace shows a bug against itself, so a seed whose
  two scenarios behave alike never passes. The seed returns whenever its runs do.
\<close>

theorem seed_verdict:
  "map_option (\<lambda>(r, s'). (sr_passed r, s')) (run_seed os bin dir timeout sd s) =
   do { (failing, s1) \<leftarrow> run_scenario_args os bin (path_join dir (sd_failing_scenario sd)) timeout [] s;
        if rn_status failing \<noteq> RPass then Some (False, s1)
        else do {
          (fixed, s2) \<leftarrow> run_scenario_args os bin (path_join dir (sd_fixed_scenario sd)) timeout [] s1;
          Some (rn_status fixed = RPass \<and>
                seed_shown (sd_kind sd) (user_traces (rn_trace failing)) (user_traces (rn_trace fixed)), s2) } } \<and>
   \<not> seed_shown (sd_kind sd) tr tr"
  using run_seed_accepted [of os bin dir timeout, THEN fun_cong, THEN fun_cong, of sd s] seed_shown_differs
  unfolding verdict_by_def seed_accepted_def by blast

text \<open>The corpus runs its four seeds in order, and every result keeps the text of its seed.\<close>

lemma run_seed_keeps: "run_seed os bin dir timeout sd s = Some (r, s') \<Longrightarrow> sr_name r = sd_name sd"
  by (auto simp: run_seed_def Let_def seed_result_of_def split: Option.bind_splits if_splits)

lemma run_seeds_names:
  "run_each (run_seed os bin dir timeout) sds s = Some (rs, s') \<Longrightarrow> map sr_name rs = map sd_name sds"
  by (induction sds arbitrary: s rs) (auto simp: bind_eq_Some_conv run_seed_keeps)

lemma run_corpus_names:
  "run_corpus os bin dir timeout s = Some (rs, s') \<Longrightarrow>
   map sr_name rs = [''ota_rollback'', ''service_torque'', ''clear_all_dtcs'', ''start_session_in_drive'']"
  unfolding run_corpus_def
  by (drule run_seeds_names) (simp add: builtin_seeds_def seed_ota_rollback_def seed_service_torque_def
      seed_clear_all_dtcs_def seed_start_session_in_drive_def)

end
