(* ===== verification/Harness.thy ===== *)
theory Harness
  imports Debug_Gym_Corpus Toml_Zoo Simfarm Debug_Gym Ota_Lane Charging_Lane Diagnostics_Lane
begin

text \<open>
  \<^verbatim>\<open>dogfood/src/bin/harness.rs\<close>: the command line of the harness. What a command does is the list of
  its effects in order (a line on the standard output or the error output, a file written) and its
  exit code; \<open>None\<close> is a command that does not return or panics. The environment (the operating
  system, the files, the variable that names the binary, the result of \<open>cargo test\<close>) is a record.
  The properties: what the exit code says of the runs behind it, what files are written, and that
  options are read back.
\<close>

subsection \<open>Environment and effects\<close>

datatype effect = Out string | Err string | Wrote string string

type_synonym result = "effect list \<times> u8"

text \<open>
  \<open>he_write\<close> is the error of writing a file, if any; \<open>he_cargo\<close> the result of \<open>cargo test\<close>. The
  remaining fields are the states in which threads start, from the state of the main thread, and
  the state it goes on in when it has joined the threads of the farm.
\<close>

record 'o harness_env =
  he_os :: "'o os"
  he_fs :: file_system
  he_tf :: "'o temp_files"
  he_var :: "string option"
  he_is_file :: "string \<Rightarrow> bool"
  he_write :: "string \<Rightarrow> string \<Rightarrow> string option"
  he_cargo :: "string + exit_status"
  he_sibling :: "'o \<Rightarrow> 'o \<times> 'o"
  he_farm :: "'o \<Rightarrow> nat \<Rightarrow> 'o"
  he_joined :: "'o \<Rightarrow> 'o"
  he_isolation :: "'o \<Rightarrow> 'o \<times> 'o"

definition DEFAULT_TIMEOUT_SECS :: u64 where "DEFAULT_TIMEOUT_SECS = 60"
definition DEFAULT_REPEATS :: u64 where "DEFAULT_REPEATS = 2"
definition DEFAULT_SCENARIO_DIR :: string where "DEFAULT_SCENARIO_DIR = ''scenarios''"
definition DEFAULT_CHARGING_DIR :: string where "DEFAULT_CHARGING_DIR = ''dogfood/charging''"
definition DEFAULT_DIAGNOSTICS_DIR :: string where "DEFAULT_DIAGNOSTICS_DIR = ''dogfood/diagnostics''"
definition DEFAULT_OTA_DIR :: string where "DEFAULT_OTA_DIR = ''dogfood/ota''"
definition DEFAULT_TOPOLOGY_DIR :: string where "DEFAULT_TOPOLOGY_DIR = ''dogfood/topology''"
definition DEFAULT_ZOO_DIR :: string where "DEFAULT_ZOO_DIR = ''dogfood/toml_zoo''"
definition DEFAULT_DEBUG_GYM_CORPUS_DIR :: string where
  "DEFAULT_DEBUG_GYM_CORPUS_DIR = ''dogfood/debug_gym''"
definition DEFAULT_SCENARIOS :: "string list" where
  "DEFAULT_SCENARIOS =
     [''scenarios/boot_and_heartbeat.toml'', ''scenarios/normal_drive_cycle.toml'',
      ''scenarios/bms_overtemp_limp_mode.toml'', ''scenarios/brake_overrides_throttle.toml'']"

subsection \<open>Small helpers\<close>

definition newline :: string where "newline = [CHR 0x0A]"

text \<open>A rule of 42 box characters, and the ellipsis, in UTF-8.\<close>

definition rule_line :: string where
  "rule_line = concat (replicate 42 [CHR 0xE2, CHR 0x94, CHR 0x80])"

definition ellipsis :: string where "ellipsis = [CHR 0xE2, CHR 0x80, CHR 0xA6]"

text \<open>\<open>Duration::from_secs\<close> in milliseconds, and its \<open>Debug\<close> form.\<close>

definition from_secs :: "u64 \<Rightarrow> nat" where
  "from_secs secs = unat secs * 1000"

definition debug_secs :: "u64 \<Rightarrow> string" where
  "debug_secs secs = (if secs = 0 then ''0ns'' else show_nat (unat secs) @ ''s'')"

text \<open>Padding to a width counts characters, not bytes.\<close>

definition char_count :: "string \<Rightarrow> nat" where
  "char_count s = length (filter (\<lambda>c. \<not> (0x80 \<le> byte_of c \<and> byte_of c < 0xC0)) s)"

definition pad_right :: "nat \<Rightarrow> string \<Rightarrow> string" where
  "pad_right w s = s @ replicate (w - char_count s) CHR '' ''"

definition okmark :: "bool \<Rightarrow> string" where
  "okmark ok = (if ok then ''ok  '' else ''FAIL'')"

definition argerr :: "string \<Rightarrow> string \<Rightarrow> result" where
  "argerr sub msg = ([Err (''harness '' @ sub @ '': '' @ msg)], 2)"

definition write_json :: "'o harness_env \<Rightarrow> string \<Rightarrow> string \<Rightarrow> effect list" where
  "write_json env path content =
     (case he_write env path content of
        None \<Rightarrow> [Wrote path content, Out (''wrote JSON summary: '' @ path)]
      | Some e \<Rightarrow> [Err (''harness: failed to write '' @ path @ '': '' @ e)])"

definition short_hash :: "string \<Rightarrow> string" where
  "short_hash h = (if length h > 16 then take 16 h @ ellipsis else h)"

definition format_indent :: "string \<Rightarrow> string" where
  "format_indent s = '' '' @ join '' '' (split_whitespace s)"

definition candidates :: "string list" where
  "candidates = [''target/debug/microcar'', ''target/release/microcar'', ''./microcar'',
                 ''../target/debug/microcar'']"

definition locate_microcar :: "'o harness_env \<Rightarrow> string + string" where
  "locate_microcar env =
     (case he_var env of
        Some p \<Rightarrow>
          (if he_is_file env p then Inr p
           else Inl (''MICROCAR_BIN='' @ p @ '' does not point to a file''))
      | None \<Rightarrow>
          (case List.find (he_is_file env) candidates of
             Some c \<Rightarrow> Inr c
           | None \<Rightarrow> Inl (''could not find the microcar binary. Build it with `cargo build` and run '' @
               ''the harness from the microcar repo root, or set MICROCAR_BIN. Looked in: '' @
               join '', '' candidates)))"

definition collect_scenarios :: "'o harness_env \<Rightarrow> string \<Rightarrow> string + string list" where
  "collect_scenarios env dir =
     (case fs_read_dir (he_fs env) dir of
        Inl e \<Rightarrow> Inl (''read_dir '' @ dir @ '': '' @ e)
      | Inr entries \<Rightarrow> (case keep_toml entries of Inl e \<Rightarrow> Inl e | Inr ps \<Rightarrow> Inr (sort ps)))"

definition banner :: "string \<Rightarrow> string \<Rightarrow> effect list" where
  "banner bin subject =
     [Out (''microcar dogfood harness v'' @ HARNESS_VERSION), Out (''microcar binary: '' @ bin),
      Out (subject @ newline)]"

definition exit_of :: "bool \<Rightarrow> u8" where
  "exit_of passed = (if passed then 0 else 1)"

definition usage :: effect where
  "usage = Err (join newline
     [''microcar dogfood harness'',
      [],
      ''USAGE:'',
      ''  harness run      <scenario.toml> [--timeout-secs N] [--repeats N] [--json OUT]'',
      ''  harness run-all  [--scenario-dir DIR] [--timeout-secs N] [--repeats N] [--json OUT]'',
      ''  harness cockpit  Run gRPC cockpit integration test'',
      ''  harness telematics  Run telematics integration tests'',
      ''  harness simfarm  <scenario.toml> [-n N] [--churn M] [--bad PATH] '' @
      ''[--timeout-secs N] [--json OUT]'',
      ''  harness toml-zoo [--dir DIR] [--healthy SCENARIO] [--no-sibling] '' @
      ''[--timeout-secs N] [--json OUT]'',
      ''  harness topology [--dir DIR] [--timeout-secs N] [--json OUT]'',
      ''  harness diagnostics [--dir DIR] [--timeout-secs N] [--json OUT]'',
      ''  harness charging [--dir DIR] [--timeout-secs N] [--json OUT]'',
      ''  harness ota [--dir DIR] [--timeout-secs N] [--json OUT]'',
      ''  harness debug-gym [--scenario-dir DIR] [--timeout-secs N] [--json OUT]'',
      ''  harness debug-gym-corpus [--dir DIR] [--timeout-secs N] [--json OUT]'',
      [],
      ''FLAGS:'',
      ''  --timeout-secs N   Wall-clock timeout per run (default '' @ show_nat (unat DEFAULT_TIMEOUT_SECS) @ '')'',
      ''  --repeats N        Runs per scenario for determinism check (default '' @ show_nat (unat DEFAULT_REPEATS) @ '')'',
      ''  --json OUT         Write a JSON summary to OUT'',
      ''  --scenario-dir DIR Directory of .toml scenarios for run-all (default '' @
      DEFAULT_SCENARIO_DIR @ '')'',
      [],
      ''The microcar binary is found via $MICROCAR_BIN or target/debug/microcar.'',
      ''Exit code is non-zero if any scenario failed.''])"

subsection \<open>Running scenarios and the summary\<close>

record run_opts =
  ro_timeout_secs :: u64
  ro_repeats :: u64
  ro_json :: "string option"
  ro_scenario_dir :: string
  ro_positionals :: "string list"

definition default_opts :: run_opts where
  "default_opts = \<lparr>ro_timeout_secs = DEFAULT_TIMEOUT_SECS, ro_repeats = DEFAULT_REPEATS, ro_json = None,
                   ro_scenario_dir = DEFAULT_SCENARIO_DIR, ro_positionals = []\<rparr>"

fun opts_loop :: "run_opts \<Rightarrow> string list \<Rightarrow> string + run_opts" where
  "opts_loop o' [] = Inr o'"
| "opts_loop o' (a # rest) =
     (if a = ''--timeout-secs'' then
        (case rest of
           [] \<Rightarrow> Inl ''--timeout-secs needs a value''
         | v # rest' \<Rightarrow>
             (case parse_u64 v of
                Some n \<Rightarrow> opts_loop (o'\<lparr>ro_timeout_secs := n\<rparr>) rest'
              | None \<Rightarrow> Inl (''bad --timeout-secs: '' @ v)))
      else if a = ''--repeats'' then
        (case rest of
           [] \<Rightarrow> Inl ''--repeats needs a value''
         | v # rest' \<Rightarrow>
             (case parse_u64 v of
                Some n \<Rightarrow> opts_loop (o'\<lparr>ro_repeats := n\<rparr>) rest'
              | None \<Rightarrow> Inl (''bad --repeats: '' @ v)))
      else if a = ''--json'' then
        (case rest of
           [] \<Rightarrow> Inl ''--json needs a path''
         | v # rest' \<Rightarrow> opts_loop (o'\<lparr>ro_json := Some v\<rparr>) rest')
      else if a = ''--scenario-dir'' then
        (case rest of
           [] \<Rightarrow> Inl ''--scenario-dir needs a path''
         | v # rest' \<Rightarrow> opts_loop (o'\<lparr>ro_scenario_dir := v\<rparr>) rest')
      else if starts_with a ''--'' then Inl (''unknown flag: '' @ a)
      else opts_loop (o'\<lparr>ro_positionals := ro_positionals o' @ [a]\<rparr>) rest)"

definition parse_opts :: "string list \<Rightarrow> string + run_opts" where
  "parse_opts args = opts_loop default_opts args"

definition print_scenario :: "scenario_summary \<Rightarrow> effect list" where
  "print_scenario s =
     (let mark = (if summary_passed s then ''ok  '' else ''FAIL'');
          det = (if ss_deterministic s then ''deterministic'' else ''NON-DETERMINISTIC'')
      in [Out (''['' @ mark @ ''] '' @ pad_right 32 (ss_name s) @ '' '' @
            pad_right 7 (status_as_str (ss_status s)) @ '' '' @
            pad_left 6 CHR '' '' (show_nat (ss_wall_ms s)) @ ''ms  hash='' @
            short_hash (ss_trace_hash s) @ ''  '' @ det @ '' (x'' @ show_nat (ss_repeats s) @ '')'')] @
         map (\<lambda>i. Out (''        - '' @ check_as_str (ie_status i) @ '' '' @ ie_name i @ '': '' @ ie_message i))
           (filter (\<lambda>i. ie_status i = CFail) (ss_invariants s)) @
         (if ss_deterministic s then []
          else [Out (''        - repeat hashes: '' @ join '', '' (ss_repeat_hashes s))]))"

text \<open>\<open>write_summary\<close> of \<open>summary.rs\<close>, with the report of its result.\<close>

definition write_summary :: "'o harness_env \<Rightarrow> determinism_report list \<Rightarrow> string \<Rightarrow> effect list" where
  "write_summary env reports path =
     (let content = to_json_string (build_summary reports)
      in case he_write env path content of
           None \<Rightarrow> [Wrote path content, Out (''wrote JSON summary: '' @ path)]
         | Some e \<Rightarrow> [Err (''harness: failed to write '' @ path @ '': '' @ e)])"

definition finish :: "'o harness_env \<Rightarrow> string \<Rightarrow> determinism_report list \<Rightarrow> string option \<Rightarrow> result" where
  "finish env bin reports json =
     (let summary = build_summary reports; t = su_totals summary
      in ([Out (''microcar dogfood harness v'' @ su_harness_version summary),
           Out (''microcar binary: '' @ bin), Out []] @
          concat (map print_scenario (su_scenarios summary)) @
          [Out rule_line,
           Out (''scenarios: '' @ show_nat (to_passed t) @ '' passed, '' @ show_nat (to_failed t) @
                '' failed (of '' @ show_nat (to_scenarios t) @ '')''),
           Out (''invariants: '' @ show_nat (to_invariants_passed t) @ '' pass, '' @
                show_nat (to_invariants_failed t) @ '' fail, '' @ show_nat (to_invariants_skipped t) @
                '' skip'')] @
          (case json of Some path \<Rightarrow> write_summary env reports path | None \<Rightarrow> []),
          exit_of (all_passed summary)))"

text \<open>Printing before the rest of a command.\<close>

definition after :: "effect list \<Rightarrow> result \<Rightarrow> result" where
  "after es r = (es @ fst r, snd r)"

definition cmd_run :: "'o harness_env \<Rightarrow> string list \<Rightarrow> 'o \<Rightarrow> result option" where
  "cmd_run env args s =
     (case parse_opts args of
        Inl e \<Rightarrow> Some ([Err (''harness run: '' @ e)], 2)
      | Inr opts \<Rightarrow>
          (case ro_positionals opts of
             [scenario] \<Rightarrow>
               (case locate_microcar env of
                  Inl e \<Rightarrow> Some ([Err (''harness: '' @ e)], 2)
                | Inr bin \<Rightarrow> do {
                    (report, _) \<leftarrow> check_solo_vs_repeat (he_os env) bin scenario (unat (ro_repeats opts))
                                     (from_secs (ro_timeout_secs opts)) s;
                    Some (finish env bin [report] (ro_json opts))
                  })
           | _ \<Rightarrow> Some ([Err ''harness run: expected exactly one <scenario.toml>''], 2)))"

definition cmd_run_all :: "'o harness_env \<Rightarrow> string list \<Rightarrow> 'o \<Rightarrow> result option" where
  "cmd_run_all env args s =
     (case parse_opts args of
        Inl e \<Rightarrow> Some ([Err (''harness run-all: '' @ e)], 2)
      | Inr opts \<Rightarrow>
          (case locate_microcar env of
             Inl e \<Rightarrow> Some ([Err (''harness: '' @ e)], 2)
           | Inr bin \<Rightarrow>
               (case collect_scenarios env (ro_scenario_dir opts) of
                  Inl e \<Rightarrow> Some ([Err (''harness run-all: '' @ e)], 2)
                | Inr scenarios \<Rightarrow>
                    (if scenarios = [] then
                       Some ([Err (''harness run-all: no .toml scenarios in '' @ ro_scenario_dir opts)], 2)
                     else do {
                       (reports, _) \<leftarrow> run_each (\<lambda>p. check_solo_vs_repeat (he_os env) bin p
                           (unat (ro_repeats opts)) (from_secs (ro_timeout_secs opts))) scenarios s;
                       Some (after [Out (''Running '' @ show_nat (length scenarios) @ '' scenario(s) from '' @
                               ro_scenario_dir opts @ '' ('' @ show_nat (unat (ro_repeats opts)) @
                               '' repeat(s) each, '' @ debug_secs (ro_timeout_secs opts) @ '' timeout)'' @
                               newline)]
                             (finish env bin reports (ro_json opts)))
                     }))))"

definition TELEMATICS_SCENARIO :: string where
  "TELEMATICS_SCENARIO = ''dogfood/debug_gym/telematics_partial_write_bug/fixed.toml''"

definition cmd_telematics :: "'o harness_env \<Rightarrow> string list \<Rightarrow> 'o \<Rightarrow> result option" where
  "cmd_telematics env args s =
     (case parse_opts args of
        Inl e \<Rightarrow> Some ([Err (''harness telematics: '' @ e)], 2)
      | Inr opts \<Rightarrow>
          (case locate_microcar env of
             Inl e \<Rightarrow> Some ([Err (''harness: '' @ e)], 2)
           | Inr bin \<Rightarrow>
               (if \<not> he_is_file env TELEMATICS_SCENARIO then
                  Some ([Err (''harness telematics: scenario not found at '' @ TELEMATICS_SCENARIO),
                         Err ''Run this from the microcar repo root.''], 2)
                else do {
                  (report, _) \<leftarrow> check_solo_vs_repeat (he_os env) bin TELEMATICS_SCENARIO
                                   (unat (ro_repeats opts)) (from_secs (ro_timeout_secs opts)) s;
                  Some (after [Out (''Running telematics integration test: '' @ TELEMATICS_SCENARIO)]
                          (finish env bin [report] (ro_json opts)))
                })))"

definition cmd_cockpit :: "'o harness_env \<Rightarrow> string list \<Rightarrow> result" where
  "cmd_cockpit env args =
     (if \<not> he_is_file env ''../costar/Cargo.toml'' then
        ([Err ''harness cockpit: costar repo not found at ../costar'',
          Err ''Run this from the microcar repo root with costar at ../costar''], 2)
      else after [Out ''Running gRPC cockpit integration test (sim-grpc)...'']
        (case he_cargo env of
           Inr st \<Rightarrow>
             (if es_success st then ([Out ''cockpit: PASS''], 0)
              else ([Err (''cockpit: FAIL (exit code: '' @
                      show_code (case es_code st of Some c \<Rightarrow> c | None \<Rightarrow> - 1) @ '')'')], 1))
         | Inl e \<Rightarrow> ([Err (''harness cockpit: failed to run cargo test: '' @ e)], 2)))"

subsection \<open>The lanes over a directory\<close>

text \<open>The options of the lanes that read one directory, parsed by the same loop in each.\<close>

record dir_opts =
  do_dir :: string
  do_timeout_secs :: u64
  do_json :: "string option"

fun dir_opts_loop :: "dir_opts \<Rightarrow> string list \<Rightarrow> string + dir_opts" where
  "dir_opts_loop o' [] = Inr o'"
| "dir_opts_loop o' (a # rest) =
     (if a = ''--dir'' then
        (case rest of
           [] \<Rightarrow> Inl ''--dir needs a path''
         | v # rest' \<Rightarrow> dir_opts_loop (o'\<lparr>do_dir := v\<rparr>) rest')
      else if a = ''--timeout-secs'' then
        (case rest of
           [] \<Rightarrow> Inl ''--timeout-secs needs a number''
         | v # rest' \<Rightarrow>
             (case parse_u64 v of
                Some n \<Rightarrow> dir_opts_loop (o'\<lparr>do_timeout_secs := n\<rparr>) rest'
              | None \<Rightarrow> Inl ''--timeout-secs needs a number''))
      else if a = ''--json'' then
        (case rest of
           [] \<Rightarrow> Inl ''--json needs a path''
         | v # rest' \<Rightarrow> dir_opts_loop (o'\<lparr>do_json := Some v\<rparr>) rest')
      else if starts_with a ''-'' then Inl (''unknown flag: '' @ a)
      else dir_opts_loop (o'\<lparr>do_dir := a\<rparr>) rest)"

definition default_dir_opts :: "string \<Rightarrow> dir_opts" where
  "default_dir_opts dir = \<lparr>do_dir = dir, do_timeout_secs = DEFAULT_TIMEOUT_SECS, do_json = None\<rparr>"

text \<open>The end of a lane: the totals, the report as a file, the exit code.\<close>

definition finish_lane ::
  "'o harness_env \<Rightarrow> string \<Rightarrow> string \<Rightarrow> nat \<times> nat \<Rightarrow> nat \<Rightarrow> string option \<Rightarrow> json \<Rightarrow> bool \<Rightarrow> result" where
  "finish_lane env label noun totals n json report passed =
     ([Out rule_line,
       Out (label @ '': '' @ show_nat (fst totals) @ '' passed, '' @ show_nat (snd totals) @
            '' failed (of '' @ show_nat n @ '' '' @ noun @ '')'')] @
      (case json of Some path \<Rightarrow> write_json env path (to_pretty report) | None \<Rightarrow> []),
      exit_of passed)"

definition check_line :: "lane_check \<Rightarrow> effect" where
  "check_line c = Out (''        ['' @ okmark (ck_passed c) @ ''] '' @ ck_name c @ '' -> '' @ ck_detail c)"

definition run_error_line :: "string option \<Rightarrow> effect list" where
  "run_error_line e = (case e of Some err \<Rightarrow> [Out (''        - run error: '' @ err)] | None \<Rightarrow> [])"

definition print_lane_result :: "lane_result \<Rightarrow> effect list" where
  "print_lane_result s =
     [Out (''['' @ okmark (lr_passed s) @ ''] '' @ lr_name s)] @ run_error_line (lr_run_error s) @
     map check_line (lr_checks s)"

text \<open>
  The body shared by the lanes over a directory: \<open>sub\<close> names the command in messages, \<open>subject\<close> the
  corpus, \<open>label\<close> and \<open>noun\<close> the totals; the remaining arguments run the lane and read its report.
\<close>

definition cmd_dir_lane ::
  "'o harness_env \<Rightarrow> string \<Rightarrow> string \<Rightarrow> string \<Rightarrow> string \<Rightarrow> string \<Rightarrow>
   (string \<Rightarrow> string \<Rightarrow> nat \<Rightarrow> (string + 'r list) option) \<Rightarrow> ('r \<Rightarrow> effect list) \<Rightarrow>
   ('r list \<Rightarrow> nat \<times> nat) \<Rightarrow> ('r list \<Rightarrow> json) \<Rightarrow> ('r list \<Rightarrow> bool) \<Rightarrow> string list \<Rightarrow> result option" where
  "cmd_dir_lane env sub subject dir0 label noun run print_one totals_of json_of passed_of args =
     (case dir_opts_loop (default_dir_opts dir0) args of
        Inl msg \<Rightarrow> Some (argerr sub msg)
      | Inr opts \<Rightarrow>
          (case locate_microcar env of
             Inl e \<Rightarrow> Some ([Err (''harness: '' @ e)], 2)
           | Inr bin \<Rightarrow> do {
               r \<leftarrow> run bin (do_dir opts) (from_secs (do_timeout_secs opts));
               Some (after (banner bin (subject @ '': '' @ do_dir opts))
                 (case r of
                    Inl e \<Rightarrow> ([Err (''harness '' @ sub @ '': reading corpus '' @ do_dir opts @ '': '' @ e)], 2)
                  | Inr results \<Rightarrow>
                      after (concat (map print_one results))
                        (finish_lane env label noun (totals_of results) (length results) (do_json opts)
                           (json_of results) (passed_of results))))
             }))"

definition cmd_diagnostics :: "'o harness_env \<Rightarrow> string list \<Rightarrow> 'o \<Rightarrow> result option" where
  "cmd_diagnostics env args s =
     cmd_dir_lane env ''diagnostics'' ''diagnostics corpus'' DEFAULT_DIAGNOSTICS_DIR ''diagnostics'' ''scenarios''
       (\<lambda>bin dir timeout. run_diagnostics (he_os env) (he_fs env) bin dir timeout s)
       print_lane_result lane_totals diagnostics_json lane_passed args"

definition cmd_charging :: "'o harness_env \<Rightarrow> string list \<Rightarrow> 'o \<Rightarrow> result option" where
  "cmd_charging env args s =
     cmd_dir_lane env ''charging'' ''charging corpus'' DEFAULT_CHARGING_DIR ''charging'' ''scenarios''
       (\<lambda>bin dir timeout. run_charging (he_os env) (he_fs env) bin dir timeout s)
       print_lane_result lane_totals charging_json lane_passed args"

definition cmd_ota :: "'o harness_env \<Rightarrow> string list \<Rightarrow> 'o \<Rightarrow> result option" where
  "cmd_ota env args s =
     cmd_dir_lane env ''ota'' ''ota corpus'' DEFAULT_OTA_DIR ''ota'' ''scenarios''
       (\<lambda>bin dir timeout. run_ota (he_os env) (he_fs env) bin dir timeout s)
       print_lane_result lane_totals ota_json lane_passed args"

definition print_topology_result :: "topology_result \<Rightarrow> effect list" where
  "print_topology_result s =
     [Out (''['' @ okmark (tr_passed s) @ ''] '' @ tr_name s)] @ run_error_line (tr_run_error s) @
     map (\<lambda>p. Out (''        ['' @ okmark (pr_passed p) @ ''] probe '' @ pr_id_hex p @ '' -> '' @ pr_detail p))
       (tr_probes s) @
     map (\<lambda>c. Out (''        ['' @ okmark (cr_passed c) @ ''] correlate '' @ cr_id_hex c @ '' -> '' @ cr_detail c))
       (tr_correlations s)"

definition cmd_topology :: "'o harness_env \<Rightarrow> string list \<Rightarrow> 'o \<Rightarrow> result option" where
  "cmd_topology env args s =
     cmd_dir_lane env ''topology'' ''topology corpus'' DEFAULT_TOPOLOGY_DIR ''topology'' ''scenarios''
       (\<lambda>bin dir timeout. run_topology (he_os env) (he_tf env) (he_fs env) bin dir timeout s)
       print_topology_result topology_totals topology_json topology_passed args"

definition print_seed_result :: "seed_result \<Rightarrow> effect list" where
  "print_seed_result s =
     [Out (''['' @ okmark (sr_passed s) @ ''] '' @ sr_name s),
      Out (''        bug:      '' @ sr_description s),
      Out (''        symptom:  '' @ sr_symptom s),
      Out (''        primitive:'' @ format_indent (sr_primitive s))] @
     run_error_line (sr_run_error s) @ map check_line (sr_checks s)"

text \<open>\<open>run_corpus\<close> returns \<open>Ok\<close> always.\<close>

definition cmd_debug_gym_corpus :: "'o harness_env \<Rightarrow> string list \<Rightarrow> 'o \<Rightarrow> result option" where
  "cmd_debug_gym_corpus env args s =
     cmd_dir_lane env ''debug-gym-corpus'' ''debug_gym seeded-bug corpus'' DEFAULT_DEBUG_GYM_CORPUS_DIR
       ''debug_gym_corpus'' ''seeds''
       (\<lambda>bin dir timeout. map_option (\<lambda>(seeds, _). Inr seeds) (run_corpus (he_os env) bin dir timeout s))
       print_seed_result corpus_totals corpus_json corpus_passed args"

subsection \<open>Malformed scenarios\<close>

record zoo_opts =
  zo_dir :: string
  zo_healthy :: "string option"
  zo_timeout_secs :: u64
  zo_json :: "string option"

fun zoo_opts_loop :: "zoo_opts \<Rightarrow> string list \<Rightarrow> string + zoo_opts" where
  "zoo_opts_loop o' [] = Inr o'"
| "zoo_opts_loop o' (a # rest) =
     (if a = ''--dir'' then
        (case rest of
           [] \<Rightarrow> Inl ''--dir needs a path''
         | v # rest' \<Rightarrow> zoo_opts_loop (o'\<lparr>zo_dir := v\<rparr>) rest')
      else if a = ''--healthy'' then
        (case rest of
           [] \<Rightarrow> Inl ''--healthy needs a path''
         | v # rest' \<Rightarrow> zoo_opts_loop (o'\<lparr>zo_healthy := Some v\<rparr>) rest')
      else if a = ''--no-sibling'' then zoo_opts_loop (o'\<lparr>zo_healthy := None\<rparr>) rest
      else if a = ''--timeout-secs'' then
        (case rest of
           [] \<Rightarrow> Inl ''--timeout-secs needs a number''
         | v # rest' \<Rightarrow>
             (case parse_u64 v of
                Some n \<Rightarrow> zoo_opts_loop (o'\<lparr>zo_timeout_secs := n\<rparr>) rest'
              | None \<Rightarrow> Inl ''--timeout-secs needs a number''))
      else if a = ''--json'' then
        (case rest of
           [] \<Rightarrow> Inl ''--json needs a path''
         | v # rest' \<Rightarrow> zoo_opts_loop (o'\<lparr>zo_json := Some v\<rparr>) rest')
      else if starts_with a ''-'' then Inl (''unknown flag: '' @ a)
      else zoo_opts_loop (o'\<lparr>zo_dir := a\<rparr>) rest)"

definition default_zoo_opts :: zoo_opts where
  "default_zoo_opts = \<lparr>zo_dir = DEFAULT_ZOO_DIR, zo_healthy = Some ''scenarios/boot_and_heartbeat.toml'',
                       zo_timeout_secs = DEFAULT_TIMEOUT_SECS, zo_json = None\<rparr>"

definition print_case :: "case_result \<Rightarrow> effect" where
  "print_case c = Out (''['' @ okmark (cs_passed c) @ ''] '' @ pad_right 30 (cs_name c) @ '' '' @ cs_detail c)"

definition print_sibling :: "sibling_isolation \<Rightarrow> effect" where
  "print_sibling s = Out (''['' @ okmark (si_isolated s) @ ''] sibling-isolation  healthy='' @
     status_as_str (si_healthy_status s) @ ''  bad='' @ status_as_str (si_bad_status s) @ ''  isolated='' @
     show_bool (si_isolated s))"

definition cmd_toml_zoo :: "'o harness_env \<Rightarrow> string list \<Rightarrow> 'o \<Rightarrow> result option" where
  "cmd_toml_zoo env args s =
     (case zoo_opts_loop default_zoo_opts args of
        Inl msg \<Rightarrow> Some (argerr ''toml-zoo'' msg)
      | Inr opts \<Rightarrow>
          (case locate_microcar env of
             Inl e \<Rightarrow> Some ([Err (''harness: '' @ e)], 2)
           | Inr bin \<Rightarrow> do {
               let healthy = (case zo_healthy opts of
                                Some h \<Rightarrow> if he_is_file env h then Some h else None
                              | None \<Rightarrow> None);
               r \<leftarrow> run_toml_zoo (he_os env) (he_fs env) bin (zo_dir opts) (from_secs (zo_timeout_secs opts))
                      healthy (he_sibling env) s;
               Some (after (banner bin (''toml_zoo corpus: '' @ zo_dir opts))
                 (case r of
                    Inl e \<Rightarrow> ([Err (''harness toml-zoo: reading corpus '' @ zo_dir opts @ '': '' @ e)], 2)
                  | Inr report \<Rightarrow>
                      after (map print_case (zr_cases report) @
                             (case zr_sibling report of Some sib \<Rightarrow> [print_sibling sib] | None \<Rightarrow> []))
                        (finish_lane env ''toml_zoo'' ''cases'' (zoo_totals report) (length (zr_cases report))
                           (zo_json opts) (zoo_json report) (zoo_passed report))))
             }))"

subsection \<open>The debug gym\<close>

record gym_opts =
  go_scenario_dir :: "string option"
  go_timeout_secs :: u64
  go_json :: "string option"

text \<open>Other arguments are ignored.\<close>

fun gym_opts_loop :: "gym_opts \<Rightarrow> string list \<Rightarrow> string + gym_opts" where
  "gym_opts_loop o' [] = Inr o'"
| "gym_opts_loop o' (a # rest) =
     (if a = ''--scenario-dir'' then
        (case rest of
           [] \<Rightarrow> Inl ''--scenario-dir needs a path''
         | v # rest' \<Rightarrow> gym_opts_loop (o'\<lparr>go_scenario_dir := Some v\<rparr>) rest')
      else if a = ''--timeout-secs'' then
        (case rest of
           [] \<Rightarrow> Inl ''--timeout-secs needs a number''
         | v # rest' \<Rightarrow>
             (case parse_u64 v of
                Some n \<Rightarrow> gym_opts_loop (o'\<lparr>go_timeout_secs := n\<rparr>) rest'
              | None \<Rightarrow> Inl ''--timeout-secs needs a number''))
      else if a = ''--json'' then
        (case rest of
           [] \<Rightarrow> Inl ''--json needs a path''
         | v # rest' \<Rightarrow> gym_opts_loop (o'\<lparr>go_json := Some v\<rparr>) rest')
      else if starts_with a ''-'' then Inl (''unknown flag: '' @ a)
      else gym_opts_loop o' rest)"

definition default_gym_opts :: gym_opts where
  "default_gym_opts = \<lparr>go_scenario_dir = None, go_timeout_secs = DEFAULT_TIMEOUT_SECS, go_json = None\<rparr>"

definition gym_scenarios :: "'o harness_env \<Rightarrow> string option \<Rightarrow> string + string list" where
  "gym_scenarios env scenario_dir =
     (case scenario_dir of
        Some dir \<Rightarrow>
          (case collect_scenarios env dir of
             Inl e \<Rightarrow> Inl (''harness debug-gym: '' @ e)
           | Inr ps \<Rightarrow>
               (if ps = [] then Inl (''harness debug-gym: no .toml scenarios in '' @ dir) else Inr ps))
      | None \<Rightarrow> Inr DEFAULT_SCENARIOS)"

definition cmd_debug_gym :: "'o harness_env \<Rightarrow> string list \<Rightarrow> 'o \<Rightarrow> result option" where
  "cmd_debug_gym env args s =
     (case gym_opts_loop default_gym_opts args of
        Inl msg \<Rightarrow> Some (argerr ''debug-gym'' msg)
      | Inr opts \<Rightarrow>
          (case locate_microcar env of
             Inl e \<Rightarrow> Some ([Err (''harness: '' @ e)], 2)
           | Inr bin \<Rightarrow>
               (case gym_scenarios env (go_scenario_dir opts) of
                  Inl e \<Rightarrow> Some ([Err e], 2)
                | Inr scenarios \<Rightarrow> do {
                    (results, _) \<leftarrow> run_debug_gym (he_os env) (he_fs env) bin scenarios
                                      (from_secs (go_timeout_secs opts)) s;
                    Some (after (banner bin (''debug_gym: '' @ show_nat (length scenarios) @ '' scenario(s)'') @
                        map (\<lambda>r. Out (''['' @ okmark (gy_passed r) @ ''] '' @ pad_right 28 (gy_name r) @ '' '' @
                             gy_detail r)) results)
                      (finish_lane env ''debug_gym'' ''scenarios'' (gym_totals results) (length results)
                         (go_json opts) (gym_json results) (gym_all_passed results)))
                  })))"

subsection \<open>The simulation farm\<close>

record farm_opts =
  fo_n :: u64
  fo_churn :: u64
  fo_timeout_secs :: u64
  fo_json :: "string option"
  fo_bad :: "string option"
  fo_scenario :: "string option"

fun farm_opts_loop :: "farm_opts \<Rightarrow> string list \<Rightarrow> string + farm_opts" where
  "farm_opts_loop o' [] = Inr o'"
| "farm_opts_loop o' (a # rest) =
     (if a = ''-n'' \<or> a = ''--sessions'' then
        (case rest of
           [] \<Rightarrow> Inl ''-n/--sessions needs a number''
         | v # rest' \<Rightarrow>
             (case parse_u64 v of
                Some n \<Rightarrow> farm_opts_loop (o'\<lparr>fo_n := n\<rparr>) rest'
              | None \<Rightarrow> Inl ''-n/--sessions needs a number''))
      else if a = ''--churn'' then
        (case rest of
           [] \<Rightarrow> Inl ''--churn needs a number''
         | v # rest' \<Rightarrow>
             (case parse_u64 v of
                Some n \<Rightarrow> farm_opts_loop (o'\<lparr>fo_churn := n\<rparr>) rest'
              | None \<Rightarrow> Inl ''--churn needs a number''))
      else if a = ''--timeout-secs'' then
        (case rest of
           [] \<Rightarrow> Inl ''--timeout-secs needs a number''
         | v # rest' \<Rightarrow>
             (case parse_u64 v of
                Some n \<Rightarrow> farm_opts_loop (o'\<lparr>fo_timeout_secs := n\<rparr>) rest'
              | None \<Rightarrow> Inl ''--timeout-secs needs a number''))
      else if a = ''--json'' then
        (case rest of
           [] \<Rightarrow> Inl ''--json needs a path''
         | v # rest' \<Rightarrow> farm_opts_loop (o'\<lparr>fo_json := Some v\<rparr>) rest')
      else if a = ''--bad'' then
        (case rest of
           [] \<Rightarrow> Inl ''--bad needs a path''
         | v # rest' \<Rightarrow> farm_opts_loop (o'\<lparr>fo_bad := Some v\<rparr>) rest')
      else if starts_with a ''-'' then Inl (''unknown flag: '' @ a)
      else farm_opts_loop (o'\<lparr>fo_scenario := Some a\<rparr>) rest)"

definition default_farm_opts :: farm_opts where
  "default_farm_opts = \<lparr>fo_n = 4, fo_churn = 5, fo_timeout_secs = DEFAULT_TIMEOUT_SECS, fo_json = None,
                        fo_bad = None, fo_scenario = None\<rparr>"

definition print_simfarm :: "simfarm_report \<Rightarrow> effect list" where
  "print_simfarm sim =
     [Out (''['' @ okmark (simfarm_passed sim) @ ''] concurrent x'' @ pad_right 3 (show_nat (sf_n sim)) @
        ''  solo='' @ short_hash (sf_solo_hash sim) @ ''  all_match='' @ show_bool (sf_all_match sim) @
        ''  all_clean='' @ show_bool (sf_all_clean sim))] @
     concat (map (\<lambda>(idx, rh).
         if rh_hash rh \<noteq> sf_solo_hash sim \<or> \<not> is_clean (rh_status rh)
         then [Out (''        - run #'' @ show_nat idx @ '': status='' @ status_as_str (rh_status rh) @
                 '' hash='' @ short_hash (rh_hash rh))]
         else [])
       (enumerate 0 (sf_concurrent sim)))"

definition print_churn :: "churn_report \<Rightarrow> effect" where
  "print_churn c = Out (''['' @ okmark (churn_passed c) @ ''] churn x'' @ pad_right 7 (show_nat (ch_iterations c)) @
     ''  distinct_hashes='' @ show_nat (ch_distinct_hashes c) @ ''  clean='' @ show_nat (ch_clean c) @ ''/'' @
     show_nat (ch_iterations c))"

definition print_isolation :: "string \<Rightarrow> panic_isolation_report \<Rightarrow> effect" where
  "print_isolation bad p = Out (''['' @ okmark (isolation_passed p) @ ''] panic-isolation  bad='' @ bad @
     ''  healthy='' @ status_as_str (pi_healthy_status p) @ ''  bad_status='' @
     status_as_str (pi_bad_status p) @ ''(exit='' @ show_opt show_code (pi_bad_exit_code p) @
     '')  isolated='' @ show_bool (pi_isolated p))"

text \<open>The farm, then the churn unless it is zero, then the isolation when the bad scenario exists.\<close>

definition farm_reports ::
  "'o harness_env \<Rightarrow> string \<Rightarrow> string \<Rightarrow> string \<Rightarrow> farm_opts \<Rightarrow> 'o \<Rightarrow>
   (simfarm_report \<times> churn_report option \<times> panic_isolation_report option) option" where
  "farm_reports env bin scenario bad opts s = do {
     let timeout = from_secs (fo_timeout_secs opts);
     sim \<leftarrow> run_simfarm (he_os env) bin scenario (unat (fo_n opts)) timeout (he_farm env) s;
     (churn, s1) \<leftarrow> (if fo_churn opts > 0
       then map_option (\<lambda>(c, s'). (Some c, s'))
              (run_churn (he_os env) bin scenario (unat (fo_churn opts)) timeout (he_joined env s))
       else Some (None, he_joined env s));
     panic \<leftarrow> (if he_is_file env bad
       then map_option Some (run_panic_isolation (he_os env) bin scenario bad timeout (he_isolation env) s1)
       else Some None);
     Some (sim, churn, panic)
   }"

definition farm_json ::
  "simfarm_report \<Rightarrow> churn_report option \<Rightarrow> panic_isolation_report option \<Rightarrow> json" where
  "farm_json sim churn panic = JObj
     ([(''simfarm'', simfarm_json sim)] @
      (case churn of Some c \<Rightarrow> [(''churn'', churn_json c)] | None \<Rightarrow> []) @
      (case panic of Some p \<Rightarrow> [(''panic_isolation'', isolation_json p)] | None \<Rightarrow> []))"

definition farm_passed ::
  "simfarm_report \<Rightarrow> churn_report option \<Rightarrow> panic_isolation_report option \<Rightarrow> bool" where
  "farm_passed sim churn panic \<longleftrightarrow> simfarm_passed sim \<and>
     (case churn of Some c \<Rightarrow> churn_passed c | None \<Rightarrow> True) \<and>
     (case panic of Some p \<Rightarrow> isolation_passed p | None \<Rightarrow> True)"

definition cmd_simfarm :: "'o harness_env \<Rightarrow> string list \<Rightarrow> 'o \<Rightarrow> result option" where
  "cmd_simfarm env args s =
     (case farm_opts_loop default_farm_opts args of
        Inl msg \<Rightarrow> Some (argerr ''simfarm'' msg)
      | Inr opts \<Rightarrow>
          (case fo_scenario opts of
             None \<Rightarrow> Some (argerr ''simfarm'' ''expected <scenario.toml>'')
           | Some scenario \<Rightarrow>
               (case locate_microcar env of
                  Inl e \<Rightarrow> Some ([Err (''harness: '' @ e)], 2)
                | Inr bin \<Rightarrow> do {
                    let bad = (case fo_bad opts of Some b \<Rightarrow> b
                               | None \<Rightarrow> DEFAULT_ZOO_DIR @ ''/missing_gateway.toml'');
                    (sim, churn, panic) \<leftarrow> farm_reports env bin scenario bad opts s;
                    let all_ok = farm_passed sim churn panic;
                    Some (banner bin (''simfarm: '' @ scenario) @ print_simfarm sim @
                        (case churn of Some c \<Rightarrow> [print_churn c] | None \<Rightarrow> []) @
                        (case panic of
                           Some p \<Rightarrow> [print_isolation bad p]
                         | None \<Rightarrow> [Out (''[skip] panic-isolation: no bad scenario at '' @ bad @
                                     '' (pass --bad PATH)'')]) @
                        (case fo_json opts of
                           Some path \<Rightarrow> write_json env path (to_pretty (farm_json sim churn panic))
                         | None \<Rightarrow> []) @
                        [Out rule_line, Out (''simfarm lane: '' @ (if all_ok then ''PASS'' else ''FAIL''))],
                      exit_of all_ok)
                  })))"

subsection \<open>The command line\<close>

definition harness_main :: "'o harness_env \<Rightarrow> string list \<Rightarrow> 'o \<Rightarrow> result option" where
  "harness_main env args s =
     (case args of
        [] \<Rightarrow> Some ([usage], 2)
      | cmd # rest \<Rightarrow>
          (if cmd = ''run'' then cmd_run env rest s
           else if cmd = ''run-all'' then cmd_run_all env rest s
           else if cmd = ''cockpit'' then Some (cmd_cockpit env rest)
           else if cmd = ''telematics'' then cmd_telematics env rest s
           else if cmd = ''simfarm'' then cmd_simfarm env rest s
           else if cmd = ''toml-zoo'' \<or> cmd = ''toml_zoo'' then cmd_toml_zoo env rest s
           else if cmd = ''topology'' then cmd_topology env rest s
           else if cmd = ''diagnostics'' then cmd_diagnostics env rest s
           else if cmd = ''charging'' then cmd_charging env rest s
           else if cmd = ''ota'' then cmd_ota env rest s
           else if cmd = ''debug-gym'' \<or> cmd = ''debug_gym'' then cmd_debug_gym env rest s
           else if cmd = ''debug-gym-corpus'' \<or> cmd = ''debug_gym_corpus''
           then cmd_debug_gym_corpus env rest s
           else if cmd = ''-h'' \<or> cmd = ''--help'' \<or> cmd = ''help'' then Some ([usage], 0)
           else Some ([Err (''harness: unknown subcommand '' @ [CHR 0x27] @ cmd @ [CHR 0x27] @ newline), usage],
                      2)))"

end
