(* ===== verification/Harness_Verdicts.thy ===== *)
theory Harness_Verdicts
  imports Harness
begin

text \<open>
  Properties of the command line of the harness: the exit code against the runs behind it, the
  files it writes, and the options it reads.
\<close>

subsection \<open>What is written\<close>

definition written :: "effect list \<Rightarrow> (string \<times> string) list" where
  "written es = List.map_filter (\<lambda>e. case e of Wrote p c \<Rightarrow> Some (p, c) | _ \<Rightarrow> None) es"

lemma written_simps [simp]:
  "written [] = []" "written (Out t # es) = written es" "written (Err t # es) = written es"
  "written (Wrote p c # es) = (p, c) # written es" "written (es @ es') = written es @ written es'"
  by (simp_all add: written_def map_filter_def)

lemma written_map_Out [simp]: "written (map (\<lambda>x. Out (f x)) xs) = []"
  by (induction xs) simp_all

lemma written_concat [simp]: "(\<And>x. written (f x) = []) \<Longrightarrow> written (concat (map f xs)) = []"
  by (induction xs) simp_all

definition json_arg :: "string list \<Rightarrow> string \<Rightarrow> bool" where
  "json_arg args p \<longleftrightarrow> (\<exists>pre post. args = pre @ ''--json'' # p # post)"

definition verdict_of :: "json \<Rightarrow> json option" where
  "verdict_of j = (case j of JObj kvs \<Rightarrow> map_of kvs ''passed'' | _ \<Rightarrow> None)"

text \<open>
  A result of the harness: an exit code of at most two, at most one file and none with exit code
  two, the file at a path given by \<open>--json\<close>, and its content a JSON text whose verdict, if it has
  one, is that of the exit code.
\<close>

definition json_report :: "string \<Rightarrow> u8 \<Rightarrow> bool" where
  "json_report content code \<longleftrightarrow>
     (\<exists>j. content = to_pretty j \<and> json_text (value_of j) content \<and>
        (verdict_of j = None \<or> verdict_of j = Some (JBool (code = 0))))"

definition well_reported :: "'o harness_env \<Rightarrow> string list \<Rightarrow> result \<Rightarrow> bool" where
  "well_reported env args r \<longleftrightarrow>
     (snd r = 2 \<and> written (fst r) = [] \<or>
      (snd r = 0 \<or> snd r = 1) \<and> length (written (fst r)) \<le> 1) \<and>
     list_all (\<lambda>(path, content). json_arg args path \<and> he_write env path content = None \<and>
       json_report content (snd r)) (written (fst r))"

lemma well_reported_silent:
  "written es = [] \<Longrightarrow> code = 0 \<or> code = 1 \<or> code = 2 \<Longrightarrow> well_reported env args (es, code)"
  by (auto simp: well_reported_def)

lemma well_reported_argerr [simp]: "well_reported env args (argerr sub msg)"
  by (simp add: argerr_def well_reported_silent)

lemma well_reported_after [simp]:
  "written es = [] \<Longrightarrow> well_reported env args (after es r) \<longleftrightarrow> well_reported env args r"
  by (simp add: well_reported_def after_def)

lemma json_report_to_pretty:
  "verdict_of j = None \<or> verdict_of j = Some (JBool (code = 0)) \<Longrightarrow> json_report (to_pretty j) code"
  using pretty_conforms unfolding json_report_def by blast

lemma exit_of_eq [simp]: "exit_of b = 0 \<longleftrightarrow> b" "exit_of b = 1 \<longleftrightarrow> \<not> b" "exit_of b \<noteq> 2"
  by (simp_all add: exit_of_def)

lemma adjacent_Cons:
  "(\<exists>pre post. a # rest = pre @ x # p # post) \<longleftrightarrow>
   a = x \<and> (\<exists>post. rest = p # post) \<or> (\<exists>pre post. rest = pre @ x # p # post)"
  by (auto simp: Cons_eq_append_conv)

lemma json_arg_simps [simp]:
  "\<not> json_arg [] p"
  "json_arg (a # rest) p \<longleftrightarrow> a = ''--json'' \<and> (\<exists>post. rest = p # post) \<or> json_arg rest p"
  unfolding json_arg_def adjacent_Cons by simp_all

text \<open>Each option loop takes the report's path from a \<open>--json\<close> argument.\<close>

lemma opts_loop_json:
  "opts_loop o' args = Inr r \<Longrightarrow> ro_json r = Some p \<Longrightarrow> ro_json o' = Some p \<or> json_arg args p"
proof (induction o' args rule: opts_loop.induct)
  case (2 o' a rest)
  then show ?case by (cases rest) (auto split: if_splits option.splits)
qed simp

lemma dir_opts_loop_json:
  "dir_opts_loop o' args = Inr r \<Longrightarrow> do_json r = Some p \<Longrightarrow> do_json o' = Some p \<or> json_arg args p"
proof (induction o' args rule: dir_opts_loop.induct)
  case (2 o' a rest)
  then show ?case by (cases rest) (auto split: if_splits option.splits)
qed simp

lemma zoo_opts_loop_json:
  "zoo_opts_loop o' args = Inr r \<Longrightarrow> zo_json r = Some p \<Longrightarrow> zo_json o' = Some p \<or> json_arg args p"
proof (induction o' args rule: zoo_opts_loop.induct)
  case (2 o' a rest)
  then show ?case by (cases rest) (auto split: if_splits option.splits)
qed simp

lemma gym_opts_loop_json:
  "gym_opts_loop o' args = Inr r \<Longrightarrow> go_json r = Some p \<Longrightarrow> go_json o' = Some p \<or> json_arg args p"
proof (induction o' args rule: gym_opts_loop.induct)
  case (2 o' a rest)
  then show ?case by (cases rest) (auto split: if_splits option.splits)
qed simp

lemma farm_opts_loop_json:
  "farm_opts_loop o' args = Inr r \<Longrightarrow> fo_json r = Some p \<Longrightarrow> fo_json o' = Some p \<or> json_arg args p"
proof (induction o' args rule: farm_opts_loop.induct)
  case (2 o' a rest)
  then show ?case by (cases rest) (auto split: if_splits option.splits)
qed simp

lemma written_print [simp]:
  "written (run_error_line e) = []" "written (print_lane_result lr) = []"
  "written (print_topology_result tr) = []" "written (print_seed_result sr) = []"
  "written (print_scenario ss) = []" "written (print_simfarm sf) = []" "written (banner b t) = []"
proof -
  show e: "written (run_error_line e) = []" for e by (simp add: run_error_line_def split: option.split)
  have c: "written (map check_line cs) = []" for cs
    using written_map_Out [of _ cs] by (simp add: check_line_def [abs_def])
  show "written (print_lane_result lr) = []" by (simp add: print_lane_result_def e c)
  show "written (print_topology_result tr) = []" by (simp add: print_topology_result_def e)
  show "written (print_seed_result sr) = []" by (simp add: print_seed_result_def e c)
  show "written (print_scenario ss) = []" by (simp add: print_scenario_def Let_def)
  have "written (case x of (i, r) \<Rightarrow> if P r then [Out (f i r)] else []) = []" for x :: "nat \<times> run_hash" and P f
    by (cases x) simp
  then show "written (print_simfarm sf) = []" by (simp add: print_simfarm_def)
  show "written (banner b t) = []" by (simp add: banner_def)
qed

lemma written_option: "written (case x of Some y \<Rightarrow> [f y] | None \<Rightarrow> es) = (case x of Some y \<Rightarrow> written [f y] | None \<Rightarrow> written es)"
  by (simp split: option.split)

lemma usage_silent [simp]: "written [usage] = []" "written [e, usage] = written [e]"
  by (simp_all add: usage_def written_def map_filter_def)

lemma written_write_json:
  "written (write_json env path content) = (if he_write env path content = None then [(path, content)] else [])"
  by (simp add: write_json_def split: option.split)

lemma well_reported_finish_lane:
  assumes "verdict_of j = Some (JBool passed)" and "\<And>p. json = Some p \<Longrightarrow> json_arg args p"
  shows "well_reported env args (finish_lane env label noun t n json j passed)"
  using assms
  by (auto simp: well_reported_def finish_lane_def written_write_json intro: json_report_to_pretty
      split: option.split)

lemma verdicts [simp]:
  "verdict_of (lane_json name rs) = Some (JBool (lane_passed rs))"
  "verdict_of (diagnostics_json rs) = Some (JBool (lane_passed rs))"
  "verdict_of (charging_json rs) = Some (JBool (lane_passed rs))"
  "verdict_of (ota_json rs) = Some (JBool (lane_passed rs))"
  "verdict_of (topology_json ts) = Some (JBool (topology_passed ts))"
  "verdict_of (corpus_json ss) = Some (JBool (corpus_passed ss))"
  "verdict_of (zoo_json zr) = Some (JBool (zoo_passed zr))"
  "verdict_of (gym_json gs) = Some (JBool (gym_all_passed gs))"
  "verdict_of (summary_json su) = None" "verdict_of (farm_json sim churn panic) = None"
  by (simp_all add: verdict_of_def lane_json_def diagnostics_json_def charging_json_def ota_json_def
      topology_json_def corpus_json_def zoo_json_def gym_json_def summary_json_def farm_json_def
      case_prod_beta split: option.split)

lemma well_reported_finish:
  assumes "\<And>p. json = Some p \<Longrightarrow> json_arg args p"
  shows "well_reported env args (finish env bin reports json)"
  using assms json_report_to_pretty [of "summary_json (build_summary reports)"]
  by (auto simp: well_reported_def finish_def Let_def write_summary_def to_json_string_def
      split: option.split)

text \<open>A command keeps a property of results if every result it can return has it.\<close>

lemma pred_option_bind: "pred_option P (Option.bind m f) \<longleftrightarrow> pred_option (\<lambda>x. pred_option P (f x)) m"
  by (cases m) simp_all

lemma pred_optionI: "(\<And>x. P x) \<Longrightarrow> pred_option P m"
  by (cases m) simp_all

lemma pred_option_True [simp]: "pred_option (\<lambda>_. True) m"
  by (cases m) simp_all

lemma well_reported_dir_lane:
  assumes "\<And>rs. verdict_of (json_of rs) = Some (JBool (passed_of rs))" and "\<And>r. written (print_one r) = []"
  shows "pred_option (well_reported env args)
    (cmd_dir_lane env sub subject dir0 label noun run print_one totals_of json_of passed_of args)"
proof -
  have j: "json_arg args p" if "dir_opts_loop (default_dir_opts dir0) args = Inr o'" "do_json o' = Some p" for o' p
    using dir_opts_loop_json [OF that] by (simp add: default_dir_opts_def)
  show ?thesis using assms
    by (auto simp: cmd_dir_lane_def pred_option_bind well_reported_silent well_reported_finish_lane j
        split: sum.split intro!: pred_optionI)
qed

lemmas well_reported_simps =
  split_beta pred_option_bind option.pred_inject well_reported_silent well_reported_finish_lane well_reported_finish

lemma well_reported_lanes:
  "pred_option (well_reported env args) (cmd_diagnostics env args s)"
  "pred_option (well_reported env args) (cmd_charging env args s)"
  "pred_option (well_reported env args) (cmd_ota env args s)"
  "pred_option (well_reported env args) (cmd_topology env args s)"
  "pred_option (well_reported env args) (cmd_debug_gym_corpus env args s)"
  by (simp_all add: cmd_diagnostics_def cmd_charging_def cmd_ota_def cmd_topology_def
      cmd_debug_gym_corpus_def well_reported_dir_lane)

lemma parse_opts_json: "parse_opts args = Inr o' \<Longrightarrow> ro_json o' = Some p \<Longrightarrow> json_arg args p"
  using opts_loop_json [of default_opts args o' p] by (simp add: parse_opts_def default_opts_def)

lemma well_reported_runs:
  "pred_option (well_reported env args) (cmd_run env args s)"
  "pred_option (well_reported env args) (cmd_run_all env args s)"
  "pred_option (well_reported env args) (cmd_telematics env args s)"
  by (simp_all add: cmd_run_def cmd_run_all_def cmd_telematics_def well_reported_simps parse_opts_json
      split: sum.split list.split)

lemma well_reported_zoo: "pred_option (well_reported env args) (cmd_toml_zoo env args s)"
proof -
  have j: "json_arg args p" if "zoo_opts_loop default_zoo_opts args = Inr o'" "zo_json o' = Some p" for o' p
    using zoo_opts_loop_json [OF that] by (simp add: default_zoo_opts_def)
  have "written (map print_case cs) = []" for cs
    using written_map_Out [of _ cs] by (simp add: print_case_def [abs_def])
  then show ?thesis
    by (auto simp: cmd_toml_zoo_def Let_def well_reported_simps j print_sibling_def
        split: sum.split option.split intro!: pred_optionI)
qed

lemma well_reported_gym: "pred_option (well_reported env args) (cmd_debug_gym env args s)"
proof -
  have "json_arg args p" if "gym_opts_loop default_gym_opts args = Inr o'" "go_json o' = Some p" for o' p
    using gym_opts_loop_json [OF that] by (simp add: default_gym_opts_def)
  then show ?thesis
    by (simp add: cmd_debug_gym_def well_reported_simps split: sum.split)
qed

lemma well_reported_simfarm: "pred_option (well_reported env args) (cmd_simfarm env args s)"
proof -
  have j: "json_arg args p" if "farm_opts_loop default_farm_opts args = Inr o'" "fo_json o' = Some p" for o' p
    using farm_opts_loop_json [OF that] by (simp add: default_farm_opts_def)
  have "well_reported env args (es @ (case fo_json o' of Some p \<Rightarrow> write_json env p (to_pretty (farm_json a b c)) | None \<Rightarrow> []) @
      [Out t, Out t'], exit_of ok)"
    if "farm_opts_loop default_farm_opts args = Inr o'" "written es = []" for o' es a b c t t' ok
    using j [OF that(1)] that(2)
    by (auto simp: well_reported_def written_write_json json_report_to_pretty split: option.split)
  note w = this [where es = "x1 @ x2 @ x3 @ x4" for x1 x2 x3 x4, simplified append_assoc]
  show ?thesis
    by (simp add: cmd_simfarm_def Let_def well_reported_simps w written_option print_churn_def print_isolation_def
        split: sum.split option.split)
qed

text \<open>
  Claim C38. Whatever the arguments and the environment, a call of the harness that returns exits with 0, 1
  or 2; it writes at most one file, and none when it exits with 2; a file it writes lies at a
  path given after \<open>--json\<close>, and its content is a JSON text whose verdict, where the report has one,
  is true exactly when the exit code is 0.
\<close>

theorem harness_reports:
  "case harness_main env args s of
     Some (effects, code) \<Rightarrow>
       (code = 2 \<and> written effects = [] \<or>
        (code = 0 \<or> code = 1) \<and> length (written effects) \<le> 1) \<and>
       list_all (\<lambda>(path, content). json_arg args path \<and> he_write env path content = None \<and>
         (\<exists>j. content = to_pretty j \<and> json_text (value_of j) content \<and>
            (verdict_of j = None \<or> verdict_of j = Some (JBool (code = 0))))) (written effects)
   | None \<Rightarrow> True"
proof -
  have up: "pred_option (well_reported env (c # rest)) m" if "pred_option (well_reported env rest) m" for c rest m
    using that by (rule option.pred_mono_strong) (auto simp: well_reported_def list_all_iff)
  have cockpit: "well_reported env args' (cmd_cockpit env rest)" for args' rest
    by (simp add: cmd_cockpit_def well_reported_silent split: sum.split)
  have "pred_option (well_reported env args) (harness_main env args s)"
    by (cases args) (simp_all add: harness_main_def well_reported_silent cockpit up well_reported_lanes
        well_reported_runs well_reported_zoo well_reported_gym well_reported_simfarm)
  then show ?thesis
    by (cases "harness_main env args s") (auto simp: well_reported_def json_report_def)
qed

subsection \<open>What the exit code says\<close>

text \<open>
  The exit code of a lane over a directory: 2 when an argument is wrong, the binary is not found or
  the directory cannot be listed; otherwise 0 when it lists a scenario and every scenario is
  accepted, and 1 if not.
\<close>

definition lane_exit ::
  "(string \<Rightarrow> 'e list) \<Rightarrow> ('e \<Rightarrow> user_trace list \<Rightarrow> bool) \<Rightarrow> 'o harness_env \<Rightarrow> string \<Rightarrow> string list \<Rightarrow> 'o \<Rightarrow>
   u8 option" where
  "lane_exit parse holds env dir args s =
     (case dir_opts_loop \<lparr>do_dir = dir, do_timeout_secs = 60, do_json = None\<rparr> args of
        Inl e \<Rightarrow> Some 2
      | Inr opts \<Rightarrow>
          (case locate_microcar env of
             Inl e \<Rightarrow> Some 2
           | Inr bin \<Rightarrow>
               (case discover_scenarios (he_fs env) (do_dir opts) of
                  Inl e \<Rightarrow> Some 2
                | Inr paths \<Rightarrow>
                    map_option (\<lambda>ok. if paths \<noteq> [] \<and> ok then 0 else 1)
                      (all_accepted (accepted_run parse holds (he_os env) (he_fs env) bin
                         (unat (do_timeout_secs opts) * 1000)) paths s))))"

lemma snd_simps [simp]:
  "snd (after es r) = snd r" "snd (argerr sub msg) = 2"
  "snd (finish_lane env label noun t n json j passed) = exit_of passed"
  "snd (finish env bin reports json) = exit_of (all_passed (build_summary reports))"
  by (simp_all add: after_def argerr_def finish_lane_def finish_def Let_def)

lemma dir_lane_exit:
  "map_option snd (cmd_dir_lane env sub subject dir0 label noun run print_one totals_of json_of passed_of args) =
   (case dir_opts_loop (default_dir_opts dir0) args of
      Inl e \<Rightarrow> Some 2
    | Inr opts \<Rightarrow>
        (case locate_microcar env of
           Inl e \<Rightarrow> Some 2
         | Inr bin \<Rightarrow>
             map_option (\<lambda>r. case r of Inl e \<Rightarrow> 2 | Inr ok \<Rightarrow> exit_of ok)
               (map_option (map_sum id passed_of) (run bin (do_dir opts) (from_secs (do_timeout_secs opts))))))"
proof (cases "dir_opts_loop (default_dir_opts dir0) args")
  case (Inr opts)
  show ?thesis
  proof (cases "locate_microcar env")
    case (Inr bin)
    with \<open>dir_opts_loop _ args = Inr opts\<close> show ?thesis
      by (cases "run bin (do_dir opts) (from_secs (do_timeout_secs opts))")
        (auto simp: cmd_dir_lane_def split: sum.split)
  qed (simp add: cmd_dir_lane_def Inr)
qed (simp add: cmd_dir_lane_def)

lemma lane_exit_eq:
  assumes "\<And>bin dir timeout. map_option (map_sum id passed_of) (run bin dir timeout) =
     (case discover_scenarios (he_fs env) dir of
        Inl e \<Rightarrow> Some (Inl e)
      | Inr ps \<Rightarrow> map_option (\<lambda>ok. Inr (ps \<noteq> [] \<and> ok))
          (all_accepted (accepted_run parse holds (he_os env) (he_fs env) bin timeout) ps s))"
  shows "map_option snd (cmd_dir_lane env sub subject dir0 label noun run print_one totals_of json_of passed_of args) =
    lane_exit parse holds env dir0 args s"
  unfolding dir_lane_exit assms
  by (simp add: lane_exit_def default_dir_opts_def DEFAULT_TIMEOUT_SECS_def from_secs_def exit_of_def
      option.map_comp comp_def split: sum.split)

text \<open>
  Claim C36. \<open>harness ota\<close>, \<open>harness charging\<close> and \<open>harness diagnostics\<close> exit with 0 exactly when the arguments
  are accepted, the binary is found, the directory lists at least one scenario, and for every
  scenario file in it, in order, the run passed and all expectations written in the file hold of its
  trace; with 2 when the arguments, the binary or the directory are at fault; with 1 otherwise.
\<close>

theorem lane_commands_exit_code:
  "map_option snd (harness_main env (''ota'' # args) s) =
     lane_exit parse_ota_expectations ota_holds env ''dogfood/ota'' args s \<and>
   map_option snd (harness_main env (''charging'' # args) s) =
     lane_exit parse_charging_expectations charging_holds env ''dogfood/charging'' args s \<and>
   map_option snd (harness_main env (''diagnostics'' # args) s) =
     lane_exit parse_diag_expectations diag_holds env ''dogfood/diagnostics'' args s"
proof (intro conjI)
  show "map_option snd (harness_main env (''ota'' # args) s) =
     lane_exit parse_ota_expectations ota_holds env ''dogfood/ota'' args s"
    by (simp add: harness_main_def cmd_ota_def DEFAULT_OTA_DIR_def,
        rule lane_exit_eq) (simp add: run_ota_def run_ota_scenario_def [abs_def] ota.lane_verdict)
  show "map_option snd (harness_main env (''charging'' # args) s) =
     lane_exit parse_charging_expectations charging_holds env ''dogfood/charging'' args s"
    by (simp add: harness_main_def cmd_charging_def DEFAULT_CHARGING_DIR_def,
        rule lane_exit_eq) (simp add: run_charging_def run_charging_scenario_def [abs_def] chg.lane_verdict)
  show "map_option snd (harness_main env (''diagnostics'' # args) s) =
     lane_exit parse_diag_expectations diag_holds env ''dogfood/diagnostics'' args s"
    by (simp add: harness_main_def cmd_diagnostics_def DEFAULT_DIAGNOSTICS_DIR_def,
        rule lane_exit_eq) (simp add: run_diagnostics_def run_diagnostics_scenario_def [abs_def] dia.lane_verdict)
qed

text \<open>
  What \<open>harness run\<close> asks of the repeated runs of a scenario: the first one passed, with a trace that
  is not empty and in which no machine's clock goes back inside a segment, and every run has the
  trace hash of the first.
\<close>

definition runs_ok :: "scenario_run list \<Rightarrow> bool" where
  "runs_ok runs \<longleftrightarrow>
     (case runs of
        [] \<Rightarrow> False
      | run # rest \<Rightarrow> rn_status run = RPass \<and> rn_trace run \<noteq> [] \<and>
          (\<forall>m. segmented (times_of m (rn_trace run))) \<and>
          list_all (\<lambda>r. normalized_hash (rn_trace r) = normalized_hash (rn_trace run)) rest)"

definition repeated_ok :: "'o os \<Rightarrow> string \<Rightarrow> run_opts \<Rightarrow> string \<Rightarrow> 'o \<Rightarrow> (bool \<times> 'o) option" where
  "repeated_ok os bin opts scenario s =
     map_option (\<lambda>(runs, s'). (runs_ok runs, s'))
       (repeat_runs os bin scenario (unat (ro_timeout_secs opts) * 1000) (max (unat (ro_repeats opts)) 1) s)"

lemma summary_passed_runs:
  "summary_passed (from_determinism (determinism_report_of scenario n runs)) \<longleftrightarrow> runs_ok runs"
proof (cases runs)
  case (Cons run rest)
  have "\<not> is_fail (virtual_time_monotonic run) \<longleftrightarrow> (\<forall>m. segmented (times_of m (rn_trace run)))"
    by (simp add: is_fail_def virtual_time_status)
  with Cons show ?thesis
    by (auto simp: from_determinism_passed determinism_report_of_def Let_def first_run_def first_def runs_ok_def
        list_all_iff)
qed (simp add: from_determinism_passed determinism_report_of_def Let_def first_run_def first_def runs_ok_def)

lemma check_solo_passed:
  "map_option (\<lambda>(r, s'). (summary_passed (from_determinism r), s'))
     (check_solo_vs_repeat os bin scenario (unat (ro_repeats opts)) (from_secs (ro_timeout_secs opts)) s) =
   repeated_ok os bin opts scenario s"
  by (cases "repeat_runs os bin scenario (unat (ro_timeout_secs opts) * 1000) (max (unat (ro_repeats opts)) 1) s")
    (auto simp: check_solo_vs_repeat_def Let_def repeated_ok_def from_secs_def summary_passed_runs)

lemma all_passed_reports:
  "all_passed (build_summary reports) \<longleftrightarrow> reports \<noteq> [] \<and> list_all (\<lambda>r. summary_passed (from_determinism r)) reports"
  by (simp add: build_summary_def all_passed_new list_all_iff)

lemma check_solo_exit:
  "map_option (\<lambda>x. exit_of (all_passed (build_summary [fst x])))
     (check_solo_vs_repeat os bin scenario (unat (ro_repeats opts)) (from_secs (ro_timeout_secs opts)) s) =
   map_option (\<lambda>r. if fst r then 0 else 1) (repeated_ok os bin opts scenario s)"
  unfolding check_solo_passed [symmetric]
  by (cases "check_solo_vs_repeat os bin scenario (unat (ro_repeats opts)) (from_secs (ro_timeout_secs opts)) s")
    (auto simp: all_passed_reports exit_of_def)

lemma check_each_exit:
  assumes "ps \<noteq> []"
  shows "map_option (\<lambda>x. exit_of (all_passed (build_summary (fst x))))
     (run_each (\<lambda>p. check_solo_vs_repeat os bin p (unat (ro_repeats opts)) (from_secs (ro_timeout_secs opts))) ps s) =
   map_option (\<lambda>ok. if ok then 0 else 1) (all_accepted (repeated_ok os bin opts) ps s)"
proof -
  let ?check = "\<lambda>p. check_solo_vs_repeat os bin p (unat (ro_repeats opts)) (from_secs (ro_timeout_secs opts))"
  have v: "verdict_by (\<lambda>r. summary_passed (from_determinism r)) ?check = repeated_ok os bin opts"
    by (intro ext) (simp add: verdict_by_def check_solo_passed)
  have ne: "rs \<noteq> []" if "run_each ?check ps s = Some (rs, s')" for rs s'
    using run_each_length [OF that] assms by auto
  have "map_option (\<lambda>x. exit_of (all_passed (build_summary (fst x)))) (run_each ?check ps s) =
      map_option exit_of (map_option (\<lambda>(rs, s'). list_all (\<lambda>r. summary_passed (from_determinism r)) rs)
        (run_each ?check ps s))"
    by (cases "run_each ?check ps s") (auto simp: all_passed_reports ne)
  then show ?thesis unfolding run_each_accepted v by (simp add: exit_of_def [abs_def])
qed

lemma map_option_bind_fst:
  "map_option f (Option.bind m (\<lambda>(x, y). Some (g x))) = map_option (\<lambda>z. f (g (fst z))) m"
  by (cases m) auto

text \<open>
  The exit code of the commands that judge runs by their repetition. \<open>harness run\<close> exits with 0
  exactly when the repeated runs of its one scenario are as asked, \<open>run-all\<close> when those of every
  scenario of a directory are; wrong arguments, a missing binary, an unreadable or an empty directory
  give 2. \<open>harness telematics\<close> judges one fixed scenario in the same way: no expectation of the
  telematics lane plays a part.
\<close>

theorem run_commands_exit_code:
  "map_option snd (harness_main env (''run'' # args) s) =
     (case (parse_opts args, locate_microcar env) of
        (Inr opts, Inr bin) \<Rightarrow>
          (case ro_positionals opts of
             [scenario] \<Rightarrow> map_option (\<lambda>r. if fst r then 0 else 1)
               (repeated_ok (he_os env) bin opts scenario s)
           | _ \<Rightarrow> Some 2)
      | _ \<Rightarrow> Some 2) \<and>
   map_option snd (harness_main env (''run-all'' # args) s) =
     (case (parse_opts args, locate_microcar env) of
        (Inr opts, Inr bin) \<Rightarrow>
          (case discover_scenarios (he_fs env) (ro_scenario_dir opts) of
             Inl e \<Rightarrow> Some 2
           | Inr paths \<Rightarrow>
               (if paths = [] then Some 2
                else map_option (\<lambda>ok. if ok then 0 else 1)
                  (all_accepted (repeated_ok (he_os env) bin opts) paths s)))
      | _ \<Rightarrow> Some 2) \<and>
   map_option snd (harness_main env (''telematics'' # args) s) =
     (case (parse_opts args, locate_microcar env) of
        (Inr opts, Inr bin) \<Rightarrow>
          (if he_is_file env TELEMATICS_SCENARIO
           then map_option (\<lambda>r. if fst r then 0 else 1)
             (repeated_ok (he_os env) bin opts TELEMATICS_SCENARIO s)
           else Some 2)
      | _ \<Rightarrow> Some 2)"
proof -
  have all: "(case collect_scenarios env dir of Inl m \<Rightarrow> P | Inr ps \<Rightarrow> Q ps) =
      (case discover_scenarios (he_fs env) dir of Inl m \<Rightarrow> P | Inr ps \<Rightarrow> Q ps)" for dir and P :: "u8 option" and Q
    by (simp add: collect_scenarios_def discover_scenarios_def split: sum.split)
  have "map_option snd (cmd_run env args s) =
     (case (parse_opts args, locate_microcar env) of
        (Inr opts, Inr bin) \<Rightarrow>
          (case ro_positionals opts of
             [scenario] \<Rightarrow> map_option (\<lambda>r. if fst r then 0 else 1)
               (repeated_ok (he_os env) bin opts scenario s)
           | _ \<Rightarrow> Some 2)
      | _ \<Rightarrow> Some 2)"
    by (simp add: cmd_run_def map_option_bind_fst check_solo_exit split: sum.split list.split)
  moreover have "map_option snd (cmd_telematics env args s) =
     (case (parse_opts args, locate_microcar env) of
        (Inr opts, Inr bin) \<Rightarrow>
          (if he_is_file env TELEMATICS_SCENARIO
           then map_option (\<lambda>r. if fst r then 0 else 1)
             (repeated_ok (he_os env) bin opts TELEMATICS_SCENARIO s)
           else Some 2)
      | _ \<Rightarrow> Some 2)"
    by (simp add: cmd_telematics_def map_option_bind_fst check_solo_exit split: sum.split)
  moreover have "map_option snd (cmd_run_all env args s) =
     (case (parse_opts args, locate_microcar env) of
        (Inr opts, Inr bin) \<Rightarrow>
          (case discover_scenarios (he_fs env) (ro_scenario_dir opts) of
             Inl e \<Rightarrow> Some 2
           | Inr paths \<Rightarrow>
               (if paths = [] then Some 2
                else map_option (\<lambda>ok. if ok then 0 else 1)
                  (all_accepted (repeated_ok (he_os env) bin opts) paths s)))
      | _ \<Rightarrow> Some 2)"
    unfolding all [symmetric]
    by (simp add: cmd_run_all_def map_option_bind_fst check_each_exit split: sum.split)
  ultimately show ?thesis by (simp add: harness_main_def)
qed

lemma exit_after:
  "map_option P m = map_option Q n \<Longrightarrow>
   map_option (\<lambda>x. exit_of (P x)) m = map_option (\<lambda>y. if Q y then 0 else 1) n"
  by (cases m; cases n) (auto simp: exit_of_def)

lemmas exit_code_simps =
  harness_main_def dir_lane_exit option.map_comp comp_def map_sum.simps sum.case split_beta
  default_dir_opts_def DEFAULT_TIMEOUT_SECS_def from_secs_def

lemma corpus_exit:
  "map_option (\<lambda>x. exit_of (corpus_passed (fst x))) (run_corpus os bin dir timeout s) =
   map_option (\<lambda>ok. if ok then 0 else 1) (all_accepted (seed_accepted os bin dir timeout) builtin_seeds s)"
proof -
  have "builtin_seeds \<noteq> []" by (simp add: builtin_seeds_def)
  with exit_after [OF corpus.run_each_passed [of "run_seed os bin dir timeout" builtin_seeds s]]
  show ?thesis by (simp add: run_corpus_def run_seed_accepted)
qed

lemma gym_exit:
  "map_option (\<lambda>x. exit_of (gym_all_passed (fst x))) (run_debug_gym os fs bin ps timeout s) =
   map_option (\<lambda>ok. if ps \<noteq> [] \<and> ok then 0 else 1) (all_accepted (gym_accepted os fs bin timeout) ps s)"
  using exit_after [OF gym.run_each_passed [of "run_one os fs bin timeout" ps s]]
  by (simp add: run_debug_gym_def run_one_accepted)

lemma topology_exit:
  "map_option (\<lambda>r. case map_sum id topology_passed r of Inl e \<Rightarrow> 2 | Inr ok \<Rightarrow> exit_of ok)
     (run_topology os tf fs bin dir timeout s) =
   (case discover_topology fs dir of
      Inl e \<Rightarrow> Some 2
    | Inr ps \<Rightarrow> map_option (\<lambda>ok. if ps \<noteq> [] \<and> ok then 0 else 1)
        (all_accepted (topology_accepted os tf fs bin timeout) ps s))"
proof (cases "discover_topology fs dir")
  case (Inr ps)
  have "map_option (\<lambda>x. exit_of (topology_passed (fst x)))
      (run_each (run_topology_scenario os tf fs bin timeout) ps s) =
    map_option (\<lambda>ok. if ps \<noteq> [] \<and> ok then 0 else 1) (all_accepted (topology_accepted os tf fs bin timeout) ps s)"
    using exit_after [OF topo.run_each_passed [of "run_topology_scenario os tf fs bin timeout" ps s]]
    by (simp add: run_topology_accepted)
  then show ?thesis using Inr
    by (cases "run_each (run_topology_scenario os tf fs bin timeout) ps s") (auto simp: run_topology_def)
qed (simp add: run_topology_def)

text \<open>
  Claim C37. The exit code of the lanes with a verdict of their own. \<open>harness debug-gym-corpus\<close> exits with 0
  exactly when all four seeds show their bug, \<open>harness topology\<close> when the directory declares a probe
  scenario and every one delivers its probes as declared, \<open>harness debug-gym\<close> when every scenario runs
  alike event by event and to completion, within its deadline; with 2 when the arguments, the
  binary or the directory are at fault; with 1 otherwise.
\<close>

theorem judged_commands_exit_code:
  "map_option snd (harness_main env (''debug-gym-corpus'' # args) s) =
     (case (dir_opts_loop \<lparr>do_dir = ''dogfood/debug_gym'', do_timeout_secs = 60, do_json = None\<rparr> args,
            locate_microcar env) of
        (Inr opts, Inr bin) \<Rightarrow>
          map_option (\<lambda>ok. if ok then 0 else 1)
            (all_accepted (seed_accepted (he_os env) bin (do_dir opts) (unat (do_timeout_secs opts) * 1000))
               builtin_seeds s)
      | _ \<Rightarrow> Some 2) \<and>
   map_option snd (harness_main env (''topology'' # args) s) =
     (case (dir_opts_loop \<lparr>do_dir = ''dogfood/topology'', do_timeout_secs = 60, do_json = None\<rparr> args,
            locate_microcar env) of
        (Inr opts, Inr bin) \<Rightarrow>
          (case discover_topology (he_fs env) (do_dir opts) of
             Inl e \<Rightarrow> Some 2
           | Inr paths \<Rightarrow> map_option (\<lambda>ok. if paths \<noteq> [] \<and> ok then 0 else 1)
               (all_accepted (topology_accepted (he_os env) (he_tf env) (he_fs env) bin
                  (unat (do_timeout_secs opts) * 1000)) paths s))
      | _ \<Rightarrow> Some 2) \<and>
   map_option snd (harness_main env (''debug-gym'' # args) s) =
     (case (gym_opts_loop default_gym_opts args, locate_microcar env) of
        (Inr opts, Inr bin) \<Rightarrow>
          (case gym_scenarios env (go_scenario_dir opts) of
             Inl e \<Rightarrow> Some 2
           | Inr paths \<Rightarrow> map_option (\<lambda>ok. if paths \<noteq> [] \<and> ok then 0 else 1)
               (all_accepted (gym_accepted (he_os env) (he_fs env) bin (unat (go_timeout_secs opts) * 1000))
                  paths s))
      | _ \<Rightarrow> Some 2)"
proof (intro conjI, goal_cases)
  case 1
  show ?case
    using corpus_exit [of "he_os env" _ _ _ s]
    by (simp add: exit_code_simps cmd_debug_gym_corpus_def DEFAULT_DEBUG_GYM_CORPUS_DIR_def split: sum.split)
next
  case 2
  show ?case
    using topology_exit [of "he_os env" "he_tf env" "he_fs env" _ _ _ s]
    by (simp add: exit_code_simps cmd_topology_def DEFAULT_TOPOLOGY_DIR_def split: sum.split)
next
  case 3
  show ?case
    by (simp add: harness_main_def cmd_debug_gym_def map_option_bind_fst gym_exit from_secs_def split: sum.split)
qed

subsection \<open>Options are read back\<close>

definition render_opts :: "run_opts \<Rightarrow> string list" where
  "render_opts opts =
     [''--timeout-secs'', show_nat (unat (ro_timeout_secs opts)), ''--repeats'', show_nat (unat (ro_repeats opts)),
      ''--scenario-dir'', ro_scenario_dir opts] @
     (case ro_json opts of Some p \<Rightarrow> [''--json'', p] | None \<Rightarrow> []) @ ro_positionals opts"

lemma opts_loop_positionals:
  "list_all (\<lambda>p. \<not> starts_with p ''--'') ps \<Longrightarrow>
   opts_loop o' ps = Inr (o'\<lparr>ro_positionals := ro_positionals o' @ ps\<rparr>)"
proof (induction ps arbitrary: o')
  case (Cons p ps)
  then have "p \<notin> {''--timeout-secs'', ''--repeats'', ''--json'', ''--scenario-dir''}" by auto
  with Cons show ?case by simp
qed simp

text \<open>
  The options of \<open>harness run\<close> are read back from the command line that spells them out, whatever
  their values, unless a scenario's name starts with two dashes.
\<close>

theorem parse_opts_roundtrip:
  assumes "list_all (\<lambda>p. \<not> starts_with p ''--'') (ro_positionals opts)"
  shows "parse_opts (render_opts opts) = Inr opts"
  using assms
  by (cases "ro_json opts")
    (simp_all add: parse_opts_def render_opts_def default_opts_def opts_loop_positionals)

theorem parse_opts_roundtrip_witness:
  "parse_opts [''--timeout-secs'', ''5'', ''--repeats'', ''3'', ''--scenario-dir'', ''scenarios'', ''--json'', ''out.json'',
      ''a.toml''] =
   Inr \<lparr>ro_timeout_secs = 5, ro_repeats = 3, ro_json = Some ''out.json'', ro_scenario_dir = ''scenarios'',
        ro_positionals = [''a.toml'']\<rparr>"
proof -
  have "show_nat 5 = ''5''" "show_nat 3 = ''3''" by code_simp+
  then show ?thesis
    using parse_opts_roundtrip [of "\<lparr>ro_timeout_secs = 5, ro_repeats = 3, ro_json = Some ''out.json'',
      ro_scenario_dir = ''scenarios'', ro_positionals = [''a.toml'']\<rparr>"]
    by (simp add: render_opts_def)
qed

end
