(* ===== verification/Firmware.thy ===== *)
theory Firmware
  imports Gateway Bms Powertrain
begin

text \<open>
  The C functions that the Rust state machines mirror: \<^verbatim>\<open>common/src/microcar_protocol.c\<close>,
  \<^verbatim>\<open>gateway_state.c\<close>, \<^verbatim>\<open>bms_state.c\<close>, \<^verbatim>\<open>bms_limits.c\<close>, \<^verbatim>\<open>safety_rules.c\<close>,
  \<^verbatim>\<open>torque_controller.c\<close> and \<^verbatim>\<open>watchdog_task.c\<close>. An enum is a 32-bit unsigned integer (the
  ECUs cast wire bytes to it unchecked), a flag is a byte, unsigned arithmetic wraps and a value of
  type \<open>int8_t\<close> is a byte read by \<open>sint\<close>.

  The locale \<open>mirrors\<close> is the contract between a C component and its Rust mirror: from related
  states, whatever the mirror answers without a panic the firmware answers too, and the states stay
  related. Its lemma lifts this to runs. The interpretations are in this theory and in
  \<open>Firmware_Tables\<close> and \<open>Firmware_Ota\<close>.
\<close>

subsection \<open>The contract of a mirror\<close>

fun run_c :: "('c \<Rightarrow> 'op \<Rightarrow> 'a \<times> 'c) \<Rightarrow> 'c \<Rightarrow> 'op list \<Rightarrow> 'a list \<times> 'c" where
  "run_c st c [] = ([], c)"
| "run_c st c (op # ops) = (let (a, c) = st c op; (as, c) = run_c st c ops in (a # as, c))"

fun run_r :: "('r \<Rightarrow> 'op \<Rightarrow> ('a \<times> 'r) option) \<Rightarrow> 'r \<Rightarrow> 'op list \<Rightarrow> ('a list \<times> 'r) option" where
  "run_r st r [] = Some ([], r)"
| "run_r st r (op # ops) =
     do { (a, r) \<leftarrow> st r op; (as, r) \<leftarrow> run_r st r ops; Some (a # as, r) }"

locale mirrors =
  fixes sim :: "'c \<Rightarrow> 'r \<Rightarrow> bool"
    and c_step :: "'c \<Rightarrow> 'op \<Rightarrow> 'a \<times> 'c"
    and r_step :: "'r \<Rightarrow> 'op \<Rightarrow> ('a \<times> 'r) option"
  assumes sim_step: "sim c r \<Longrightarrow> r_step r op = Some (a, r') \<Longrightarrow> \<exists>c'. c_step c op = (a, c') \<and> sim c' r'"
begin

lemma sim_run:
  "sim c r \<Longrightarrow> run_r r_step r ops = Some (as, r') \<Longrightarrow> \<exists>c'. run_c c_step c ops = (as, c') \<and> sim c' r'"
proof (induction ops arbitrary: c r as)
  case (Cons op ops)
  from Cons.prems(2) obtain a r1 bs where
    *: "r_step r op = Some (a, r1)" "run_r r_step r1 ops = Some (bs, r')" "as = a # bs"
    by (auto split: Option.bind_splits)
  from sim_step [OF Cons.prems(1) *(1)] obtain c1 where "c_step c op = (a, c1)" "sim c1 r1" by blast
  with Cons.IH [OF this(2) *(2)] *(3) show ?case by auto
qed simp

end

text \<open>A mirror none of whose operations panics answers every run.\<close>

lemma run_r_total: "(\<And>r op. \<exists>x. st r op = Some x) \<Longrightarrow> \<exists>x. run_r st r ops = Some x"
proof (induction ops arbitrary: r)
  case (Cons op ops)
  then obtain a r' where "st r op = Some (a, r')" by (metis surj_pair)
  with Cons.IH [OF Cons.prems, of r'] show ?case by auto
qed simp

subsection \<open>Enumerations and constants\<close>

named_theorems c_enum "values of the C enumerations"

type_synonym mc_vehicle_mode_t = u32
type_synonym mc_bms_state_t = u32

definition VEHICLE_OFF :: u32 where [c_enum]: "VEHICLE_OFF = 0"
definition VEHICLE_READY :: u32 where [c_enum]: "VEHICLE_READY = 1"
definition VEHICLE_DRIVE :: u32 where [c_enum]: "VEHICLE_DRIVE = 2"
definition VEHICLE_LIMP :: u32 where [c_enum]: "VEHICLE_LIMP = 3"
definition VEHICLE_FAULT :: u32 where [c_enum]: "VEHICLE_FAULT = 4"
definition VEHICLE_CHARGING :: u32 where [c_enum]: "VEHICLE_CHARGING = 5"
definition VEHICLE_SERVICE :: u32 where [c_enum]: "VEHICLE_SERVICE = 6"
definition VEHICLE_OTA_UPDATE :: u32 where [c_enum]: "VEHICLE_OTA_UPDATE = 7"
definition VEHICLE_TRANSPORT_MODE :: u32 where [c_enum]: "VEHICLE_TRANSPORT_MODE = 8"

definition BMS_OK :: u32 where [c_enum]: "BMS_OK = 0"
definition BMS_WARN_HOT :: u32 where [c_enum]: "BMS_WARN_HOT = 1"
definition BMS_LIMP_REQUEST :: u32 where [c_enum]: "BMS_LIMP_REQUEST = 2"
definition BMS_CRITICAL_FAULT :: u32 where [c_enum]: "BMS_CRITICAL_FAULT = 3"

definition MC_BMS_FAULT_NONE :: u8 where [c_enum]: "MC_BMS_FAULT_NONE = 0"
definition MC_BMS_FAULT_OVERTEMP :: u8 where [c_enum]: "MC_BMS_FAULT_OVERTEMP = 1"

abbreviation flag :: "bool \<Rightarrow> u8" where "flag b \<equiv> of_bool b"

subsection \<open>The shared functions of microcar_protocol.c\<close>

definition mc_bms_determine_state :: "i16 \<Rightarrow> mc_bms_state_t" where
  "mc_bms_determine_state temp_c_x10 =
     (let t_warn = MC_BMS_TEMP_WARN * 10;
          t_limp = MC_BMS_TEMP_LIMP * 10;
          t_critical = MC_BMS_TEMP_CRITICAL * 10
      in if sint temp_c_x10 \<ge> t_critical then BMS_CRITICAL_FAULT
         else if sint temp_c_x10 \<ge> t_limp then BMS_LIMP_REQUEST
         else if sint temp_c_x10 \<ge> t_warn then BMS_WARN_HOT
         else BMS_OK)"

text \<open>Integer promotion: the limit byte and the signed maximum are compared as integers.\<close>

definition mc_safety_clamp_torque :: "i8 \<Rightarrow> mc_vehicle_mode_t \<Rightarrow> u8 \<Rightarrow> u8 \<Rightarrow> i8" where
  "mc_safety_clamp_torque requested_torque vehicle_mode brake_pressed bms_max_torque =
     (if brake_pressed \<noteq> 0 then 0
      else if vehicle_mode \<noteq> VEHICLE_DRIVE \<and> vehicle_mode \<noteq> VEHICLE_LIMP then 0
      else let mode_max = (if vehicle_mode = VEHICLE_LIMP then MC_TORQUE_LIMP_MAX_PERCENT else 100);
               effective_max = (if uint bms_max_torque < sint mode_max then bms_max_torque else mode_max);
               requested_torque = (if sint requested_torque < 0 then 0 else requested_torque)
           in if sint requested_torque > sint effective_max then effective_max else requested_torque)"

definition mc_gateway_determine_mode :: "mc_vehicle_mode_t \<Rightarrow> u8 \<Rightarrow> u8 \<Rightarrow> u8 \<Rightarrow> u8 \<Rightarrow> mc_vehicle_mode_t"
  where
  "mc_gateway_determine_mode current_mode all_nodes_online bms_fault_active bms_limp_requested powertrain_online =
     (if current_mode = VEHICLE_FAULT then VEHICLE_FAULT
      else if bms_fault_active \<noteq> 0 then VEHICLE_FAULT
      else if current_mode = VEHICLE_CHARGING then VEHICLE_CHARGING
      else if current_mode = VEHICLE_OTA_UPDATE then VEHICLE_OTA_UPDATE
      else if bms_limp_requested \<noteq> 0 then VEHICLE_LIMP
      else if current_mode = VEHICLE_OFF
      then (if all_nodes_online \<noteq> 0 then VEHICLE_READY else VEHICLE_OFF)
      else if current_mode = VEHICLE_READY
      then (if all_nodes_online = 0 then VEHICLE_OFF else VEHICLE_READY)
      else if current_mode = VEHICLE_DRIVE
      then (if all_nodes_online = 0 then VEHICLE_READY else VEHICLE_DRIVE)
      else if current_mode = VEHICLE_LIMP
      then (if all_nodes_online \<noteq> 0 then VEHICLE_READY else VEHICLE_OFF)
      else VEHICLE_OFF)"

subsection \<open>gateway_state.c\<close>

record gateway_state_t =
  cg_mode :: mc_vehicle_mode_t
  cg_all_nodes_online :: u8
  cg_bms_fault_active :: u8
  cg_bms_limp_requested :: u8
  cg_active_fault_count :: u8
  cg_booted :: u8

text \<open>\<open>gateway_state_init\<close> clears the whole structure before it sets the two fields.\<close>

definition gateway_state_init :: gateway_state_t where
  "gateway_state_init =
     \<lparr>cg_mode = VEHICLE_OFF, cg_all_nodes_online = 0, cg_bms_fault_active = 0,
      cg_bms_limp_requested = 0, cg_active_fault_count = 0, cg_booted = 1\<rparr>"

definition gateway_state_update ::
  "gateway_state_t \<Rightarrow> u8 \<Rightarrow> u8 \<Rightarrow> u8 \<Rightarrow> u8 \<Rightarrow> mc_vehicle_mode_t \<times> gateway_state_t" where
  "gateway_state_update gs all_nodes_online bms_fault_active bms_limp_requested fault_count =
     (let gs = gs\<lparr>cg_all_nodes_online := all_nodes_online, cg_bms_fault_active := bms_fault_active,
                  cg_bms_limp_requested := bms_limp_requested, cg_active_fault_count := fault_count\<rparr>;
          gs = gs\<lparr>cg_mode := mc_gateway_determine_mode (cg_mode gs) all_nodes_online bms_fault_active
                               bms_limp_requested 1\<rparr>
      in (cg_mode gs, gs))"

definition gateway_state_enter_drive :: "gateway_state_t \<Rightarrow> gateway_state_t" where
  "gateway_state_enter_drive gs = (if cg_mode gs = VEHICLE_READY then gs\<lparr>cg_mode := VEHICLE_DRIVE\<rparr> else gs)"

definition gateway_state_reboot :: "gateway_state_t \<Rightarrow> gateway_state_t" where
  "gateway_state_reboot gs =
     gs\<lparr>cg_mode := VEHICLE_OFF, cg_all_nodes_online := 0, cg_bms_fault_active := 0,
        cg_bms_limp_requested := 0, cg_active_fault_count := 0, cg_booted := 0\<rparr>"

subsection \<open>bms_state.c and bms_limits.c\<close>

record bms_state_t =
  cb_state :: mc_bms_state_t
  cb_temp_c_x10 :: i16
  cb_voltage_mv :: u16
  cb_current_ma :: i16
  cb_soc_percent :: u8
  cb_fault_code :: u8
  cb_charger_plugged :: u8

definition bms_state_init :: bms_state_t where
  "bms_state_init =
     \<lparr>cb_state = BMS_OK, cb_temp_c_x10 = 0, cb_voltage_mv = 0, cb_current_ma = 0, cb_soc_percent = 0,
      cb_fault_code = MC_BMS_FAULT_NONE, cb_charger_plugged = 0\<rparr>"

definition bms_state_from_temp :: "i16 \<Rightarrow> mc_bms_state_t" where
  "bms_state_from_temp temp_c_x10 = mc_bms_determine_state temp_c_x10"

definition bms_state_fault_code :: "bms_state_t \<Rightarrow> u8" where
  "bms_state_fault_code bs =
     (if cb_state bs = BMS_CRITICAL_FAULT then MC_BMS_FAULT_OVERTEMP else MC_BMS_FAULT_NONE)"

definition bms_state_update :: "bms_state_t \<Rightarrow> i16 \<Rightarrow> u16 \<Rightarrow> i16 \<Rightarrow> u8 \<Rightarrow> mc_bms_state_t \<times> bms_state_t" where
  "bms_state_update bs temp_c_x10 voltage_mv current_ma soc_percent =
     (let bs = bs\<lparr>cb_temp_c_x10 := temp_c_x10, cb_voltage_mv := voltage_mv,
                  cb_current_ma := current_ma, cb_soc_percent := soc_percent\<rparr>;
          bs = bs\<lparr>cb_state := bms_state_from_temp temp_c_x10\<rparr>;
          bs = bs\<lparr>cb_fault_code := bms_state_fault_code bs\<rparr>
      in (cb_state bs, bs))"

definition bms_state_is_fault :: "bms_state_t \<Rightarrow> u8" where
  "bms_state_is_fault bs = (if cb_state bs = BMS_CRITICAL_FAULT then 1 else 0)"

definition bms_state_is_limp :: "bms_state_t \<Rightarrow> u8" where
  "bms_state_is_limp bs = (if cb_state bs = BMS_LIMP_REQUEST then 1 else 0)"

record bms_limits_t =
  cl_max_torque_percent :: u8
  cl_reason :: u8

definition bms_limits_init :: bms_limits_t where
  "bms_limits_init = \<lparr>cl_max_torque_percent = 255, cl_reason = 0\<rparr>"

definition bms_limits_compute :: "bms_limits_t \<Rightarrow> mc_bms_state_t \<Rightarrow> u8 \<times> bms_limits_t" where
  "bms_limits_compute bl bms_state =
     (let bl = (if bms_state = BMS_OK then bl\<lparr>cl_max_torque_percent := 255, cl_reason := 0\<rparr>
                else if bms_state = BMS_WARN_HOT then bl\<lparr>cl_max_torque_percent := 255, cl_reason := 1\<rparr>
                else if bms_state = BMS_LIMP_REQUEST
                then bl\<lparr>cl_max_torque_percent := MC_TORQUE_LIMP_MAX_PERCENT, cl_reason := 2\<rparr>
                else if bms_state = BMS_CRITICAL_FAULT
                then bl\<lparr>cl_max_torque_percent := MC_TORQUE_FAULT_MAX_PERCENT, cl_reason := 3\<rparr>
                else bl\<lparr>cl_max_torque_percent := 255, cl_reason := 0\<rparr>)
      in (cl_max_torque_percent bl, bl))"

subsection \<open>safety_rules.c and torque_controller.c\<close>

definition safety_brake_overrides_throttle :: "u8 \<Rightarrow> u8" where
  "safety_brake_overrides_throttle brake_pressed = (if brake_pressed \<noteq> 0 then 1 else 0)"

definition safety_fault_disables_motor :: "mc_vehicle_mode_t \<Rightarrow> u8" where
  "safety_fault_disables_motor mode = (if mode = VEHICLE_FAULT then 1 else 0)"

definition safety_mode_blocks_torque :: "mc_vehicle_mode_t \<Rightarrow> u8" where
  "safety_mode_blocks_torque mode = (if mode \<noteq> VEHICLE_DRIVE \<and> mode \<noteq> VEHICLE_LIMP then 1 else 0)"

definition safety_limp_torque_cap :: "mc_vehicle_mode_t \<Rightarrow> u8" where
  "safety_limp_torque_cap mode = (if mode = VEHICLE_LIMP then MC_TORQUE_LIMP_MAX_PERCENT else 255)"

definition safety_throttle_invalid :: "u8 \<Rightarrow> u8" where
  "safety_throttle_invalid throttle_percent = (if throttle_percent > 100 then 1 else 0)"

definition safety_clamp_torque_c :: "i8 \<Rightarrow> mc_vehicle_mode_t \<Rightarrow> u8 \<Rightarrow> u8 \<Rightarrow> i8" where
  "safety_clamp_torque_c requested_torque mode brake_pressed bms_max_torque =
     (if safety_brake_overrides_throttle brake_pressed \<noteq> 0 then 0
      else if safety_mode_blocks_torque mode \<noteq> 0 then 0
      else let effective_max = (100 :: u8);
               limp_cap = safety_limp_torque_cap mode;
               effective_max = (if limp_cap < effective_max then limp_cap else effective_max);
               effective_max = (if bms_max_torque < effective_max then bms_max_torque else effective_max);
               requested_torque = (if sint requested_torque < 0 then 0 else requested_torque)
           in if sint requested_torque > sint effective_max then effective_max else requested_torque)"

record torque_controller_t =
  ct_throttle_percent :: u8
  ct_brake_pressed :: u8
  ct_gear :: u8
  ct_vehicle_mode :: mc_vehicle_mode_t
  ct_bms_torque_limit :: u8
  ct_output_torque :: i8
  ct_motor_enable :: u8

definition torque_controller_init :: torque_controller_t where
  "torque_controller_init =
     \<lparr>ct_throttle_percent = 0, ct_brake_pressed = 0, ct_gear = 0, ct_vehicle_mode = 0,
      ct_bms_torque_limit = 255, ct_output_torque = 0, ct_motor_enable = 1\<rparr>"

definition torque_controller_set_input :: "torque_controller_t \<Rightarrow> u8 \<Rightarrow> u8 \<Rightarrow> u8 \<Rightarrow> torque_controller_t" where
  "torque_controller_set_input tc throttle brake gear =
     tc\<lparr>ct_throttle_percent := throttle, ct_brake_pressed := brake, ct_gear := gear\<rparr>"

definition torque_controller_set_mode :: "torque_controller_t \<Rightarrow> mc_vehicle_mode_t \<Rightarrow> torque_controller_t" where
  "torque_controller_set_mode tc mode = tc\<lparr>ct_vehicle_mode := mode\<rparr>"

definition torque_controller_set_bms_limit :: "torque_controller_t \<Rightarrow> u8 \<Rightarrow> torque_controller_t" where
  "torque_controller_set_bms_limit tc max_torque = tc\<lparr>ct_bms_torque_limit := max_torque\<rparr>"

definition torque_controller_compute :: "torque_controller_t \<Rightarrow> i8 \<times> torque_controller_t" where
  "torque_controller_compute tc =
     (if safety_throttle_invalid (ct_throttle_percent tc) \<noteq> 0
      then (0, tc\<lparr>ct_output_torque := 0, ct_motor_enable := 0\<rparr>)
      else let requested = (ct_throttle_percent tc :: i8);
               tc = tc\<lparr>ct_output_torque := safety_clamp_torque_c requested (ct_vehicle_mode tc)
                                             (ct_brake_pressed tc) (ct_bms_torque_limit tc)\<rparr>;
               tc = (if safety_mode_blocks_torque (ct_vehicle_mode tc) \<noteq> 0
                     then tc\<lparr>ct_motor_enable := 0\<rparr> else tc\<lparr>ct_motor_enable := 1\<rparr>)
           in (ct_output_torque tc, tc))"

subsection \<open>watchdog_task.c\<close>

record watchdog_task_t =
  cw_last_gateway_beat_ms :: u32
  cw_gateway_online :: u8
  cw_torque_disabled :: u8

definition watchdog_init :: watchdog_task_t where
  "watchdog_init = \<lparr>cw_last_gateway_beat_ms = 0, cw_gateway_online = 0, cw_torque_disabled = 0\<rparr>"

definition watchdog_gateway_beat :: "watchdog_task_t \<Rightarrow> u32 \<Rightarrow> watchdog_task_t" where
  "watchdog_gateway_beat wd now_ms =
     wd\<lparr>cw_last_gateway_beat_ms := now_ms, cw_gateway_online := 1, cw_torque_disabled := 0\<rparr>"

definition watchdog_check_c :: "watchdog_task_t \<Rightarrow> u32 \<Rightarrow> u8 \<times> watchdog_task_t" where
  "watchdog_check_c wd now_ms =
     (if cw_gateway_online wd = 0 then (1, wd\<lparr>cw_torque_disabled := 1\<rparr>)
      else let elapsed = now_ms - cw_last_gateway_beat_ms wd
           in if elapsed \<ge> MC_SAFETY_GATEWAY_TIMEOUT_MS
              then (1, wd\<lparr>cw_gateway_online := 0, cw_torque_disabled := 1\<rparr>)
              else (0, wd\<lparr>cw_torque_disabled := 0\<rparr>))"

definition watchdog_gateway_online :: "watchdog_task_t \<Rightarrow> u8" where
  "watchdog_gateway_online wd = cw_gateway_online wd"

subsection \<open>The gateway state machine\<close>

text \<open>The value a Rust mode, or state, has in the C enumeration.\<close>

definition mode_code :: "vehicle_mode \<Rightarrow> mc_vehicle_mode_t" where
  "mode_code m = ucast (mode_u8 m)"

fun bms_code :: "bms_state \<Rightarrow> mc_bms_state_t" where
  "bms_code BmsOk = BMS_OK"
| "bms_code WarnHot = BMS_WARN_HOT"
| "bms_code LimpRequest = BMS_LIMP_REQUEST"
| "bms_code CriticalFault = BMS_CRITICAL_FAULT"

lemma mode_code_simps [simp]:
  "mode_code Off = 0" "mode_code Ready = 1" "mode_code Drive = 2" "mode_code Limp = 3"
  "mode_code Fault = 4" "mode_code Charging = 5"
  by (simp_all add: mode_code_def)

definition gw_sim :: "gateway_state_t \<Rightarrow> gateway_state \<Rightarrow> bool" where
  "gw_sim c r \<longleftrightarrow> cg_mode c = mode_code (gs_mode r)
     \<and> cg_all_nodes_online c = flag (gs_all_nodes_online r)
     \<and> cg_bms_fault_active c = flag (gs_bms_fault_active r)
     \<and> cg_bms_limp_requested c = flag (gs_bms_limp_requested r)
     \<and> cg_active_fault_count c = gs_active_fault_count r"

text \<open>Each operation answers with the mode it leaves.\<close>

fun gw_c_step :: "gateway_state_t \<Rightarrow> gw_op \<Rightarrow> mc_vehicle_mode_t \<times> gateway_state_t" where
  "gw_c_step c (Update online fault limp n) = gateway_state_update c (flag online) (flag fault) (flag limp) n"
| "gw_c_step c EnterDrive = (let c = gateway_state_enter_drive c in (cg_mode c, c))"
| "gw_c_step c Reboot = (let c = gateway_state_reboot c in (cg_mode c, c))"

definition gw_r_step :: "gateway_state \<Rightarrow> gw_op \<Rightarrow> (mc_vehicle_mode_t \<times> gateway_state) option" where
  "gw_r_step r op = (let r = gw_step r op in Some (mode_code (gs_mode r), r))"

lemma determine_mode_mirrored:
  "mc_gateway_determine_mode (mode_code m) (flag online) (flag fault) (flag limp) p
     = mode_code (determine_mode m online fault limp)"
  by (cases m; cases online; cases fault; cases limp)
    (simp_all add: mc_gateway_determine_mode_def determine_mode_def c_enum)

interpretation gw: mirrors gw_sim gw_c_step gw_r_step
proof unfold_locales
  fix c r op a r'
  assume sim: "gw_sim c r" and r: "gw_r_step r op = Some (a, r')"
  have 1: "mode_code m = 1 \<longleftrightarrow> m = Ready" for m by (cases m) simp_all
  show "\<exists>c'. gw_c_step c op = (a, c') \<and> gw_sim c' r'"
    using sim r
    by (cases op)
      (auto simp: gw_sim_def gw_r_step_def Let_def gateway_state_update_def gateway_update_def
        determine_mode_mirrored gateway_state_enter_drive_def enter_drive_def gateway_state_reboot_def
        gateway_reboot_def gateway_default_def c_enum 1)
qed

lemma gw_r_total: "\<exists>x. gw_r_step r op = Some x"
  by (simp add: gw_r_step_def Let_def)

lemma gw_sim_init: "gw_sim gateway_state_init gateway_default"
  by (simp add: gw_sim_def gateway_state_init_def gateway_default_def c_enum)

text \<open>
  Claim C10. The gateway firmware and its mirror show the same modes in every sequence of updates,
  drive requests and reboots. In the three modes that only the firmware has, a critical fault still
  wins; \<open>OTA_UPDATE\<close> is otherwise kept, and \<open>SERVICE\<close>, \<open>TRANSPORT_MODE\<close> or any
  other value leaves for LIMP or OFF.
\<close>

theorem gateway_firmware_shows_mirror_modes:
  "map_option fst (run_r gw_r_step gateway_default ops) = Some (fst (run_c gw_c_step gateway_state_init ops))
   \<and> (mode \<notin> range mode_code \<longrightarrow>
        mc_gateway_determine_mode mode online fault limp powertrain =
          (if fault \<noteq> 0 then VEHICLE_FAULT else if mode = VEHICLE_OTA_UPDATE then VEHICLE_OTA_UPDATE
           else if limp \<noteq> 0 then VEHICLE_LIMP else VEHICLE_OFF))"
proof
  from run_r_total [of gw_r_step, OF gw_r_total] obtain as r
    where "run_r gw_r_step gateway_default ops = Some (as, r)" by force
  with gw.sim_run [OF gw_sim_init this]
  show "map_option fst (run_r gw_r_step gateway_default ops) = Some (fst (run_c gw_c_step gateway_state_init ops))"
    by auto
  have "mode \<notin> range mode_code \<Longrightarrow> mode \<notin> {0, 1, 2, 3, 4, 5}"
    by (metis insertE emptyE mode_code_simps rangeI)
  then show "mode \<notin> range mode_code \<longrightarrow>
        mc_gateway_determine_mode mode online fault limp powertrain =
          (if fault \<noteq> 0 then VEHICLE_FAULT else if mode = VEHICLE_OTA_UPDATE then VEHICLE_OTA_UPDATE
           else if limp \<noteq> 0 then VEHICLE_LIMP else VEHICLE_OFF)"
    by (auto simp: mc_gateway_determine_mode_def c_enum)
qed

theorem gateway_firmware_shows_mirror_modes_witness:
  "fst (run_c gw_c_step gateway_state_init [Update True False False 0, EnterDrive, Update True True False 1]) = [1, 2, 4]
   \<and> mc_gateway_determine_mode VEHICLE_SERVICE 1 1 0 1 = VEHICLE_FAULT"
proof -
  have r: "map_option fst (run_r gw_r_step gateway_default [Update True False False 0, EnterDrive, Update True True False 1])
      = Some [1, 2, 4]"
    by (simp add: gw_r_step_def gateway_update_def enter_drive_def gateway_default_def determine_mode_def Let_def)
  have "mode_code m \<noteq> VEHICLE_SERVICE" for m by (cases m) (simp_all add: c_enum)
  then have "VEHICLE_SERVICE \<notin> range mode_code" by (metis imageE)
  with r gateway_firmware_shows_mirror_modes
      [of "[Update True False False 0, EnterDrive, Update True True False 1]" VEHICLE_SERVICE 1 1 0 1]
  show ?thesis by (simp del: run_r.simps run_c.simps)
qed

subsection \<open>The battery state machine\<close>

lemma mc_bms_determine_state_tenths:
  "mc_bms_determine_state t =
     (if 900 \<le> sint t then BMS_CRITICAL_FAULT else if 750 \<le> sint t then BMS_LIMP_REQUEST
      else if 600 \<le> sint t then BMS_WARN_HOT else BMS_OK)"
  by (simp add: mc_bms_determine_state_def Let_def mc_mode)

lemma bms_limits_compute_mirrored:
  "fst (bms_limits_compute bl (bms_code s)) = fst (limits_compute l s)"
  by (cases s) (simp_all add: bms_limits_compute_def limits_compute_def c_enum)

text \<open>
  The battery firmware classifies a temperature more strictly than its mirror: it changes
  state at 60.0, 75.0 and 90.0 degrees, the mirror one whole degree later. The two agree on a sample
  exactly when it is outside the three intervals of one degree; inside them the firmware is one state
  further and never allows more torque.
\<close>

theorem bms_firmware_is_stricter:
  "(fst (bms_state_update bs t v i soc) = bms_code (fst (bms_update s t v i soc)))
     = (sint t \<notin> {600..609} \<union> {750..759} \<union> {900..909})
   \<and> bms_code (fst (bms_update s t v i soc)) \<le> fst (bms_state_update bs t v i soc)
   \<and> fst (bms_limits_compute bl (fst (bms_state_update bs t v i soc)))
       \<le> fst (limits_compute l (fst (bms_update s t v i soc)))
   \<and> bms_state_is_fault (snd (bms_state_update bs t v i soc)) = flag (900 \<le> sint t)
   \<and> bms_state_is_limp (snd (bms_state_update bs t v i soc)) = flag (750 \<le> sint t \<and> sint t < 900)"
proof -
  have c: "fst (bms_state_update bs t v i soc) = mc_bms_determine_state t"
      "cb_state (snd (bms_state_update bs t v i soc)) = mc_bms_determine_state t"
    by (simp_all add: bms_state_update_def bms_state_from_temp_def Let_def)
  show ?thesis
    by (auto simp: c mc_bms_determine_state_tenths bms_determine_state_tenths bms_limits_compute_def
        limits_compute_def Let_def bms_state_is_fault_def bms_state_is_limp_def c_enum mc_mode)
qed

subsection \<open>The torque controller\<close>

lemma safety_clamp_torque_c_value:
  "sint (safety_clamp_torque_c req mode brake lim) =
     (if brake \<noteq> 0 \<or> mode \<noteq> VEHICLE_DRIVE \<and> mode \<noteq> VEHICLE_LIMP then 0
      else min (max (sint req) 0) (int (min (if mode = VEHICLE_LIMP then 25 else 100) (unat lim))))"
proof -
  have small: "sint (x :: u8) = int (unat x)" if "unat x \<le> 100" for x
    using that by (intro sint_of_small_u8) simp
  show ?thesis
    unfolding safety_clamp_torque_c_def safety_brake_overrides_throttle_def safety_mode_blocks_torque_def
      safety_limp_torque_cap_def Let_def
    by (auto simp: word_less_nat_alt small mc_mode c_enum min_def max_def)
qed

lemma mc_safety_clamp_torque_value:
  "sint (mc_safety_clamp_torque req mode brake lim) =
     (if brake \<noteq> 0 \<or> mode \<noteq> VEHICLE_DRIVE \<and> mode \<noteq> VEHICLE_LIMP then 0
      else min (max (sint req) 0) (int (min (if mode = VEHICLE_LIMP then 25 else 100) (unat lim))))"
proof -
  have small: "sint (x :: u8) = int (unat x)" if "unat x \<le> 100" for x
    using that by (intro sint_of_small_u8) simp
  have i: "int (unat lim) = uint lim" by simp
  have u: "uint lim < 25 \<longleftrightarrow> unat lim < 25" "uint lim < 100 \<longleftrightarrow> unat lim < 100"
    using i by linarith+
  show ?thesis
    unfolding mc_safety_clamp_torque_def Let_def
    by (auto simp: u small mc_mode c_enum min_def max_def)
qed

text \<open>The clamp is written twice in the firmware; the two functions are equal.\<close>

lemma clamp_copies_agree: "mc_safety_clamp_torque = safety_clamp_torque_c"
proof (intro ext)
  fix req mode brake lim
  have "sint (mc_safety_clamp_torque req mode brake lim) = sint (safety_clamp_torque_c req mode brake lim)"
    by (simp only: mc_safety_clamp_torque_value safety_clamp_torque_c_value)
  then show "mc_safety_clamp_torque req mode brake lim = safety_clamp_torque_c req mode brake lim"
    by (rule signed_word_eqI)
qed

definition tc_sim :: "torque_controller_t \<Rightarrow> torque_controller \<Rightarrow> bool" where
  "tc_sim c r \<longleftrightarrow> ct_throttle_percent c = tc_throttle_percent r
     \<and> ct_brake_pressed c = flag (tc_brake_pressed r) \<and> ct_gear c = tc_gear r
     \<and> ct_vehicle_mode c = mode_code (tc_vehicle_mode r)
     \<and> ct_bms_torque_limit c = tc_bms_torque_limit r"

lemma torque_controller_compute_output:
  "sint (fst (torque_controller_compute tc)) =
     (if ct_throttle_percent tc > 100 \<or> ct_brake_pressed tc \<noteq> 0
         \<or> ct_vehicle_mode tc \<notin> {VEHICLE_DRIVE, VEHICLE_LIMP} then 0
      else int (min (unat (ct_throttle_percent tc))
             (min (if ct_vehicle_mode tc = VEHICLE_LIMP then 25 else 100) (unat (ct_bms_torque_limit tc)))))"
proof -
  have "sint (ct_throttle_percent tc :: i8) = int (unat (ct_throttle_percent tc))"
    if "\<not> ct_throttle_percent tc > 100"
    using that by (intro sint_of_small_u8) (simp add: word_less_nat_alt)
  then show ?thesis
    by (auto simp: torque_controller_compute_def Let_def safety_throttle_invalid_def
        safety_clamp_torque_c_value of_nat_min)
qed

lemma torque_controller_compute_enable:
  "ct_motor_enable (snd (torque_controller_compute tc)) =
     flag (ct_throttle_percent tc \<le> 100 \<and> ct_vehicle_mode tc \<in> {VEHICLE_DRIVE, VEHICLE_LIMP})"
  by (auto simp: torque_controller_compute_def Let_def safety_throttle_invalid_def
      safety_mode_blocks_torque_def)

lemma torque_controller_compute_frame [simp]:
  "ct_vehicle_mode (snd (torque_controller_compute tc)) = ct_vehicle_mode tc"
  "ct_throttle_percent (snd (torque_controller_compute tc)) = ct_throttle_percent tc"
  "ct_brake_pressed (snd (torque_controller_compute tc)) = ct_brake_pressed tc"
  "ct_bms_torque_limit (snd (torque_controller_compute tc)) = ct_bms_torque_limit tc"
  "ct_output_torque (snd (torque_controller_compute tc)) = fst (torque_controller_compute tc)"
  by (simp_all add: torque_controller_compute_def Let_def)

text \<open>
  Claim C11. The powertrain firmware commands exactly the throttle limited to 100, to 25 in LIMP and
  to the BMS limit, and only in DRIVE and LIMP with a valid throttle and the brake released; outside
  DRIVE and LIMP the motor is disabled. Its mirror computes the same command and enable flag on the
  same inputs exactly when the mode is DRIVE, LIMP or FAULT or the throttle is out of range: in OFF,
  READY and CHARGING the mirror leaves the motor enabled.
\<close>

theorem torque_firmware_against_mirror:
  "sint (fst (torque_controller_compute c)) =
     (if ct_throttle_percent c > 100 \<or> ct_brake_pressed c \<noteq> 0
         \<or> ct_vehicle_mode c \<notin> {VEHICLE_DRIVE, VEHICLE_LIMP} then 0
      else int (min (unat (ct_throttle_percent c))
             (min (if ct_vehicle_mode c = VEHICLE_LIMP then 25 else 100) (unat (ct_bms_torque_limit c)))))
   \<and> ct_motor_enable (snd (torque_controller_compute c)) =
       flag (ct_throttle_percent c \<le> 100 \<and> ct_vehicle_mode c \<in> {VEHICLE_DRIVE, VEHICLE_LIMP})
   \<and> (tc_sim c r \<longrightarrow>
        (fst (torque_controller_compute c) = fst (torque_compute r)
         \<and> ct_motor_enable (snd (torque_controller_compute c)) = flag (tc_motor_enable (snd (torque_compute r))))
        = (tc_vehicle_mode r \<in> {Drive, Limp, Fault} \<or> tc_throttle_percent r > 100))"
proof (intro conjI impI)
  assume sim: "tc_sim c r"
  have eq: "fst (torque_controller_compute c) = fst (torque_compute r)
      \<longleftrightarrow> sint (fst (torque_controller_compute c)) = sint (fst (torque_compute r))"
    by (auto intro: signed_word_eqI)
  from sim show "(fst (torque_controller_compute c) = fst (torque_compute r)
         \<and> ct_motor_enable (snd (torque_controller_compute c)) = flag (tc_motor_enable (snd (torque_compute r))))
        = (tc_vehicle_mode r \<in> {Drive, Limp, Fault} \<or> tc_throttle_percent r > 100)"
    unfolding eq torque_controller_compute_output torque_compute_output
      torque_controller_compute_enable torque_compute_state tc_sim_def
    by (cases "tc_vehicle_mode r")
      (auto simp: unat_effective_max is_throttle_invalid_def c_enum not_less)
qed (rule torque_controller_compute_output torque_controller_compute_enable)+

theorem torque_firmware_against_mirror_witness:
  "tc_sim torque_controller_init torque_default
   \<and> ct_motor_enable (snd (torque_controller_compute torque_controller_init)) = 0
   \<and> tc_motor_enable (snd (torque_compute torque_default))"
proof -
  have sim: "tc_sim torque_controller_init torque_default"
    by (simp add: tc_sim_def torque_controller_init_def torque_default_def)
  with torque_firmware_against_mirror [of torque_controller_init torque_default] show ?thesis
    by (simp add: torque_controller_init_def torque_default_def torque_compute_def Let_def c_enum)
qed

subsection \<open>The gateway watchdog\<close>

text \<open>
  The flag \<open>torque_disabled\<close> is left out of the relation: the firmware clears it at the start,
  where the mirror sets it, and no other file of the firmware reads it.
\<close>

definition wd_sim :: "watchdog_task_t \<Rightarrow> watchdog_task \<Rightarrow> bool" where
  "wd_sim c r \<longleftrightarrow> cw_last_gateway_beat_ms c = wd_last_gateway_beat_ms r
     \<and> cw_gateway_online c = flag (wd_gateway_online r)"

fun wd_c_step :: "watchdog_task_t \<Rightarrow> watch_op \<Rightarrow> u8 \<times> watchdog_task_t" where
  "wd_c_step c (WBeat t) = (0, watchdog_gateway_beat c t)"
| "wd_c_step c (WCheck t) = watchdog_check_c c t"

fun wd_r_step :: "watchdog_task \<Rightarrow> watch_op \<Rightarrow> (u8 \<times> watchdog_task) option" where
  "wd_r_step r (WBeat t) = Some (0, gateway_beat r t)"
| "wd_r_step r (WCheck t) = map_option (map_prod flag id) (watchdog_check r t)"

interpretation wdm: mirrors wd_sim wd_c_step wd_r_step
proof unfold_locales
  fix c r op a r'
  assume "wd_sim c r" "wd_r_step r op = Some (a, r')"
  then show "\<exists>c'. wd_c_step c op = (a, c') \<and> wd_sim c' r'"
    by (cases op)
      (auto simp: wd_sim_def watchdog_gateway_beat_def gateway_beat_def watchdog_check_c_def
        watchdog_check_def usub_def Let_def split: if_splits)
qed

end
