(* ===== verification/Firmware_Tables.thy ===== *)
theory Firmware_Tables
  imports Firmware Dashboard
begin

text \<open>
  The components of the firmware that keep a table: \<^verbatim>\<open>heartbeat_monitor.c\<close>,
  \<^verbatim>\<open>fault_manager.c\<close>, \<^verbatim>\<open>dashboard_state.c\<close> and \<^verbatim>\<open>warning_display.c\<close>. In C a table is an
  array of fixed length with a count of the slots in use; the Rust mirrors keep a vector. The relation
  \<open>holds\<close> connects the two, the lemmas after it carry it through the loops the functions
  share, and the interpretations of \<open>mirrors\<close> conclude for whole runs. A run in which
  the mirror panics, or outgrows the table of the firmware, is not covered by them; what the firmware
  does there is stated separately.
\<close>

subsection \<open>Arrays with a count\<close>

text \<open>\<open>for (uint8_t i = 0; i < n; i++) { if (p(xs[i])) return i; }\<close>\<close>

function first_index :: "('e \<Rightarrow> bool) \<Rightarrow> 'e list \<Rightarrow> nat \<Rightarrow> nat \<Rightarrow> nat option" where
  "first_index p xs i n =
     (if n \<le> i then None else if p (xs ! i) then Some i else first_index p xs (Suc i) n)"
  by auto
termination by (relation "measure (\<lambda>(p, xs, i, n). n - i)") auto

declare first_index.simps [simp del]

text \<open>The loop that changes the first match and returns.\<close>

definition modify_first :: "('e \<Rightarrow> bool) \<Rightarrow> ('e \<Rightarrow> 'e) \<Rightarrow> nat \<Rightarrow> 'e list \<Rightarrow> 'e list" where
  "modify_first p f n xs =
     (case first_index p xs 0 n of None \<Rightarrow> xs | Some i \<Rightarrow> xs[i := f (xs ! i)])"

text \<open>The loop that visits every slot in use, changing the slot and the variables around the loop.\<close>

definition scan_array :: "('s \<Rightarrow> 'e \<Rightarrow> 's \<times> 'e) \<Rightarrow> nat \<Rightarrow> 's \<times> 'e list \<Rightarrow> 's \<times> 'e list" where
  "scan_array g n =
     fold (\<lambda>i (s, xs). let (s, e) = g s (xs ! i) in (s, xs[i := e])) [0..<n]"

fun scan_list :: "('s \<Rightarrow> 'e \<Rightarrow> 's \<times> 'e) \<Rightarrow> 's \<Rightarrow> 'e list \<Rightarrow> 's \<times> 'e list" where
  "scan_list g s [] = (s, [])"
| "scan_list g s (e # es) = (let (s, e) = g s e; (s, es) = scan_list g s es in (s, e # es))"

lemma first_index_shift:
  "first_index p (x # xs) (Suc i) (Suc n) = map_option Suc (first_index p xs i n)"
proof (induction p xs i n rule: first_index.induct)
  case (1 p xs i n)
  then show ?case
    by (subst first_index.simps, subst (2) first_index.simps) auto
qed

lemma first_index_simps [simp]:
  "first_index p xs 0 0 = None"
  "first_index p (x # xs) 0 (Suc n) = (if p x then Some 0 else map_option Suc (first_index p xs 0 n))"
  by (simp_all add: first_index.simps [of p _ 0] first_index_shift)

lemma first_index_find:
  "n \<le> length xs \<Longrightarrow> find p (take n xs) = map_option (\<lambda>i. xs ! i) (first_index p xs 0 n)"
proof (induction xs arbitrary: n)
  case (Cons x xs)
  then show ?case by (cases n) (auto simp: option.map_comp comp_def)
qed simp

lemma modify_first_simps [simp]:
  "modify_first p f 0 xs = xs"
  "modify_first p f (Suc n) (x # xs) = (if p x then f x # xs else x # modify_first p f n xs)"
  by (auto simp: modify_first_def split: option.splits)

lemma modify_first_take:
  "n \<le> length xs \<Longrightarrow> modify_first p f n xs = update_first p f (take n xs) @ drop n xs"
proof (induction xs arbitrary: n)
  case (Cons x xs)
  then show ?case by (cases n) auto
qed simp

lemma length_scan_list [simp]: "length (snd (scan_list g s es)) = length es"
  by (induction es arbitrary: s) (auto simp: case_prod_beta Let_def)

lemma scan_list_snoc:
  "scan_list g s (es @ [e]) =
     (let (s, es) = scan_list g s es; (s, e) = g s e in (s, es @ [e]))"
  by (induction es arbitrary: s) (auto simp: case_prod_beta Let_def)

lemma scan_array_take:
  "n \<le> length xs \<Longrightarrow>
     scan_array g n (s, xs) = (let (s, es) = scan_list g s (take n xs) in (s, es @ drop n xs))"
proof (induction n)
  case (Suc n)
  then have n: "n < length xs" by simp
  have "length (snd (scan_list g s (take n xs))) = n" using n by simp
  with Suc n show ?case
    by (auto simp: scan_array_def take_Suc_conv_app_nth scan_list_snoc case_prod_beta Let_def
        nth_append list_update_append Cons_nth_drop_Suc [symmetric] upd_conv_take_nth_drop)
qed (simp add: scan_array_def)

text \<open>
  An array \<open>xs\<close> with the count \<open>n\<close> holds the entries of a vector, each in its C representation.
\<close>

definition holds :: "('r \<Rightarrow> 'e) \<Rightarrow> nat \<Rightarrow> 'e list \<Rightarrow> u8 \<Rightarrow> 'r list \<Rightarrow> bool" where
  "holds rep cap xs n es \<longleftrightarrow>
     length xs = cap \<and> unat n = length es \<and> length es \<le> cap \<and> take (length es) xs = map rep es"

lemma holds_take: "holds rep cap xs n es \<Longrightarrow> take (unat n) xs = map rep es \<and> unat n \<le> length xs"
  by (simp add: holds_def)

lemma holds_first_index:
  assumes "holds rep cap xs n es" "\<And>e. p (rep e) = q e"
  shows "find q es = None \<Longrightarrow> first_index p xs 0 (unat n) = None"
    and "find q es = Some e \<Longrightarrow> \<exists>i. first_index p xs 0 (unat n) = Some i \<and> xs ! i = rep e"
proof -
  from assms(2) have "p \<circ> rep = q" by (simp add: fun_eq_iff)
  then have "find p (map rep es) = map_option rep (find q es)"
    by (induction es) auto
  with first_index_find [of "unat n" xs p] holds_take [OF assms(1)]
  have *: "map_option rep (find q es) = map_option (\<lambda>i. xs ! i) (first_index p xs 0 (unat n))" by simp
  then show "find q es = None \<Longrightarrow> first_index p xs 0 (unat n) = None"
    by simp
  from * show "find q es = Some e \<Longrightarrow> \<exists>i. first_index p xs 0 (unat n) = Some i \<and> xs ! i = rep e"
    by (cases "first_index p xs 0 (unat n)") auto
qed

lemma holds_modify_first:
  assumes "holds rep cap xs n es" "\<And>e. p (rep e) = q e" "\<And>e. q e \<Longrightarrow> f (rep e) = rep (g e)"
  shows "holds rep cap (modify_first p f (unat n) xs) n (update_first q g es)"
proof -
  have "update_first p f (map rep es) = map rep (update_first q g es)"
    using assms(2,3) by (induction es) auto
  with assms(1) show ?thesis
    using modify_first_take [of "unat n" xs p f] by (auto simp: holds_def)
qed

lemma holds_push:
  assumes "holds rep cap xs n es" "length es < cap" "cap < 256"
  shows "holds rep cap (xs[unat n := rep e]) (n + 1) (es @ [e])"
proof -
  have "unat (n + 1) = Suc (unat n)"
    using assms by (simp add: holds_def unat_word_ariths)
  with assms show ?thesis
    by (auto simp: holds_def take_Suc_conv_app_nth)
qed

lemma holds_scan:
  assumes "holds rep cap xs n es" "scan_list g s (map rep es) = (s', map rep es')" "length es' = length es"
  shows "\<exists>xs'. scan_array g (unat n) (s, xs) = (s', xs') \<and> holds rep cap xs' n es'"
  using assms scan_array_take [of "unat n" xs g s] by (auto simp: holds_def)

subsection \<open>heartbeat_monitor.c\<close>

definition HM_MAX_NODES :: nat where "HM_MAX_NODES = 8"

record hm_node_t =
  cn_node_id :: u8
  cn_online :: u8
  cn_last_beat_ms :: u32
  cn_timeout_ms :: u32

record heartbeat_monitor_t =
  chm_nodes :: "hm_node_t list"
  chm_node_count :: u8

definition heartbeat_monitor_init :: "u32 \<Rightarrow> heartbeat_monitor_t" where
  "heartbeat_monitor_init timeout_default_ms =
     \<lparr>chm_nodes = replicate HM_MAX_NODES \<lparr>cn_node_id = 0, cn_online = 0, cn_last_beat_ms = 0,
                                            cn_timeout_ms = timeout_default_ms\<rparr>,
      chm_node_count = 0\<rparr>"

definition heartbeat_monitor_register :: "heartbeat_monitor_t \<Rightarrow> u8 \<Rightarrow> u32 \<Rightarrow> int \<times> heartbeat_monitor_t" where
  "heartbeat_monitor_register hm node_id timeout_ms =
     (if unat (chm_node_count hm) \<ge> HM_MAX_NODES then (-1, hm)
      else (0, hm\<lparr>chm_nodes := (chm_nodes hm)[unat (chm_node_count hm) :=
                      \<lparr>cn_node_id = node_id, cn_online = 0, cn_last_beat_ms = 0, cn_timeout_ms = timeout_ms\<rparr>],
                  chm_node_count := chm_node_count hm + 1\<rparr>))"

definition heartbeat_monitor_beat :: "heartbeat_monitor_t \<Rightarrow> u8 \<Rightarrow> u32 \<Rightarrow> heartbeat_monitor_t" where
  "heartbeat_monitor_beat hm node_id now_ms =
     hm\<lparr>chm_nodes := modify_first (\<lambda>n. cn_node_id n = node_id)
          (\<lambda>n. let n = n\<lparr>cn_last_beat_ms := now_ms\<rparr> in if cn_online n = 0 then n\<lparr>cn_online := 1\<rparr> else n)
          (unat (chm_node_count hm)) (chm_nodes hm)\<rparr>"

definition check_slot :: "u32 \<Rightarrow> int \<Rightarrow> hm_node_t \<Rightarrow> int \<times> hm_node_t" where
  "check_slot now_ms transitions n =
     (let was_online = cn_online n;
          elapsed = now_ms - cn_last_beat_ms n
      in if was_online \<noteq> 0 \<and> elapsed \<ge> cn_timeout_ms n
         then (transitions + 1, n\<lparr>cn_online := 0\<rparr>) else (transitions, n))"

definition heartbeat_monitor_check :: "heartbeat_monitor_t \<Rightarrow> u32 \<Rightarrow> int \<times> heartbeat_monitor_t" where
  "heartbeat_monitor_check hm now_ms =
     (let (transitions, nodes) = scan_array (check_slot now_ms) (unat (chm_node_count hm)) (0, chm_nodes hm)
      in (transitions, hm\<lparr>chm_nodes := nodes\<rparr>))"

definition heartbeat_monitor_all_online :: "heartbeat_monitor_t \<Rightarrow> u8" where
  "heartbeat_monitor_all_online hm =
     (if chm_node_count hm = 0 then 0
      else case first_index (\<lambda>n. cn_online n = 0) (chm_nodes hm) 0 (unat (chm_node_count hm)) of
             Some i \<Rightarrow> 0 | None \<Rightarrow> 1)"

definition heartbeat_monitor_is_online :: "heartbeat_monitor_t \<Rightarrow> u8 \<Rightarrow> u8" where
  "heartbeat_monitor_is_online hm node_id =
     (case first_index (\<lambda>n. cn_node_id n = node_id) (chm_nodes hm) 0 (unat (chm_node_count hm)) of
        Some i \<Rightarrow> cn_online (chm_nodes hm ! i) | None \<Rightarrow> 0)"

definition heartbeat_monitor_last_transition_node :: "heartbeat_monitor_t \<Rightarrow> u8" where
  "heartbeat_monitor_last_transition_node hm =
     (case first_index (\<lambda>n. cn_online n = 0) (chm_nodes hm) 0 (unat (chm_node_count hm)) of
        Some i \<Rightarrow> cn_node_id (chm_nodes hm ! i) | None \<Rightarrow> 0)"

text \<open>The representation of a node, and the operations with their answers.\<close>

definition node_rep :: "heartbeat_node \<Rightarrow> hm_node_t" where
  "node_rep n = \<lparr>cn_node_id = hn_node_id n, cn_online = flag (hn_online n),
                 cn_last_beat_ms = hn_last_beat_ms n, cn_timeout_ms = hn_timeout_ms n\<rparr>"

definition hb_sim :: "heartbeat_monitor_t \<Rightarrow> heartbeat_monitor \<Rightarrow> bool" where
  "hb_sim c r \<longleftrightarrow> holds node_rep HM_MAX_NODES (chm_nodes c) (chm_node_count c) (hb_nodes r)
     \<and> distinct (hb_ids r)"

datatype monitor_op = MRegister u8 u32 | MBeat u8 u32 | MCheck u32 | MAllOnline | MIsOnline u8

fun hb_c_step :: "heartbeat_monitor_t \<Rightarrow> monitor_op \<Rightarrow> int \<times> heartbeat_monitor_t" where
  "hb_c_step c (MRegister i t) = heartbeat_monitor_register c i t"
| "hb_c_step c (MBeat i t) = (0, heartbeat_monitor_beat c i t)"
| "hb_c_step c (MCheck t) = heartbeat_monitor_check c t"
| "hb_c_step c MAllOnline = (uint (heartbeat_monitor_all_online c), c)"
| "hb_c_step c (MIsOnline i) = (uint (heartbeat_monitor_is_online c i), c)"

fun hb_r_step :: "heartbeat_monitor \<Rightarrow> monitor_op \<Rightarrow> (int \<times> heartbeat_monitor) option" where
  "hb_r_step r (MRegister i t) =
     (if length (hb_nodes r) < HM_MAX_NODES \<and> i \<notin> set (hb_ids r) then Some (0, hb_register r i t) else None)"
| "hb_r_step r (MBeat i t) = Some (0, hb_beat r i t)"
| "hb_r_step r (MCheck t) = map_option (map_prod int id) (hb_check r t)"
| "hb_r_step r MAllOnline = Some (of_bool (all_online r), r)"
| "hb_r_step r (MIsOnline i) = Some (of_bool (is_online r i), r)"

lemma node_rep_sel [simp]:
  "cn_node_id (node_rep n) = hn_node_id n" "cn_online (node_rep n) = flag (hn_online n)"
  "cn_last_beat_ms (node_rep n) = hn_last_beat_ms n" "cn_timeout_ms (node_rep n) = hn_timeout_ms n"
  by (simp_all add: node_rep_def)

lemma check_slot_mirrored:
  "check_nodes now ns = Some (k, ns') \<Longrightarrow>
     scan_list (check_slot now) t (map node_rep ns) = (t + int k, map node_rep ns') \<and> length ns' = length ns
     \<and> map hn_node_id ns' = map hn_node_id ns"
proof (induction ns arbitrary: t k ns')
  case (Cons n ns)
  then obtain b k0 ns0 where b: "hb_expired now n = Some b" and k: "check_nodes now ns = Some (k0, ns0)"
      and r: "(k, ns') = (if b then (Suc k0, n\<lparr>hn_online := False\<rparr> # ns0) else (k0, n # ns0))"
    by (auto split: Option.bind_splits if_splits)
  from b have s: "check_slot now t (node_rep n)
      = (t + of_bool b, node_rep (if b then n\<lparr>hn_online := False\<rparr> else n))" for t
    by (auto simp: check_slot_def Let_def hb_expired_def usub_def node_rep_def split: if_splits)
  from Cons.IH [OF k] r show ?case by (auto simp: s split: if_splits)
qed simp

lemma find_None_list_all: "find p es = None \<longleftrightarrow> list_all (\<lambda>e. \<not> p e) es"
  by (auto simp: find_None_iff list_all_iff)

lemma find_distinct_online:
  "distinct (map hn_node_id ns) \<Longrightarrow>
     list_ex (\<lambda>n. hn_node_id n = i \<and> hn_online n) ns
       = (case find (\<lambda>n. hn_node_id n = i) ns of Some n \<Rightarrow> hn_online n | None \<Rightarrow> False)"
  by (induction ns) (auto simp: list_ex_iff rev_image_eqI split: option.splits)

lemma all_online_mirrored: "hb_sim c r \<Longrightarrow> heartbeat_monitor_all_online c = flag (all_online r)"
proof -
  assume sim: "hb_sim c r"
  then have h: "holds node_rep HM_MAX_NODES (chm_nodes c) (chm_node_count c) (hb_nodes r)"
    by (simp add: hb_sim_def)
  then have 0: "chm_node_count c = 0 \<longleftrightarrow> hb_nodes r = []"
    by (auto simp: holds_def unat_eq_0 [symmetric])
  note fi = holds_first_index [OF h, of "\<lambda>n. cn_online n = 0" "\<lambda>n. \<not> hn_online n"]
  show ?thesis
    using fi find_None_list_all [of "\<lambda>n. \<not> hn_online n" "hb_nodes r"]
    by (cases "find (\<lambda>n. \<not> hn_online n) (hb_nodes r)")
      (auto simp: heartbeat_monitor_all_online_def all_online_def 0)
qed

lemma is_online_mirrored: "hb_sim c r \<Longrightarrow> heartbeat_monitor_is_online c i = flag (is_online r i)"
proof -
  assume sim: "hb_sim c r"
  then have h: "holds node_rep HM_MAX_NODES (chm_nodes c) (chm_node_count c) (hb_nodes r)"
      and d: "distinct (hb_ids r)"
    by (simp_all add: hb_sim_def)
  note fi = holds_first_index [OF h, of "\<lambda>n. cn_node_id n = i" "\<lambda>n. hn_node_id n = i"]
  show ?thesis
    using fi
    by (cases "find (\<lambda>n. hn_node_id n = i) (hb_nodes r)")
      (auto simp: heartbeat_monitor_is_online_def is_online_def find_distinct_online [OF d])
qed

lemma beat_mirrored: "hb_sim c r \<Longrightarrow> hb_sim (heartbeat_monitor_beat c i t) (hb_beat r i t)"
  by (auto simp: hb_sim_def heartbeat_monitor_beat_def hb_beat_def map_update_first node_rep_def Let_def
      intro!: holds_modify_first)

lemma check_mirrored:
  assumes "hb_sim c r" "hb_check r t = Some (k, r')"
  shows "\<exists>c'. heartbeat_monitor_check c t = (int k, c') \<and> hb_sim c' r'"
proof -
  from assms(2) obtain ns where ns: "check_nodes t (hb_nodes r) = Some (k, ns)" "r' = r\<lparr>hb_nodes := ns\<rparr>"
    by (auto simp: hb_check_def split: Option.bind_splits)
  from check_slot_mirrored [OF ns(1), of 0] holds_scan [of node_rep, where g = "check_slot t"] assms(1) ns(2)
  show ?thesis by (fastforce simp: hb_sim_def heartbeat_monitor_check_def)
qed

lemma register_mirrored:
  assumes "hb_sim c r" "length (hb_nodes r) < HM_MAX_NODES" "i \<notin> hn_node_id ` set (hb_nodes r)"
  shows "\<exists>c'. heartbeat_monitor_register c i t = (0, c') \<and> hb_sim c' (hb_register r i t)"
  using assms holds_push [of node_rep HM_MAX_NODES "chm_nodes c" "chm_node_count c" "hb_nodes r"
      "\<lparr>hn_node_id = i, hn_online = False, hn_last_beat_ms = 0, hn_timeout_ms = t\<rparr>"]
  by (auto simp: hb_sim_def heartbeat_monitor_register_def hb_register_def node_rep_def holds_def HM_MAX_NODES_def)

interpretation hbm: mirrors hb_sim hb_c_step hb_r_step
proof unfold_locales
  fix c r op a r'
  assume "hb_sim c r" "hb_r_step r op = Some (a, r')"
  then show "\<exists>c'. hb_c_step c op = (a, c') \<and> hb_sim c' r'"
    by (cases op)
      (auto simp: all_online_mirrored is_online_mirrored beat_mirrored split: if_splits
        dest: check_mirrored register_mirrored)
qed

lemma hb_sim_init: "hb_sim (heartbeat_monitor_init t) hb_new"
  by (simp add: hb_sim_def holds_def heartbeat_monitor_init_def hb_new_def HM_MAX_NODES_def)

text \<open>
  On every run on which the mirror of the heartbeat monitor does not panic, with at most
  eight nodes of different identifiers, the firmware gives the same answers: the transitions
  of every check and the online state of all nodes and of each. When eight nodes are
  registered the firmware refuses the next one and changes nothing.
\<close>

theorem heartbeat_firmware_answers_like_mirror:
  assumes "run_r hb_r_step hb_new ops = Some (as, r)"
  shows "\<exists>c. run_c hb_c_step (heartbeat_monitor_init t\<^sub>0) ops = (as, c)
     \<and> (length (hb_nodes r) = HM_MAX_NODES \<longrightarrow> heartbeat_monitor_register c i t = (-1, c))
     \<and> heartbeat_monitor_last_transition_node c
         = (case find (\<lambda>n. \<not> hn_online n) (hb_nodes r) of Some n \<Rightarrow> hn_node_id n | None \<Rightarrow> 0)"
proof -
  from hbm.sim_run [OF hb_sim_init assms] obtain c
    where c: "run_c hb_c_step (heartbeat_monitor_init t\<^sub>0) ops = (as, c)" "hb_sim c r" by blast
  then have h: "holds node_rep HM_MAX_NODES (chm_nodes c) (chm_node_count c) (hb_nodes r)"
    by (simp add: hb_sim_def)
  note fi = holds_first_index [OF h, of "\<lambda>n. cn_online n = 0" "\<lambda>n. \<not> hn_online n"]
  have "heartbeat_monitor_last_transition_node c
         = (case find (\<lambda>n. \<not> hn_online n) (hb_nodes r) of Some n \<Rightarrow> hn_node_id n | None \<Rightarrow> 0)"
    using fi by (cases "find (\<lambda>n. \<not> hn_online n) (hb_nodes r)")
      (auto simp: heartbeat_monitor_last_transition_node_def)
  moreover from h have "length (hb_nodes r) = HM_MAX_NODES \<longrightarrow> heartbeat_monitor_register c i t = (-1, c)"
    by (simp add: heartbeat_monitor_register_def holds_def)
  ultimately show ?thesis using c(1) by blast
qed

theorem heartbeat_firmware_answers_like_mirror_witness:
  "\<exists>c. run_c hb_c_step (heartbeat_monitor_init 300)
         [MRegister 2 300, MRegister 3 300, MBeat 3 10, MCheck 400, MIsOnline 3, MAllOnline] = ([0, 0, 0, 1, 0, 0], c)
     \<and> heartbeat_monitor_last_transition_node c = 2"
proof -
  have r: "run_r hb_r_step hb_new
        [MRegister 2 300, MRegister 3 300, MBeat 3 10, MCheck 400, MIsOnline 3, MAllOnline] =
      Some ([0, 0, 0, 1, 0, 0],
        \<lparr>hb_nodes = [\<lparr>hn_node_id = 2, hn_online = False, hn_last_beat_ms = 0, hn_timeout_ms = 300\<rparr>,
          \<lparr>hn_node_id = 3, hn_online = False, hn_last_beat_ms = 10, hn_timeout_ms = 300\<rparr>]\<rparr>)"
    by (simp add: hb_register_def hb_new_def hb_beat_def hb_check_def hb_expired_def usub_def HM_MAX_NODES_def
        is_online_def all_online_def)
  from heartbeat_firmware_answers_like_mirror [OF this, of 300] show ?thesis
    by (auto simp del: run_c.simps)
qed

subsection \<open>fault_manager.c\<close>

definition FM_MAX_FAULTS :: nat where "FM_MAX_FAULTS = 16"

record fm_fault_t =
  cf_source_node :: u8
  cf_fault_code :: u8
  cf_active :: u8
  cf_severity :: u8

record fault_manager_t =
  cfm_faults :: "fm_fault_t list"
  cfm_fault_count :: u8
  cfm_critical_count :: u8
  cfm_warning_count :: u8

definition fault_manager_init :: fault_manager_t where
  "fault_manager_init =
     \<lparr>cfm_faults = replicate FM_MAX_FAULTS \<lparr>cf_source_node = 0, cf_fault_code = 0, cf_active = 0, cf_severity = 0\<rparr>,
      cfm_fault_count = 0, cfm_critical_count = 0, cfm_warning_count = 0\<rparr>"

text \<open>\<open>if (severity == 2) critical_count++; else if (severity == 1) warning_count++;\<close> and its inverse,
  on the pair of the two counters.\<close>

definition counters_up :: "u8 \<Rightarrow> u8 \<times> u8 \<Rightarrow> u8 \<times> u8" where
  "counters_up severity = (\<lambda>(critical, warning).
     if severity = 2 then (critical + 1, warning)
     else if severity = 1 then (critical, warning + 1) else (critical, warning))"

definition counters_down :: "u8 \<Rightarrow> u8 \<times> u8 \<Rightarrow> u8 \<times> u8" where
  "counters_down severity = (\<lambda>(critical, warning).
     if severity = 2 then (critical - 1, warning)
     else if severity = 1 then (critical, warning - 1) else (critical, warning))"

definition counters_of :: "fault_manager_t \<Rightarrow> u8 \<times> u8" where
  "counters_of fm = (cfm_critical_count fm, cfm_warning_count fm)"

definition set_counters :: "u8 \<times> u8 \<Rightarrow> fault_manager_t \<Rightarrow> fault_manager_t" where
  "set_counters k fm = fm\<lparr>cfm_critical_count := fst k, cfm_warning_count := snd k\<rparr>"

definition fault_at :: "u8 \<Rightarrow> u8 \<Rightarrow> fm_fault_t \<Rightarrow> bool" where
  "fault_at source_node fault_code f \<longleftrightarrow> cf_source_node f = source_node \<and> cf_fault_code f = fault_code"

definition fault_manager_report :: "fault_manager_t \<Rightarrow> u8 \<Rightarrow> u8 \<Rightarrow> u8 \<Rightarrow> int \<times> fault_manager_t" where
  "fault_manager_report fm source_node fault_code severity =
     (case first_index (fault_at source_node fault_code) (cfm_faults fm) 0 (unat (cfm_fault_count fm)) of
        Some i \<Rightarrow>
          let f = cfm_faults fm ! i;
              (f, k) = (if cf_active f = 0
                        then (f\<lparr>cf_active := 1\<rparr>, counters_up severity (counters_of fm))
                        else (f, counters_of fm))
          in (0, set_counters k (fm\<lparr>cfm_faults := (cfm_faults fm)[i := f\<lparr>cf_severity := severity\<rparr>]\<rparr>))
      | None \<Rightarrow>
          if unat (cfm_fault_count fm) \<ge> FM_MAX_FAULTS then (-1, fm)
          else (0, set_counters (counters_up severity (counters_of fm))
                 (fm\<lparr>cfm_faults := (cfm_faults fm)[unat (cfm_fault_count fm) :=
                        \<lparr>cf_source_node = source_node, cf_fault_code = fault_code,
                         cf_active = 1, cf_severity = severity\<rparr>],
                     cfm_fault_count := cfm_fault_count fm + 1\<rparr>)))"

definition fault_manager_clear :: "fault_manager_t \<Rightarrow> u8 \<Rightarrow> u8 \<Rightarrow> fault_manager_t" where
  "fault_manager_clear fm source_node fault_code =
     (case first_index (\<lambda>f. fault_at source_node fault_code f \<and> cf_active f \<noteq> 0)
             (cfm_faults fm) 0 (unat (cfm_fault_count fm)) of
        Some i \<Rightarrow>
          let f = cfm_faults fm ! i
          in set_counters (counters_down (cf_severity f) (counters_of fm))
               (fm\<lparr>cfm_faults := (cfm_faults fm)[i := f\<lparr>cf_active := 0\<rparr>]\<rparr>)
      | None \<Rightarrow> fm)"

definition clear_slot :: "(fm_fault_t \<Rightarrow> bool) \<Rightarrow> u8 \<times> u8 \<Rightarrow> fm_fault_t \<Rightarrow> (u8 \<times> u8) \<times> fm_fault_t" where
  "clear_slot p k f =
     (if p f \<and> cf_active f \<noteq> 0 then (counters_down (cf_severity f) k, f\<lparr>cf_active := 0\<rparr>) else (k, f))"

definition fault_manager_clear_node :: "fault_manager_t \<Rightarrow> u8 \<Rightarrow> fault_manager_t" where
  "fault_manager_clear_node fm source_node =
     (let (k, faults) = scan_array (clear_slot (\<lambda>f. cf_source_node f = source_node))
                          (unat (cfm_fault_count fm)) (counters_of fm, cfm_faults fm)
      in set_counters k (fm\<lparr>cfm_faults := faults\<rparr>))"

definition fault_manager_clear_all :: "fault_manager_t \<Rightarrow> fault_manager_t" where
  "fault_manager_clear_all fm =
     (let (k, faults) = scan_array (clear_slot (\<lambda>f. True))
                          (unat (cfm_fault_count fm)) (counters_of fm, cfm_faults fm)
      in set_counters k (fm\<lparr>cfm_faults := faults\<rparr>))"

definition fault_manager_has_critical :: "fault_manager_t \<Rightarrow> u8" where
  "fault_manager_has_critical fm = (if cfm_critical_count fm > 0 then 1 else 0)"

definition count_slot :: "u8 \<Rightarrow> fm_fault_t \<Rightarrow> u8 \<times> fm_fault_t" where
  "count_slot count f = (if cf_active f \<noteq> 0 then (count + 1, f) else (count, f))"

definition fault_manager_active_count :: "fault_manager_t \<Rightarrow> u8" where
  "fault_manager_active_count fm =
     fst (scan_array count_slot (unat (cfm_fault_count fm)) (0, cfm_faults fm))"

text \<open>
  The representation of a fault, and the operations with their answers. Clearing the faults of a node,
  or all, is not in the mirror: it is specified as one \<open>fault_clear\<close> of the mirror
  for each fault in question.
\<close>

definition fault_rep :: "fault_entry \<Rightarrow> fm_fault_t" where
  "fault_rep f = \<lparr>cf_source_node = fe_source_node f, cf_fault_code = fe_fault_code f,
                  cf_active = flag (fe_active f), cf_severity = fe_severity f\<rparr>"

definition fm_counters :: "fault_manager \<Rightarrow> u8 \<times> u8" where
  "fm_counters r = (fm_critical_count r, fm_warning_count r)"

definition fm_sim :: "fault_manager_t \<Rightarrow> fault_manager \<Rightarrow> bool" where
  "fm_sim c r \<longleftrightarrow> holds fault_rep FM_MAX_FAULTS (cfm_faults c) (cfm_fault_count c) (fm_faults r)
     \<and> counters_of c = fm_counters r \<and> distinct (map fault_key (fm_faults r))"

datatype fault_op =
  FReport u8 u8 u8 | FClear u8 u8 | FClearNode u8 | FClearAll | FHasCritical | FActiveCount

fun fm_c_step :: "fault_manager_t \<Rightarrow> fault_op \<Rightarrow> int \<times> fault_manager_t" where
  "fm_c_step c (FReport s k sev) = fault_manager_report c s k sev"
| "fm_c_step c (FClear s k) = (0, fault_manager_clear c s k)"
| "fm_c_step c (FClearNode s) = (0, fault_manager_clear_node c s)"
| "fm_c_step c FClearAll = (0, fault_manager_clear_all c)"
| "fm_c_step c FHasCritical = (uint (fault_manager_has_critical c), c)"
| "fm_c_step c FActiveCount = (uint (fault_manager_active_count c), c)"

fun clear_keys :: "(u8 \<times> u8) list \<Rightarrow> fault_manager \<Rightarrow> fault_manager option" where
  "clear_keys [] r = Some r"
| "clear_keys ((s, k) # keys) r = do { r \<leftarrow> fault_clear r s k; clear_keys keys r }"

definition has_room :: "fault_manager \<Rightarrow> u8 \<Rightarrow> u8 \<Rightarrow> bool" where
  "has_room r s k \<longleftrightarrow> (s, k) \<in> fault_key ` set (fm_faults r) \<or> length (fm_faults r) < FM_MAX_FAULTS"

fun fm_r_step :: "fault_manager \<Rightarrow> fault_op \<Rightarrow> (int \<times> fault_manager) option" where
  "fm_r_step r (FReport s k sev) = (if has_room r s k then map_option (Pair 0) (fault_report r s k sev) else None)"
| "fm_r_step r (FClear s k) = map_option (Pair 0) (fault_clear r s k)"
| "fm_r_step r (FClearNode s) =
     map_option (Pair 0) (clear_keys (filter (\<lambda>key. fst key = s) (map fault_key (fm_faults r))) r)"
| "fm_r_step r FClearAll = map_option (Pair 0) (clear_keys (map fault_key (fm_faults r)) r)"
| "fm_r_step r FHasCritical = Some (of_bool (has_critical r), r)"
| "fm_r_step r FActiveCount = Some (uint (active_count r), r)"

lemma fault_rep_sel [simp]:
  "cf_active (fault_rep f) = flag (fe_active f)" "cf_severity (fault_rep f) = fe_severity f"
  "cf_source_node (fault_rep f) = fst (fault_key f)"
  "fault_at s k (fault_rep f) \<longleftrightarrow> fault_key f = (s, k)"
  by (auto simp: fault_rep_def fault_at_def fault_key_def)

lemma fault_rep_upd:
  "(fault_rep f)\<lparr>cf_active := 1, cf_severity := sev\<rparr> = fault_rep (f\<lparr>fe_active := True, fe_severity := sev\<rparr>)"
  "(fault_rep f)\<lparr>cf_active := 0\<rparr> = fault_rep (f\<lparr>fe_active := False\<rparr>)"
  "fe_active f \<Longrightarrow> (fault_rep f)\<lparr>cf_severity := sev\<rparr> = fault_rep (f\<lparr>fe_active := True, fe_severity := sev\<rparr>)"
  by (simp_all add: fault_rep_def)

lemma inactive_upd: "\<not> fe_active f \<Longrightarrow> f\<lparr>fe_active := False\<rparr> = f"
  by (cases f) simp

lemma fault_key_upd [simp]:
  "fault_key (f\<lparr>fe_active := b\<rparr>) = fault_key f" "fault_key (f\<lparr>fe_severity := sev\<rparr>) = fault_key f"
  by (simp_all add: fault_key_def)

lemma set_counters_sel [simp]:
  "cfm_faults (set_counters k fm) = cfm_faults fm"
  "cfm_fault_count (set_counters k fm) = cfm_fault_count fm"
  "counters_of (set_counters k fm) = k"
  by (simp_all add: set_counters_def counters_of_def)

lemma count_up_mirrored:
  "count_up r sev = Some r' \<Longrightarrow> fm_faults r' = fm_faults r \<and> fm_counters r' = counters_up sev (fm_counters r)"
  by (auto simp: count_up_def counters_up_def fm_counters_def uadd_def split: if_splits)

lemma count_down_mirrored:
  "count_down r sev = Some r' \<Longrightarrow> fm_faults r' = fm_faults r \<and> fm_counters r' = counters_down sev (fm_counters r)"
  by (auto simp: count_down_def counters_down_def fm_counters_def usub_def split: if_splits)

lemma fm_counters_faults [simp]: "fm_counters (r\<lparr>fm_faults := fs\<rparr>) = fm_counters r"
  by (simp add: fm_counters_def)

lemma holds_modify_at:
  assumes "holds rep cap xs n es" "\<And>e. p (rep e) = q e" "\<And>e. q e \<Longrightarrow> f (rep e) = rep (g e)"
    "first_index p xs 0 (unat n) = Some i"
  shows "holds rep cap (xs[i := f (xs ! i)]) n (update_first q g es)"
  using holds_modify_first [of rep cap xs n es p q f g] assms by (simp add: modify_first_def)

lemma report_mirrored:
  assumes sim: "fm_sim c r" and room: "has_room r s k" and r: "fault_report r s k sev = Some r'"
  shows "\<exists>c'. fault_manager_report c s k sev = (0, c') \<and> fm_sim c' r'"
proof (cases "find (\<lambda>f. fault_key f = (s, k)) (fm_faults r)")
  case None
  from sim have h: "holds fault_rep FM_MAX_FAULTS (cfm_faults c) (cfm_fault_count c) (fm_faults r)"
    by (simp add: fm_sim_def)
  have fresh: "(s, k) \<notin> fault_key ` set (fm_faults r)"
    using None by (auto simp: find_None_iff)
  with room have len: "length (fm_faults r) < FM_MAX_FAULTS" by (simp add: has_room_def)
  let ?f = "\<lparr>fe_source_node = s, fe_fault_code = k, fe_active = True, fe_severity = sev\<rparr>"
  from r None have "fm_faults r' = fm_faults r @ [?f]" "fm_counters r' = counters_up sev (fm_counters r)"
    by (auto simp: fault_report_def dest: count_up_mirrored)
  moreover have "first_index (fault_at s k) (cfm_faults c) 0 (unat (cfm_fault_count c)) = None"
    using holds_first_index(1) [OF h, of "fault_at s k" "\<lambda>f. fault_key f = (s, k)"] None by simp
  moreover have "unat (cfm_fault_count c) < FM_MAX_FAULTS" using h len by (simp add: holds_def)
  moreover have "holds fault_rep FM_MAX_FAULTS ((cfm_faults c)[unat (cfm_fault_count c) := fault_rep ?f])
      (cfm_fault_count c + 1) (fm_faults r @ [?f])"
    by (rule holds_push [OF h len]) (simp add: FM_MAX_FAULTS_def)
  ultimately show ?thesis
    using sim fresh by (simp add: fault_manager_report_def fm_sim_def fault_rep_def fault_key_def)
next
  case (Some f)
  from sim have h: "holds fault_rep FM_MAX_FAULTS (cfm_faults c) (cfm_fault_count c) (fm_faults r)"
    by (simp add: fm_sim_def)
  from holds_first_index(2) [OF h, of "fault_at s k" "\<lambda>f. fault_key f = (s, k)" f] Some obtain i where
    i: "first_index (fault_at s k) (cfm_faults c) 0 (unat (cfm_fault_count c)) = Some i"
       "cfm_faults c ! i = fault_rep f" by auto
  let ?g = "\<lambda>f. f\<lparr>fe_active := True, fe_severity := sev\<rparr>"
  from holds_modify_at [OF h _ _ i(1), of "\<lambda>f. fault_key f = (s, k)"
      "\<lambda>f. f\<lparr>cf_active := 1, cf_severity := sev\<rparr>" ?g] i(2)
  have h': "holds fault_rep FM_MAX_FAULTS ((cfm_faults c)[i := fault_rep (?g f)])
      (cfm_fault_count c) (update_first (\<lambda>f. fault_key f = (s, k)) ?g (fm_faults r))"
    by (simp add: fault_rep_upd)
  have "fm_faults r' = update_first (\<lambda>f. fault_key f = (s, k)) ?g (fm_faults r)
      \<and> fm_counters r' = (if fe_active f then fm_counters r else counters_up sev (fm_counters r))"
    using r Some by (auto simp: fault_report_def split: if_splits Option.bind_splits dest: count_up_mirrored)
  moreover have "distinct (map fault_key (update_first (\<lambda>f. fault_key f = (s, k)) ?g (fm_faults r)))"
    using sim by (simp add: fm_sim_def map_update_first)
  ultimately show ?thesis
    using h' i sim by (auto simp: fault_manager_report_def fm_sim_def fault_rep_upd)
qed

lemma report_full:
  assumes "fm_sim c r" "\<not> has_room r s k"
  shows "fault_manager_report c s k sev = (-1, c)"
proof -
  from assms(1) have h: "holds fault_rep FM_MAX_FAULTS (cfm_faults c) (cfm_fault_count c) (fm_faults r)"
    by (simp add: fm_sim_def)
  from assms(2) have "find (\<lambda>f. fault_key f = (s, k)) (fm_faults r) = None"
    by (auto simp: has_room_def find_None_iff rev_image_eqI)
  with holds_first_index(1) [OF h, of "fault_at s k" "\<lambda>f. fault_key f = (s, k)"] assms(2) h show ?thesis
    by (simp add: fault_manager_report_def has_room_def holds_def)
qed

lemma clear_mirrored:
  assumes sim: "fm_sim c r" and r: "fault_clear r s k = Some r'"
  shows "fm_sim (fault_manager_clear c s k) r'"
proof -
  from sim have h: "holds fault_rep FM_MAX_FAULTS (cfm_faults c) (cfm_fault_count c) (fm_faults r)"
    by (simp add: fm_sim_def)
  let ?p = "\<lambda>f. fault_at s k f \<and> cf_active f \<noteq> 0" and ?q = "\<lambda>f. fault_key f = (s, k) \<and> fe_active f"
    and ?g = "\<lambda>f. f\<lparr>fe_active := False\<rparr>"
  note fi = holds_first_index [OF h, of ?p ?q]
  show ?thesis
  proof (cases "find ?q (fm_faults r)")
    case None
    with fi(1) r sim show ?thesis by (simp add: fault_manager_clear_def fault_clear_def)
  next
    case (Some f)
    with fi(2) [of f] obtain i where
      i: "first_index ?p (cfm_faults c) 0 (unat (cfm_fault_count c)) = Some i"
         "cfm_faults c ! i = fault_rep f" by auto
    from holds_modify_at [OF h _ _ i(1), of ?q "\<lambda>f. f\<lparr>cf_active := 0\<rparr>" ?g] i(2)
    have "holds fault_rep FM_MAX_FAULTS ((cfm_faults c)[i := (fault_rep f)\<lparr>cf_active := 0\<rparr>])
        (cfm_fault_count c) (update_first ?q ?g (fm_faults r))"
      by (simp add: fault_rep_upd)
    moreover have "fm_faults r' = update_first ?q ?g (fm_faults r)
        \<and> fm_counters r' = counters_down (fe_severity f) (fm_counters r)"
      using r Some by (auto simp: fault_clear_def split: Option.bind_splits dest: count_down_mirrored)
    moreover have "distinct (map fault_key (update_first ?q ?g (fm_faults r)))"
      using sim by (simp add: fm_sim_def map_update_first)
    ultimately show ?thesis
      using i sim by (simp add: fault_manager_clear_def fm_sim_def)
  qed
qed

text \<open>One clear at a known position, and the clears of a node one after the other.\<close>

lemma fault_clear_split:
  assumes "fm_faults r = as @ f # bs" "distinct (map fault_key (fm_faults r))" "fault_key f = (s, k)"
    "fault_clear r s k = Some r'"
  shows "fm_faults r' = as @ f\<lparr>fe_active := False\<rparr> # bs
     \<and> fm_counters r' = (if fe_active f then counters_down (fe_severity f) (fm_counters r) else fm_counters r)"
proof -
  let ?q = "\<lambda>f. fault_key f = (s, k) \<and> fe_active f"
  from assms(1-3) have as: "\<forall>a\<in>set as. \<not> ?q a" and bs: "\<forall>b\<in>set bs. \<not> ?q b"
    by (auto simp: image_iff)
  show ?thesis
  proof (cases "fe_active f")
    case True
    with assms(1,3) as have "find ?q (fm_faults r) = Some f"
        "update_first ?q (\<lambda>f. f\<lparr>fe_active := False\<rparr>) (fm_faults r) = as @ f\<lparr>fe_active := False\<rparr> # bs"
      by (simp_all add: find_split update_first_split)
    with True assms(4) show ?thesis
      by (auto simp: fault_clear_def split: Option.bind_splits dest: count_down_mirrored)
  next
    case False
    with as bs assms(1) have "find ?q (fm_faults r) = None" by (auto simp: find_None_iff)
    with False assms(1,4) show ?thesis by (simp add: fault_clear_def)
  qed
qed

lemma clear_keys_scan:
  assumes "clear_keys (filter P (map fault_key bs)) r = Some r'" "fm_faults r = as @ bs"
    "distinct (map fault_key (fm_faults r))" "\<And>f. p (fault_rep f) = P (fault_key f)"
  shows "\<exists>bs'. fm_faults r' = as @ bs' \<and> length bs' = length bs \<and> map fault_key bs' = map fault_key bs
     \<and> scan_list (clear_slot p) (fm_counters r) (map fault_rep bs) = (fm_counters r', map fault_rep bs')"
  using assms(1-3)
proof (induction bs arbitrary: as r)
  case (Cons f bs)
  show ?case
  proof (cases "P (fault_key f)")
    case True
    obtain s k where key: "fault_key f = (s, k)" by fastforce
    with True Cons.prems(1) obtain r1 where
      r1: "fault_clear r s k = Some r1" "clear_keys (filter P (map fault_key bs)) r1 = Some r'"
      by (auto split: Option.bind_splits)
    note sp = fault_clear_split [OF Cons.prems(2,3) key r1(1)]
    then have "distinct (map fault_key (fm_faults r1))"
      using Cons.prems(2,3) by simp
    with Cons.IH [OF r1(2), of "as @ [f\<lparr>fe_active := False\<rparr>]"] sp obtain bs' where
      "fm_faults r' = as @ f\<lparr>fe_active := False\<rparr> # bs'" "length bs' = length bs"
      "map fault_key bs' = map fault_key bs"
      "scan_list (clear_slot p) (fm_counters r1) (map fault_rep bs) = (fm_counters r', map fault_rep bs')"
      by auto
    moreover have "clear_slot p (fm_counters r) (fault_rep f)
        = (fm_counters r1, fault_rep (f\<lparr>fe_active := False\<rparr>))"
      using sp True by (auto simp: clear_slot_def assms(4) fault_rep_upd inactive_upd)
    ultimately show ?thesis
      by (intro exI [of _ "f\<lparr>fe_active := False\<rparr> # bs'"]) simp
  next
    case False
    with Cons.IH [of r "as @ [f]"] Cons.prems obtain bs' where
      "fm_faults r' = as @ f # bs'" "length bs' = length bs" "map fault_key bs' = map fault_key bs"
      "scan_list (clear_slot p) (fm_counters r) (map fault_rep bs) = (fm_counters r', map fault_rep bs')"
      by auto
    moreover have "clear_slot p (fm_counters r) (fault_rep f) = (fm_counters r, fault_rep f)"
      using False by (simp add: clear_slot_def assms(4))
    ultimately show ?thesis by (intro exI [of _ "f # bs'"]) simp
  qed
qed simp

lemma clear_scan_mirrored:
  assumes "fm_sim c r" "clear_keys (filter P (map fault_key (fm_faults r))) r = Some r'"
    "\<And>f. p (fault_rep f) = P (fault_key f)"
  shows "fm_sim (let (k, faults) = scan_array (clear_slot p) (unat (cfm_fault_count c)) (counters_of c, cfm_faults c)
                 in set_counters k (c\<lparr>cfm_faults := faults\<rparr>)) r'"
proof -
  from assms(1) have h: "holds fault_rep FM_MAX_FAULTS (cfm_faults c) (cfm_fault_count c) (fm_faults r)"
      and k: "counters_of c = fm_counters r" and d: "distinct (map fault_key (fm_faults r))"
    by (simp_all add: fm_sim_def)
  from clear_keys_scan [OF assms(2) _ d assms(3), of "[]"] obtain fs where
    fs: "fm_faults r' = fs" "length fs = length (fm_faults r)" "map fault_key fs = map fault_key (fm_faults r)"
      "scan_list (clear_slot p) (fm_counters r) (map fault_rep (fm_faults r)) = (fm_counters r', map fault_rep fs)"
    by auto
  from holds_scan [OF h fs(4,2)] fs d show ?thesis
    by (auto simp: fm_sim_def k)
qed

lemma active_count_mirrored:
  assumes "fm_sim c r"
  shows "fault_manager_active_count c = active_count r"
proof -
  from assms have h: "holds fault_rep FM_MAX_FAULTS (cfm_faults c) (cfm_fault_count c) (fm_faults r)"
    by (simp add: fm_sim_def)
  have "scan_list count_slot n (map fault_rep fs)
      = (n + of_nat (length (filter fe_active fs)), map fault_rep fs)" for n fs
    by (induction fs arbitrary: n) (auto simp: count_slot_def)
  from holds_scan [OF h this [of 0]] show ?thesis
    by (auto simp: fault_manager_active_count_def active_count_def)
qed

lemma has_critical_mirrored: "fm_sim c r \<Longrightarrow> fault_manager_has_critical c = flag (has_critical r)"
  by (simp add: fm_sim_def fault_manager_has_critical_def has_critical_def counters_of_def fm_counters_def)

interpretation fmm: mirrors fm_sim fm_c_step fm_r_step
proof unfold_locales
  fix c r op a r'
  assume sim: "fm_sim c r" and r: "fm_r_step r op = Some (a, r')"
  show "\<exists>c'. fm_c_step c op = (a, c') \<and> fm_sim c' r'"
  proof (cases op)
    case (FReport s k sev)
    with r report_mirrored [OF sim] show ?thesis by (auto split: if_splits)
  next
    case (FClear s k)
    with r clear_mirrored [OF sim] show ?thesis by auto
  next
    case (FClearNode s)
    with r clear_scan_mirrored [OF sim, of "\<lambda>key. fst key = s" _ "\<lambda>f. cf_source_node f = s"]
    show ?thesis by (auto simp: fault_manager_clear_node_def)
  next
    case FClearAll
    with r clear_scan_mirrored [OF sim, of "\<lambda>key. True" _ "\<lambda>f. True"]
    show ?thesis by (auto simp: fault_manager_clear_all_def)
  qed (use sim r in \<open>auto simp: active_count_mirrored has_critical_mirrored\<close>)
qed

lemma fm_sim_init: "fm_sim fault_manager_init fm_new"
  by (simp add: fm_sim_def holds_def fault_manager_init_def fm_new_def FM_MAX_FAULTS_def counters_of_def
      fm_counters_def)

text \<open>
  Claim C12. On every run on which the mirror of the fault manager does not panic, with at most sixteen
  different faults, the firmware gives the same answers for the active count and the critical
  flag, and its two operations that clear many faults are the clears of these faults one by one. With
  sixteen faults in the table the firmware refuses a new one and changes nothing.
\<close>

theorem fault_firmware_answers_like_mirror:
  assumes "run_r fm_r_step fm_new ops = Some (as, r)"
  shows "\<exists>c. run_c fm_c_step fault_manager_init ops = (as, c)
     \<and> (\<not> has_room r s k \<longrightarrow> fault_manager_report c s k sev = (-1, c))"
proof -
  from fmm.sim_run [OF fm_sim_init assms] obtain c
    where c: "run_c fm_c_step fault_manager_init ops = (as, c)" "fm_sim c r" by blast
  with report_full [of c r s k sev] show ?thesis by blast
qed

theorem fault_firmware_answers_like_mirror_witness:
  "\<exists>c. run_c fm_c_step fault_manager_init
         [FReport 3 1 2, FReport 2 4 1, FHasCritical, FClearNode 3, FHasCritical, FActiveCount] = ([0, 0, 1, 0, 0, 1], c)"
proof -
  have r: "\<exists>r. run_r fm_r_step fm_new
        [FReport 3 1 2, FReport 2 4 1, FHasCritical, FClearNode 3, FHasCritical, FActiveCount] =
      Some ([0, 0, 1, 0, 0, 1], r)"
    by (simp add: fault_report_def fault_clear_def fm_new_def count_up_def count_down_def uadd_def
        usub_def has_critical_def fault_key_def has_room_def FM_MAX_FAULTS_def active_count_def)
  then show ?thesis using fault_firmware_answers_like_mirror by (blast elim: exE)
qed

text \<open>
  Where the mirror panics the counter of the firmware wraps: a warning that is reported again as
  critical and then cleared leaves no active fault and 255 critical ones, so the critical flag, which
  sends the gateway to FAULT, stays set.
\<close>

theorem fault_firmware_counter_wraps:
  "fst (run_c fm_c_step fault_manager_init
     [FReport 3 1 1, FReport 3 1 2, FHasCritical, FClear 3 1, FActiveCount, FHasCritical, FClearAll, FHasCritical])
   = [0, 0, 0, 0, 0, 1, 0, 1]"
  by (simp add: fault_manager_init_def FM_MAX_FAULTS_def fault_manager_report_def fault_manager_clear_def
      fault_manager_clear_all_def clear_slot_def
      fault_manager_active_count_def fault_manager_has_critical_def count_slot_def scan_array_def fault_at_def
      set_counters_def counters_of_def counters_up_def counters_down_def numeral_eq_Suc word_gt_0)

subsection \<open>dashboard_state.c and warning_display.c\<close>

definition DASHBOARD_MAX_WARNINGS :: nat where "DASHBOARD_MAX_WARNINGS = 16"

record dashboard_warning_t =
  cdw_warning_code :: u8
  cdw_active :: u8
  cdw_source_node :: u8

record dashboard_state_t =
  cd_vehicle_mode :: mc_vehicle_mode_t
  cd_speed_kph_x10 :: u16
  cd_soc_percent :: u8
  cd_battery_temp_c_x10 :: i16
  cd_battery_voltage_mv :: u16
  cd_warnings :: "dashboard_warning_t list"
  cd_warning_count :: u8
  cd_initialized :: u8
  cd_booted :: u8

text \<open>\<open>memset(ds, 0, sizeof(*ds))\<close>\<close>

definition dashboard_zero :: dashboard_state_t where
  "dashboard_zero =
     \<lparr>cd_vehicle_mode = 0, cd_speed_kph_x10 = 0, cd_soc_percent = 0, cd_battery_temp_c_x10 = 0,
      cd_battery_voltage_mv = 0,
      cd_warnings = replicate DASHBOARD_MAX_WARNINGS \<lparr>cdw_warning_code = 0, cdw_active = 0, cdw_source_node = 0\<rparr>,
      cd_warning_count = 0, cd_initialized = 0, cd_booted = 0\<rparr>"

definition dashboard_state_init :: dashboard_state_t where
  "dashboard_state_init = dashboard_zero\<lparr>cd_booted := 1\<rparr>"

definition dashboard_state_set_mode :: "dashboard_state_t \<Rightarrow> mc_vehicle_mode_t \<Rightarrow> dashboard_state_t" where
  "dashboard_state_set_mode ds mode = ds\<lparr>cd_vehicle_mode := mode, cd_initialized := 1\<rparr>"

definition dashboard_state_set_speed :: "dashboard_state_t \<Rightarrow> u16 \<Rightarrow> dashboard_state_t" where
  "dashboard_state_set_speed ds speed_kph_x10 = ds\<lparr>cd_speed_kph_x10 := speed_kph_x10, cd_initialized := 1\<rparr>"

definition dashboard_state_set_battery :: "dashboard_state_t \<Rightarrow> u8 \<Rightarrow> i16 \<Rightarrow> u16 \<Rightarrow> dashboard_state_t" where
  "dashboard_state_set_battery ds soc_percent temp_c_x10 voltage_mv =
     ds\<lparr>cd_soc_percent := soc_percent, cd_battery_temp_c_x10 := temp_c_x10,
        cd_battery_voltage_mv := voltage_mv, cd_initialized := 1\<rparr>"

definition dashboard_state_add_warning :: "dashboard_state_t \<Rightarrow> u8 \<Rightarrow> u8 \<Rightarrow> dashboard_state_t" where
  "dashboard_state_add_warning ds warning_code source_node =
     (case first_index (\<lambda>w. cdw_warning_code w = warning_code \<and> cdw_source_node w = source_node)
             (cd_warnings ds) 0 (unat (cd_warning_count ds)) of
        Some i \<Rightarrow> ds\<lparr>cd_warnings := (cd_warnings ds)[i := (cd_warnings ds ! i)\<lparr>cdw_active := 1\<rparr>]\<rparr>
      | None \<Rightarrow>
          if unat (cd_warning_count ds) \<ge> DASHBOARD_MAX_WARNINGS then ds
          else ds\<lparr>cd_warnings := (cd_warnings ds)[unat (cd_warning_count ds) :=
                      \<lparr>cdw_warning_code = warning_code, cdw_active = 1, cdw_source_node = source_node\<rparr>],
                  cd_warning_count := cd_warning_count ds + 1\<rparr>)"

definition silence_slot :: "(dashboard_warning_t \<Rightarrow> bool) \<Rightarrow> unit \<Rightarrow> dashboard_warning_t \<Rightarrow> unit \<times> dashboard_warning_t"
  where "silence_slot p u w = (u, if p w then w\<lparr>cdw_active := 0\<rparr> else w)"

definition dashboard_state_clear_warning :: "dashboard_state_t \<Rightarrow> u8 \<Rightarrow> dashboard_state_t" where
  "dashboard_state_clear_warning ds warning_code =
     ds\<lparr>cd_warnings := snd (scan_array (silence_slot (\<lambda>w. cdw_warning_code w = warning_code))
                              (unat (cd_warning_count ds)) ((), cd_warnings ds))\<rparr>"

definition dashboard_state_clear_node_warnings :: "dashboard_state_t \<Rightarrow> u8 \<Rightarrow> dashboard_state_t" where
  "dashboard_state_clear_node_warnings ds source_node =
     ds\<lparr>cd_warnings := snd (scan_array (silence_slot (\<lambda>w. cdw_source_node w = source_node))
                              (unat (cd_warning_count ds)) ((), cd_warnings ds))\<rparr>"

definition warning_display_severity_for :: "u8 \<Rightarrow> u8" where
  "warning_display_severity_for warning_code =
     (if warning_code = 7 then 3
      else if warning_code = 1 \<or> warning_code = 3 \<or> warning_code = 4 then 2
      else if warning_code = 2 \<or> warning_code = 5 \<or> warning_code = 6 \<or> warning_code = 8 then 1
      else 0)"

text \<open>\<open>dashboard_state_top_warning\<close> repeats the same switch in its loop.\<close>

definition top_slot :: "u8 \<times> u8 \<Rightarrow> dashboard_warning_t \<Rightarrow> (u8 \<times> u8) \<times> dashboard_warning_t" where
  "top_slot best w =
     (let (top_code, top_severity) = best
      in if cdw_active w = 0 then (best, w)
         else let sev = warning_display_severity_for (cdw_warning_code w)
              in if sev > top_severity then ((cdw_warning_code w, sev), w) else (best, w))"

definition dashboard_state_top_warning :: "dashboard_state_t \<Rightarrow> u8" where
  "dashboard_state_top_warning ds =
     fst (fst (scan_array top_slot (unat (cd_warning_count ds)) ((0, 0), cd_warnings ds)))"

definition dashboard_state_reboot :: "dashboard_state_t \<Rightarrow> dashboard_state_t" where
  "dashboard_state_reboot ds = dashboard_zero\<lparr>cd_booted := 0\<rparr>"

definition warning_rep :: "dashboard_warning \<Rightarrow> dashboard_warning_t" where
  "warning_rep w = \<lparr>cdw_warning_code = dw_warning_code w, cdw_active = flag (dw_active w),
                    cdw_source_node = dw_source_node w\<rparr>"

definition dash_sim :: "dashboard_state_t \<Rightarrow> dashboard_state \<Rightarrow> bool" where
  "dash_sim c r \<longleftrightarrow> cd_vehicle_mode c = mode_code (ds_vehicle_mode r)
     \<and> cd_speed_kph_x10 c = ds_speed_kph_x10 r \<and> cd_soc_percent c = ds_soc_percent r
     \<and> cd_battery_temp_c_x10 c = ds_battery_temp_c_x10 r \<and> cd_battery_voltage_mv c = ds_battery_voltage_mv r
     \<and> holds warning_rep DASHBOARD_MAX_WARNINGS (cd_warnings c) (cd_warning_count c) (ds_warnings r)
     \<and> cd_initialized c = flag (ds_initialized r) \<and> cd_booted c = flag (ds_booted r)"

datatype panel_op =
  PMode vehicle_mode | PSpeed u16 | PBattery u8 i16 u16 | PWarn u8 u8 | PClear u8 | PClearNode u8 | PTop | PReboot

fun dash_c_step :: "dashboard_state_t \<Rightarrow> panel_op \<Rightarrow> u8 \<times> dashboard_state_t" where
  "dash_c_step c (PMode m) = (0, dashboard_state_set_mode c (mode_code m))"
| "dash_c_step c (PSpeed v) = (0, dashboard_state_set_speed c v)"
| "dash_c_step c (PBattery soc t v) = (0, dashboard_state_set_battery c soc t v)"
| "dash_c_step c (PWarn w n) = (0, dashboard_state_add_warning c w n)"
| "dash_c_step c (PClear w) = (0, dashboard_state_clear_warning c w)"
| "dash_c_step c (PClearNode n) = (0, dashboard_state_clear_node_warnings c n)"
| "dash_c_step c PTop = (dashboard_state_top_warning c, c)"
| "dash_c_step c PReboot = (0, dashboard_state_reboot c)"

definition warning_fits :: "dashboard_state \<Rightarrow> u8 \<Rightarrow> u8 \<Rightarrow> bool" where
  "warning_fits r w n \<longleftrightarrow>
     (w, n) \<in> warning_key ` set (ds_warnings r) \<or> length (ds_warnings r) < DASHBOARD_MAX_WARNINGS"

fun dash_r_step :: "dashboard_state \<Rightarrow> panel_op \<Rightarrow> (u8 \<times> dashboard_state) option" where
  "dash_r_step r (PMode m) = Some (0, dash_set_mode r m)"
| "dash_r_step r (PSpeed v) = Some (0, dash_set_speed r v)"
| "dash_r_step r (PBattery soc t v) = Some (0, dash_set_battery r soc t v)"
| "dash_r_step r (PWarn w n) = (if warning_fits r w n then Some (0, add_warning r w n) else None)"
| "dash_r_step r (PClear w) = Some (0, clear_warning r w)"
| "dash_r_step r (PClearNode n) = Some (0, clear_node_warnings r n)"
| "dash_r_step r PTop = Some (top_warning r, r)"
| "dash_r_step r PReboot = Some (0, dashboard_reboot r)"

lemma warning_rep_sel [simp]:
  "cdw_active (warning_rep w) = flag (dw_active w)" "cdw_warning_code (warning_rep w) = dw_warning_code w"
  "cdw_source_node (warning_rep w) = dw_source_node w"
  by (simp_all add: warning_rep_def)

lemma warning_rep_upd:
  "(warning_rep w)\<lparr>cdw_active := 1\<rparr> = warning_rep (w\<lparr>dw_active := True\<rparr>)"
  "(warning_rep w)\<lparr>cdw_active := 0\<rparr> = warning_rep (w\<lparr>dw_active := False\<rparr>)"
  by (simp_all add: warning_rep_def)

lemma severity_mirrored: "warning_display_severity_for code = warning_severity code"
  by (simp add: warning_display_severity_for_def warning_severity_def)

lemma silence_mirrored:
  assumes "holds warning_rep cap xs n ws" "\<And>w. p (warning_rep w) = q w"
  shows "holds warning_rep cap (snd (scan_array (silence_slot p) (unat n) ((), xs))) n
           (map (\<lambda>w. if q w then w\<lparr>dw_active := False\<rparr> else w) ws)"
proof -
  have "scan_list (silence_slot p) () (map warning_rep ws)
      = ((), map warning_rep (map (\<lambda>w. if q w then w\<lparr>dw_active := False\<rparr> else w) ws))"
    by (induction ws) (auto simp: silence_slot_def assms(2) warning_rep_upd)
  from holds_scan [OF assms(1) this] show ?thesis by auto
qed

lemma top_slot_mirrored:
  "fst (fst (scan_list top_slot (code, sev) (map warning_rep ws))) = top_loop code sev ws
   \<and> snd (scan_list top_slot (code, sev) (map warning_rep ws)) = map warning_rep ws"
  by (induction ws arbitrary: code sev)
    (auto simp: top_slot_def severity_mirrored Let_def case_prod_beta)

lemma top_warning_mirrored:
  assumes "dash_sim c r"
  shows "dashboard_state_top_warning c = top_warning r"
proof -
  from assms have h: "holds warning_rep DASHBOARD_MAX_WARNINGS (cd_warnings c) (cd_warning_count c) (ds_warnings r)"
    by (simp add: dash_sim_def)
  obtain best where "scan_list top_slot (0, 0) (map warning_rep (ds_warnings r)) = (best, map warning_rep (ds_warnings r))"
      "fst best = top_loop 0 0 (ds_warnings r)"
    using top_slot_mirrored [of 0 0 "ds_warnings r"] by (metis prod.collapse)
  with holds_scan [OF h this(1)] show ?thesis
    by (auto simp: dashboard_state_top_warning_def top_warning_def)
qed

lemma add_warning_mirrored:
  assumes sim: "dash_sim c r" and fits: "warning_fits r w n"
  shows "dash_sim (dashboard_state_add_warning c w n) (add_warning r w n)"
proof -
  let ?p = "\<lambda>v. cdw_warning_code v = w \<and> cdw_source_node v = n"
    and ?q = "\<lambda>v. (dw_warning_code v, dw_source_node v) = (w, n)"
    and ?w = "\<lparr>dw_warning_code = w, dw_active = True, dw_source_node = n\<rparr>"
  from sim have h: "holds warning_rep DASHBOARD_MAX_WARNINGS (cd_warnings c) (cd_warning_count c) (ds_warnings r)"
    by (simp add: dash_sim_def)
  note fi = holds_first_index [OF h, of ?p ?q]
  show ?thesis
  proof (cases "find ?q (ds_warnings r)")
    case None
    then have new: "\<not> list_ex ?q (ds_warnings r)" "(w, n) \<notin> warning_key ` set (ds_warnings r)"
      by (auto simp: find_None_iff list_ex_iff warning_key_def)
    with fits have len: "length (ds_warnings r) < DASHBOARD_MAX_WARNINGS" by (simp add: warning_fits_def)
    have "holds warning_rep DASHBOARD_MAX_WARNINGS ((cd_warnings c)[unat (cd_warning_count c) := warning_rep ?w])
        (cd_warning_count c + 1) (ds_warnings r @ [?w])"
      by (rule holds_push [OF h len]) (simp add: DASHBOARD_MAX_WARNINGS_def)
    moreover have "unat (cd_warning_count c) < DASHBOARD_MAX_WARNINGS" using h len by (simp add: holds_def)
    ultimately show ?thesis
      using fi(1) None new(1) sim
      by (simp add: dash_sim_def dashboard_state_add_warning_def add_warning_def upsert_def warning_rep_def)
  next
    case (Some v)
    with fi(2) [of v] obtain i where
      i: "first_index ?p (cd_warnings c) 0 (unat (cd_warning_count c)) = Some i" by auto
    from holds_modify_at [OF h _ _ i, of ?q "\<lambda>v. v\<lparr>cdw_active := 1\<rparr>" "\<lambda>v. v\<lparr>dw_active := True\<rparr>"]
    have "holds warning_rep DASHBOARD_MAX_WARNINGS ((cd_warnings c)[i := (cd_warnings c ! i)\<lparr>cdw_active := 1\<rparr>])
        (cd_warning_count c) (update_first ?q (\<lambda>v. v\<lparr>dw_active := True\<rparr>) (ds_warnings r))"
      by (simp add: warning_rep_upd)
    moreover have "list_ex ?q (ds_warnings r)"
      using Some by (auto simp: find_Some_iff list_ex_iff intro: nth_mem)
    ultimately show ?thesis
      using i sim by (simp add: dash_sim_def dashboard_state_add_warning_def add_warning_def upsert_def)
  qed
qed

lemma dash_sim_zero:
  "dash_sim dashboard_state_init dashboard_default"
  "dash_sim (dashboard_state_reboot c) (dashboard_reboot r)"
  by (simp_all add: dash_sim_def dashboard_state_init_def dashboard_default_def dashboard_state_reboot_def
      dashboard_reboot_def dashboard_zero_def holds_def)

interpretation dashm: mirrors dash_sim dash_c_step dash_r_step
proof unfold_locales
  fix c r op a r'
  assume sim: "dash_sim c r" and r: "dash_r_step r op = Some (a, r')"
  show "\<exists>c'. dash_c_step c op = (a, c') \<and> dash_sim c' r'"
  proof (cases op)
    case (PWarn w n)
    with r add_warning_mirrored [OF sim] show ?thesis by (auto split: if_splits)
  next
    case (PClear w)
    with r sim silence_mirrored [of _ _ _ _ "\<lambda>v. cdw_warning_code v = w" "\<lambda>v. dw_warning_code v = w"] show ?thesis
      by (auto simp: dash_sim_def dashboard_state_clear_warning_def clear_warning_def)
  next
    case (PClearNode n)
    with r sim silence_mirrored [of _ _ _ _ "\<lambda>v. cdw_source_node v = n" "\<lambda>v. dw_source_node v = n"] show ?thesis
      by (auto simp: dash_sim_def dashboard_state_clear_node_warnings_def clear_node_warnings_def)
  next
    case PReboot
    with r dash_sim_zero(2) [of c r] show ?thesis by auto
  next
    case PTop
    with r sim top_warning_mirrored [OF sim] show ?thesis by auto
  qed (use r sim in \<open>auto simp: dash_sim_def dashboard_state_set_mode_def dash_set_mode_def
      dashboard_state_set_speed_def dash_set_speed_def dashboard_state_set_battery_def dash_set_battery_def\<close>)
qed

text \<open>
  On every run with at most sixteen different warnings the dashboard firmware shows the same top
  warning as its mirror at every point; with sixteen warnings in the table a new one is dropped, and
  the firmware goes on showing what it showed.
\<close>

theorem dashboard_firmware_shows_mirror_warnings:
  assumes "run_r dash_r_step dashboard_default ops = Some (as, r)"
  shows "\<exists>c. run_c dash_c_step dashboard_state_init ops = (as, c)
     \<and> (\<not> warning_fits r w n \<longrightarrow> dashboard_state_add_warning c w n = c)"
proof -
  from dashm.sim_run [OF dash_sim_zero(1) assms] obtain c
    where c: "run_c dash_c_step dashboard_state_init ops = (as, c)" "dash_sim c r" by blast
  then have h: "holds warning_rep DASHBOARD_MAX_WARNINGS (cd_warnings c) (cd_warning_count c) (ds_warnings r)"
    by (simp add: dash_sim_def)
  have "dashboard_state_add_warning c w n = c" if full: "\<not> warning_fits r w n"
  proof -
    from full have "find (\<lambda>v. dw_warning_code v = w \<and> dw_source_node v = n) (ds_warnings r) = None"
      by (auto simp: warning_fits_def find_None_iff warning_key_def image_iff)
    with holds_first_index(1) [OF h, of "\<lambda>v. cdw_warning_code v = w \<and> cdw_source_node v = n"
        "\<lambda>v. dw_warning_code v = w \<and> dw_source_node v = n"] full h show ?thesis
      by (simp add: dashboard_state_add_warning_def warning_fits_def holds_def)
  qed
  with c(1) show ?thesis by blast
qed

theorem dashboard_firmware_shows_mirror_warnings_witness:
  "\<exists>c. run_c dash_c_step dashboard_state_init
         [PMode Drive, PWarn 2 1, PTop, PWarn 7 3, PTop, PClear 7, PTop] = ([0, 0, 2, 0, 7, 0, 2], c)"
proof -
  have "\<exists>r. run_r dash_r_step dashboard_default
        [PMode Drive, PWarn 2 1, PTop, PWarn 7 3, PTop, PClear 7, PTop] = Some ([0, 0, 2, 0, 7, 0, 2], r)"
    by (simp add: dash_set_mode_def add_warning_def clear_warning_def top_warning_def upsert_def
        dashboard_default_def warning_fits_def DASHBOARD_MAX_WARNINGS_def warning_severity_def)
  then show ?thesis using dashboard_firmware_shows_mirror_warnings by (blast elim: exE)
qed

end
