(* ===== verification/Firmware_Ota.thy ===== *)
theory Firmware_Ota
  imports Firmware Ota_Slot
begin

unbundle bit_operations_syntax

text \<open>
  \<^verbatim>\<open>common/src/microcar_ota_slot.c\<close>, the slot model of the firmware, against its Rust mirror, and
  \<^verbatim>\<open>common/src/microcar_charging.c\<close>, the charging state machine, whose mirror is a stub. The
  structure of the slot model keeps the state as a byte; the persistent record is the
  packed structure that \<open>meta_record\<close> describes, in memory the bytes \<open>to_bytes\<close>. The functions
  that start with a test for a null pointer are modelled on the object; where a pointer decides the
  result it is an option.
\<close>

subsection \<open>microcar_ota_slot.c\<close>

definition MC_OTA_SLOT_A :: u8 where [c_enum]: "MC_OTA_SLOT_A = 0"
definition MC_OTA_SLOT_B :: u8 where [c_enum]: "MC_OTA_SLOT_B = 1"
definition MC_OTA_IDLE :: u8 where [c_enum]: "MC_OTA_IDLE = 0"
definition MC_OTA_DOWNLOADING :: u8 where [c_enum]: "MC_OTA_DOWNLOADING = 1"
definition MC_OTA_VERIFYING :: u8 where [c_enum]: "MC_OTA_VERIFYING = 2"
definition MC_OTA_COMMIT_PENDING :: u8 where [c_enum]: "MC_OTA_COMMIT_PENDING = 3"
definition MC_OTA_REBOOTING :: u8 where [c_enum]: "MC_OTA_REBOOTING = 4"
definition MC_OTA_HEALTHY :: u8 where [c_enum]: "MC_OTA_HEALTHY = 5"
definition MC_OTA_ROLLED_BACK :: u8 where [c_enum]: "MC_OTA_ROLLED_BACK = 6"

record mc_ota_slot_state_t =
  co_active_slot :: u8
  co_target_slot :: u8
  co_state :: u8
  co_image_written :: u8
  co_crc_ok :: u8
  co_committed :: u8
  co_boot_healthy :: u8
  co_rolled_back :: u8
  co_abort_reason :: u8

definition other_slot_c :: "u8 \<Rightarrow> u8" where
  "other_slot_c slot = (if slot = MC_OTA_SLOT_A then MC_OTA_SLOT_B else MC_OTA_SLOT_A)"

definition mc_ota_init :: mc_ota_slot_state_t where
  "mc_ota_init =
     \<lparr>co_active_slot = MC_OTA_SLOT_A, co_target_slot = MC_OTA_SLOT_A, co_state = MC_OTA_IDLE,
      co_image_written = 0, co_crc_ok = 0, co_committed = 0, co_boot_healthy = 0, co_rolled_back = 0,
      co_abort_reason = 0\<rparr>"

definition mc_ota_begin_download :: "mc_ota_slot_state_t \<Rightarrow> mc_ota_slot_state_t" where
  "mc_ota_begin_download s =
     (if co_state s \<noteq> MC_OTA_IDLE then s
      else s\<lparr>co_target_slot := other_slot_c (co_active_slot s), co_image_written := 0, co_crc_ok := 0,
             co_committed := 0, co_state := MC_OTA_DOWNLOADING\<rparr>)"

definition mc_ota_rollback :: "mc_ota_slot_state_t \<Rightarrow> mc_ota_slot_state_t" where
  "mc_ota_rollback s =
     (if co_state s = MC_OTA_HEALTHY then s
      else s\<lparr>co_target_slot := co_active_slot s, co_image_written := 0, co_committed := 0,
             co_boot_healthy := 0, co_rolled_back := 1, co_state := MC_OTA_ROLLED_BACK\<rparr>)"

definition mc_ota_finish_download :: "mc_ota_slot_state_t \<Rightarrow> int \<Rightarrow> int \<times> mc_ota_slot_state_t" where
  "mc_ota_finish_download s complete =
     (if co_state s \<noteq> MC_OTA_DOWNLOADING then (0, s)
      else if complete = 0 then (0, mc_ota_rollback s)
      else (1, s\<lparr>co_image_written := 1\<rparr>))"

definition mc_ota_verify :: "mc_ota_slot_state_t \<Rightarrow> int \<Rightarrow> int \<times> mc_ota_slot_state_t" where
  "mc_ota_verify s crc_ok =
     (if co_state s \<noteq> MC_OTA_DOWNLOADING then (0, s)
      else let s = s\<lparr>co_state := MC_OTA_VERIFYING, co_crc_ok := (if crc_ok \<noteq> 0 then 1 else 0)\<rparr>
           in if co_crc_ok s = 0 then (0, mc_ota_rollback s) else (1, s))"

definition mc_ota_commit :: "mc_ota_slot_state_t \<Rightarrow> int \<times> mc_ota_slot_state_t" where
  "mc_ota_commit s =
     (if co_state s \<noteq> MC_OTA_VERIFYING then (0, s)
      else if co_image_written s = 0 \<or> co_crc_ok s = 0 then (0, mc_ota_rollback s)
      else (1, s\<lparr>co_committed := 1, co_state := MC_OTA_COMMIT_PENDING\<rparr>))"

definition mc_ota_reboot :: "mc_ota_slot_state_t \<Rightarrow> mc_ota_slot_state_t" where
  "mc_ota_reboot s = (if co_state s \<noteq> MC_OTA_COMMIT_PENDING then s else s\<lparr>co_state := MC_OTA_REBOOTING\<rparr>)"

definition mc_ota_health_check :: "mc_ota_slot_state_t \<Rightarrow> int \<Rightarrow> int \<times> mc_ota_slot_state_t" where
  "mc_ota_health_check s healthy =
     (if co_state s \<noteq> MC_OTA_REBOOTING then (0, s)
      else if healthy \<noteq> 0 \<and> co_committed s \<noteq> 0
      then (1, s\<lparr>co_boot_healthy := 1, co_active_slot := co_target_slot s, co_state := MC_OTA_HEALTHY\<rparr>)
      else (0, mc_ota_rollback (s\<lparr>co_boot_healthy := 0\<rparr>)))"

definition mc_ota_boot_slot :: "mc_ota_slot_state_t \<Rightarrow> u8" where
  "mc_ota_boot_slot s =
     (if co_state s = MC_OTA_HEALTHY \<and> co_committed s \<noteq> 0 then co_target_slot s else co_active_slot s)"

definition mc_ota_abort :: "mc_ota_slot_state_t \<Rightarrow> u8 \<Rightarrow> mc_ota_slot_state_t" where
  "mc_ota_abort s reason =
     (if co_state s = MC_OTA_HEALTHY then s else (mc_ota_rollback s)\<lparr>co_abort_reason := reason\<rparr>)"

definition mc_ota_recover_after_reset :: "mc_ota_slot_state_t \<Rightarrow> meta_record \<Rightarrow> mc_ota_slot_state_t" where
  "mc_ota_recover_after_reset s r =
     s\<lparr>co_active_slot := mr_active_slot r, co_target_slot := mr_target_slot r, co_state := mr_state r,
       co_committed := (if mr_committed r \<noteq> 0 then 1 else 0),
       co_boot_healthy := (if mr_healthy r \<noteq> 0 then 1 else 0), co_abort_reason := mr_abort_reason r,
       co_image_written := (if mr_state r \<ge> MC_OTA_COMMIT_PENDING then 1 else 0),
       co_crc_ok := (if mr_state r \<ge> MC_OTA_COMMIT_PENDING then 1 else 0),
       co_rolled_back := (if mr_state r = MC_OTA_ROLLED_BACK then 1 else 0)\<rparr>"

text \<open>The mask is built by negating a signed integer and converting it back.\<close>

definition crc_round :: "u32 \<Rightarrow> u32" where
  "crc_round crc =
     (let mask = word_of_int (- sint (crc AND 1)) in drop_bit 1 crc XOR (0xEDB88320 AND mask))"

definition mc_ota_crc32 :: "u8 list \<Rightarrow> u32 \<Rightarrow> u32" where
  "mc_ota_crc32 data len =
     foldl (\<lambda>crc i. (crc_round ^^ 8) (crc XOR ucast (data ! i))) 0xFFFFFFFF [0..<unat len] XOR 0xFFFFFFFF"

definition mc_ota_record_crc32 :: "meta_record \<Rightarrow> u32" where
  "mc_ota_record_crc32 r = mc_ota_crc32 (to_bytes r) 28"

definition mc_ota_record_valid :: "meta_record option \<Rightarrow> int" where
  "mc_ota_record_valid p =
     (case p of None \<Rightarrow> 0
      | Some r \<Rightarrow>
          if mr_magic r \<noteq> OTA_META_MAGIC then 0
          else if mr_format_version r \<noteq> OTA_META_FORMAT_VERSION then 0
          else if mr_record_crc32 r = mc_ota_record_crc32 r then 1 else 0)"

definition mc_ota_select_record :: "meta_record option \<Rightarrow> meta_record option \<Rightarrow> meta_record option" where
  "mc_ota_select_record a b =
     (let va = mc_ota_record_valid a; vb = mc_ota_record_valid b
      in if va \<noteq> 0 \<and> vb \<noteq> 0
         then (if mr_generation (the a) \<ge> mr_generation (the b) then a else b)
         else if va \<noteq> 0 then a else if vb \<noteq> 0 then b else None)"

subsection \<open>The slot model against its mirror\<close>

definition ota_sim :: "mc_ota_slot_state_t \<Rightarrow> ota_slot_model \<Rightarrow> bool" where
  "ota_sim c r \<longleftrightarrow> co_active_slot c = om_active_slot r \<and> co_target_slot c = om_target_slot r
     \<and> co_state c = ota_state_u8 (om_state r) \<and> co_image_written c = flag (om_image_written r)
     \<and> co_crc_ok c = flag (om_crc_ok r) \<and> co_committed c = flag (om_committed r)
     \<and> co_boot_healthy c = flag (om_boot_healthy r) \<and> co_rolled_back c = flag (om_rolled_back r)
     \<and> co_abort_reason c = om_abort_reason r"

datatype slot_op = SlotOp ota_op | BootSlot | Recover meta_record

fun slot_c_step :: "mc_ota_slot_state_t \<Rightarrow> slot_op \<Rightarrow> int \<times> mc_ota_slot_state_t" where
  "slot_c_step c (SlotOp BeginDownload) = (0, mc_ota_begin_download c)"
| "slot_c_step c (SlotOp (FinishDownload ok)) = mc_ota_finish_download c (of_bool ok)"
| "slot_c_step c (SlotOp (Verify ok)) = mc_ota_verify c (of_bool ok)"
| "slot_c_step c (SlotOp Commit) = mc_ota_commit c"
| "slot_c_step c (SlotOp OtaReboot) = (0, mc_ota_reboot c)"
| "slot_c_step c (SlotOp (HealthCheck ok)) = mc_ota_health_check c (of_bool ok)"
| "slot_c_step c (SlotOp Rollback) = (0, mc_ota_rollback c)"
| "slot_c_step c (SlotOp (Abort reason)) = (0, mc_ota_abort c reason)"
| "slot_c_step c BootSlot = (uint (mc_ota_boot_slot c), c)"
| "slot_c_step c (Recover rec) = (0, mc_ota_recover_after_reset c rec)"

fun slot_answer :: "ota_slot_model \<Rightarrow> ota_op \<Rightarrow> bool" where
  "slot_answer r (FinishDownload ok) = fst (finish_download r ok)"
| "slot_answer r (Verify ok) = fst (verify r ok)"
| "slot_answer r Commit = fst (commit r)"
| "slot_answer r (HealthCheck ok) = fst (health_check r ok)"
| "slot_answer r _ = False"

fun slot_r_step :: "ota_slot_model \<Rightarrow> slot_op \<Rightarrow> (int \<times> ota_slot_model) option" where
  "slot_r_step r (SlotOp op) = Some (of_bool (slot_answer r op), ota_step r op)"
| "slot_r_step r BootSlot = Some (uint (boot_slot r), r)"
| "slot_r_step r (Recover rec) = (if mr_state rec \<le> 6 then Some (0, recover_after_reset r rec) else None)"

lemma ota_codes [simp]:
  "ota_state_u8 s = 0 \<longleftrightarrow> s = Idle" "ota_state_u8 s = 1 \<longleftrightarrow> s = Downloading"
  "ota_state_u8 s = 2 \<longleftrightarrow> s = Verifying" "ota_state_u8 s = 3 \<longleftrightarrow> s = CommitPending"
  "ota_state_u8 s = 4 \<longleftrightarrow> s = Rebooting" "ota_state_u8 s = 5 \<longleftrightarrow> s = Healthy"
  "ota_state_u8 s = 6 \<longleftrightarrow> s = RolledBack"
  by (cases s; simp)+

lemma ota_state_code_roundtrip:
  assumes "v \<le> 6"
  shows "ota_state_u8 (ota_state_from_u8 v) = v"
proof -
  have "unat v \<le> 6" using assms by (simp add: word_le_nat_alt)
  then consider "unat v = 0" | "unat v = 1" | "unat v = 2" | "unat v = 3" | "unat v = 4" | "unat v = 5" | "unat v = 6"
    by linarith
  moreover have "v = of_nat n" if "unat v = n" for n using that by auto
  ultimately have "v \<in> {0, 1, 2, 3, 4, 5, 6}" by cases fastforce+
  then show ?thesis by (auto simp: ota_state_from_u8_def)
qed

lemma rollback_mirrored: "ota_sim c r \<Longrightarrow> ota_sim (mc_ota_rollback c) (rollback r)"
  by (simp add: ota_sim_def mc_ota_rollback_def rollback_def c_enum)

lemma boot_slot_mirrored: "ota_sim c r \<Longrightarrow> mc_ota_boot_slot c = boot_slot r"
  by (simp add: ota_sim_def mc_ota_boot_slot_def boot_slot_def c_enum)

lemma plain_ops_mirrored:
  assumes "ota_sim c r"
  shows "ota_sim (mc_ota_begin_download c) (begin_download r)"
    and "ota_sim (mc_ota_reboot c) (ota_reboot r)"
    and "ota_sim (mc_ota_abort c reason) (ota_abort r reason)"
    and "mr_state rec \<le> 6 \<Longrightarrow> ota_sim (mc_ota_recover_after_reset c rec) (recover_after_reset r rec)"
proof -
  show "ota_sim (mc_ota_begin_download c) (begin_download r)"
    using assms by (simp add: ota_sim_def mc_ota_begin_download_def begin_download_def other_slot_c_def
        other_slot_def SLOT_A_def SLOT_B_def c_enum)
  show "ota_sim (mc_ota_reboot c) (ota_reboot r)"
    using assms by (simp add: ota_sim_def mc_ota_reboot_def ota_reboot_def c_enum)
  show "ota_sim (mc_ota_abort c reason) (ota_abort r reason)"
    using assms rollback_mirrored [OF assms] by (simp add: ota_sim_def mc_ota_abort_def ota_abort_def c_enum)
  show "mr_state rec \<le> 6 \<Longrightarrow> ota_sim (mc_ota_recover_after_reset c rec) (recover_after_reset r rec)"
    by (simp add: ota_sim_def mc_ota_recover_after_reset_def recover_after_reset_def Let_def c_enum
        ota_state_code_roundtrip)
qed

text \<open>An operation with an answer: the same answer, and related states.\<close>

definition same_answer :: "int \<times> mc_ota_slot_state_t \<Rightarrow> bool \<times> ota_slot_model \<Rightarrow> bool" where
  "same_answer x y \<longleftrightarrow> fst x = of_bool (fst y) \<and> ota_sim (snd x) (snd y)"

lemma same_answerD: "same_answer x y \<Longrightarrow> \<exists>c'. x = (of_bool (fst y), c') \<and> ota_sim c' (snd y)"
  by (cases x) (simp add: same_answer_def)

lemma answering_ops_mirrored:
  assumes "ota_sim c r"
  shows "same_answer (mc_ota_finish_download c (of_bool ok)) (finish_download r ok)"
    and "same_answer (mc_ota_verify c (of_bool ok)) (verify r ok)"
    and "same_answer (mc_ota_commit c) (commit r)"
    and "same_answer (mc_ota_health_check c (of_bool ok)) (health_check r ok)"
proof -
  have upd: "ota_sim (c\<lparr>co_state := 2, co_crc_ok := flag ok\<rparr>) (r\<lparr>om_state := Verifying, om_crc_ok := ok\<rparr>)"
      "ota_sim (c\<lparr>co_boot_healthy := 0\<rparr>) (r\<lparr>om_boot_healthy := False\<rparr>)"
    using assms by (simp_all add: ota_sim_def)
  note rb = rollback_mirrored [OF assms] upd [THEN rollback_mirrored]
  have code: "co_state c = ota_state_u8 (om_state r)" "co_image_written c = flag (om_image_written r)"
      "co_crc_ok c = flag (om_crc_ok r)" "co_committed c = flag (om_committed r)"
    using assms by (simp_all add: ota_sim_def)
  show "same_answer (mc_ota_finish_download c (of_bool ok)) (finish_download r ok)"
    using assms rb(1) by (simp add: same_answer_def mc_ota_finish_download_def finish_download_def code c_enum)
      (simp add: ota_sim_def)
  show "same_answer (mc_ota_verify c (of_bool ok)) (verify r ok)"
    using assms rb(2) upd(1) by (cases ok)
      (simp_all add: same_answer_def mc_ota_verify_def verify_def code c_enum Let_def)
  show "same_answer (mc_ota_commit c) (commit r)"
    using assms rb(1) by (simp add: same_answer_def mc_ota_commit_def commit_def code c_enum)
      (simp add: ota_sim_def)
  show "same_answer (mc_ota_health_check c (of_bool ok)) (health_check r ok)"
    using assms rb(3) by (simp add: same_answer_def mc_ota_health_check_def health_check_def code c_enum)
      (simp add: ota_sim_def)
qed

interpretation slotm: mirrors ota_sim slot_c_step slot_r_step
proof unfold_locales
  fix c r op a r'
  assume sim: "ota_sim c r" and r: "slot_r_step r op = Some (a, r')"
  show "\<exists>c'. slot_c_step c op = (a, c') \<and> ota_sim c' r'"
  proof (cases op)
    case (SlotOp ota_op)
    with r have "a = of_bool (slot_answer r ota_op)" "r' = ota_step r ota_op" by simp_all
    with SlotOp show ?thesis
      by (cases ota_op)
        (simp_all add: plain_ops_mirrored [OF sim] rollback_mirrored [OF sim]
          answering_ops_mirrored [OF sim, THEN same_answerD])
  next
    case BootSlot
    with sim r boot_slot_mirrored [OF sim] show ?thesis by auto
  next
    case (Recover rec)
    with sim r plain_ops_mirrored(4) [OF sim, of rec] show ?thesis by (auto split: if_splits)
  qed
qed

subsection \<open>The record\<close>

lemma crc_round_mirrored: "crc_round crc = crc_bit crc"
  by (simp add: crc_round_def crc_bit_def)

lemma foldl_index:
  "n \<le> length xs \<Longrightarrow> foldl (\<lambda>s i. f s (xs ! i)) s [0..<n] = foldl f s (take n xs)"
  by (induction n) (simp_all add: take_Suc_conv_app_nth)

lemma mc_ota_crc32_mirrored: "unat len \<le> length data \<Longrightarrow> mc_ota_crc32 data len = crc32 (take (unat len) data)"
proof -
  have r: "crc_round = crc_bit" by (rule ext) (rule crc_round_mirrored)
  assume "unat len \<le> length data"
  then show ?thesis
    using foldl_index [of "unat len" data crc_byte]
    by (simp add: mc_ota_crc32_def crc32_def crc_byte_def r)
qed

lemma mc_ota_record_valid_mirrored: "mc_ota_record_valid (Some r) = of_bool (is_valid r)"
  using mc_ota_crc32_mirrored [of 28 "to_bytes r"] length_to_bytes [of r]
  by (simp add: mc_ota_record_valid_def is_valid_def mc_ota_record_crc32_def compute_record_crc32_def
      OTA_META_RECORD_SIZE_def)

lemma slot_run_total:
  "\<forall>rec. Recover rec \<in> set ops \<longrightarrow> mr_state rec \<le> 6 \<Longrightarrow> \<exists>x. run_r slot_r_step r ops = Some x"
proof (induction ops arbitrary: r)
  case (Cons op ops)
  then have "\<exists>x. slot_r_step r op = Some x" by (cases op) auto
  then obtain a r' where "slot_r_step r op = Some (a, r')" by force
  with Cons.IH [of r'] Cons.prems show ?case by auto
qed simp

lemma ota_sim_init: "ota_sim mc_ota_init ota_new"
  by (simp add: ota_sim_def mc_ota_init_def ota_new_def SLOT_A_def c_enum)

text \<open>
  Claim C13. The OTA slot code of the firmware and its mirror give the same answers and boot the
  same slot in every sequence of operations and recoveries from records with a known state byte;
  they accept the same records and choose the same of two. After recovery from a record with an
  unknown state byte, which the mirror reads as rolled back, both boot the active slot of the record.
\<close>

theorem ota_firmware_answers_like_mirror:
  assumes "\<forall>rec. Recover rec \<in> set ops \<longrightarrow> mr_state rec \<le> 6"
  shows "map_option (\<lambda>(as, r). (as, boot_slot r)) (run_r slot_r_step ota_new ops)
       = Some (let (as, c) = run_c slot_c_step mc_ota_init ops in (as, mc_ota_boot_slot c))
     \<and> mc_ota_select_record (Some a) (Some b) = select_record a b
     \<and> (mc_ota_record_valid (Some a) = 1) = is_valid a
     \<and> (6 < mr_state a \<longrightarrow> mc_ota_boot_slot (mc_ota_recover_after_reset c a) = mr_active_slot a
          \<and> boot_slot (recover_after_reset r a) = mr_active_slot a)"
proof -
  from slot_run_total [OF assms, of ota_new] obtain as r' where
    r: "run_r slot_r_step ota_new ops = Some (as, r')" by auto
  from slotm.sim_run [OF ota_sim_init r] obtain c' where
    "run_c slot_c_step mc_ota_init ops = (as, c')" "ota_sim c' r'" by blast
  then have "map_option (\<lambda>(as, r). (as, boot_slot r)) (run_r slot_r_step ota_new ops)
       = Some (let (as, c) = run_c slot_c_step mc_ota_init ops in (as, mc_ota_boot_slot c))"
    by (simp add: r boot_slot_mirrored)
  moreover have "mc_ota_select_record (Some a) (Some b) = select_record a b"
    by (cases "is_valid a"; cases "is_valid b")
      (simp_all add: mc_ota_select_record_def select_record_def mc_ota_record_valid_mirrored Let_def)
  moreover have "mc_ota_boot_slot (mc_ota_recover_after_reset c a) = mr_active_slot a
          \<and> boot_slot (recover_after_reset r a) = mr_active_slot a" if "6 < mr_state a"
  proof -
    from that have "mr_state a \<notin> {0, 1, 2, 3, 4, 5, 6}" by (auto simp: word_less_nat_alt)
    then show ?thesis
      by (simp add: mc_ota_boot_slot_def mc_ota_recover_after_reset_def boot_slot_def recover_after_reset_def
          ota_state_from_u8_def Let_def c_enum)
  qed
  ultimately show ?thesis by (simp add: mc_ota_record_valid_mirrored)
qed

theorem ota_firmware_answers_like_mirror_witness:
  "fst (run_c slot_c_step mc_ota_init
     (map SlotOp [BeginDownload, FinishDownload True, Verify True, Commit, OtaReboot, HealthCheck True] @ [BootSlot]))
   = [0, 1, 1, 1, 0, 1, 1]"
proof -
  let ?ops = "map SlotOp [BeginDownload, FinishDownload True, Verify True, Commit, OtaReboot, HealthCheck True] @ [BootSlot]"
  have r: "map_option fst (run_r slot_r_step ota_new ?ops) = Some [0, 1, 1, 1, 0, 1, 1]"
    by (simp add: ota_new_def begin_download_def finish_download_def verify_def commit_def ota_reboot_def
        health_check_def boot_slot_def other_slot_def SLOT_A_def SLOT_B_def)
  have "\<forall>rec. Recover rec \<in> set ?ops \<longrightarrow> mr_state rec \<le> 6" by simp
  from ota_firmware_answers_like_mirror [OF this]
  have "map_option (\<lambda>(as, r). (as, boot_slot r)) (run_r slot_r_step ota_new ?ops)
       = Some (let (as, c) = run_c slot_c_step mc_ota_init ?ops in (as, mc_ota_boot_slot c))" by blast
  with r show ?thesis
    by (cases "run_r slot_r_step ota_new ?ops"; cases "run_c slot_c_step mc_ota_init ?ops")
      (auto simp del: run_r.simps run_c.simps list.map append.simps)
qed

subsection \<open>microcar_charging.c\<close>

type_synonym mc_charge_state_t = u32

definition MC_CHARGE_DISCONNECTED :: u32 where [c_enum]: "MC_CHARGE_DISCONNECTED = 0"
definition MC_CHARGE_PLUG_DETECTED :: u32 where [c_enum]: "MC_CHARGE_PLUG_DETECTED = 1"
definition MC_CHARGE_HANDSHAKE :: u32 where [c_enum]: "MC_CHARGE_HANDSHAKE = 2"
definition MC_CHARGE_ACTIVE :: u32 where [c_enum]: "MC_CHARGE_ACTIVE = 3"
definition MC_CHARGE_LIMITED :: u32 where [c_enum]: "MC_CHARGE_LIMITED = 4"
definition MC_CHARGE_COMPLETE :: u32 where [c_enum]: "MC_CHARGE_COMPLETE = 5"
definition MC_CHARGE_FAULT :: u32 where [c_enum]: "MC_CHARGE_FAULT = 6"

definition MC_EVSE_UNPLUG :: u32 where [c_enum]: "MC_EVSE_UNPLUG = 0"
definition MC_EVSE_PLUG :: u32 where [c_enum]: "MC_EVSE_PLUG = 1"
definition MC_EVSE_HANDSHAKE_OK :: u32 where [c_enum]: "MC_EVSE_HANDSHAKE_OK = 2"
definition MC_EVSE_STOP :: u32 where [c_enum]: "MC_EVSE_STOP = 3"

record mc_charging_event_t =
  ev_kind :: u32
  ev_fresh_bms_limit :: u8
  ev_soc_percent :: u8
  ev_critical_fault :: u8
  ev_target_soc :: u8
  ev_offered_current :: u8

record mc_charging_output_t =
  out_next_state :: mc_charge_state_t
  out_command_current_a_x2 :: u8
  out_reject_reason :: u8

definition min_u8 :: "u8 \<Rightarrow> u8 \<Rightarrow> u8" where
  "min_u8 a b = (if a < b then a else b)"

definition mc_charging_init :: mc_charge_state_t where
  "mc_charging_init = MC_CHARGE_DISCONNECTED"

definition charge_to :: "mc_charge_state_t \<Rightarrow> u8 \<Rightarrow> int \<times> mc_charging_output_t" where
  "charge_to next_state current =
     (0, \<lparr>out_next_state = next_state, out_command_current_a_x2 = current, out_reject_reason = 0\<rparr>)"

text \<open>The \<open>switch\<close>: \<open>None\<close> is the \<open>break\<close> that continues with the transitions common to all plugged states.\<close>

definition charging_switch :: "mc_charge_state_t \<Rightarrow> mc_charging_event_t \<Rightarrow> (int \<times> mc_charging_output_t) option" where
  "charging_switch cs event =
     (if cs = MC_CHARGE_DISCONNECTED
      then (if ev_kind event = MC_EVSE_PLUG then Some (charge_to MC_CHARGE_PLUG_DETECTED 0) else None)
      else if cs = MC_CHARGE_PLUG_DETECTED
      then (if ev_kind event = MC_EVSE_HANDSHAKE_OK then Some (charge_to MC_CHARGE_HANDSHAKE 0) else None)
      else if cs = MC_CHARGE_HANDSHAKE
      then (if ev_fresh_bms_limit event > 0
            then Some (charge_to MC_CHARGE_ACTIVE (min_u8 (ev_offered_current event) (ev_fresh_bms_limit event)))
            else None)
      else if cs = MC_CHARGE_ACTIVE
      then (if ev_fresh_bms_limit event > 0 \<and> ev_fresh_bms_limit event < ev_offered_current event
            then Some (charge_to MC_CHARGE_LIMITED (ev_fresh_bms_limit event))
            else if ev_soc_percent event \<ge> ev_target_soc event then Some (charge_to MC_CHARGE_COMPLETE 0)
            else None)
      else if cs = MC_CHARGE_LIMITED
      then (if ev_soc_percent event \<ge> ev_target_soc event then Some (charge_to MC_CHARGE_COMPLETE 0) else None)
      else None)"

definition mc_charging_step :: "mc_charge_state_t \<Rightarrow> mc_charging_event_t \<Rightarrow> int \<times> mc_charging_output_t" where
  "mc_charging_step cs event =
     (case charging_switch cs event of
        Some result \<Rightarrow> result
      | None \<Rightarrow>
          if cs \<noteq> MC_CHARGE_DISCONNECTED \<and> ev_critical_fault event \<noteq> 0 then charge_to MC_CHARGE_FAULT 0
          else if cs \<noteq> MC_CHARGE_DISCONNECTED \<and> ev_kind event = MC_EVSE_UNPLUG then charge_to MC_CHARGE_DISCONNECTED 0
          else (1, \<lparr>out_next_state = cs, out_command_current_a_x2 = 0, out_reject_reason = 1\<rparr>))"

definition mc_charging_bms_limit_for_temp :: "i16 \<Rightarrow> u8" where
  "mc_charging_bms_limit_for_temp temp_c_x10 =
     (if sint temp_c_x10 \<ge> 600 then 0 else if sint temp_c_x10 \<ge> 450 then 32 else 64)"

definition mc_charging_clamp_target_soc :: "u8 \<Rightarrow> u8" where
  "mc_charging_clamp_target_soc target_soc =
     (if target_soc < 50 then 50 else if target_soc > 100 then 100 else target_soc)"

definition mc_charging_vehicle_mode :: "mc_charge_state_t \<Rightarrow> mc_vehicle_mode_t" where
  "mc_charging_vehicle_mode cs =
     (if cs = MC_CHARGE_DISCONNECTED then VEHICLE_OFF
      else if cs = MC_CHARGE_FAULT then VEHICLE_FAULT else VEHICLE_CHARGING)"

lemmas charging_defs = mc_charging_step_def charging_switch_def charge_to_def min_u8_def

lemma charging_current_le:
  "out_command_current_a_x2 (snd (mc_charging_step cs ev)) \<le> min_u8 (ev_offered_current ev) (ev_fresh_bms_limit ev)"
  by (auto simp: charging_defs c_enum)

text \<open>
  The charging step commands a current only when it enters ACTIVE or LIMITED, never
  above what the station offers nor above the limit of the battery, and a rejected event keeps the
  state with current 0. The session runs on the charging modes only: a
  connected vehicle is in CHARGING or FAULT, so the torque controller disables the motor.
\<close>

theorem charging_current_is_bounded:
  "(let out = snd (mc_charging_step cs ev) in
      out_command_current_a_x2 out \<le> ev_offered_current ev
    \<and> out_command_current_a_x2 out \<le> ev_fresh_bms_limit ev
    \<and> (0 < out_command_current_a_x2 out \<longrightarrow>
         (cs, out_next_state out) \<in> {(MC_CHARGE_HANDSHAKE, MC_CHARGE_ACTIVE), (MC_CHARGE_ACTIVE, MC_CHARGE_LIMITED)})
    \<and> (fst (mc_charging_step cs ev) \<noteq> 0 \<longrightarrow> out_next_state out = cs \<and> out_command_current_a_x2 out = 0))
   \<and> (cs \<noteq> MC_CHARGE_DISCONNECTED \<longrightarrow>
        ct_motor_enable (snd (torque_controller_compute
          (torque_controller_set_mode tc (mc_charging_vehicle_mode cs)))) = 0)"
proof -
  have "min_u8 a b \<le> a" "min_u8 a b \<le> b" for a b by (auto simp: min_u8_def)
  note le = order_trans [OF charging_current_le this(1)] order_trans [OF charging_current_le this(2)]
  have "ct_motor_enable (snd (torque_controller_compute
          (torque_controller_set_mode tc (mc_charging_vehicle_mode cs)))) = 0"
    if "cs \<noteq> MC_CHARGE_DISCONNECTED"
    using that by (simp add: torque_controller_compute_enable torque_controller_set_mode_def
        mc_charging_vehicle_mode_def c_enum)
  moreover have "0 < out_command_current_a_x2 (snd (mc_charging_step cs ev)) \<Longrightarrow>
         (cs, out_next_state (snd (mc_charging_step cs ev)))
           \<in> {(MC_CHARGE_HANDSHAKE, MC_CHARGE_ACTIVE), (MC_CHARGE_ACTIVE, MC_CHARGE_LIMITED)}"
    by (auto simp: charging_defs c_enum split: if_splits)
  moreover have "fst (mc_charging_step cs ev) \<noteq> 0 \<Longrightarrow>
      out_next_state (snd (mc_charging_step cs ev)) = cs \<and> out_command_current_a_x2 (snd (mc_charging_step cs ev)) = 0"
    by (auto simp: charging_defs c_enum split: if_splits)
  ultimately show ?thesis using le by (simp add: Let_def)
qed

theorem charging_current_is_bounded_witness:
  "let ev = \<lparr>ev_kind = MC_EVSE_PLUG, ev_fresh_bms_limit = 32, ev_soc_percent = 40, ev_critical_fault = 0,
             ev_target_soc = 80, ev_offered_current = 64\<rparr>
   in mc_charging_step MC_CHARGE_DISCONNECTED ev = charge_to MC_CHARGE_PLUG_DETECTED 0
    \<and> out_command_current_a_x2 (snd (mc_charging_step MC_CHARGE_HANDSHAKE ev)) = 32
    \<and> out_next_state (snd (mc_charging_step MC_CHARGE_HANDSHAKE ev)) = MC_CHARGE_ACTIVE"
  using charging_current_is_bounded [of MC_CHARGE_HANDSHAKE "\<lparr>ev_kind = MC_EVSE_PLUG, ev_fresh_bms_limit = 32,
      ev_soc_percent = 40, ev_critical_fault = 0, ev_target_soc = 80, ev_offered_current = 64\<rparr>"]
  by (simp add: charging_defs c_enum Let_def)

text \<open>
  A critical fault in a plugged state leads to FAULT unless the state has a transition
  of its own for the event, which is taken first: the fault is passed over, and from HANDSHAKE with a
  fresh limit the step starts charging with a positive current, also when the event is that the
  plug was pulled.
\<close>

theorem charging_fault_is_passed_over:
  assumes "cs \<noteq> MC_CHARGE_DISCONNECTED" "ev_critical_fault ev \<noteq> 0"
  shows "(out_next_state (snd (mc_charging_step cs ev)) = MC_CHARGE_FAULT) = (charging_switch cs ev = None)
     \<and> (cs = MC_CHARGE_HANDSHAKE \<and> 0 < ev_fresh_bms_limit ev \<and> 0 < ev_offered_current ev \<longrightarrow>
          out_next_state (snd (mc_charging_step cs ev)) = MC_CHARGE_ACTIVE
          \<and> 0 < out_command_current_a_x2 (snd (mc_charging_step cs ev)))"
  using assms by (auto simp: charging_defs c_enum split: option.splits if_splits)

theorem charging_fault_is_passed_over_witness:
  "snd (mc_charging_step MC_CHARGE_HANDSHAKE
     \<lparr>ev_kind = MC_EVSE_UNPLUG, ev_fresh_bms_limit = 32, ev_soc_percent = 40, ev_critical_fault = 1,
      ev_target_soc = 80, ev_offered_current = 64\<rparr>)
   = \<lparr>out_next_state = MC_CHARGE_ACTIVE, out_command_current_a_x2 = 32, out_reject_reason = 0\<rparr>"
  using charging_fault_is_passed_over [of MC_CHARGE_HANDSHAKE
     "\<lparr>ev_kind = MC_EVSE_UNPLUG, ev_fresh_bms_limit = 32, ev_soc_percent = 40, ev_critical_fault = 1,
      ev_target_soc = 80, ev_offered_current = 64\<rparr>"]
  by (simp add: charging_defs c_enum)

end
