(* ===== verification/Firmware_Loops.thy ===== *)
theory Firmware_Loops
  imports Firmware_Tables
begin

text \<open>
  The control loops of the gateway and powertrain firmware, \<^verbatim>\<open>gateway_ecu/src/main.c\<close> and
  \<^verbatim>\<open>powertrain_ecu/src/main.c\<close>: what a received frame does to the state and what one pass of
  the ten millisecond loop computes and sends. The result of taking the mutex of the fault manager is
  an argument, one for each attempt, as is the time of the tick counter. The scripted test sequences
  (off unless an enable function was called) are those of \<open>Firmware_Scripts\<close>; the trace output, the event
  group and the task notification, which only trace, are left out.
\<close>

subsection \<open>Frames\<close>

record mc_can_frame_t =
  fr_id :: u32
  fr_sender :: u8
  fr_data :: "u8 list"
  fr_len :: u8

text \<open>A frame as the receive loops build it: the sender is the first byte of the payload.\<close>

definition rx_frame :: "u32 \<times> u8 list \<times> u32 \<Rightarrow> mc_can_frame_t" where
  "rx_frame m = (case m of (can_id, data, dlc) \<Rightarrow>
     \<lparr>fr_id = can_id, fr_sender = data ! 0, fr_data = data, fr_len = ucast dlc\<rparr>)"

definition MC_MSG_DIAG_REQUEST :: u32 where [c_enum]: "MC_MSG_DIAG_REQUEST = 0x600"
definition MC_DIAG_REQUEST_MSG_SIZE :: u8 where [c_enum]: "MC_DIAG_REQUEST_MSG_SIZE = 4"
definition MC_DIAG_START_SESSION :: u8 where [c_enum]: "MC_DIAG_START_SESSION = 1"
definition MC_DIAG_READ_MODE :: u8 where [c_enum]: "MC_DIAG_READ_MODE = 2"
definition MC_DIAG_READ_DTCS :: u8 where [c_enum]: "MC_DIAG_READ_DTCS = 3"
definition MC_DIAG_CLEAR_DTCS :: u8 where [c_enum]: "MC_DIAG_CLEAR_DTCS = 4"
definition MC_DIAG_LIVE_BMS :: u8 where [c_enum]: "MC_DIAG_LIVE_BMS = 5"
definition MC_DIAG_ACTUATOR_TEST :: u8 where [c_enum]: "MC_DIAG_ACTUATOR_TEST = 6"
definition MC_DIAG_END_SESSION :: u8 where [c_enum]: "MC_DIAG_END_SESSION = 7"
definition MC_DIAG_OK :: u8 where [c_enum]: "MC_DIAG_OK = 0"
definition MC_DIAG_REJECTED :: u8 where [c_enum]: "MC_DIAG_REJECTED = 1"
definition MC_DIAG_UNSUPPORTED :: u8 where [c_enum]: "MC_DIAG_UNSUPPORTED = 2"
definition MC_BMS_FAULT_COMM_ERROR :: u8 where [c_enum]: "MC_BMS_FAULT_COMM_ERROR = 5"

subsection \<open>Gateway: state and received frames\<close>

record gateway_ctx_t =
  gx_gs :: gateway_state_t
  gx_hm :: heartbeat_monitor_t
  gx_fm :: fault_manager_t
  gx_diag_session_active :: u8
  gx_diag_clear_all_bug :: u8
  gx_diag_startsession_drive_bug :: u8
  gx_hb_queue :: "u8 list"

text \<open>The context is allocated zeroed; the two flags of the seeded bugs are set before the task starts.\<close>

definition gateway_init :: "u8 \<Rightarrow> u8 \<Rightarrow> gateway_ctx_t" where
  "gateway_init clear_all_bug drive_bug =
     (let hm = heartbeat_monitor_init MC_SAFETY_BMS_HEARTBEAT_TIMEOUT_MS;
          hm = snd (heartbeat_monitor_register hm MC_NODE_POWERTRAIN MC_SAFETY_BMS_HEARTBEAT_TIMEOUT_MS);
          hm = snd (heartbeat_monitor_register hm MC_NODE_BMS MC_SAFETY_BMS_HEARTBEAT_TIMEOUT_MS);
          hm = snd (heartbeat_monitor_register hm MC_NODE_DASHBOARD MC_SAFETY_BMS_HEARTBEAT_TIMEOUT_MS)
      in \<lparr>gx_gs = gateway_state_init, gx_hm = hm, gx_fm = fault_manager_init,
          gx_diag_session_active = 0, gx_diag_clear_all_bug = clear_all_bug,
          gx_diag_startsession_drive_bug = drive_bug, gx_hb_queue = []\<rparr>)"

definition handle_heartbeat :: "gateway_ctx_t \<Rightarrow> u32 \<Rightarrow> u8 \<Rightarrow> gateway_ctx_t" where
  "handle_heartbeat ctx now_ms sender = ctx\<lparr>gx_hm := heartbeat_monitor_beat (gx_hm ctx) sender now_ms\<rparr>"

definition fault_manager_bms_severity :: "u8 \<Rightarrow> u8" where
  "fault_manager_bms_severity bms_fault_code =
     (if bms_fault_code = 1 \<or> bms_fault_code = 2 then 2
      else if bms_fault_code = 3 \<or> bms_fault_code = 4 then 1
      else if bms_fault_code = 5 then 2 else 0)"

definition handle_bms_fault :: "bool \<Rightarrow> gateway_ctx_t \<Rightarrow> mc_can_frame_t \<Rightarrow> gateway_ctx_t" where
  "handle_bms_fault taken ctx frame =
     (let fault_code = fr_data frame ! 0;
          severity = fault_manager_bms_severity fault_code
      in if taken
         then ctx\<lparr>gx_fm := snd (fault_manager_report (gx_fm ctx) MC_NODE_BMS fault_code severity)\<rparr>
         else ctx)"

definition dtc_slot :: "u8 \<times> u8 \<times> u8 \<Rightarrow> fm_fault_t \<Rightarrow> (u8 \<times> u8 \<times> u8) \<times> fm_fault_t" where
  "dtc_slot acc f =
     (case acc of (count, source_node, fault_code) \<Rightarrow>
        if cf_active f \<noteq> 0
        then (if count = 0 then (count + 1, cf_source_node f, cf_fault_code f)
              else (count + 1, source_node, fault_code), f)
        else (acc, f))"

text \<open>The count, the source and the code of the first active fault.\<close>

definition first_active_dtc :: "bool \<Rightarrow> gateway_ctx_t \<Rightarrow> u8 \<times> u8 \<times> u8" where
  "first_active_dtc taken ctx =
     (if taken
      then fst (scan_array dtc_slot (unat (cfm_fault_count (gx_fm ctx))) ((0, 0, 0), cfm_faults (gx_fm ctx)))
      else (0, 0, 0))"

text \<open>The answer of the request is the status and the two values of the response frame.\<close>

definition handle_diag_request ::
  "bool \<Rightarrow> gateway_ctx_t \<Rightarrow> mc_can_frame_t \<Rightarrow> (u8 \<times> u8 \<times> u8) option \<times> gateway_ctx_t" where
  "handle_diag_request taken ctx frame =
     (if fr_len frame < MC_DIAG_REQUEST_MSG_SIZE then (None, ctx)
      else let service = fr_data frame ! 1; mode = cg_mode (gx_gs ctx)
      in if service = MC_DIAG_START_SESSION
         then (if mode = VEHICLE_DRIVE \<and> gx_diag_startsession_drive_bug ctx = 0
               then (Some (MC_DIAG_REJECTED, ucast mode, 0), ctx)
               else (Some (MC_DIAG_OK, ucast VEHICLE_SERVICE, 0),
                     ctx\<lparr>gx_diag_session_active := 1, gx_gs := (gx_gs ctx)\<lparr>cg_mode := VEHICLE_SERVICE\<rparr>\<rparr>))
         else if service = MC_DIAG_END_SESSION
         then (Some (MC_DIAG_OK, ucast mode, 0), ctx\<lparr>gx_diag_session_active := 0\<rparr>)
         else if service = MC_DIAG_READ_MODE then (Some (MC_DIAG_OK, ucast mode, 0), ctx)
         else if service = MC_DIAG_READ_DTCS
         then (case first_active_dtc taken ctx of (count, source, code) \<Rightarrow> (Some (MC_DIAG_OK, count, code), ctx))
         else if service = MC_DIAG_CLEAR_DTCS
         then (if gx_diag_session_active ctx = 0 then (Some (MC_DIAG_REJECTED, 0, 0), ctx)
               else if taken
               then (Some (MC_DIAG_OK, 0, 0),
                     ctx\<lparr>gx_fm := (if gx_diag_clear_all_bug ctx \<noteq> 0 then fault_manager_clear_all (gx_fm ctx)
                                   else fault_manager_clear_node (gx_fm ctx) MC_NODE_BMS)\<rparr>)
               else (Some (MC_DIAG_OK, 0, 0), ctx))
         else if service = MC_DIAG_ACTUATOR_TEST
         then (Some (if gx_diag_session_active ctx \<noteq> 0 \<and> mode \<noteq> VEHICLE_DRIVE then MC_DIAG_OK
                     else MC_DIAG_REJECTED, ucast mode, 0), ctx)
         else (Some (MC_DIAG_UNSUPPORTED, 0, 0), ctx))"

text \<open>The heartbeat queue holds sixteen events; a send to a full queue is dropped.\<close>

definition HB_QUEUE_LENGTH :: nat where "HB_QUEUE_LENGTH = 16"

definition dispatch_frame_in_rx :: "bool \<Rightarrow> gateway_ctx_t \<Rightarrow> mc_can_frame_t \<Rightarrow> gateway_ctx_t" where
  "dispatch_frame_in_rx taken ctx frame =
     (if fr_id frame = MC_MSG_HEARTBEAT
      then (if length (gx_hb_queue ctx) < HB_QUEUE_LENGTH
            then ctx\<lparr>gx_hb_queue := gx_hb_queue ctx @ [fr_sender frame]\<rparr> else ctx)
      else if fr_id frame = MC_MSG_BMS_FAULT then handle_bms_fault taken ctx frame
      else if fr_id frame = MC_MSG_DIAG_REQUEST then snd (handle_diag_request taken ctx frame)
      else ctx)"

subsection \<open>Gateway: one pass of the loop\<close>

definition update_vehicle_mode :: "bool \<Rightarrow> u32 \<Rightarrow> gateway_ctx_t \<Rightarrow> mc_vehicle_mode_t \<times> gateway_ctx_t" where
  "update_vehicle_mode taken now_ms ctx =
     (let hm = snd (heartbeat_monitor_check (gx_hm ctx) now_ms);
          ctx = ctx\<lparr>gx_hm := hm\<rparr>;
          all_online = heartbeat_monitor_all_online hm;
          bms_limp = 0;
          bms_fault = (if taken then fault_manager_has_critical (gx_fm ctx) else 0);
          fault_count = (if taken then fault_manager_active_count (gx_fm ctx) else 0)
      in if bms_fault = 0 \<and> gx_diag_session_active ctx \<noteq> 0
         then (VEHICLE_SERVICE,
               ctx\<lparr>gx_gs := (gx_gs ctx)\<lparr>cg_all_nodes_online := all_online, cg_bms_fault_active := bms_fault,
                               cg_bms_limp_requested := bms_limp, cg_active_fault_count := fault_count,
                               cg_mode := VEHICLE_SERVICE\<rparr>\<rparr>)
         else let (mode, gs) = gateway_state_update (gx_gs ctx) all_online bms_fault bms_limp fault_count
              in (mode, ctx\<lparr>gx_gs := gs\<rparr>))"

definition report_lost_bms :: "bool \<Rightarrow> int \<Rightarrow> gateway_ctx_t \<Rightarrow> gateway_ctx_t" where
  "report_lost_bms taken transitions ctx =
     (if transitions > 0 \<and> heartbeat_monitor_last_transition_node (gx_hm ctx) = MC_NODE_BMS \<and> taken
      then ctx\<lparr>gx_fm := snd (fault_manager_report (gx_fm ctx) MC_NODE_BMS MC_BMS_FAULT_COMM_ERROR 2)\<rparr>
      else ctx)"

definition gateway_heartbeat_frame :: "u32 \<Rightarrow> u32 \<times> u8 list" where
  "gateway_heartbeat_frame now_ms =
     (MC_MSG_HEARTBEAT, [MC_NODE_GATEWAY, ucast (drop_bit 24 now_ms), ucast (drop_bit 16 now_ms),
                         ucast (drop_bit 8 now_ms), ucast now_ms])"

definition vehicle_mode_frame :: "bool \<Rightarrow> gateway_ctx_t \<Rightarrow> u32 \<times> u8 list" where
  "vehicle_mode_frame taken ctx =
     (MC_MSG_VEHICLE_MODE, [ucast (cg_mode (gx_gs ctx)),
        if taken \<and> cfm_critical_count (gx_fm ctx) > 0 then 1 else 0])"

definition gateway_cycle ::
  "bool \<times> bool \<times> bool \<Rightarrow> u32 \<Rightarrow> gateway_ctx_t \<Rightarrow> (u32 \<times> u8 list) list \<times> gateway_ctx_t" where
  "gateway_cycle mutex now_ms ctx =
     (case mutex of (taken_report, taken_mode, taken_send) \<Rightarrow>
      let ctx = fold (\<lambda>sender ctx. handle_heartbeat ctx now_ms sender) (gx_hb_queue ctx) ctx;
          ctx = ctx\<lparr>gx_hb_queue := []\<rparr>;
          (transitions, hm) = heartbeat_monitor_check (gx_hm ctx) now_ms;
          ctx = report_lost_bms taken_report transitions (ctx\<lparr>gx_hm := hm\<rparr>);
          old_mode = cg_mode (gx_gs ctx);
          (new_mode, ctx) = update_vehicle_mode taken_mode now_ms ctx
      in ((if now_ms mod 100 = 0 then [gateway_heartbeat_frame now_ms] else [])
          @ (if new_mode \<noteq> old_mode \<or> now_ms mod 50 = 0 then [vehicle_mode_frame taken_send ctx] else []),
          ctx))"

text \<open>The two tasks that change the state, in any order.\<close>

datatype gateway_event = Received bool "u32 \<times> u8 list \<times> u32" | Tick "bool \<times> bool \<times> bool" u32

fun gateway_task :: "gateway_ctx_t \<Rightarrow> gateway_event \<Rightarrow> gateway_ctx_t" where
  "gateway_task ctx (Received taken m) = dispatch_frame_in_rx taken ctx (rx_frame m)"
| "gateway_task ctx (Tick mutex now) = snd (gateway_cycle mutex now ctx)"

inductive gateway_runs :: "gateway_ctx_t \<Rightarrow> bool" where
  boot: "gateway_runs (gateway_init clear_all_bug drive_bug)"
| task: "gateway_runs ctx \<Longrightarrow> gateway_runs (gateway_task ctx e)"

subsection \<open>Powertrain\<close>

record powertrain_ctx_t =
  px_tc :: torque_controller_t
  px_wd :: watchdog_task_t
  px_diag_force_service_mode :: u8
  px_charging_force_mode :: u8
  px_diag_service_clamp_bug :: u8

definition handle_driver_input :: "powertrain_ctx_t \<Rightarrow> mc_can_frame_t \<Rightarrow> powertrain_ctx_t" where
  "handle_driver_input ctx frame =
     ctx\<lparr>px_tc := torque_controller_set_input (px_tc ctx) (fr_data frame ! 0) (fr_data frame ! 1)
                    (if fr_len frame \<ge> 3 then fr_data frame ! 2 else 0)\<rparr>"

definition handle_vehicle_mode :: "powertrain_ctx_t \<Rightarrow> mc_can_frame_t \<Rightarrow> powertrain_ctx_t" where
  "handle_vehicle_mode ctx frame =
     ctx\<lparr>px_tc := torque_controller_set_mode (px_tc ctx) (ucast (fr_data frame ! 0))\<rparr>"

definition handle_bms_limits :: "powertrain_ctx_t \<Rightarrow> mc_can_frame_t \<Rightarrow> powertrain_ctx_t" where
  "handle_bms_limits ctx frame = ctx\<lparr>px_tc := torque_controller_set_bms_limit (px_tc ctx) (fr_data frame ! 0)\<rparr>"

definition handle_gateway_heartbeat :: "powertrain_ctx_t \<Rightarrow> u32 \<Rightarrow> powertrain_ctx_t" where
  "handle_gateway_heartbeat ctx now_ms = ctx\<lparr>px_wd := watchdog_gateway_beat (px_wd ctx) now_ms\<rparr>"

definition dispatch_frame :: "u32 \<Rightarrow> powertrain_ctx_t \<Rightarrow> mc_can_frame_t \<Rightarrow> powertrain_ctx_t" where
  "dispatch_frame now_ms ctx frame =
     (if fr_id frame = MC_MSG_DRIVER_INPUT then handle_driver_input ctx frame
      else if fr_id frame = MC_MSG_VEHICLE_MODE then handle_vehicle_mode ctx frame
      else if fr_id frame = MC_MSG_BMS_LIMITS then handle_bms_limits ctx frame
      else if fr_id frame = MC_MSG_HEARTBEAT
      then (if fr_sender frame = MC_NODE_GATEWAY then handle_gateway_heartbeat ctx now_ms else ctx)
      else ctx)"

definition watchdog_timer_cb :: "u32 \<Rightarrow> powertrain_ctx_t \<Rightarrow> powertrain_ctx_t" where
  "watchdog_timer_cb now_ms ctx =
     (let (timeout, wd) = watchdog_check_c (px_wd ctx) now_ms;
          ctx = ctx\<lparr>px_wd := wd\<rparr>
      in if timeout \<noteq> 0 then ctx\<lparr>px_tc := (px_tc ctx)\<lparr>ct_motor_enable := 0\<rparr>\<rparr> else ctx)"

definition forced_modes :: "powertrain_ctx_t \<Rightarrow> powertrain_ctx_t" where
  "forced_modes ctx =
     (let ctx = (if px_diag_force_service_mode ctx \<noteq> 0
                 then ctx\<lparr>px_tc := torque_controller_set_input
                            (torque_controller_set_mode (px_tc ctx) VEHICLE_SERVICE) 80 0 0\<rparr> else ctx)
      in if px_charging_force_mode ctx \<noteq> 0
         then ctx\<lparr>px_tc := torque_controller_set_input
                    (torque_controller_set_mode (px_tc ctx) VEHICLE_CHARGING) 80 0 0\<rparr> else ctx)"

text \<open>One pass of the loop: the frames received, then the motor command, torque and enable byte.\<close>

definition powertrain_cycle ::
  "u32 \<Rightarrow> (u32 \<times> u8 list \<times> u32) list \<Rightarrow> powertrain_ctx_t \<Rightarrow> (i8 \<times> u8) \<times> powertrain_ctx_t" where
  "powertrain_cycle now_ms ms ctx =
     (let ctx = fold (\<lambda>m ctx. dispatch_frame now_ms ctx (rx_frame m)) ms ctx;
          ctx = forced_modes ctx;
          (torque, tc) = torque_controller_compute (px_tc ctx);
          ctx = ctx\<lparr>px_tc := tc\<rparr>;
          (torque, ctx) =
            (if px_diag_service_clamp_bug ctx \<noteq> 0 \<and> ct_vehicle_mode (px_tc ctx) = VEHICLE_SERVICE
             then (ct_throttle_percent (px_tc ctx), ctx\<lparr>px_tc := (px_tc ctx)\<lparr>ct_motor_enable := 1\<rparr>\<rparr>)
             else (torque, ctx))
      in ((torque, ct_motor_enable (px_tc ctx)), ctx))"

subsection \<open>The fault table of the gateway\<close>

text \<open>
  Every report of the loop has the battery as its source and a severity that is a function of the
  fault code. No active fault is ever re-graded, so the counters of the firmware stay exact, and the
  mirror, whose arithmetic is checked, never panics on the same operations.
\<close>

definition grade :: "fault_entry \<Rightarrow> (u8 \<times> u8) \<times> u8" where
  "grade f = (fault_key f, fe_severity f)"

definition bms_graded :: "fault_manager \<Rightarrow> bool" where
  "bms_graded r \<longleftrightarrow> (\<forall>g\<in>set (map grade (fm_faults r)).
     \<exists>code. g = ((MC_NODE_BMS, code), fault_manager_bms_severity code))"

definition fm_good :: "fault_manager_t \<Rightarrow> bool" where
  "fm_good c \<longleftrightarrow> (\<exists>r. fm_sim c r \<and> fm_inv r \<and> bms_graded r)"

text \<open>Some active fault in the table is critical.\<close>

definition active_critical :: "fault_manager_t \<Rightarrow> bool" where
  "active_critical c \<longleftrightarrow>
     list_ex (\<lambda>f. cf_active f \<noteq> 0 \<and> cf_severity f = 2) (take (unat (cfm_fault_count c)) (cfm_faults c))"

lemma fm_good_init: "fm_good fault_manager_init"
  using fm_sim_init fm_inv_new by (auto simp: fm_good_def bms_graded_def fm_new_def)

lemma active_critical_mirrored:
  "fm_sim c r \<Longrightarrow> active_critical c \<longleftrightarrow> (\<exists>f\<in>set (fm_faults r). fe_active f \<and> fe_severity f = 2)"
  using holds_take [of fault_rep FM_MAX_FAULTS "cfm_faults c" "cfm_fault_count c" "fm_faults r"]
  by (simp add: fm_sim_def active_critical_def list_ex_iff)

lemma has_critical_exact: "fm_good c \<Longrightarrow> fault_manager_has_critical c = flag (active_critical c)"
  by (auto simp: fm_good_def has_critical_mirrored has_critical_iff active_critical_mirrored)

lemma fault_report_defined:
  assumes "fm_inv r" "length (fm_faults r) \<le> FM_MAX_FAULTS"
  shows "\<exists>r'. fault_report r s k sev = Some r'"
proof -
  have "active_with n r \<le> FM_MAX_FAULTS" for n
    unfolding active_with_def by (rule order_trans [OF length_filter_le assms(2)])
  then have "unat (fm_critical_count r) < 255" "unat (fm_warning_count r) < 255"
    using assms(1) by (simp_all add: fm_inv_def FM_MAX_FAULTS_def le_less_trans [of _ 16])
  then have "\<exists>r'. count_up (r\<lparr>fm_faults := fs\<rparr>) sev = Some r'" "\<exists>r'. count_up r sev = Some r'" for fs
    by (simp_all add: count_up_def uadd_def)
  then show ?thesis by (fastforce simp: fault_report_def split: option.splits)
qed

lemma set_update_first: "e \<in> set (update_first p f es) \<Longrightarrow> e \<in> set es \<or> (\<exists>x\<in>set es. p x \<and> e = f x)"
  by (induction es) (auto split: if_splits)

lemma bms_graded_same_grade:
  "bms_graded r \<Longrightarrow> same_grade r MC_NODE_BMS code (fault_manager_bms_severity code)"
  by (auto simp: bms_graded_def same_grade_def grade_def)

lemma bms_graded_report:
  assumes "bms_graded r" "fault_report r MC_NODE_BMS code (fault_manager_bms_severity code) = Some r'"
  shows "bms_graded r'"
proof -
  have "\<exists>code. grade f = ((MC_NODE_BMS, code), fault_manager_bms_severity code)" if "f \<in> set (fm_faults r')" for f
    using that assms(1) unfolding fault_report_faults [OF assms(2)]
    by (auto simp: upsert_def bms_graded_def grade_def fault_key_def split: if_splits dest!: set_update_first)
  then show ?thesis by (simp add: bms_graded_def)
qed

lemma report_good:
  assumes "fm_good c"
  shows "fm_good (snd (fault_manager_report c MC_NODE_BMS code (fault_manager_bms_severity code)))"
    and "fst (fault_manager_report c MC_NODE_BMS code (fault_manager_bms_severity code)) = 0 \<Longrightarrow>
      fault_manager_bms_severity code = 2 \<Longrightarrow>
      active_critical (snd (fault_manager_report c MC_NODE_BMS code (fault_manager_bms_severity code)))"
proof -
  let ?sev = "fault_manager_bms_severity code"
  from assms obtain r where r: "fm_sim c r" "fm_inv r" "bms_graded r" by (auto simp: fm_good_def)
  have "fm_good (snd (fault_manager_report c MC_NODE_BMS code ?sev)) \<and>
      (fst (fault_manager_report c MC_NODE_BMS code ?sev) = 0 \<longrightarrow> ?sev = 2 \<longrightarrow>
       active_critical (snd (fault_manager_report c MC_NODE_BMS code ?sev)))"
  proof (cases "has_room r MC_NODE_BMS code")
    case True
    have "length (fm_faults r) \<le> FM_MAX_FAULTS" using r(1) by (simp add: fm_sim_def holds_def)
    from fault_report_defined [OF r(2) this] obtain r' where r': "fault_report r MC_NODE_BMS code ?sev = Some r'"
      by blast
    from report_mirrored [OF r(1) True r'] obtain c' where
      c': "fault_manager_report c MC_NODE_BMS code ?sev = (0, c')" "fm_sim c' r'" by blast
    have "(MC_NODE_BMS, code) \<in> ft.active_keys (fm_faults r')"
      unfolding fault_report_faults [OF r'] by (subst ft.active_keys_raise) (simp_all add: fault_key_def)
    with bms_graded_report [OF r(3) r'] have "?sev = 2 \<Longrightarrow> \<exists>f\<in>set (fm_faults r'). fe_active f \<and> fe_severity f = 2"
      by (fastforce simp: ft.active_keys_def bms_graded_def grade_def)
    then show ?thesis
      using c' fault_report_inv [OF r(2) bms_graded_same_grade [OF r(3)] r'] bms_graded_report [OF r(3) r']
        active_critical_mirrored [OF c'(2)] by (auto simp: fm_good_def)
  next
    case False
    with report_full [OF r(1)] assms show ?thesis by simp
  qed
  then show "fm_good (snd (fault_manager_report c MC_NODE_BMS code ?sev))"
    and "fst (fault_manager_report c MC_NODE_BMS code ?sev) = 0 \<Longrightarrow> ?sev = 2 \<Longrightarrow>
      active_critical (snd (fault_manager_report c MC_NODE_BMS code ?sev))" by blast+
qed

lemma fault_clear_grades:
  "fault_clear r s k = Some r' \<Longrightarrow> map grade (fm_faults r') = map grade (fm_faults r)"
  by (auto simp: fault_clear_def grade_def map_update_first split: option.splits Option.bind_splits
      dest!: count_down_Some)

lemma clear_keys_good:
  "fm_inv r \<Longrightarrow> bms_graded r \<Longrightarrow> \<exists>r'. clear_keys keys r = Some r' \<and> fm_inv r' \<and> bms_graded r'"
proof (induction keys arbitrary: r)
  case (Cons key keys)
  obtain s k where key: "key = (s, k)" by fastforce
  from fault_clear_inv [OF Cons.prems(1), of s k] obtain r' where
    r': "fault_clear r s k = Some r'" "fm_inv r'" by blast
  then have "bms_graded r'" using Cons.prems(2) by (simp add: bms_graded_def fault_clear_grades)
  with Cons.IH [OF r'(2)] r'(1) key show ?case by simp
qed simp

lemma clear_good:
  assumes "fm_good c"
  shows "fm_good (fault_manager_clear_node c n)" "fm_good (fault_manager_clear_all c)"
proof -
  from assms obtain r where r: "fm_sim c r" "fm_inv r" "bms_graded r" by (auto simp: fm_good_def)
  have "fm_good (snd (fm_c_step c op))" if "\<exists>r'. fm_r_step r op = Some (a, r') \<and> fm_inv r' \<and> bms_graded r'" for op a
    using that fmm.sim_step [OF r(1)] by (fastforce simp: fm_good_def)
  from this [of "FClearNode n" 0] this [of FClearAll 0] clear_keys_good [OF r(2,3)]
  show "fm_good (fault_manager_clear_node c n)" "fm_good (fault_manager_clear_all c)" by auto
qed

subsection \<open>The mode of the gateway\<close>

lemma fold_heartbeats:
  "gx_gs (fold (\<lambda>sender ctx. handle_heartbeat ctx now sender) ss ctx) = gx_gs ctx"
  "gx_fm (fold (\<lambda>sender ctx. handle_heartbeat ctx now sender) ss ctx) = gx_fm ctx"
  "gx_diag_session_active (fold (\<lambda>sender ctx. handle_heartbeat ctx now sender) ss ctx) = gx_diag_session_active ctx"
  by (induction ss arbitrary: ctx) (simp_all add: handle_heartbeat_def)

lemma report_lost_bms_frame [simp]:
  "gx_gs (report_lost_bms taken t ctx) = gx_gs ctx" "gx_hm (report_lost_bms taken t ctx) = gx_hm ctx"
  "gx_diag_session_active (report_lost_bms taken t ctx) = gx_diag_session_active ctx"
  by (simp_all add: report_lost_bms_def)

lemma comm_error_severity: "fault_manager_bms_severity MC_BMS_FAULT_COMM_ERROR = 2"
  by (simp add: fault_manager_bms_severity_def c_enum)

lemma report_lost_bms_good: "fm_good (gx_fm ctx) \<Longrightarrow> fm_good (gx_fm (report_lost_bms taken t ctx))"
  using report_good(1) [of "gx_fm ctx" MC_BMS_FAULT_COMM_ERROR]
  by (simp add: report_lost_bms_def comm_error_severity)

lemma update_vehicle_mode_frame [simp]:
  "gx_fm (snd (update_vehicle_mode taken now ctx)) = gx_fm ctx"
  "gx_diag_session_active (snd (update_vehicle_mode taken now ctx)) = gx_diag_session_active ctx"
  "cg_mode (gx_gs (snd (update_vehicle_mode taken now ctx))) = fst (update_vehicle_mode taken now ctx)"
  by (simp_all add: update_vehicle_mode_def gateway_state_update_def Let_def)

lemma update_vehicle_mode_value:
  "fst (update_vehicle_mode taken now ctx) =
     (let fault = (if taken then fault_manager_has_critical (gx_fm ctx) else 0)
      in if fault = 0 \<and> gx_diag_session_active ctx \<noteq> 0 then VEHICLE_SERVICE
         else mc_gateway_determine_mode (cg_mode (gx_gs ctx))
                (heartbeat_monitor_all_online (snd (heartbeat_monitor_check (gx_hm ctx) now))) fault 0 1)"
  by (simp add: update_vehicle_mode_def gateway_state_update_def Let_def)

text \<open>The state after the heartbeats of a pass and the report of a lost battery, before the mode is decided.\<close>

definition before_mode :: "bool \<Rightarrow> u32 \<Rightarrow> gateway_ctx_t \<Rightarrow> gateway_ctx_t" where
  "before_mode taken now ctx =
     (let ctx = (fold (\<lambda>sender ctx. handle_heartbeat ctx now sender) (gx_hb_queue ctx) ctx)\<lparr>gx_hb_queue := []\<rparr>;
          (transitions, hm) = heartbeat_monitor_check (gx_hm ctx) now
      in report_lost_bms taken transitions (ctx\<lparr>gx_hm := hm\<rparr>))"

lemma gateway_cycle_state:
  "snd (gateway_cycle (tr, tm, ts) now ctx) = snd (update_vehicle_mode tm now (before_mode tr now ctx))"
  by (simp add: gateway_cycle_def before_mode_def Let_def case_prod_beta)

lemma before_mode_frame [simp]:
  "gx_gs (before_mode taken now ctx) = gx_gs ctx"
  "gx_diag_session_active (before_mode taken now ctx) = gx_diag_session_active ctx"
  by (simp_all add: before_mode_def Let_def case_prod_beta fold_heartbeats)

lemma before_mode_good: "fm_good (gx_fm ctx) \<Longrightarrow> fm_good (gx_fm (before_mode taken now ctx))"
  by (simp add: before_mode_def Let_def case_prod_beta fold_heartbeats report_lost_bms_good)

text \<open>The modes the loop can be in, and what it keeps of the fault table.\<close>

definition gateway_ok :: "gateway_ctx_t \<Rightarrow> bool" where
  "gateway_ok ctx \<longleftrightarrow> fm_good (gx_fm ctx)
     \<and> cg_mode (gx_gs ctx) \<in> {VEHICLE_OFF, VEHICLE_READY, VEHICLE_FAULT, VEHICLE_SERVICE}"

lemma determine_mode_undriven:
  "mode \<in> {VEHICLE_OFF, VEHICLE_READY, VEHICLE_FAULT, VEHICLE_SERVICE} \<Longrightarrow>
   mc_gateway_determine_mode mode online fault 0 p \<in> {VEHICLE_OFF, VEHICLE_READY, VEHICLE_FAULT, VEHICLE_SERVICE}"
  by (auto simp: mc_gateway_determine_mode_def c_enum)

lemma gateway_ok_dispatch: "gateway_ok ctx \<Longrightarrow> gateway_ok (dispatch_frame_in_rx taken ctx frame)"
  using report_good(1) [of "gx_fm ctx" "fr_data frame ! 0"] clear_good [of "gx_fm ctx"]
  by (auto simp: gateway_ok_def dispatch_frame_in_rx_def handle_bms_fault_def handle_diag_request_def
      Let_def split: prod.splits)

lemma gateway_ok_cycle: "gateway_ok ctx \<Longrightarrow> gateway_ok (snd (gateway_cycle mutex now ctx))"
  using determine_mode_undriven [of "cg_mode (gx_gs ctx)"] before_mode_good [of ctx]
  by (cases mutex) (auto simp: gateway_ok_def gateway_cycle_state update_vehicle_mode_value Let_def)

lemma gateway_runs_ok: "gateway_runs ctx \<Longrightarrow> gateway_ok ctx"
proof (induction rule: gateway_runs.induct)
  case (boot clear_all_bug drive_bug)
  show ?case by (simp add: gateway_ok_def gateway_init_def Let_def gateway_state_init_def fm_good_init)
next
  case (task ctx e)
  then show ?case by (cases e) (auto intro: gateway_ok_dispatch gateway_ok_cycle)
qed

text \<open>
  Claim C7. At every point of a run of the gateway firmware the critical flag is set exactly when a
  critical fault is active in the fault table. A pass of the loop that gets the mutex ends in FAULT exactly
  when such a fault is active, or when the mode was FAULT and no diagnostics session is open: a
  critical fault wins over an open session, but a session without one leaves FAULT without a reboot.
\<close>

theorem gateway_loop_faults_exactly:
  assumes "gateway_runs ctx"
  shows "fault_manager_has_critical (gx_fm ctx) = flag (active_critical (gx_fm ctx))
     \<and> (let ctx' = snd (gateway_cycle (taken, True, taken') now ctx)
        in cg_mode (gx_gs ctx') = VEHICLE_FAULT \<longleftrightarrow>
             active_critical (gx_fm ctx') \<or> cg_mode (gx_gs ctx) = VEHICLE_FAULT \<and> gx_diag_session_active ctx = 0)"
proof -
  from gateway_runs_ok [OF assms] have ok: "fm_good (gx_fm ctx)" by (simp add: gateway_ok_def)
  have "mc_gateway_determine_mode mode online fault 0 1 = VEHICLE_FAULT \<longleftrightarrow> mode = VEHICLE_FAULT \<or> fault \<noteq> 0"
    for mode online fault by (simp add: mc_gateway_determine_mode_def c_enum)
  with has_critical_exact [OF before_mode_good [OF ok]] has_critical_exact [OF ok] show ?thesis
    by (auto simp: gateway_cycle_state update_vehicle_mode_value Let_def c_enum)
qed

theorem gateway_loop_faults_exactly_witness:
  "let ctx = gateway_task (gateway_init 0 0) (Received True (MC_MSG_BMS_FAULT, [1, 0, 0, 0, 0, 0, 0, 0], 1))
   in gateway_runs ctx \<and> active_critical (gx_fm ctx) \<and> fault_manager_has_critical (gx_fm ctx) = 1"
proof -
  let ?ctx = "gateway_task (gateway_init 0 0) (Received True (MC_MSG_BMS_FAULT, [1, 0, 0, 0, 0, 0, 0, 0], 1))"
  have r: "gateway_runs ?ctx" by (intro gateway_runs.intros)
  have fm: "gx_fm ?ctx = snd (fault_manager_report fault_manager_init MC_NODE_BMS 1 2)"
    by (simp add: dispatch_frame_in_rx_def rx_frame_def handle_bms_fault_def gateway_init_def Let_def
        MC_MSG_BMS_FAULT_def MC_MSG_HEARTBEAT_def fault_manager_bms_severity_def)
  have "active_critical (gx_fm ?ctx)"
    unfolding fm
    by (simp add: active_critical_def fault_manager_report_def fault_manager_init_def FM_MAX_FAULTS_def
        set_counters_def numeral_eq_Suc MC_NODE_BMS_def)
  with r gateway_loop_faults_exactly [OF r] show ?thesis by (simp add: Let_def)
qed

text \<open>
  The gateway loop never lets the vehicle drive: from boot, through any frames and ticks,
  the mode is OFF, READY, FAULT or SERVICE, no vehicle mode frame it sends announces another one, and in
  all of them the powertrain firmware commands torque 0 with the motor disabled.
\<close>

theorem gateway_loop_never_drives:
  assumes "gateway_runs ctx"
  shows "cg_mode (gx_gs ctx) \<in> {VEHICLE_OFF, VEHICLE_READY, VEHICLE_FAULT, VEHICLE_SERVICE}
     \<and> (\<forall>(id, data)\<in>set (fst (gateway_cycle mutex now ctx)). id = MC_MSG_VEHICLE_MODE \<longrightarrow>
          fst (torque_controller_compute (torque_controller_set_mode tc (ucast (data ! 0)))) = 0
          \<and> ct_motor_enable (snd (torque_controller_compute (torque_controller_set_mode tc (ucast (data ! 0))))) = 0)"
proof -
  note ok = gateway_runs_ok [OF assms]
  obtain tr tm ts where m: "mutex = (tr, tm, ts)" by (cases mutex)
  from gateway_ok_cycle [OF ok, of mutex now]
  have mode: "cg_mode (gx_gs (snd (gateway_cycle mutex now ctx)))
      \<in> {VEHICLE_OFF, VEHICLE_READY, VEHICLE_FAULT, VEHICLE_SERVICE}" by (simp add: gateway_ok_def)
  have send: "data ! 0 = ucast (cg_mode (gx_gs (snd (gateway_cycle mutex now ctx))))"
    if "(MC_MSG_VEHICLE_MODE, data) \<in> set (fst (gateway_cycle mutex now ctx))" for data
    using that by (auto simp: m gateway_cycle_def Let_def case_prod_beta gateway_heartbeat_frame_def
        vehicle_mode_frame_def MC_MSG_VEHICLE_MODE_def MC_MSG_HEARTBEAT_def split: if_splits)
  have idle: "fst (torque_controller_compute (torque_controller_set_mode tc mode)) = 0
      \<and> ct_motor_enable (snd (torque_controller_compute (torque_controller_set_mode tc mode))) = 0"
    if "mode \<in> {VEHICLE_OFF, VEHICLE_READY, VEHICLE_FAULT, VEHICLE_SERVICE}" for mode
    using that by (auto simp: torque_controller_compute_def torque_controller_set_mode_def safety_clamp_torque_c_def
        safety_mode_blocks_torque_def safety_brake_overrides_throttle_def Let_def c_enum)
  have "(ucast (ucast mode :: u8) :: u32) = mode"
    if "mode \<in> {VEHICLE_OFF, VEHICLE_READY, VEHICLE_FAULT, VEHICLE_SERVICE}" for mode :: u32
    using that by (auto simp: c_enum)
  with send mode idle ok show ?thesis by (fastforce simp: gateway_ok_def)
qed

theorem gateway_loop_never_drives_witness:
  "gateway_runs (gateway_task (gateway_init 0 0) (Tick (True, True, True) 100))
   \<and> cg_mode (gx_gs (gateway_task (gateway_init 0 0) (Tick (True, True, True) 100)))
       \<in> {VEHICLE_OFF, VEHICLE_READY, VEHICLE_FAULT, VEHICLE_SERVICE}"
proof -
  have r: "gateway_runs (gateway_task (gateway_init 0 0) (Tick (True, True, True) 100))"
    by (intro gateway_runs.intros)
  with gateway_loop_never_drives [OF r] show ?thesis by blast
qed

subsection \<open>The heartbeat of the battery\<close>

text \<open>The three nodes the gateway registers, in this order: powertrain, battery, dashboard.\<close>

definition watched :: "hm_node_t \<Rightarrow> u8 \<times> u32" where
  "watched n = (cn_node_id n, cn_timeout_ms n)"

definition three_nodes :: "heartbeat_monitor_t \<Rightarrow> bool" where
  "three_nodes hm \<longleftrightarrow> chm_node_count hm = 3 \<and> length (chm_nodes hm) = HM_MAX_NODES
     \<and> map watched (take 3 (chm_nodes hm)) = [(2, 300), (3, 300), (4, 300)]"

lemma three_simps:
  "[0..<3] = [0, Suc 0, Suc (Suc 0)]"
  "first_index p (a # b # c # r) 0 3 = (if p a then Some 0 else if p b then Some 1 else if p c then Some 2 else None)"
  "modify_first p f 3 (a # b # c # r) =
     (if p a then f a # b # c # r else if p b then a # f b # c # r else if p c then a # b # f c # r
      else a # b # c # r)"
  by (simp_all add: upt_rec numeral_3_eq_3)

lemma eight_slots:
  "replicate 8 x = [x, x, x, x, x, x, x, x]" "(a # b # c # r)[2 := y] = a # b # y # r"
  by (simp_all add: numeral_eq_Suc)

lemma three_nodes_cases:
  assumes "three_nodes hm"
  obtains pt bms dash rest where "chm_nodes hm = pt # bms # dash # rest" "chm_node_count hm = 3"
    "watched pt = (2, 300)" "watched bms = (3, 300)" "watched dash = (4, 300)" "length rest = 5"
proof -
  from assms have l: "length (chm_nodes hm) = Suc (Suc (Suc 5))" by (simp add: three_nodes_def HM_MAX_NODES_def)
  then obtain pt bms dash rest where n: "chm_nodes hm = pt # bms # dash # rest" "length rest = 5"
    by (metis length_Suc_conv)
  with assms show ?thesis
    by (intro that [of pt bms dash rest]) (simp_all add: three_nodes_def numeral_3_eq_3)
qed

definition expired_c :: "u32 \<Rightarrow> hm_node_t \<Rightarrow> bool" where
  "expired_c now n \<longleftrightarrow> cn_online n \<noteq> 0 \<and> cn_timeout_ms n \<le> now - cn_last_beat_ms n"

definition alive_c :: "u32 \<Rightarrow> hm_node_t \<Rightarrow> bool" where
  "alive_c now n \<longleftrightarrow> cn_online n \<noteq> 0 \<and> now - cn_last_beat_ms n < cn_timeout_ms n"

definition checked :: "u32 \<Rightarrow> hm_node_t \<Rightarrow> hm_node_t" where
  "checked now n = (if expired_c now n then n\<lparr>cn_online := 0\<rparr> else n)"

lemma check_slot_value: "check_slot now t n = (t + of_bool (expired_c now n), checked now n)"
  by (simp add: check_slot_def Let_def expired_c_def checked_def)

lemma checked_sel [simp]:
  "watched (checked now n) = watched n" "cn_online (checked now n) = 0 \<longleftrightarrow> \<not> alive_c now n"
  "cn_node_id (checked now n) = cn_node_id n"
  by (auto simp: checked_def watched_def expired_c_def alive_c_def)

lemma check_three:
  assumes "chm_nodes hm = pt # bms # dash # rest" "chm_node_count hm = 3"
  shows "heartbeat_monitor_check hm now =
     (of_bool (expired_c now pt) + of_bool (expired_c now bms) + of_bool (expired_c now dash),
      hm\<lparr>chm_nodes := checked now pt # checked now bms # checked now dash # rest\<rparr>)"
  using assms
  by (simp add: heartbeat_monitor_check_def scan_array_def check_slot_value three_simps Let_def)

lemma three_nodes_check: "three_nodes hm \<Longrightarrow> three_nodes (snd (heartbeat_monitor_check hm now))"
  by (erule three_nodes_cases) (simp add: check_three three_nodes_def HM_MAX_NODES_def numeral_3_eq_3)

lemma three_nodes_beat: "three_nodes hm \<Longrightarrow> three_nodes (heartbeat_monitor_beat hm i now)"
  by (erule three_nodes_cases)
    (auto simp: heartbeat_monitor_beat_def three_nodes_def HM_MAX_NODES_def three_simps Let_def watched_def)

lemma three_nodes_beats:
  "three_nodes (gx_hm ctx) \<Longrightarrow> three_nodes (gx_hm (fold (\<lambda>sender ctx. handle_heartbeat ctx now sender) ss ctx))"
  by (induction ss arbitrary: ctx) (simp_all add: handle_heartbeat_def three_nodes_beat)

lemma update_vehicle_mode_hm:
  "gx_hm (snd (update_vehicle_mode taken now ctx)) = snd (heartbeat_monitor_check (gx_hm ctx) now)"
  by (simp add: update_vehicle_mode_def gateway_state_update_def Let_def)

lemma before_mode_hm:
  "gx_hm (before_mode taken now ctx) = snd (heartbeat_monitor_check
     (gx_hm (fold (\<lambda>sender ctx. handle_heartbeat ctx now sender) (gx_hb_queue ctx) ctx)) now)"
  by (simp add: before_mode_def Let_def case_prod_beta)

lemma dispatch_hm [simp]: "gx_hm (dispatch_frame_in_rx taken ctx frame) = gx_hm ctx"
  by (simp add: dispatch_frame_in_rx_def handle_bms_fault_def handle_diag_request_def Let_def split: prod.splits)

lemma gateway_runs_nodes: "gateway_runs ctx \<Longrightarrow> three_nodes (gx_hm ctx)"
proof (induction rule: gateway_runs.induct)
  case (boot clear_all_bug drive_bug)
  show ?case
    by (simp add: gateway_init_def Let_def three_nodes_def heartbeat_monitor_init_def heartbeat_monitor_register_def
        HM_MAX_NODES_def watched_def MC_NODE_POWERTRAIN_def MC_NODE_BMS_def MC_NODE_DASHBOARD_def
        MC_SAFETY_BMS_HEARTBEAT_TIMEOUT_MS_def eight_slots)
next
  case (task ctx e)
  then show ?case
  proof (cases e)
    case (Tick mutex now)
    with task show ?thesis
      by (cases mutex) (simp add: gateway_cycle_state update_vehicle_mode_hm before_mode_hm
          three_nodes_check three_nodes_beats)
  qed simp
qed

text \<open>
  Claim C8. When the battery stops sending heartbeats, the pass of the loop that notices it records
  a critical communication fault and goes to FAULT, as long as the table has room, exactly if the
  powertrain is alive at that time: the loop asks for the first offline node in the order of registration, where the powertrain comes
  before the battery. With the powertrain offline the loss of the battery is not recorded.
\<close>

theorem lost_battery_is_reported_exactly:
  assumes "gateway_runs ctx" "gx_hb_queue ctx = []"
    and "expired_c now (chm_nodes (gx_hm ctx) ! 1)"
  shows "let pt = chm_nodes (gx_hm ctx) ! 0;
             (full, fm) = fault_manager_report (gx_fm ctx) MC_NODE_BMS MC_BMS_FAULT_COMM_ERROR 2;
             ctx' = snd (gateway_cycle (True, True, taken) now ctx)
         in cn_node_id pt = MC_NODE_POWERTRAIN \<and> cn_node_id (chm_nodes (gx_hm ctx) ! 1) = MC_NODE_BMS
          \<and> gx_fm ctx' = (if alive_c now pt then fm else gx_fm ctx)
          \<and> (alive_c now pt \<and> full = 0 \<longrightarrow> cg_mode (gx_gs ctx') = VEHICLE_FAULT)"
proof -
  from gateway_runs_nodes [OF assms(1)] obtain pt bms dash rest where
    n: "chm_nodes (gx_hm ctx) = pt # bms # dash # rest" "chm_node_count (gx_hm ctx) = 3"
       "watched pt = (2, 300)" "watched bms = (3, 300)" "watched dash = (4, 300)"
    by (rule three_nodes_cases)
  have first: "heartbeat_monitor_last_transition_node (gx_hm ctx\<lparr>chm_nodes := checked now pt # checked now bms
      # checked now dash # rest\<rparr>) = MC_NODE_BMS \<longleftrightarrow> alive_c now pt"
    using n assms(3) by (auto simp: heartbeat_monitor_last_transition_node_def three_simps watched_def
        MC_NODE_BMS_def expired_c_def alive_c_def)
  have "gx_fm (before_mode True now ctx) =
      (if alive_c now pt then snd (fault_manager_report (gx_fm ctx) MC_NODE_BMS MC_BMS_FAULT_COMM_ERROR 2)
       else gx_fm ctx)"
    using n(1) assms(2,3) first
    by (simp add: before_mode_def check_three [OF n(1,2)] report_lost_bms_def Let_def)
  then have fm: "gx_fm (snd (gateway_cycle (True, True, taken) now ctx)) =
      (if alive_c now pt then snd (fault_manager_report (gx_fm ctx) MC_NODE_BMS MC_BMS_FAULT_COMM_ERROR 2)
       else gx_fm ctx)"
    by (simp add: gateway_cycle_state)
  from gateway_runs_ok [OF assms(1)] have good: "fm_good (gx_fm ctx)" by (simp add: gateway_ok_def)
  have "cg_mode (gx_gs (snd (gateway_cycle (True, True, taken) now ctx))) = VEHICLE_FAULT"
    if "alive_c now pt" "fst (fault_manager_report (gx_fm ctx) MC_NODE_BMS MC_BMS_FAULT_COMM_ERROR 2) = 0"
  proof -
    from report_good(2) [OF good, of MC_BMS_FAULT_COMM_ERROR] that fm
    have "active_critical (gx_fm (snd (gateway_cycle (True, True, taken) now ctx)))"
      by (simp add: comm_error_severity)
    moreover have "mc_gateway_determine_mode mode online 1 0 1 = VEHICLE_FAULT" for mode online
      by (simp add: mc_gateway_determine_mode_def)
    ultimately show ?thesis
      using has_critical_exact [OF before_mode_good [OF good], of True now]
      by (simp add: gateway_cycle_state update_vehicle_mode_value Let_def)
  qed
  with fm n show ?thesis
    by (simp add: Let_def case_prod_beta watched_def MC_NODE_POWERTRAIN_def MC_NODE_BMS_def)
qed

lemma gateway_init_hm:
  "gx_hm (gateway_init a b) =
     (let node = (\<lambda>i. \<lparr>cn_node_id = i, cn_online = 0, cn_last_beat_ms = 0, cn_timeout_ms = 300\<rparr>)
      in \<lparr>chm_nodes = [node 2, node 3, node 4, node 0, node 0, node 0, node 0, node 0], chm_node_count = 3\<rparr>)"
  by (simp add: gateway_init_def Let_def heartbeat_monitor_init_def heartbeat_monitor_register_def
      HM_MAX_NODES_def MC_NODE_POWERTRAIN_def MC_NODE_BMS_def MC_NODE_DASHBOARD_def
      MC_SAFETY_BMS_HEARTBEAT_TIMEOUT_MS_def eight_slots)

text \<open>Only the battery sent a heartbeat, at 10 ms; at 400 ms its loss leaves the fault table as it was.\<close>

theorem lost_battery_is_reported_exactly_witness:
  "let ctx = gateway_task (gateway_task (gateway_init 0 0)
               (Received True (MC_MSG_HEARTBEAT, [3, 0, 0, 0, 0, 0, 0, 0], 5))) (Tick (True, True, True) 10)
   in gateway_runs ctx \<and> expired_c 400 (chm_nodes (gx_hm ctx) ! 1) \<and> \<not> alive_c 400 (chm_nodes (gx_hm ctx) ! 0)
    \<and> gx_fm (snd (gateway_cycle (True, True, True) 400 ctx)) = gx_fm ctx"
proof -
  let ?rx = "gateway_task (gateway_init 0 0) (Received True (MC_MSG_HEARTBEAT, [3, 0, 0, 0, 0, 0, 0, 0], 5))"
  let ?ctx = "gateway_task ?rx (Tick (True, True, True) 10)"
  have r: "gateway_runs ?ctx" by (intro gateway_runs.intros)
  have rx: "gx_hb_queue ?rx = [3]" "gx_hm ?rx = gx_hm (gateway_init 0 0)"
    by (simp_all add: dispatch_frame_in_rx_def rx_frame_def gateway_init_def Let_def HB_QUEUE_LENGTH_def)
  have q: "gx_hb_queue ?ctx = []"
    by (simp add: gateway_cycle_state update_vehicle_mode_def gateway_state_update_def before_mode_def
        report_lost_bms_def Let_def case_prod_beta)
  have hm: "gx_hm ?ctx = snd (heartbeat_monitor_check (snd (heartbeat_monitor_check
      (heartbeat_monitor_beat (gx_hm (gateway_init 0 0)) 3 10) 10)) 10)"
    by (simp add: gateway_cycle_state update_vehicle_mode_hm before_mode_hm rx handle_heartbeat_def del: gateway_task.simps(1))
  then have n: "expired_c 400 (chm_nodes (gx_hm ?ctx) ! 1)" "\<not> alive_c 400 (chm_nodes (gx_hm ?ctx) ! 0)"
    unfolding hm
    by (simp_all add: gateway_init_hm Let_def heartbeat_monitor_beat_def three_simps check_three checked_def
        expired_c_def alive_c_def)
  from lost_battery_is_reported_exactly [OF r q n(1), of True] n r show ?thesis
    by (simp add: Let_def case_prod_beta del: gateway_task.simps)
qed

subsection \<open>The commands of the powertrain\<close>

text \<open>Contexts that differ at most in the watchdog and in the enable flag.\<close>

definition same_inputs :: "powertrain_ctx_t \<Rightarrow> powertrain_ctx_t \<Rightarrow> bool" where
  "same_inputs c d \<longleftrightarrow> (\<exists>wd e. d = c\<lparr>px_wd := wd, px_tc := (px_tc c)\<lparr>ct_motor_enable := e\<rparr>\<rparr>)"

lemma same_inputsI: "d = c\<lparr>px_wd := wd, px_tc := (px_tc c)\<lparr>ct_motor_enable := e\<rparr>\<rparr> \<Longrightarrow> same_inputs c d"
  by (auto simp: same_inputs_def)

lemma same_inputs_timer: "same_inputs ctx (watchdog_timer_cb now ctx)"
proof -
  obtain timeout wd where w: "watchdog_check_c (px_wd ctx) now = (timeout, wd)" by fastforce
  show ?thesis
    by (rule same_inputsI [where wd = wd and e = "if timeout = 0 then ct_motor_enable (px_tc ctx) else 0"])
      (simp add: watchdog_timer_cb_def w)
qed

lemma same_inputs_dispatch: "same_inputs c d \<Longrightarrow> same_inputs (dispatch_frame now c frame) (dispatch_frame now d frame)"
proof -
  assume "same_inputs c d"
  then obtain wd e where d: "d = c\<lparr>px_wd := wd, px_tc := (px_tc c)\<lparr>ct_motor_enable := e\<rparr>\<rparr>"
    by (auto simp: same_inputs_def)
  show ?thesis
    by (rule same_inputsI [where wd = "px_wd (dispatch_frame now d frame)" and e = e])
      (simp add: d dispatch_frame_def handle_driver_input_def handle_vehicle_mode_def handle_bms_limits_def
        handle_gateway_heartbeat_def torque_controller_set_input_def torque_controller_set_mode_def
        torque_controller_set_bms_limit_def)
qed

lemma same_inputs_receive:
  "same_inputs c d \<Longrightarrow>
     same_inputs (fold (\<lambda>m ctx. dispatch_frame now ctx (rx_frame m)) ms c)
                 (fold (\<lambda>m ctx. dispatch_frame now ctx (rx_frame m)) ms d)"
  by (induction ms arbitrary: c d) (auto intro: same_inputs_dispatch)

lemma same_inputs_forced: "same_inputs c d \<Longrightarrow> same_inputs (forced_modes c) (forced_modes d)"
proof -
  assume "same_inputs c d"
  then obtain wd e where d: "d = c\<lparr>px_wd := wd, px_tc := (px_tc c)\<lparr>ct_motor_enable := e\<rparr>\<rparr>"
    by (auto simp: same_inputs_def)
  show ?thesis
    by (rule same_inputsI [where wd = wd and e = e])
      (simp add: d forced_modes_def Let_def torque_controller_set_input_def torque_controller_set_mode_def)
qed

lemma compute_overwrites_enable:
  "torque_controller_compute (tc\<lparr>ct_motor_enable := e\<rparr>) = torque_controller_compute tc"
  by (simp add: torque_controller_compute_def Let_def)

lemma same_inputs_command:
  "same_inputs c d \<Longrightarrow> fst (powertrain_cycle now ms c) = fst (powertrain_cycle now ms d)"
proof -
  assume "same_inputs c d"
  from same_inputs_forced [OF same_inputs_receive [OF this, of now ms]] obtain wd e where
    "forced_modes (fold (\<lambda>m ctx. dispatch_frame now ctx (rx_frame m)) ms d) =
      (let c = forced_modes (fold (\<lambda>m ctx. dispatch_frame now ctx (rx_frame m)) ms c)
       in c\<lparr>px_wd := wd, px_tc := (px_tc c)\<lparr>ct_motor_enable := e\<rparr>\<rparr>)"
    by (auto simp: same_inputs_def Let_def)
  then show ?thesis
    by (simp add: powertrain_cycle_def Let_def compute_overwrites_enable case_prod_beta)
qed

lemma driving_torque:
  "sint (fst (torque_controller_compute tc)) =
     (if (ct_throttle_percent tc \<le> 100 \<and> ct_vehicle_mode tc \<in> {VEHICLE_DRIVE, VEHICLE_LIMP}) \<and> ct_brake_pressed tc = 0
      then int (min (unat (ct_throttle_percent tc))
             (min (if ct_vehicle_mode tc = VEHICLE_LIMP then 25 else 100) (unat (ct_bms_torque_limit tc))))
      else 0)"
  by (auto simp: torque_controller_compute_output not_le)

text \<open>
  Claim C9. Without the seeded bug, the motor command of a pass of the powertrain loop is the clamped
  throttle of the inputs it has received: torque only in DRIVE or LIMP with the brake released, at
  most 100, 25 in LIMP and the limit of the battery, and the motor enabled in these modes only. The
  command does not depend on the watchdog: when the gateway has been silent for too long the timer
  clears the enable flag, and the next pass sets it again and commands the same torque.
\<close>

theorem powertrain_loop_command:
  "(px_diag_service_clamp_bug ctx = 0 \<longrightarrow>
     (let tc = px_tc (forced_modes (fold (\<lambda>m ctx. dispatch_frame now ctx (rx_frame m)) ms ctx));
          (torque, enable) = fst (powertrain_cycle now ms ctx);
          driving = (ct_throttle_percent tc \<le> 100 \<and> ct_vehicle_mode tc \<in> {VEHICLE_DRIVE, VEHICLE_LIMP})
      in sint torque =
           (if driving \<and> ct_brake_pressed tc = 0
            then int (min (unat (ct_throttle_percent tc))
                   (min (if ct_vehicle_mode tc = VEHICLE_LIMP then 25 else 100) (unat (ct_bms_torque_limit tc))))
            else 0)
       \<and> enable = flag driving))
   \<and> fst (powertrain_cycle now ms (watchdog_timer_cb now' ctx)) = fst (powertrain_cycle now ms ctx)"
proof
  have bug: "px_diag_service_clamp_bug (forced_modes (fold (\<lambda>m ctx. dispatch_frame now ctx (rx_frame m)) ms ctx))
      = px_diag_service_clamp_bug ctx"
  proof -
    have "px_diag_service_clamp_bug (dispatch_frame now c f) = px_diag_service_clamp_bug c" for c f
      by (simp add: dispatch_frame_def handle_driver_input_def handle_vehicle_mode_def handle_bms_limits_def
          handle_gateway_heartbeat_def)
    then have "px_diag_service_clamp_bug (fold (\<lambda>m ctx. dispatch_frame now ctx (rx_frame m)) ms c)
        = px_diag_service_clamp_bug c" for c
      by (induction ms arbitrary: c) simp_all
    then show ?thesis by (simp add: forced_modes_def Let_def)
  qed
  let ?tc = "px_tc (forced_modes (fold (\<lambda>m ctx. dispatch_frame now ctx (rx_frame m)) ms ctx))"
  have "fst (powertrain_cycle now ms ctx) =
      (fst (torque_controller_compute ?tc), ct_motor_enable (snd (torque_controller_compute ?tc)))"
    if "px_diag_service_clamp_bug ctx = 0"
    using that by (simp add: powertrain_cycle_def Let_def case_prod_beta bug)
  then show "px_diag_service_clamp_bug ctx = 0 \<longrightarrow>
     (let tc = ?tc; (torque, enable) = fst (powertrain_cycle now ms ctx);
          driving = (ct_throttle_percent tc \<le> 100 \<and> ct_vehicle_mode tc \<in> {VEHICLE_DRIVE, VEHICLE_LIMP})
      in sint torque =
           (if driving \<and> ct_brake_pressed tc = 0
            then int (min (unat (ct_throttle_percent tc))
                   (min (if ct_vehicle_mode tc = VEHICLE_LIMP then 25 else 100) (unat (ct_bms_torque_limit tc))))
            else 0)
       \<and> enable = flag driving)"
    by (intro impI) (simp only: Let_def case_prod_conv torque_controller_compute_enable driving_torque simp_thms)
  show "fst (powertrain_cycle now ms (watchdog_timer_cb now' ctx)) = fst (powertrain_cycle now ms ctx)"
    by (rule same_inputs_command [OF same_inputs_timer, symmetric])
qed

text \<open>The gateway was never heard; the timer disables the motor, and the next pass commands 50 percent.\<close>

theorem powertrain_loop_command_witness:
  "let ctx = \<lparr>px_tc = torque_controller_init\<lparr>ct_throttle_percent := 50, ct_vehicle_mode := VEHICLE_DRIVE\<rparr>,
              px_wd = watchdog_init, px_diag_force_service_mode = 0, px_charging_force_mode = 0,
              px_diag_service_clamp_bug = 0\<rparr>
   in ct_motor_enable (px_tc (watchdog_timer_cb 300 ctx)) = 0
    \<and> fst (powertrain_cycle 310 [] (watchdog_timer_cb 300 ctx)) = (50, 1)"
proof -
  let ?ctx = "\<lparr>px_tc = torque_controller_init\<lparr>ct_throttle_percent := 50, ct_vehicle_mode := VEHICLE_DRIVE\<rparr>,
              px_wd = watchdog_init, px_diag_force_service_mode = 0, px_charging_force_mode = 0,
              px_diag_service_clamp_bug = 0\<rparr>"
  obtain torque enable where c: "fst (powertrain_cycle 310 [] ?ctx) = (torque, enable)" by fastforce
  from powertrain_loop_command [of ?ctx 310 "[]" 300] c
  have "sint torque = 50" "enable = 1"
    by (simp_all add: forced_modes_def Let_def torque_controller_init_def c_enum)
  moreover from this(1) have "torque = 50" by (intro signed_word_eqI) simp
  moreover have "fst (powertrain_cycle 310 [] (watchdog_timer_cb 300 ?ctx)) = fst (powertrain_cycle 310 [] ?ctx)"
    using powertrain_loop_command [of ?ctx 310 "[]" 300] by blast
  moreover have "ct_motor_enable (px_tc (watchdog_timer_cb 300 ?ctx)) = 0"
    by (simp add: watchdog_timer_cb_def watchdog_check_c_def watchdog_init_def)
  ultimately show ?thesis using c by (simp add: Let_def)
qed

end
