(* ===== verification/Firmware_Vehicle.thy ===== *)
theory Firmware_Vehicle
  imports Firmware_Loops Plant
begin

text \<open>
  The battery firmware \<^verbatim>\<open>bms_ecu/src/main.c\<close> and the composition of the battery, gateway and
  powertrain firmware over the CAN bus. The result of creating a task is an argument. The vehicle is a
  transition system: its steps are a pass of a loop, the receipt of a frame by the gateway, the
  end of the calibration task, the watchdog timer, and any frame that another node puts on the bus. The bus keeps every
  frame sent so far, and a receiver gets any of them in any order, any number of times: loss, delay
  and duplication are all covered. A received frame lies in a buffer of eight bytes whose tail is
  whatever the stack held.
\<close>

subsection \<open>Battery: state\<close>

definition MC_MSG_PLANT_SENSORS :: u32 where [c_enum]: "MC_MSG_PLANT_SENSORS = 0x500"

record bms_ctx_t =
  bx_calib_task_handle :: bool
  bx_calib_requested :: u8
  bx_calib_done :: u8
  bx_bs :: bms_state_t
  bx_seq :: u8
  bx_bl :: bms_limits_t

text \<open>The handle of the calibration task is modelled by whether it is set.\<close>

definition bms_init :: "bms_ctx_t \<Rightarrow> bms_ctx_t" where
  "bms_init ctx = ctx\<lparr>bx_bs := bms_state_init, bx_bl := bms_limits_init\<rparr>"

text \<open>What the calibration task leaves when it deletes itself.\<close>

definition calibration_task :: "bms_ctx_t \<Rightarrow> bms_ctx_t" where
  "calibration_task ctx = ctx\<lparr>bx_calib_done := 1, bx_calib_task_handle := False\<rparr>"

definition bms_request_calibration :: "bool \<Rightarrow> bms_ctx_t \<Rightarrow> u8 \<times> bms_ctx_t" where
  "bms_request_calibration created ctx =
     (if bx_calib_task_handle ctx then (0, ctx)
      else let ctx = ctx\<lparr>bx_calib_requested := 1, bx_calib_done := 0\<rparr>;
               ctx = ctx\<lparr>bx_calib_task_handle := created\<rparr>
           in if bx_calib_task_handle ctx then (1, ctx)
              else (0, ctx\<lparr>bx_calib_requested := 0\<rparr>))"

definition bms_calibration_running :: "bms_ctx_t \<Rightarrow> u8" where
  "bms_calibration_running ctx = (if bx_calib_task_handle ctx then 1 else 0)"

definition bms_calibration_done :: "bms_ctx_t \<Rightarrow> u8" where
  "bms_calibration_done ctx = bx_calib_done ctx"

subsection \<open>Battery: frames\<close>

text \<open>The status structure is packed and copied as it lies in memory, low byte first.\<close>

definition le16 :: "u16 \<Rightarrow> u8 list" where
  "le16 x = [ucast x, ucast (drop_bit 8 x)]"

definition bms_status_frame :: "u16 \<Rightarrow> i16 \<Rightarrow> i16 \<Rightarrow> u8 \<Rightarrow> u8 \<Rightarrow> u32 \<times> u8 list" where
  "bms_status_frame voltage_mv current_ma temp_c_x10 soc_percent seq =
     (MC_MSG_BMS_STATUS, le16 voltage_mv @ le16 current_ma @ le16 temp_c_x10 @ [soc_percent, seq])"

definition handle_plant_sensors :: "bms_ctx_t \<Rightarrow> mc_can_frame_t \<Rightarrow> (u32 \<times> u8 list) list \<times> bms_ctx_t" where
  "handle_plant_sensors ctx frame =
     (if fr_len frame < 7 then ([], ctx)
      else let d = fr_data frame;
               soc_percent = d ! 0;
               voltage_mv = be16 (d ! 1) (d ! 2);
               temp_c_x10 = be16 (d ! 3) (d ! 4);
               current_ma = be16 (d ! 5) (d ! 6);
               old_state = cb_state (bx_bs ctx);
               (new_state, bs) = bms_state_update (bx_bs ctx) temp_c_x10 voltage_mv current_ma soc_percent;
               ctx = ctx\<lparr>bx_bs := bs, bx_bl := snd (bms_limits_compute (bx_bl ctx) new_state)\<rparr>;
               ctx = (if new_state = BMS_CRITICAL_FAULT \<and> old_state \<noteq> BMS_CRITICAL_FAULT
                      then ctx\<lparr>bx_bs := (bx_bs ctx)\<lparr>cb_fault_code := MC_BMS_FAULT_OVERTEMP\<rparr>\<rparr> else ctx);
               ctx = ctx\<lparr>bx_seq := bx_seq ctx + 1\<rparr>
           in ([bms_status_frame voltage_mv current_ma temp_c_x10 soc_percent (bx_seq ctx)], ctx))"

definition bms_dispatch_frame :: "bms_ctx_t \<Rightarrow> mc_can_frame_t \<Rightarrow> (u32 \<times> u8 list) list \<times> bms_ctx_t" where
  "bms_dispatch_frame ctx frame =
     (if fr_id frame = MC_MSG_PLANT_SENSORS then handle_plant_sensors ctx frame else ([], ctx))"

definition bms_heartbeat_frame :: "u32 \<Rightarrow> u32 \<times> u8 list" where
  "bms_heartbeat_frame now_ms =
     (MC_MSG_HEARTBEAT, [MC_NODE_BMS, ucast (drop_bit 24 now_ms), ucast (drop_bit 16 now_ms),
                         ucast (drop_bit 8 now_ms), ucast now_ms])"

definition bms_limits_frame :: "bms_ctx_t \<Rightarrow> u32 \<times> u8 list" where
  "bms_limits_frame ctx = (MC_MSG_BMS_LIMITS, [cl_max_torque_percent (bx_bl ctx), cl_reason (bx_bl ctx)])"

definition bms_fault_frame :: "bms_ctx_t \<Rightarrow> u32 \<times> u8 list" where
  "bms_fault_frame ctx = (MC_MSG_BMS_FAULT, [cb_fault_code (bx_bs ctx)])"

subsection \<open>Battery: the loop\<close>

text \<open>The context and the local variable of \<open>bms_main\<close>.\<close>

record bms_main_t =
  bm_ctx :: bms_ctx_t
  bm_last_fault_published :: u8

fun bms_receive :: "bms_ctx_t \<Rightarrow> (u32 \<times> u8 list \<times> u32) list \<Rightarrow> (u32 \<times> u8 list) list \<times> bms_ctx_t" where
  "bms_receive ctx [] = ([], ctx)"
| "bms_receive ctx (m # ms) =
     (let (sent, ctx) = bms_dispatch_frame ctx (rx_frame m);
          (sent', ctx) = bms_receive ctx ms
      in (sent @ sent', ctx))"

definition bms_boot :: "bool \<Rightarrow> (u32 \<times> u8 list) list \<times> bms_main_t" where
  "bms_boot created =
     (let ctx = bms_init \<lparr>bx_calib_task_handle = False, bx_calib_requested = 0, bx_calib_done = 0,
                          bx_bs = bms_state_init, bx_seq = 0, bx_bl = bms_limits_init\<rparr>
      in ([bms_heartbeat_frame 0],
          \<lparr>bm_ctx = snd (bms_request_calibration created ctx), bm_last_fault_published = MC_BMS_FAULT_NONE\<rparr>))"

definition restart_calibration :: "bool \<Rightarrow> u32 \<Rightarrow> bms_ctx_t \<Rightarrow> bms_ctx_t" where
  "restart_calibration created now_ms ctx =
     (if bms_calibration_done ctx \<noteq> 0 \<and> bms_calibration_running ctx = 0 \<and> now_ms \<ge> 2000 \<and> now_ms < 2500
      then snd (bms_request_calibration created ctx) else ctx)"

definition bms_cycle ::
  "bool \<Rightarrow> u32 \<Rightarrow> (u32 \<times> u8 list \<times> u32) list \<Rightarrow> bms_main_t \<Rightarrow> (u32 \<times> u8 list) list \<times> bms_main_t" where
  "bms_cycle created now_ms ms st =
     (let ctx = restart_calibration created now_ms (bm_ctx st);
          (status, ctx) = bms_receive ctx ms;
          limits = (if now_ms mod 50 = 0 then [bms_limits_frame ctx] else []);
          changed = (cb_fault_code (bx_bs ctx) \<noteq> bm_last_fault_published st);
          fault = (if changed then [bms_fault_frame ctx] else []);
          last = (if changed then cb_fault_code (bx_bs ctx) else bm_last_fault_published st);
          beat = (if now_ms mod 100 = 0 then [bms_heartbeat_frame now_ms] else [])
      in (status @ limits @ fault @ beat, \<lparr>bm_ctx = ctx, bm_last_fault_published = last\<rparr>))"

inductive bms_runs :: "bms_main_t \<Rightarrow> bool" where
  bms_boot: "bms_runs (snd (bms_boot created))"
| bms_pass: "bms_runs st \<Longrightarrow> bms_runs (snd (bms_cycle created now ms st))"
| bms_calibrated: "bms_runs st \<Longrightarrow> bx_calib_task_handle (bm_ctx st) \<Longrightarrow>
    bms_runs (st\<lparr>bm_ctx := calibration_task (bm_ctx st)\<rparr>)"

subsection \<open>What the battery publishes\<close>

text \<open>The last temperature the plant reported, and the limit and fault code that go with it.\<close>

definition sensor_frame :: "u32 \<times> u8 list \<times> u32 \<Rightarrow> bool" where
  "sensor_frame m \<longleftrightarrow> fr_id (rx_frame m) = MC_MSG_PLANT_SENSORS \<and> \<not> fr_len (rx_frame m) < 7"

definition rx_temp :: "u32 \<times> u8 list \<times> u32 \<Rightarrow> i16" where
  "rx_temp m = be16 (fst (snd m) ! 3) (fst (snd m) ! 4)"

fun last_temp :: "i16 \<Rightarrow> (u32 \<times> u8 list \<times> u32) list \<Rightarrow> i16" where
  "last_temp t [] = t"
| "last_temp t (m # ms) = last_temp (if sensor_frame m then rx_temp m else t) ms"

definition temp_limit :: "i16 \<Rightarrow> u8" where
  "temp_limit t = (if sint t \<ge> 900 then 0 else if sint t \<ge> 750 then 25 else 255)"

definition temp_fault :: "i16 \<Rightarrow> u8" where
  "temp_fault t = flag (sint t \<ge> 900)"

definition bms_ok :: "bms_ctx_t \<Rightarrow> bool" where
  "bms_ok ctx \<longleftrightarrow> cb_state (bx_bs ctx) = mc_bms_determine_state (cb_temp_c_x10 (bx_bs ctx))
     \<and> cb_fault_code (bx_bs ctx) = temp_fault (cb_temp_c_x10 (bx_bs ctx))
     \<and> cl_max_torque_percent (bx_bl ctx) = temp_limit (cb_temp_c_x10 (bx_bs ctx))
     \<and> (bx_calib_task_handle ctx \<longrightarrow> bx_calib_requested ctx = 1 \<and> bx_calib_done ctx = 0)"

lemmas bms_ops = bms_state_update_def bms_state_from_temp_def bms_state_fault_code_def
  bms_limits_compute_def mc_bms_determine_state_def temp_limit_def temp_fault_def c_enum
  MC_BMS_TEMP_WARN_def MC_BMS_TEMP_LIMP_def MC_BMS_TEMP_CRITICAL_def
  MC_TORQUE_LIMP_MAX_PERCENT_def MC_TORQUE_FAULT_MAX_PERCENT_def

lemma bms_ok_dispatch:
  assumes "bms_ok ctx"
  shows "bms_ok (snd (bms_dispatch_frame ctx (rx_frame m)))"
    and "cb_temp_c_x10 (bx_bs (snd (bms_dispatch_frame ctx (rx_frame m))))
      = (if sensor_frame m then rx_temp m else cb_temp_c_x10 (bx_bs ctx))"
  using assms
  by (simp_all add: bms_dispatch_frame_def handle_plant_sensors_def bms_ok_def sensor_frame_def rx_temp_def
      rx_frame_def bms_ops Let_def split: prod.split)

lemma bms_ok_receive:
  "bms_ok ctx \<Longrightarrow> bms_ok (snd (bms_receive ctx ms))
     \<and> cb_temp_c_x10 (bx_bs (snd (bms_receive ctx ms))) = last_temp (cb_temp_c_x10 (bx_bs ctx)) ms"
  by (induction ms arbitrary: ctx) (auto simp: bms_ok_dispatch Let_def case_prod_beta)

lemma bms_ok_calibration:
  "bms_ok ctx \<Longrightarrow> bms_ok (snd (bms_request_calibration created ctx))"
  "bms_ok ctx \<Longrightarrow> bms_ok (restart_calibration created now ctx)"
  "bms_ok ctx \<Longrightarrow> bms_ok (calibration_task ctx)"
  "bx_bs (snd (bms_request_calibration created ctx)) = bx_bs ctx"
  "bx_bs (restart_calibration created now ctx) = bx_bs ctx"
  by (auto simp: bms_ok_def bms_request_calibration_def restart_calibration_def calibration_task_def Let_def)

definition bms_main_ok :: "bms_main_t \<Rightarrow> bool" where
  "bms_main_ok st \<longleftrightarrow> bms_ok (bm_ctx st) \<and> bm_last_fault_published st = cb_fault_code (bx_bs (bm_ctx st))"

lemma bms_main_ok_boot: "bms_main_ok (snd (bms_boot created))"
proof -
  have "bms_ok \<lparr>bx_calib_task_handle = False, bx_calib_requested = 0, bx_calib_done = 0,
                          bx_bs = bms_state_init, bx_seq = 0, bx_bl = bms_limits_init\<rparr>"
    by (simp add: bms_ok_def bms_state_init_def bms_limits_init_def bms_ops)
  from bms_ok_calibration(1) [OF this, of created] show ?thesis
    by (simp add: bms_main_ok_def bms_boot_def bms_init_def Let_def bms_ok_calibration bms_state_init_def)
qed

lemma bms_main_ok_cycle: "bms_main_ok st \<Longrightarrow> bms_main_ok (snd (bms_cycle created now ms st))"
  using bms_ok_receive [of "restart_calibration created now (bm_ctx st)" ms] bms_ok_calibration(2) [of "bm_ctx st"]
  by (simp add: bms_main_ok_def bms_cycle_def Let_def case_prod_beta)

lemma bms_runs_ok: "bms_runs st \<Longrightarrow> bms_main_ok st"
proof (induction rule: bms_runs.induct)
  case (bms_calibrated st)
  then show ?case
    using bms_ok_calibration(3) [of "bm_ctx st"] by (simp add: bms_main_ok_def calibration_task_def)
qed (simp_all add: bms_main_ok_boot bms_main_ok_cycle)

text \<open>The only frame sent while frames are received is the status.\<close>

lemma bms_dispatch_sends: "fst ` set (fst (bms_dispatch_frame ctx frame)) \<subseteq> {MC_MSG_BMS_STATUS}"
  by (auto simp: bms_dispatch_frame_def handle_plant_sensors_def bms_status_frame_def Let_def case_prod_beta)

lemma bms_receive_sends: "fst ` set (fst (bms_receive ctx ms)) \<subseteq> {MC_MSG_BMS_STATUS}"
  by (induction ms arbitrary: ctx) (simp_all add: Let_def case_prod_beta image_Un bms_dispatch_sends)

lemma bms_publishes:
  assumes "bms_runs st"
  shows "let (sent, st') = bms_cycle created now ms st;
             before = cb_temp_c_x10 (bx_bs (bm_ctx st)); temp = last_temp before ms
         in cb_temp_c_x10 (bx_bs (bm_ctx st')) = temp
          \<and> cb_fault_code (bx_bs (bm_ctx st')) = temp_fault temp
          \<and> filter (\<lambda>f. fst f = MC_MSG_BMS_FAULT) sent =
              (if temp_fault temp \<noteq> temp_fault before then [(MC_MSG_BMS_FAULT, [temp_fault temp])] else [])
          \<and> map (\<lambda>f. snd f ! 0) (filter (\<lambda>f. fst f = MC_MSG_BMS_LIMITS) sent) =
              (if now mod 50 = 0 then [temp_limit temp] else [])"
proof -
  from bms_runs_ok [OF assms] have ok: "bms_ok (bm_ctx st)"
    "bm_last_fault_published st = temp_fault (cb_temp_c_x10 (bx_bs (bm_ctx st)))"
    by (simp_all add: bms_main_ok_def bms_ok_def)
  let ?ctx = "snd (bms_receive (restart_calibration created now (bm_ctx st)) ms)"
  from bms_ok_receive [OF bms_ok_calibration(2) [OF ok(1)], of created now ms]
  have rx: "bms_ok ?ctx" "cb_temp_c_x10 (bx_bs ?ctx) = last_temp (cb_temp_c_x10 (bx_bs (bm_ctx st))) ms"
    by (simp_all add: bms_ok_calibration)
  have none: "filter (\<lambda>f. fst f = MC_MSG_BMS_FAULT) (fst (bms_receive ctx ms)) = []"
    "filter (\<lambda>f. fst f = MC_MSG_BMS_LIMITS) (fst (bms_receive ctx ms)) = []" for ctx
    using bms_receive_sends [of ctx ms]
    by (auto simp: filter_empty_conv MC_MSG_BMS_STATUS_def MC_MSG_BMS_FAULT_def MC_MSG_BMS_LIMITS_def)
  show ?thesis
    using rx ok(2) none
    by (simp add: bms_cycle_def Let_def case_prod_beta bms_ok_def bms_fault_frame_def bms_limits_frame_def
        bms_heartbeat_frame_def MC_MSG_BMS_FAULT_def MC_MSG_BMS_LIMITS_def MC_MSG_HEARTBEAT_def)
qed

text \<open>
  Claim C16. The battery firmware publishes what the last sensor frame of the plant says, in every
  reachable state and for every sequence of frames in a pass: the fault code is overtemperature
  exactly from 90.0 degrees on; a fault frame goes out exactly when the code differs from the one before
  the pass, so a peak within one pass is never published; the torque limit, sent every 50 ms, is 0 from
  90.0 degrees, 25 from 75.0 degrees and 255 below.
\<close>

theorem bms_loop_publishes_exactly:
  assumes "bms_runs st"
  shows "let (sent, st') = bms_cycle created now ms st;
             before = cb_temp_c_x10 (bx_bs (bm_ctx st)); temp = last_temp before ms
         in cb_temp_c_x10 (bx_bs (bm_ctx st')) = temp
          \<and> cb_fault_code (bx_bs (bm_ctx st')) = temp_fault temp
          \<and> filter (\<lambda>f. fst f = MC_MSG_BMS_FAULT) sent =
              (if temp_fault temp \<noteq> temp_fault before then [(MC_MSG_BMS_FAULT, [temp_fault temp])] else [])
          \<and> map (\<lambda>f. snd f ! 0) (filter (\<lambda>f. fst f = MC_MSG_BMS_LIMITS) sent) =
              (if now mod 50 = 0 then [temp_limit temp] else [])"
  by (rule bms_publishes [OF assms])

text \<open>A pass with a frame of 95.0 degrees after one of 25.0 degrees, at 50 ms.\<close>

theorem bms_loop_publishes_exactly_witness:
  "let ms = [(0x500, [80, 0, 0, 0, 250, 0, 0, 0], 7), (0x500, [80, 0, 0, 3, 182, 0, 0, 0], 7)];
       sent = fst (bms_cycle True 50 ms (snd (bms_boot True)))
   in bms_runs (snd (bms_boot True))
    \<and> filter (\<lambda>f. fst f = MC_MSG_BMS_FAULT) sent = [(MC_MSG_BMS_FAULT, [1])]
    \<and> map (\<lambda>f. snd f ! 0) (filter (\<lambda>f. fst f = MC_MSG_BMS_LIMITS) sent) = [0]"
proof -
  let ?ms = "[(0x500, [80, 0, 0, 0, 250, 0, 0, 0], 7), (0x500, [80, 0, 0, 3, 182, 0, 0, 0], 7)]"
  have "last_temp t ?ms = 950" for t
    by (simp add: sensor_frame_def rx_temp_def rx_frame_def be16_def c_enum)
  moreover have "cb_temp_c_x10 (bx_bs (bm_ctx (snd (bms_boot True)))) = 0"
    by (simp add: bms_boot_def bms_init_def Let_def bms_ok_calibration bms_state_init_def)
  ultimately show ?thesis
    using bms_loop_publishes_exactly [OF bms_boot [of True], of True 50 ?ms] bms_boot [of True]
    by (simp add: Let_def case_prod_beta temp_fault_def temp_limit_def)
qed

subsection \<open>The vehicle on the bus\<close>

text \<open>The frames of a pass of the powertrain loop; each send needs a slot of the counting semaphore.\<close>

definition powertrain_boot :: "u8 \<Rightarrow> u8 \<Rightarrow> u8 \<Rightarrow> powertrain_ctx_t" where
  "powertrain_boot service charging clamp_bug =
     forced_modes \<lparr>px_tc = torque_controller_init, px_wd = watchdog_init, px_diag_force_service_mode = service,
                   px_charging_force_mode = charging, px_diag_service_clamp_bug = clamp_bug\<rparr>"

definition powertrain_heartbeat_frame :: "u32 \<Rightarrow> u32 \<times> u8 list" where
  "powertrain_heartbeat_frame now_ms =
     (MC_MSG_HEARTBEAT, [MC_NODE_POWERTRAIN, ucast (drop_bit 24 now_ms), ucast (drop_bit 16 now_ms),
                         ucast (drop_bit 8 now_ms), ucast now_ms])"

definition powertrain_pass ::
  "bool \<times> bool \<Rightarrow> u32 \<Rightarrow> (u32 \<times> u8 list \<times> u32) list \<Rightarrow> powertrain_ctx_t
     \<Rightarrow> (u32 \<times> u8 list) list \<times> powertrain_ctx_t" where
  "powertrain_pass slots now_ms ms ctx =
     (let ((torque, enable), ctx) = powertrain_cycle now_ms ms ctx
      in ((if fst slots then [(MC_MSG_MOTOR_COMMAND, [torque, enable])] else [])
          @ (if now_ms mod 100 = 0 \<and> snd slots then [powertrain_heartbeat_frame now_ms] else []), ctx))"

record vehicle_net =
  vn_bms :: bms_main_t
  vn_gateway :: gateway_ctx_t
  vn_powertrain :: powertrain_ctx_t
  vn_own :: "(u32 \<times> u8 list) set"
  vn_foreign :: "(u32 \<times> u8 list) set"

text \<open>The bus has the frames of the three loops and those of every other sender.\<close>

definition vn_bus :: "vehicle_net \<Rightarrow> (u32 \<times> u8 list) set" where
  "vn_bus v = vn_own v \<union> vn_foreign v"

text \<open>A receiver gets the payload in a buffer of eight bytes; an empty payload ends the receive loop.\<close>

definition delivers :: "u32 \<times> u8 list \<Rightarrow> u32 \<times> u8 list \<times> u32 \<Rightarrow> bool" where
  "delivers f m \<longleftrightarrow> (case f of (can_id, payload) \<Rightarrow> case m of (can_id', data, dlc) \<Rightarrow>
     can_id' = can_id \<and> length data = 8 \<and> payload \<noteq> [] \<and> take (length payload) data = payload
     \<and> dlc = of_nat (length payload))"

definition received :: "vehicle_net \<Rightarrow> u32 \<times> u8 list \<times> u32 \<Rightarrow> bool" where
  "received v m \<longleftrightarrow> (\<exists>f\<in>vn_bus v. delivers f m)"

text \<open>
  Any other node (plant, dashboard, driver, tools) and the scenario's own injections may put any frame on the
  bus at any time, also one with an identifier of the three loops.
\<close>

inductive vehicle_runs :: "vehicle_net \<Rightarrow> bool" where
  power_on: "vehicle_runs \<lparr>vn_bms = snd (bms_boot created), vn_gateway = gateway_init clear_all_bug drive_bug,
     vn_powertrain = powertrain_boot service charging 0,
     vn_own = {bms_heartbeat_frame 0, gateway_heartbeat_frame 0, powertrain_heartbeat_frame 0},
     vn_foreign = {}\<rparr>"
| other_node: "vehicle_runs v \<Longrightarrow> vehicle_runs (v\<lparr>vn_foreign := insert f (vn_foreign v)\<rparr>)"
| bms_loop: "vehicle_runs v \<Longrightarrow> list_all (received v) ms \<Longrightarrow> bms_cycle created now ms (vn_bms v) = (sent, st) \<Longrightarrow>
     vehicle_runs (v\<lparr>vn_bms := st, vn_own := vn_own v \<union> set sent\<rparr>)"
| bms_calibration: "vehicle_runs v \<Longrightarrow> bx_calib_task_handle (bm_ctx (vn_bms v)) \<Longrightarrow>
     vehicle_runs (v\<lparr>vn_bms := (vn_bms v)\<lparr>bm_ctx := calibration_task (bm_ctx (vn_bms v))\<rparr>\<rparr>)"
| gateway_rx: "vehicle_runs v \<Longrightarrow> received v m \<Longrightarrow>
     vehicle_runs (v\<lparr>vn_gateway := dispatch_frame_in_rx taken (vn_gateway v) (rx_frame m)\<rparr>)"
| gateway_loop: "vehicle_runs v \<Longrightarrow> gateway_cycle mutex now (vn_gateway v) = (sent, ctx) \<Longrightarrow>
     vehicle_runs (v\<lparr>vn_gateway := ctx, vn_own := vn_own v \<union> set sent\<rparr>)"
| powertrain_loop: "vehicle_runs v \<Longrightarrow> list_all (received v) ms \<Longrightarrow>
     powertrain_pass slots now ms (vn_powertrain v) = (sent, ctx) \<Longrightarrow>
     vehicle_runs (v\<lparr>vn_powertrain := ctx, vn_own := vn_own v \<union> set sent\<rparr>)"
| powertrain_timer: "vehicle_runs v \<Longrightarrow>
     vehicle_runs (v\<lparr>vn_powertrain := watchdog_timer_cb now (vn_powertrain v)\<rparr>)"

lemma vehicle_runs_parts: "vehicle_runs v \<Longrightarrow> bms_runs (vn_bms v) \<and> gateway_runs (vn_gateway v)"
proof (induction rule: vehicle_runs.induct)
  case (bms_loop v ms created now sent st)
  with bms_pass [of "vn_bms v" created now ms] show ?case by simp
next
  case (gateway_rx v m taken)
  with task [of "vn_gateway v" "Received taken m"] show ?case by simp
next
  case (gateway_loop v mutex now sent ctx)
  with task [of "vn_gateway v" "Tick mutex now"] show ?case by simp
qed (auto intro: bms_runs.intros gateway_runs.intros)

subsection \<open>The faults the gateway records in the vehicle\<close>

definition fault_keys :: "fault_manager_t \<Rightarrow> (u8 \<times> u8) list" where
  "fault_keys c = map (\<lambda>f. (cf_source_node f, cf_fault_code f)) (take (unat (cfm_fault_count c)) (cfm_faults c))"

text \<open>The codes of \<^verbatim>\<open>mc_bms_fault_code_t\<close>, from no fault to a communication error.\<close>

definition bms_fault_codes :: "u8 set" where
  "bms_fault_codes = {0, 1, 2, 3, 4, 5}"

lemma bms_fault_codes [simp]:
  "MC_BMS_FAULT_NONE \<in> bms_fault_codes" "MC_BMS_FAULT_OVERTEMP \<in> bms_fault_codes"
  "MC_BMS_FAULT_COMM_ERROR \<in> bms_fault_codes"
  by (simp_all add: bms_fault_codes_def c_enum)

definition known_faults :: "fault_manager_t \<Rightarrow> bool" where
  "known_faults c \<longleftrightarrow> fm_good c \<and> set (fault_keys c) \<subseteq> Pair MC_NODE_BMS ` bms_fault_codes"

lemma fault_keys_mirrored: "fm_sim c r \<Longrightarrow> fault_keys c = map fault_key (fm_faults r)"
  using holds_take [of fault_rep FM_MAX_FAULTS "cfm_faults c" "cfm_fault_count c" "fm_faults r"]
  by (simp add: fm_sim_def fault_keys_def fault_rep_def fault_key_def)

lemma known_faults_count: "known_faults c \<Longrightarrow> unat (cfm_fault_count c) \<le> 6"
proof -
  assume k: "known_faults c"
  then obtain r where r: "fm_sim c r" by (auto simp: known_faults_def fm_good_def)
  then have "unat (cfm_fault_count c) = length (fault_keys c)" "distinct (fault_keys c)"
    using fault_keys_mirrored [OF r] by (simp_all add: fm_sim_def holds_def)
  moreover have "card (set (fault_keys c)) \<le> card bms_fault_codes"
    using k card_mono [of "Pair MC_NODE_BMS ` bms_fault_codes"] card_image_le [of bms_fault_codes "Pair MC_NODE_BMS"]
    by (force simp: known_faults_def bms_fault_codes_def)
  moreover have "card bms_fault_codes = 6" by (simp add: bms_fault_codes_def)
  ultimately show ?thesis by (simp add: distinct_card)
qed

lemma known_faults_init: "known_faults fault_manager_init"
  using fm_good_init by (simp add: known_faults_def fault_keys_def fault_manager_init_def)

lemma report_accepted: "known_faults c \<Longrightarrow> fst (fault_manager_report c s k sev) = 0"
  using known_faults_count [of c]
  by (auto simp: fault_manager_report_def FM_MAX_FAULTS_def Let_def split: option.split)

lemma upsert_keys:
  "(\<And>e. p e \<Longrightarrow> key (f e) = key e) \<Longrightarrow> key ` set (upsert p f x es) \<subseteq> insert (key x) (key ` set es)"
  by (auto simp: upsert_def dest!: set_update_first)

lemma known_faults_report:
  assumes "known_faults c" "code \<in> bms_fault_codes"
  shows "known_faults (snd (fault_manager_report c MC_NODE_BMS code (fault_manager_bms_severity code)))"
proof -
  let ?sev = "fault_manager_bms_severity code"
  from assms(1) obtain r where r: "fm_sim c r" "fm_inv r" by (auto simp: known_faults_def fm_good_def)
  have len: "length (fm_faults r) \<le> 6"
    using known_faults_count [OF assms(1)] r(1) by (simp add: fm_sim_def holds_def)
  then have room: "has_room r MC_NODE_BMS code" by (simp add: has_room_def FM_MAX_FAULTS_def)
  from fault_report_defined [OF r(2), of MC_NODE_BMS code ?sev] len obtain r' where
    r': "fault_report r MC_NODE_BMS code ?sev = Some r'" by (auto simp: FM_MAX_FAULTS_def)
  from report_mirrored [OF r(1) room r'] obtain c' where
    c': "fault_manager_report c MC_NODE_BMS code ?sev = (0, c')" "fm_sim c' r'" by blast
  have "set (fault_keys c') \<subseteq> insert (MC_NODE_BMS, code) (set (fault_keys c))"
    unfolding fault_keys_mirrored [OF c'(2)] fault_keys_mirrored [OF r(1)] fault_report_faults [OF r']
    unfolding set_map by (rule order_trans [OF upsert_keys [where key = fault_key]]) (auto simp: fault_key_def)
  with c'(1) assms report_good(1) [of c code] show ?thesis by (auto simp: known_faults_def)
qed

lemma clear_keys_grades: "clear_keys keys r = Some r' \<Longrightarrow> map grade (fm_faults r') = map grade (fm_faults r)"
  by (induction keys arbitrary: r) (auto split: Option.bind_splits dest: fault_clear_grades)

lemma grades_keys: "map grade (fm_faults r') = map grade (fm_faults r) \<Longrightarrow> map fault_key (fm_faults r') = map fault_key (fm_faults r)"
  by (drule arg_cong [where f = "map fst"]) (simp add: comp_def grade_def)

lemma known_faults_clear:
  assumes "known_faults c"
  shows "known_faults (fault_manager_clear_node c n)" "known_faults (fault_manager_clear_all c)"
proof -
  from assms obtain r where r: "fm_sim c r" "fm_inv r" "bms_graded r" by (auto simp: known_faults_def fm_good_def)
  have "fault_keys (snd (fm_c_step c op)) = fault_keys c" if "fm_r_step r op = Some (a, r')"
    "map grade (fm_faults r') = map grade (fm_faults r)" for op a r'
    using fmm.sim_step [OF r(1) that(1)] grades_keys [OF that(2)] fault_keys_mirrored [OF r(1)]
    by (auto simp: fault_keys_mirrored)
  from this [of "FClearNode n" 0] this [of FClearAll 0] clear_keys_good [OF r(2,3)] clear_keys_grades
  have "fault_keys (fault_manager_clear_node c n) = fault_keys c" "fault_keys (fault_manager_clear_all c) = fault_keys c"
    by (fastforce simp: fault_keys_mirrored)+
  with assms clear_good [of c] show "known_faults (fault_manager_clear_node c n)" "known_faults (fault_manager_clear_all c)"
    by (simp_all add: known_faults_def)
qed

subsection \<open>Invariant of the vehicle\<close>

definition idle_modes :: "u32 set" where
  "idle_modes = - {VEHICLE_DRIVE, VEHICLE_LIMP}"

text \<open>A frame that announces DRIVE or LIMP, and a fault frame with a code of the protocol.\<close>

definition asks_to_drive :: "u32 \<times> u8 list \<Rightarrow> bool" where
  "asks_to_drive f \<longleftrightarrow> fst f = MC_MSG_VEHICLE_MODE \<and> snd f \<noteq> [] \<and> ucast (hd (snd f)) \<in> {VEHICLE_DRIVE, VEHICLE_LIMP}"

definition known_code :: "u32 \<times> u8 list \<Rightarrow> bool" where
  "known_code f \<longleftrightarrow> (fst f = MC_MSG_BMS_FAULT \<and> snd f \<noteq> [] \<longrightarrow> hd (snd f) \<in> bms_fault_codes)"

definition idle_frame :: "u32 \<times> u8 list \<Rightarrow> bool" where
  "idle_frame f \<longleftrightarrow> known_code f \<and> \<not> asks_to_drive f"

lemmas frame_defs = idle_frame_def known_code_def asks_to_drive_def

lemmas bus_ids = MC_MSG_BMS_FAULT_def MC_MSG_VEHICLE_MODE_def MC_MSG_MOTOR_COMMAND_def MC_MSG_BMS_LIMITS_def
  MC_MSG_BMS_STATUS_def MC_MSG_HEARTBEAT_def MC_MSG_DRIVER_INPUT_def MC_MSG_DIAG_REQUEST_def

definition idle_powertrain :: "powertrain_ctx_t \<Rightarrow> bool" where
  "idle_powertrain ctx \<longleftrightarrow> ct_vehicle_mode (px_tc ctx) \<in> idle_modes \<and> px_diag_service_clamp_bug ctx = 0"

definition foreign_drive :: "vehicle_net \<Rightarrow> bool" where
  "foreign_drive v \<longleftrightarrow> (\<exists>f\<in>vn_foreign v. asks_to_drive f)"

definition foreign_codes_known :: "vehicle_net \<Rightarrow> bool" where
  "foreign_codes_known v \<longleftrightarrow> (\<forall>f\<in>vn_foreign v. known_code f)"

definition vehicle_ok :: "vehicle_net \<Rightarrow> bool" where
  "vehicle_ok v \<longleftrightarrow> (\<forall>f\<in>vn_own v. idle_frame f)
     \<and> (foreign_codes_known v \<longrightarrow> known_faults (gx_fm (vn_gateway v)))
     \<and> (\<not> foreign_drive v \<longrightarrow> idle_powertrain (vn_powertrain v)
          \<and> (\<forall>payload. (MC_MSG_MOTOR_COMMAND, payload) \<in> vn_own v \<longrightarrow> payload = [0, 0]))
     \<and> (bm_last_fault_published (vn_bms v) = MC_BMS_FAULT_OVERTEMP \<longrightarrow>
          (MC_MSG_BMS_FAULT, [MC_BMS_FAULT_OVERTEMP]) \<in> vn_own v)"

lemma delivered_frame:
  assumes "received v m" "\<forall>f\<in>vn_own v. idle_frame f"
  shows "foreign_codes_known v \<Longrightarrow> fst m = MC_MSG_BMS_FAULT \<Longrightarrow> fst (snd m) ! 0 \<in> bms_fault_codes"
    and "\<not> foreign_drive v \<Longrightarrow> fst m = MC_MSG_VEHICLE_MODE \<Longrightarrow> ucast (fst (snd m) ! 0) \<in> idle_modes"
proof -
  from assms(1) obtain can_id payload data where
    m: "(can_id, payload) \<in> vn_bus v" "fst m = can_id" "fst (snd m) = data" "payload \<noteq> []"
       "take (length payload) data = payload" "length data = 8"
    by (cases m) (auto simp: received_def delivers_def)
  then have hd: "data ! 0 = hd payload" by (cases data; cases payload) auto
  show "foreign_codes_known v \<Longrightarrow> fst m = MC_MSG_BMS_FAULT \<Longrightarrow> fst (snd m) ! 0 \<in> bms_fault_codes"
    using m hd assms(2) by (fastforce simp: frame_defs vn_bus_def foreign_codes_known_def)
  show "\<not> foreign_drive v \<Longrightarrow> fst m = MC_MSG_VEHICLE_MODE \<Longrightarrow> ucast (fst (snd m) ! 0) \<in> idle_modes"
    using m hd assms(2) by (fastforce simp: frame_defs vn_bus_def foreign_drive_def idle_modes_def)
qed

lemma bms_cycle_frames:
  "f \<in> set (fst (bms_cycle created now ms st)) \<Longrightarrow>
   fst f \<in> {MC_MSG_BMS_STATUS, MC_MSG_BMS_LIMITS, MC_MSG_HEARTBEAT}
   \<or> f = bms_fault_frame (bm_ctx (snd (bms_cycle created now ms st)))"
  using bms_receive_sends [of "restart_calibration created now (bm_ctx st)" ms]
  by (auto simp: bms_cycle_def Let_def case_prod_beta bms_limits_frame_def bms_heartbeat_frame_def
      simp del: insert_iff split: if_splits)

lemma idle_bms_frames:
  assumes "bms_runs st" "f \<in> set (fst (bms_cycle created now ms st))"
  shows "idle_frame f"
proof -
  have "cb_fault_code (bx_bs (bm_ctx (snd (bms_cycle created now ms st)))) \<in> {0, 1}"
    using bms_runs_ok [OF bms_pass [OF assms(1)]] by (simp add: bms_main_ok_def bms_ok_def temp_fault_def)
  with bms_cycle_frames [OF assms(2)] show ?thesis
    by (auto simp: frame_defs bms_fault_frame_def bus_ids bms_fault_codes_def)
qed

lemma idle_gateway_frames:
  assumes "gateway_runs ctx" "f \<in> set (fst (gateway_cycle mutex now ctx))"
  shows "idle_frame f"
proof -
  have "cg_mode (gx_gs (snd (gateway_cycle mutex now ctx))) \<in> {VEHICLE_OFF, VEHICLE_READY, VEHICLE_FAULT, VEHICLE_SERVICE}"
    using gateway_ok_cycle [OF gateway_runs_ok [OF assms(1)]] by (simp add: gateway_ok_def)
  then have "ucast (ucast (cg_mode (gx_gs (snd (gateway_cycle mutex now ctx)))) :: u8) \<in> idle_modes"
    by (elim insertE) (simp_all add: idle_modes_def c_enum)
  with assms(2) show ?thesis
    by (auto simp: gateway_cycle_def Let_def case_prod_beta gateway_heartbeat_frame_def vehicle_mode_frame_def
        frame_defs bus_ids idle_modes_def split: if_splits)
qed

lemma known_faults_dispatch:
  "known_faults (gx_fm ctx) \<Longrightarrow>
   (fst m = MC_MSG_BMS_FAULT \<Longrightarrow> fst (snd m) ! 0 \<in> bms_fault_codes) \<Longrightarrow>
   known_faults (gx_fm (dispatch_frame_in_rx taken ctx (rx_frame m)))"
  using known_faults_report [of "gx_fm ctx" "fst (snd m) ! 0"] known_faults_clear [of "gx_fm ctx"]
  by (auto simp: dispatch_frame_in_rx_def handle_bms_fault_def handle_diag_request_def rx_frame_def
      Let_def split: prod.splits)

lemma known_faults_cycle: "known_faults (gx_fm ctx) \<Longrightarrow> known_faults (gx_fm (snd (gateway_cycle mutex now ctx)))"
  using known_faults_report [of "gx_fm ctx" MC_BMS_FAULT_COMM_ERROR]
  by (cases mutex) (simp add: gateway_cycle_state before_mode_def report_lost_bms_def Let_def case_prod_beta
      fold_heartbeats comm_error_severity)

lemma idle_dispatch:
  "idle_powertrain ctx \<Longrightarrow> (fst m = MC_MSG_VEHICLE_MODE \<Longrightarrow> ucast (fst (snd m) ! 0) \<in> idle_modes) \<Longrightarrow>
   idle_powertrain (dispatch_frame now ctx (rx_frame m))"
  by (auto simp: idle_powertrain_def dispatch_frame_def handle_driver_input_def handle_vehicle_mode_def
      handle_bms_limits_def handle_gateway_heartbeat_def torque_controller_set_input_def torque_controller_set_mode_def
      torque_controller_set_bms_limit_def rx_frame_def split: prod.splits)

lemma idle_receive:
  "idle_powertrain ctx \<Longrightarrow> list_all (received v) ms \<Longrightarrow> \<forall>f\<in>vn_own v. idle_frame f \<Longrightarrow> \<not> foreign_drive v \<Longrightarrow>
   idle_powertrain (fold (\<lambda>m ctx. dispatch_frame now ctx (rx_frame m)) ms ctx)"
  by (induction ms arbitrary: ctx) (auto intro!: idle_dispatch dest: delivered_frame(2))

lemma idle_forced: "idle_powertrain ctx \<Longrightarrow> idle_powertrain (forced_modes ctx)"
  by (simp add: idle_powertrain_def forced_modes_def Let_def torque_controller_set_input_def
      torque_controller_set_mode_def idle_modes_def c_enum)

lemma idle_compute: "ct_vehicle_mode tc \<in> idle_modes \<Longrightarrow> fst (torque_controller_compute tc) = 0
   \<and> ct_motor_enable (snd (torque_controller_compute tc)) = 0"
  by (auto simp: torque_controller_compute_def safety_clamp_torque_c_def safety_mode_blocks_torque_def
      safety_brake_overrides_throttle_def idle_modes_def Let_def c_enum)

lemma powertrain_frames:
  "f \<in> set (fst (powertrain_pass slots now ms ctx)) \<Longrightarrow> idle_frame f"
  by (auto simp: powertrain_pass_def Let_def case_prod_beta powertrain_heartbeat_frame_def frame_defs bus_ids
      split: if_splits)

lemma idle_pass:
  assumes "idle_powertrain ctx" "list_all (received v) ms" "\<forall>f\<in>vn_own v. idle_frame f" "\<not> foreign_drive v"
  shows "idle_powertrain (snd (powertrain_pass slots now ms ctx))"
    and "(MC_MSG_MOTOR_COMMAND, payload) \<in> set (fst (powertrain_pass slots now ms ctx)) \<Longrightarrow> payload = [0, 0]"
  using idle_forced [OF idle_receive [OF assms, of now]]
  by (auto simp: powertrain_pass_def powertrain_cycle_def Let_def case_prod_beta idle_powertrain_def idle_compute
      powertrain_heartbeat_frame_def bus_ids split: if_splits)

lemma no_motor_commands:
  "(MC_MSG_MOTOR_COMMAND, payload) \<notin> set (fst (bms_cycle created now ms st))"
  "(MC_MSG_MOTOR_COMMAND, payload) \<notin> set (fst (gateway_cycle mutex now ctx))"
  using bms_cycle_frames [of "(MC_MSG_MOTOR_COMMAND, payload)" created now ms st]
  by (auto simp: gateway_cycle_def Let_def case_prod_beta gateway_heartbeat_frame_def vehicle_mode_frame_def
      bms_fault_frame_def bus_ids split: if_splits)

lemma published_fault_sent:
  assumes "bms_cycle created now ms st = (sent, st')" "bm_last_fault_published st' = MC_BMS_FAULT_OVERTEMP"
  shows "bm_last_fault_published st = MC_BMS_FAULT_OVERTEMP \<or> (MC_MSG_BMS_FAULT, [MC_BMS_FAULT_OVERTEMP]) \<in> set sent"
  using assms by (auto simp: bms_cycle_def Let_def case_prod_beta bms_fault_frame_def split: if_splits)

lemma vehicle_runs_ok: "vehicle_runs v \<Longrightarrow> vehicle_ok v"
proof (induction rule: vehicle_runs.induct)
  case (power_on created clear_all_bug drive_bug service charging)
  have "idle_powertrain (powertrain_boot service charging 0)"
    unfolding powertrain_boot_def
    by (rule idle_forced) (simp add: idle_powertrain_def idle_modes_def torque_controller_init_def c_enum)
  then show ?case
    by (simp add: vehicle_ok_def gateway_init_def Let_def known_faults_init frame_defs bms_heartbeat_frame_def
        gateway_heartbeat_frame_def powertrain_heartbeat_frame_def bus_ids bms_boot_def c_enum)
next
  case (other_node v f)
  then show ?case by (simp add: vehicle_ok_def foreign_codes_known_def foreign_drive_def)
next
  case (bms_loop v ms created now sent st)
  have sent: "sent = fst (bms_cycle created now ms (vn_bms v))" using bms_loop(3) by simp
  have "\<forall>f\<in>set sent. idle_frame f"
    using vehicle_runs_parts [OF bms_loop(1)] idle_bms_frames [of "vn_bms v" _ created now ms] sent by blast
  with bms_loop(4) published_fault_sent [OF bms_loop(3)] no_motor_commands(1) show ?case
    by (auto simp: vehicle_ok_def foreign_codes_known_def foreign_drive_def sent)
next
  case (gateway_rx v m taken)
  with known_faults_dispatch [of "vn_gateway v" m taken] delivered_frame(1) [of v m] show ?case
    by (simp add: vehicle_ok_def foreign_codes_known_def foreign_drive_def)
next
  case (gateway_loop v mutex now sent ctx)
  have sent: "sent = fst (gateway_cycle mutex now (vn_gateway v))" "ctx = snd (gateway_cycle mutex now (vn_gateway v))"
    using gateway_loop(2) by simp_all
  have "\<forall>f\<in>set sent. idle_frame f"
    using vehicle_runs_parts [OF gateway_loop(1)] idle_gateway_frames [of "vn_gateway v" _ mutex now] sent by blast
  with gateway_loop(3) known_faults_cycle [of "vn_gateway v" mutex now] no_motor_commands(2) show ?case
    by (auto simp: vehicle_ok_def foreign_codes_known_def foreign_drive_def sent)
next
  case (powertrain_loop v ms slots now sent ctx)
  have sent: "sent = fst (powertrain_pass slots now ms (vn_powertrain v))"
    "ctx = snd (powertrain_pass slots now ms (vn_powertrain v))" using powertrain_loop(3) by simp_all
  have "idle_powertrain ctx \<and> (\<forall>payload. (MC_MSG_MOTOR_COMMAND, payload) \<in> set sent \<longrightarrow> payload = [0, 0])"
    if "\<not> foreign_drive v"
    using idle_pass [OF _ powertrain_loop(2) _ that] powertrain_loop(4) that
    by (simp add: vehicle_ok_def sent) blast
  with powertrain_loop(4) powertrain_frames [of _ slots now ms "vn_powertrain v"] show ?case
    by (auto simp: vehicle_ok_def foreign_codes_known_def foreign_drive_def sent(1))
next
  case (powertrain_timer v now)
  then show ?case
    by (simp add: vehicle_ok_def foreign_codes_known_def foreign_drive_def idle_powertrain_def watchdog_timer_cb_def
        Let_def case_prod_beta)
qed (simp add: vehicle_ok_def foreign_codes_known_def foreign_drive_def)

text \<open>
  Claim C14. However frames are lost, delayed, repeated or reordered, and whatever frames other nodes put on the
  bus, also with the identifiers of the three loops: unless a frame of another node announced DRIVE or LIMP, the powertrain loop
  (without its seeded bug) has sent no command but torque 0 with the motor disabled. The gateway never announces
  DRIVE or LIMP itself and stays in OFF, READY, FAULT or SERVICE. While the fault frames of other nodes
  carry codes of the protocol, its table holds at most six faults and refuses no report.
\<close>

theorem loops_never_drive_themselves:
  assumes "vehicle_runs v"
  shows "((\<exists>payload. (MC_MSG_MOTOR_COMMAND, payload) \<in> vn_own v \<and> payload \<noteq> [0, 0]) \<longrightarrow> foreign_drive v)
     \<and> (\<forall>f\<in>vn_own v. \<not> asks_to_drive f)
     \<and> cg_mode (gx_gs (vn_gateway v)) \<in> {VEHICLE_OFF, VEHICLE_READY, VEHICLE_FAULT, VEHICLE_SERVICE}
     \<and> (foreign_codes_known v \<longrightarrow> unat (cfm_fault_count (gx_fm (vn_gateway v))) \<le> 6
          \<and> fst (fault_manager_report (gx_fm (vn_gateway v)) source_node code severity) = 0)"
proof -
  have "gateway_ok (vn_gateway v)" using vehicle_runs_parts [OF assms] gateway_runs_ok by blast
  with vehicle_runs_ok [OF assms] known_faults_count report_accepted show ?thesis
    by (auto simp: vehicle_ok_def idle_frame_def gateway_ok_def)
qed

text \<open>A vehicle just switched on, in which another node puts frames on the bus and the powertrain receives two of them.\<close>

definition switched_on :: vehicle_net where
  "switched_on = \<lparr>vn_bms = snd (bms_boot True), vn_gateway = gateway_init 0 0, vn_powertrain = powertrain_boot 0 0 0,
     vn_own = {bms_heartbeat_frame 0, gateway_heartbeat_frame 0, powertrain_heartbeat_frame 0}, vn_foreign = {}\<rparr>"

lemma switched_on_runs: "vehicle_runs switched_on"
  unfolding switched_on_def by (rule power_on)

definition driven_vehicle :: "u8 \<Rightarrow> vehicle_net" where
  "driven_vehicle mode =
     (let (sent, ctx) = powertrain_pass (True, True) 10
            [(MC_MSG_VEHICLE_MODE, [mode, 0, 0, 0, 0, 0, 0, 0], 2),
             (MC_MSG_DRIVER_INPUT, [30, 0, 1, 0, 0, 0, 0, 0], 3)] (vn_powertrain switched_on)
      in switched_on\<lparr>vn_foreign := {(MC_MSG_VEHICLE_MODE, [mode, 0]), (MC_MSG_DRIVER_INPUT, [30, 0, 1])},
           vn_powertrain := ctx, vn_own := vn_own switched_on \<union> set sent\<rparr>)"

lemma driven_vehicle_runs: "vehicle_runs (driven_vehicle mode)"
proof -
  let ?ms = "[(MC_MSG_VEHICLE_MODE, [mode, 0, 0, 0, 0, 0, 0, 0], 2), (MC_MSG_DRIVER_INPUT, [30, 0, 1, 0, 0, 0, 0, 0], 3)]"
  let ?v = "switched_on\<lparr>vn_foreign := {(MC_MSG_VEHICLE_MODE, [mode, 0]), (MC_MSG_DRIVER_INPUT, [30, 0, 1])}\<rparr>"
  have "vehicle_runs ?v"
    using other_node [OF other_node [OF switched_on_runs], of "(MC_MSG_VEHICLE_MODE, [mode, 0])"
        "(MC_MSG_DRIVER_INPUT, [30, 0, 1])"] by (simp add: switched_on_def)
  moreover have "list_all (received ?v) ?ms" by (simp add: received_def vn_bus_def delivers_def)
  moreover obtain sent ctx where p: "powertrain_pass (True, True) 10 ?ms (vn_powertrain ?v) = (sent, ctx)" by fastforce
  ultimately have "vehicle_runs (?v\<lparr>vn_powertrain := ctx, vn_own := vn_own ?v \<union> set sent\<rparr>)"
    by (rule powertrain_loop)
  with p show ?thesis by (simp add: driven_vehicle_def)
qed

text \<open>The mode frames of the scenarios are what makes a vehicle drive: after READY there is no torque, after DRIVE 30 percent.\<close>

lemma foreign_drive_is_obeyed: "(MC_MSG_MOTOR_COMMAND, [30, 1]) \<in> vn_own (driven_vehicle 2)"
  by (simp add: driven_vehicle_def switched_on_def powertrain_pass_def powertrain_cycle_def powertrain_boot_def
      forced_modes_def dispatch_frame_def handle_vehicle_mode_def handle_driver_input_def rx_frame_def bus_ids
      torque_controller_init_def torque_controller_set_mode_def torque_controller_set_input_def
      torque_controller_compute_def safety_clamp_torque_c_def safety_mode_blocks_torque_def
      safety_brake_overrides_throttle_def safety_throttle_invalid_def safety_limp_torque_cap_def
      safety_fault_disables_motor_def c_enum Let_def)

theorem loops_never_drive_themselves_witness:
  "vehicle_runs (driven_vehicle 1) \<and> \<not> foreign_drive (driven_vehicle 1)
     \<and> (\<exists>payload. (MC_MSG_MOTOR_COMMAND, payload) \<in> vn_own (driven_vehicle 1))
     \<and> \<not> (\<exists>payload. (MC_MSG_MOTOR_COMMAND, payload) \<in> vn_own (driven_vehicle 1) \<and> payload \<noteq> [0, 0])"
proof -
  have quiet: "\<not> foreign_drive (driven_vehicle 1)"
    by (auto simp: foreign_drive_def driven_vehicle_def asks_to_drive_def case_prod_beta bus_ids c_enum)
  have "\<exists>payload. (MC_MSG_MOTOR_COMMAND, payload) \<in> vn_own (driven_vehicle 1)"
    by (auto simp: driven_vehicle_def powertrain_pass_def Let_def case_prod_beta)
  with quiet driven_vehicle_runs [of 1] loops_never_drive_themselves [OF driven_vehicle_runs [of 1]] show ?thesis
    by blast
qed

subsection \<open>An overheated battery stops the vehicle\<close>

definition active_faults :: "fault_manager_t \<Rightarrow> (u8 \<times> u8) set" where
  "active_faults c = {(cf_source_node f, cf_fault_code f) | f.
     f \<in> set (take (unat (cfm_fault_count c)) (cfm_faults c)) \<and> cf_active f \<noteq> 0}"

lemma active_faults_mirrored: "fm_sim c r \<Longrightarrow> active_faults c = ft.active_keys (fm_faults r)"
  using holds_take [of fault_rep FM_MAX_FAULTS "cfm_faults c" "cfm_fault_count c" "fm_faults r"]
  by (force simp: fm_sim_def active_faults_def ft.active_keys_def fault_rep_def fault_key_def)

lemma report_adds_fault:
  assumes "known_faults c"
  shows "active_faults (snd (fault_manager_report c s k sev)) = insert (s, k) (active_faults c)"
proof -
  from assms obtain r where r: "fm_sim c r" "fm_inv r" by (auto simp: known_faults_def fm_good_def)
  have len: "length (fm_faults r) \<le> 6"
    using known_faults_count [OF assms] r(1) by (simp add: fm_sim_def holds_def)
  then have room: "has_room r s k" by (simp add: has_room_def FM_MAX_FAULTS_def)
  from fault_report_defined [OF r(2), of s k sev] len obtain r' where
    r': "fault_report r s k sev = Some r'" by (auto simp: FM_MAX_FAULTS_def)
  from report_mirrored [OF r(1) room r'] obtain c' where
    c': "fault_manager_report c s k sev = (0, c')" "fm_sim c' r'" by blast
  have "ft.active_keys (fm_faults r') = insert (s, k) (ft.active_keys (fm_faults r))"
    unfolding fault_report_faults [OF r'] by (subst ft.active_keys_raise) (simp_all add: fault_key_def)
  with c' show ?thesis by (simp add: active_faults_mirrored [OF c'(2)] active_faults_mirrored [OF r(1)])
qed

text \<open>The sensor frame of the plant, as the battery reads it.\<close>

lemma last_temp_append: "last_temp t (ms @ ms') = last_temp (last_temp t ms) ms'"
  by (induction ms arbitrary: t) simp_all

lemma last_temp_none: "\<not> list_ex sensor_frame ms \<Longrightarrow> last_temp t ms = t"
  by (induction ms) simp_all

lemma plant_frame_delivered:
  assumes "delivers (MC_MSG_PLANT_SENSORS, plant_frame_data r) m"
  shows "sensor_frame m" "rx_temp m = sr_pack_temp_c_x10 r"
proof -
  obtain data where m: "m = (MC_MSG_PLANT_SENSORS, data, 7)" "take 7 data = plant_frame_data r" "length data = 8"
    using assms by (cases m) (auto simp: delivers_def plant_frame_data_def to_be_bytes16_def numeral_eq_Suc)
  from m(2,3) have "data ! i = plant_frame_data r ! i" if "i < 7" for i
    using that by (metis nth_take)
  then have "data ! 3 = ucast (drop_bit 8 (sr_pack_temp_c_x10 r))" "data ! 4 = ucast (sr_pack_temp_c_x10 r)"
    by (simp_all add: plant_frame_data_def to_be_bytes16_def)
  with m(1) show "sensor_frame m" "rx_temp m = sr_pack_temp_c_x10 r"
    by (simp_all add: sensor_frame_def rx_temp_def rx_frame_def be16_to_be_bytes)
qed

lemma active_fault_is_critical:
  assumes "fm_good c" "(MC_NODE_BMS, code) \<in> active_faults c" "fault_manager_bms_severity code = 2"
  shows "active_critical c"
proof -
  from assms(1) obtain r where r: "fm_sim c r" "bms_graded r" by (auto simp: fm_good_def)
  with assms(2) obtain f where f: "f \<in> set (fm_faults r)" "fe_active f" "fault_key f = (MC_NODE_BMS, code)"
    by (auto simp: active_faults_mirrored ft.active_keys_def)
  with r(2) assms(3) have "fe_severity f = 2" by (fastforce simp: bms_graded_def grade_def)
  with f active_critical_mirrored [OF r(1)] show ?thesis by blast
qed

lemma critical_pass_faults:
  assumes "known_faults (gx_fm ctx)" "(MC_NODE_BMS, code) \<in> active_faults (gx_fm ctx)"
    "fault_manager_bms_severity code = 2"
  shows "cg_mode (gx_gs (snd (gateway_cycle (tr, True, ts) now ctx))) = VEHICLE_FAULT"
proof -
  let ?ctx = "before_mode tr now ctx"
  have good: "fm_good (gx_fm ?ctx)" using before_mode_good assms(1) by (simp add: known_faults_def)
  have "active_faults (gx_fm ctx) \<subseteq> active_faults (gx_fm ?ctx)"
    using report_adds_fault [OF assms(1)]
    by (auto simp: before_mode_def report_lost_bms_def Let_def case_prod_beta fold_heartbeats)
  with assms(2,3) have "active_critical (gx_fm ?ctx)" by (blast intro: active_fault_is_critical [OF good])
  then show ?thesis
    by (simp add: gateway_cycle_state update_vehicle_mode_value has_critical_exact [OF good] Let_def
        mc_gateway_determine_mode_def)
qed

lemma gateway_announces:
  "cg_mode (gx_gs (snd (gateway_cycle (tr, tm, ts) now ctx))) \<noteq> cg_mode (gx_gs ctx) \<or> now mod 50 = 0 \<Longrightarrow>
   vehicle_mode_frame ts (snd (gateway_cycle (tr, tm, ts) now ctx)) \<in> set (fst (gateway_cycle (tr, tm, ts) now ctx))"
  by (auto simp: gateway_cycle_def Let_def case_prod_beta fold_heartbeats)

lemma fault_frame_received:
  assumes "known_faults (gx_fm ctx)" "delivers (MC_MSG_BMS_FAULT, [code]) m"
  shows "dispatch_frame_in_rx True ctx (rx_frame m) =
    ctx\<lparr>gx_fm := snd (fault_manager_report (gx_fm ctx) MC_NODE_BMS code (fault_manager_bms_severity code))\<rparr>"
proof -
  obtain data where m: "m = (MC_MSG_BMS_FAULT, data, 1)" "take 1 data = [code]" "length data = 8"
    using assms(2) by (cases m) (auto simp: delivers_def)
  then have "data ! 0 = code" by (cases data) auto
  with m(1) show ?thesis
    by (simp add: dispatch_frame_in_rx_def handle_bms_fault_def rx_frame_def bus_ids Let_def)
qed

text \<open>
  Claim C15. A pass of the battery loop whose last sensor frame says 90.0 degrees or more leaves the
  overtemperature fault on the bus, from any reachable state of the vehicle: it sends the frame if the last code it
  published was no fault, and otherwise has sent it in an earlier pass. A pass of the gateway loop that gets the
  mutex after the gateway has received that frame is in FAULT, and announces it at once unless it was in FAULT
  before; for this the fault frames of other nodes must carry codes of the protocol, or they could fill the table.
\<close>

theorem overheated_battery_faults_vehicle:
  assumes "vehicle_runs v" "bms_cycle created now (ms1 @ m # ms2) (vn_bms v) = (sent, st)"
    and "delivers (MC_MSG_PLANT_SENSORS, plant_frame_data r) m" "900 \<le> sint (sr_pack_temp_c_x10 r)"
    and "\<not> list_ex sensor_frame ms2"
    and "vehicle_runs v'" "foreign_codes_known v'" "delivers (MC_MSG_BMS_FAULT, [MC_BMS_FAULT_OVERTEMP]) m'"
    and "gateway_cycle (taken, True, taken') now' (dispatch_frame_in_rx True (vn_gateway v') (rx_frame m')) = (sent', g)"
  shows "(MC_MSG_BMS_FAULT, [MC_BMS_FAULT_OVERTEMP]) \<in> vn_own v \<union> set sent
     \<and> (bm_last_fault_published (vn_bms v) = MC_BMS_FAULT_NONE \<longrightarrow>
          (MC_MSG_BMS_FAULT, [MC_BMS_FAULT_OVERTEMP]) \<in> set sent)
     \<and> cg_mode (gx_gs g) = VEHICLE_FAULT
     \<and> (cg_mode (gx_gs (vn_gateway v')) \<noteq> VEHICLE_FAULT \<or> now' mod 50 = 0 \<longrightarrow>
          (\<exists>c. (MC_MSG_VEHICLE_MODE, [4, c]) \<in> set sent'))"
proof (intro conjI impI)
  have runs: "bms_runs (vn_bms v)" "bms_runs st" "gateway_runs (vn_gateway v')"
    using vehicle_runs_parts assms(1,6) bms_pass [of "vn_bms v" created now "ms1 @ m # ms2"] assms(2) by auto
  let ?t = "cb_temp_c_x10 (bx_bs (bm_ctx (vn_bms v)))"
  have temp: "last_temp ?t (ms1 @ m # ms2) = sr_pack_temp_c_x10 r"
    using plant_frame_delivered [OF assms(3)] by (simp add: last_temp_append last_temp_none [OF assms(5)])
  note pub = bms_publishes [OF runs(1), of created now "ms1 @ m # ms2"]
  have "cb_fault_code (bx_bs (bm_ctx st)) = MC_BMS_FAULT_OVERTEMP"
    using pub assms(2,4) by (simp add: temp Let_def temp_fault_def c_enum)
  then have "bm_last_fault_published st = MC_BMS_FAULT_OVERTEMP"
    using bms_runs_ok [OF runs(2)] by (simp add: bms_main_ok_def)
  from published_fault_sent [OF assms(2) this] vehicle_runs_ok [OF assms(1)]
  show "(MC_MSG_BMS_FAULT, [MC_BMS_FAULT_OVERTEMP]) \<in> vn_own v \<union> set sent" by (auto simp: vehicle_ok_def)
  show "(MC_MSG_BMS_FAULT, [MC_BMS_FAULT_OVERTEMP]) \<in> set sent"
    if "bm_last_fault_published (vn_bms v) = MC_BMS_FAULT_NONE"
    using published_fault_sent [OF assms(2) \<open>bm_last_fault_published st = _\<close>] that by (auto simp: c_enum)
  have known: "known_faults (gx_fm (vn_gateway v'))" using vehicle_runs_ok [OF assms(6)] assms(7) by (simp add: vehicle_ok_def)
  let ?g = "dispatch_frame_in_rx True (vn_gateway v') (rx_frame m')"
  note rx = fault_frame_received [OF known assms(8)]
  have known': "known_faults (gx_fm ?g)" "(MC_NODE_BMS, MC_BMS_FAULT_OVERTEMP) \<in> active_faults (gx_fm ?g)"
    using known_faults_report [OF known, of MC_BMS_FAULT_OVERTEMP] report_adds_fault [OF known] by (simp_all add: rx)
  have g: "g = snd (gateway_cycle (taken, True, taken') now' ?g)" "sent' = fst (gateway_cycle (taken, True, taken') now' ?g)"
    using assms(9) by simp_all
  show mode: "cg_mode (gx_gs g) = VEHICLE_FAULT"
    unfolding g by (rule critical_pass_faults [OF known']) (simp add: fault_manager_bms_severity_def c_enum)
  assume "cg_mode (gx_gs (vn_gateway v')) \<noteq> VEHICLE_FAULT \<or> now' mod 50 = 0"
  then have "vehicle_mode_frame taken' g \<in> set sent'"
    using mode gateway_announces [of taken True taken' now' ?g] by (auto simp: g rx)
  with mode show "\<exists>c. (MC_MSG_VEHICLE_MODE, [4, c]) \<in> set sent'" by (auto simp: vehicle_mode_frame_def c_enum)
qed

text \<open>A vehicle just switched on, and a battery at 95.0 degrees.\<close>

theorem overheated_battery_faults_vehicle_witness:
  "let r = \<lparr>sr_wheel_speed_kph_x10 = 0, sr_pack_voltage_mv = 48000, sr_pack_current_ma = 0,
            sr_pack_temp_c_x10 = 950, sr_soc_percent = 80\<rparr>;
       m = (MC_MSG_PLANT_SENSORS, plant_frame_data r @ [0], 7);
       m' = (MC_MSG_BMS_FAULT, [1, 0, 0, 0, 0, 0, 0, 0], 1);
       (sent, g) = gateway_cycle (True, True, True) 20
         (dispatch_frame_in_rx True (vn_gateway switched_on) (rx_frame m'))
   in vehicle_runs switched_on \<and> (MC_MSG_BMS_FAULT, [1]) \<in> set (fst (bms_cycle True 10 [m] (vn_bms switched_on)))
    \<and> (\<exists>c. (MC_MSG_VEHICLE_MODE, [4, c]) \<in> set sent)"
proof -
  let ?r = "\<lparr>sr_wheel_speed_kph_x10 = 0, sr_pack_voltage_mv = 48000, sr_pack_current_ma = 0,
            sr_pack_temp_c_x10 = 950, sr_soc_percent = 80\<rparr>"
  let ?m = "(MC_MSG_PLANT_SENSORS, plant_frame_data ?r @ [0], 7)"
  let ?m' = "(MC_MSG_BMS_FAULT, [1, 0, 0, 0, 0, 0, 0, 0], 1)"
  obtain sent st where b: "bms_cycle True 10 ([] @ ?m # []) (vn_bms switched_on) = (sent, st)" by fastforce
  obtain sent' g where c: "gateway_cycle (True, True, True) 20
      (dispatch_frame_in_rx True (vn_gateway switched_on) (rx_frame ?m')) = (sent', g)" by fastforce
  have "bm_last_fault_published (vn_bms switched_on) = MC_BMS_FAULT_NONE" "foreign_codes_known switched_on"
    by (simp_all add: switched_on_def bms_boot_def Let_def foreign_codes_known_def)
  moreover have "delivers (MC_MSG_PLANT_SENSORS, plant_frame_data ?r) ?m"
    by (simp add: delivers_def plant_frame_data_def to_be_bytes16_def)
  moreover have "delivers (MC_MSG_BMS_FAULT, [MC_BMS_FAULT_OVERTEMP]) ?m'" by (simp add: delivers_def c_enum)
  moreover have "cg_mode (gx_gs (vn_gateway switched_on)) \<noteq> VEHICLE_FAULT"
    by (simp add: switched_on_def gateway_init_def Let_def gateway_state_init_def c_enum)
  ultimately show ?thesis
    using overheated_battery_faults_vehicle [OF switched_on_runs b _ _ _ switched_on_runs _ _ c] switched_on_runs b c
    by (simp add: MC_BMS_FAULT_OVERTEMP_def)
qed

text \<open>
  No fault frame of the battery ever clears a fault: the frame the battery sends when it has cooled down,
  with the code for no fault, is recorded as one more active fault, and the overtemperature stays
  active until a diagnostics session clears it.
\<close>

theorem fault_frames_only_add:
  assumes "vehicle_runs v" "foreign_codes_known v" "delivers (MC_MSG_BMS_FAULT, [code]) m"
  shows "active_faults (gx_fm (dispatch_frame_in_rx True (vn_gateway v) (rx_frame m)))
    = insert (MC_NODE_BMS, code) (active_faults (gx_fm (vn_gateway v)))"
proof -
  have known: "known_faults (gx_fm (vn_gateway v))"
    using vehicle_runs_ok [OF assms(1)] assms(2) by (simp add: vehicle_ok_def)
  show ?thesis by (simp add: fault_frame_received [OF known assms(3)] report_adds_fault [OF known])
qed

theorem fault_frames_only_add_witness:
  "(MC_NODE_BMS, MC_BMS_FAULT_NONE) \<in> active_faults (gx_fm
     (dispatch_frame_in_rx True (vn_gateway switched_on) (rx_frame (MC_MSG_BMS_FAULT, [0, 0, 0, 0, 0, 0, 0, 0], 1))))"
  using fault_frames_only_add [OF switched_on_runs, of MC_BMS_FAULT_NONE "(MC_MSG_BMS_FAULT, [0, 0, 0, 0, 0, 0, 0, 0], 1)"]
  by (simp add: delivers_def foreign_codes_known_def c_enum) (simp add: switched_on_def)

end
