(* ===== verification/Firmware_Scripts.thy ===== *)
theory Firmware_Scripts
  imports Firmware_Loops Firmware_Ota Debug_Gym_Corpus Ota_Lane Diagnostics_Lane Charging_Lane
begin

text \<open>
  The scripted test sequences of \<^verbatim>\<open>gateway_ecu/src/main.c\<close> and the forced modes of
  \<^verbatim>\<open>powertrain_ecu/src/main.c\<close>, with the events they trace, and the verdicts that the harness
  lanes give on these events: the firmware variants that the scenarios run pass the expectations
  written in the scenario files, and the paired variants of the bug corpus show their bugs.
\<close>

type_synonym event = "string \<times> u32"

subsection \<open>One step of a script\<close>

text \<open>\<open>if (*ms >= T && !(*sent & B)) { ...; *sent |= B; }\<close>, with what was traced so far.\<close>

definition scripted ::
  "u32 \<Rightarrow> u32 \<Rightarrow> u32 \<Rightarrow> ('s \<Rightarrow> event list \<times> 's) \<Rightarrow> event list \<times> 's \<times> u32 \<Rightarrow> event list \<times> 's \<times> u32" where
  "scripted ms due once act acc =
     (case acc of (evs, s, sent) \<Rightarrow>
        if ms \<ge> due \<and> and sent once = 0
        then let (evs', s) = act s in (evs @ evs', s, or sent once)
        else acc)"

subsection \<open>The update script\<close>

definition OTA_FAULT_NONE :: u8 where [c_enum]: "OTA_FAULT_NONE = 0"
definition OTA_FAULT_BAD_CRC :: u8 where [c_enum]: "OTA_FAULT_BAD_CRC = 1"
definition OTA_FAULT_INTERRUPTED_WRITE :: u8 where [c_enum]: "OTA_FAULT_INTERRUPTED_WRITE = 2"
definition OTA_FAULT_BAD_HEALTH :: u8 where [c_enum]: "OTA_FAULT_BAD_HEALTH = 3"
definition OTA_FAULT_POWERCUT_PRECOMMIT :: u8 where [c_enum]: "OTA_FAULT_POWERCUT_PRECOMMIT = 4"

record ota_script_t =
  os_dogfood_script :: u8
  os_fault_mode :: u8
  os_crc_check_bug :: u8
  os_ota :: mc_ota_slot_state_t
  os_inited :: u8
  os_script_ms :: u32
  os_script_sent :: u32

definition emit_ota_rollback :: "mc_ota_slot_state_t \<Rightarrow> event list" where
  "emit_ota_rollback ota =
     [(''ota_state'', ucast (co_state ota)), (''ota_rollback'', ucast (co_rolled_back ota)),
      (''ota_active_slot'', ucast (co_active_slot ota)), (''ota_boot_result'', 0)]"

definition ota_download_step :: "int \<Rightarrow> mc_ota_slot_state_t \<Rightarrow> event list \<times> mc_ota_slot_state_t" where
  "ota_download_step download_complete ota =
     (let ota = mc_ota_begin_download ota;
          started = [(''ota_state'', ucast (co_state ota))];
          (finished, ota) = mc_ota_finish_download ota download_complete
      in (started @ (if finished = 0 then emit_ota_rollback ota else []), ota))"

definition ota_verify_step :: "int \<Rightarrow> mc_ota_slot_state_t \<Rightarrow> event list \<times> mc_ota_slot_state_t" where
  "ota_verify_step crc_ok ota =
     (if co_state ota = MC_OTA_DOWNLOADING
      then let (verified, ota) = mc_ota_verify ota crc_ok
           in ([(''ota_state'', ucast MC_OTA_VERIFYING), (''ota_crc_ok'', ucast (co_crc_ok ota))]
               @ (if verified = 0 then emit_ota_rollback ota else []), ota)
      else ([], ota))"

definition ota_commit_step :: "u8 \<Rightarrow> mc_ota_slot_state_t \<Rightarrow> event list \<times> mc_ota_slot_state_t" where
  "ota_commit_step fault_mode ota =
     (if co_state ota = MC_OTA_VERIFYING
      then if fault_mode = OTA_FAULT_POWERCUT_PRECOMMIT
           then let ota = mc_ota_rollback ota in (emit_ota_rollback ota, ota)
           else let ota = snd (mc_ota_commit ota)
                in ([(''ota_state'', ucast (co_state ota)), (''ota_slot'', ucast (co_target_slot ota))], ota)
      else ([], ota))"

definition ota_reboot_step :: "mc_ota_slot_state_t \<Rightarrow> event list \<times> mc_ota_slot_state_t" where
  "ota_reboot_step ota =
     (if co_state ota = MC_OTA_COMMIT_PENDING
      then let ota = mc_ota_reboot ota in ([(''ota_state'', ucast (co_state ota))], ota)
      else ([], ota))"

definition ota_health_step :: "int \<Rightarrow> mc_ota_slot_state_t \<Rightarrow> event list \<times> mc_ota_slot_state_t" where
  "ota_health_step boot_healthy ota =
     (if co_state ota = MC_OTA_REBOOTING
      then let (healthy, ota) = mc_ota_health_check ota boot_healthy
           in (if healthy \<noteq> 0
               then [(''ota_state'', ucast (co_state ota)), (''ota_boot_result'', ucast (co_boot_healthy ota))]
               else emit_ota_rollback ota, ota)
      else ([], ota))"

definition run_dogfood_ota_script :: "ota_script_t \<Rightarrow> event list \<times> ota_script_t" where
  "run_dogfood_ota_script ctx =
     (if os_dogfood_script ctx = 0 then ([], ctx)
      else let ota = (if os_inited ctx = 0 then mc_ota_init else os_ota ctx);
               download_complete = of_bool (os_fault_mode ctx \<noteq> OTA_FAULT_INTERRUPTED_WRITE);
               crc_ok = of_bool (os_fault_mode ctx \<noteq> OTA_FAULT_BAD_CRC);
               boot_healthy = of_bool (os_fault_mode ctx \<noteq> OTA_FAULT_BAD_HEALTH);
               crc_ok = (if os_crc_check_bug ctx \<noteq> 0 then 1 else crc_ok);
               ms = os_script_ms ctx + 10;
               acc = ([], ota, os_script_sent ctx);
               acc = scripted ms 100 0x01 (\<lambda>ota. ([(''ota_state'', ucast (co_state ota))], ota)) acc;
               acc = scripted ms 200 0x02 (ota_download_step download_complete) acc;
               acc = scripted ms 300 0x04 (ota_verify_step crc_ok) acc;
               acc = scripted ms 400 0x08 (ota_commit_step (os_fault_mode ctx)) acc;
               acc = scripted ms 500 0x10 ota_reboot_step acc;
               acc = scripted ms 600 0x20 (ota_health_step boot_healthy) acc
           in case acc of (evs, ota, sent) \<Rightarrow>
              (evs, ctx\<lparr>os_ota := ota, os_inited := 1, os_script_ms := ms, os_script_sent := sent\<rparr>))"

text \<open>The context is allocated zeroed; the enable functions set the three flags.\<close>

definition ota_script_init :: "u8 \<Rightarrow> u8 \<Rightarrow> ota_script_t" where
  "ota_script_init fault_mode crc_check_bug =
     \<lparr>os_dogfood_script = 1, os_fault_mode = fault_mode, os_crc_check_bug = crc_check_bug,
      os_ota = \<lparr>co_active_slot = 0, co_target_slot = 0, co_state = 0, co_image_written = 0, co_crc_ok = 0,
                co_committed = 0, co_boot_healthy = 0, co_rolled_back = 0, co_abort_reason = 0\<rparr>,
      os_inited = 0, os_script_ms = 0, os_script_sent = 0\<rparr>"

text \<open>The passes of a loop: the events of all of them and the last state.\<close>

fun passes :: "('s \<Rightarrow> event list \<times> 's) \<Rightarrow> nat \<Rightarrow> 's \<Rightarrow> event list \<times> 's" where
  "passes f 0 s = ([], s)"
| "passes f (Suc n) s = (let (evs, s) = f s; (evs', s) = passes f n s in (evs @ evs', s))"

lemma passes_add:
  "passes f (m + n) s =
     (let (evs, s) = passes f m s; (evs', s) = passes f n s in (evs @ evs', s))"
  by (induction m arbitrary: s) (simp_all add: Let_def case_prod_beta)

lemma passes_quiet:
  "(\<And>s. quiet s \<Longrightarrow> fst (f s) = [] \<and> quiet (snd (f s))) \<Longrightarrow> quiet s \<Longrightarrow> fst (passes f n s) = []"
  by (induction n arbitrary: s) (simp_all add: Let_def case_prod_beta)

lemma passes_settled:
  assumes "\<And>s. quiet s \<Longrightarrow> fst (f s) = [] \<and> quiet (snd (f s))" "quiet (snd (passes f m s))" "m \<le> n"
  shows "fst (passes f n s) = fst (passes f m s)"
  using assms(3) passes_add [of f m "n - m" s] passes_quiet [of quiet f, OF assms(1,2)]
  by (simp add: Let_def case_prod_beta)

subsection \<open>The events in the trace of a run\<close>

text \<open>The trace of the simulator restricted to one machine and the labels of a script.\<close>

definition shows_run :: "u64 \<Rightarrow> string list \<Rightarrow> event list \<Rightarrow> user_trace list \<Rightarrow> bool" where
  "shows_run machine labels evs trace \<longleftrightarrow>
     filter (\<lambda>e. ut_machine e = machine \<and> ut_label e \<in> set labels) trace =
     map (\<lambda>(label, v). \<lparr>ut_machine = machine, ut_label = label, ut_value = v\<rparr>) evs"

lemma values_of_shown:
  assumes "shows_run machine labels evs trace" "label \<in> set labels"
  shows "values_of trace machine label = map snd (filter (\<lambda>e. fst e = label) evs)"
proof -
  have "filter (traced machine label) trace =
      filter (traced machine label) (filter (\<lambda>e. ut_machine e = machine \<and> ut_label e \<in> set labels) trace)"
    using assms(2) by (auto simp: filter_filter traced_def intro!: filter_cong)
  also have "\<dots> = filter (traced machine label)
      (map (\<lambda>(label, v). \<lparr>ut_machine = machine, ut_label = label, ut_value = v\<rparr>) evs)"
    using assms(1) by (simp add: shows_run_def)
  finally show ?thesis
    by (simp add: values_of_def filter_map comp_def traced_def case_prod_beta)
qed

subsection \<open>The update script and its lane\<close>

definition ota_labels :: "string list" where
  "ota_labels = [''ota_state'', ''ota_crc_ok'', ''ota_slot'', ''ota_rollback'', ''ota_active_slot'', ''ota_boot_result'']"

lemma ota_script_settled:
  "os_script_sent ctx = 0x3F \<Longrightarrow>
   fst (run_dogfood_ota_script ctx) = [] \<and> os_script_sent (snd (run_dogfood_ota_script ctx)) = 0x3F"
  by (simp add: run_dogfood_ota_script_def scripted_def Let_def)

lemma ota_script_events:
  assumes "60 \<le> n" "os_script_sent (snd (passes run_dogfood_ota_script 60 s)) = 0x3F"
  shows "fst (passes run_dogfood_ota_script n s) = fst (passes run_dogfood_ota_script 60 s)"
  by (rule passes_settled [where quiet = "\<lambda>s. os_script_sent s = 0x3F", OF ota_script_settled assms(2,1)])

definition ota_rolled_back :: "event list" where
  "ota_rolled_back = [(''ota_state'', 6), (''ota_rollback'', 1), (''ota_active_slot'', 0), (''ota_boot_result'', 0)]"

text \<open>Sixty passes of each firmware variant: the events and the mask of the steps done.\<close>

definition ota_run_of :: "u8 \<Rightarrow> u8 \<Rightarrow> event list \<times> u32" where
  "ota_run_of fault_mode bug =
     (case passes run_dogfood_ota_script 60 (ota_script_init fault_mode bug) of (evs, s) \<Rightarrow> (evs, os_script_sent s))"

lemma ota_run_none: "ota_run_of 0 0 =
     ([(''ota_state'', 0), (''ota_state'', 1), (''ota_state'', 2), (''ota_crc_ok'', 1), (''ota_state'', 3),
      (''ota_slot'', 1), (''ota_state'', 4), (''ota_state'', 5), (''ota_boot_result'', 1)], 0x3F)"
  by code_simp

lemma ota_run_bad_crc: "ota_run_of 1 0 =
     ([(''ota_state'', 0), (''ota_state'', 1), (''ota_state'', 2), (''ota_crc_ok'', 0)] @ ota_rolled_back, 0x3F)"
  by code_simp

lemma ota_run_interrupted: "ota_run_of 2 0 =
     ([(''ota_state'', 0), (''ota_state'', 1)] @ ota_rolled_back, 0x3F)"
  by code_simp

lemma ota_run_bad_health: "ota_run_of 3 0 =
     ([(''ota_state'', 0), (''ota_state'', 1), (''ota_state'', 2), (''ota_crc_ok'', 1), (''ota_state'', 3),
      (''ota_slot'', 1), (''ota_state'', 4)] @ ota_rolled_back, 0x3F)"
  by code_simp

lemma ota_run_powercut: "ota_run_of 4 0 =
     ([(''ota_state'', 0), (''ota_state'', 1), (''ota_state'', 2), (''ota_crc_ok'', 1)] @ ota_rolled_back, 0x3F)"
  by code_simp

lemma ota_run_crc_bug: "ota_run_of 1 1 =
     ([(''ota_state'', 0), (''ota_state'', 1), (''ota_state'', 2), (''ota_crc_ok'', 1), (''ota_state'', 3),
      (''ota_slot'', 1), (''ota_state'', 4), (''ota_state'', 5), (''ota_boot_result'', 1)], 0x3F)"
  by code_simp

lemmas ota_runs = ota_run_none ota_run_bad_crc ota_run_interrupted ota_run_bad_health ota_run_powercut ota_run_crc_bug

text \<open>The expectations in the scenario files of the five firmware variants.\<close>

definition ota_directives :: "u8 \<Rightarrow> string list" where
  "ota_directives fault_mode =
     (if fault_mode = OTA_FAULT_NONE
      then [''# ota-expect: state-sequence 0,1,2,3,4,5'', ''# ota-expect: crc-ok'', ''# ota-expect: healthy'']
      else if fault_mode = OTA_FAULT_BAD_CRC
      then [''# ota-expect: state-sequence 0,1,2,6'', ''# ota-expect: crc-bad'', ''# ota-expect: rolled-back'',
            ''# ota-expect: active-slot 0'']
      else if fault_mode = OTA_FAULT_INTERRUPTED_WRITE
      then [''# ota-expect: state-sequence 0,1,6'', ''# ota-expect: rolled-back'', ''# ota-expect: active-slot 0'']
      else if fault_mode = OTA_FAULT_BAD_HEALTH
      then [''# ota-expect: state-sequence 0,1,2,3,4,6'', ''# ota-expect: crc-ok'', ''# ota-expect: rolled-back'',
            ''# ota-expect: active-slot 0'']
      else [''# ota-expect: state-sequence 0,1,2,6'', ''# ota-expect: crc-ok'', ''# ota-expect: rolled-back'',
            ''# ota-expect: active-slot 0''])"

definition ota_scenario_text :: "u8 \<Rightarrow> string" where
  "ota_scenario_text fault_mode = join [CHR 0x0A] (ota_directives fault_mode)"

lemma ota_expectations:
  "parse_ota_expectations (ota_scenario_text 0) = [StateSequence [0, 1, 2, 3, 4, 5], CrcOk, Ota_Lane.Healthy]"
  "parse_ota_expectations (ota_scenario_text 1) =
     [StateSequence [0, 1, 2, 6], CrcBad, Ota_Lane.RolledBack, ActiveSlot 0]"
  "parse_ota_expectations (ota_scenario_text 2) = [StateSequence [0, 1, 6], Ota_Lane.RolledBack, ActiveSlot 0]"
  "parse_ota_expectations (ota_scenario_text 3) =
     [StateSequence [0, 1, 2, 3, 4, 6], CrcOk, Ota_Lane.RolledBack, ActiveSlot 0]"
  "parse_ota_expectations (ota_scenario_text 4) =
     [StateSequence [0, 1, 2, 6], CrcOk, Ota_Lane.RolledBack, ActiveSlot 0]"
  by (code_simp, code_simp, code_simp, code_simp, code_simp)

lemma ota_script_trace:
  assumes "60 \<le> n" "ota_run_of fault_mode bug = (evs, 0x3F)"
  shows "fst (passes run_dogfood_ota_script n (ota_script_init fault_mode bug)) = evs"
  using ota_script_events [OF assms(1), of "ota_script_init fault_mode bug"] assms(2)
  by (simp add: ota_run_of_def case_prod_beta)

lemma ota_lane_on_events:
  assumes "shows_run 1 ota_labels evs trace"
  shows "ck_passed (evaluate_ota e trace) \<longleftrightarrow>
    ota_holds e (map (\<lambda>(label, v). \<lparr>ut_machine = 1, ut_label = label, ut_value = v\<rparr>) evs)"
proof -
  let ?P = "\<lambda>e. ut_machine e = 1 \<and> ut_label e \<in> set ota_labels"
  let ?evs = "map (\<lambda>(label, v). \<lparr>ut_machine = 1, ut_label = label, ut_value = v\<rparr>) evs"
  have "filter ?P ?evs = filter ?P (filter ?P trace)" using assms by (simp only: shows_run_def)
  also have "\<dots> = filter ?P trace" by simp
  also have "\<dots> = ?evs" using assms by (simp only: shows_run_def)
  finally have "shows_run 1 ota_labels evs ?evs" by (simp only: shows_run_def)
  with assms show ?thesis
    unfolding ota.exact by (cases e) (simp_all add: values_of_shown ota_labels_def)
qed

text \<open>
  Claim C18. The update firmware passes its lane: for each of the five variants of the gateway firmware
  and every run of at least sixty passes, the trace satisfies every expectation written in the scenario file of
  that variant, whatever else the machines trace in between.
\<close>

theorem ota_script_passes_lane:
  assumes "60 \<le> n" "fault_mode \<in> {OTA_FAULT_NONE, OTA_FAULT_BAD_CRC, OTA_FAULT_INTERRUPTED_WRITE,
      OTA_FAULT_BAD_HEALTH, OTA_FAULT_POWERCUT_PRECOMMIT}"
    and "shows_run 1 ota_labels (fst (passes run_dogfood_ota_script n (ota_script_init fault_mode 0))) trace"
  shows "list_all (\<lambda>e. ck_passed (evaluate_ota e trace)) (parse_ota_expectations (ota_scenario_text fault_mode))"
proof -
  have "fault_mode \<in> {0, 1, 2, 3, 4}" using assms(2) by (simp only: c_enum)
  then show ?thesis
    using assms(3) ota_script_trace [OF assms(1)] ota_runs
    by (auto simp: ota_expectations ota_lane_on_events ota_rolled_back_def values_of_def traced_def)
qed

text \<open>The variant with the corrupt image, in a trace where the other machines also trace.\<close>

theorem ota_script_passes_lane_witness:
  "let evs = fst (passes run_dogfood_ota_script 100 (ota_script_init OTA_FAULT_BAD_CRC 0));
       trace = \<lparr>ut_machine = 2, ut_label = ''ota_state'', ut_value = 9\<rparr> #
         map (\<lambda>(label, v). \<lparr>ut_machine = 1, ut_label = label, ut_value = v\<rparr>) evs
   in list_all (\<lambda>e. ck_passed (evaluate_ota e trace)) (parse_ota_expectations (ota_scenario_text OTA_FAULT_BAD_CRC))"
proof -
  let ?evs = "fst (passes run_dogfood_ota_script 100 (ota_script_init OTA_FAULT_BAD_CRC 0))"
  have "?evs = [(''ota_state'', 0), (''ota_state'', 1), (''ota_state'', 2), (''ota_crc_ok'', 0)] @ ota_rolled_back"
    using ota_script_trace [of 100 1 0, OF _ ota_run_bad_crc] by (simp add: OTA_FAULT_BAD_CRC_def)
  then have "shows_run 1 ota_labels ?evs (\<lparr>ut_machine = 2, ut_label = ''ota_state'', ut_value = 9\<rparr> #
      map (\<lambda>(label, v). \<lparr>ut_machine = 1, ut_label = label, ut_value = v\<rparr>) ?evs)"
    by (simp add: shows_run_def ota_rolled_back_def ota_labels_def)
  from ota_script_passes_lane [OF _ _ this] show ?thesis by (simp add: Let_def)
qed

subsection \<open>The powertrain in a forced mode\<close>

text \<open>The two events of a pass of the powertrain loop that carry the command.\<close>

definition motor_command_events :: "powertrain_ctx_t \<Rightarrow> i8 \<times> u8 \<Rightarrow> event list" where
  "motor_command_events ctx command =
     (let v = or (push_bit 8 (ucast (fst command))) (ucast (snd command))
      in (if ct_vehicle_mode (px_tc ctx) = Firmware.VEHICLE_SERVICE then [(''diag_motor_command'', v)] else [])
         @ (if ct_vehicle_mode (px_tc ctx) = Firmware.VEHICLE_CHARGING then [(''charging_motor_command'', v)] else []))"

fun powertrain_passes ::
  "(u32 \<times> (u32 \<times> u8 list \<times> u32) list) list \<Rightarrow> powertrain_ctx_t \<Rightarrow> event list" where
  "powertrain_passes [] ctx = []"
| "powertrain_passes ((now_ms, ms) # rest) ctx =
     (case powertrain_cycle now_ms ms ctx of (command, ctx) \<Rightarrow>
        motor_command_events ctx command @ powertrain_passes rest ctx)"

text \<open>The three flags are set before the task starts and never change.\<close>

definition forced_as :: "u8 \<Rightarrow> u8 \<Rightarrow> u8 \<Rightarrow> powertrain_ctx_t \<Rightarrow> bool" where
  "forced_as service charging clamp_bug ctx \<longleftrightarrow> px_diag_force_service_mode ctx = service
     \<and> px_charging_force_mode ctx = charging \<and> px_diag_service_clamp_bug ctx = clamp_bug"

lemma forced_as_dispatch: "forced_as a b c ctx \<Longrightarrow> forced_as a b c (dispatch_frame now ctx frame)"
  by (simp add: forced_as_def dispatch_frame_def handle_driver_input_def handle_vehicle_mode_def
      handle_bms_limits_def handle_gateway_heartbeat_def)

lemma forced_as_receive:
  "forced_as a b c ctx \<Longrightarrow> forced_as a b c (fold (\<lambda>m ctx. dispatch_frame now ctx (rx_frame m)) ms ctx)"
  by (induction ms arbitrary: ctx) (simp_all add: forced_as_dispatch)

lemmas command_defs = forced_as_def forced_modes_def motor_command_events_def Let_def
  torque_controller_compute_def torque_controller_set_mode_def torque_controller_set_input_def
  safety_throttle_invalid_def safety_mode_blocks_torque_def safety_clamp_torque_c_def
  safety_brake_overrides_throttle_def c_enum

lemma service_pass:
  assumes "forced_as 1 0 bug ctx" "powertrain_cycle now ms ctx = (command, ctx')"
  shows "forced_as 1 0 bug ctx' \<and> motor_command_events ctx' command
      = [(''diag_motor_command'', if bug \<noteq> 0 then 0x5001 else 0)]"
proof -
  obtain c where c: "fold (\<lambda>m ctx. dispatch_frame now ctx (rx_frame m)) ms ctx = c" "forced_as 1 0 bug c"
    using forced_as_receive [OF assms(1)] by blast
  with assms(2) show ?thesis
    by (cases c) (auto simp: powertrain_cycle_def command_defs)
qed

lemma charging_pass:
  assumes "forced_as 0 1 0 ctx" "powertrain_cycle now ms ctx = (command, ctx')"
  shows "forced_as 0 1 0 ctx' \<and> motor_command_events ctx' command = [(''charging_motor_command'', 0)]"
proof -
  obtain c where c: "fold (\<lambda>m ctx. dispatch_frame now ctx (rx_frame m)) ms ctx = c" "forced_as 0 1 0 c"
    using forced_as_receive [OF assms(1)] by blast
  with assms(2) show ?thesis
    by (cases c) (auto simp: powertrain_cycle_def command_defs)
qed

lemma powertrain_passes_constant:
  assumes "\<And>ctx now ms command ctx'. P ctx \<Longrightarrow> powertrain_cycle now ms ctx = (command, ctx') \<Longrightarrow>
    P ctx' \<and> motor_command_events ctx' command = [e]"
  shows "P ctx \<Longrightarrow> powertrain_passes env ctx = replicate (length env) e"
proof (induction env arbitrary: ctx)
  case (Cons x env)
  obtain now ms where x: "x = (now, ms)" by fastforce
  obtain command ctx' where c: "powertrain_cycle now ms ctx = (command, ctx')" by fastforce
  from assms [OF Cons.prems c] Cons.IH [of ctx'] show ?case by (simp add: x c)
qed simp

lemma powertrain_script_events:
  "forced_as 1 0 bug ctx \<Longrightarrow>
     powertrain_passes env ctx = replicate (length env) (''diag_motor_command'', if bug \<noteq> 0 then 0x5001 else 0)"
  "forced_as 0 1 0 ctx \<Longrightarrow> powertrain_passes env ctx = replicate (length env) (''charging_motor_command'', 0)"
  by (rule powertrain_passes_constant, erule (1) service_pass, assumption)
    (rule powertrain_passes_constant, erule (1) charging_pass, assumption)

subsection \<open>The diagnostics scripts\<close>

definition MC_NODE_DIAGNOSTICS :: u8 where [c_enum]: "MC_NODE_DIAGNOSTICS = 5"
definition MC_WARN_POWERTRAIN_OFFLINE :: u8 where [c_enum]: "MC_WARN_POWERTRAIN_OFFLINE = 3"

record gateway_script_t =
  sx_ctx :: gateway_ctx_t
  sx_diag_dogfood_script :: u8
  sx_diag_dogfood_inject_fault :: u8
  sx_diag_extra_pt_fault :: u8
  sx_diag_startdrive_script :: u8
  sx_diag_script_ms :: u32
  sx_diag_script_sent :: u32
  sx_startdrive_script_ms :: u32
  sx_startdrive_script_sent :: u32
  sx_charging_dogfood_script :: u8
  sx_charging_script_ms :: u32
  sx_charging_script_sent :: u32

definition send_diag_response :: "u8 \<Rightarrow> u8 \<Rightarrow> u8 \<times> u8 \<times> u8 \<Rightarrow> event list" where
  "send_diag_response service request_id answer =
     (case answer of (status, value0, value1) \<Rightarrow>
       [(''gateway_diag_response'',
           or (or (or (push_bit 24 (ucast request_id)) (push_bit 16 (ucast service))) (push_bit 8 (ucast status)))
              (ucast value0)),
        (''gateway_diag_response_v1'',
           or (or (push_bit 24 (ucast request_id)) (push_bit 16 (ucast service))) (ucast value1))])"

text \<open>
  The events kept are the responses and, for charging, the state and the refusal; the vehicle mode and the
  session flag are traced as well, under labels that no lane reads.
\<close>

text \<open>The requests of a script are handled like received ones. The first four bytes are set.\<close>

definition synth_diag_request :: "bool \<Rightarrow> u8 \<Rightarrow> u8 \<Rightarrow> gateway_ctx_t \<Rightarrow> event list \<times> gateway_ctx_t" where
  "synth_diag_request taken service request_id ctx =
     (let frame = \<lparr>fr_id = MC_MSG_DIAG_REQUEST, fr_sender = MC_NODE_DIAGNOSTICS,
                   fr_data = [MC_NODE_DIAGNOSTICS, service, request_id, 0], fr_len = MC_DIAG_REQUEST_MSG_SIZE\<rparr>
      in case handle_diag_request taken ctx frame of
           (None, ctx) \<Rightarrow> ([], ctx)
         | (Some answer, ctx) \<Rightarrow> (send_diag_response service request_id answer, ctx))"

definition synth_bms_fault :: "bool \<Rightarrow> u8 \<Rightarrow> gateway_ctx_t \<Rightarrow> event list \<times> gateway_ctx_t" where
  "synth_bms_fault taken fault_code ctx =
     ([], handle_bms_fault taken ctx \<lparr>fr_id = MC_MSG_BMS_FAULT, fr_sender = MC_NODE_BMS, fr_data = [fault_code], fr_len = 1\<rparr>)"

definition synth_report_fault :: "bool \<Rightarrow> u8 \<Rightarrow> u8 \<Rightarrow> u8 \<Rightarrow> gateway_ctx_t \<Rightarrow> event list \<times> gateway_ctx_t" where
  "synth_report_fault taken node fault_code severity ctx =
     ([], if taken then ctx\<lparr>gx_fm := snd (fault_manager_report (gx_fm ctx) node fault_code severity)\<rparr> else ctx)"

text \<open>The steps of the script after the first.\<close>

definition diag_later_steps ::
  "bool \<Rightarrow> gateway_script_t \<Rightarrow> u32 \<Rightarrow> event list \<times> gateway_ctx_t \<times> u32 \<Rightarrow> event list \<times> gateway_ctx_t \<times> u32" where
  "diag_later_steps taken s ms acc =
     (let acc = scripted ms 200 0x02 (synth_diag_request taken MC_DIAG_READ_MODE 2) acc;
          acc = (if sx_diag_dogfood_inject_fault s \<noteq> 0
                 then let acc = scripted ms 300 0x04 (synth_bms_fault taken MC_BMS_FAULT_OVERTEMP) acc
                      in if sx_diag_extra_pt_fault s \<noteq> 0
                         then scripted ms 310 0x80
                                (synth_report_fault taken MC_NODE_POWERTRAIN MC_WARN_POWERTRAIN_OFFLINE 1) acc
                         else acc
                 else acc);
          acc = scripted ms 350 0x08 (synth_diag_request taken MC_DIAG_ACTUATOR_TEST 6) acc;
          acc = scripted ms 450 0x10 (synth_diag_request taken MC_DIAG_READ_DTCS 3) acc;
          acc = scripted ms 650 0x20 (synth_diag_request taken MC_DIAG_CLEAR_DTCS 4) acc
      in scripted ms 750 0x40 (synth_diag_request taken MC_DIAG_READ_DTCS 5) acc)"

definition run_dogfood_diag_script :: "bool \<Rightarrow> gateway_script_t \<Rightarrow> event list \<times> gateway_script_t" where
  "run_dogfood_diag_script taken s =
     (if sx_diag_dogfood_script s = 0 then ([], s)
      else let ms = sx_diag_script_ms s + 10;
               acc = ([], sx_ctx s, sx_diag_script_sent s);
               acc = scripted ms 100 0x01 (synth_diag_request taken MC_DIAG_START_SESSION 1) acc
           in case diag_later_steps taken s ms acc of (evs, ctx, sent) \<Rightarrow>
              (evs, s\<lparr>sx_ctx := ctx, sx_diag_script_ms := ms, sx_diag_script_sent := sent\<rparr>))"

definition startdrive_step :: "bool \<Rightarrow> gateway_ctx_t \<Rightarrow> event list \<times> gateway_ctx_t" where
  "startdrive_step taken ctx =
     synth_diag_request taken MC_DIAG_START_SESSION 1 (ctx\<lparr>gx_gs := (gx_gs ctx)\<lparr>cg_mode := VEHICLE_DRIVE\<rparr>\<rparr>)"

definition run_dogfood_diag_startdrive_script :: "bool \<Rightarrow> gateway_script_t \<Rightarrow> event list \<times> gateway_script_t" where
  "run_dogfood_diag_startdrive_script taken s =
     (if sx_diag_startdrive_script s = 0 then ([], s)
      else let ms = sx_startdrive_script_ms s + 10;
               acc = ([], sx_ctx s, sx_startdrive_script_sent s);
               acc = scripted ms 100 0x01 (startdrive_step taken) acc;
               acc = scripted ms 200 0x02 (synth_diag_request taken MC_DIAG_READ_MODE 2) acc
           in case acc of (evs, ctx, sent) \<Rightarrow>
              (evs, s\<lparr>sx_ctx := ctx, sx_startdrive_script_ms := ms, sx_startdrive_script_sent := sent\<rparr>))"

definition plug_in :: "gateway_ctx_t \<Rightarrow> event list \<times> gateway_ctx_t" where
  "plug_in ctx =
     (let ctx = ctx\<lparr>gx_gs := (gx_gs ctx)\<lparr>cg_mode := Firmware.VEHICLE_CHARGING\<rparr>\<rparr>
      in ([(''charging_plug'', 1), (''gateway_charging_state'', cg_mode (gx_gs ctx))], ctx))"

definition request_drive :: "gateway_ctx_t \<Rightarrow> event list \<times> gateway_ctx_t" where
  "request_drive ctx =
     (let ctx = ctx\<lparr>gx_gs := gateway_state_enter_drive (gx_gs ctx)\<rparr>;
          blocked = (if cg_mode (gx_gs ctx) = Firmware.VEHICLE_CHARGING then 1 else 0)
      in ([(''charging_drive_blocked'', blocked), (''gateway_charging_state'', cg_mode (gx_gs ctx))], ctx))"

definition run_dogfood_charging_script :: "gateway_script_t \<Rightarrow> event list \<times> gateway_script_t" where
  "run_dogfood_charging_script s =
     (if sx_charging_dogfood_script s = 0 then ([], s)
      else let ms = sx_charging_script_ms s + 10;
               acc = ([], sx_ctx s, sx_charging_script_sent s);
               acc = scripted ms 100 0x01 plug_in acc;
               acc = scripted ms 300 0x02 request_drive acc
           in case acc of (evs, ctx, sent) \<Rightarrow>
              (evs, s\<lparr>sx_ctx := ctx, sx_charging_script_ms := ms, sx_charging_script_sent := sent\<rparr>))"

subsection \<open>The loop with its scripts\<close>

text \<open>
  A pass: the frames received since the pass before, the queued heartbeats, the scripts, and the rest of
  the loop. The mutex is free when the receiving task and the scripts ask for it. The update script, which
  touches no other part of the context, is run by itself above.
\<close>

definition dequeue_heartbeats :: "u32 \<Rightarrow> gateway_ctx_t \<Rightarrow> gateway_ctx_t" where
  "dequeue_heartbeats now ctx =
     (fold (\<lambda>sender ctx. handle_heartbeat ctx now sender) (gx_hb_queue ctx) ctx)\<lparr>gx_hb_queue := []\<rparr>"

definition run_scripts :: "gateway_script_t \<Rightarrow> event list \<times> gateway_script_t" where
  "run_scripts s =
     (let (e1, s) = run_dogfood_diag_script True s;
          (e2, s) = run_dogfood_diag_startdrive_script True s;
          (e3, s) = run_dogfood_charging_script s
      in (e1 @ e2 @ e3, s))"

type_synonym pass_env = "(u32 \<times> u8 list \<times> u32) list \<times> (bool \<times> bool \<times> bool) \<times> u32"

definition received_in_pass :: "pass_env \<Rightarrow> gateway_ctx_t \<Rightarrow> gateway_ctx_t" where
  "received_in_pass env ctx = (case env of (rx, mutex, now) \<Rightarrow>
     dequeue_heartbeats now (fold (\<lambda>m ctx. dispatch_frame_in_rx True ctx (rx_frame m)) rx ctx))"

definition script_pass :: "pass_env \<Rightarrow> gateway_script_t \<Rightarrow> event list \<times> gateway_script_t" where
  "script_pass env s =
     (let (evs, s) = run_scripts (s\<lparr>sx_ctx := received_in_pass env (sx_ctx s)\<rparr>)
      in case env of (rx, mutex, now) \<Rightarrow> (evs, s\<lparr>sx_ctx := snd (gateway_cycle mutex now (sx_ctx s))\<rparr>))"

text \<open>
  A quiet pass: no fault and no diagnostics request arrives from the bus, the loop gets the mutex for
  the mode, and it does not record a lost battery.
\<close>

definition quiet_pass :: "pass_env \<Rightarrow> gateway_script_t \<Rightarrow> bool" where
  "quiet_pass env s = (case env of (rx, (taken_report, taken_mode, taken_send), now) \<Rightarrow>
     list_all (\<lambda>m. fst m \<noteq> MC_MSG_BMS_FAULT \<and> fst m \<noteq> MC_MSG_DIAG_REQUEST) rx \<and> taken_mode
     \<and> (let ctx = sx_ctx (snd (run_scripts (s\<lparr>sx_ctx := received_in_pass env (sx_ctx s)\<rparr>)))
        in gx_fm (before_mode taken_report now ctx) = gx_fm ctx))"

fun quiet_run :: "pass_env list \<Rightarrow> gateway_script_t \<Rightarrow> (event list \<times> gateway_script_t) option" where
  "quiet_run [] s = Some ([], s)"
| "quiet_run (env # envs) s =
     (if quiet_pass env s
      then (case script_pass env s of (evs, s) \<Rightarrow>
              map_option (\<lambda>(evs', s). (evs @ evs', s)) (quiet_run envs s))
      else None)"

definition script_init :: "u8 \<times> u8 \<times> u8 \<Rightarrow> u8 \<Rightarrow> u8 \<Rightarrow> u8 \<times> u8 \<Rightarrow> gateway_script_t" where
  "script_init diag startdrive charging bugs =
     (case diag of (script, inject_fault, extra_pt_fault) \<Rightarrow>
      \<lparr>sx_ctx = gateway_init (fst bugs) (snd bugs), sx_diag_dogfood_script = script,
       sx_diag_dogfood_inject_fault = inject_fault, sx_diag_extra_pt_fault = extra_pt_fault,
       sx_diag_startdrive_script = startdrive, sx_diag_script_ms = 0, sx_diag_script_sent = 0,
       sx_startdrive_script_ms = 0, sx_startdrive_script_sent = 0,
       sx_charging_dogfood_script = charging, sx_charging_script_ms = 0, sx_charging_script_sent = 0\<rparr>)"

definition silent :: pass_env where
  "silent = ([], (True, True, True), 0)"

end
