(* ===== verification/Firmware_Lockstep.thy ===== *)
theory Firmware_Lockstep
  imports Firmware_Scripts
begin

text \<open>
  The scripted gateway firmware in a vehicle whose other nodes send heartbeats: what it traces does not
  depend on them, as long as nothing else records a fault. The interface \<open>lockstep\<close> carries the
  events of a run on a silent bus over to every such run; it is interpreted once for each script.
\<close>

subsection \<open>Runs in lock step with a silent bus\<close>

text \<open>
  The scripts depend on the faults, the session and the mode; the heartbeats only reach them through
  the mode. A relation between two states that every quiet pass of the first and every pass on a
  silent bus of the second keep, with the same events of one kind, carries these events of the silent
  run over.
\<close>

locale lockstep =
  fixes R :: "gateway_script_t \<Rightarrow> gateway_script_t \<Rightarrow> bool"
    and keep :: "event \<Rightarrow> bool"
  assumes step: "R s t \<Longrightarrow> quiet_pass env s \<Longrightarrow>
    filter keep (fst (script_pass env s)) = filter keep (fst (script_pass silent t))
    \<and> R (snd (script_pass env s)) (snd (script_pass silent t))"
begin

lemma run:
  "R s t \<Longrightarrow> quiet_run envs s = Some (evs, s') \<Longrightarrow>
   filter keep evs = filter keep (fst (passes (script_pass silent) (length envs) t))"
proof (induction envs arbitrary: s t evs)
  case (Cons env envs)
  from Cons.prems(2) obtain evs' where
    q: "quiet_pass env s" "quiet_run envs (snd (script_pass env s)) = Some (evs', s')" "evs = fst (script_pass env s) @ evs'"
    by (auto simp: case_prod_beta split: if_splits)
  from step [OF Cons.prems(1) q(1)] Cons.IH [OF _ q(2)] q(3) show ?case
    by (simp add: Let_def case_prod_beta)
qed simp

end

lemma ignored_frame:
  assumes "fst m \<noteq> MC_MSG_BMS_FAULT" "fst m \<noteq> MC_MSG_DIAG_REQUEST"
  shows "\<exists>q. dispatch_frame_in_rx taken ctx (rx_frame m) = ctx\<lparr>gx_hb_queue := q\<rparr>"
proof -
  have "fr_id (rx_frame m) = fst m" by (simp add: rx_frame_def case_prod_beta)
  with assms show ?thesis
    by (intro exI [of _ "gx_hb_queue (dispatch_frame_in_rx taken ctx (rx_frame m))"])
      (simp add: dispatch_frame_in_rx_def)
qed

lemma ignored_frames:
  "list_all (\<lambda>m. fst m \<noteq> MC_MSG_BMS_FAULT \<and> fst m \<noteq> MC_MSG_DIAG_REQUEST) rx \<Longrightarrow>
   \<exists>q. fold (\<lambda>m ctx. dispatch_frame_in_rx True ctx (rx_frame m)) rx ctx = ctx\<lparr>gx_hb_queue := q\<rparr>"
proof (induction rx arbitrary: ctx)
  case Nil
  show ?case by (rule exI [of _ "gx_hb_queue ctx"]) simp
next
  case (Cons m rx)
  from ignored_frame [of m True ctx] Cons.prems obtain q where
    "dispatch_frame_in_rx True ctx (rx_frame m) = ctx\<lparr>gx_hb_queue := q\<rparr>" by auto
  with Cons.IH [of "ctx\<lparr>gx_hb_queue := q\<rparr>"] Cons.prems show ?case by auto
qed

lemma fold_beats: "\<exists>hm. fold (\<lambda>sender ctx. handle_heartbeat ctx now sender) ss ctx = ctx\<lparr>gx_hm := hm\<rparr>"
proof (induction ss arbitrary: ctx)
  case Nil
  show ?case by (rule exI [of _ "gx_hm ctx"]) simp
next
  case (Cons x ss)
  from Cons.IH [of "handle_heartbeat ctx now x"] show ?case by (auto simp: handle_heartbeat_def)
qed

lemma received_quietly:
  assumes "list_all (\<lambda>m. fst m \<noteq> MC_MSG_BMS_FAULT \<and> fst m \<noteq> MC_MSG_DIAG_REQUEST) (fst env)"
  shows "\<exists>hm. received_in_pass env ctx = ctx\<lparr>gx_hm := hm, gx_hb_queue := []\<rparr>"
proof -
  obtain rx mutex now where env: "env = (rx, mutex, now)" by (cases env)
  from ignored_frames [of rx ctx] assms env obtain q where
    q: "fold (\<lambda>m ctx. dispatch_frame_in_rx True ctx (rx_frame m)) rx ctx = ctx\<lparr>gx_hb_queue := q\<rparr>" by auto
  from fold_beats [of now q "ctx\<lparr>gx_hb_queue := q\<rparr>"] obtain hm where
    "fold (\<lambda>sender ctx. handle_heartbeat ctx now sender) q (ctx\<lparr>gx_hb_queue := q\<rparr>) = ctx\<lparr>gx_hb_queue := q, gx_hm := hm\<rparr>"
    by auto
  then show ?thesis by (intro exI [of _ hm]) (simp add: env received_in_pass_def dequeue_heartbeats_def q)
qed

text \<open>A gateway that never heard of a node, and what is left of a pass of its loop.\<close>

definition unheard :: "gateway_ctx_t \<Rightarrow> bool" where
  "unheard ctx \<longleftrightarrow> gx_hm ctx = gx_hm (gateway_init 0 0) \<and> gx_hb_queue ctx = []"

lemma unheard_check: "heartbeat_monitor_check (gx_hm (gateway_init 0 0)) 0 = (0, gx_hm (gateway_init 0 0))"
  by code_simp

lemma unheard_before_mode: "unheard ctx \<Longrightarrow> before_mode tr 0 ctx = ctx"
  by (simp add: unheard_def before_mode_def report_lost_bms_def unheard_check)

lemma unheard_received: "unheard ctx \<Longrightarrow> received_in_pass silent ctx = ctx"
  by (simp add: unheard_def received_in_pass_def silent_def dequeue_heartbeats_def)

text \<open>The mode a pass ends with when the fault table stays as it is.\<close>

definition mode_after :: "gateway_ctx_t \<Rightarrow> u8 \<Rightarrow> mc_vehicle_mode_t" where
  "mode_after ctx online =
     (if fault_manager_has_critical (gx_fm ctx) = 0 \<and> gx_diag_session_active ctx \<noteq> 0 then Firmware.VEHICLE_SERVICE
      else mc_gateway_determine_mode (cg_mode (gx_gs ctx)) online (fault_manager_has_critical (gx_fm ctx)) 0 1)"

definition keeps_flags :: "gateway_ctx_t \<Rightarrow> gateway_ctx_t \<Rightarrow> bool" where
  "keeps_flags ctx ctx' \<longleftrightarrow> gx_fm ctx' = gx_fm ctx \<and> gx_diag_session_active ctx' = gx_diag_session_active ctx
     \<and> gx_diag_clear_all_bug ctx' = gx_diag_clear_all_bug ctx
     \<and> gx_diag_startsession_drive_bug ctx' = gx_diag_startsession_drive_bug ctx"

lemma before_mode_bugs:
  "gx_diag_clear_all_bug (before_mode tr now ctx) = gx_diag_clear_all_bug ctx"
  "gx_diag_startsession_drive_bug (before_mode tr now ctx) = gx_diag_startsession_drive_bug ctx"
proof -
  obtain hm where "fold (\<lambda>sender ctx. handle_heartbeat ctx now sender) (gx_hb_queue ctx) ctx = ctx\<lparr>gx_hm := hm\<rparr>"
    using fold_beats by blast
  then show "gx_diag_clear_all_bug (before_mode tr now ctx) = gx_diag_clear_all_bug ctx"
    "gx_diag_startsession_drive_bug (before_mode tr now ctx) = gx_diag_startsession_drive_bug ctx"
    by (simp_all add: before_mode_def report_lost_bms_def Let_def case_prod_beta)
qed

lemma cycle_rest:
  assumes "gx_fm (before_mode tr now ctx) = gx_fm ctx"
  shows "keeps_flags ctx (snd (gateway_cycle (tr, True, ts) now ctx))"
    and "\<exists>online. cg_mode (gx_gs (snd (gateway_cycle (tr, True, ts) now ctx))) = mode_after ctx online"
proof -
  show "keeps_flags ctx (snd (gateway_cycle (tr, True, ts) now ctx))"
    by (simp add: keeps_flags_def gateway_cycle_state assms update_vehicle_mode_def gateway_state_update_def Let_def
        before_mode_bugs)
  show "\<exists>online. cg_mode (gx_gs (snd (gateway_cycle (tr, True, ts) now ctx))) = mode_after ctx online"
    by (auto simp: gateway_cycle_state update_vehicle_mode_value assms mode_after_def Let_def)
qed

lemma unheard_cycle: "unheard ctx \<Longrightarrow> unheard (snd (gateway_cycle (True, True, True) 0 ctx))"
  by (simp add: gateway_cycle_state unheard_before_mode)
    (simp add: unheard_def update_vehicle_mode_def gateway_state_update_def unheard_check Let_def)

lemma quiet_passE:
  assumes "quiet_pass env s"
  obtains rx tr ts now where "env = (rx, (tr, True, ts), now)"
    "list_all (\<lambda>m. fst m \<noteq> MC_MSG_BMS_FAULT \<and> fst m \<noteq> MC_MSG_DIAG_REQUEST) (fst env)"
  using assms by (auto simp: quiet_pass_def split: prod.splits)

subsection \<open>The diagnostics script in lock step\<close>

definition same_ctx :: "gateway_ctx_t \<Rightarrow> gateway_ctx_t \<Rightarrow> bool" where
  "same_ctx c d \<longleftrightarrow> keeps_flags d c \<and> unheard d
     \<and> cg_mode (gx_gs c) \<noteq> VEHICLE_DRIVE \<and> cg_mode (gx_gs d) \<noteq> VEHICLE_DRIVE
     \<and> (gx_diag_session_active c \<noteq> 0 \<longrightarrow> cg_mode (gx_gs c) = cg_mode (gx_gs d))"

definition in_session :: "gateway_ctx_t \<Rightarrow> gateway_ctx_t \<Rightarrow> bool" where
  "in_session c d \<longleftrightarrow> same_ctx c d \<and> gx_diag_session_active c \<noteq> 0"

definition same_act :: "(gateway_ctx_t \<Rightarrow> event list \<times> gateway_ctx_t) \<Rightarrow> gateway_ctx_t \<Rightarrow> gateway_ctx_t \<Rightarrow> bool" where
  "same_act act c d \<longleftrightarrow> fst (act c) = fst (act d) \<and> in_session (snd (act c)) (snd (act d))"

lemma start_in_session: "same_ctx c d \<Longrightarrow> same_act (synth_diag_request True MC_DIAG_START_SESSION n) c d"
  by (auto simp: same_act_def synth_diag_request_def handle_diag_request_def Let_def same_ctx_def in_session_def
      keeps_flags_def unheard_def c_enum)

lemma request_in_session:
  "in_session c d \<Longrightarrow> service \<noteq> MC_DIAG_END_SESSION \<Longrightarrow> same_act (synth_diag_request True service n) c d"
  by (auto simp: same_act_def synth_diag_request_def handle_diag_request_def first_active_dtc_def Let_def same_ctx_def
      in_session_def keeps_flags_def unheard_def c_enum split: prod.split)

lemma report_in_session:
  "in_session c d \<Longrightarrow> same_act (synth_bms_fault True code) c d"
  "in_session c d \<Longrightarrow> same_act (synth_report_fault True node code severity) c d"
  by (auto simp: same_act_def synth_bms_fault_def synth_report_fault_def handle_bms_fault_def Let_def same_ctx_def
      in_session_def keeps_flags_def unheard_def)

text \<open>Two accumulators of a script with the same events and mask, in related contexts.\<close>

definition same_acc ::
  "event list \<times> gateway_ctx_t \<times> u32 \<Rightarrow> event list \<times> gateway_ctx_t \<times> u32 \<Rightarrow> bool" where
  "same_acc a b \<longleftrightarrow> fst a = fst b \<and> snd (snd a) = snd (snd b) \<and> in_session (fst (snd a)) (fst (snd b))"

lemma scripted_same:
  assumes "same_acc a b" "\<And>c d. in_session c d \<Longrightarrow> same_act act c d"
  shows "same_acc (scripted ms due once act a) (scripted ms due once act b)"
  using assms by (auto simp: same_acc_def scripted_def same_act_def case_prod_beta Let_def)

lemma scripted_early: "ms < first \<Longrightarrow> first \<le> due \<Longrightarrow> scripted ms due once act acc = acc"
  by (auto simp: scripted_def case_prod_beta dest: less_le_trans)

lemma scripted_mask: "and (snd (snd (scripted ms due once act acc))) bits = 0 \<Longrightarrow> and (snd (snd acc)) bits = 0"
  by (auto simp: scripted_def case_prod_beta Let_def bit_eq_iff bit_simps split: if_splits)

lemma first_step_same:
  assumes "same_ctx c d" "and sent 1 \<noteq> 0 \<Longrightarrow> gx_diag_session_active c \<noteq> 0" "100 \<le> ms"
  shows "same_acc (scripted ms 100 1 (synth_diag_request True MC_DIAG_START_SESSION 1) ([], c, sent))
                  (scripted ms 100 1 (synth_diag_request True MC_DIAG_START_SESSION 1) ([], d, sent))"
  using assms start_in_session [OF assms(1), of 1]
  by (auto simp: scripted_def same_acc_def same_act_def in_session_def case_prod_beta Let_def)

definition diag_rel :: "gateway_script_t \<Rightarrow> gateway_script_t \<Rightarrow> bool" where
  "diag_rel s t \<longleftrightarrow> s\<lparr>sx_ctx := sx_ctx t\<rparr> = t \<and> same_ctx (sx_ctx s) (sx_ctx t)
     \<and> sx_diag_dogfood_script s \<noteq> 0 \<and> sx_diag_startdrive_script s = 0 \<and> sx_charging_dogfood_script s = 0
     \<and> (and (sx_diag_script_sent s) 1 \<noteq> 0 \<longrightarrow> gx_diag_session_active (sx_ctx s) \<noteq> 0)"

lemma later_steps_same: "same_acc a b \<Longrightarrow> same_acc (diag_later_steps True s ms a) (diag_later_steps True s ms b)"
  unfolding diag_later_steps_def Let_def
  by (auto intro!: scripted_same request_in_session report_in_session simp: c_enum)

lemma later_steps_early: "ms < 100 \<Longrightarrow> diag_later_steps True s ms acc = acc"
  unfolding diag_later_steps_def Let_def by (simp add: scripted_early [where first = 100])

lemma diag_script_same:
  assumes "same_ctx c d" "and sent 1 \<noteq> 0 \<Longrightarrow> gx_diag_session_active c \<noteq> 0"
    and "a = diag_later_steps True s ms (scripted ms 100 1 (synth_diag_request True MC_DIAG_START_SESSION 1) ([], c, sent))"
    and "b = diag_later_steps True s ms (scripted ms 100 1 (synth_diag_request True MC_DIAG_START_SESSION 1) ([], d, sent))"
  shows "fst a = fst b" "snd (snd a) = snd (snd b)" "same_ctx (fst (snd a)) (fst (snd b))"
    "and (snd (snd a)) 1 \<noteq> 0 \<Longrightarrow> gx_diag_session_active (fst (snd a)) \<noteq> 0"
proof -
  have "fst a = fst b \<and> snd (snd a) = snd (snd b) \<and> same_ctx (fst (snd a)) (fst (snd b))
    \<and> (and (snd (snd a)) 1 \<noteq> 0 \<longrightarrow> gx_diag_session_active (fst (snd a)) \<noteq> 0)"
  proof (cases "100 \<le> ms")
    case True
    have "same_acc a b"
      unfolding assms(3,4) by (intro later_steps_same first_step_same assms(1,2) True)
    then show ?thesis by (simp add: same_acc_def in_session_def)
  next
    case False
    with assms show ?thesis by (simp add: scripted_early [where first = 100] later_steps_early not_le)
  qed
  then show "fst a = fst b" "snd (snd a) = snd (snd b)" "same_ctx (fst (snd a)) (fst (snd b))"
    "and (snd (snd a)) 1 \<noteq> 0 \<Longrightarrow> gx_diag_session_active (fst (snd a)) \<noteq> 0" by blast+
qed

lemma mode_after_same:
  assumes "same_ctx c d"
  shows "mode_after c on \<noteq> VEHICLE_DRIVE" "mode_after d on' \<noteq> VEHICLE_DRIVE"
    "gx_diag_session_active c \<noteq> 0 \<Longrightarrow> mode_after c on = mode_after d on'"
  using assms by (auto simp: same_ctx_def keeps_flags_def mode_after_def mc_gateway_determine_mode_def c_enum)

lemma same_ctx_cycle:
  assumes "same_ctx c d" "gx_fm (before_mode tr now c) = gx_fm c"
  shows "same_ctx (snd (gateway_cycle (tr, True, ts) now c)) (snd (gateway_cycle (True, True, True) 0 d))"
proof -
  from assms(1) have u: "unheard d" by (simp add: same_ctx_def)
  note rest = cycle_rest [OF assms(2), of ts] cycle_rest [of True 0 d True, unfolded unheard_before_mode [OF u], OF refl]
  from rest(2,4) obtain on on' where
    m: "cg_mode (gx_gs (snd (gateway_cycle (tr, True, ts) now c))) = mode_after c on"
       "cg_mode (gx_gs (snd (gateway_cycle (True, True, True) 0 d))) = mode_after d on'" by blast
  show ?thesis
    unfolding same_ctx_def m
    using rest(1,3) assms(1) unheard_cycle [OF u] mode_after_same(1) [OF assms(1), of on]
      mode_after_same(2) [OF assms(1), of on'] mode_after_same(3) [OF assms(1), of on on']
    by (simp add: same_ctx_def keeps_flags_def)
qed

lemma diag_scripts_only:
  assumes "sx_diag_dogfood_script s \<noteq> 0" "sx_diag_startdrive_script s = 0" "sx_charging_dogfood_script s = 0"
  shows "run_scripts (s\<lparr>sx_ctx := c\<rparr>) =
    (let ms = sx_diag_script_ms s + 10;
         (evs, ctx, sent) = diag_later_steps True s ms
           (scripted ms 100 1 (synth_diag_request True MC_DIAG_START_SESSION 1) ([], c, sx_diag_script_sent s))
     in (evs, s\<lparr>sx_ctx := ctx, sx_diag_script_ms := ms, sx_diag_script_sent := sent\<rparr>))"
proof -
  have "diag_later_steps True (s\<lparr>sx_ctx := c\<rparr>) = diag_later_steps True s"
    by (intro ext) (simp add: diag_later_steps_def Let_def)
  with assms show ?thesis
    by (simp add: run_scripts_def run_dogfood_diag_script_def run_dogfood_diag_startdrive_script_def
        run_dogfood_charging_script_def Let_def case_prod_beta)
qed

interpretation dls: lockstep diag_rel "\<lambda>e. True"
proof unfold_locales
  fix s t env
  assume rel: "diag_rel s t" and q: "quiet_pass env s"
  from q obtain rx tr ts now where env: "env = (rx, (tr, True, ts), now)"
    and rx: "list_all (\<lambda>m. fst m \<noteq> MC_MSG_BMS_FAULT \<and> fst m \<noteq> MC_MSG_DIAG_REQUEST) (fst env)"
    by (rule quiet_passE)
  from received_quietly [OF rx] obtain hm where
    got: "received_in_pass env (sx_ctx s) = (sx_ctx s)\<lparr>gx_hm := hm, gx_hb_queue := []\<rparr>" by blast
  let ?c = "received_in_pass env (sx_ctx s)" and ?d = "sx_ctx t"
  have t: "t = s\<lparr>sx_ctx := ?d\<rparr>" and same: "same_ctx (sx_ctx s) ?d" using rel by (simp_all add: diag_rel_def)
  have same': "same_ctx ?c ?d" using same by (simp add: got same_ctx_def keeps_flags_def)
  have d: "received_in_pass silent ?d = ?d" using same by (simp add: unheard_received same_ctx_def)
  define steps where "steps x = (let ms = sx_diag_script_ms s + 10
    in diag_later_steps True s ms (scripted ms 100 1 (synth_diag_request True MC_DIAG_START_SESSION 1)
         ([], x, sx_diag_script_sent s)))" for x
  have run: "run_scripts (s\<lparr>sx_ctx := x\<rparr>) = (fst (steps x), s\<lparr>sx_ctx := fst (snd (steps x)),
      sx_diag_script_ms := sx_diag_script_ms s + 10, sx_diag_script_sent := snd (snd (steps x))\<rparr>)" for x
    using rel by (simp add: diag_rel_def diag_scripts_only steps_def Let_def case_prod_beta)
  have t': "t\<lparr>sx_ctx := x\<rparr> = s\<lparr>sx_ctx := x\<rparr>" for x by (subst t) simp
  have sent: "and (sx_diag_script_sent s) 1 \<noteq> 0 \<longrightarrow> gx_diag_session_active ?c \<noteq> 0"
    using rel by (simp add: diag_rel_def got)
  note st = diag_script_same [OF same' sent [THEN mp] steps_def [of ?c, unfolded Let_def] steps_def [of ?d, unfolded Let_def]]
  have fm: "gx_fm (before_mode tr now (fst (snd (steps ?c)))) = gx_fm (fst (snd (steps ?c)))"
    using q by (simp add: quiet_pass_def env run Let_def)
  have p: "script_pass env s = (fst (steps ?c), s\<lparr>sx_ctx := snd (gateway_cycle (tr, True, ts) now (fst (snd (steps ?c)))),
      sx_diag_script_ms := sx_diag_script_ms s + 10, sx_diag_script_sent := snd (snd (steps ?c))\<rparr>)"
    by (simp add: script_pass_def run env)
  have p': "script_pass silent t = (fst (steps ?d), s\<lparr>sx_ctx := snd (gateway_cycle (True, True, True) 0 (fst (snd (steps ?d)))),
      sx_diag_script_ms := sx_diag_script_ms s + 10, sx_diag_script_sent := snd (snd (steps ?d))\<rparr>)"
    by (simp add: script_pass_def d t' run) (simp add: silent_def)
  show "filter (\<lambda>e. True) (fst (script_pass env s)) = filter (\<lambda>e. True) (fst (script_pass silent t))
      \<and> diag_rel (snd (script_pass env s)) (snd (script_pass silent t))"
    using same_ctx_cycle [OF st(3) fm, of ts] st(1,2,4) rel cycle_rest(1) [OF fm, of ts]
    by (simp add: p p' diag_rel_def keeps_flags_def)
qed

text \<open>Once every step of the script has run, nothing more is traced.\<close>

definition diag_done :: "u8 \<Rightarrow> u8 \<Rightarrow> u32 \<Rightarrow> gateway_script_t \<Rightarrow> bool" where
  "diag_done inject extra sent s \<longleftrightarrow> sx_diag_dogfood_script s \<noteq> 0 \<and> sx_diag_startdrive_script s = 0
     \<and> sx_charging_dogfood_script s = 0 \<and> sx_diag_dogfood_inject_fault s = inject
     \<and> sx_diag_extra_pt_fault s = extra \<and> sx_diag_script_sent s = sent"

lemma diag_quiet_scripts:
  assumes "diag_done inject extra sent s" "(inject, extra, sent) \<in> {(0, 0, 0x7B), (1, 0, 0x7F), (1, 1, 0xFF)}"
  shows "run_scripts (s\<lparr>sx_ctx := c\<rparr>) = ([], s\<lparr>sx_ctx := c, sx_diag_script_ms := sx_diag_script_ms s + 10\<rparr>)"
proof -
  have "diag_later_steps True s ms (scripted ms 100 1 act ([], c, sent)) = ([], c, sent)" for ms act
    using assms by (elim insertE) (simp_all add: diag_done_def diag_later_steps_def scripted_def)
  with assms(1) show ?thesis by (simp add: diag_done_def diag_scripts_only Let_def)
qed

lemma diag_quiet:
  assumes "diag_done inject extra sent s" "(inject, extra, sent) \<in> {(0, 0, 0x7B), (1, 0, 0x7F), (1, 1, 0xFF)}"
  shows "fst (script_pass silent s) = [] \<and> diag_done inject extra sent (snd (script_pass silent s))"
  using diag_quiet_scripts [OF assms] assms(1) by (simp add: script_pass_def silent_def diag_done_def)

definition diag_run_of :: "u8 \<Rightarrow> u8 \<Rightarrow> u8 \<Rightarrow> event list \<times> u32" where
  "diag_run_of inject extra clear_all_bug =
     (case passes (script_pass silent) 75 (script_init (1, inject, extra) 0 0 (clear_all_bug, 0)) of
        (evs, s) \<Rightarrow> (evs, sx_diag_script_sent s))"

lemma diag_run_plain: "diag_run_of 0 0 0 =
     (send_diag_response 1 1 (0, 6, 0) @ send_diag_response 2 2 (0, 6, 0) @ send_diag_response 6 6 (0, 6, 0)
      @ send_diag_response 3 3 (0, 0, 0) @ send_diag_response 4 4 (0, 0, 0) @ send_diag_response 3 5 (0, 0, 0), 0x7B)"
  by code_simp

lemma diag_run_fault: "diag_run_of 1 0 0 =
     (send_diag_response 1 1 (0, 6, 0) @ send_diag_response 2 2 (0, 6, 0) @ send_diag_response 6 6 (0, 4, 0)
      @ send_diag_response 3 3 (0, 1, 1) @ send_diag_response 4 4 (0, 0, 0) @ send_diag_response 3 5 (0, 0, 0), 0x7F)"
  by code_simp

lemma diag_run_clear: "diag_run_of 1 1 0 =
     (send_diag_response 1 1 (0, 6, 0) @ send_diag_response 2 2 (0, 6, 0) @ send_diag_response 6 6 (0, 4, 0)
      @ send_diag_response 3 3 (0, 2, 1) @ send_diag_response 4 4 (0, 0, 0) @ send_diag_response 3 5 (0, 1, 3), 0xFF)"
  by code_simp

lemma diag_run_clear_bug: "diag_run_of 1 1 1 =
     (send_diag_response 1 1 (0, 6, 0) @ send_diag_response 2 2 (0, 6, 0) @ send_diag_response 6 6 (0, 4, 0)
      @ send_diag_response 3 3 (0, 2, 1) @ send_diag_response 4 4 (0, 0, 0) @ send_diag_response 3 5 (0, 0, 0), 0xFF)"
  by code_simp

lemma diag_rel_refl: "diag_rel (script_init (1, inject, extra) 0 0 bugs) (script_init (1, inject, extra) 0 0 bugs)"
  by (simp add: diag_rel_def script_init_def same_ctx_def keeps_flags_def unheard_def gateway_init_def Let_def
      gateway_state_init_def c_enum)

lemma diag_script_trace:
  assumes "quiet_run envs (script_init (1, inject, extra) 0 0 (bug, 0)) = Some (evs, s')" "75 \<le> length envs"
    and "diag_run_of inject extra bug = (evs', sent)"
    and "(inject, extra, sent) \<in> {(0, 0, 0x7B), (1, 0, 0x7F), (1, 1, 0xFF)}"
  shows "evs = evs'"
proof -
  let ?init = "script_init (1, inject, extra) 0 0 (bug, 0)"
  have flags: "sx_diag_dogfood_script (snd (passes (script_pass silent) n s)) = sx_diag_dogfood_script s
      \<and> sx_diag_startdrive_script (snd (passes (script_pass silent) n s)) = sx_diag_startdrive_script s
      \<and> sx_charging_dogfood_script (snd (passes (script_pass silent) n s)) = sx_charging_dogfood_script s
      \<and> sx_diag_dogfood_inject_fault (snd (passes (script_pass silent) n s)) = sx_diag_dogfood_inject_fault s
      \<and> sx_diag_extra_pt_fault (snd (passes (script_pass silent) n s)) = sx_diag_extra_pt_fault s" for n s
    by (induction n arbitrary: s) (simp_all add: Let_def case_prod_beta script_pass_def run_scripts_def
        run_dogfood_diag_script_def run_dogfood_diag_startdrive_script_def run_dogfood_charging_script_def silent_def)
  have "diag_done inject extra sent (snd (passes (script_pass silent) 75 ?init))"
    using assms(3) flags [of 75 ?init] by (simp add: diag_done_def diag_run_of_def case_prod_beta script_init_def)
  then have "fst (passes (script_pass silent) (length envs) ?init) = fst (passes (script_pass silent) 75 ?init)"
    using passes_settled [of "diag_done inject extra sent" "script_pass silent" 75 ?init "length envs"]
      diag_quiet [OF _ assms(4)] assms(2) by blast
  moreover have "evs = fst (passes (script_pass silent) (length envs) ?init)"
    using dls.run [OF diag_rel_refl assms(1)] by simp
  ultimately show ?thesis using assms(3) by (simp add: diag_run_of_def case_prod_beta)
qed

subsection \<open>The session request while driving\<close>

text \<open>The script puts the gateway in DRIVE and asks for a session at once; later it only reads the mode.\<close>

definition start_reply :: "event \<Rightarrow> bool" where
  "start_reply e \<longleftrightarrow> byte_at 16 (snd e) = 1"

definition drive_rel :: "gateway_script_t \<Rightarrow> gateway_script_t \<Rightarrow> bool" where
  "drive_rel s t \<longleftrightarrow> s\<lparr>sx_ctx := sx_ctx t\<rparr> = t \<and> unheard (sx_ctx t)
     \<and> gx_diag_startsession_drive_bug (sx_ctx s) = gx_diag_startsession_drive_bug (sx_ctx t)
     \<and> sx_diag_dogfood_script s = 0 \<and> sx_diag_startdrive_script s \<noteq> 0 \<and> sx_charging_dogfood_script s = 0"

definition drive_steps :: "gateway_script_t \<Rightarrow> gateway_ctx_t \<Rightarrow> event list \<times> gateway_ctx_t \<times> u32" where
  "drive_steps s ctx =
     (let ms = sx_startdrive_script_ms s + 10
      in scripted ms 200 2 (synth_diag_request True MC_DIAG_READ_MODE 2)
           (scripted ms 100 1 (startdrive_step True) ([], ctx, sx_startdrive_script_sent s)))"

lemma drive_scripts_only:
  assumes "sx_diag_dogfood_script s = 0" "sx_diag_startdrive_script s \<noteq> 0" "sx_charging_dogfood_script s = 0"
  shows "run_scripts (s\<lparr>sx_ctx := c\<rparr>) = (fst (drive_steps s c), s\<lparr>sx_ctx := fst (snd (drive_steps s c)),
    sx_startdrive_script_ms := sx_startdrive_script_ms s + 10, sx_startdrive_script_sent := snd (snd (drive_steps s c))\<rparr>)"
  using assms
  by (simp add: run_scripts_def run_dogfood_diag_script_def run_dogfood_diag_startdrive_script_def
      run_dogfood_charging_script_def drive_steps_def Let_def case_prod_beta)

lemma response_packed:
  "send_diag_response service n (status, v0, v1) =
     [(''gateway_diag_response'', pack_reply \<lparr>rp_req = n, rp_service = service, rp_status = status, rp_value0 = v0\<rparr>),
      (''gateway_diag_response_v1'', pack_reply \<lparr>rp_req = n, rp_service = service, rp_status = 0, rp_value0 = v1\<rparr>)]"
  by (simp add: send_diag_response_def pack_reply_def or.assoc)

lemmas reply_bytes = packed_byte_pack [unfolded packed_byte_eq]

lemma start_replies: "filter start_reply (send_diag_response service n r) = (if service = 1 then send_diag_response service n r else [])"
  by (cases r) (simp add: response_packed start_reply_def reply_bytes)

lemma read_mode_reply:
  "synth_diag_request True MC_DIAG_READ_MODE n ctx = (send_diag_response 2 n (0, ucast (cg_mode (gx_gs ctx)), 0), ctx)"
  by (simp add: synth_diag_request_def handle_diag_request_def Let_def c_enum)

definition startdrive_answer :: "u8 \<Rightarrow> u8 \<times> u8 \<times> u8" where
  "startdrive_answer bug = (if bug = 0 then (1, 2, 0) else (0, 6, 0))"

lemma startdrive_reply:
  "\<exists>session gs. startdrive_step True ctx =
     (send_diag_response 1 1 (startdrive_answer (gx_diag_startsession_drive_bug ctx)),
      ctx\<lparr>gx_diag_session_active := session, gx_gs := gs\<rparr>)"
proof (cases "gx_diag_startsession_drive_bug ctx = 0")
  case True
  then show ?thesis
    by (intro exI [of _ "gx_diag_session_active ctx"] exI [of _ "(gx_gs ctx)\<lparr>cg_mode := VEHICLE_DRIVE\<rparr>"])
      (simp add: startdrive_step_def synth_diag_request_def handle_diag_request_def Let_def c_enum startdrive_answer_def)
next
  case False
  then show ?thesis
    by (intro exI [of _ 1] exI [of _ "(gx_gs ctx)\<lparr>cg_mode := Firmware.VEHICLE_SERVICE\<rparr>"])
      (simp add: startdrive_step_def synth_diag_request_def handle_diag_request_def Let_def c_enum startdrive_answer_def)
qed

text \<open>What the two steps leave and trace, in terms of the flag and the mask.\<close>

lemma drive_steps_shape:
  "\<exists>session gs. fst (snd (drive_steps s ctx)) = ctx\<lparr>gx_diag_session_active := session, gx_gs := gs\<rparr>"
  "filter start_reply (fst (drive_steps s ctx)) =
     (if 100 \<le> sx_startdrive_script_ms s + 10 \<and> and (sx_startdrive_script_sent s) 1 = 0
      then send_diag_response 1 1 (startdrive_answer (gx_diag_startsession_drive_bug ctx)) else [])"
  "snd (snd (drive_steps s ctx)) = snd (snd (drive_steps s ctx'))"
proof -
  obtain session gs where st: "startdrive_step True ctx =
     (send_diag_response 1 1 (startdrive_answer (gx_diag_startsession_drive_bug ctx)),
      ctx\<lparr>gx_diag_session_active := session, gx_gs := gs\<rparr>)" using startdrive_reply by blast
  obtain session' gs' where st': "startdrive_step True ctx' =
     (send_diag_response 1 1 (startdrive_answer (gx_diag_startsession_drive_bug ctx')),
      ctx'\<lparr>gx_diag_session_active := session', gx_gs := gs'\<rparr>)" using startdrive_reply by blast
  show "\<exists>session gs. fst (snd (drive_steps s ctx)) = ctx\<lparr>gx_diag_session_active := session, gx_gs := gs\<rparr>"
    by (intro exI [of _ "gx_diag_session_active (fst (snd (drive_steps s ctx)))"]
        exI [of _ "gx_gs (fst (snd (drive_steps s ctx)))"])
      (simp add: drive_steps_def scripted_def Let_def st read_mode_reply)
  show "filter start_reply (fst (drive_steps s ctx)) =
     (if 100 \<le> sx_startdrive_script_ms s + 10 \<and> and (sx_startdrive_script_sent s) 1 = 0
      then send_diag_response 1 1 (startdrive_answer (gx_diag_startsession_drive_bug ctx)) else [])"
    by (simp add: drive_steps_def scripted_def Let_def st read_mode_reply start_replies)
  show "snd (snd (drive_steps s ctx)) = snd (snd (drive_steps s ctx'))"
    by (simp add: drive_steps_def scripted_def Let_def st st' read_mode_reply)
qed

interpretation drv: lockstep drive_rel start_reply
proof unfold_locales
  fix s t env
  assume rel: "drive_rel s t" and q: "quiet_pass env s"
  from q obtain rx tr ts now where env: "env = (rx, (tr, True, ts), now)"
    and rx: "list_all (\<lambda>m. fst m \<noteq> MC_MSG_BMS_FAULT \<and> fst m \<noteq> MC_MSG_DIAG_REQUEST) (fst env)"
    by (rule quiet_passE)
  from received_quietly [OF rx] obtain hm where
    got: "received_in_pass env (sx_ctx s) = (sx_ctx s)\<lparr>gx_hm := hm, gx_hb_queue := []\<rparr>" by blast
  let ?c = "received_in_pass env (sx_ctx s)" and ?d = "sx_ctx t"
  have t': "t\<lparr>sx_ctx := x\<rparr> = s\<lparr>sx_ctx := x\<rparr>" for x
  proof -
    have "t = s\<lparr>sx_ctx := ?d\<rparr>" using rel by (simp add: drive_rel_def)
    then show ?thesis by (metis gateway_script_t.fold_congs(1) gateway_script_t.surjective gateway_script_t.update_convs(1))
  qed
  have d: "unheard ?d" "received_in_pass silent ?d = ?d" using rel by (simp_all add: unheard_received drive_rel_def)
  have run: "run_scripts (s\<lparr>sx_ctx := x\<rparr>) = (fst (drive_steps s x), s\<lparr>sx_ctx := fst (snd (drive_steps s x)),
    sx_startdrive_script_ms := sx_startdrive_script_ms s + 10, sx_startdrive_script_sent := snd (snd (drive_steps s x))\<rparr>)" for x
    using rel by (intro drive_scripts_only) (simp_all add: drive_rel_def)
  let ?c' = "fst (snd (drive_steps s ?c))" and ?d' = "fst (snd (drive_steps s ?d))"
  obtain se gs se' gs' where c': "?c' = ?c\<lparr>gx_diag_session_active := se, gx_gs := gs\<rparr>"
    and d': "?d' = ?d\<lparr>gx_diag_session_active := se', gx_gs := gs'\<rparr>" using drive_steps_shape(1) by blast
  have fm: "gx_fm (before_mode tr now ?c') = gx_fm ?c'" using q by (simp add: quiet_pass_def env run Let_def)
  have u: "unheard ?d'" using d(1) by (simp add: d' unheard_def)
  have fm': "gx_fm (before_mode True 0 ?d') = gx_fm ?d'" by (simp add: unheard_before_mode [OF u])
  have p: "script_pass env s = (fst (drive_steps s ?c), s\<lparr>sx_ctx := snd (gateway_cycle (tr, True, ts) now ?c'),
      sx_startdrive_script_ms := sx_startdrive_script_ms s + 10, sx_startdrive_script_sent := snd (snd (drive_steps s ?c))\<rparr>)"
    by (simp add: script_pass_def run env)
  have p': "script_pass silent t = (fst (drive_steps s ?d), s\<lparr>sx_ctx := snd (gateway_cycle (True, True, True) 0 ?d'),
      sx_startdrive_script_ms := sx_startdrive_script_ms s + 10, sx_startdrive_script_sent := snd (snd (drive_steps s ?d))\<rparr>)"
    by (simp add: script_pass_def d t' run) (simp add: silent_def)
  have bug: "gx_diag_startsession_drive_bug ?c = gx_diag_startsession_drive_bug ?d" using rel by (simp add: got drive_rel_def)
  show "filter start_reply (fst (script_pass env s)) = filter start_reply (fst (script_pass silent t))
      \<and> drive_rel (snd (script_pass env s)) (snd (script_pass silent t))"
    using cycle_rest(1) [OF fm, of ts] cycle_rest(1) [OF fm', of True] rel bug unheard_cycle [OF u]
      drive_steps_shape(2) [of s ?c] drive_steps_shape(2) [of s ?d] drive_steps_shape(3) [of s ?c ?d]
    by (simp add: p p' drive_rel_def keeps_flags_def c' d')
qed

subsection \<open>The charging script\<close>

definition charging_rel :: "gateway_script_t \<Rightarrow> gateway_script_t \<Rightarrow> bool" where
  "charging_rel s t \<longleftrightarrow> s\<lparr>sx_ctx := sx_ctx t\<rparr> = t \<and> unheard (sx_ctx t) \<and> keeps_flags (sx_ctx t) (sx_ctx s)
     \<and> gx_diag_session_active (sx_ctx s) = 0 \<and> fault_manager_has_critical (gx_fm (sx_ctx s)) = 0
     \<and> sx_diag_dogfood_script s = 0 \<and> sx_diag_startdrive_script s = 0 \<and> sx_charging_dogfood_script s \<noteq> 0
     \<and> (sx_charging_script_sent s \<noteq> 0 \<longrightarrow> cg_mode (gx_gs (sx_ctx s)) = Firmware.VEHICLE_CHARGING
          \<and> cg_mode (gx_gs (sx_ctx t)) = Firmware.VEHICLE_CHARGING)"

definition charging_steps :: "gateway_script_t \<Rightarrow> gateway_ctx_t \<Rightarrow> event list \<times> gateway_ctx_t \<times> u32" where
  "charging_steps s ctx =
     (let ms = sx_charging_script_ms s + 10
      in scripted ms 300 2 request_drive (scripted ms 100 1 plug_in ([], ctx, sx_charging_script_sent s)))"

lemma charging_scripts_only:
  assumes "sx_diag_dogfood_script s = 0" "sx_diag_startdrive_script s = 0" "sx_charging_dogfood_script s \<noteq> 0"
  shows "run_scripts (s\<lparr>sx_ctx := c\<rparr>) = (fst (charging_steps s c), s\<lparr>sx_ctx := fst (snd (charging_steps s c)),
    sx_charging_script_ms := sx_charging_script_ms s + 10, sx_charging_script_sent := snd (snd (charging_steps s c))\<rparr>)"
  using assms
  by (simp add: run_scripts_def run_dogfood_diag_script_def run_dogfood_diag_startdrive_script_def
      run_dogfood_charging_script_def charging_steps_def Let_def case_prod_beta)

text \<open>Each step traces a fixed list and leaves the gateway in CHARGING, in which it is from the first one on.\<close>

lemma charging_step_acts:
  "plug_in ctx = ([(''charging_plug'', 1), (''gateway_charging_state'', 5)],
     ctx\<lparr>gx_gs := (gx_gs ctx)\<lparr>cg_mode := Firmware.VEHICLE_CHARGING\<rparr>\<rparr>)"
  "cg_mode (gx_gs ctx) = Firmware.VEHICLE_CHARGING \<Longrightarrow>
   request_drive ctx = ([(''charging_drive_blocked'', 1), (''gateway_charging_state'', 5)], ctx)"
  by (simp_all add: plug_in_def request_drive_def gateway_state_enter_drive_def Let_def c_enum)

lemma scripted_sent:
  "snd (snd (scripted ms due once act acc)) =
     (if due \<le> ms \<and> and (snd (snd acc)) once = 0 then or (snd (snd acc)) once else snd (snd acc))"
  by (simp add: scripted_def case_prod_beta Let_def)

lemma charging_steps_shape:
  assumes "sx_charging_script_sent s \<noteq> 0 \<longrightarrow> cg_mode (gx_gs ctx) = Firmware.VEHICLE_CHARGING"
  shows "\<exists>gs. fst (snd (charging_steps s ctx)) = ctx\<lparr>gx_gs := gs\<rparr>
      \<and> (snd (snd (charging_steps s ctx)) \<noteq> 0 \<longrightarrow> cg_mode gs = Firmware.VEHICLE_CHARGING)"
    and "sx_charging_script_sent s \<noteq> 0 \<longrightarrow> cg_mode (gx_gs ctx') = Firmware.VEHICLE_CHARGING \<Longrightarrow>
      fst (charging_steps s ctx) = fst (charging_steps s ctx')"
    and "snd (snd (charging_steps s ctx)) = snd (snd (charging_steps s ctx'))"
proof -
  let ?ms = "sx_charging_script_ms s + 10" and ?sent = "sx_charging_script_sent s"
  have shape: "\<exists>gs. charging_steps s c =
      ((if 100 \<le> ?ms \<and> and ?sent 1 = 0 then [(''charging_plug'', 1), (''gateway_charging_state'', 5)] else [])
       @ (if 300 \<le> ?ms \<and> and ?sent 2 = 0
          then [(''charging_drive_blocked'', 1), (''gateway_charging_state'', 5)] else []),
       c\<lparr>gx_gs := gs\<rparr>, snd (snd (charging_steps s c)))
    \<and> (snd (snd (charging_steps s c)) \<noteq> 0 \<longrightarrow> cg_mode gs = Firmware.VEHICLE_CHARGING)"
    if c: "?sent \<noteq> 0 \<longrightarrow> cg_mode (gx_gs c) = Firmware.VEHICLE_CHARGING" for c
  proof (cases "100 \<le> ?ms \<and> and ?sent 1 = 0")
    case True
    have "and (or ?sent 1) 2 = and ?sent 2" by (simp add: bit.conj_disj_distrib2)
    with True show ?thesis
      by (intro exI [of _ "(gx_gs c)\<lparr>cg_mode := Firmware.VEHICLE_CHARGING\<rparr>"])
        (simp add: charging_steps_def scripted_def Let_def charging_step_acts)
  next
    case False
    then have "?ms < 100 \<or> ?sent \<noteq> 0" by auto
    then show ?thesis
    proof
      assume "?ms < 100"
      then have "charging_steps s c = ([], c, ?sent)" "\<not> 100 \<le> ?ms" "\<not> 300 \<le> ?ms"
        by (simp_all add: charging_steps_def Let_def scripted_early [where first = 100] not_le less_trans [of ?ms 100])
      with c show ?thesis by (intro exI [of _ "gx_gs c"]) simp
    next
      assume "?sent \<noteq> 0"
      with c False show ?thesis
        by (intro exI [of _ "gx_gs c"])
          (simp add: charging_steps_def scripted_def Let_def charging_step_acts)
    qed
  qed
  from shape [OF assms] show "\<exists>gs. fst (snd (charging_steps s ctx)) = ctx\<lparr>gx_gs := gs\<rparr>
      \<and> (snd (snd (charging_steps s ctx)) \<noteq> 0 \<longrightarrow> cg_mode gs = Firmware.VEHICLE_CHARGING)" by (metis fst_conv snd_conv)
  show "fst (charging_steps s ctx) = fst (charging_steps s ctx')"
    if "?sent \<noteq> 0 \<longrightarrow> cg_mode (gx_gs ctx') = Firmware.VEHICLE_CHARGING"
    using shape [OF assms] shape [OF that] by (metis fst_conv)
  show "snd (snd (charging_steps s ctx)) = snd (snd (charging_steps s ctx'))"
    by (simp only: charging_steps_def Let_def scripted_sent fst_conv snd_conv)
qed

lemma charging_mode_kept:
  "cg_mode (gx_gs c) = Firmware.VEHICLE_CHARGING \<Longrightarrow> gx_diag_session_active c = 0 \<Longrightarrow>
   fault_manager_has_critical (gx_fm c) = 0 \<Longrightarrow> mode_after c on = Firmware.VEHICLE_CHARGING"
  by (simp add: mode_after_def mc_gateway_determine_mode_def c_enum)

interpretation chs: lockstep charging_rel "\<lambda>e. True"
proof unfold_locales
  fix s t env
  assume rel: "charging_rel s t" and q: "quiet_pass env s"
  from q obtain rx tr ts now where env: "env = (rx, (tr, True, ts), now)"
    and rx: "list_all (\<lambda>m. fst m \<noteq> MC_MSG_BMS_FAULT \<and> fst m \<noteq> MC_MSG_DIAG_REQUEST) (fst env)"
    by (rule quiet_passE)
  from received_quietly [OF rx] obtain hm where
    got: "received_in_pass env (sx_ctx s) = (sx_ctx s)\<lparr>gx_hm := hm, gx_hb_queue := []\<rparr>" by blast
  let ?c = "received_in_pass env (sx_ctx s)" and ?d = "sx_ctx t"
  have t': "t\<lparr>sx_ctx := x\<rparr> = s\<lparr>sx_ctx := x\<rparr>" for x
    using rel unfolding charging_rel_def by (elim conjE) (drule sym, erule ssubst, simp)
  have d: "unheard ?d" "received_in_pass silent ?d = ?d" using rel by (simp_all add: unheard_received charging_rel_def)
  have run: "run_scripts (s\<lparr>sx_ctx := x\<rparr>) = (fst (charging_steps s x), s\<lparr>sx_ctx := fst (snd (charging_steps s x)),
    sx_charging_script_ms := sx_charging_script_ms s + 10, sx_charging_script_sent := snd (snd (charging_steps s x))\<rparr>)" for x
    using rel by (intro charging_scripts_only) (simp_all add: charging_rel_def)
  have m: "sx_charging_script_sent s \<noteq> 0 \<longrightarrow> cg_mode (gx_gs ?c) = Firmware.VEHICLE_CHARGING"
    "sx_charging_script_sent s \<noteq> 0 \<longrightarrow> cg_mode (gx_gs ?d) = Firmware.VEHICLE_CHARGING"
    using rel by (simp_all add: charging_rel_def got)
  note same = charging_steps_shape(2) [OF m] charging_steps_shape(3) [OF m(1), of ?d]
  let ?c' = "fst (snd (charging_steps s ?c))" and ?d' = "fst (snd (charging_steps s ?d))"
  obtain gs gs' where c': "?c' = ?c\<lparr>gx_gs := gs\<rparr>" "snd (snd (charging_steps s ?c)) \<noteq> 0 \<longrightarrow> cg_mode gs = Firmware.VEHICLE_CHARGING"
    and d': "?d' = ?d\<lparr>gx_gs := gs'\<rparr>" "snd (snd (charging_steps s ?d)) \<noteq> 0 \<longrightarrow> cg_mode gs' = Firmware.VEHICLE_CHARGING"
    using charging_steps_shape(1) [OF m(1)] charging_steps_shape(1) [OF m(2)] by blast
  have fm: "gx_fm (before_mode tr now ?c') = gx_fm ?c'" using q by (simp add: quiet_pass_def env run Let_def)
  have u: "unheard ?d'" using d(1) by (simp add: d' unheard_def)
  have fm': "gx_fm (before_mode True 0 ?d') = gx_fm ?d'" by (simp add: unheard_before_mode [OF u])
  have p: "script_pass env s = (fst (charging_steps s ?c), s\<lparr>sx_ctx := snd (gateway_cycle (tr, True, ts) now ?c'),
      sx_charging_script_ms := sx_charging_script_ms s + 10, sx_charging_script_sent := snd (snd (charging_steps s ?c))\<rparr>)"
    by (simp add: script_pass_def run env)
  have p': "script_pass silent t = (fst (charging_steps s ?d), s\<lparr>sx_ctx := snd (gateway_cycle (True, True, True) 0 ?d'),
      sx_charging_script_ms := sx_charging_script_ms s + 10, sx_charging_script_sent := snd (snd (charging_steps s ?d))\<rparr>)"
    by (simp add: script_pass_def d t' run) (simp add: silent_def)
  have flags: "gx_diag_session_active ?c' = 0" "fault_manager_has_critical (gx_fm ?c') = 0"
    "gx_diag_session_active ?d' = 0" "fault_manager_has_critical (gx_fm ?d') = 0" "keeps_flags ?d' ?c'"
  proof -
    have "gx_diag_session_active ?c = gx_diag_session_active (sx_ctx s)" "gx_fm ?c = gx_fm (sx_ctx s)"
      "keeps_flags ?c (sx_ctx s)" by (simp_all add: got keeps_flags_def)
    then show "gx_diag_session_active ?c' = 0" "fault_manager_has_critical (gx_fm ?c') = 0"
      "gx_diag_session_active ?d' = 0" "fault_manager_has_critical (gx_fm ?d') = 0" "keeps_flags ?d' ?c'"
      using rel unfolding c'(1) d'(1) by (auto simp: charging_rel_def keeps_flags_def)
  qed
  obtain on on' where mode: "cg_mode (gx_gs (snd (gateway_cycle (tr, True, ts) now ?c'))) = mode_after ?c' on"
    "cg_mode (gx_gs (snd (gateway_cycle (True, True, True) 0 ?d'))) = mode_after ?d' on'"
    using cycle_rest(2) [OF fm] cycle_rest(2) [OF fm'] by blast
  have "snd (snd (charging_steps s ?c)) \<noteq> 0 \<longrightarrow> mode_after ?c' on = Firmware.VEHICLE_CHARGING
      \<and> mode_after ?d' on' = Firmware.VEHICLE_CHARGING"
    using charging_mode_kept flags c' d' same(2) by simp
  then show "filter (\<lambda>e. True) (fst (script_pass env s)) = filter (\<lambda>e. True) (fst (script_pass silent t))
      \<and> charging_rel (snd (script_pass env s)) (snd (script_pass silent t))"
    using cycle_rest(1) [OF fm, of ts] cycle_rest(1) [OF fm', of True] rel unheard_cycle [OF u] same flags
    by (simp add: p p' charging_rel_def keeps_flags_def mode)
qed


subsection \<open>What the two shorter scripts trace\<close>

definition scripts_done :: "gateway_script_t \<Rightarrow> bool" where
  "scripts_done s \<longleftrightarrow> sx_diag_dogfood_script s = 0
     \<and> (sx_diag_startdrive_script s = 0 \<or> sx_startdrive_script_sent s = 3)
     \<and> (sx_charging_dogfood_script s = 0 \<or> sx_charging_script_sent s = 3)"

lemma startdrive_done:
  "sx_diag_startdrive_script s = 0 \<or> sx_startdrive_script_sent s = 3 \<Longrightarrow>
   run_dogfood_diag_startdrive_script True s =
     ([], if sx_diag_startdrive_script s = 0 then s
          else s\<lparr>sx_startdrive_script_ms := sx_startdrive_script_ms s + 10\<rparr>)"
  by (cases "sx_diag_startdrive_script s = 0")
    (simp_all add: run_dogfood_diag_startdrive_script_def scripted_def Let_def)

lemma charging_done:
  "sx_charging_dogfood_script s = 0 \<or> sx_charging_script_sent s = 3 \<Longrightarrow>
   run_dogfood_charging_script s =
     ([], if sx_charging_dogfood_script s = 0 then s else s\<lparr>sx_charging_script_ms := sx_charging_script_ms s + 10\<rparr>)"
  by (cases "sx_charging_dogfood_script s = 0") (simp_all add: run_dogfood_charging_script_def scripted_def Let_def)

lemma scripts_done_quiet:
  assumes "scripts_done s"
  shows "fst (script_pass silent s) = [] \<and> scripts_done (snd (script_pass silent s))"
proof -
  obtain c where "received_in_pass silent (sx_ctx s) = c" by simp
  moreover from assms have d: "sx_diag_dogfood_script s = 0"
    "sx_diag_startdrive_script s = 0 \<or> sx_startdrive_script_sent s = 3"
    "sx_charging_dogfood_script s = 0 \<or> sx_charging_script_sent s = 3"
    by (simp_all only: scripts_done_def)
  moreover have "run_dogfood_diag_script True (s\<lparr>sx_ctx := c\<rparr>) = ([], s\<lparr>sx_ctx := c\<rparr>)" for c
    using d(1) by (simp add: run_dogfood_diag_script_def)
  ultimately show ?thesis
    by (simp add: script_pass_def run_scripts_def startdrive_done charging_done scripts_done_def silent_def) blast
qed

definition short_run_of :: "nat \<Rightarrow> gateway_script_t \<Rightarrow> event list \<times> bool" where
  "short_run_of n s = (case passes (script_pass silent) n s of (evs, s) \<Rightarrow> (evs, scripts_done s))"

lemma short_run_settled:
  assumes "short_run_of m s = (evs, True)" "m \<le> n"
  shows "fst (passes (script_pass silent) n s) = evs"
  using assms passes_settled [of scripts_done "script_pass silent" m s n, OF scripts_done_quiet]
  by (simp add: short_run_of_def case_prod_beta)

lemma startdrive_run_fixed: "short_run_of 20 (script_init (0, 0, 0) 1 0 (0, 0)) =
     (send_diag_response 1 1 (1, 2, 0) @ send_diag_response 2 2 (0, 0, 0), True)"
  by code_simp

lemma startdrive_run_bug: "short_run_of 20 (script_init (0, 0, 0) 1 0 (0, 1)) =
     (send_diag_response 1 1 (0, 6, 0) @ send_diag_response 2 2 (0, 6, 0), True)"
  by code_simp

lemma charging_run: "short_run_of 30 (script_init (0, 0, 0) 0 1 (0, 0)) =
     ([(''charging_plug'', 1), (''gateway_charging_state'', 5),
       (''charging_drive_blocked'', 1), (''gateway_charging_state'', 5)], True)"
  by code_simp

lemma drive_rel_refl: "drive_rel (script_init (0, 0, 0) 1 0 bugs) (script_init (0, 0, 0) 1 0 bugs)"
  by (simp add: drive_rel_def script_init_def unheard_def gateway_init_def Let_def)

lemma charging_rel_refl: "charging_rel (script_init (0, 0, 0) 0 1 bugs) (script_init (0, 0, 0) 0 1 bugs)"
  by (simp add: charging_rel_def script_init_def unheard_def gateway_init_def keeps_flags_def Let_def
      fault_manager_init_def fault_manager_has_critical_def)

lemma startdrive_trace:
  assumes "quiet_run envs (script_init (0, 0, 0) 1 0 (0, bug)) = Some (evs, s')" "20 \<le> length envs"
    and "short_run_of 20 (script_init (0, 0, 0) 1 0 (0, bug)) = (evs', True)"
  shows "filter start_reply evs = filter start_reply evs'"
  using drv.run [OF drive_rel_refl assms(1)] short_run_settled [OF assms(3,2)] by simp

lemma charging_trace:
  assumes "quiet_run envs (script_init (0, 0, 0) 0 1 (0, 0)) = Some (evs, s')" "30 \<le> length envs"
  shows "evs = fst (short_run_of 30 (script_init (0, 0, 0) 0 1 (0, 0)))"
  using chs.run [OF charging_rel_refl assms(1)] short_run_settled [OF charging_run assms(2)] charging_run by simp

end
