(* ===== verification/Firmware_Corpus.thy ===== *)
theory Firmware_Corpus
  imports Firmware_Lockstep
begin

text \<open>
  The firmware variants and the harness that judges them: the diagnostics and charging firmware pass the
  expectations of their scenario files, and the four pairs of variants of the bug corpus show their
  bugs, so that the evaluator of the corpus reports every one of them as reproduced and fixed.
\<close>

subsection \<open>Replies in a trace\<close>

definition reply_labels :: "string list" where
  "reply_labels = [''gateway_diag_response'', ''gateway_diag_response_v1'']"

lemma first_reply_shown:
  assumes "shows_run 1 reply_labels evs trace"
  shows "first_reply trace service req =
    List.find (\<lambda>v. byte_at 24 v = req \<and> byte_at 16 v = service)
      (map snd (filter (\<lambda>e. fst e = ''gateway_diag_response'') evs))"
  by (simp add: first_reply_def values_of_shown [OF assms] reply_labels_def)

lemma find_in_filter:
  "(\<And>x. x \<in> set xs \<Longrightarrow> P (f x) \<Longrightarrow> Q x) \<Longrightarrow> List.find P (map f (filter R xs)) = List.find P (map f (filter R (filter Q xs)))"
  by (induction xs) auto

lemma start_reply_shown:
  assumes "shows_run 1 reply_labels evs trace"
  shows "first_reply trace 1 1 =
    List.find (\<lambda>v. byte_at 24 v = 1 \<and> byte_at 16 v = 1)
      (map snd (filter (\<lambda>e. fst e = ''gateway_diag_response'') (filter start_reply evs)))"
  unfolding first_reply_shown [OF assms] by (rule find_in_filter) (simp add: start_reply_def)

lemma foldl_skip: "(\<And>r e. \<not> P e \<Longrightarrow> f r e = r) \<Longrightarrow> foldl f a xs = foldl f a (filter P xs)"
  by (induction xs arbitrary: a) simp_all

lemma diag_entry_shown:
  assumes "shows_run 1 reply_labels evs trace"
  shows "diag_entry service req trace =
    foldl (key_step (service, req)) None (map (\<lambda>(label, v). \<lparr>ut_machine = 1, ut_label = label, ut_value = v\<rparr>) evs)"
proof -
  have "diag_entry service req trace = foldl (key_step (service, req)) None
      (filter (\<lambda>e. ut_label e \<in> set reply_labels) (filter (\<lambda>e. ut_machine e = 1) trace))"
    unfolding diag_entry_def by (rule foldl_skip) (auto simp: key_step_def reply_labels_def)
  also have "filter (\<lambda>e. ut_label e \<in> set reply_labels) (filter (\<lambda>e. ut_machine e = 1) trace)
      = filter (\<lambda>e. ut_machine e = 1 \<and> ut_label e \<in> set reply_labels) trace"
    by (simp add: conj_commute)
  finally show ?thesis using assms by (simp only: shows_run_def)
qed

lemma find_reply:
  "List.find (\<lambda>v. byte_at 24 v = req \<and> byte_at 16 v = service)
     (map snd (filter (\<lambda>e. fst e = ''gateway_diag_response'') (send_diag_response s r (status, v0, v1) @ evs))) =
   (if r = req \<and> s = service
    then Some (pack_reply \<lparr>rp_req = r, rp_service = s, rp_status = status, rp_value0 = v0\<rparr>)
    else List.find (\<lambda>v. byte_at 24 v = req \<and> byte_at 16 v = service)
      (map snd (filter (\<lambda>e. fst e = ''gateway_diag_response'') evs)))"
  by (simp add: response_packed reply_bytes)

lemmas find_replies = find_reply find_reply [where evs = "[]", simplified append_Nil2]

subsection \<open>The bug corpus\<close>

text \<open>
  A trace of the failing or the fixed firmware of a seed: what one of its runs traced, among anything
  else the machines traced. The run is long enough for its script (sixty passes of the gateway for the update, 75 for
  the clearing of faults, 20 for the session, one of the powertrain). In the two diagnostics seeds it is quiet, as
  \<open>quiet_run\<close> has it: other nodes send no fault and no diagnostics request, the loop gets the mutex for the mode in
  every pass, and it records no lost battery.
\<close>

fun variant_trace :: "seed_kind \<Rightarrow> bool \<Rightarrow> user_trace list \<Rightarrow> bool" where
  "variant_trace OtaRollback buggy trace \<longleftrightarrow>
     (\<exists>n \<ge> 60. shows_run 1 ota_labels
        (fst (passes run_dogfood_ota_script n (ota_script_init OTA_FAULT_BAD_CRC (of_bool buggy)))) trace)"
| "variant_trace ServiceTorqueClamp buggy trace \<longleftrightarrow>
     (\<exists>env ctx. env \<noteq> [] \<and> forced_as 1 0 (of_bool buggy) ctx
        \<and> shows_run 2 [''diag_motor_command''] (powertrain_passes env ctx) trace)"
| "variant_trace ClearAllDtcs buggy trace \<longleftrightarrow>
     (\<exists>envs evs s. 75 \<le> length envs \<and> quiet_run envs (script_init (1, 1, 1) 0 0 (of_bool buggy, 0)) = Some (evs, s)
        \<and> shows_run 1 reply_labels evs trace)"
| "variant_trace StartSessionInDrive buggy trace \<longleftrightarrow>
     (\<exists>envs evs s. 20 \<le> length envs \<and> quiet_run envs (script_init (0, 0, 0) 1 0 (0, of_bool buggy)) = Some (evs, s)
        \<and> shows_run 1 reply_labels evs trace)"

lemma ota_variant:
  assumes "variant_trace OtaRollback buggy trace"
  shows "shows_run 1 ota_labels (fst (ota_run_of OTA_FAULT_BAD_CRC (of_bool buggy))) trace"
proof -
  have "\<exists>evs. ota_run_of 1 (of_bool buggy) = (evs, 0x3F)" using ota_runs by (cases buggy) auto
  then show ?thesis using assms ota_script_trace by (fastforce simp: OTA_FAULT_BAD_CRC_def)
qed

lemma service_variant:
  assumes "variant_trace ServiceTorqueClamp buggy trace"
  shows "\<exists>n > 0. values_of trace 2 ''diag_motor_command'' = replicate n (if buggy then 0x5001 else 0)"
proof -
  from assms obtain env ctx where "env \<noteq> []"
    and s: "shows_run 2 [''diag_motor_command''] (powertrain_passes env ctx) trace"
    and f: "forced_as 1 0 (of_bool buggy) ctx" by auto
  with values_of_shown [OF s, of "''diag_motor_command''"] show ?thesis
    by (intro exI [of _ "length env"]) (simp add: powertrain_script_events(1) [OF f] filter_replicate)
qed

lemma clear_variant:
  assumes "variant_trace ClearAllDtcs buggy trace"
  shows "shows_run 1 reply_labels (fst (diag_run_of 1 1 (of_bool buggy))) trace"
proof -
  have r: "diag_run_of 1 1 (of_bool buggy) = (fst (diag_run_of 1 1 (of_bool buggy)), 0xFF)"
    by (cases buggy) (simp_all add: diag_run_clear diag_run_clear_bug)
  from assms obtain envs evs s where
    "75 \<le> length envs" "quiet_run envs (script_init (1, 1, 1) 0 0 (of_bool buggy, 0)) = Some (evs, s)"
    "shows_run 1 reply_labels evs trace" by auto
  with diag_script_trace [OF _ _ r] show ?thesis by simp
qed

lemma startdrive_variant:
  assumes "variant_trace StartSessionInDrive buggy trace"
  shows "first_reply trace 1 1 = Some (pack_reply \<lparr>rp_req = 1, rp_service = 1,
      rp_status = (if buggy then 0 else 1), rp_value0 = (if buggy then 6 else 2)\<rparr>)"
proof -
  let ?r = "short_run_of 20 (script_init (0, 0, 0) 1 0 (0, of_bool buggy))"
  have r: "?r = (fst ?r, True)" by (cases buggy) (simp_all add: startdrive_run_fixed startdrive_run_bug)
  from assms obtain envs evs s where
    q: "20 \<le> length envs" "quiet_run envs (script_init (0, 0, 0) 1 0 (0, of_bool buggy)) = Some (evs, s)"
    and s: "shows_run 1 reply_labels evs trace" by auto
  show ?thesis
    unfolding start_reply_shown [OF s] startdrive_trace [OF q(2,1) r]
    by (cases buggy) (simp_all add: startdrive_run_fixed startdrive_run_bug response_packed start_reply_def reply_bytes)
qed

text \<open>
  Claim C17. The firmware built for the bug corpus shows its bugs: for each of the four seeds and any two runs long enough
  for the script of the seed (at least 60, 75 or 20 passes of the gateway, or one of the powertrain), the evaluator
  accepts the trace of the failing firmware together with the trace of the fixed one, whatever else is traced in
  between. The runs of the two diagnostics seeds receive any frames but faults and diagnostics requests, get the mutex
  for the mode in every pass and lose no battery.
\<close>

theorem corpus_firmware_shows_its_bugs:
  assumes "variant_trace kind True failing" "variant_trace kind False fixed"
  shows "list_all ck_passed (evaluate_seed kind failing fixed)"
  unfolding evaluate_seed_exact
proof (cases kind)
  case OtaRollback
  then show "seed_shown kind failing fixed"
    using ota_variant [of True failing] ota_variant [of False fixed] assms
    by (simp add: values_of_shown last_value_def ota_labels_def ota_runs OTA_FAULT_BAD_CRC_def ota_rolled_back_def)
next
  case ServiceTorqueClamp
  then show "seed_shown kind failing fixed"
    using service_variant [of True failing] service_variant [of False fixed] assms
    by (auto simp: byte_at_def)
next
  case ClearAllDtcs
  then show "seed_shown kind failing fixed"
    using clear_variant [of True failing] clear_variant [of False fixed] assms
    by (simp add: first_reply_shown diag_run_clear diag_run_clear_bug find_replies reply_bytes
        del: filter_append map_append)
next
  case StartSessionInDrive
  then show "seed_shown kind failing fixed"
    using startdrive_variant [of True failing] startdrive_variant [of False fixed] assms
    by (simp add: reply_bytes del: variant_trace.simps)
qed

text \<open>The runs on a silent bus are quiet, so every seed has traces of both kinds.\<close>

definition shown_by :: "u64 \<Rightarrow> event list \<Rightarrow> user_trace list" where
  "shown_by machine = map (\<lambda>(label, v). \<lparr>ut_machine = machine, ut_label = label, ut_value = v\<rparr>)"

lemma shows_own_run: "list_all (\<lambda>e. fst e \<in> set labels) evs \<Longrightarrow> shows_run machine labels evs (shown_by machine evs)"
  by (auto simp: shows_run_def shown_by_def filter_map comp_def case_prod_beta list_all_iff)

lemma scripted_unheard:
  "(\<And>c. unheard c \<Longrightarrow> unheard (snd (act c))) \<Longrightarrow> unheard (fst (snd acc)) \<Longrightarrow>
   unheard (fst (snd (scripted ms due once act acc)))"
  by (simp add: scripted_def case_prod_beta Let_def)

lemma acts_unheard:
  "unheard c \<Longrightarrow> unheard (snd (synth_diag_request taken service n c))"
  "unheard c \<Longrightarrow> unheard (snd (synth_bms_fault taken code c))"
  "unheard c \<Longrightarrow> unheard (snd (synth_report_fault taken node code severity c))"
  "unheard c \<Longrightarrow> unheard (snd (startdrive_step taken c))"
  "unheard c \<Longrightarrow> unheard (snd (plug_in c))"
  "unheard c \<Longrightarrow> unheard (snd (request_drive c))"
proof -
  have req: "unheard c \<Longrightarrow> unheard (snd (synth_diag_request taken service n c))" for c service n
    by (auto simp: unheard_def synth_diag_request_def handle_diag_request_def Let_def split: prod.split option.split)
  then show "unheard c \<Longrightarrow> unheard (snd (synth_diag_request taken service n c))" .
  show "unheard c \<Longrightarrow> unheard (snd (startdrive_step taken c))"
    unfolding startdrive_step_def by (rule req) (simp add: unheard_def)
qed (simp_all add: unheard_def synth_bms_fault_def synth_report_fault_def handle_bms_fault_def plug_in_def
    request_drive_def Let_def)

lemma scripts_unheard: "unheard (sx_ctx s) \<Longrightarrow> unheard (sx_ctx (snd (run_scripts s)))"
  by (simp add: run_scripts_def run_dogfood_diag_script_def run_dogfood_diag_startdrive_script_def
      run_dogfood_charging_script_def diag_later_steps_def Let_def case_prod_beta scripted_unheard acts_unheard)

lemma quiet_on_silent_bus:
  "unheard (sx_ctx s) \<Longrightarrow> quiet_run (replicate n silent) s = Some (passes (script_pass silent) n s)"
proof (induction n arbitrary: s)
  case (Suc n)
  have r: "s\<lparr>sx_ctx := received_in_pass silent (sx_ctx s)\<rparr> = s" using Suc.prems by (simp add: unheard_received)
  with scripts_unheard [OF Suc.prems] have "quiet_pass silent s"
    by (simp add: quiet_pass_def silent_def unheard_before_mode)
  moreover have "unheard (sx_ctx (snd (script_pass silent s)))"
    using scripts_unheard [OF Suc.prems] r
    by (simp add: script_pass_def case_prod_beta) (simp add: silent_def unheard_cycle)
  ultimately show ?case using Suc.IH by (simp add: Let_def case_prod_beta)
qed simp

lemma script_init_unheard: "unheard (sx_ctx (script_init diag startdrive charging bugs))"
  by (simp add: script_init_def unheard_def gateway_init_def Let_def case_prod_beta)

lemmas silent_runs = quiet_on_silent_bus [OF script_init_unheard]

lemma reply_run_shown:
  assumes "list_all (\<lambda>e. fst e \<in> set reply_labels) (fst (passes (script_pass silent) n (script_init d g c b)))"
  shows "\<exists>envs evs s. n \<le> length envs \<and> quiet_run envs (script_init d g c b) = Some (evs, s)
    \<and> shows_run 1 reply_labels evs (shown_by 1 (fst (passes (script_pass silent) n (script_init d g c b))))"
  using shows_own_run [OF assms] silent_runs
  by (intro exI [of _ "replicate n silent"] exI [of _ "fst (passes (script_pass silent) n (script_init d g c b))"]
      exI [of _ "snd (passes (script_pass silent) n (script_init d g c b))"]) simp

definition forced_ctx :: "u8 \<Rightarrow> u8 \<Rightarrow> u8 \<Rightarrow> powertrain_ctx_t" where
  "forced_ctx service charging clamp_bug =
     \<lparr>px_tc = torque_controller_init, px_wd = watchdog_init, px_diag_force_service_mode = service,
      px_charging_force_mode = charging, px_diag_service_clamp_bug = clamp_bug\<rparr>"

lemma forced_ctx_forced: "forced_as service charging clamp_bug (forced_ctx service charging clamp_bug)"
  by (simp add: forced_as_def forced_ctx_def)

lemma forced_service_shown:
  "\<exists>env ctx. env \<noteq> [] \<and> forced_as 1 0 bug ctx \<and> shows_run 2 [''diag_motor_command''] (powertrain_passes env ctx)
     (shown_by 2 [(''diag_motor_command'', if bug \<noteq> 0 then 0x5001 else 0)])"
  using powertrain_script_events(1) [OF forced_ctx_forced, of "[(0, [])]"]
  by (intro exI [of _ "[(0, [])]"] exI [of _ "forced_ctx 1 0 bug"] conjI)
    (simp_all add: forced_ctx_forced shows_own_run del: powertrain_passes.simps)

theorem corpus_firmware_shows_its_bugs_witness:
  "list_all ck_passed (evaluate_seed OtaRollback
      (shown_by 1 (fst (ota_run_of 1 1))) (shown_by 1 (fst (ota_run_of 1 0)))) \<and>
   list_all ck_passed (evaluate_seed ServiceTorqueClamp
      (shown_by 2 [(''diag_motor_command'', 0x5001)]) (shown_by 2 [(''diag_motor_command'', 0)])) \<and>
   list_all ck_passed (evaluate_seed ClearAllDtcs
      (shown_by 1 (fst (diag_run_of 1 1 1))) (shown_by 1 (fst (diag_run_of 1 1 0)))) \<and>
   list_all ck_passed (evaluate_seed StartSessionInDrive
      (shown_by 1 (send_diag_response 1 1 (0, 6, 0) @ send_diag_response 2 2 (0, 6, 0)))
      (shown_by 1 (send_diag_response 1 1 (1, 2, 0) @ send_diag_response 2 2 (0, 0, 0))))"
proof (intro conjI corpus_firmware_shows_its_bugs)
  show "variant_trace OtaRollback True (shown_by 1 (fst (ota_run_of 1 1)))"
    "variant_trace OtaRollback False (shown_by 1 (fst (ota_run_of 1 0)))"
    using ota_script_trace [OF order_refl ota_run_crc_bug] ota_script_trace [OF order_refl ota_run_bad_crc]
    by (auto simp: ota_runs OTA_FAULT_BAD_CRC_def ota_rolled_back_def ota_labels_def
        intro!: exI [of _ 60] shows_own_run)
  show "variant_trace ServiceTorqueClamp True (shown_by 2 [(''diag_motor_command'', 0x5001)])"
    "variant_trace ServiceTorqueClamp False (shown_by 2 [(''diag_motor_command'', 0)])"
    using forced_service_shown [of 1] forced_service_shown [of 0] by simp_all
  show "variant_trace ClearAllDtcs True (shown_by 1 (fst (diag_run_of 1 1 1)))"
    "variant_trace ClearAllDtcs False (shown_by 1 (fst (diag_run_of 1 1 0)))"
    using reply_run_shown [of 75 "(1, 1, 1)" 0 0 "(1, 0)"] reply_run_shown [of 75 "(1, 1, 1)" 0 0 "(0, 0)"]
      diag_run_clear diag_run_clear_bug
    by (simp_all add: diag_run_of_def case_prod_beta response_packed reply_labels_def)
  show "variant_trace StartSessionInDrive True
      (shown_by 1 (send_diag_response 1 1 (0, 6, 0) @ send_diag_response 2 2 (0, 6, 0)))"
    "variant_trace StartSessionInDrive False
      (shown_by 1 (send_diag_response 1 1 (1, 2, 0) @ send_diag_response 2 2 (0, 0, 0)))"
    using reply_run_shown [of 20 "(0, 0, 0)" 1 0 "(0, 1)"] reply_run_shown [of 20 "(0, 0, 0)" 1 0 "(0, 0)"]
      startdrive_run_fixed startdrive_run_bug
    by (simp_all add: short_run_of_def case_prod_beta response_packed reply_labels_def)
qed

subsection \<open>The diagnostics and charging lanes\<close>

text \<open>The expectations of \<open>service_mode_disables_drive\<close> and \<open>read_clear_dtcs_after_bms_fault\<close>.\<close>

definition diag_scenario_text :: "u8 \<Rightarrow> string" where
  "diag_scenario_text inject_fault =
     join [CHR 0x0A]
       (if inject_fault = 0
        then [''# diagnostics-expect: service-mode'', ''# diagnostics-expect: actuator status=ok'',
              ''# diagnostics-expect: dtc req=3 count=0'', ''# diagnostics-expect: motor-torque max=0 after_ms=300'']
        else [''# diagnostics-expect: service-mode'', ''# diagnostics-expect: dtc req=3 count=1 code=1'',
              ''# diagnostics-expect: dtc req=5 count=0''])"

definition charging_scenario_text :: string where
  "charging_scenario_text =
     join [CHR 0x0A] [''# charging-expect: charging-mode'', ''# charging-expect: drive-blocked'',
                      ''# charging-expect: motor-torque max=0'']"

lemma diag_expectations:
  "parse_diag_expectations (diag_scenario_text 0) = [ServiceMode, Actuator 0, Dtc 3 0 None, DiagMotorTorque 0 300]"
  "parse_diag_expectations (diag_scenario_text 1) = [ServiceMode, Dtc 3 1 (Some 1), Dtc 5 0 None]"
  by (code_simp, code_simp)

lemma charging_expectations:
  "parse_charging_expectations charging_scenario_text = [ChargingMode, DriveBlocked, MotorTorque 0]"
  by code_simp

lemma motor_commands_shown:
  assumes "shows_run 2 [label] (replicate n (label, v)) trace"
  shows "values_of trace 2 label = replicate n v"
  using values_of_shown [OF assms, of label] by (simp add: filter_replicate)

text \<open>One reply in the table of replies.\<close>

lemma key_step_reply:
  "foldl (key_step (service, req)) r
     (map (\<lambda>(label, v). \<lparr>ut_machine = 1, ut_label = label, ut_value = v\<rparr>) (send_diag_response s n (status, v0, v1))) =
   (if s = service \<and> n = req
    then Some \<lparr>dg_service = s, dg_req = n, dg_status = status, dg_value0 = v0, dg_value1 = v1\<rparr> else r)"
  by (simp add: response_packed key_step_def reply_bytes decode_response_head_def)

text \<open>
  The diagnostics firmware passes its lane: in every run of at least 75 passes in which no
  other fault is recorded, whatever heartbeats and other frames arrive, the gateway and the powertrain trace what the
  scenario file of the variant expects, with the fault injected or without.
\<close>

theorem diag_script_passes_lane:
  assumes "quiet_run envs (script_init (1, inject_fault, 0) 0 0 (0, 0)) = Some (evs, s)" "75 \<le> length envs"
    and "inject_fault \<in> {0, 1}" "shows_run 1 reply_labels evs trace"
    and "env \<noteq> []" "shows_run 2 [''diag_motor_command''] (powertrain_passes env (forced_ctx 1 0 0)) trace"
  shows "list_all (\<lambda>e. ck_passed (evaluate_diag_trace e trace)) (parse_diag_expectations (diag_scenario_text inject_fault))"
proof -
  have motor: "values_of trace 2 ''diag_motor_command'' = replicate (length env) 0"
    using assms(6) powertrain_script_events(1) [OF forced_ctx_forced, of env 0] by (auto intro: motor_commands_shown)
  note entry = diag_entry_shown [OF assms(4)]
  from assms(3) consider "inject_fault = 0" | "inject_fault = 1" by blast
  then show ?thesis
  proof cases
    case 1
    with diag_script_trace [OF _ assms(2) diag_run_plain] assms(1) have
      "evs = fst (diag_run_of 0 0 0)" by (simp add: diag_run_plain)
    with 1 assms(5) show ?thesis
      by (simp add: dia.exact diag_expectations entry diag_run_plain key_step_reply motor
          in_service_def has_status_def dtc_matches_def diag_consts list_all_iff byte_at_def)
  next
    case 2
    with diag_script_trace [OF _ assms(2) diag_run_fault] assms(1) have
      "evs = fst (diag_run_of 1 0 0)" by (simp add: diag_run_fault)
    with 2 show ?thesis
      by (simp add: dia.exact diag_expectations entry diag_run_fault key_step_reply
          in_service_def has_status_def dtc_matches_def diag_consts)
  qed
qed

lemma shows_two_runs:
  assumes "list_all (\<lambda>e. fst e \<in> set labels) evs" "list_all (\<lambda>e. fst e \<in> set labels') evs'"
  shows "shows_run 1 labels evs (shown_by 1 evs @ shown_by 2 evs')"
    and "shows_run 2 labels' evs' (shown_by 1 evs @ shown_by 2 evs')"
  using assms by (auto simp: shows_run_def shown_by_def filter_map comp_def case_prod_beta list_all_iff)

theorem diag_script_passes_lane_witness:
  "list_all (\<lambda>e. ck_passed (evaluate_diag_trace e
       (shown_by 1 (fst (diag_run_of 0 0 0)) @ shown_by 2 [(''diag_motor_command'', 0)])))
     (parse_diag_expectations (diag_scenario_text 0))"
proof -
  let ?init = "script_init (1, 0, 0) 0 0 (0, 0)" and ?evs = "fst (diag_run_of 0 0 0)"
  have "quiet_run (replicate 75 silent) ?init = Some (?evs, snd (passes (script_pass silent) 75 ?init))"
    by (simp add: silent_runs diag_run_of_def case_prod_beta)
  moreover have "powertrain_passes [(0, [])] (forced_ctx 1 0 0) = [(''diag_motor_command'', 0)]"
    using powertrain_script_events(1) [OF forced_ctx_forced, of "[(0, [])]" 0] by simp
  moreover have "list_all (\<lambda>e. fst e \<in> set reply_labels) ?evs"
    by (simp add: diag_run_plain response_packed reply_labels_def)
  ultimately show ?thesis
    using diag_script_passes_lane [of "replicate 75 silent" 0 ?evs _ _ "[(0, [])]"]
      shows_two_runs [of reply_labels ?evs "[''diag_motor_command'']" "[(''diag_motor_command'', 0)]"]
    by (simp del: powertrain_passes.simps)
qed

text \<open>
  The charging firmware passes its lane: in every quiet run of at least thirty passes the gateway
  enters CHARGING, refuses the drive request and stays in CHARGING, and the powertrain keeps the motor off.
\<close>

definition charging_labels :: "string list" where
  "charging_labels = [''charging_plug'', ''gateway_charging_state'', ''charging_drive_blocked'']"

theorem charging_script_passes_lane:
  assumes "quiet_run envs (script_init (0, 0, 0) 0 1 (0, 0)) = Some (evs, s)" "30 \<le> length envs"
    and "shows_run 1 charging_labels evs trace"
    and "env \<noteq> []" "shows_run 2 [''charging_motor_command''] (powertrain_passes env (forced_ctx 0 1 0)) trace"
  shows "list_all (\<lambda>e. ck_passed (evaluate_charging e trace)) (parse_charging_expectations charging_scenario_text)"
proof -
  have motor: "values_of trace 2 ''charging_motor_command'' = replicate (length env) 0"
    using assms(5) powertrain_script_events(2) [OF forced_ctx_forced, of env] by (auto intro: motor_commands_shown)
  from charging_trace [OF assms(1,2)] have "evs = fst (short_run_of 30 (script_init (0, 0, 0) 0 1 (0, 0)))" .
  with assms(3,4) motor show ?thesis
    by (simp add: chg.exact charging_expectations charging_run values_of_shown last_value_def charging_labels_def
        list_all_iff byte_at_def)
qed

theorem charging_script_passes_lane_witness:
  "list_all (\<lambda>e. ck_passed (evaluate_charging e
       (shown_by 1 [(''charging_plug'', 1), (''gateway_charging_state'', 5),
          (''charging_drive_blocked'', 1), (''gateway_charging_state'', 5)]
        @ shown_by 2 [(''charging_motor_command'', 0)])))
     (parse_charging_expectations charging_scenario_text)"
proof -
  let ?init = "script_init (0, 0, 0) 0 1 (0, 0)"
  let ?evs = "[(''charging_plug'', 1), (''gateway_charging_state'', 5),
    (''charging_drive_blocked'', 1), (''gateway_charging_state'', 5)] :: event list"
  have "quiet_run (replicate 30 silent) ?init = Some (?evs, snd (passes (script_pass silent) 30 ?init))"
    using charging_run by (simp add: silent_runs short_run_of_def case_prod_beta prod_eq_iff)
  moreover have "powertrain_passes [(0, [])] (forced_ctx 0 1 0) = [(''charging_motor_command'', 0)]"
    using powertrain_script_events(2) [OF forced_ctx_forced, of "[(0, [])]"] by simp
  moreover have "list_all (\<lambda>e. fst e \<in> set charging_labels) ?evs" by (simp add: charging_labels_def)
  ultimately show ?thesis
    using charging_script_passes_lane [of "replicate 30 silent" ?evs _ _ "[(0, [])]"]
      shows_two_runs [of charging_labels ?evs "[''charging_motor_command'']" "[(''charging_motor_command'', 0)]"]
    by (simp del: powertrain_passes.simps)
qed

end
