(* ===== verification/State_Tests.thy ===== *)
theory State_Tests
  imports Bms Gateway Powertrain Dashboard Ota_Slot "HOL-Library.Monad_Syntax"
begin

unbundle bit_operations_syntax

text \<open>
  The unit tests of \<^verbatim>\<open>state_tests/src/\<close>, statement by statement, on the model's definitions: a test is a
  program in the option monad, where \<open>None\<close> is a panic of an assertion, of an index or of an operation. That all of them
  pass is a check of the model against what the authors of the code observed of it. One test is left out, which asks for
  the size of a packed structure in memory.
\<close>

definition assert_true :: "bool \<Rightarrow> unit option" where
  "assert_true b = (if b then Some () else None)"

definition assert_eq :: "'a \<Rightarrow> 'a \<Rightarrow> unit option" where
  "assert_eq a b = assert_true (a = b)"

definition nth_or_panic :: "'a list \<Rightarrow> nat \<Rightarrow> 'a option" where
  "nth_or_panic xs i = (if i < length xs then Some (xs ! i) else None)"

definition passes_test :: "unit option \<Rightarrow> bool" where
  "passes_test t \<longleftrightarrow> t = Some ()"

fun fault_code_u8 :: "bms_fault_code \<Rightarrow> u8" where
  "fault_code_u8 FaultNone = 0"
| "fault_code_u8 Overtemp = 1"
| "fault_code_u8 Overvoltage = 2"
| "fault_code_u8 Undervoltage = 3"
| "fault_code_u8 OverCurrent = 4"
| "fault_code_u8 CommError = 5"

definition meta_default :: meta_record where
  "meta_default =
     \<lparr>mr_magic = 0, mr_format_version = 0, mr_active_slot = 0, mr_target_slot = 0, mr_state = 0, mr_committed = 0, mr_boot_attempt_count = 0, mr_healthy = 0, mr_abort_reason = 0, mr_generation = 0, mr_image_length = 0, mr_image_crc32 = 0, mr_reserved = 0, mr_record_crc32 = 0\<rparr>"

subsection \<open>The wire formats, temperature classes and torque clamp\<close>

definition test_encode_decode_vehicle_mode :: "unit option" where
  "test_encode_decode_vehicle_mode = do {
     let msg = encode_vehicle_mode (mode_u8 Drive) 0;
     let (mode, fault) = decode_vehicle_mode msg;
     assert_eq mode (mode_u8 Drive);
     assert_eq fault 0
   }"

definition test_encode_decode_driver_input :: "unit option" where
  "test_encode_decode_driver_input = do {
     let msg = encode_driver_input 50 0 1;
     let (thr, brake, gear) = decode_driver_input msg;
     assert_eq thr 50;
     assert_eq brake 0;
     assert_eq gear 1
   }"

definition test_encode_decode_bms_status :: "unit option" where
  "test_encode_decode_bms_status = do {
     let msg = encode_bms_status 48000 10000 600 80;
     let (v, c, t, s) = decode_bms_status msg;
     assert_eq v 48000;
     assert_eq c 10000;
     assert_eq t 600;
     assert_eq s 80
   }"

definition test_encode_decode_bms_limits :: "unit option" where
  "test_encode_decode_bms_limits = do {
     let msg = encode_bms_limits 25 2;
     let (mt, r) = decode_bms_limits msg;
     assert_eq mt 25;
     assert_eq r 2
   }"

definition test_encode_decode_motor_command :: "unit option" where
  "test_encode_decode_motor_command = do {
     let msg = encode_motor_command 30 1;
     let (torque, en) = decode_motor_command msg;
     assert_eq torque 30;
     assert_eq en 1
   }"

definition test_encode_decode_wheel_speed :: "unit option" where
  "test_encode_decode_wheel_speed = do {
     let msg = encode_wheel_speed 120;
     let speed = decode_wheel_speed msg;
     assert_eq speed 120
   }"

definition test_encode_decode_warning :: "unit option" where
  "test_encode_decode_warning = do {
     let msg = encode_warning MC_NODE_BMS (warning_u8 BmsOvertemp);
     let (src, code) = decode_warning msg;
     assert_eq src MC_NODE_BMS;
     assert_eq code (warning_u8 BmsOvertemp)
   }"

definition test_bms_state_from_temp :: "unit option" where
  "test_bms_state_from_temp = do {
     assert_eq (bms_determine_state 250) BmsOk;
     assert_eq (bms_determine_state 600) BmsOk;
     assert_eq (bms_determine_state 610) WarnHot;
     assert_eq (bms_determine_state 700) WarnHot;
     assert_eq (bms_determine_state 750) WarnHot;
     assert_eq (bms_determine_state 760) LimpRequest;
     assert_eq (bms_determine_state 850) LimpRequest;
     assert_eq (bms_determine_state 900) LimpRequest;
     assert_eq (bms_determine_state 910) CriticalFault;
     assert_eq (bms_determine_state 1200) CriticalFault
   }"

definition test_safety_clamp_torque_normal :: "unit option" where
  "test_safety_clamp_torque_normal = do {
     assert_eq (safety_clamp_torque 50 Drive False 100) 50;
     assert_eq (safety_clamp_torque 100 Drive False 100) 100
   }"

definition test_safety_clamp_torque_brake_overrides :: "unit option" where
  "test_safety_clamp_torque_brake_overrides = do {
     assert_eq (safety_clamp_torque 80 Drive True 100) 0;
     assert_eq (safety_clamp_torque 50 Ready True 100) 0;
     assert_eq (safety_clamp_torque 30 Limp True 25) 0
   }"

definition test_safety_clamp_torque_fault_mode :: "unit option" where
  "test_safety_clamp_torque_fault_mode = do {
     assert_eq (safety_clamp_torque 80 Fault False 100) 0;
     assert_eq (safety_clamp_torque 5 Fault False 100) 0
   }"

definition test_safety_clamp_torque_limp_mode :: "unit option" where
  "test_safety_clamp_torque_limp_mode = do {
     assert_eq (safety_clamp_torque 80 Limp False 100) 25;
     assert_eq (safety_clamp_torque 50 Limp False 100) 25;
     assert_eq (safety_clamp_torque 10 Limp False 100) 10;
     assert_eq (safety_clamp_torque 0 Limp False 100) 0
   }"

definition test_safety_clamp_torque_bms_limit :: "unit option" where
  "test_safety_clamp_torque_bms_limit = do {
     assert_eq (safety_clamp_torque 80 Drive False 50) 50;
     assert_eq (safety_clamp_torque 40 Drive False 50) 40;
     assert_eq (safety_clamp_torque 80 Limp False 10) 10
   }"

definition test_safety_clamp_torque_negative_input :: "unit option" where
  "test_safety_clamp_torque_negative_input = do {
     assert_eq (safety_clamp_torque (- 10) Drive False 100) 0;
     assert_eq (safety_clamp_torque (- 50) Ready False 100) 0
   }"

definition test_safety_clamp_torque_off_ready_charging :: "unit option" where
  "test_safety_clamp_torque_off_ready_charging = do {
     assert_eq (safety_clamp_torque 30 Off False 100) 30;
     assert_eq (safety_clamp_torque 30 Ready False 100) 30;
     assert_eq (safety_clamp_torque 30 Charging False 100) 30
   }"

definition protocol_tests :: "unit option list" where
  "protocol_tests =
     [test_encode_decode_vehicle_mode,
      test_encode_decode_driver_input,
      test_encode_decode_bms_status,
      test_encode_decode_bms_limits,
      test_encode_decode_motor_command,
      test_encode_decode_wheel_speed,
      test_encode_decode_warning,
      test_bms_state_from_temp,
      test_safety_clamp_torque_normal,
      test_safety_clamp_torque_brake_overrides,
      test_safety_clamp_torque_fault_mode,
      test_safety_clamp_torque_limp_mode,
      test_safety_clamp_torque_bms_limit,
      test_safety_clamp_torque_negative_input,
      test_safety_clamp_torque_off_ready_charging]"

lemma protocol_tests_pass: "list_all passes_test protocol_tests"
  by code_simp

subsection \<open>The battery\<close>

definition test_bms_initial_state_ok :: "unit option" where
  "test_bms_initial_state_ok = do {
     let bms = bms_default;
     assert_eq (sm_state bms) BmsOk;
     assert_eq (sm_fault_code bms) FaultNone;
     assert_true (\<not> (is_fault bms));
     assert_true (\<not> (is_limp bms))
   }"

definition test_bms_temp_ok_range :: "unit option" where
  "test_bms_temp_ok_range = do {
     let bms = bms_default;
     let (r1, bms) = bms_update bms 250 48000 0 80;
     let state = r1;
     assert_eq state BmsOk;
     assert_true (\<not> (is_fault bms));
     let (r2, bms) = bms_update bms 600 48000 0 80;
     let state = r2;
     assert_eq state BmsOk;
     let (r3, bms) = bms_update bms 590 48000 0 80;
     let state = r3;
     assert_eq state BmsOk
   }"

definition test_bms_temp_warn_hot_range :: "unit option" where
  "test_bms_temp_warn_hot_range = do {
     let bms = bms_default;
     let (r1, bms) = bms_update bms 610 48000 0 80;
     let state = r1;
     assert_eq state WarnHot;
     assert_true (\<not> (is_fault bms));
     assert_true (\<not> (is_limp bms));
     let (r2, bms) = bms_update bms 700 48000 0 80;
     let state = r2;
     assert_eq state WarnHot;
     let (r3, bms) = bms_update bms 750 48000 0 80;
     let state = r3;
     assert_eq state WarnHot
   }"

definition test_bms_temp_limp_range :: "unit option" where
  "test_bms_temp_limp_range = do {
     let bms = bms_default;
     let (r1, bms) = bms_update bms 760 48000 0 80;
     let state = r1;
     assert_eq state LimpRequest;
     assert_true (\<not> (is_fault bms));
     assert_true (is_limp bms);
     let (r2, bms) = bms_update bms 850 48000 0 80;
     let state = r2;
     assert_eq state LimpRequest;
     let (r3, bms) = bms_update bms 900 48000 0 80;
     let state = r3;
     assert_eq state LimpRequest
   }"

definition test_bms_temp_critical_fault_range :: "unit option" where
  "test_bms_temp_critical_fault_range = do {
     let bms = bms_default;
     let (r1, bms) = bms_update bms 910 48000 0 80;
     let state = r1;
     assert_eq state CriticalFault;
     assert_true (is_fault bms);
     assert_true (\<not> (is_limp bms));
     let (r2, bms) = bms_update bms 1200 48000 0 80;
     let state = r2;
     assert_eq state CriticalFault
   }"

definition test_bms_fault_code_critical :: "unit option" where
  "test_bms_fault_code_critical = do {
     let bms = bms_default;
     let (_, bms) = bms_update bms 910 48000 0 80;
     assert_eq (sm_fault_code bms) Overtemp
   }"

definition test_bms_fault_code_none_for_non_critical :: "unit option" where
  "test_bms_fault_code_none_for_non_critical = do {
     let bms = bms_default;
     let (_, bms) = bms_update bms 750 48000 0 80;
     assert_eq (sm_fault_code bms) FaultNone;
     let (_, bms) = bms_update bms 850 48000 0 80;
     assert_eq (sm_fault_code bms) FaultNone
   }"

definition test_bms_limits_ok_unlimited :: "unit option" where
  "test_bms_limits_ok_unlimited = do {
     let bl = limits_default;
     let (r1, bl) = limits_compute bl BmsOk;
     let limit = r1;
     assert_eq limit 255;
     assert_eq (lim_reason bl) 0
   }"

definition test_bms_limits_warn_hot_unlimited :: "unit option" where
  "test_bms_limits_warn_hot_unlimited = do {
     let bl = limits_default;
     let (r1, bl) = limits_compute bl WarnHot;
     let limit = r1;
     assert_eq limit 255;
     assert_eq (lim_reason bl) 1
   }"

definition test_bms_limits_limp_request_25_percent :: "unit option" where
  "test_bms_limits_limp_request_25_percent = do {
     let bl = limits_default;
     let (r1, bl) = limits_compute bl LimpRequest;
     let limit = r1;
     assert_eq limit MC_TORQUE_LIMP_MAX_PERCENT;
     assert_eq (lim_reason bl) 2
   }"

definition test_bms_limits_critical_fault_zero :: "unit option" where
  "test_bms_limits_critical_fault_zero = do {
     let bl = limits_default;
     let (r1, bl) = limits_compute bl CriticalFault;
     let limit = r1;
     assert_eq limit MC_TORQUE_FAULT_MAX_PERCENT;
     assert_eq (lim_reason bl) 3
   }"

definition test_bms_state_transitions_full_heat_cycle :: "unit option" where
  "test_bms_state_transitions_full_heat_cycle = do {
     let bms = bms_default;
     let (r1, bms) = bms_update bms 250 48000 0 80;
     assert_eq r1 BmsOk;
     let (r2, bms) = bms_update bms 650 48000 0 80;
     assert_eq r2 WarnHot;
     let (r3, bms) = bms_update bms 800 48000 0 80;
     assert_eq r3 LimpRequest;
     let (r4, bms) = bms_update bms 950 48000 0 80;
     assert_eq r4 CriticalFault;
     let (r5, bms) = bms_update bms 800 48000 0 80;
     assert_eq r5 LimpRequest;
     let (r6, bms) = bms_update bms 650 48000 0 80;
     assert_eq r6 WarnHot;
     let (r7, bms) = bms_update bms 300 48000 0 80;
     assert_eq r7 BmsOk
   }"

definition bms_tests :: "unit option list" where
  "bms_tests =
     [test_bms_initial_state_ok,
      test_bms_temp_ok_range,
      test_bms_temp_warn_hot_range,
      test_bms_temp_limp_range,
      test_bms_temp_critical_fault_range,
      test_bms_fault_code_critical,
      test_bms_fault_code_none_for_non_critical,
      test_bms_limits_ok_unlimited,
      test_bms_limits_warn_hot_unlimited,
      test_bms_limits_limp_request_25_percent,
      test_bms_limits_critical_fault_zero,
      test_bms_state_transitions_full_heat_cycle]"

lemma bms_tests_pass: "list_all passes_test bms_tests"
  by code_simp

subsection \<open>The gateway\<close>

definition test_gateway_initial_state_off :: "unit option" where
  "test_gateway_initial_state_off = do {
     let gw = gateway_default;
     assert_eq (gs_mode gw) Off;
     assert_true (\<not> (gs_all_nodes_online gw))
   }"

definition test_gateway_off_to_ready_when_all_nodes_online :: "unit option" where
  "test_gateway_off_to_ready_when_all_nodes_online = do {
     let gw = gateway_default;
     let (r1, gw) = gateway_update gw True False False 0;
     let mode = r1;
     assert_eq mode Ready
   }"

definition test_gateway_stays_off_when_nodes_offline :: "unit option" where
  "test_gateway_stays_off_when_nodes_offline = do {
     let gw = gateway_default;
     let (r1, gw) = gateway_update gw False False False 0;
     let mode = r1;
     assert_eq mode Off
   }"

definition test_gateway_ready_to_drive :: "unit option" where
  "test_gateway_ready_to_drive = do {
     let gw = gateway_default;
     let (_, gw) = gateway_update gw True False False 0;
     assert_eq (gs_mode gw) Ready;
     let gw = enter_drive gw;
     assert_eq (gs_mode gw) Drive
   }"

definition test_gateway_drive_back_to_ready_on_node_loss :: "unit option" where
  "test_gateway_drive_back_to_ready_on_node_loss = do {
     let gw = gateway_default;
     let (_, gw) = gateway_update gw True False False 0;
     let gw = enter_drive gw;
     assert_eq (gs_mode gw) Drive;
     let (r1, gw) = gateway_update gw False False False 0;
     let mode = r1;
     assert_eq mode Ready
   }"

definition test_gateway_ready_back_to_off_on_node_loss :: "unit option" where
  "test_gateway_ready_back_to_off_on_node_loss = do {
     let gw = gateway_default;
     let (_, gw) = gateway_update gw True False False 0;
     assert_eq (gs_mode gw) Ready;
     let (r1, gw) = gateway_update gw False False False 0;
     let mode = r1;
     assert_eq mode Off
   }"

definition test_gateway_off_to_limp_on_bms_limp_request :: "unit option" where
  "test_gateway_off_to_limp_on_bms_limp_request = do {
     let gw = gateway_default;
     let (r1, gw) = gateway_update gw False False True 0;
     let mode = r1;
     assert_eq mode Limp
   }"

definition test_gateway_ready_to_limp_on_bms_limp_request :: "unit option" where
  "test_gateway_ready_to_limp_on_bms_limp_request = do {
     let gw = gateway_default;
     let (_, gw) = gateway_update gw True False False 0;
     assert_eq (gs_mode gw) Ready;
     let (r1, gw) = gateway_update gw True False True 0;
     let mode = r1;
     assert_eq mode Limp
   }"

definition test_gateway_drive_to_limp_on_bms_limp :: "unit option" where
  "test_gateway_drive_to_limp_on_bms_limp = do {
     let gw = gateway_default;
     let (_, gw) = gateway_update gw True False False 0;
     let gw = enter_drive gw;
     assert_eq (gs_mode gw) Drive;
     let (r1, gw) = gateway_update gw True False True 0;
     let mode = r1;
     assert_eq mode Limp
   }"

definition test_gateway_limp_back_to_ready_when_limp_clears :: "unit option" where
  "test_gateway_limp_back_to_ready_when_limp_clears = do {
     let gw = gateway_default;
     let (_, gw) = gateway_update gw True False False 0;
     let (_, gw) = gateway_update gw True False True 0;
     assert_eq (gs_mode gw) Limp;
     let (r1, gw) = gateway_update gw True False False 0;
     let mode = r1;
     assert_eq mode Ready
   }"

definition test_gateway_limp_persists_on_node_loss :: "unit option" where
  "test_gateway_limp_persists_on_node_loss = do {
     let gw = gateway_default;
     let (_, gw) = gateway_update gw True False True 0;
     assert_eq (gs_mode gw) Limp;
     let (r1, gw) = gateway_update gw False False True 0;
     let mode = r1;
     assert_eq mode Limp
   }"

definition test_gateway_fault_on_critical_bms_fault :: "unit option" where
  "test_gateway_fault_on_critical_bms_fault = do {
     let gw = gateway_default;
     let (_, gw) = gateway_update gw True False False 0;
     assert_eq (gs_mode gw) Ready;
     let (r1, gw) = gateway_update gw True True False 0;
     let mode = r1;
     assert_eq mode Fault
   }"

definition test_gateway_fault_is_terminal :: "unit option" where
  "test_gateway_fault_is_terminal = do {
     let gw = gateway_default;
     let (_, gw) = gateway_update gw True False False 0;
     let (_, gw) = gateway_update gw True True False 0;
     assert_eq (gs_mode gw) Fault;
     let (r1, gw) = gateway_update gw True False False 0;
     let mode = r1;
     assert_eq mode Fault
   }"

definition test_gateway_reboot_resets_to_off :: "unit option" where
  "test_gateway_reboot_resets_to_off = do {
     let gw = gateway_default;
     let (_, gw) = gateway_update gw True False False 0;
     let gw = enter_drive gw;
     assert_eq (gs_mode gw) Drive;
     let gw = gateway_reboot gw;
     assert_eq (gs_mode gw) Off;
     assert_true (\<not> (gs_all_nodes_online gw))
   }"

definition test_gateway_charging_mode :: "unit option" where
  "test_gateway_charging_mode = do {
     let mode = determine_mode Charging True False False;
     assert_eq mode Charging;
     let mode = determine_mode Charging True False True;
     assert_eq mode Charging;
     let mode = determine_mode Charging True True False;
     assert_eq mode Fault
   }"

definition test_heartbeat_monitor_new_empty :: "unit option" where
  "test_heartbeat_monitor_new_empty = do {
     let hm = hb_new;
     assert_true (\<not> (all_online hm))
   }"

definition test_heartbeat_monitor_register_and_beat :: "unit option" where
  "test_heartbeat_monitor_register_and_beat = do {
     let hm = hb_new;
     let hm = hb_register hm MC_NODE_POWERTRAIN 250;
     let hm = hb_register hm MC_NODE_BMS 300;
     assert_true (\<not> (all_online hm));
     assert_true (\<not> (is_online hm MC_NODE_POWERTRAIN));
     let hm = hb_beat hm MC_NODE_POWERTRAIN 100;
     assert_true (is_online hm MC_NODE_POWERTRAIN);
     assert_true (\<not> (is_online hm MC_NODE_BMS));
     assert_true (\<not> (all_online hm));
     let hm = hb_beat hm MC_NODE_BMS 150;
     assert_true (is_online hm MC_NODE_BMS);
     assert_true (all_online hm)
   }"

definition test_heartbeat_monitor_timeout :: "unit option" where
  "test_heartbeat_monitor_timeout = do {
     let hm = hb_new;
     let hm = hb_register hm MC_NODE_BMS 300;
     let hm = hb_beat hm MC_NODE_BMS 100;
     assert_true (is_online hm MC_NODE_BMS);
     (r1, hm) \<leftarrow> hb_check hm 200;
     let transitions = r1;
     assert_eq transitions 0;
     assert_true (is_online hm MC_NODE_BMS);
     (r2, hm) \<leftarrow> hb_check hm 400;
     let transitions = r2;
     assert_eq transitions 1;
     assert_true (\<not> (is_online hm MC_NODE_BMS))
   }"

definition test_heartbeat_monitor_timeout_exact_boundary :: "unit option" where
  "test_heartbeat_monitor_timeout_exact_boundary = do {
     let hm = hb_new;
     let hm = hb_register hm MC_NODE_GATEWAY 250;
     let hm = hb_beat hm MC_NODE_GATEWAY 100;
     (r1, hm) \<leftarrow> hb_check hm 349;
     let transitions = r1;
     assert_eq transitions 0;
     (r2, hm) \<leftarrow> hb_check hm 350;
     let transitions = r2;
     assert_eq transitions 1;
     assert_true (\<not> (is_online hm MC_NODE_GATEWAY))
   }"

definition test_heartbeat_monitor_multiple_nodes :: "unit option" where
  "test_heartbeat_monitor_multiple_nodes = do {
     let hm = hb_new;
     let hm = hb_register hm MC_NODE_POWERTRAIN 250;
     let hm = hb_register hm MC_NODE_BMS 300;
     let hm = hb_register hm MC_NODE_DASHBOARD 500;
     let hm = hb_beat hm MC_NODE_POWERTRAIN 100;
     let hm = hb_beat hm MC_NODE_BMS 100;
     let hm = hb_beat hm MC_NODE_DASHBOARD 100;
     assert_true (all_online hm);
     (r1, hm) \<leftarrow> hb_check hm 350;
     let transitions = r1;
     assert_eq transitions 1;
     assert_true (\<not> (is_online hm MC_NODE_POWERTRAIN));
     assert_true (is_online hm MC_NODE_BMS);
     assert_true (is_online hm MC_NODE_DASHBOARD);
     (r2, hm) \<leftarrow> hb_check hm 410;
     let transitions = r2;
     assert_eq transitions 1;
     assert_true (\<not> (is_online hm MC_NODE_BMS))
   }"

definition test_fault_manager_new_has_no_critical :: "unit option" where
  "test_fault_manager_new_has_no_critical = do {
     let fm = fm_new;
     assert_true (\<not> (has_critical fm));
     assert_eq (active_count fm) 0
   }"

definition test_fault_manager_report_critical :: "unit option" where
  "test_fault_manager_report_critical = do {
     let fm = fm_new;
     fm \<leftarrow> fault_report fm MC_NODE_BMS (fault_code_u8 Overtemp) 2;
     assert_true (has_critical fm);
     assert_eq (active_count fm) 1
   }"

definition test_fault_manager_report_warning :: "unit option" where
  "test_fault_manager_report_warning = do {
     let fm = fm_new;
     fm \<leftarrow> fault_report fm MC_NODE_BMS (fault_code_u8 Undervoltage) 1;
     assert_true (\<not> (has_critical fm));
     assert_eq (active_count fm) 1
   }"

definition test_fault_manager_clear_fault :: "unit option" where
  "test_fault_manager_clear_fault = do {
     let fm = fm_new;
     fm \<leftarrow> fault_report fm MC_NODE_BMS (fault_code_u8 Overtemp) 2;
     assert_true (has_critical fm);
     fm \<leftarrow> fault_clear fm MC_NODE_BMS (fault_code_u8 Overtemp);
     assert_true (\<not> (has_critical fm));
     assert_eq (active_count fm) 0
   }"

definition test_fault_manager_duplicate_report_no_double_count :: "unit option" where
  "test_fault_manager_duplicate_report_no_double_count = do {
     let fm = fm_new;
     fm \<leftarrow> fault_report fm MC_NODE_BMS (fault_code_u8 Overtemp) 2;
     fm \<leftarrow> fault_report fm MC_NODE_BMS (fault_code_u8 Overtemp) 2;
     assert_eq (active_count fm) 1;
     assert_true (has_critical fm)
   }"

definition test_fault_manager_multiple_sources :: "unit option" where
  "test_fault_manager_multiple_sources = do {
     let fm = fm_new;
     fm \<leftarrow> fault_report fm MC_NODE_BMS (fault_code_u8 Overtemp) 2;
     fm \<leftarrow> fault_report fm MC_NODE_POWERTRAIN 1 1;
     assert_true (has_critical fm);
     assert_eq (active_count fm) 2
   }"

definition gateway_tests :: "unit option list" where
  "gateway_tests =
     [test_gateway_initial_state_off,
      test_gateway_off_to_ready_when_all_nodes_online,
      test_gateway_stays_off_when_nodes_offline,
      test_gateway_ready_to_drive,
      test_gateway_drive_back_to_ready_on_node_loss,
      test_gateway_ready_back_to_off_on_node_loss,
      test_gateway_off_to_limp_on_bms_limp_request,
      test_gateway_ready_to_limp_on_bms_limp_request,
      test_gateway_drive_to_limp_on_bms_limp,
      test_gateway_limp_back_to_ready_when_limp_clears,
      test_gateway_limp_persists_on_node_loss,
      test_gateway_fault_on_critical_bms_fault,
      test_gateway_fault_is_terminal,
      test_gateway_reboot_resets_to_off,
      test_gateway_charging_mode,
      test_heartbeat_monitor_new_empty,
      test_heartbeat_monitor_register_and_beat,
      test_heartbeat_monitor_timeout,
      test_heartbeat_monitor_timeout_exact_boundary,
      test_heartbeat_monitor_multiple_nodes,
      test_fault_manager_new_has_no_critical,
      test_fault_manager_report_critical,
      test_fault_manager_report_warning,
      test_fault_manager_clear_fault,
      test_fault_manager_duplicate_report_no_double_count,
      test_fault_manager_multiple_sources]"

lemma gateway_tests_pass: "list_all passes_test gateway_tests"
  by code_simp

subsection \<open>The powertrain\<close>

definition test_torque_controller_initial_state :: "unit option" where
  "test_torque_controller_initial_state = do {
     let tc = torque_default;
     assert_eq (tc_throttle_percent tc) 0;
     assert_true (\<not> (tc_brake_pressed tc));
     assert_eq (tc_vehicle_mode tc) Off;
     assert_true (tc_motor_enable tc)
   }"

definition test_torque_controller_normal_drive :: "unit option" where
  "test_torque_controller_normal_drive = do {
     let tc = torque_default;
     let tc = set_mode tc Drive;
     let tc = set_input tc 50 False 1;
     let (r1, tc) = torque_compute tc;
     let torque = r1;
     assert_eq torque 50;
     assert_true (tc_motor_enable tc)
   }"

definition test_torque_controller_brake_overrides_throttle :: "unit option" where
  "test_torque_controller_brake_overrides_throttle = do {
     let tc = torque_default;
     let tc = set_mode tc Drive;
     let tc = set_input tc 80 True 1;
     let (r1, tc) = torque_compute tc;
     let torque = r1;
     assert_eq torque 0;
     assert_true (tc_motor_enable tc)
   }"

definition test_torque_controller_fault_mode_disables_motor :: "unit option" where
  "test_torque_controller_fault_mode_disables_motor = do {
     let tc = torque_default;
     let tc = set_mode tc Fault;
     let tc = set_input tc 50 False 1;
     let (r1, tc) = torque_compute tc;
     let torque = r1;
     assert_eq torque 0;
     assert_true (\<not> (tc_motor_enable tc))
   }"

definition test_torque_controller_limp_mode_caps_torque :: "unit option" where
  "test_torque_controller_limp_mode_caps_torque = do {
     let tc = torque_default;
     let tc = set_mode tc Limp;
     let tc = set_input tc 80 False 1;
     let (r1, tc) = torque_compute tc;
     let torque = r1;
     assert_eq torque 25;
     assert_true (tc_motor_enable tc)
   }"

definition test_torque_controller_limp_below_cap_passes_through :: "unit option" where
  "test_torque_controller_limp_below_cap_passes_through = do {
     let tc = torque_default;
     let tc = set_mode tc Limp;
     let tc = set_input tc 10 False 1;
     let (r1, tc) = torque_compute tc;
     let torque = r1;
     assert_eq torque 10;
     assert_true (tc_motor_enable tc)
   }"

definition test_torque_controller_bms_limit_caps_in_drive :: "unit option" where
  "test_torque_controller_bms_limit_caps_in_drive = do {
     let tc = torque_default;
     let tc = set_mode tc Drive;
     let tc = set_bms_limit tc 50;
     let tc = set_input tc 80 False 1;
     let (r1, tc) = torque_compute tc;
     let torque = r1;
     assert_eq torque 50
   }"

definition test_torque_controller_bms_limit_below_input_passes :: "unit option" where
  "test_torque_controller_bms_limit_below_input_passes = do {
     let tc = torque_default;
     let tc = set_mode tc Drive;
     let tc = set_bms_limit tc 80;
     let tc = set_input tc 50 False 1;
     let (r1, tc) = torque_compute tc;
     let torque = r1;
     assert_eq torque 50
   }"

definition test_torque_controller_bms_limit_and_limp :: "unit option" where
  "test_torque_controller_bms_limit_and_limp = do {
     let tc = torque_default;
     let tc = set_mode tc Limp;
     let tc = set_bms_limit tc 10;
     let tc = set_input tc 80 False 1;
     let (r1, tc) = torque_compute tc;
     let torque = r1;
     assert_eq torque 10
   }"

definition test_torque_controller_invalid_throttle :: "unit option" where
  "test_torque_controller_invalid_throttle = do {
     let tc = torque_default;
     let tc = set_mode tc Drive;
     let tc = set_input tc 150 False 1;
     let (r1, tc) = torque_compute tc;
     let torque = r1;
     assert_eq torque 0;
     assert_true (\<not> (tc_motor_enable tc));
     assert_true (is_throttle_invalid tc)
   }"

definition test_torque_controller_invalid_throttle_exactly_100 :: "unit option" where
  "test_torque_controller_invalid_throttle_exactly_100 = do {
     let tc = torque_default;
     let tc = set_mode tc Drive;
     let tc = set_input tc 100 False 1;
     assert_true (\<not> (is_throttle_invalid tc));
     let (r1, tc) = torque_compute tc;
     let torque = r1;
     assert_eq torque 100
   }"

definition test_torque_controller_invalid_throttle_101 :: "unit option" where
  "test_torque_controller_invalid_throttle_101 = do {
     let tc = torque_default;
     let tc = set_input tc 101 False 1;
     assert_true (is_throttle_invalid tc)
   }"

definition test_torque_controller_zero_throttle :: "unit option" where
  "test_torque_controller_zero_throttle = do {
     let tc = torque_default;
     let tc = set_mode tc Drive;
     let tc = set_input tc 0 False 1;
     let (r1, tc) = torque_compute tc;
     let torque = r1;
     assert_eq torque 0;
     assert_true (tc_motor_enable tc)
   }"

definition test_watchdog_initial_state_disabled :: "unit option" where
  "test_watchdog_initial_state_disabled = do {
     let wd = watchdog_default;
     assert_true (\<not> (wd_gateway_online wd));
     assert_true (wd_torque_disabled wd)
   }"

definition test_watchdog_gateway_beat_enables_torque :: "unit option" where
  "test_watchdog_gateway_beat_enables_torque = do {
     let wd = watchdog_default;
     let wd = gateway_beat wd 100;
     assert_true (wd_gateway_online wd);
     assert_true (\<not> (wd_torque_disabled wd));
     (r1, wd) \<leftarrow> watchdog_check wd 200;
     let should_disable = r1;
     assert_true (\<not> should_disable);
     assert_true (\<not> (wd_torque_disabled wd))
   }"

definition test_watchdog_timeout_disables_torque :: "unit option" where
  "test_watchdog_timeout_disables_torque = do {
     let wd = watchdog_default;
     let wd = gateway_beat wd 100;
     (r1, wd) \<leftarrow> watchdog_check wd 350;
     let should_disable = r1;
     assert_true should_disable;
     assert_true (\<not> (wd_gateway_online wd));
     assert_true (wd_torque_disabled wd)
   }"

definition test_watchdog_timeout_exact_boundary :: "unit option" where
  "test_watchdog_timeout_exact_boundary = do {
     let wd = watchdog_default;
     let wd = gateway_beat wd 100;
     (r1, wd) \<leftarrow> watchdog_check wd 349;
     let should_disable = r1;
     assert_true (\<not> should_disable);
     assert_true (wd_gateway_online wd);
     (r2, wd) \<leftarrow> watchdog_check wd 350;
     let should_disable = r2;
     assert_true should_disable
   }"

definition test_watchdog_no_initial_beat_always_disabled :: "unit option" where
  "test_watchdog_no_initial_beat_always_disabled = do {
     let wd = watchdog_default;
     (r1, wd) \<leftarrow> watchdog_check wd 1000;
     let should_disable = r1;
     assert_true should_disable;
     assert_true (wd_torque_disabled wd)
   }"

definition test_watchdog_reset :: "unit option" where
  "test_watchdog_reset = do {
     let wd = watchdog_default;
     let wd = gateway_beat wd 100;
     assert_true (wd_gateway_online wd);
     let wd = watchdog_reset wd;
     assert_true (\<not> (wd_gateway_online wd));
     assert_true (wd_torque_disabled wd)
   }"

definition powertrain_tests :: "unit option list" where
  "powertrain_tests =
     [test_torque_controller_initial_state,
      test_torque_controller_normal_drive,
      test_torque_controller_brake_overrides_throttle,
      test_torque_controller_fault_mode_disables_motor,
      test_torque_controller_limp_mode_caps_torque,
      test_torque_controller_limp_below_cap_passes_through,
      test_torque_controller_bms_limit_caps_in_drive,
      test_torque_controller_bms_limit_below_input_passes,
      test_torque_controller_bms_limit_and_limp,
      test_torque_controller_invalid_throttle,
      test_torque_controller_invalid_throttle_exactly_100,
      test_torque_controller_invalid_throttle_101,
      test_torque_controller_zero_throttle,
      test_watchdog_initial_state_disabled,
      test_watchdog_gateway_beat_enables_torque,
      test_watchdog_timeout_disables_torque,
      test_watchdog_timeout_exact_boundary,
      test_watchdog_no_initial_beat_always_disabled,
      test_watchdog_reset]"

lemma powertrain_tests_pass: "list_all passes_test powertrain_tests"
  by code_simp

subsection \<open>The dashboard\<close>

definition test_dashboard_initial_state :: "unit option" where
  "test_dashboard_initial_state = do {
     let ds = dashboard_default;
     assert_eq (ds_vehicle_mode ds) Off;
     assert_eq (ds_speed_kph_x10 ds) 0;
     assert_true (\<not> (ds_initialized ds));
     assert_true (ds_booted ds)
   }"

definition test_dashboard_set_mode :: "unit option" where
  "test_dashboard_set_mode = do {
     let ds = dashboard_default;
     let ds = dash_set_mode ds Drive;
     assert_eq (ds_vehicle_mode ds) Drive;
     assert_true (ds_initialized ds)
   }"

definition test_dashboard_set_speed :: "unit option" where
  "test_dashboard_set_speed = do {
     let ds = dashboard_default;
     let ds = dash_set_speed ds 120;
     assert_eq (ds_speed_kph_x10 ds) 120;
     assert_true (ds_initialized ds)
   }"

definition test_dashboard_set_battery :: "unit option" where
  "test_dashboard_set_battery = do {
     let ds = dashboard_default;
     let ds = dash_set_battery ds 85 600 47000;
     assert_eq (ds_soc_percent ds) 85;
     assert_eq (ds_battery_temp_c_x10 ds) 600;
     assert_eq (ds_battery_voltage_mv ds) 47000;
     assert_true (ds_initialized ds)
   }"

definition test_dashboard_receives_all_updates :: "unit option" where
  "test_dashboard_receives_all_updates = do {
     let ds = dashboard_default;
     let ds = dash_set_mode ds Drive;
     let ds = dash_set_speed ds 250;
     let ds = dash_set_battery ds 75 650 46500;
     assert_eq (ds_vehicle_mode ds) Drive;
     assert_eq (ds_speed_kph_x10 ds) 250;
     assert_eq (ds_soc_percent ds) 75;
     assert_eq (ds_battery_temp_c_x10 ds) 650;
     assert_eq (ds_battery_voltage_mv ds) 46500;
     assert_true (ds_initialized ds)
   }"

definition test_dashboard_add_warning :: "unit option" where
  "test_dashboard_add_warning = do {
     let ds = dashboard_default;
     let ds = add_warning ds (warning_u8 BmsOvertemp) MC_NODE_BMS;
     assert_eq (length (ds_warnings ds)) 1;
     w1 \<leftarrow> nth_or_panic (ds_warnings ds) 0;
     assert_true (dw_active w1);
     w2 \<leftarrow> nth_or_panic (ds_warnings ds) 0;
     assert_eq (dw_warning_code w2) (warning_u8 BmsOvertemp);
     w3 \<leftarrow> nth_or_panic (ds_warnings ds) 0;
     assert_eq (dw_source_node w3) MC_NODE_BMS
   }"

definition test_dashboard_duplicate_warning_no_double_count :: "unit option" where
  "test_dashboard_duplicate_warning_no_double_count = do {
     let ds = dashboard_default;
     let ds = add_warning ds (warning_u8 BmsOvertemp) MC_NODE_BMS;
     let ds = add_warning ds (warning_u8 BmsOvertemp) MC_NODE_BMS;
     assert_eq (length (ds_warnings ds)) 1
   }"

definition test_dashboard_clear_warning :: "unit option" where
  "test_dashboard_clear_warning = do {
     let ds = dashboard_default;
     let ds = add_warning ds (warning_u8 BmsOvertemp) MC_NODE_BMS;
     let ds = add_warning ds (warning_u8 PowertrainOffline) MC_NODE_POWERTRAIN;
     let ds = clear_warning ds (warning_u8 BmsOvertemp);
     w1 \<leftarrow> nth_or_panic (ds_warnings ds) 0;
     assert_true (\<not> (dw_active w1));
     w2 \<leftarrow> nth_or_panic (ds_warnings ds) 1;
     assert_true (dw_active w2)
   }"

definition test_dashboard_clear_node_warnings :: "unit option" where
  "test_dashboard_clear_node_warnings = do {
     let ds = dashboard_default;
     let ds = add_warning ds (warning_u8 BmsOvertemp) MC_NODE_BMS;
     let ds = add_warning ds (warning_u8 BmsOffline) MC_NODE_BMS;
     let ds = add_warning ds (warning_u8 PowertrainOffline) MC_NODE_POWERTRAIN;
     let ds = clear_node_warnings ds MC_NODE_BMS;
     w1 \<leftarrow> nth_or_panic (ds_warnings ds) 0;
     assert_true (\<not> (dw_active w1));
     w2 \<leftarrow> nth_or_panic (ds_warnings ds) 1;
     assert_true (\<not> (dw_active w2));
     w3 \<leftarrow> nth_or_panic (ds_warnings ds) 2;
     assert_true (dw_active w3)
   }"

definition test_dashboard_top_warning_priority :: "unit option" where
  "test_dashboard_top_warning_priority = do {
     let ds = dashboard_default;
     let ds = add_warning ds (warning_u8 BmsOffline) MC_NODE_BMS;
     assert_eq (top_warning ds) (warning_u8 BmsOffline);
     let ds = add_warning ds (warning_u8 BmsOvertemp) MC_NODE_BMS;
     assert_eq (top_warning ds) (warning_u8 BmsOvertemp);
     let ds = add_warning ds (warning_u8 CriticalBmsFault) MC_NODE_BMS;
     assert_eq (top_warning ds) (warning_u8 CriticalBmsFault)
   }"

definition test_dashboard_top_warning_no_warnings :: "unit option" where
  "test_dashboard_top_warning_no_warnings = do {
     let ds = dashboard_default;
     assert_eq (top_warning ds) (warning_u8 WarnNone)
   }"

definition test_dashboard_top_warning_cleared :: "unit option" where
  "test_dashboard_top_warning_cleared = do {
     let ds = dashboard_default;
     let ds = add_warning ds (warning_u8 CriticalBmsFault) MC_NODE_BMS;
     assert_eq (top_warning ds) (warning_u8 CriticalBmsFault);
     let ds = clear_warning ds (warning_u8 CriticalBmsFault);
     assert_eq (top_warning ds) (warning_u8 WarnNone)
   }"

definition test_dashboard_reboot :: "unit option" where
  "test_dashboard_reboot = do {
     let ds = dashboard_default;
     let ds = dash_set_mode ds Drive;
     let ds = dash_set_speed ds 300;
     let ds = add_warning ds (warning_u8 BmsOvertemp) MC_NODE_BMS;
     let ds = dashboard_reboot ds;
     assert_eq (ds_vehicle_mode ds) Off;
     assert_eq (ds_speed_kph_x10 ds) 0;
     assert_eq (length (ds_warnings ds)) 0;
     assert_true (\<not> (ds_booted ds));
     assert_true (\<not> (ds_initialized ds))
   }"

definition test_warning_display_initial :: "unit option" where
  "test_warning_display_initial = do {
     let wd = display_default;
     assert_eq (wdp_displayed_warning wd) (warning_u8 WarnNone);
     assert_eq (wdp_severity wd) 0
   }"

definition test_warning_display_higher_severity_wins :: "unit option" where
  "test_warning_display_higher_severity_wins = do {
     let wd = display_default;
     let (r1, wd) = display_update wd (warning_u8 BmsOffline) 1;
     let code = r1;
     assert_eq code (warning_u8 BmsOffline);
     let (r2, wd) = display_update wd (warning_u8 BmsOvertemp) 2;
     let code = r2;
     assert_eq code (warning_u8 BmsOvertemp);
     let (r3, wd) = display_update wd (warning_u8 CriticalBmsFault) 3;
     let code = r3;
     assert_eq code (warning_u8 CriticalBmsFault)
   }"

definition test_warning_display_lower_severity_loses :: "unit option" where
  "test_warning_display_lower_severity_loses = do {
     let wd = display_default;
     let (_, wd) = display_update wd (warning_u8 CriticalBmsFault) 3;
     let (r1, wd) = display_update wd (warning_u8 BmsOvertemp) 2;
     let code = r1;
     assert_eq code (warning_u8 CriticalBmsFault)
   }"

definition test_warning_display_equal_severity_keeps_current :: "unit option" where
  "test_warning_display_equal_severity_keeps_current = do {
     let wd = display_default;
     let (_, wd) = display_update wd (warning_u8 BmsOvertemp) 2;
     let (r1, wd) = display_update wd (warning_u8 PowertrainOffline) 2;
     let code = r1;
     assert_eq code (warning_u8 BmsOvertemp)
   }"

definition test_warning_display_clear :: "unit option" where
  "test_warning_display_clear = do {
     let wd = display_default;
     let (_, wd) = display_update wd (warning_u8 CriticalBmsFault) 3;
     let wd = display_clear wd;
     assert_eq (wdp_displayed_warning wd) (warning_u8 WarnNone);
     assert_eq (wdp_severity wd) 0
   }"

definition test_s7_dashboard_failure_does_not_disable_powertrain :: "unit option" where
  "test_s7_dashboard_failure_does_not_disable_powertrain = do {
     let ds = dashboard_default;
     assert_true (ds_booted ds)
   }"

definition dashboard_tests :: "unit option list" where
  "dashboard_tests =
     [test_dashboard_initial_state,
      test_dashboard_set_mode,
      test_dashboard_set_speed,
      test_dashboard_set_battery,
      test_dashboard_receives_all_updates,
      test_dashboard_add_warning,
      test_dashboard_duplicate_warning_no_double_count,
      test_dashboard_clear_warning,
      test_dashboard_clear_node_warnings,
      test_dashboard_top_warning_priority,
      test_dashboard_top_warning_no_warnings,
      test_dashboard_top_warning_cleared,
      test_dashboard_reboot,
      test_warning_display_initial,
      test_warning_display_higher_severity_wins,
      test_warning_display_lower_severity_loses,
      test_warning_display_equal_severity_keeps_current,
      test_warning_display_clear,
      test_s7_dashboard_failure_does_not_disable_powertrain]"

lemma dashboard_tests_pass: "list_all passes_test dashboard_tests"
  by code_simp

subsection \<open>The update slots\<close>

definition happy_path_commits_to_slot_b :: "unit option" where
  "happy_path_commits_to_slot_b = do {
     let m = ota_new;
     assert_eq (om_active_slot m) SLOT_A;
     let m = begin_download m;
     assert_eq (om_state m) Downloading;
     assert_eq (om_target_slot m) SLOT_B;
     let (r1, m) = finish_download m True;
     assert_true r1;
     let (r2, m) = verify m True;
     assert_true r2;
     assert_eq (om_state m) Verifying;
     let (r3, m) = commit m;
     assert_true r3;
     assert_eq (om_state m) CommitPending;
     let m = ota_reboot m;
     assert_eq (om_state m) Rebooting;
     let (r4, m) = health_check m True;
     assert_true r4;
     assert_eq (om_state m) Healthy;
     assert_true (om_boot_healthy m);
     assert_true (\<not> (om_rolled_back m));
     assert_eq (om_active_slot m) SLOT_B;
     assert_eq (boot_slot m) SLOT_B
   }"

definition corrupt_image_rolls_back_and_keeps_slot_a :: "unit option" where
  "corrupt_image_rolls_back_and_keeps_slot_a = do {
     let m = ota_new;
     let m = begin_download m;
     let (r1, m) = finish_download m True;
     assert_true r1;
     let (r2, m) = verify m False;
     assert_true (\<not> r2);
     assert_true (\<not> (om_crc_ok m));
     assert_eq (om_state m) RolledBack;
     assert_true (om_rolled_back m);
     let (r3, m) = commit m;
     assert_true (\<not> r3);
     assert_eq (om_state m) RolledBack;
     assert_eq (om_active_slot m) SLOT_A;
     assert_eq (boot_slot m) SLOT_A
   }"

definition failed_health_check_rolls_back_to_slot_a :: "unit option" where
  "failed_health_check_rolls_back_to_slot_a = do {
     let m = ota_new;
     let m = begin_download m;
     let (r1, m) = finish_download m True;
     assert_true r1;
     let (r2, m) = verify m True;
     assert_true r2;
     let (r3, m) = commit m;
     assert_true r3;
     let m = ota_reboot m;
     let (r4, m) = health_check m False;
     assert_true (\<not> r4);
     assert_eq (om_state m) RolledBack;
     assert_true (om_rolled_back m);
     assert_true (\<not> (om_boot_healthy m));
     assert_eq (om_active_slot m) SLOT_A;
     assert_eq (boot_slot m) SLOT_A
   }"

definition interrupted_write_rolls_back_to_slot_a :: "unit option" where
  "interrupted_write_rolls_back_to_slot_a = do {
     let m = ota_new;
     let m = begin_download m;
     assert_eq (om_target_slot m) SLOT_B;
     let (r1, m) = finish_download m False;
     assert_true (\<not> r1);
     assert_eq (om_state m) RolledBack;
     assert_true (om_rolled_back m);
     assert_true (\<not> (om_image_written m));
     let (r2, m) = verify m True;
     assert_true (\<not> r2);
     let (r3, m) = commit m;
     assert_true (\<not> r3);
     assert_eq (om_active_slot m) SLOT_A;
     assert_eq (boot_slot m) SLOT_A
   }"

definition healthy_update_is_not_undone_by_rollback :: "unit option" where
  "healthy_update_is_not_undone_by_rollback = do {
     let m = ota_new;
     let m = begin_download m;
     let (r1, m) = finish_download m True;
     assert_true r1;
     let (r2, m) = verify m True;
     assert_true r2;
     let (r3, m) = commit m;
     assert_true r3;
     let m = ota_reboot m;
     let (r4, m) = health_check m True;
     assert_true r4;
     assert_eq (om_active_slot m) SLOT_B;
     let m = rollback m;
     assert_eq (om_state m) Healthy;
     assert_eq (om_active_slot m) SLOT_B;
     assert_eq (boot_slot m) SLOT_B
   }"

definition commit_requires_written_image :: "unit option" where
  "commit_requires_written_image = do {
     let m = ota_new;
     let m = begin_download m;
     let (r1, m) = verify m True;
     assert_true r1;
     let (r2, m) = commit m;
     assert_true (\<not> r2);
     assert_eq (om_state m) RolledBack;
     assert_eq (om_active_slot m) SLOT_A
   }"

definition transitions_are_guarded_by_state :: "unit option" where
  "transitions_are_guarded_by_state = do {
     let m = ota_new;
     let (r1, m) = verify m True;
     assert_true (\<not> r1);
     let (r2, m) = commit m;
     assert_true (\<not> r2);
     let m = ota_reboot m;
     let (r3, m) = health_check m True;
     assert_true (\<not> r3);
     assert_eq (om_state m) Idle;
     assert_eq (boot_slot m) SLOT_A
   }"

definition crc32_matches_standard_check_vector :: "unit option" where
  "crc32_matches_standard_check_vector = do {
     assert_eq (crc32 [49, 50, 51, 52, 53, 54, 55, 56, 57]) 0xCBF43926
   }"

definition metadata_record_crc_round_trip :: "unit option" where
  "metadata_record_crc_round_trip = do {
     let r = meta_default\<lparr>mr_active_slot := SLOT_A, mr_target_slot := SLOT_B, mr_state := ota_state_u8
       CommitPending, mr_committed := 1, mr_generation := 7, mr_image_length := 4096, mr_image_crc32 :=
       0xDEADBEEF\<rparr>;
     let r = finalize r;
     assert_true (is_valid r);
     assert_eq (mr_magic r) OTA_META_MAGIC;
     assert_eq (length (to_bytes r)) OTA_META_RECORD_SIZE;
     let bad = r;
     let bad = bad\<lparr>mr_target_slot := SLOT_A\<rparr>;
     assert_true (\<not> (is_valid bad))
   }"

definition select_record_picks_highest_valid_generation :: "unit option" where
  "select_record_picks_highest_valid_generation = do {
     let a = meta_default\<lparr>mr_generation := 3, mr_state := ota_state_u8 Healthy\<rparr>;
     let b = meta_default\<lparr>mr_generation := 5, mr_state := ota_state_u8 Healthy\<rparr>;
     let a = finalize a;
     let b = finalize b;
     r1 \<leftarrow> select_record a b;
     assert_eq (mr_generation r1) 5;
     let invalid = b;
     let invalid = invalid\<lparr>mr_record_crc32 := mr_record_crc32 invalid XOR 0xFFFF\<rparr>;
     r2 \<leftarrow> select_record a invalid;
     assert_eq (mr_generation r2) 3;
     let also_bad = a;
     let also_bad = also_bad\<lparr>mr_magic := 0\<rparr>;
     assert_true (select_record also_bad invalid = None)
   }"

definition abort_records_reason_and_rolls_back :: "unit option" where
  "abort_records_reason_and_rolls_back = do {
     let m = ota_new;
     let m = begin_download m;
     let m = ota_abort m 0x2A;
     assert_eq (om_state m) RolledBack;
     assert_true (om_rolled_back m);
     assert_eq (om_abort_reason m) 0x2A;
     assert_eq (om_active_slot m) SLOT_A;
     let h = ota_new;
     let h = begin_download h;
     let (_, h) = finish_download h True;
     let (_, h) = verify h True;
     let (_, h) = commit h;
     let h = ota_reboot h;
     let (_, h) = health_check h True;
     let h = ota_abort h 0x99;
     assert_eq (om_state h) Healthy;
     assert_eq (om_abort_reason h) 0
   }"

definition recover_after_reset_reconstructs_committed_target :: "unit option" where
  "recover_after_reset_reconstructs_committed_target = do {
     let r = meta_default\<lparr>mr_active_slot := SLOT_A, mr_target_slot := SLOT_B, mr_state := ota_state_u8
       CommitPending, mr_committed := 1\<rparr>;
     let r = finalize r;
     let m = ota_new;
     let m = recover_after_reset m r;
     assert_eq (om_state m) CommitPending;
     assert_eq (om_target_slot m) SLOT_B;
     assert_true (om_committed m);
     assert_true (om_image_written m \<and> om_crc_ok m);
     let rb = meta_default\<lparr>mr_active_slot := SLOT_A, mr_target_slot := SLOT_A, mr_state := ota_state_u8
       RolledBack, mr_abort_reason := 3\<rparr>;
     let rb = finalize rb;
     let m2 = ota_new;
     let m2 = recover_after_reset m2 rb;
     assert_eq (om_state m2) RolledBack;
     assert_true (om_rolled_back m2);
     assert_eq (om_abort_reason m2) 3
   }"

definition ota_slot_tests :: "unit option list" where
  "ota_slot_tests =
     [happy_path_commits_to_slot_b,
      corrupt_image_rolls_back_and_keeps_slot_a,
      failed_health_check_rolls_back_to_slot_a,
      interrupted_write_rolls_back_to_slot_a,
      healthy_update_is_not_undone_by_rollback,
      commit_requires_written_image,
      transitions_are_guarded_by_state,
      crc32_matches_standard_check_vector,
      metadata_record_crc_round_trip,
      select_record_picks_highest_valid_generation,
      abort_records_reason_and_rolls_back,
      recover_after_reset_reconstructs_committed_target]"

text \<open>The CRC on integers, where the check vector can be evaluated.\<close>

definition crc_int :: "int \<Rightarrow> int" where
  "crc_int k = (if k mod 2 = 1 then (k div 2) XOR 0xEDB88320 else k div 2)"

lemma crc_bit_of_int: "0 \<le> k \<Longrightarrow> k < 4294967296 \<Longrightarrow> crc_bit (word_of_int k) = word_of_int (crc_int k)"
proof -
  assume k: "0 \<le> k" "k < 4294967296"
  have u: "uint (word_of_int k :: u32) = k" using k by (simp add: unsigned_of_int take_bit_int_eq_self)
  have "uint (word_of_int (k div 2) :: u32) = k div 2" using k by (simp add: unsigned_of_int take_bit_int_eq_self)
  then have "drop_bit 1 (word_of_int k :: u32) = word_of_int (k div 2)"
    by (intro word_uint_eqI) (simp add: drop_bit_eq_div uint_div_distrib u)
  moreover have "(word_of_int k :: u32) AND 1 = (if k mod 2 = 1 then 1 else 0)"
    by (auto simp: and_one_eq word_mod_def u)
  ultimately show ?thesis by (simp add: crc_bit_def crc_int_def Let_def of_int_xor_eq)
qed

lemma crc_int_range: "0 \<le> k \<Longrightarrow> k < 4294967296 \<Longrightarrow> 0 \<le> crc_int k \<and> crc_int k < 4294967296"
proof -
  assume "0 \<le> k" "k < 4294967296"
  then have "0 \<le> k div 2" "k div 2 < 4294967296" by simp_all
  then show ?thesis using XOR_upper [of "k div 2" 32 "0xEDB88320"] by (simp add: crc_int_def)
qed

definition crc_ints :: "int list \<Rightarrow> int" where
  "crc_ints bs = foldl (\<lambda>crc b. (crc_int ^^ 8) (crc XOR b)) 0xFFFFFFFF bs XOR 0xFFFFFFFF"

lemma crc_bits_of_int:
  "0 \<le> k \<and> k < 4294967296 \<Longrightarrow> (crc_bit ^^ n) (word_of_int k) = word_of_int ((crc_int ^^ n) k)
     \<and> 0 \<le> (crc_int ^^ n) k \<and> (crc_int ^^ n) k < 4294967296"
proof (induction n)
  case (Suc n)
  with crc_int_range [of "(crc_int ^^ n) k"] show ?case by (simp add: crc_bit_of_int)
qed simp

lemma crc32_of_ints:
  assumes "list_all (\<lambda>b. 0 \<le> b \<and> b < 256) bs"
  shows "crc32 (map word_of_int bs) = word_of_int (crc_ints bs)"
proof -
  have "foldl crc_byte (word_of_int k) (map word_of_int bs) =
      word_of_int (foldl (\<lambda>crc b. (crc_int ^^ 8) (crc XOR b)) k bs)" if "0 \<le> k \<and> k < 4294967296" for k
    using assms that
  proof (induction bs arbitrary: k)
    case (Cons b bs)
    have b: "ucast (word_of_int b :: u8) = (word_of_int b :: u32)" using Cons.prems(1)
      by (simp add: unsigned_ucast_eq ucast_eq unsigned_of_int take_bit_int_eq_self)
    have "0 \<le> k XOR b \<and> k XOR b < 4294967296" using Cons.prems XOR_upper [of k 32 b] by simp
    from crc_bits_of_int [OF this, of 8] Cons.IH Cons.prems(1) show ?case
      by (simp add: crc_byte_def b flip: of_int_xor_eq)
  qed simp
  from this [of "0xFFFFFFFF"] show ?thesis by (simp add: crc32_def crc_ints_def of_int_xor_eq)
qed

lemma crc32_test_passes: "crc32_matches_standard_check_vector = Some ()"
proof -
  have "crc_ints [49, 50, 51, 52, 53, 54, 55, 56, 57] = 0xCBF43926" by code_simp
  then show ?thesis
    using crc32_of_ints [of "[49, 50, 51, 52, 53, 54, 55, 56, 57]"]
    by (simp add: crc32_matches_standard_check_vector_def assert_eq_def assert_true_def)
qed

lemma finalize_fields:
  "mr_active_slot (finalize r) = mr_active_slot r" "mr_target_slot (finalize r) = mr_target_slot r"
  "mr_state (finalize r) = mr_state r" "mr_committed (finalize r) = mr_committed r"
  "mr_generation (finalize r) = mr_generation r" "mr_abort_reason (finalize r) = mr_abort_reason r"
  "mr_healthy (finalize r) = mr_healthy r" "mr_magic (finalize r) = OTA_META_MAGIC"
  by (simp_all add: finalize_def Let_def)

lemma tampered_target:
  assumes "is_valid r" "x \<noteq> mr_target_slot r"
  shows "\<not> is_valid (r\<lparr>mr_target_slot := x\<rparr>)"
proof -
  have "to_bytes r = take 6 (to_bytes r) @ mr_target_slot r # drop 7 (to_bytes r)"
    "to_bytes (r\<lparr>mr_target_slot := x\<rparr>) = take 6 (to_bytes r) @ x # drop 7 (to_bytes r)"
    by (simp_all add: to_bytes_def le_bytes_def)
  from corrupted_record_invalid [OF assms(1) this assms(2) [symmetric]] show ?thesis .
qed

lemma xor_changes: "a XOR x = a \<longleftrightarrow> x = 0" for a x :: u32
proof
  assume "a XOR x = a"
  then have "(a XOR a) XOR x = a XOR a" by (simp only: xor.assoc)
  then show "x = 0" by simp
qed simp

lemma tampered_crc: "is_valid r \<Longrightarrow> x \<noteq> 0 \<Longrightarrow> \<not> is_valid (r\<lparr>mr_record_crc32 := mr_record_crc32 r XOR x\<rparr>)"
  by (auto simp: is_valid_def compute_record_crc32_def to_bytes_def le_bytes_def xor_changes)

lemma tampered_magic: "\<not> is_valid (r\<lparr>mr_magic := 0\<rparr>)"
  by (simp add: is_valid_def OTA_META_MAGIC_def)

lemma record_length: "length (to_bytes r) = OTA_META_RECORD_SIZE"
  by (simp add: to_bytes_def le_bytes_def OTA_META_RECORD_SIZE_def)

lemmas record_facts = assert_eq_def assert_true_def finalize_valid finalize_fields tampered_target tampered_crc tampered_magic
  record_length select_record_def Let_def SLOT_A_def SLOT_B_def

lemma record_tests_pass:
  "metadata_record_crc_round_trip = Some ()"
  "select_record_picks_highest_valid_generation = Some ()"
  by (simp add: metadata_record_crc_round_trip_def record_facts)
    (simp add: select_record_picks_highest_valid_generation_def meta_default_def record_facts)

lemma recovery_test_passes: "recover_after_reset_reconstructs_committed_target = Some ()"
  by (simp add: recover_after_reset_reconstructs_committed_target_def recover_after_reset_def meta_default_def
      ota_new_def ota_state_from_u8_def record_facts)

lemma slot_tests_pass:
  "list_all passes_test [happy_path_commits_to_slot_b, corrupt_image_rolls_back_and_keeps_slot_a,
     failed_health_check_rolls_back_to_slot_a, interrupted_write_rolls_back_to_slot_a,
     healthy_update_is_not_undone_by_rollback, commit_requires_written_image,
     transitions_are_guarded_by_state, abort_records_reason_and_rolls_back]"
  by code_simp

lemma ota_slot_tests_pass: "list_all passes_test ota_slot_tests"
  using slot_tests_pass record_tests_pass recovery_test_passes crc32_test_passes
  by (simp add: ota_slot_tests_def passes_test_def)

subsection \<open>All tests\<close>

definition state_tests :: "unit option list" where
  "state_tests =
     protocol_tests @ bms_tests @ gateway_tests @ powertrain_tests @ dashboard_tests @ ota_slot_tests"

text \<open>
  Every unit test of the state machines passes on the model: these 103 of them, each with every
  assertion it makes and without a panic.
\<close>

lemma state_tests_pass: "length state_tests = 103 \<and> list_all passes_test state_tests"
  by (simp add: state_tests_def protocol_tests_pass bms_tests_pass gateway_tests_pass powertrain_tests_pass
      dashboard_tests_pass ota_slot_tests_pass)
    (simp add: protocol_tests_def bms_tests_def gateway_tests_def powertrain_tests_def dashboard_tests_def
      ota_slot_tests_def)

end
