(* ===== verification/Lane_Tests.thy ===== *)
theory Lane_Tests
  imports State_Tests Telematics_Lane Topology_Lane Firmware_Corpus
begin

text \<open>
  The unit tests of the feature lanes in \<^verbatim>\<open>dogfood/src/\<close> on the model's definitions, and the traces these
  tests call real compared with what the firmware's model traces. Where a test writes a file for the parser,
  the content is given to the model's parser directly.
\<close>

subsection \<open>Evaluating the parsers\<close>

text \<open>The parsers of integers compute with natural numbers; over the integers they can be evaluated.\<close>

fun parse_int_digits :: "(char \<Rightarrow> nat option) \<Rightarrow> int \<Rightarrow> int \<Rightarrow> string \<Rightarrow> int option" where
  "parse_int_digits dig base acc [] = Some acc"
| "parse_int_digits dig base acc (c # s) =
     (case dig c of None \<Rightarrow> None | Some d \<Rightarrow> parse_int_digits dig base (base * acc + int d) s)"

lemma parse_int_digits_eq:
  "parse_int_digits dig (int base) (int acc) s = map_option int (parse_digits dig base acc s)"
  by (induction s arbitrary: acc) (simp_all split: option.split flip: of_nat_mult of_nat_add)

definition parse_int_radix :: "(char \<Rightarrow> nat option) \<Rightarrow> int \<Rightarrow> nat \<Rightarrow> string \<Rightarrow> int option" where
  "parse_int_radix dig base w s =
     (let t = strip_plus s
      in if t = [] then None
         else case parse_int_digits dig base 0 t of
                None \<Rightarrow> None
              | Some n \<Rightarrow> if n < 2 ^ w then Some n else None)"

lemma parse_int_radix_eq: "parse_int_radix dig (int base) w s = map_option int (parse_radix dig base w s)"
  using parse_int_digits_eq [of dig base 0]
  by (auto simp: parse_int_radix_def parse_radix_def Let_def split: option.split)

lemma word_of_parsed:
  "map_option of_nat (parse_radix dig base w s) =
     (map_option word_of_int (parse_int_radix dig (int base) w s) :: 'a::len word option)"
  by (simp add: parse_int_radix_eq option.map_comp comp_def)

lemma parse_words_code [code]:
  "parse_u64 s = map_option word_of_int (parse_int_radix dec_digit 10 64 s)"
  "parse_u32 s = map_option word_of_int (parse_int_radix dec_digit 10 32 s)"
  using word_of_parsed [of dec_digit 10 64 s] word_of_parsed [of dec_digit 10 32 s]
  by (simp_all add: parse_u64_def parse_u32_def parse_dec_def)

subsection \<open>The update lane\<close>

definition trace_event :: "u64 \<Rightarrow> string \<Rightarrow> u32 \<Rightarrow> user_trace" where
  "trace_event machine_id label v = \<lparr>ut_machine = machine_id, ut_label = label, ut_value = v\<rparr>"

abbreviation gw_event :: "string \<Rightarrow> u32 \<Rightarrow> user_trace" where
  "gw_event \<equiv> trace_event OTA_NODE_GATEWAY"

definition happy_trace :: "user_trace list" where
  "happy_trace = [
       gw_event ''ota_state'' 0,
       gw_event ''ota_state'' 1,
       gw_event ''ota_state'' 2,
       gw_event ''ota_crc_ok'' 1,
       gw_event ''ota_state'' 3,
       gw_event ''ota_slot'' 1,
       gw_event ''ota_state'' 4,
       gw_event ''ota_state'' 5,
       gw_event ''ota_boot_result'' 1]"

definition rollback_trace :: "user_trace list" where
  "rollback_trace = [
       gw_event ''ota_state'' 0,
       gw_event ''ota_state'' 1,
       gw_event ''ota_state'' 2,
       gw_event ''ota_crc_ok'' 0,
       gw_event ''ota_state'' 6,
       gw_event ''ota_rollback'' 1,
       gw_event ''ota_active_slot'' 0,
       gw_event ''ota_boot_result'' 0]"

definition interrupted_write_trace :: "user_trace list" where
  "interrupted_write_trace = [
       gw_event ''ota_state'' 0,
       gw_event ''ota_state'' 1,
       gw_event ''ota_state'' 6,
       gw_event ''ota_rollback'' 1,
       gw_event ''ota_active_slot'' 0,
       gw_event ''ota_boot_result'' 0]"

definition failed_health_trace :: "user_trace list" where
  "failed_health_trace = [
       gw_event ''ota_state'' 0,
       gw_event ''ota_state'' 1,
       gw_event ''ota_state'' 2,
       gw_event ''ota_crc_ok'' 1,
       gw_event ''ota_state'' 3,
       gw_event ''ota_slot'' 1,
       gw_event ''ota_state'' 4,
       gw_event ''ota_state'' 6,
       gw_event ''ota_rollback'' 1,
       gw_event ''ota_active_slot'' 0,
       gw_event ''ota_boot_result'' 0]"

definition powercut_precommit_trace :: "user_trace list" where
  "powercut_precommit_trace = [
       gw_event ''ota_state'' 0,
       gw_event ''ota_state'' 1,
       gw_event ''ota_state'' 2,
       gw_event ''ota_crc_ok'' 1,
       gw_event ''ota_state'' 6,
       gw_event ''ota_rollback'' 1,
       gw_event ''ota_active_slot'' 0,
       gw_event ''ota_boot_result'' 0]"

definition ota_parses_user_trace_line :: "unit option" where
  "ota_parses_user_trace_line = do {
     event \<leftarrow> parse_user_trace_line ''[machine.1]            0 user-u32 \"ota_state\" = 3'';
     assert_eq (ut_machine event) OTA_NODE_GATEWAY;
     assert_eq (ut_label event) ''ota_state'';
     assert_eq (ut_value event) 3
   }"

definition state_sequence_check_passes_on_full_sequence :: "unit option" where
  "state_sequence_check_passes_on_full_sequence = do {
     let e = StateSequence [0, 1, 2, 3, 4, 5];
     let c = evaluate_ota e happy_trace;
     assert_true (ck_passed c)
   }"

definition state_sequence_check_is_ordered_subsequence :: "unit option" where
  "state_sequence_check_is_ordered_subsequence = do {
     let trace = [gw_event ''ota_state'' 0, gw_event ''ota_state'' 9, gw_event ''ota_state'' 1, gw_event ''ota_state'' 2];
     assert_true (ck_passed (evaluate_ota (StateSequence [0, 1, 2]) trace))
   }"

definition state_sequence_check_fails_when_out_of_order :: "unit option" where
  "state_sequence_check_fails_when_out_of_order = do {
     let trace = [gw_event ''ota_state'' 2, gw_event ''ota_state'' 1, gw_event ''ota_state'' 0];
     assert_true (\<not> ck_passed (evaluate_ota (StateSequence [0, 1, 2]) trace))
   }"

definition crc_ok_check_requires_flag :: "unit option" where
  "crc_ok_check_requires_flag = do {
     assert_true (ck_passed (evaluate_ota CrcOk happy_trace));
     let without = [gw_event ''ota_state'' 2];
     assert_true (\<not> ck_passed (evaluate_ota CrcOk without))
   }"

definition healthy_check_requires_boot_result :: "unit option" where
  "healthy_check_requires_boot_result = do {
     assert_true (ck_passed (evaluate_ota Ota_Lane.Healthy happy_trace));
     let failed = [gw_event ''ota_boot_result'' 0];
     assert_true (\<not> ck_passed (evaluate_ota Ota_Lane.Healthy failed))
   }"

definition ota_parses_expectations_from_directives :: "unit option" where
  "ota_parses_expectations_from_directives = do {
     let content = concat (map (\<lambda>l. l @ [CHR 0x0A])
       [''# ota-expect: state-sequence 0,1,2,3,4,5'',
        ''# ota-expect: crc-ok'',
        ''# ota-expect: healthy'',
        ''name = \"x\"'']);
     let exps = parse_ota_expectations content;
     assert_eq exps [StateSequence [0, 1, 2, 3, 4, 5], CrcOk, Ota_Lane.Healthy]
   }"

definition crc_bad_check_requires_failed_and_no_ok :: "unit option" where
  "crc_bad_check_requires_failed_and_no_ok = do {
     assert_true (ck_passed (evaluate_ota CrcBad rollback_trace));
     assert_true (\<not> ck_passed (evaluate_ota CrcBad happy_trace));
     let none = [gw_event ''ota_state'' 2];
     assert_true (\<not> ck_passed (evaluate_ota CrcBad none))
   }"

definition rolled_back_check_requires_flag :: "unit option" where
  "rolled_back_check_requires_flag = do {
     assert_true (ck_passed (evaluate_ota Ota_Lane.RolledBack rollback_trace));
     assert_true (\<not> ck_passed (evaluate_ota Ota_Lane.RolledBack happy_trace))
   }"

definition active_slot_check_matches_final_slot :: "unit option" where
  "active_slot_check_matches_final_slot = do {
     assert_true (ck_passed (evaluate_ota (ActiveSlot 0) rollback_trace));
     assert_true (\<not> ck_passed (evaluate_ota (ActiveSlot 1) rollback_trace));
     assert_true (\<not> ck_passed (evaluate_ota (ActiveSlot 0) happy_trace))
   }"

definition rollback_state_sequence_reaches_rolled_back :: "unit option" where
  "rollback_state_sequence_reaches_rolled_back = do {
     let e = StateSequence [0, 1, 2, 6];
     assert_true (ck_passed (evaluate_ota e rollback_trace))
   }"

definition parses_rollback_expectations_from_directives :: "unit option" where
  "parses_rollback_expectations_from_directives = do {
     let content = concat (map (\<lambda>l. l @ [CHR 0x0A])
       [''# ota-expect: state-sequence 0,1,2,6'',
        ''# ota-expect: crc-bad'',
        ''# ota-expect: rolled-back'',
        ''# ota-expect: active-slot 0'',
        ''name = \"x\"'']);
     let exps = parse_ota_expectations content;
     assert_eq exps [StateSequence [0, 1, 2, 6], CrcBad, Ota_Lane.RolledBack, ActiveSlot 0]
   }"

definition interrupted_write_aborts_before_verify_and_keeps_slot_a :: "unit option" where
  "interrupted_write_aborts_before_verify_and_keeps_slot_a = do {
     assert_true (ck_passed (evaluate_ota (StateSequence [0, 1, 6]) interrupted_write_trace));
     assert_true (ck_passed (evaluate_ota Ota_Lane.RolledBack interrupted_write_trace));
     assert_true (ck_passed (evaluate_ota (ActiveSlot 0) interrupted_write_trace));
     assert_true (\<not> ck_passed (evaluate_ota Ota_Lane.Healthy interrupted_write_trace));
     assert_true (\<not> ck_passed (evaluate_ota CrcOk interrupted_write_trace));
     assert_true (\<not> ck_passed (evaluate_ota CrcBad interrupted_write_trace))
   }"

definition failed_health_commits_valid_image_then_rolls_back_to_slot_a :: "unit option" where
  "failed_health_commits_valid_image_then_rolls_back_to_slot_a = do {
     assert_true (ck_passed (evaluate_ota (StateSequence [0, 1, 2, 3, 4, 6]) failed_health_trace));
     assert_true (ck_passed (evaluate_ota CrcOk failed_health_trace));
     assert_true (ck_passed (evaluate_ota Ota_Lane.RolledBack failed_health_trace));
     assert_true (ck_passed (evaluate_ota (ActiveSlot 0) failed_health_trace));
     assert_true (\<not> ck_passed (evaluate_ota Ota_Lane.Healthy failed_health_trace))
   }"

definition powercut_precommit_reverts_valid_image_to_slot_a :: "unit option" where
  "powercut_precommit_reverts_valid_image_to_slot_a = do {
     assert_true (ck_passed (evaluate_ota (StateSequence [0, 1, 2, 6]) powercut_precommit_trace));
     assert_true (ck_passed (evaluate_ota CrcOk powercut_precommit_trace));
     assert_true (\<not> ck_passed (evaluate_ota CrcBad powercut_precommit_trace));
     assert_true (ck_passed (evaluate_ota Ota_Lane.RolledBack powercut_precommit_trace));
     assert_true (ck_passed (evaluate_ota (ActiveSlot 0) powercut_precommit_trace));
     assert_true (\<not> ck_passed (evaluate_ota Ota_Lane.Healthy powercut_precommit_trace))
   }"

definition ota_lane_tests :: "unit option list" where
  "ota_lane_tests =
     [ota_parses_user_trace_line,
      state_sequence_check_passes_on_full_sequence,
      state_sequence_check_is_ordered_subsequence,
      state_sequence_check_fails_when_out_of_order,
      crc_ok_check_requires_flag,
      healthy_check_requires_boot_result,
      ota_parses_expectations_from_directives,
      crc_bad_check_requires_failed_and_no_ok,
      rolled_back_check_requires_flag,
      active_slot_check_matches_final_slot,
      rollback_state_sequence_reaches_rolled_back,
      parses_rollback_expectations_from_directives,
      interrupted_write_aborts_before_verify_and_keeps_slot_a,
      failed_health_commits_valid_image_then_rolls_back_to_slot_a,
      powercut_precommit_reverts_valid_image_to_slot_a]"

lemma ota_lane_tests_pass: "list_all passes_test ota_lane_tests"
  by code_simp

subsection \<open>The charging and diagnostics lanes\<close>

definition charging_parses_user_trace_line :: "unit option" where
  "charging_parses_user_trace_line = do {
     event \<leftarrow> parse_user_trace_line ''[machine.1]            0 user-u32 \"gateway_charging_state\" = 5'';
     assert_eq (ut_machine event) CHG_NODE_GATEWAY;
     assert_eq (ut_label event) ''gateway_charging_state'';
     assert_eq (ut_value event) 5
   }"

definition charging_mode_check_passes_on_charging_state :: "unit option" where
  "charging_mode_check_passes_on_charging_state = do {
     let trace = [trace_event CHG_NODE_GATEWAY ''gateway_charging_state'' Charging_Lane.VEHICLE_CHARGING];
     let c = evaluate_charging ChargingMode trace;
     assert_true (ck_passed c)
   }"

definition charging_mode_check_fails_without_charging_state :: "unit option" where
  "charging_mode_check_fails_without_charging_state = do {
     let trace = [trace_event CHG_NODE_GATEWAY ''vehicle_mode'' 1];
     let c = evaluate_charging ChargingMode trace;
     assert_true (\<not> ck_passed c)
   }"

definition drive_blocked_check_requires_flag_and_charging :: "unit option" where
  "drive_blocked_check_requires_flag_and_charging = do {
     let good = [trace_event CHG_NODE_GATEWAY ''charging_drive_blocked'' 1,
                 trace_event CHG_NODE_GATEWAY ''gateway_charging_state'' Charging_Lane.VEHICLE_CHARGING];
     assert_true (ck_passed (evaluate_charging DriveBlocked good));
     let bad = [trace_event CHG_NODE_GATEWAY ''charging_drive_blocked'' 0,
                trace_event CHG_NODE_GATEWAY ''gateway_charging_state'' Charging_Lane.VEHICLE_CHARGING];
     assert_true (\<not> ck_passed (evaluate_charging DriveBlocked bad))
   }"

definition motor_torque_check_requires_zero_and_disabled :: "unit option" where
  "motor_torque_check_requires_zero_and_disabled = do {
     let good = [trace_event CHG_NODE_POWERTRAIN ''charging_motor_command'' 0];
     assert_true (ck_passed (evaluate_charging (MotorTorque 0) good));
     let bad = [trace_event CHG_NODE_POWERTRAIN ''charging_motor_command'' (or (push_bit 8 40) 1)];
     assert_true (\<not> ck_passed (evaluate_charging (MotorTorque 0) bad));
     assert_true (\<not> ck_passed (evaluate_charging (MotorTorque 0) []))
   }"

definition charging_parses_expectations_from_directives :: "unit option" where
  "charging_parses_expectations_from_directives = do {
     let content = concat (map (\<lambda>l. l @ [CHR 0x0A])
       [''# charging-expect: charging-mode'',
        ''# charging-expect: drive-blocked'',
        ''# charging-expect: motor-torque max=0'',
        ''name = \"x\"'']);
     let exps = parse_charging_expectations content;
     assert_eq exps [ChargingMode, DriveBlocked, MotorTorque 0]
   }"

definition charging_lane_tests :: "unit option list" where
  "charging_lane_tests =
     [charging_parses_user_trace_line,
      charging_mode_check_passes_on_charging_state,
      charging_mode_check_fails_without_charging_state,
      drive_blocked_check_requires_flag_and_charging,
      motor_torque_check_requires_zero_and_disabled,
      charging_parses_expectations_from_directives]"

lemma charging_lane_tests_pass: "list_all passes_test charging_lane_tests"
  by code_simp

definition diagnostics_parses_user_trace_line :: "unit option" where
  "diagnostics_parses_user_trace_line = do {
     event \<leftarrow> parse_user_trace_line ''[machine.1]            0 user-u32 \"gateway_diag_response\" = 16842758'';
     assert_eq (ut_machine event) DIAG_NODE_GATEWAY;
     assert_eq (ut_label event) ''gateway_diag_response'';
     assert_eq (ut_value event) 16842758
   }"

definition collects_diag_response_pair :: "unit option" where
  "collects_diag_response_pair = do {
     let trace =
       [trace_event DIAG_NODE_GATEWAY ''gateway_diag_response'' (or (or (push_bit 24 3) (push_bit 16 (ucast DIAG_READ_DTCS))) 1),
        trace_event DIAG_NODE_GATEWAY ''gateway_diag_response_v1'' (or (or (push_bit 24 3) (push_bit 16 (ucast DIAG_READ_DTCS))) 7)];
     let responses = collect_diag_responses trace;
     dtc \<leftarrow> response responses DIAG_READ_DTCS 3;
     assert_eq (dg_status dtc) DIAG_OK;
     assert_eq (dg_value0 dtc) 1;
     assert_eq (dg_value1 dtc) 7
   }"

definition collects_service_motor_commands :: "unit option" where
  "collects_service_motor_commands = do {
     let trace = [trace_event DIAG_NODE_POWERTRAIN ''diag_motor_command'' 0];
     assert_eq (collect_service_motor_commands trace) [0]
   }"

definition diagnostics_lane_tests :: "unit option list" where
  "diagnostics_lane_tests =
     [diagnostics_parses_user_trace_line,
      collects_diag_response_pair,
      collects_service_motor_commands]"

lemma diagnostics_lane_tests_pass: "list_all passes_test diagnostics_lane_tests"
  by code_simp

subsection \<open>The bug corpus\<close>

definition corpus_event :: "string \<Rightarrow> u32 \<Rightarrow> user_trace" where
  "corpus_event label v = \<lparr>ut_machine = CORPUS_NODE_GATEWAY, ut_label = label, ut_value = v\<rparr>"

definition buggy_trace :: "user_trace list" where
  "buggy_trace = [
       corpus_event ''ota_state'' 0,
       corpus_event ''ota_state'' 1,
       corpus_event ''ota_state'' 2,
       corpus_event ''ota_crc_ok'' 1,
       corpus_event ''ota_state'' 3,
       corpus_event ''ota_slot'' 1,
       corpus_event ''ota_state'' 4,
       corpus_event ''ota_state'' 5,
       corpus_event ''ota_boot_result'' 1]"

definition fixed_trace :: "user_trace list" where
  "fixed_trace = [
       corpus_event ''ota_state'' 0,
       corpus_event ''ota_state'' 1,
       corpus_event ''ota_state'' 2,
       corpus_event ''ota_crc_ok'' 0,
       corpus_event ''ota_state'' 6,
       corpus_event ''ota_rollback'' 1,
       corpus_event ''ota_active_slot'' 0,
       corpus_event ''ota_boot_result'' 0]"

definition corpus_parses_user_trace_line :: "unit option" where
  "corpus_parses_user_trace_line = do {
     e \<leftarrow> parse_user_trace_line ''[machine.1]            0 user-u32 \"ota_state\" = 3'';
     assert_eq (ut_machine e) CORPUS_NODE_GATEWAY;
     assert_eq (ut_label e) ''ota_state'';
     assert_eq (ut_value e) 3
   }"

text \<open>The helpers stand for the loop over the checks and the search for one of them by its name.\<close>

definition all_three :: "lane_check list \<Rightarrow> unit option" where
  "all_three checks = do { assert_eq (length checks) 3; assert_true (list_all ck_passed checks) }"

definition check_failed :: "string \<Rightarrow> lane_check list \<Rightarrow> unit option" where
  "check_failed name checks = do { c \<leftarrow> List.find (\<lambda>c. ck_name c = name) checks; assert_true (\<not> ck_passed c) }"

definition ota_rollback_seed_passes_on_real_trace_pair :: "unit option" where
  "ota_rollback_seed_passes_on_real_trace_pair = do {
     let checks = evaluate_seed OtaRollback buggy_trace fixed_trace;
     all_three checks
   }"

definition fails_when_buggy_firmware_actually_rolls_back :: "unit option" where
  "fails_when_buggy_firmware_actually_rolls_back = do {
     let checks = evaluate_seed OtaRollback fixed_trace fixed_trace;
     check_failed ''bug-reproduced'' checks
   }"

definition fails_when_fixed_firmware_still_boots_bad_image :: "unit option" where
  "fails_when_fixed_firmware_still_boots_bad_image = do {
     let checks = evaluate_seed OtaRollback buggy_trace buggy_trace;
     check_failed ''bug-fixed'' checks;
     check_failed ''traces-diverge'' checks
   }"

definition motor_command_event :: "i8 \<Rightarrow> bool \<Rightarrow> user_trace" where
  "motor_command_event torque motor_enable = 
     \<lparr>ut_machine = CORPUS_NODE_POWERTRAIN, ut_label = ''diag_motor_command'',
      ut_value = or (push_bit 8 (ucast torque)) (of_bool motor_enable)\<rparr>"

definition service_bug_trace :: "user_trace list" where
  "service_bug_trace = [motor_command_event 80 True, motor_command_event 80 True, motor_command_event 80 True]"

definition service_fixed_trace :: "user_trace list" where
  "service_fixed_trace = [motor_command_event 0 False, motor_command_event 0 False, motor_command_event 0 False]"

definition decodes_packed_motor_command :: "unit option" where
  "decodes_packed_motor_command = do {
     let cmds = service_motor_commands [\<lparr>ut_machine = CORPUS_NODE_POWERTRAIN, ut_label = ''diag_motor_command'', ut_value = 20481\<rparr>];
     assert_eq (length cmds) 1;
     c \<leftarrow> nth_or_panic cmds 0;
     assert_eq (sc_torque c) 80;
     assert_true (sc_motor_enable c)
   }"

definition service_torque_seed_passes_on_real_trace_pair :: "unit option" where
  "service_torque_seed_passes_on_real_trace_pair = do {
     let checks = evaluate_seed ServiceTorqueClamp service_bug_trace service_fixed_trace;
     all_three checks
   }"

definition service_torque_fails_when_buggy_firmware_actually_clamps :: "unit option" where
  "service_torque_fails_when_buggy_firmware_actually_clamps = do {
     let checks = evaluate_seed ServiceTorqueClamp service_fixed_trace service_fixed_trace;
     check_failed ''bug-reproduced'' checks
   }"

definition service_torque_fails_when_fixed_firmware_still_drives :: "unit option" where
  "service_torque_fails_when_fixed_firmware_still_drives = do {
     let checks = evaluate_seed ServiceTorqueClamp service_bug_trace service_bug_trace;
     check_failed ''bug-fixed'' checks;
     check_failed ''traces-diverge'' checks
   }"

definition dtc_resp :: "u8 \<Rightarrow> u8 \<Rightarrow> user_trace" where
  "dtc_resp req dtcs = 
     \<lparr>ut_machine = CORPUS_NODE_GATEWAY, ut_label = ''gateway_diag_response'',
      ut_value = or (or (push_bit 24 (ucast req)) (push_bit 16 (ucast CORPUS_READ_DTCS))) (ucast dtcs)\<rparr>"

definition clear_bug_trace :: "user_trace list" where
  "clear_bug_trace = [dtc_resp REQ_READ_DTCS_PRE 2, dtc_resp REQ_READ_DTCS_POST 0]"

definition clear_fixed_trace :: "user_trace list" where
  "clear_fixed_trace = [dtc_resp REQ_READ_DTCS_PRE 2, dtc_resp REQ_READ_DTCS_POST 1]"

definition clear_all_dtcs_decodes_response_count :: "unit option" where
  "clear_all_dtcs_decodes_response_count = do {
     assert_eq (dtc_count [dtc_resp 5 1] REQ_READ_DTCS_POST) (Some 1);
     assert_eq (dtc_count [dtc_resp 3 2] REQ_READ_DTCS_PRE) (Some 2)
   }"

definition clear_all_dtcs_seed_passes_on_real_trace_pair :: "unit option" where
  "clear_all_dtcs_seed_passes_on_real_trace_pair = do {
     let checks = evaluate_seed ClearAllDtcs clear_bug_trace clear_fixed_trace;
     all_three checks
   }"

definition clear_all_dtcs_fails_when_buggy_firmware_scopes_clear :: "unit option" where
  "clear_all_dtcs_fails_when_buggy_firmware_scopes_clear = do {
     let checks = evaluate_seed ClearAllDtcs clear_fixed_trace clear_fixed_trace;
     check_failed ''bug-reproduced'' checks
   }"

definition clear_all_dtcs_fails_when_fixed_firmware_still_clears_all :: "unit option" where
  "clear_all_dtcs_fails_when_fixed_firmware_still_clears_all = do {
     let checks = evaluate_seed ClearAllDtcs clear_bug_trace clear_bug_trace;
     check_failed ''bug-fixed'' checks;
     check_failed ''traces-diverge'' checks
   }"

definition start_session_resp :: "u8 \<Rightarrow> u8 \<Rightarrow> user_trace" where
  "start_session_resp status mode = 
     \<lparr>ut_machine = CORPUS_NODE_GATEWAY, ut_label = ''gateway_diag_response'',
      ut_value = or (or (or (push_bit 24 1) (push_bit 16 (ucast CORPUS_START_SESSION))) (push_bit 8 (ucast status))) (ucast mode)\<rparr>"

definition start_drive_bug_trace :: "user_trace list" where
  "start_drive_bug_trace = [start_session_resp CORPUS_OK CORPUS_VEHICLE_SERVICE]"

definition start_drive_fixed_trace :: "user_trace list" where
  "start_drive_fixed_trace = [start_session_resp CORPUS_REJECTED CORPUS_VEHICLE_DRIVE]"

definition start_session_decodes_status_and_mode :: "unit option" where
  "start_session_decodes_status_and_mode = do {
     (status, mode) \<leftarrow> diag_response_status_value0 [start_session_resp CORPUS_OK CORPUS_VEHICLE_SERVICE] 1 1;
     assert_eq status CORPUS_OK;
     assert_eq mode CORPUS_VEHICLE_SERVICE
   }"

definition start_session_in_drive_seed_passes_on_real_trace_pair :: "unit option" where
  "start_session_in_drive_seed_passes_on_real_trace_pair = do {
     let checks = evaluate_seed StartSessionInDrive start_drive_bug_trace start_drive_fixed_trace;
     all_three checks
   }"

definition start_session_in_drive_fails_when_buggy_firmware_rejects :: "unit option" where
  "start_session_in_drive_fails_when_buggy_firmware_rejects = do {
     let checks = evaluate_seed StartSessionInDrive start_drive_fixed_trace start_drive_fixed_trace;
     check_failed ''bug-reproduced'' checks
   }"

definition start_session_in_drive_fails_when_fixed_firmware_still_accepts :: "unit option" where
  "start_session_in_drive_fails_when_fixed_firmware_still_accepts = do {
     let checks = evaluate_seed StartSessionInDrive start_drive_bug_trace start_drive_bug_trace;
     check_failed ''bug-fixed'' checks;
     check_failed ''traces-diverge'' checks
   }"

definition report_totals_and_json :: "unit option" where
  "report_totals_and_json = do {
     let report = [\<lparr>sr_name = ''ota_rollback'', sr_description = ''d'', sr_symptom = ''s'', sr_primitive = ''p'',
         sr_passed = True, sr_run_error = None,
         sr_checks = [\<lparr>ck_name = ''bug-reproduced'', ck_passed = True, ck_detail = ''ok''\<rparr>]\<rparr>];
     assert_eq (corpus_totals report) (1, 0);
     assert_true (corpus_passed report);
     let json = to_pretty (corpus_json report);
     assert_true (contains json ''debug_gym_corpus'');
     assert_true (contains json ''ota_rollback'')
   }"

definition corpus_tests :: "unit option list" where
  "corpus_tests =
     [corpus_parses_user_trace_line,
      ota_rollback_seed_passes_on_real_trace_pair,
      fails_when_buggy_firmware_actually_rolls_back,
      fails_when_fixed_firmware_still_boots_bad_image,
      decodes_packed_motor_command,
      service_torque_seed_passes_on_real_trace_pair,
      service_torque_fails_when_buggy_firmware_actually_clamps,
      service_torque_fails_when_fixed_firmware_still_drives,
      clear_all_dtcs_decodes_response_count,
      clear_all_dtcs_seed_passes_on_real_trace_pair,
      clear_all_dtcs_fails_when_buggy_firmware_scopes_clear,
      clear_all_dtcs_fails_when_fixed_firmware_still_clears_all,
      start_session_decodes_status_and_mode,
      start_session_in_drive_seed_passes_on_real_trace_pair,
      start_session_in_drive_fails_when_buggy_firmware_rejects,
      start_session_in_drive_fails_when_fixed_firmware_still_accepts,
      report_totals_and_json]"

lemma corpus_tests_pass: "list_all passes_test corpus_tests"
  by code_simp

subsection \<open>The telematics lane\<close>

definition parse_user_u32_parses_valid_line :: "unit option" where
  "parse_user_u32_parses_valid_line = do {
     (mid, t) \<leftarrow> parse_user_u32 ''[machine.1] 100000 user-u32 \"telem_hb\" = 3'';
     assert_eq mid 1;
     assert_eq (tt_label t) ''telem_hb'';
     assert_eq (tt_value t) 3
   }"

definition parse_user_u32_rejects_non_user_u32 :: "unit option" where
  "parse_user_u32_rejects_non_user_u32 = assert_true (parse_user_u32 ''[machine.1] 100000 can-rx id=0x0200 len=8'' = None)"

definition parse_user_u32_rejects_non_trace :: "unit option" where
  "parse_user_u32_rejects_non_trace = do {
     assert_true (parse_user_u32 ''=== eth_status_test ==='' = None);
     assert_true (parse_user_u32 [] = None);
     assert_true (parse_user_u32 ''PASS'' = None)
   }"

definition split_label_eq_parses_label_and_value :: "unit option" where
  "split_label_eq_parses_label_and_value = do {
     (label, v) \<leftarrow> split_label_eq ''\"telem_net_sent\" = 11'';
     assert_eq label ''telem_net_sent'';
     assert_eq v ''11''
   }"

definition label_values_filters_by_label :: "unit option" where
  "label_values_filters_by_label = do {
     let traces =
       [\<lparr>tt_label = ''telem_hb'', tt_value = 0\<rparr>,
        \<lparr>tt_label = ''telem_hb'', tt_value = 1\<rparr>,
        \<lparr>tt_label = ''telem_net_sent'', tt_value = 11\<rparr>];
     let hb = label_values traces ''telem_hb'';
     assert_eq hb [0, 1]
   }"

definition heartbeat_monotonic_passes_ordered :: "unit option" where
  "heartbeat_monotonic_passes_ordered = do {
     let traces =
       [\<lparr>tt_label = ''telem_hb'', tt_value = 0\<rparr>,
        \<lparr>tt_label = ''telem_hb'', tt_value = 1\<rparr>,
        \<lparr>tt_label = ''telem_hb'', tt_value = 2\<rparr>,
        \<lparr>tt_label = ''telem_hb'', tt_value = 3\<rparr>];
     let c = check_heartbeat_monotonic traces;
     assert_true (ck_passed c)
   }"

definition heartbeat_monotonic_fails_regression :: "unit option" where
  "heartbeat_monotonic_fails_regression = do {
     let traces =
       [\<lparr>tt_label = ''telem_hb'', tt_value = 0\<rparr>,
        \<lparr>tt_label = ''telem_hb'', tt_value = 1\<rparr>,
        \<lparr>tt_label = ''telem_hb'', tt_value = 2\<rparr>,
        \<lparr>tt_label = ''telem_hb'', tt_value = 1\<rparr>];
     let c = check_heartbeat_monotonic traces;
     assert_true (\<not> ck_passed c)
   }"

definition send_record_size_passes_all_11 :: "unit option" where
  "send_record_size_passes_all_11 = do {
     let traces =
       [\<lparr>tt_label = ''telem_net_sent'', tt_value = 11\<rparr>,
        \<lparr>tt_label = ''telem_net_sent'', tt_value = 11\<rparr>];
     let c = check_send_record_size traces;
     assert_true (ck_passed c)
   }"

definition send_record_size_fails_bad_size :: "unit option" where
  "send_record_size_fails_bad_size = do {
     let traces =
       [\<lparr>tt_label = ''telem_net_sent'', tt_value = 11\<rparr>,
        \<lparr>tt_label = ''telem_net_sent'', tt_value = 7\<rparr>];
     let c = check_send_record_size traces;
     assert_true (\<not> ck_passed c)
   }"

definition check_booted_passes_with_boot_event :: "unit option" where
  "check_booted_passes_with_boot_event = do {
     let traces = [\<lparr>tt_label = ''telematics_boot'', tt_value = 1\<rparr>];
     let c = check_booted traces;
     assert_true (ck_passed c)
   }"

definition check_booted_fails_without_event :: "unit option" where
  "check_booted_fails_without_event = do {
     let c = check_booted [];
     assert_true (\<not> ck_passed c)
   }"

definition telematics_tests :: "unit option list" where
  "telematics_tests =
     [parse_user_u32_parses_valid_line,
      parse_user_u32_rejects_non_user_u32,
      parse_user_u32_rejects_non_trace,
      split_label_eq_parses_label_and_value,
      label_values_filters_by_label,
      heartbeat_monotonic_passes_ordered,
      heartbeat_monotonic_fails_regression,
      send_record_size_passes_all_11,
      send_record_size_fails_bad_size,
      check_booted_passes_with_boot_event,
      check_booted_fails_without_event]"

lemma telematics_tests_pass: "list_all passes_test telematics_tests"
  by code_simp

subsection \<open>The topology lane\<close>

definition parse_can_rx_extracts_receiver_and_id :: "unit option" where
  "parse_can_rx_extracts_receiver_and_id = do {
     assert_eq (parse_can_rx ''[machine.3]          500 can-rx receiver=3 id=0x07a0 len=1'') (Some (3, 0x07a0));
     assert_eq (parse_can_rx ''[machine.1] 10 can-tx sender=1 id=0x0001 len=5'') None;
     assert_eq (parse_can_rx ''PASS'') None
   }"

definition probe_passes_on_exact_set_each_once :: "unit option" where
  "probe_passes_on_exact_set_each_once = do {
     let probe = \<lparr>pb_id = 0x07a0, pb_id_hex = ''0x07a0'', pb_expect = [1, 3]\<rparr>;
     let actual = [(1, 1), (3, 1)];
     assert_true (pr_passed (evaluate_probe probe actual))
   }"

definition probe_fails_on_unexpected_receiver :: "unit option" where
  "probe_fails_on_unexpected_receiver = do {
     let probe = \<lparr>pb_id = 0x07a0, pb_id_hex = ''0x07a0'', pb_expect = [1]\<rparr>;
     let actual = [(1, 1), (4, 1)];
     let r = evaluate_probe probe actual;
     assert_true (\<not> pr_passed r);
     assert_true (contains (pr_detail r) ''unexpected'')
   }"

definition probe_fails_on_missing_receiver :: "unit option" where
  "probe_fails_on_missing_receiver = do {
     let probe = \<lparr>pb_id = 0x07a0, pb_id_hex = ''0x07a0'', pb_expect = [1, 3]\<rparr>;
     let actual = [(1, 1)];
     assert_true (\<not> pr_passed (evaluate_probe probe actual))
   }"

definition probe_fails_on_duplicate_injection :: "unit option" where
  "probe_fails_on_duplicate_injection = do {
     let probe = \<lparr>pb_id = 0x07a0, pb_id_hex = ''0x07a0'', pb_expect = [1]\<rparr>;
     let actual = [(1, 2)];
     let r = evaluate_probe probe actual;
     assert_true (\<not> pr_passed r);
     assert_true (contains (pr_detail r) ''duplicate'')
   }"

definition empty_expect_means_no_receivers :: "unit option" where
  "empty_expect_means_no_receivers = do {
     let probe = \<lparr>pb_id = 0x07a0, pb_id_hex = ''0x07a0'', pb_expect = []\<rparr>;
     assert_true (pr_passed (evaluate_probe probe []));
     assert_true (\<not> pr_passed (evaluate_probe probe [(1, 1)]))
   }"

definition parse_hex_handles_hex_and_decimal :: "unit option" where
  "parse_hex_handles_hex_and_decimal = do {
     assert_eq (parse_hex_u32 ''0x07a0'') (Some 0x07a0);
     assert_eq (parse_hex_u32 ''1952'') (Some 1952);
     assert_eq (normalize_hex ''0x7a0'') ''0x07a0''
   }"

definition parse_v2_line_extracts_edge :: "unit option" where
  "parse_v2_line_extracts_edge = do {
     let line =
       ''{\"trace_id\":1,\"correlation_id\":7,\"virtual_time\":50500,\"event_type\":\"can_frame\",\"direction\"'' @
       '':\"rx\",\"bus_or_link_id\":\"vcan_drive\",\"message_id\":1952,\"source\":2,\"destination\":3,\"len\":3}'';
     e \<leftarrow> parse_v2_line line;
     assert_eq (ve_correlation_id e) 7;
     assert_eq (ve_direction e) ''rx'';
     assert_eq (ve_message_id e) 1952;
     assert_eq (ve_source e) 2;
     assert_eq (ve_destination e) 3;
     assert_true (parse_v2_line ''not json'' = None)
   }"

definition v2_edge_of :: "string \<Rightarrow> u64 \<Rightarrow> u64 \<Rightarrow> u64 \<Rightarrow> u64 \<Rightarrow> v2_edge" where
  "v2_edge_of dir corr parent src dst = 
     \<lparr>ve_correlation_id = corr, ve_parent_id = parent, ve_direction = dir, ve_message_id = 0x07a0,
      ve_source = src, ve_destination = dst\<rparr>"

definition correlation_passes_on_shared_id_source_and_expected_dests :: "unit option" where
  "correlation_passes_on_shared_id_source_and_expected_dests = do {
     let probe = \<lparr>pb_id = 0x07a0, pb_id_hex = ''0x07a0'', pb_expect = [1, 3]\<rparr>;
     let edges = [v2_edge_of ''tx'' 5 0 2 0,
                    v2_edge_of ''rx'' 5 0 2 1,
                    v2_edge_of ''rx'' 5 0 2 3];
     assert_true (cr_passed (evaluate_correlation probe edges))
   }"

definition correlation_passes_with_forwarding :: "unit option" where
  "correlation_passes_with_forwarding = do {
     let probe = \<lparr>pb_id = 0x07a0, pb_id_hex = ''0x07a0'', pb_expect = [1, 3, 4]\<rparr>;
     let edges = [v2_edge_of ''tx'' 5 0 2 0,
                    v2_edge_of ''rx'' 5 0 2 1,
                    v2_edge_of ''rx'' 5 0 2 3,
                    v2_edge_of ''tx'' 6 5 1 0,
                    v2_edge_of ''rx'' 6 5 1 4];
     let r = evaluate_correlation probe edges;
     assert_true (cr_passed r);
     assert_true (contains (cr_detail r) ''forwarded'')
   }"

definition correlation_fails_on_split_correlation_id :: "unit option" where
  "correlation_fails_on_split_correlation_id = do {
     let probe = \<lparr>pb_id = 0x07a0, pb_id_hex = ''0x07a0'', pb_expect = [1, 3]\<rparr>;
     let edges = [v2_edge_of ''tx'' 5 0 2 0,
                    v2_edge_of ''rx'' 5 0 2 1,
                    v2_edge_of ''rx'' 6 0 2 3];
     assert_true (\<not> cr_passed (evaluate_correlation probe edges))
   }"

definition correlation_fails_when_v2_absent :: "unit option" where
  "correlation_fails_when_v2_absent = do {
     let probe = \<lparr>pb_id = 0x07a0, pb_id_hex = ''0x07a0'', pb_expect = [1]\<rparr>;
     let r = evaluate_correlation probe [];
     assert_true (\<not> cr_passed r);
     assert_true (contains (cr_detail r) ''no trace v2'')
   }"

definition topology_tests :: "unit option list" where
  "topology_tests =
     [parse_can_rx_extracts_receiver_and_id,
      probe_passes_on_exact_set_each_once,
      probe_fails_on_unexpected_receiver,
      probe_fails_on_missing_receiver,
      probe_fails_on_duplicate_injection,
      empty_expect_means_no_receivers,
      parse_hex_handles_hex_and_decimal,
      parse_v2_line_extracts_edge,
      correlation_passes_on_shared_id_source_and_expected_dests,
      correlation_passes_with_forwarding,
      correlation_fails_on_split_correlation_id,
      correlation_fails_when_v2_absent]"

lemma topology_tests_pass: "list_all passes_test topology_tests"
  by code_simp

end
