(* ===== verification/Front_Tests.thy ===== *)
theory Front_Tests
  imports State_Tests Validate
begin

text \<open>
  The unit tests of \<^verbatim>\<open>src/lib.rs\<close> and \<^verbatim>\<open>src/validate.rs\<close> on the model's definitions. The tests of the validation give
  their scenarios as TOML text; here they are the values that text denotes, since the reader is not code
  of this repository.
\<close>

fun for_each :: "'a list \<Rightarrow> ('a \<Rightarrow> unit option) \<Rightarrow> unit option" where
  "for_each [] body = Some ()"
| "for_each (x # xs) body = do { body x; for_each xs body }"

definition machine_entry :: "u64 \<Rightarrow> string \<Rightarrow> string option \<Rightarrow> machine_def" where
  "machine_entry i name firmware = \<lparr>md_id = i, md_name = name, md_firmware = firmware, md_rtos = None\<rparr>"

definition is_ok :: "unit checked \<Rightarrow> bool" where
  "is_ok r = (case r of Some (Inr _) \<Rightarrow> True | _ \<Rightarrow> False)"

definition err_kind :: "scenario \<Rightarrow> string option" where
  "err_kind s = (case validate_scenario s of Some (Inl e) \<Rightarrow> Some (ve_kind e) | _ \<Rightarrow> None)"

subsection \<open>Which ECU a machine is\<close>

definition CLASSIFICATION_TESTS :: "(string \<times> string \<times> string) list" where
  "CLASSIFICATION_TESTS =
     [(''firmware/priority_inversion_demo'', ''priority_inversion'', ''priority_inversion''),
      (''firmware/lifecycle_stress_ecu'', ''lifecycle_stress'', ''lifecycle_stress''),
      (''firmware/net_demo_ecu'', ''net_demo'', ''net_demo''),
      (''firmware/storage_demo_ecu'', ''storage_demo'', ''storage_demo''),
      (''firmware/bt_demo_ecu'', ''bt_demo'', ''bt_demo''),
      (''firmware/ota_tool_ecu'', ''ota_tool'', ''ota_tool''),
      (''firmware/telematics_ecu'', ''telematics'', ''telematics''),
      (''firmware/diagnostics_tool_ecu'', ''diagnostics'', ''diagnostics''),
      (''firmware/gateway_diag_clearbug_ecu'', ''gateway'', ''gateway_diag_clearbug''),
      (''firmware/gateway_diag_clear_ecu'', ''gateway'', ''gateway_diag_clear''),
      (''firmware/gateway_diag_startdrivebug_ecu'', ''gateway'', ''gateway_diag_startdrivebug''),
      (''firmware/gateway_diag_startdrive_ecu'', ''gateway'', ''gateway_diag_startdrive''),
      (''firmware/gateway_diag_fault_ecu'', ''gateway'', ''gateway_diag_fault''),
      (''firmware/gateway_diag_ecu'', ''gateway'', ''gateway_diag''),
      (''firmware/powertrain_diag_service_bug_ecu'', ''powertrain'', ''powertrain_diag_service_bug''),
      (''firmware/powertrain_diag_service_ecu'', ''powertrain'', ''powertrain_diag_service''),
      (''firmware/gateway_ota_badcrc_ecu'', ''gateway'', ''gateway_ota_badcrc''),
      (''firmware/gateway_ota_intwrite_ecu'', ''gateway'', ''gateway_ota_intwrite''),
      (''firmware/gateway_ota_badhealth_ecu'', ''gateway'', ''gateway_ota_badhealth''),
      (''firmware/gateway_ota_powercut_ecu'', ''gateway'', ''gateway_ota_powercut''),
      (''firmware/gateway_ota_crcbug_ecu'', ''gateway'', ''gateway_ota_crcbug''),
      (''firmware/gateway_ota_ecu'', ''gateway'', ''gateway_ota''),
      (''firmware/gateway_charging_ecu'', ''gateway'', ''gateway_charging''),
      (''firmware/powertrain_charging_ecu'', ''powertrain'', ''powertrain_charging''),
      (''firmware/gateway_ecu'', ''gateway'', ''gateway''),
      (''firmware/powertrain_ecu'', ''powertrain'', ''powertrain''),
      (''firmware/bms_ecu'', ''bms'', ''bms''),
      (''firmware/dashboard_ecu'', ''dashboard'', ''dashboard'')]"

definition ecu_category_table :: "unit option" where
  "ecu_category_table = for_each CLASSIFICATION_TESTS (\<lambda>(path, expected_category, expected_boot). do {
     let category = resolve_ecu_category (Some path) ''test_machine'';
     assert_eq category (Some expected_category)
   })"

definition ecu_boot_variant_table :: "unit option" where
  "ecu_boot_variant_table = for_each CLASSIFICATION_TESTS (\<lambda>(path, expected_category, expected_boot). do {
     let fw = with_firmware_path ''test_machine'' path;
     let boot_variant = ecu_type fw;
     assert_eq boot_variant expected_boot
   })"

definition gateway_diag_variants_are_category_gateway_not_diagnostics :: "unit option" where
  "gateway_diag_variants_are_category_gateway_not_diagnostics = do {
     let diag_paths =
       [''firmware/gateway_diag_ecu'',
        ''firmware/gateway_diag_fault_ecu'',
        ''firmware/gateway_diag_clear_ecu'',
        ''firmware/gateway_diag_clearbug_ecu'',
        ''firmware/gateway_diag_startdrive_ecu'',
        ''firmware/gateway_diag_startdrivebug_ecu''];
     for_each diag_paths (\<lambda>path. do {
       let category = resolve_ecu_category (Some path) ''test_machine'';
       assert_eq category (Some ''gateway'')
     })
   }"

definition diagnostics_tool_is_still_diagnostics :: "unit option" where
  "diagnostics_tool_is_still_diagnostics = do {
     let category = resolve_ecu_category (Some ''firmware/diagnostics_tool_ecu'') ''test_machine'';
     assert_eq category (Some ''diagnostics'')
   }"

definition unknown_firmware_returns_none :: "unit option" where
  "unknown_firmware_returns_none = assert_eq (resolve_ecu_category (Some ''firmware/mystery_ecu'') ''x'') None"

definition no_firmware_returns_none :: "unit option" where
  "no_firmware_returns_none = assert_eq (resolve_ecu_category None ''some_machine'') None"

definition ecu_tests :: "unit option list" where
  "ecu_tests =
     [ecu_category_table,
      ecu_boot_variant_table,
      gateway_diag_variants_are_category_gateway_not_diagnostics,
      diagnostics_tool_is_still_diagnostics,
      unknown_firmware_returns_none,
      no_firmware_returns_none]"

lemma ecu_tests_pass: "list_all passes_test ecu_tests"
  by code_simp

subsection \<open>Validation\<close>

definition HEALTHY :: scenario where
  "HEALTHY =
     \<lparr>sc_name = ''healthy'',
      sc_machine =
        [machine_entry 1 ''gateway'' (Some ''firmware/gateway_ecu''),
         machine_entry 2 ''powertrain'' (Some ''firmware/powertrain_ecu''),
         machine_entry 3 ''bms'' (Some ''firmware/bms_ecu''),
         machine_entry 4 ''dashboard'' (Some ''firmware/dashboard_ecu'')],
      sc_bus = [[\<lparr>bn_bus = ''vcan0'', bn_machine = ''gateway''\<rparr>, \<lparr>bn_bus = ''vcan0'', bn_machine = ''powertrain''\<rparr>]],
      sc_input = [], sc_bus_inject = [], sc_plant = None, sc_duration_ms = Some 100\<rparr>"

definition healthy_scenario_passes :: "unit option" where
  "healthy_scenario_passes = assert_true (is_ok (validate_scenario HEALTHY))"

definition resolve_ecu_matches_known_firmware :: "unit option" where
  "resolve_ecu_matches_known_firmware = do {
     assert_eq (resolve_ecu (Some ''firmware/gateway_ecu'') ''m'') (Some ''gateway'');
     assert_eq (resolve_ecu (Some ''firmware/bms_ecu'') ''m'') (Some ''bms'');
     assert_eq (resolve_ecu (Some ''firmware/dashboard_ecu'') ''m'') (Some ''dashboard'');
     assert_eq (resolve_ecu (Some ''firmware/diagnostics_tool_ecu'') ''m'') (Some ''diagnostics'');
     assert_eq (resolve_ecu (Some ''firmware/custom'') ''gateway_telemetry'') (Some ''gateway'');
     assert_eq (resolve_ecu (Some ''firmware/mystery_ecu'') ''node_x'') None;
     assert_eq (resolve_ecu None ''node_a'') None
   }"

definition unknown_firmware_is_rejected :: "unit option" where
  "unknown_firmware_is_rejected = do {
     let toml =
     \<lparr>sc_name = ''bad-fw'',
      sc_machine =
        [machine_entry 1 ''gateway'' (Some ''firmware/gateway_ecu''),
         machine_entry 2 ''widget'' (Some ''firmware/widget_ecu'')],
      sc_bus = [],
      sc_input = [], sc_bus_inject = [], sc_plant = None, sc_duration_ms = None\<rparr>;
     kind \<leftarrow> err_kind toml;
     assert_eq kind ''unknown-firmware''
   }"

definition missing_gateway_is_rejected :: "unit option" where
  "missing_gateway_is_rejected = do {
     let toml =
     \<lparr>sc_name = ''no-gw'',
      sc_machine =
        [machine_entry 1 ''powertrain'' (Some ''firmware/powertrain_ecu''),
         machine_entry 2 ''bms'' (Some ''firmware/bms_ecu'')],
      sc_bus = [],
      sc_input = [], sc_bus_inject = [], sc_plant = None, sc_duration_ms = None\<rparr>;
     kind \<leftarrow> err_kind toml;
     assert_eq kind ''missing-gateway''
   }"

definition subsystem_demo_without_gateway_is_allowed :: "unit option" where
  "subsystem_demo_without_gateway_is_allowed = do {
     let toml =
     \<lparr>sc_name = ''storage-demo'',
      sc_machine =
        [machine_entry 1 ''storage'' (Some ''firmware/storage_demo_ecu'')],
      sc_bus = [],
      sc_input = [], sc_bus_inject = [], sc_plant = None, sc_duration_ms = None\<rparr>;
     assert_true (is_ok (validate_scenario toml))
   }"

definition duplicate_bus_node_is_rejected :: "unit option" where
  "duplicate_bus_node_is_rejected = do {
     let toml =
     \<lparr>sc_name = ''dup-node'',
      sc_machine =
        [machine_entry 1 ''gateway'' (Some ''firmware/gateway_ecu''),
         machine_entry 2 ''powertrain'' (Some ''firmware/powertrain_ecu'')],
      sc_bus = [[\<lparr>bn_bus = ''vcan0'', bn_machine = ''gateway''\<rparr>, \<lparr>bn_bus = ''vcan0'', bn_machine = ''gateway''\<rparr>]],
      sc_input = [], sc_bus_inject = [], sc_plant = None, sc_duration_ms = None\<rparr>;
     kind \<leftarrow> err_kind toml;
     assert_eq kind ''duplicate-bus-node''
   }"

definition drive_without_powertrain_is_rejected :: "unit option" where
  "drive_without_powertrain_is_rejected = do {
     let toml =
     \<lparr>sc_name = ''drive-no-pt'',
      sc_machine =
        [machine_entry 1 ''gateway'' (Some ''firmware/gateway_ecu''),
         machine_entry 2 ''dashboard'' (Some ''firmware/dashboard_ecu'')],
      sc_bus = [],
      sc_input = [\<lparr>in_type = ''driver_input'', in_at_ms = 500, in_throttle_percent = Some 40\<rparr>], sc_bus_inject = [], sc_plant = None, sc_duration_ms = None\<rparr>;
     kind \<leftarrow> err_kind toml;
     assert_eq kind ''drive-without-powertrain''
   }"

definition zero_throttle_without_powertrain_is_allowed :: "unit option" where
  "zero_throttle_without_powertrain_is_allowed = do {
     let toml =
     \<lparr>sc_name = ''coast-no-pt'',
      sc_machine =
        [machine_entry 1 ''gateway'' (Some ''firmware/gateway_ecu''),
         machine_entry 2 ''dashboard'' (Some ''firmware/dashboard_ecu'')],
      sc_bus = [],
      sc_input = [\<lparr>in_type = ''driver_input'', in_at_ms = 500, in_throttle_percent = Some 0\<rparr>], sc_bus_inject = [], sc_plant = None, sc_duration_ms = None\<rparr>;
     assert_true (is_ok (validate_scenario toml))
   }"

definition actors_scenario :: "bus_inject list \<Rightarrow> scenario" where
  "actors_scenario injects =
     \<lparr>sc_name = ''actors'',
      sc_machine =
        [machine_entry 1 ''gateway'' (Some ''firmware/gateway_ecu''),
         machine_entry 2 ''evse'' None,
         machine_entry 3 ''ota_tool'' None],
      sc_bus = [[\<lparr>bn_bus = ''vcan0'', bn_machine = ''gateway''\<rparr>, \<lparr>bn_bus = ''vcan0'', bn_machine = ''evse''\<rparr>, \<lparr>bn_bus = ''vcan0'', bn_machine = ''ota_tool''\<rparr>]],
      sc_input = [], sc_bus_inject = injects, sc_plant = None, sc_duration_ms = Some 100\<rparr>"

definition inject_entry :: "u64 \<Rightarrow> string \<Rightarrow> u32 \<Rightarrow> u8 list \<Rightarrow> bus_inject" where
  "inject_entry at sender can_id data =
     \<lparr>bi_at_ms = at, bi_bus = ''vcan0'', bi_sender = sender, bi_id = can_id, bi_data = data\<rparr>"

definition valid_evse_flow_passes :: "unit option" where
  "valid_evse_flow_passes = do {
     let s = actors_scenario [inject_entry 10 ''evse'' 0x610 [6, 1, 1, 64, 80, 0],
                     inject_entry 20 ''evse'' 0x610 [6, 2, 2, 64, 80, 0]];
     assert_true (is_ok (validate_scenario s))
   }"

definition handshake_before_plug_rejected :: "unit option" where
  "handshake_before_plug_rejected = do {
     let s = actors_scenario [inject_entry 10 ''evse'' 0x610 [6, 2, 1, 64, 80, 0]];
     kind \<leftarrow> err_kind s;
     assert_eq kind ''handshake-before-plug''
   }"

definition actor_frame_from_ecu_rejected :: "unit option" where
  "actor_frame_from_ecu_rejected = do {
     let s = actors_scenario [inject_entry 10 ''gateway'' 0x610 [6, 1, 1, 64, 80, 0]];
     kind \<leftarrow> err_kind s;
     assert_eq kind ''actor-has-firmware''
   }"

definition bad_source_node_rejected :: "unit option" where
  "bad_source_node_rejected = do {
     let s = actors_scenario [inject_entry 10 ''evse'' 0x610 [5, 1, 1, 64, 80, 0]];
     kind \<leftarrow> err_kind s;
     assert_eq kind ''bad-source-node''
   }"

definition bad_payload_length_rejected :: "unit option" where
  "bad_payload_length_rejected = do {
     let s = actors_scenario [inject_entry 10 ''evse'' 0x610 [6, 1, 1, 64, 80]];
     kind \<leftarrow> err_kind s;
     assert_eq kind ''bad-payload-length''
   }"

definition zero_request_id_rejected :: "unit option" where
  "zero_request_id_rejected = do {
     let s = actors_scenario [inject_entry 10 ''evse'' 0x610 [6, 1, 0, 64, 80, 0]];
     kind \<leftarrow> err_kind s;
     assert_eq kind ''zero-request-id''
   }"

definition valid_ota_sequence_passes :: "unit option" where
  "valid_ota_sequence_passes = do {
     let s = actors_scenario [inject_entry 10 ''ota_tool'' 0x630 [7, 1, 0, 2],
                     inject_entry 20 ''ota_tool'' 0x631 [7, 1, 0, 1, 2, 3, 4, 5],
                     inject_entry 30 ''ota_tool'' 0x631 [7, 1, 1, 6, 7, 8, 9, 10],
                     inject_entry 40 ''ota_tool'' 0x632 [7, 1, 2, 0, 0, 0, 0]];
     assert_true (is_ok (validate_scenario s))
   }"

definition ota_chunk_before_request_rejected :: "unit option" where
  "ota_chunk_before_request_rejected = do {
     let s = actors_scenario [inject_entry 10 ''ota_tool'' 0x631 [7, 1, 0, 1, 2, 3, 4, 5]];
     kind \<leftarrow> err_kind s;
     assert_eq kind ''chunk-before-request''
   }"

definition ota_chunk_out_of_order_rejected :: "unit option" where
  "ota_chunk_out_of_order_rejected = do {
     let s = actors_scenario [inject_entry 10 ''ota_tool'' 0x630 [7, 1, 0, 2],
                     inject_entry 20 ''ota_tool'' 0x631 [7, 1, 1, 6, 7, 8, 9, 10]];
     kind \<leftarrow> err_kind s;
     assert_eq kind ''ota-chunk-order''
   }"

definition ota_finish_mismatch_rejected :: "unit option" where
  "ota_finish_mismatch_rejected = do {
     let s = actors_scenario [inject_entry 10 ''ota_tool'' 0x630 [7, 1, 0, 2],
                     inject_entry 20 ''ota_tool'' 0x631 [7, 1, 0, 1, 2, 3, 4, 5],
                     inject_entry 30 ''ota_tool'' 0x632 [7, 1, 2, 0, 0, 0, 0]];
     kind \<leftarrow> err_kind s;
     assert_eq kind ''ota-finish-mismatch''
   }"

definition validate_tests :: "unit option list" where
  "validate_tests =
     [healthy_scenario_passes,
      resolve_ecu_matches_known_firmware,
      unknown_firmware_is_rejected,
      missing_gateway_is_rejected,
      subsystem_demo_without_gateway_is_allowed,
      duplicate_bus_node_is_rejected,
      drive_without_powertrain_is_rejected,
      zero_throttle_without_powertrain_is_allowed,
      valid_evse_flow_passes,
      handshake_before_plug_rejected,
      actor_frame_from_ecu_rejected,
      bad_source_node_rejected,
      bad_payload_length_rejected,
      zero_request_id_rejected,
      valid_ota_sequence_passes,
      ota_chunk_before_request_rejected,
      ota_chunk_out_of_order_rejected,
      ota_finish_mismatch_rejected]"

lemma validate_tests_pass: "list_all passes_test validate_tests"
  by code_simp

end
