(* ===== verification/Harness_Tests.thy ===== *)
theory Harness_Tests
  imports Lane_Tests Front_Tests Simfarm Toml_Zoo Debug_Gym Summary
begin

text \<open>
  The unit tests of the harness's core and of its remaining lanes in \<^verbatim>\<open>dogfood/src/\<close> on the model's definitions. Two
  tests are left out: one spawns a process that does not exist, one searches the printed summary. A file a test
  writes is the content of a file system with one file.
\<close>

definition assert_ne :: "'a \<Rightarrow> 'a \<Rightarrow> unit option" where
  "assert_ne a b = assert_true (a \<noteq> b)"

subsection \<open>Hashing\<close>

definition hash_is_stable_for_known_input :: "unit option" where
  "hash_is_stable_for_known_input = do {
     let lines =
       [''[machine.1] 10 can-rx id=0x0102'',
        ''[machine.1] 20 speed 5''];
     assert_eq (trace_hash lines) ''bd2d4a1ab669dc56''
   }"

definition hash_is_repeatable :: "unit option" where
  "hash_is_repeatable = do {
     let lines = [''alpha'', ''beta'', ''gamma''];
     assert_eq (trace_hash lines) (trace_hash lines)
   }"

definition hash_is_order_sensitive :: "unit option" where
  "hash_is_order_sensitive = assert_ne (trace_hash [''a'', ''b'']) (trace_hash [''b'', ''a''])"

definition hash_distinguishes_line_boundaries :: "unit option" where
  "hash_distinguishes_line_boundaries = assert_ne (trace_hash [''ab'', ''c'']) (trace_hash [''a'', ''bc''])"

definition normalize_is_idempotent :: "unit option" where
  "normalize_is_idempotent = do {
     let raw =
       [''[machine.1]        10500 can-rx receiver=1 id=0x0102 len=2   '',
        ''   [machine.4]            0 task-yield id=1 reason=RtosPortYield''];
     let once = normalize_trace raw;
     let twice = normalize_trace once;
     assert_eq once twice
   }"

definition normalize_collapses_padding_but_keeps_tokens :: "unit option" where
  "normalize_collapses_padding_but_keeps_tokens = do {
     let raw = [''[machine.1]        10500 can-rx''];
     assert_eq (normalize_trace raw) [''[machine.1] 10500 can-rx'']
   }"

definition normalize_preserves_can_ids :: "unit option" where
  "normalize_preserves_can_ids = do {
     let raw = [''[machine.1] 10 can-rx id=0x0102 id=0x0500''];
     assert_eq (normalize_trace raw) [''[machine.1] 10 can-rx id=0x0102 id=0x0500'']
   }"

definition normalize_scrubs_pointer_addresses :: "unit option" where
  "normalize_scrubs_pointer_addresses = do {
     let raw = [''ptr=0x7f8a3c001200 done''];
     assert_eq (normalize_trace raw) [''ptr=0xPTR done'']
   }"

definition padding_difference_hashes_equal_after_normalize :: "unit option" where
  "padding_difference_hashes_equal_after_normalize = do {
     let a = [''[machine.1]    10 x''];
     let b = [''[machine.1]        10 x''];
     assert_eq (normalized_hash a) (normalized_hash b)
   }"

definition hash_tests :: "unit option list" where
  "hash_tests =
     [hash_is_stable_for_known_input,
      hash_is_repeatable,
      hash_is_order_sensitive,
      hash_distinguishes_line_boundaries,
      normalize_is_idempotent,
      normalize_collapses_padding_but_keeps_tokens,
      normalize_preserves_can_ids,
      normalize_scrubs_pointer_addresses,
      padding_difference_hashes_equal_after_normalize]"

text \<open>
  The golden value: the fold is evaluated on words, the printed digits by arithmetic. Two traces with
  different folds print differently, since printing keeps the number.
\<close>

lemma golden_fold:
  "fnv_lines 0 FNV_OFFSET_BASIS [''[machine.1] 10 can-rx id=0x0102'', ''[machine.1] 20 speed 5''] = 0xbd2d4a1ab669dc56"
  by code_simp

lemma golden_test_passes: "hash_is_stable_for_known_input = Some ()"
proof -
  have "show_hex_width 16 0xbd2d4a1ab669dc56 = ''bd2d4a1ab669dc56''"
    by (simp add: show_hex_width_def show_hex.simps pad_left_def hex_char_def char_of_def bit_Suc_0_iff)
  then have "trace_hash [''[machine.1] 10 can-rx id=0x0102'', ''[machine.1] 20 speed 5''] = ''bd2d4a1ab669dc56''"
    unfolding trace_hash_def golden_fold by simp
  then show ?thesis
    by (simp only: hash_is_stable_for_known_input_def assert_eq_def assert_true_def Let_def simp_thms if_True)
qed

lemma small_folds:
  "fnv_lines 0 FNV_OFFSET_BASIS [''a'', ''b''] \<noteq> fnv_lines 0 FNV_OFFSET_BASIS [''b'', ''a'']"
  "fnv_lines 0 FNV_OFFSET_BASIS [''ab'', ''c''] \<noteq> fnv_lines 0 FNV_OFFSET_BASIS [''a'', ''bc'']"
  by (code_simp, code_simp)

lemma normalize_tests_pass:
  "list_all passes_test [normalize_is_idempotent, normalize_collapses_padding_but_keeps_tokens,
     normalize_preserves_can_ids, normalize_scrubs_pointer_addresses]"
  by code_simp

lemma padding_normalized: "normalize_trace [''[machine.1]    10 x''] = normalize_trace [''[machine.1]        10 x'']"
  by code_simp

lemma fold_decides: "trace_hash ls = trace_hash ls' \<longleftrightarrow> fnv_lines 0 FNV_OFFSET_BASIS ls = fnv_lines 0 FNV_OFFSET_BASIS ls'"
  by (auto simp: trace_hash_def word_unat_eq_iff dest!: pad_hex_inj)

lemma compared_hashes_pass:
  "hash_is_repeatable = Some ()" "hash_is_order_sensitive = Some ()" "hash_distinguishes_line_boundaries = Some ()"
  "padding_difference_hashes_equal_after_normalize = Some ()"
  by (simp_all only: hash_is_repeatable_def hash_is_order_sensitive_def hash_distinguishes_line_boundaries_def
      padding_difference_hashes_equal_after_normalize_def normalized_hash_def padding_normalized Let_def
      assert_eq_def assert_ne_def assert_true_def fold_decides small_folds simp_thms not_False_eq_True if_True)

lemma hash_tests_pass: "list_all passes_test hash_tests"
  using golden_test_passes compared_hashes_pass normalize_tests_pass by (simp add: hash_tests_def passes_test_def)

subsection \<open>Stepping, invariants and runs\<close>

text \<open>A file system with one file.\<close>

definition one_file :: "string \<Rightarrow> string list \<Rightarrow> file_system" where
  "one_file path ls =
     \<lparr>fs_read_dir = (\<lambda>dir. Inl ''no directory''),
      fs_read_to_string = (\<lambda>p. if p = path then Inr (concat (map (\<lambda>l. l @ [CHR 0x0A]) ls)) else Inl ''no file'')\<rparr>"

definition parse_duration_ms_reads_value :: "unit option" where
  "parse_duration_ms_reads_value = do {
     let fs = one_file ''s.toml'' [''name = \"x\"'', ''duration_ms = 2000'', ''[[machine]]'', ''id=1'', ''name=\"a\"''];
     assert_eq (parse_duration_ms fs ''s.toml'') (Some 2000);
     let gs = one_file ''n.toml'' [''name = \"x\"''];
     assert_eq (parse_duration_ms gs ''n.toml'') None
   }"

definition max_trace_time_finds_max :: "unit option" where
  "max_trace_time_finds_max = do {
     let trace =
       [''[machine.1]        10 can-rx id=0x0102'',
        ''[machine.2]   2990500 can-rx id=0x0102'',
        ''[machine.1]       500 task-yield'',
        ''PASS''];
     assert_eq (max_trace_time trace) 2990500;
     assert_eq (max_trace_time []) 0
   }"

definition gym_tests :: "unit option list" where
  "gym_tests =
     [parse_duration_ms_reads_value,
      max_trace_time_finds_max]"

lemma gym_tests_pass: "list_all passes_test gym_tests"
  by code_simp

definition run_with :: "string list \<Rightarrow> run_status \<Rightarrow> scenario_run" where
  "run_with trace status = 
     \<lparr>rn_scenario = ''synthetic'', rn_status = status, rn_exit_code = Some (if status = RPass then 0 else 1),
      rn_trace = trace, rn_wall_ms = 1, rn_stdout_tail = [], rn_stderr_tail = []\<rparr>"

definition monotonic_passes_on_increasing_per_machine :: "unit option" where
  "monotonic_passes_on_increasing_per_machine = do {
     let run = run_with
       [''[machine.1]        10 can-rx id=0x0102'',
        ''[machine.1]        20 can-rx id=0x0102'',
        ''[machine.2]         5 task-created'',
        ''[machine.2]        30 task-yield''] RPass;
     assert_eq (ir_status (virtual_time_monotonic run)) CPass
   }"

definition monotonic_fails_on_midsegment_regression :: "unit option" where
  "monotonic_fails_on_midsegment_regression = do {
     let run = run_with
       [''[machine.1]        10 can-rx id=0x0102'',
        ''[machine.1]        30 can-rx id=0x0102'',
        ''[machine.1]        20 can-rx id=0x0102''] RPass;
     let r = virtual_time_monotonic run;
     assert_eq (ir_status r) CFail;
     assert_true (contains (ir_message r) ''backward'')
   }"

definition monotonic_treats_reset_to_low_as_new_segment :: "unit option" where
  "monotonic_treats_reset_to_low_as_new_segment = do {
     let run = run_with
       [''[machine.1]     10500 can-rx id=0x0102'',
        ''[machine.1]   2990500 can-rx id=0x0102'',
        ''[machine.1]         0 task-created id=1 name=\"gateway\"'',
        ''[machine.1]       500 task-yield''] RPass;
     assert_eq (ir_status (virtual_time_monotonic run)) CPass
   }"

definition monotonic_skips_when_no_timed_lines :: "unit option" where
  "monotonic_skips_when_no_timed_lines = do {
     let run = run_with [''some non-trace text''] RPass;
     assert_eq (ir_status (virtual_time_monotonic run)) CSkipped
   }"

definition terminated_cleanly_maps_status :: "unit option" where
  "terminated_cleanly_maps_status = do {
     assert_eq (ir_status (process_terminated_cleanly (run_with [''x''] RPass))) CPass;
     assert_eq (ir_status (process_terminated_cleanly (run_with [''x''] RTimeout))) CFail;
     assert_eq (ir_status (process_terminated_cleanly (run_with [''x''] RPanic))) CFail;
     assert_eq (ir_status (process_terminated_cleanly (run_with [''x''] RFail))) CFail
   }"

definition nonempty_detects_empty :: "unit option" where
  "nonempty_detects_empty = do {
     assert_eq (ir_status (trace_non_empty (run_with [] RPass))) CFail;
     assert_eq (ir_status (trace_non_empty (run_with [''x''] RPass))) CPass
   }"

definition stubs_are_skipped :: "unit option" where
  "stubs_are_skipped = do {
     let run = run_with [''[machine.1] 10 x''] RPass;
     for_each default_invariants (\<lambda>inv. do {
       let r = iv_check inv run;
       let implemented = iv_name inv \<in> {''VirtualTimeMonotonic'', ''ProcessTerminatedCleanly'', ''TraceNonEmpty''};
       if implemented then assert_eq (ir_status r) CPass else assert_eq (ir_status r) CSkipped
     })
   }"

definition any_failed_ignores_skips :: "unit option" where
  "any_failed_ignores_skips = do {
     let results = [inv_pass ''a'' ''ok'', inv_skipped ''b'' ''later''];
     assert_true (\<not> any_failed results);
     let results = [inv_fail ''c'' ''boom''];
     assert_true (any_failed results)
   }"

definition parse_handles_padding :: "unit option" where
  "parse_handles_padding = do {
     assert_eq (parse_machine_time ''[machine.3]       120500 can-rx id=0x0500 len=7'') (Some (''[machine.3]'', 120500));
     assert_eq (parse_machine_time ''PASS'') None;
     assert_eq (parse_machine_time ''=== x ==='') None
   }"

definition invariant_tests :: "unit option list" where
  "invariant_tests =
     [monotonic_passes_on_increasing_per_machine,
      monotonic_fails_on_midsegment_regression,
      monotonic_treats_reset_to_low_as_new_segment,
      monotonic_skips_when_no_timed_lines,
      terminated_cleanly_maps_status,
      nonempty_detects_empty,
      stubs_are_skipped,
      any_failed_ignores_skips,
      parse_handles_padding]"

lemma invariant_tests_pass: "list_all passes_test invariant_tests"
  by code_simp

definition filters_header_blank_and_pass :: "unit option" where
  "filters_header_blank_and_pass = do {
     assert_true (\<not> is_trace_event ''=== normal_drive_cycle ==='');
     assert_true (\<not> is_trace_event []);
     assert_true (\<not> is_trace_event ''   '');
     assert_true (\<not> is_trace_event ''PASS'');
     assert_true (\<not> is_trace_event ''FAIL: trace mismatch'');
     assert_true (is_trace_event ''[machine.1] 10 can-rx id=0x0102 len=2'')
   }"

definition tail_keeps_last_n :: "unit option" where
  "tail_keeps_last_n = do {
     let v = map show_nat [0..<50];
     let t = tail v 3;
     assert_eq t [''47'', ''48'', ''49'']
   }"

definition tail_handles_short_input :: "unit option" where
  "tail_handles_short_input = do {
     let v = [''a''];
     assert_eq (tail v 10) v
   }"

definition run_status_clean_only_for_pass :: "unit option" where
  "run_status_clean_only_for_pass = do {
     assert_true (is_clean RPass);
     assert_true (\<not> is_clean RFail);
     assert_true (\<not> is_clean RTimeout);
     assert_true (\<not> is_clean RPanic)
   }"

definition runner_tests :: "unit option list" where
  "runner_tests =
     [filters_header_blank_and_pass,
      tail_keeps_last_n,
      tail_handles_short_input,
      run_status_clean_only_for_pass]"

lemma runner_tests_pass: "list_all passes_test runner_tests"
  by code_simp

subsection \<open>Farms of runs\<close>

definition run_hash_of :: "string \<Rightarrow> run_status \<Rightarrow> run_hash" where
  "run_hash_of hash status = \<lparr>rh_hash = hash, rh_status = status, rh_wall_ms = 5\<rparr>"

definition simfarm_report_of :: "string \<Rightarrow> bool \<Rightarrow> run_hash list \<Rightarrow> simfarm_report" where
  "simfarm_report_of solo_hash solo_clean runs = 
     (let all_match = list_all (\<lambda>r. rh_hash r = solo_hash) runs;
          all_clean = (solo_clean \<and> list_all (\<lambda>r. rh_status r = RPass) runs)
      in \<lparr>sf_scenario = ''demo'', sf_n = length runs, sf_solo_hash = solo_hash, sf_concurrent = runs,
          sf_all_match = all_match, sf_all_clean = all_clean\<rparr>)"

definition churn_report_of :: "string list \<Rightarrow> run_status list \<Rightarrow> churn_report" where
  "churn_report_of hashes statuses = 
     (let iterations = length hashes;
          clean = length (filter (\<lambda>s. s = RPass) statuses);
          distinct_hashes = count_distinct hashes;
          first_hash = (case hashes of h # _ \<Rightarrow> h | [] \<Rightarrow> []);
          stable = (clean = iterations \<and> distinct_hashes = 1)
      in \<lparr>ch_scenario = ''demo'', ch_iterations = iterations, ch_first_hash = first_hash,
          ch_distinct_hashes = distinct_hashes, ch_clean = clean, ch_stable = stable\<rparr>)"

definition panic_report_of :: "run_status \<Rightarrow> string \<Rightarrow> string \<Rightarrow> run_status \<Rightarrow> i32 option \<Rightarrow> panic_isolation_report" where
  "panic_report_of healthy_status healthy_hash solo_hash bad_status bad_exit_code = 
     (let isolated = (healthy_status = RPass \<and> healthy_hash = solo_hash \<and> bad_status \<noteq> RPanic)
      in \<lparr>pi_healthy_scenario = ''good'', pi_bad_scenario = ''bad'', pi_healthy_status = healthy_status,
          pi_healthy_hash = healthy_hash, pi_healthy_solo_hash = solo_hash, pi_bad_status = bad_status,
          pi_bad_exit_code = bad_exit_code, pi_isolated = isolated\<rparr>)"

definition simfarm_passes_when_all_match_and_clean :: "unit option" where
  "simfarm_passes_when_all_match_and_clean = do {
     let r = simfarm_report_of ''abc'' True [run_hash_of ''abc'' RPass, run_hash_of ''abc'' RPass, run_hash_of ''abc'' RPass];
     assert_true (sf_all_match r);
     assert_true (sf_all_clean r);
     assert_true (simfarm_passed r)
   }"

definition simfarm_fails_on_hash_mismatch :: "unit option" where
  "simfarm_fails_on_hash_mismatch = do {
     let r = simfarm_report_of ''abc'' True [run_hash_of ''abc'' RPass, run_hash_of ''xyz'' RPass];
     assert_true (\<not> sf_all_match r);
     assert_true (sf_all_clean r);
     assert_true (\<not> simfarm_passed r)
   }"

definition simfarm_fails_on_unclean_status :: "unit option" where
  "simfarm_fails_on_unclean_status = do {
     let r = simfarm_report_of ''abc'' True [run_hash_of ''abc'' RPass, run_hash_of ''abc'' RTimeout];
     assert_true (sf_all_match r);
     assert_true (\<not> sf_all_clean r);
     assert_true (\<not> simfarm_passed r)
   }"

definition simfarm_json_has_lane_and_passed :: "unit option" where
  "simfarm_json_has_lane_and_passed = do {
     let r = simfarm_report_of ''abc'' True [run_hash_of ''abc'' RPass];
     let s = to_pretty (simfarm_json r);
     assert_true (contains s ''\"lane\": \"simfarm\"'');
     assert_true (contains s ''\"solo_hash\": \"abc\"'');
     assert_true (contains s ''\"passed\": true'');
     assert_true (contains s ''\"status\": \"PASS\"'');
     assert_eq (count_list s CHR ''{'') (count_list s CHR ''}'');
     assert_eq (count_list s CHR ''['') (count_list s CHR '']'')
   }"

definition churn_stable_vs_unstable :: "unit option" where
  "churn_stable_vs_unstable = do {
     let stable = churn_report_of [''h'', ''h'', ''h''] (replicate 3 RPass);
     assert_eq (ch_distinct_hashes stable) 1;
     assert_eq (ch_clean stable) 3;
     assert_true (ch_stable stable);
     assert_true (churn_passed stable);
     let drift = churn_report_of [''h'', ''h'', ''g''] (replicate 3 RPass);
     assert_eq (ch_distinct_hashes drift) 2;
     assert_true (\<not> churn_passed drift);
     let unclean = churn_report_of [''h'', ''h'', ''h''] [RPass, RPass, RFail];
     assert_eq (ch_distinct_hashes unclean) 1;
     assert_eq (ch_clean unclean) 2;
     assert_true (\<not> churn_passed unclean)
   }"

definition churn_json_has_lane_and_passed :: "unit option" where
  "churn_json_has_lane_and_passed = do {
     let r = churn_report_of [''h'', ''h''] (replicate 2 RPass);
     let s = to_pretty (churn_json r);
     assert_true (contains s ''\"lane\": \"churn\"'');
     assert_true (contains s ''\"first_hash\": \"h\"'');
     assert_true (contains s ''\"distinct_hashes\": 1'');
     assert_true (contains s ''\"passed\": true'');
     assert_eq (count_list s CHR ''{'') (count_list s CHR ''}'')
   }"

definition panic_isolation_logic :: "unit option" where
  "panic_isolation_logic = do {
     let good = panic_report_of RPass ''h'' ''h'' RFail (Some 2);
     assert_true (pi_isolated good);
     assert_true (isolation_passed good);
     let crashed = panic_report_of RPass ''h'' ''h'' RPanic None;
     assert_true (\<not> pi_isolated crashed);
     assert_true (\<not> isolation_passed crashed);
     let drift = panic_report_of RPass ''h2'' ''h'' RFail (Some 2);
     assert_true (\<not> pi_isolated drift);
     let unhealthy = panic_report_of RTimeout ''h'' ''h'' RFail (Some 2);
     assert_true (\<not> pi_isolated unhealthy)
   }"

definition panic_json_includes_exit_code_and_lane :: "unit option" where
  "panic_json_includes_exit_code_and_lane = do {
     let r = panic_report_of RPass ''h'' ''h'' RFail (Some 2);
     let s = to_pretty (isolation_json r);
     assert_true (contains s ''\"lane\": \"panic_isolation\"'');
     assert_true (contains s ''\"bad_status\": \"FAIL\"'');
     assert_true (contains s ''\"bad_exit_code\": 2'');
     assert_true (contains s ''\"isolated\": true'');
     assert_true (contains s ''\"passed\": true'');
     let signalled = panic_report_of RPass ''h'' ''h'' RFail None;
     assert_true (contains (to_pretty (isolation_json signalled)) ''\"bad_exit_code\": \"none\"'');
     assert_eq (count_list s CHR ''{'') (count_list s CHR ''}'')
   }"

definition simfarm_tests :: "unit option list" where
  "simfarm_tests =
     [simfarm_passes_when_all_match_and_clean,
      simfarm_fails_on_hash_mismatch,
      simfarm_fails_on_unclean_status,
      simfarm_json_has_lane_and_passed,
      churn_stable_vs_unstable,
      churn_json_has_lane_and_passed,
      panic_isolation_logic,
      panic_json_includes_exit_code_and_lane]"

lemma simfarm_tests_pass: "list_all passes_test simfarm_tests"
  by code_simp

subsection \<open>The zoo of malformed input\<close>

definition synthetic_run :: "run_status \<Rightarrow> i32 option \<Rightarrow> string list \<Rightarrow> scenario_run" where
  "synthetic_run status exit stderr = 
     \<lparr>rn_scenario = ''synthetic'', rn_status = status, rn_exit_code = exit, rn_trace = [], rn_wall_ms = 1,
      rn_stdout_tail = [], rn_stderr_tail = stderr\<rparr>"

definition zoo_case :: "string \<Rightarrow> toml_zoo_case" where
  "zoo_case kind = \<lparr>tz_name = ''c'', tz_path = ''c.toml'', tz_expected_kind = kind\<rparr>"

definition parse_error_kind_extracts_tag :: "unit option" where
  "parse_error_kind_extracts_tag = do {
     let run = synthetic_run RFail (Some 2) [''microcar: error [missing-gateway]: scenario has a powertrain ECU but no gateway''];
     assert_eq (parse_error_kind run) (Some ''missing-gateway'')
   }"

definition parse_error_kind_none_when_absent :: "unit option" where
  "parse_error_kind_none_when_absent = do {
     let run = synthetic_run RFail (Some 1) [''some other output''];
     assert_eq (parse_error_kind run) None
   }"

definition case_passes_on_expected_kind_and_exit_2 :: "unit option" where
  "case_passes_on_expected_kind_and_exit_2 = do {
     let run = synthetic_run RFail (Some 2) [''microcar: error [parse]: bad toml''];
     let r = evaluate_case (zoo_case ''parse'') run;
     assert_true (cs_passed r)
   }"

definition case_fails_on_wrong_kind :: "unit option" where
  "case_fails_on_wrong_kind = do {
     let run = synthetic_run RFail (Some 2) [''microcar: error [invalid]: x''];
     let r = evaluate_case (zoo_case ''parse'') run;
     assert_true (\<not> cs_passed r)
   }"

definition case_fails_on_panic_even_if_kind_matches :: "unit option" where
  "case_fails_on_panic_even_if_kind_matches = do {
     let run = synthetic_run RPanic (Some 101)
       [''thread '' @ [CHR 0x27] @ ''main'' @ [CHR 0x27] @ '' panicked'', ''microcar: error [parse]: x''];
     let r = evaluate_case (zoo_case ''parse'') run;
     assert_true (\<not> cs_passed r);
     assert_true (contains (cs_detail r) ''PANICKED'')
   }"

definition case_fails_on_wrong_exit_code :: "unit option" where
  "case_fails_on_wrong_exit_code = do {
     let run = synthetic_run RFail (Some 1) [''microcar: error [parse]: x''];
     let r = evaluate_case (zoo_case ''parse'') run;
     assert_true (\<not> cs_passed r)
   }"

definition parse_expected_kind_reads_header :: "unit option" where
  "parse_expected_kind_reads_header = do {
     let fs = one_file ''x.toml'' [''# expect-kind:  duplicate-bus-node'', ''name = \"x\"''];
     assert_eq (parse_expected_kind fs ''x.toml'') (Some ''duplicate-bus-node'');
     let gs = one_file ''y.toml'' [''name = \"y\"''];
     assert_eq (parse_expected_kind gs ''y.toml'') None
   }"

definition report_passed_requires_all_cases_and_sibling :: "unit option" where
  "report_passed_requires_all_cases_and_sibling = do {
     let good = \<lparr>cs_name = ''a'', cs_expected_kind = ''parse'', cs_actual_kind = Some ''parse'', cs_status = RFail,
         cs_exit_code = Some 2, cs_passed = True, cs_detail = []\<rparr>;
     let report = \<lparr>zr_cases = [good], zr_sibling = None\<rparr>;
     assert_true (zoo_passed report);
     let report = report\<lparr>zr_sibling := Some \<lparr>si_healthy_scenario = ''h'', si_healthy_status = RPass, si_bad_scenario = ''b'',
         si_bad_status = RFail, si_bad_exit_code = Some 2, si_isolated = False\<rparr>\<rparr>;
     assert_true (\<not> zoo_passed report)
   }"

definition zoo_tests :: "unit option list" where
  "zoo_tests =
     [parse_error_kind_extracts_tag,
      parse_error_kind_none_when_absent,
      case_passes_on_expected_kind_and_exit_2,
      case_fails_on_wrong_kind,
      case_fails_on_panic_even_if_kind_matches,
      case_fails_on_wrong_exit_code,
      parse_expected_kind_reads_header,
      report_passed_requires_all_cases_and_sibling]"

lemma zoo_tests_pass: "list_all passes_test zoo_tests"
  by code_simp

subsection \<open>Reports\<close>

definition escapes_special_chars :: "unit option" where
  "escapes_special_chars = assert_eq (write_escaped (''a'' @ [CHR 0x22] @ ''b'' @ [CHR 0x5C] @ ''c'' @ [CHR 0x0A] @ ''d'' @ [CHR 0x09] @ ''e'' @ [CHR 0x01]))
     ([CHR 0x22] @ ''a'' @ [CHR 0x5C, CHR 0x22] @ ''b'' @ [CHR 0x5C, CHR 0x5C] @ ''c'' @ [CHR 0x5C] @ ''nd'' @ [CHR 0x5C] @ ''te''
        @ [CHR 0x5C] @ ''u0001'' @ [CHR 0x22])"

definition empty_containers :: "unit option" where
  "empty_containers = do {
     assert_eq (to_pretty (JArr [])) (''[]'' @ [CHR 0x0A]);
     assert_eq (to_pretty (JObj [])) (''{}'' @ [CHR 0x0A])
   }"

definition nested_object_roundtrips_shape :: "unit option" where
  "nested_object_roundtrips_shape = do {
     let j = JObj [(''name'', json_str ''demo''), (''count'', JInt 2), (''ok'', JBool True),
                   (''items'', JArr [json_str ''a'', json_str ''b''])];
     let s = to_pretty j;
     assert_true (contains s ''\"name\": \"demo\"'');
     assert_true (contains s ''\"count\": 2'');
     assert_true (contains s ''\"ok\": true'');
     assert_true (contains s (''\"items\": ['' @ [CHR 0x0A]));
     assert_eq (count_list s CHR ''{'') (count_list s CHR ''}'');
     assert_eq (count_list s CHR ''['') (count_list s CHR '']'')
   }"

text \<open>\<open>str::find\<close>: the offset of the first occurrence.\<close>

definition find_text :: "string \<Rightarrow> string \<Rightarrow> nat option" where
  "find_text s p = map_option (\<lambda>(before, after). length before) (split_once s p)"

definition preserves_key_order :: "unit option" where
  "preserves_key_order = do {
     let j = JObj [(''z'', JInt 1), (''a'', JInt 2)];
     let out = to_pretty j;
     zpos \<leftarrow> find_text out ''\"z\"'';
     apos \<leftarrow> find_text out ''\"a\"'';
     assert_true (zpos < apos)
   }"

definition json_tests :: "unit option list" where
  "json_tests =
     [escapes_special_chars,
      empty_containers,
      nested_object_roundtrips_shape,
      preserves_key_order]"

lemma json_tests_pass: "list_all passes_test json_tests"
  by code_simp

definition all_equal_hashes_is_deterministic :: "unit option" where
  "all_equal_hashes_is_deterministic = do {
     let hashes = replicate 3 ''abc'';
     h0 \<leftarrow> nth_or_panic hashes 0;
     let deterministic = list_all (\<lambda>h. h = h0) hashes;
     assert_true deterministic
   }"

definition differing_hashes_is_nondeterministic :: "unit option" where
  "differing_hashes_is_nondeterministic = do {
     let hashes = [''abc'', ''abc'', ''xyz''];
     h0 \<leftarrow> nth_or_panic hashes 0;
     let deterministic = list_all (\<lambda>h. h = h0) hashes;
     assert_true (\<not> deterministic)
   }"

definition report_accessors :: "unit option" where
  "report_accessors = do {
     let report = \<lparr>dr_scenario = ''s'', dr_repeats = 2, dr_hashes = [''h'', ''h''], dr_deterministic = True, dr_runs = []\<rparr>;
     assert_eq (report_trace_hash report) (Some ''h'');
     assert_true (first_run report = None);
     assert_true (\<not> any_run_unclean report)
   }"

definition determinism_tests :: "unit option list" where
  "determinism_tests =
     [all_equal_hashes_is_deterministic,
      differing_hashes_is_nondeterministic,
      report_accessors]"

lemma determinism_tests_pass: "list_all passes_test determinism_tests"
  by code_simp

definition fake_run :: "run_status \<Rightarrow> string list \<Rightarrow> scenario_run" where
  "fake_run status trace = 
     \<lparr>rn_scenario = ''demo'', rn_status = status, rn_exit_code = Some 0, rn_trace = trace, rn_wall_ms = 42,
      rn_stdout_tail = [], rn_stderr_tail = []\<rparr>"

definition passing_report :: "determinism_report" where
  "passing_report = 
     \<lparr>dr_scenario = ''demo'', dr_repeats = 2, dr_hashes = [''deadbeef'', ''deadbeef''], dr_deterministic = True,
      dr_runs = [fake_run RPass [''[machine.1] 10 x'', ''[machine.1] 20 x''],
                 fake_run RPass [''[machine.1] 10 x'', ''[machine.1] 20 x'']]\<rparr>"

definition passing_scenario_summarizes_as_passed :: "unit option" where
  "passing_scenario_summarizes_as_passed = do {
     let s = from_determinism passing_report;
     assert_true (summary_passed s);
     assert_eq (ss_trace_hash s) ''deadbeef'';
     assert_eq (ss_wall_ms s) 42;
     assert_true (list_ex (\<lambda>i. ie_name i = ''VirtualTimeMonotonic'' \<and> ie_status i = CPass) (ss_invariants s))
   }"

definition nondeterministic_scenario_fails :: "unit option" where
  "nondeterministic_scenario_fails = do {
     let report = passing_report\<lparr>dr_deterministic := False, dr_hashes := [''a'', ''b'']\<rparr>;
     let s = from_determinism report;
     assert_true (\<not> summary_passed s)
   }"

definition timeout_scenario_fails_invariant :: "unit option" where
  "timeout_scenario_fails_invariant = do {
     let report = \<lparr>dr_scenario = ''slow'', dr_repeats = 1, dr_hashes = [''h''], dr_deterministic = True,
         dr_runs = [fake_run RTimeout [''[machine.1] 10 x'']]\<rparr>;
     let s = from_determinism report;
     assert_true (\<not> summary_passed s);
     assert_true (list_ex (\<lambda>i. ie_name i = ''ProcessTerminatedCleanly'' \<and> ie_status i = CFail) (ss_invariants s))
   }"

definition totals_count_invariants :: "unit option" where
  "totals_count_invariants = do {
     let report = build_summary [passing_report];
     assert_eq (to_invariants_passed (su_totals report)) 3;
     assert_eq (to_invariants_skipped (su_totals report)) 7;
     assert_eq (to_invariants_failed (su_totals report)) 0
   }"

definition summary_tests :: "unit option list" where
  "summary_tests =
     [passing_scenario_summarizes_as_passed,
      nondeterministic_scenario_fails,
      timeout_scenario_fails_invariant,
      totals_count_invariants]"

lemma summary_tests_pass: "list_all passes_test summary_tests"
  by code_simp

end
