(* ===== verification/Plant_Tests.thy ===== *)
theory Plant_Tests
  imports State_Tests Plant
begin

text \<open>
  The unit tests of \<^verbatim>\<open>plant/src/\<close> on the model's definitions; loops of steps are \<open>repeat\<close>, in which a panic ends
  the test. The long runs of the battery are decided by the exact form of its update. One test, on how the
  simulator's bus hands frames to its nodes, is left out.
\<close>

fun repeat :: "nat \<Rightarrow> ('a \<Rightarrow> 'a option) \<Rightarrow> 'a \<Rightarrow> 'a option" where
  "repeat 0 body s = Some s"
| "repeat (Suc n) body s = do { s \<leftarrow> body s; repeat n body s }"

subsection \<open>The vehicle\<close>

definition test_speed_increases_with_throttle :: "unit option" where
  "test_speed_increases_with_throttle = do {
     let plant = vehicle_new;
     let plant = set_driver_input 50 False plant;
     let plant = set_motor_torque 30 plant;
     plant \<leftarrow> repeat 100 (vehicle_step 10) plant;
     assert_true (vp_speed_kph_x10 plant > 0)
   }"

definition test_brake_overrides_throttle :: "unit option" where
  "test_brake_overrides_throttle = do {
     let plant = vehicle_new;
     let plant = set_driver_input 80 True plant;
     let plant = set_motor_torque 50 plant;
     plant \<leftarrow> vehicle_step 10 plant;
     assert_eq (vp_speed_kph_x10 plant) 0
   }"

definition test_zero_torque_no_acceleration :: "unit option" where
  "test_zero_torque_no_acceleration = do {
     let plant = vehicle_new;
     let plant = set_motor_torque 0 plant;
     plant \<leftarrow> vehicle_step 100 plant;
     assert_eq (vp_speed_kph_x10 plant) 0
   }"

definition test_drag_slows_vehicle :: "unit option" where
  "test_drag_slows_vehicle = do {
     let plant = vehicle_new;
     let plant = set_motor_torque 50 plant;
     plant \<leftarrow> repeat 200 (vehicle_step 10) plant;
     let speed_under_torque = vp_speed_kph_x10 plant;
     let plant = set_motor_torque 0 plant;
     plant \<leftarrow> repeat 100 (vehicle_step 10) plant;
     assert_true (vp_speed_kph_x10 plant < speed_under_torque)
   }"

definition test_speed_cant_go_negative :: "unit option" where
  "test_speed_cant_go_negative = do {
     let plant = vehicle_new;
     plant \<leftarrow> vehicle_step 10 plant;
     assert_eq (vp_speed_kph_x10 plant) 0
   }"

definition vehicle_tests :: "unit option list" where
  "vehicle_tests =
     [test_speed_increases_with_throttle,
      test_brake_overrides_throttle,
      test_zero_torque_no_acceleration,
      test_drag_slows_vehicle,
      test_speed_cant_go_negative]"

lemma vehicle_tests_pass: "list_all passes_test vehicle_tests"
  by code_simp

subsection \<open>The battery\<close>

definition test_soc_decreases_under_load :: "unit option" where
  "test_soc_decreases_under_load = do {
     let bat = battery_new;
     let initial_soc = bt_soc_percent bat;
     bat \<leftarrow> repeat 1000 (battery_step 80 10) bat;
     assert_true (bt_soc_percent bat < initial_soc)
   }"

definition test_temperature_rises_under_load :: "unit option" where
  "test_temperature_rises_under_load = do {
     let bat = battery_new;
     let initial_temp = bt_temp_c_x10 bat;
     bat \<leftarrow> repeat 1000 (battery_step 100 10) bat;
     assert_true (sint (bt_temp_c_x10 bat) > sint initial_temp)
   }"

definition test_force_temperature :: "unit option" where
  "test_force_temperature = do {
     let bat = force_temperature 82 battery_new;
     assert_eq (bt_temp_c_x10 bat) 820
   }"

definition test_no_load_no_temp_rise :: "unit option" where
  "test_no_load_no_temp_rise = do {
     let bat = battery_with_state 80 250;
     bat \<leftarrow> repeat 100 (battery_step 0 10) bat;
     assert_eq (bt_temp_c_x10 bat) 250
   }"

definition charge_current_raises_soc :: "unit option" where
  "charge_current_raises_soc = do {
     let bat = battery_with_state 60 250;
     let initial = bt_soc_percent bat;
     bat \<leftarrow> repeat 1000 (battery_step_with_current (- 32000) 10) bat;
     assert_true (bt_soc_percent bat > initial);
     assert_eq (bt_current_ma bat) (- 32000)
   }"

definition discharge_current_lowers_soc :: "unit option" where
  "discharge_current_lowers_soc = do {
     let bat = battery_with_state 60 250;
     let initial = bt_soc_percent bat;
     bat \<leftarrow> repeat 1000 (battery_step_with_current 32000 10) bat;
     assert_true (bt_soc_percent bat < initial)
   }"

definition soc_clamped_to_full_and_empty :: "unit option" where
  "soc_clamped_to_full_and_empty = do {
     let bat = battery_with_state 99 250;
     bat \<leftarrow> repeat 100000 (battery_step_with_current (- 64000) 10) bat;
     assert_eq (bt_soc_percent bat) 100;
     let bat = battery_with_state 1 250;
     bat \<leftarrow> repeat 100000 (battery_step_with_current 64000 10) bat;
     assert_eq (bt_soc_percent bat) 0
   }"

definition charge_current_heats_via_i2r :: "unit option" where
  "charge_current_heats_via_i2r = do {
     let bat = battery_with_state 50 250;
     let initial = bt_temp_c_x10 bat;
     bat \<leftarrow> repeat 1000 (battery_step_with_current (- 50000) 10) bat;
     assert_true (sint (bt_temp_c_x10 bat) > sint initial)
   }"

definition current_saturates_to_i16_for_can :: "unit option" where
  "current_saturates_to_i16_for_can = do {
     let bat = battery_new;
     bat \<leftarrow> battery_step_with_current 50000 10 bat;
     assert_eq (bt_current_ma bat) 50000;
     assert_eq (current_ma_i16 bat) 32767;
     bat \<leftarrow> battery_step_with_current (- 50000) 10 bat;
     assert_eq (current_ma_i16 bat) (- 32768)
   }"

definition battery_tests :: "unit option list" where
  "battery_tests =
     [test_soc_decreases_under_load,
      test_temperature_rises_under_load,
      test_force_temperature,
      test_no_load_no_temp_rise,
      charge_current_raises_soc,
      discharge_current_lowers_soc,
      soc_clamped_to_full_and_empty,
      charge_current_heats_via_i2r,
      current_saturates_to_i16_for_can]"

lemma repeat_total:
  assumes "\<And>x. P x \<Longrightarrow> f x = Some (g x) \<and> P (g x)"
  shows "P x \<Longrightarrow> repeat n f x = Some ((g ^^ n) x) \<and> P ((g ^^ n) x)"
proof (induction n arbitrary: x)
  case (Suc n)
  with assms [OF Suc.prems] show ?case by (simp add: funpow_Suc_right del: funpow.simps)
qed simp

lemma repeat_battery_step:
  "battery_ok b \<Longrightarrow> repeat n (battery_step t 10) b = Some ((battery_updated (traction_current t) 10 ^^ n) b)
     \<and> battery_ok ((battery_updated (traction_current t) 10 ^^ n) b)"
  by (rule repeat_total) (simp_all add: battery_step_total battery_updated_ok)

lemma repeat_battery_current:
  "battery_ok b \<Longrightarrow> repeat n (battery_step_with_current c 10) b = Some ((battery_updated (sint c) 10 ^^ n) b)
     \<and> battery_ok ((battery_updated (sint c) 10 ^^ n) b)"
  by (rule repeat_total) (simp_all add: battery_step_with_current_total battery_updated_ok)

text \<open>Many updates at one current move the charge by a multiple of one step, up to the limits.\<close>

lemma soc_after_many:
  assumes "0 \<le> m" "m \<le> 100000"
  shows "(soc_after c dt ^^ n) m = max 0 (min 100000 (m - int n * (c * dt * 1000 sdiv 180000000)))"
proof (induction n)
  case (Suc n)
  let ?k = "c * dt * 1000 sdiv 180000000"
  have d: "int (Suc n) * ?k = int n * ?k + ?k" by (simp add: algebra_simps)
  have k: "0 \<le> ?k \<and> 0 \<le> int n * ?k \<or> ?k \<le> 0 \<and> int n * ?k \<le> 0"
    by (cases "0 \<le> ?k") (simp_all add: mult_nonneg_nonpos)
  have "(soc_after c dt ^^ Suc n) m = max 0 (min 100000 (max 0 (min 100000 (m - int n * ?k)) - ?k))"
    using Suc.IH by (simp only: funpow.simps comp_def soc_after_def [of c dt "max 0 (min 100000 (m - int n * ?k))"])
  then show ?case unfolding d using k assms by (elim disjE) linarith+
qed (use assms in simp)

lemma many_updates_soc:
  "sint (bt_soc_milli ((battery_updated c dt ^^ n) b)) = (soc_after c dt ^^ n) (sint (bt_soc_milli b))"
  by (induction n) (simp_all add: battery_updated_soc)

lemma percent_after:
  assumes "battery_ok b" "battery_ok ((battery_updated c dt ^^ n) b)"
  shows "uint (bt_soc_percent ((battery_updated c dt ^^ n) b)) =
    soc_round (max 0 (min 100000 (sint (bt_soc_milli b) - int n * (c * dt * 1000 sdiv 180000000))))"
  using assms by (simp add: battery_ok_def many_updates_soc soc_after_many)

text \<open>At fifty amperes every tick of ten milliseconds heats by a tenth of a degree.\<close>

lemma heating_many:
  "n \<le> 10000 \<Longrightarrow> sint (bt_temp_c_x10 b) = 250 \<Longrightarrow> \<bar>c\<bar> div 1000 = 50 \<Longrightarrow> \<bar>c\<bar> \<le> 64000 \<Longrightarrow>
   sint (bt_temp_c_x10 ((battery_updated c 10 ^^ n) b)) = 250 + int n"
proof (induction n)
  case (Suc n)
  have "bt_temp_c_x10 (battery_updated c 10 x) = bt_temp_c_x10 (battery_updated \<bar>c\<bar> 10 x)" for x
    by (simp add: battery_updated_def Let_def)
  with Suc show ?case
    using battery_updated_temp(1) [of "\<bar>c\<bar>" 10 "(battery_updated c 10 ^^ n) b"] by (simp add: temp_after_def)
qed simp

lemma no_load_many: "bt_temp_c_x10 b = 250 \<Longrightarrow> bt_temp_c_x10 ((battery_updated 0 10 ^^ n) b) = 250"
  by (induction n) (simp_all add: battery_updated_def Let_def temp_after_def)

lemma with_state_fields:
  "bt_soc_percent (battery_with_state soc temp) = soc" "bt_temp_c_x10 (battery_with_state soc temp) = temp"
  "bt_soc_milli (battery_with_state soc temp) = word_of_int (uint soc * 1000)"
  by (simp_all add: battery_with_state_def Let_def battery_default_def)

lemma current_after: "bt_current_ma ((battery_updated c dt ^^ Suc n) b) = word_of_int c"
  by (simp add: battery_updated_def Let_def)

lemmas battery_run = repeat_battery_step repeat_battery_current battery_with_state_ok battery_default_ok

lemmas test_defs = assert_eq_def assert_true_def Let_def with_state_fields word_less_def soc_round_def
  traction_current_def

lemma load_tests_pass:
  "test_soc_decreases_under_load = Some ()" "charge_current_raises_soc = Some ()"
  "discharge_current_lowers_soc = Some ()" "soc_clamped_to_full_and_empty = Some ()"
proof -
  have new: "battery_ok battery_new" by (simp add: battery_new_def battery_default_ok)
  have ok: "battery_ok (battery_with_state 60 250)" "battery_ok (battery_with_state 99 250)"
    "battery_ok (battery_with_state 1 250)" by (simp_all add: battery_with_state_ok)
  show "test_soc_decreases_under_load = Some ()"
    using repeat_battery_step [OF new, of 1000 80]
      percent_after [OF new conjunct2 [OF repeat_battery_step [OF new, of 1000 80]]]
    by (simp add: test_soc_decreases_under_load_def test_defs battery_new_def battery_default_def)
  show "charge_current_raises_soc = Some ()"
    using repeat_battery_current [OF ok(1), of 1000 "- 32000"] current_after [of 999 "- 32000" 10]
      percent_after [OF ok(1) conjunct2 [OF repeat_battery_current [OF ok(1), of 1000 "- 32000"]]]
    by (simp add: charge_current_raises_soc_def test_defs)
  show "discharge_current_lowers_soc = Some ()"
    using repeat_battery_current [OF ok(1), of 1000 32000]
      percent_after [OF ok(1) conjunct2 [OF repeat_battery_current [OF ok(1), of 1000 32000]]]
    by (simp add: discharge_current_lowers_soc_def test_defs)
  show "soc_clamped_to_full_and_empty = Some ()"
    using repeat_battery_current [OF ok(2), of 100000 "- 64000"] repeat_battery_current [OF ok(3), of 100000 64000]
      percent_after [OF ok(2) conjunct2 [OF repeat_battery_current [OF ok(2), of 100000 "- 64000"]]]
      percent_after [OF ok(3) conjunct2 [OF repeat_battery_current [OF ok(3), of 100000 64000]]]
    by (simp add: soc_clamped_to_full_and_empty_def test_defs word_uint_eq_iff)
qed

lemma heating_tests_pass:
  "test_temperature_rises_under_load = Some ()" "charge_current_heats_via_i2r = Some ()"
  "test_no_load_no_temp_rise = Some ()"
proof -
  have new: "battery_ok battery_new" by (simp add: battery_new_def battery_default_ok)
  have ok: "battery_ok (battery_with_state 50 250)" "battery_ok (battery_with_state 80 250)"
    by (simp_all add: battery_with_state_ok)
  have t: "bt_temp_c_x10 battery_new = 250" by (simp add: battery_new_def battery_default_def)
  show "test_temperature_rises_under_load = Some ()"
    using repeat_battery_step [OF new, of 1000 100] heating_many [of 1000 battery_new 50000] t
    by (simp add: test_temperature_rises_under_load_def test_defs)
  show "charge_current_heats_via_i2r = Some ()"
    using repeat_battery_current [OF ok(1), of 1000 "- 50000"] heating_many [of 1000 "battery_with_state 50 250" "- 50000"]
    by (simp add: charge_current_heats_via_i2r_def test_defs)
  show "test_no_load_no_temp_rise = Some ()"
    using repeat_battery_step [OF ok(2), of 100 0] no_load_many [of "battery_with_state 80 250" 100]
    by (simp add: test_no_load_no_temp_rise_def test_defs)
qed

lemma force_temperature_test_pass: "test_force_temperature = Some ()"
  by (simp add: test_force_temperature_def assert_eq_def assert_true_def Let_def force_temperature_def f32_round_def f32_exponent.simps)

lemma saturation_test_pass: "current_saturates_to_i16_for_can = Some ()"
proof -
  have new: "battery_ok battery_new" by (simp add: battery_new_def battery_default_ok)
  have c: "bt_current_ma (battery_updated c dt b) = word_of_int c" for c dt b using current_after [of 0 c dt b] by simp
  show ?thesis
    using new battery_updated_ok [OF new, of 50000 10]
    by (simp add: current_saturates_to_i16_for_can_def assert_eq_def assert_true_def Let_def battery_step_with_current_total c current_ma_i16_def)
qed

lemma battery_tests_pass: "list_all passes_test battery_tests"
  by (simp add: battery_tests_def passes_test_def load_tests_pass heating_tests_pass force_temperature_test_pass saturation_test_pass)

subsection \<open>The plant\<close>

text \<open>The bus is the list of the frames published on it.\<close>

definition record_frame :: "(u32 \<times> u8 list) list can_injector" where
  "record_frame bus sender can_id data now world = (can_id, data) # world"

definition step_plant :: "u64 \<Rightarrow> microcar_plant \<times> (u32 \<times> u8 list) list \<Rightarrow> (microcar_plant \<times> (u32 \<times> u8 list) list) option" where
  "step_plant now s = (case s of (p, world) \<Rightarrow> do_step record_frame now world p)"

definition test_driver_input_increases_speed :: "unit option" where
  "test_driver_input_increases_speed = do {
     let plant = with_machine_id 99 (plant_new 10);
     let plant = queue_driver_input 0 30 False plant;
     (plant, world) \<leftarrow> repeat 100 (step_plant 0) (plant, []);
     assert_true (vp_speed_kph_x10 (mp_vehicle plant) > 0);
     assert_true (bt_soc_percent (mp_battery plant) \<le> 80)
   }"

definition plant_brake_overrides_throttle :: "unit option" where
  "plant_brake_overrides_throttle = do {
     let plant = with_machine_id 99 (plant_new 10);
     let plant = queue_driver_input 0 80 True plant;
     (plant, world) \<leftarrow> repeat 50 (step_plant 0) (plant, []);
     assert_eq (vp_speed_kph_x10 (mp_vehicle plant)) 0
   }"

definition test_multiple_inputs :: "unit option" where
  "test_multiple_inputs = do {
     let plant = with_machine_id 99 (plant_new 10);
     let plant = queue_driver_input 0 50 False plant;
     let plant = queue_driver_input 500000 100 False plant;
     (plant, world) \<leftarrow> repeat 100 (step_plant 500000) (plant, []);
     let speed_after_50 = vp_speed_kph_x10 (mp_vehicle plant);
     assert_true (speed_after_50 > 0);
     assert_eq (vp_motor_torque_percent (mp_vehicle plant)) 100;
     assert_eq (vp_throttle_percent (mp_vehicle plant)) 100
   }"

definition plant_tests :: "unit option list" where
  "plant_tests =
     [test_driver_input_increases_speed,
      plant_brake_overrides_throttle,
      test_multiple_inputs]"

text \<open>
  Once every queued input has been applied, the vehicle of a stepped plant is the stepped vehicle, and the pack
  only discharges.
\<close>

definition settled :: "microcar_plant \<Rightarrow> bool" where
  "settled p \<longleftrightarrow> mp_input_cursor p = length (mp_pending_inputs p) \<and> mp_tick_ms p = 10
     \<and> battery_ok (mp_battery p) \<and> bt_soc_percent (mp_battery p) \<le> 80"

lemma step_settled:
  assumes "settled p" "vehicle_step 10 (mp_vehicle p) = Some v"
  shows "\<exists>p' world'. step_plant now (p, world) = Some (p', world') \<and> settled p' \<and> mp_vehicle p' = v"
proof -
  have ok: "battery_ok (mp_battery p)" "uint (bt_soc_percent (mp_battery p)) \<le> 80" "mp_tick_ms p = 10"
    and still: "apply_inputs now p = p"
    using assms(1) by (auto simp: settled_def word_le_def apply_inputs.simps input_due_def)
  let ?c = "traction_current (vp_motor_torque_percent v)"
  let ?b = "battery_updated ?c 10 (mp_battery p)"
  have b: "battery_step (vp_motor_torque_percent v) 10 (mp_battery p) = Some ?b"
    using battery_step_total [OF ok(1)] by simp
  have "sint (bt_soc_milli ?b) \<le> sint (bt_soc_milli (mp_battery p))"
    using ok(1) traction_current_range by (simp add: battery_updated_soc soc_after_discharge battery_ok_def)
  then have "uint (bt_soc_percent ?b) \<le> 80"
    using ok battery_updated_ok [OF ok(1), of ?c 10] soc_round_mono by (fastforce simp: battery_ok_def)
  then show ?thesis
    using assms b still ok(3) battery_updated_ok [OF ok(1), of ?c 10]
    by (simp add: step_plant_def do_step_def Let_def settled_def word_le_def)
qed

lemma repeat_settled:
  "settled p \<Longrightarrow> repeat n (vehicle_step 10) (mp_vehicle p) = Some v \<Longrightarrow>
   \<exists>p' world'. repeat n (step_plant now) (p, world) = Some (p', world') \<and> settled p' \<and> mp_vehicle p' = v"
proof (induction n arbitrary: p world)
  case (Suc n)
  then obtain v1 where v1: "vehicle_step 10 (mp_vehicle p) = Some v1" "repeat n (vehicle_step 10) v1 = Some v"
    by (auto split: bind_splits)
  from step_settled [OF Suc.prems(1) v1(1)] obtain p1 w1
    where p1: "step_plant now (p, world) = Some (p1, w1)" "settled p1" "mp_vehicle p1 = v1" by blast
  with Suc.IH [of p1 w1] v1(2) show ?case by simp
qed simp

lemma repeat_apply_inputs:
  assumes "settled (apply_inputs now p)"
  shows "repeat (Suc n) (step_plant now) (p, world) = repeat (Suc n) (step_plant now) (apply_inputs now p, world)"
  using assms by (simp add: step_plant_def do_step_def settled_def apply_inputs.simps [of now "apply_inputs now p"] input_due_def)

text \<open>The vehicle alone under the driver's inputs of the three tests.\<close>

definition driven :: "u8 \<Rightarrow> bool \<Rightarrow> vehicle_plant" where
  "driven throttle brake = set_motor_torque throttle (set_driver_input throttle brake vehicle_new)"

definition drives :: "nat \<Rightarrow> vehicle_plant \<Rightarrow> (vehicle_plant \<Rightarrow> bool) \<Rightarrow> bool" where
  "drives n v P = (case repeat n (vehicle_step 10) v of None \<Rightarrow> False | Some v' \<Rightarrow> P v')"

lemma driven_vehicles:
  "drives 100 (driven 30 False) (\<lambda>v. vp_speed_kph_x10 v > 0)"
  "drives 50 (driven 80 True) (\<lambda>v. vp_speed_kph_x10 v = 0)"
  "drives 100 (driven 100 False)
     (\<lambda>v. vp_speed_kph_x10 v > 0 \<and> vp_motor_torque_percent v = 100 \<and> vp_throttle_percent v = 100)"
  by code_simp+

lemma repeat_plant:
  assumes "p1 = apply_inputs now p" "settled p1" "drives n (mp_vehicle p1) P" "0 < n"
  shows "\<exists>p' world'. repeat n (step_plant now) (p, world) = Some (p', world') \<and> settled p' \<and> P (mp_vehicle p')"
proof -
  obtain m where m: "n = Suc m" using assms(4) by (cases n) auto
  obtain v where v: "repeat n (vehicle_step 10) (mp_vehicle p1) = Some v" "P v"
    using assms(3) by (auto simp: drives_def split: option.splits)
  from repeat_settled [OF assms(2) v(1), of now world] repeat_apply_inputs [of now p m world] assms(1,2) v(2) m
  show ?thesis by auto
qed

lemmas plant_run_defs = plant_new_def with_machine_id_def queue_driver_input_def apply_inputs.simps input_due_def
  apply_next_input_def Let_def driven_def settled_def battery_new_def battery_default_ok

lemma battery_default_percent: "bt_soc_percent battery_default = 80"
  by (simp add: battery_default_def)

abbreviation plant_with :: "u8 \<Rightarrow> bool \<Rightarrow> microcar_plant" where
  "plant_with throttle brake \<equiv> queue_driver_input 0 throttle brake (with_machine_id 99 (plant_new 10))"

lemma one_input:
  "mp_vehicle (apply_inputs 0 (plant_with throttle brake)) = driven throttle brake"
  "settled (apply_inputs 0 (plant_with throttle brake))"
  by (simp_all add: plant_run_defs battery_default_percent)

lemma two_inputs:
  fixes p defines "p \<equiv> queue_driver_input 500000 100 False (plant_with 50 False)"
  shows "mp_vehicle (apply_inputs 500000 p) = driven 100 False" "settled (apply_inputs 500000 p)"
  by (simp_all add: p_def plant_run_defs battery_default_percent set_motor_torque_def set_driver_input_def)

lemma plant_tests_pass: "list_all passes_test plant_tests"
proof -
  have "test_driver_input_increases_speed = Some ()"
    using repeat_plant [OF refl one_input(2), of 100 30 False "\<lambda>v. vp_speed_kph_x10 v > 0" "[]"] driven_vehicles(1)
    by (auto simp: one_input test_driver_input_increases_speed_def Let_def assert_true_def settled_def)
  moreover have "plant_brake_overrides_throttle = Some ()"
    using repeat_plant [OF refl one_input(2), of 50 80 True "\<lambda>v. vp_speed_kph_x10 v = 0" "[]"] driven_vehicles(2)
    by (auto simp: one_input plant_brake_overrides_throttle_def Let_def assert_true_def assert_eq_def)
  moreover have "test_multiple_inputs = Some ()"
    using repeat_plant [OF refl two_inputs(2), of 100 _ "[]"] driven_vehicles(3)
    by (fastforce simp: two_inputs test_multiple_inputs_def Let_def assert_true_def assert_eq_def)
  ultimately show ?thesis by (simp add: plant_tests_def passes_test_def)
qed

end
