(* ===== verification/Spec2Isabelle.thy ===== *)
theory Spec2Isabelle
  imports Bms Gateway Powertrain Dashboard Ota_Slot Plant Cli Summary Ota_Lane Charging_Lane
    Diagnostics_Lane Topology_Lane Telematics_Lane Toml_Zoo Simfarm Debug_Gym
    Debug_Gym_Corpus Harness Harness_Verdicts Firmware Firmware_Tables Firmware_Ota Firmware_Loops
    Firmware_Vehicle Firmware_Corpus Harness_Tests Plant_Tests
begin

text \<open>
  Verification of microcar, a deterministic benchmark of a small electric vehicle.

  \<^bold>\<open>The program.\<close> Four electronic control units (gateway, powertrain, battery management,
  dashboard) exchange CAN frames on a simulated bus; a plant model supplies the physics; scenarios
  in TOML files choose firmware, driver inputs and faults; a command line runs one scenario, and
  a test harness runs many, hashes their traces and judges them. The Rust code has four parts:
  the mirror of the firmware's decision logic (\<^verbatim>\<open>state_tests/\<close>), the plant (\<^verbatim>\<open>plant/\<close>), the
  simulation front end (\<^verbatim>\<open>src/\<close>) and the harness (\<^verbatim>\<open>dogfood/\<close>). The simulator itself (the crate
  costar) and the operating system are outside the repository.

  \<^bold>\<open>Theories and what they model.\<close>
  \<^item> \<open>Prelude\<close>: Rust's fixed-width integers as words, checked and saturating arithmetic
    (\<open>None\<close> is a panic), list updates. \<open>Rust_Str\<close>: the string operations of the standard library the
    sources call, on UTF-8 bytes, with their parsers and printers of integers.
  \<^item> \<open>Protocol\<close> (\<^verbatim>\<open>state_tests/src/protocol.rs\<close>): identifiers, payloads, temperature classes, torque clamp.
  \<^item> \<open>Bms\<close> (\<^verbatim>\<open>bms.rs\<close>), \<open>Gateway\<close> (\<^verbatim>\<open>gateway.rs\<close>: mode machine, heartbeat monitor, fault manager),
    \<open>Powertrain\<close> (\<^verbatim>\<open>powertrain.rs\<close>: torque controller, watchdog), \<open>Dashboard\<close> (\<^verbatim>\<open>dashboard.rs\<close>),
    \<open>Ota_Slot\<close> (\<^verbatim>\<open>ota_slot.rs\<close>: update state machine, metadata record, CRC-32).
  \<^item> \<open>Vehicle\<close>, \<open>Battery\<close>, \<open>Plant\<close> (\<^verbatim>\<open>plant/src/vehicle.rs\<close>, \<^verbatim>\<open>battery.rs\<close>, \<^verbatim>\<open>sensors.rs\<close>, \<^verbatim>\<open>model.rs\<close>):
    speed, charge, heat and voltage in the source's integer arithmetic, the queue of driver inputs,
    the frames of a step and fault injection.
  \<^item> \<open>Ecu\<close> (\<^verbatim>\<open>src/lib.rs\<close>): which ECU a machine of a scenario is, its
    entry points and its boot. \<open>Validate\<close>
    (\<^verbatim>\<open>src/validate.rs\<close>): the checks a scenario passes before it runs. \<open>Cli\<close> (\<^verbatim>\<open>src/main.rs\<close>):
    arguments, the run loop and the exit codes.
  \<^item> \<open>Trace_Hash\<close>, \<open>Json\<close>, \<open>Runner\<close>, \<open>Invariants\<close>, \<open>Summary\<close> (\<^verbatim>\<open>dogfood/src/trace_hash.rs\<close>, \<^verbatim>\<open>json.rs\<close>,
    \<^verbatim>\<open>runner.rs\<close>, \<^verbatim>\<open>invariants.rs\<close>, \<^verbatim>\<open>determinism.rs\<close> and \<^verbatim>\<open>summary.rs\<close>): the harness's core.
  \<^item> \<open>Lane\<close>, \<open>Ota_Lane\<close>, \<open>Charging_Lane\<close>, \<open>Diagnostics_Lane\<close> (\<^verbatim>\<open>dogfood/src/ota.rs\<close>, \<^verbatim>\<open>charging.rs\<close>,
    \<^verbatim>\<open>diagnostics.rs\<close>): the feature lanes, which read expectations from a scenario's comments and
    judge the trace of its run. The code the three files repeat is modelled once, in \<open>Lane\<close>.
  \<^item> \<open>Topology_Lane\<close>, \<open>Telematics_Lane\<close>, \<open>Toml_Zoo\<close>, \<open>Simfarm\<close>, \<open>Debug_Gym\<close> (\<^verbatim>\<open>dogfood/src/topology.rs\<close>,
    \<^verbatim>\<open>telematics.rs\<close>, \<^verbatim>\<open>toml_zoo.rs\<close>, \<^verbatim>\<open>simfarm.rs\<close>, \<^verbatim>\<open>debug_gym.rs\<close>): the lanes on routing, telemetry,
    malformed input, concurrency and stepping. \<open>Btree\<close> has the ordered maps and sets they use.
  \<^item> \<open>Debug_Gym_Corpus\<close> (\<^verbatim>\<open>dogfood/src/debug_gym_corpus.rs\<close>): the corpus of seeded bugs, each a buggy and a
    fixed firmware whose traces must differ as documented.
  \<^item> \<open>Harness\<close> (\<^verbatim>\<open>dogfood/src/bin/harness.rs\<close>): the harness's command line, every command with its
    arguments, printed lines, report file and exit code; \<open>Harness_Verdicts\<close> has its properties.

  \<^item> \<open>Firmware\<close>, \<open>Firmware_Tables\<close>, \<open>Firmware_Ota\<close>, \<open>Firmware_Loops\<close> (\<^verbatim>\<open>common/src/\<close> and \<^verbatim>\<open>firmware/\<close>): the C
    code that the Rust state machines mirror (modes, battery states, torque clamp and controller, watchdog;
    heartbeat monitor, fault manager and dashboard on fixed arrays; update slots), the charging state machine, and
    the control loops of the gateway and the powertrain ECU. \<open>Firmware_Vehicle\<close> adds the loop of the battery ECU
    and composes the three over the bus; \<open>Firmware_Scripts\<close>, \<open>Firmware_Lockstep\<close> and \<open>Firmware_Corpus\<close> have the scripted
    sequences of the gateway (update, diagnostics, charging) and the forced modes of the powertrain, with the
    events they trace, and what the lanes and the bug corpus say of these events.
  \<^item> \<open>State_Tests\<close>, \<open>Plant_Tests\<close>, \<open>Front_Tests\<close>, \<open>Lane_Tests\<close>, \<open>Harness_Tests\<close>: the unit tests inside the Rust files, one
    definition each, that run on the definitions above; \<open>None\<close> is a panic, hence also a failed assertion. That they
    pass is a check of the definitions, not a property.

  A struct is a \<open>record\<close>, an enum a \<open>datatype\<close>; a method on \<open>&mut self\<close> takes the record and returns
  the new one, with its result. A step that can panic returns an \<open>option\<close>, one that can fail
  \<open>error + 'a\<close>.

  \<^bold>\<open>Interfaces.\<close> \<open>Alarm_Table\<close> has the locale \<open>alarm_table\<close>, a list of entries with a key and an active
  flag that behaves as the set of active keys; the gateway's fault table and the dashboard's
  warning list are its instances. \<open>Liveness\<close> has \<open>timeout_watch\<close>, a watch over beats and checks
  that refines the time of the last beat; the powertrain's watchdog is its instance. \<open>Digest\<close> has
  \<open>injective_digest\<close>, folds whose step is injective in the state and in the byte; CRC-32 and
  FNV-1a are its instances. \<open>Lane\<close> has \<open>expectation_lane\<close>, from which the verdict of each of
  the three lanes and the exit code of its command follow, and \<open>judged_report\<close>, what a report says of
  the results it lists; the reports of the lanes, of the topology lane, of the gym and of the corpus
  are its instances, and the exit codes of their commands rest on it. \<open>Firmware\<close> has \<open>mirrors\<close>, a forward
  simulation between a C component and its Rust mirror that is lifted to runs; the gateway, the watchdog,
  the three tables and the update slots are its instances. \<open>Firmware_Lockstep\<close> has \<open>lockstep\<close>, which carries the
  events of a scripted run on a silent bus over to runs in which the other nodes are heard; the diagnostics
  script, the script that starts a session while driving and the charging script are its instances.

  \<^bold>\<open>What is proved.\<close> For the control units: FAULT latches until reboot and nothing else causes it,
  the heartbeat monitor and the watchdog agree with the log of beats, the fault counters are exact
  while no active fault is re-graded, the torque command is exactly the clamped throttle, the
  warning list is a set of which the most severe is shown, an update changes the boot slot only
  through the full protocol, and a damaged record is never selected. For the plant: no panic and no
  wrap-around at ticks of up to ten seconds, inputs applied on time, frames that decode to the
  state. For the front end: validation decides a declarative specification and reports its first
  violation, boot agrees with it, exit codes are exact, and the run loop stops at its deadline. For
  the harness: runs always end, printed reports are JSON, hashes detect any change of one byte,
  normalisation is idempotent on ASCII, and the verdict of every lane is equivalent to a
  declarative condition on its runs. For the harness's commands: the exit code is 0 exactly when these
  conditions hold of every scenario the command ran, a report is written at most once, to the given
  path, as JSON that agrees with the exit code. For the
  C firmware: it answers as its mirror wherever the mirror does not panic and the fixed tables suffice,
  the exceptions (battery thresholds, torque outside DRIVE) are stated exactly, the fault counters of the
  gateway loop are exact, and the effect of a lost battery, of a silent gateway and of a charging fault is
  given as the code has it. In the composed vehicle, where
  frames are lost, delayed and repeated at will and other nodes send anything, torque is commanded only after another
  node announced DRIVE or LIMP, and an overheated battery takes the gateway to FAULT. The scripted firmware passes
  the expectations of its scenario files, and the buggy variants of the corpus are told from the fixed ones. Below, the
  properties across
  components: the thermal protection from the pack temperature to the motor command over whole runs,
  an injected fault from the plant through the frame to the stopped vehicle, silent nodes from the
  heartbeats to the mode, the update lane's verdict on the slot model's own trace, and the zoo
  lane's verdict on what the binary prints.

  \<^bold>\<open>Parameters and bounds.\<close> The simulator is the record \<open>simulator\<close> of functions on an arbitrary world
  (\<open>Cli\<close>), the operating system the record \<open>os\<close> (\<open>Runner\<close>), files the record \<open>file_system\<close>, the bus
  \<open>can_injector\<close>; theorems hold for all of them, or under named hypotheses on the clock. Loops that
  depend on those are \<open>partial_function (option)\<close>, where \<open>None\<close> is not returning, and termination
  is proved where the code has it. The plant's theorems take ticks of at most 10 000 ms, far above
  the 10 ms of the scenarios: beyond that the sixteen bits of the temperature can overflow. The
  only floating-point value that reaches the state, an injected temperature, is the \<open>u32\<close> it comes
  from, rounded to \<open>f32\<close> by an integer function.

  The clock of the operating system has a last instant, beyond which a deadline panics, as in the
  standard library. Waiting for a killed child and joining the threads that read its pipes are total functions of the
  record: that they may block is not modelled. The harness's environment is the record \<open>harness_env\<close>: the operating system, the
  files, which do not change while a command runs, the variable that names the binary, and the result
  of \<^verbatim>\<open>cargo test\<close>. A lane that runs children in threads takes the state in which each thread starts as an argument,
  so that its theorems hold for every interleaving.

  The tables of the firmware hold 8 nodes, 16 faults and 16 warnings, as in its headers. A pass of a
  firmware loop is one step; whether it gets the mutex, the clock, and the frames it receives are
  arguments. The scripted test sequences, off in \<open>Firmware_Loops\<close> and \<open>Firmware_Vehicle\<close>, are on in \<open>Firmware_Scripts\<close>.
  The update script is done after sixty passes, 600 ms, which is why its theorems start there.

  \<^bold>\<open>Not modelled.\<close> The simulator and the TOML reader are not code of this repository. Of the C firmware,
  the tool, telematics and demonstration ECUs, the display task of the dashboard, the coordinator, the trace output
  that no lane reads, and the interleaving of tasks inside a pass are left out; build script, examples, benches
  and integration tests only drive what is modelled. Of the unit tests, four are left out, beside the empty ones of
  two stubs: one asks for the size of a packed structure, one spawns a process that does not exist, one asks the
  bus of the simulator for its frames, one searches a printed report. Text is bytes: Unicode enters only where the sources inspect it (white space, normalisation).
\<close>

subsection \<open>The control chain\<close>

text \<open>
  One control cycle as \<^verbatim>\<open>docs/vehicle_model.md\<close> lays it out over the components: a pack sample
  enters the BMS, its state gives the torque limit and the fault and limp flags, the gateway takes
  the flags (after a drive request, if there is one) and sets the mode, and the torque controller
  commands the motor under mode, limit and driver input.
\<close>

record control_input =
  ci_temp_c_x10 :: i16
  ci_voltage_mv :: u16
  ci_current_ma :: i16
  ci_soc_percent :: u8
  ci_nodes_online :: bool
  ci_fault_count :: u8
  ci_drive_request :: bool
  ci_throttle :: u8
  ci_brake :: bool
  ci_gear :: u8

record control_state =
  cs_bms :: bms_state_machine
  cs_limits :: bms_limits
  cs_gateway :: gateway_state
  cs_torque :: torque_controller

definition control_start :: control_state where
  "control_start = \<lparr>cs_bms = bms_default, cs_limits = limits_default,
                     cs_gateway = gateway_default, cs_torque = torque_default\<rparr>"

definition control_cycle :: "control_state \<Rightarrow> control_input \<Rightarrow> control_state" where
  "control_cycle s c =
     (let (st, bms) = bms_update (cs_bms s) (ci_temp_c_x10 c) (ci_voltage_mv c) (ci_current_ma c)
                        (ci_soc_percent c);
          (limit, limits) = limits_compute (cs_limits s) st;
          gw = (if ci_drive_request c then enter_drive (cs_gateway s) else cs_gateway s);
          (mode, gw) = gateway_update gw (ci_nodes_online c) (is_fault bms) (is_limp bms)
                         (ci_fault_count c);
          tc = set_input (cs_torque s) (ci_throttle c) (ci_brake c) (ci_gear c);
          (torque, tc) = torque_compute (set_bms_limit (set_mode tc mode) limit)
      in \<lparr>cs_bms = bms, cs_limits = limits, cs_gateway = gw, cs_torque = tc\<rparr>)"

definition control_run :: "control_input list \<Rightarrow> control_state" where
  "control_run cs = foldl control_cycle control_start cs"

definition overheated :: "control_input \<Rightarrow> bool" where
  "overheated c \<longleftrightarrow> 910 \<le> sint (ci_temp_c_x10 c)"

lemma control_cycle_mode:
  "gs_mode (cs_gateway (control_cycle s c)) =
     determine_mode (gs_mode (if ci_drive_request c then enter_drive (cs_gateway s) else cs_gateway s))
       (ci_nodes_online c) (overheated c) (\<not> overheated c \<and> 760 \<le> sint (ci_temp_c_x10 c))"
  by (simp add: control_cycle_def case_prod_beta Let_def is_fault_def is_limp_def
      bms_determine_state_tenths overheated_def)

lemma control_cycle_fault:
  "gs_mode (cs_gateway (control_cycle s c)) = Fault \<longleftrightarrow>
     gs_mode (cs_gateway s) = Fault \<or> overheated c"
  by (auto simp: control_cycle_mode mc_mode enter_drive_def)

lemma control_cycle_torque:
  "sint (tc_output_torque (cs_torque (control_cycle s c))) =
     (if ci_throttle c > 100 \<or> ci_brake c \<or> gs_mode (cs_gateway (control_cycle s c)) = Fault then 0
      else int (min (unat (ci_throttle c)) (if 760 \<le> sint (ci_temp_c_x10 c) then 25 else 100)))
   \<and> tc_motor_enable (cs_torque (control_cycle s c)) =
       (\<not> ci_throttle c > 100 \<and> gs_mode (cs_gateway (control_cycle s c)) \<noteq> Fault)"
proof -
  let ?mode = "gs_mode (cs_gateway (control_cycle s c))"
  let ?lim = "fst (limits_compute (cs_limits s) (bms_determine_state (ci_temp_c_x10 c)))"
  let ?tc = "set_bms_limit (set_mode (set_input (cs_torque s) (ci_throttle c) (ci_brake c) (ci_gear c)) ?mode) ?lim"
  have tc: "cs_torque (control_cycle s c) = snd (torque_compute ?tc)"
    by (simp add: control_cycle_def case_prod_beta Let_def)
  have hot: "\<not> 910 \<le> sint (ci_temp_c_x10 c)" if "?mode \<noteq> Fault"
    using that by (simp add: control_cycle_fault overheated_def)
  have limp: "?mode = Limp \<Longrightarrow> 760 \<le> sint (ci_temp_c_x10 c)"
    by (auto simp: control_cycle_mode mc_mode)
  have "min (if ?mode = Limp then 25 else 100) (unat ?lim)
      = (if 760 \<le> sint (ci_temp_c_x10 c) then 25 else 100)" if "?mode \<noteq> Fault"
    using hot [OF that] limp by (auto simp: limits_compute_value bms_determine_state_tenths)
  then show ?thesis
    by (auto simp: tc torque_compute_state torque_compute_output unat_effective_max
        is_throttle_invalid_def set_input_def set_mode_def set_bms_limit_def)
qed

lemma control_run_snoc [simp]: "control_run (cs @ [c]) = control_cycle (control_run cs) c"
  by (simp add: control_run_def)

lemma control_run_fault:
  "gs_mode (cs_gateway (control_run cs)) = Fault \<longleftrightarrow> list_ex overheated cs"
proof (induction cs rule: rev_induct)
  case Nil
  show ?case by (simp add: control_run_def control_start_def gateway_default_def)
next
  case (snoc c cs)
  then show ?case by (simp add: control_cycle_fault)
qed

text \<open>
  Claim C1. Thermal protection from power-on, over any sequence of control cycles. The vehicle is
  in FAULT exactly when some sample so far was 91.0 degrees or more; then the motor is disabled
  and the torque 0 in every later cycle, however cold the pack has become. Otherwise the torque is
  0 under the brake or an invalid throttle, and the throttle limited to 25 percent from 76.0
  degrees on and to 100 percent below, in every mode but FAULT. This is what the mirrors in Rust compute. The documents
  ask for more: FAULT above 90 degrees, 25 percent above 75 degrees (the code truncates tenths of a degree first), and
  no torque outside DRIVE (the code blocks it in FAULT only).
\<close>

theorem thermal_protection_over_runs:
  "let s = control_run (cs @ [c]);
       fault = list_ex overheated (cs @ [c])
   in (gs_mode (cs_gateway s) = Fault \<longleftrightarrow> fault)
      \<and> (tc_motor_enable (cs_torque s) \<longleftrightarrow> \<not> fault \<and> ci_throttle c \<le> 100)
      \<and> sint (tc_output_torque (cs_torque s)) =
          (if fault \<or> ci_brake c \<or> ci_throttle c > 100 then 0
           else int (min (unat (ci_throttle c)) (if 760 \<le> sint (ci_temp_c_x10 c) then 25 else 100)))"
proof -
  have "gs_mode (cs_gateway (control_cycle (control_run cs) c)) = Fault \<longleftrightarrow> list_ex overheated (cs @ [c])"
    using control_run_fault [of "cs @ [c]"] by simp
  with control_cycle_torque [of "control_run cs" c] show ?thesis
    by (simp add: Let_def not_less disj_ac conj_ac)
qed

subsection \<open>From the plant to the motor\<close>

lemma control_cycle_hot:
  assumes "overheated c"
  shows "gs_mode (cs_gateway (control_cycle s c)) = Fault"
    and "tc_output_torque (cs_torque (control_cycle s c)) = 0"
    and "\<not> tc_motor_enable (cs_torque (control_cycle s c))"
  using control_cycle_torque [of s c] assms by (simp_all add: control_cycle_fault signed_eq_0_iff)

text \<open>
  Claim C4. An injected overtemperature stops the vehicle. From any plant reached with a tick of
  at most 100 ms and inputs queued ahead of time, force 91 degrees or more and step once: the step
  does not panic, its sensor frame decodes to a sample that takes the control units to FAULT in
  one cycle, from any state they are in and under any driver input, with torque 0 and the motor
  disabled.
\<close>

theorem injected_overtemperature_stops_vehicle:
  assumes "run_plant inject cs world0 (plant_new tick) = Some (p, world)" "ahead_of_time None cs"
    "uint tick \<le> 100" "case last_step None cs of None \<Rightarrow> True | Some s \<Rightarrow> s \<le> now" "91 \<le> uint v"
  shows "\<exists>p' world1 data soc mv temp ma.
    do_step inject now world (snd (apply_fault ''battery'' ''force_temperature'' (Some v) p)) =
      Some (p', inject (mp_bus_name p') (mp_plant_machine_id p') 0x500 data now world1) \<and>
    decode_plant_frame data = Some (soc, mv, temp, ma) \<and>
    (let s' = control_cycle s (c
              \<lparr>ci_temp_c_x10 := temp, ci_voltage_mv := mv, ci_current_ma := ma, ci_soc_percent := soc\<rparr>)
     in gs_mode (cs_gateway s') = Fault \<and> tc_output_torque (cs_torque s') = 0
        \<and> \<not> tc_motor_enable (cs_torque s'))"
proof -
  have inv: "plant_inv (queued cs) (last_step None cs) p"
    using run_plant_inv [OF plant_inv_new assms(2), of tick inject world0] assms(1,3) by simp
  have "mp_tick_ms p = tick"
    using run_plant_tick [OF assms(1)] by (simp add: plant_new_def)
  with assms(3) have tick: "uint (mp_tick_ms p) \<le> 100" by simp
  obtain p' world' where step:
    "do_step inject now world (snd (apply_fault ''battery'' ''force_temperature'' (Some v) p))
       = Some (p', world')"
    and hot: "910 \<le> sint (bt_temp_c_x10 (mp_battery p'))"
    by (rule step_after_forced_temp [OF inv assms(4) tick assms(5)])
  from do_step_frames [OF step] obtain data world1 where
    "world' = inject (mp_bus_name p') (mp_plant_machine_id p') 0x500 data now world1"
    "decode_plant_frame data = Some (bt_soc_percent (mp_battery p'), bt_voltage_mv (mp_battery p'),
      bt_temp_c_x10 (mp_battery p'), current_ma_i16 (mp_battery p'))" by blast
  with step hot show ?thesis unfolding Let_def
    by (intro exI conjI control_cycle_hot) (auto simp: overheated_def)
qed

theorem injected_overtemperature_stops_vehicle_witness:
  "\<exists>p' frames soc mv temp ma data.
     do_step (\<lambda>bus sender can_id data now frames. (can_id, data) # frames) 10 []
       (snd (apply_fault ''battery'' ''force_temperature'' (Some 95) (plant_new 10)))
       = Some (p', (0x500 :: u32, data) # frames) \<and>
     decode_plant_frame data = Some (soc, mv, temp, ma) \<and>
     gs_mode (cs_gateway (control_cycle control_start
       \<lparr>ci_temp_c_x10 = temp, ci_voltage_mv = mv, ci_current_ma = ma, ci_soc_percent = soc,
        ci_nodes_online = True, ci_fault_count = 0, ci_drive_request = True, ci_throttle = 50,
        ci_brake = False, ci_gear = 0\<rparr>)) = Fault"
  using injected_overtemperature_stops_vehicle [of
      "\<lambda>bus sender can_id data now frames. (can_id, data) # frames" "[]" "[]" 10 "plant_new 10" "[]"
      10 95 control_start
      "\<lparr>ci_temp_c_x10 = 0, ci_voltage_mv = 0, ci_current_ma = 0, ci_soc_percent = 0,
        ci_nodes_online = True, ci_fault_count = 0, ci_drive_request = True, ci_throttle = 50,
        ci_brake = False, ci_gear = 0\<rparr>"]
  by (simp add: Let_def) blast

subsection \<open>The update lane and the slot model\<close>

text \<open>
  The gateway traces the state of the slot model as the event \<open>ota_state\<close>; these are the events of
  a run of the model.
\<close>

fun ota_states :: "ota_slot_model \<Rightarrow> ota_op list \<Rightarrow> ota_state list" where
  "ota_states m [] = [om_state m]"
| "ota_states m (op # ops) = om_state m # ota_states (ota_step m op) ops"

definition ota_trace :: "ota_state list \<Rightarrow> user_trace list" where
  "ota_trace sts = map (\<lambda>st. \<lparr>ut_machine = 1, ut_label = ''ota_state'', ut_value = ucast (ota_state_u8 st)\<rparr>) sts"

lemma ota_states_snoc:
  "ota_states m (ops @ [op]) = ota_states m ops @ [om_state (ota_step (ota_run m ops) op)]"
  by (induction ops arbitrary: m) simp_all

lemma ota_states_path:
  "ota_inv m \<Longrightarrow> om_state (ota_step m op) \<in> {om_state m, Ota_Slot.RolledBack} \<or>
     unat (ota_state_u8 (om_state (ota_step m op))) = Suc (unat (ota_state_u8 (om_state m)))"
  by (cases op; cases "om_state m") (auto simp: ota_inv_def ota_op_defs)

definition state_codes :: "ota_state list \<Rightarrow> u32 list" where
  "state_codes sts = map (\<lambda>st. of_nat (unat (ota_state_u8 st))) sts"

lemma values_of_ota_trace: "values_of (ota_trace sts) 1 ''ota_state'' = state_codes sts"
  by (simp add: values_of_def ota_trace_def traced_def state_codes_def filter_map comp_def)

lemma states_climb:
  "om_state (ota_run ota_new ops) \<noteq> Ota_Slot.RolledBack \<Longrightarrow>
   subseq (map of_nat [0..<Suc (unat (ota_state_u8 (om_state (ota_run ota_new ops))))])
     (state_codes (ota_states ota_new ops))"
proof (induction ops rule: rev_induct)
  case Nil
  show ?case by (simp add: ota_new_def state_codes_def)
next
  case (snoc op ops)
  let ?m = "ota_run ota_new ops"
  have rb: "om_state ?m \<noteq> Ota_Slot.RolledBack"
    using snoc.prems by (cases op) (auto simp: ota_run_append ota_op_defs split: if_splits)
  have "ota_inv ?m" by (intro ota_inv_run ota_inv_new)
  then consider "om_state (ota_step ?m op) = om_state ?m"
    | "unat (ota_state_u8 (om_state (ota_step ?m op))) = Suc (unat (ota_state_u8 (om_state ?m)))"
    using ota_states_path [of ?m op] snoc.prems by (auto simp: ota_run_append)
  then show ?case
  proof cases
    case 1
    with snoc.IH [OF rb] show ?thesis
      unfolding ota_states_snoc state_codes_def map_append
      by (intro subseq_rev_drop_many) (simp add: ota_run_append)
  next
    case 2
    have "subseq (map of_nat [0..<Suc (unat (ota_state_u8 (om_state ?m)))] @
        [of_nat (Suc (unat (ota_state_u8 (om_state ?m))))]) (state_codes (ota_states ota_new (ops @ [op])))"
      unfolding ota_states_snoc state_codes_def map_append
      by (intro list_emb_append_mono snoc.IH [OF rb, unfolded state_codes_def]) (simp only: 2 list.map subseq_order.order_refl)
    then show ?thesis using 2 by (simp add: ota_run_append)
  qed
qed

lemma healthy_stays: "Ota_Slot.Healthy \<in> set (ota_states m ops) \<Longrightarrow> om_state (ota_run m ops) = Ota_Slot.Healthy"
proof (induction ops arbitrary: m)
  case (Cons op ops)
  have "ota_run m' ops = m'" if "om_state m' = Ota_Slot.Healthy" for m'
    using that by (induction ops) (simp_all add: healthy_absorbing)
  with Cons show ?case by (auto simp: healthy_absorbing)
qed simp

text \<open>
  Claim C25. The update lane's expectation of the state sequence 0 to 5 judges a run of the slot
  model from power-on correctly: it passes on the trace of the run's states exactly when the run
  ends booting slot B, that is, when the update was installed.
\<close>

theorem ota_lane_accepts_exactly_installed_updates:
  "(ck_passed (evaluate_ota (StateSequence [0, 1, 2, 3, 4, 5]) (ota_trace (ota_states ota_new ops)))
     \<longleftrightarrow> boot_slot (ota_run ota_new ops) = SLOT_B)"
proof -
  let ?m = "ota_run ota_new ops"
  have six: "[0, 1, 2, 3, 4, 5 :: u32] = map of_nat [0..<Suc 5]" by (simp add: upt_rec)
  have "ck_passed (evaluate_ota (StateSequence [0, 1, 2, 3, 4, 5]) (ota_trace (ota_states ota_new ops)))
      \<longleftrightarrow> subseq [0, 1, 2, 3, 4, 5] (state_codes (ota_states ota_new ops))"
    by (simp add: Let_def mk_check_def is_subsequence_iff state_values_def values_of_ota_trace OTA_NODE_GATEWAY_def)
  also have "\<dots> \<longleftrightarrow> om_state ?m = Ota_Slot.Healthy"
  proof
    assume "subseq [0, 1, 2, 3, 4, 5] (state_codes (ota_states ota_new ops))"
    then have "5 \<in> set (state_codes (ota_states ota_new ops))"
      by (rule list_emb_set [where x = 5]) auto
    then obtain st where "st \<in> set (ota_states ota_new ops)" "of_nat (unat (ota_state_u8 st)) = (5 :: u32)"
      by (auto simp: state_codes_def)
    from this(2) have "st = Ota_Slot.Healthy" by (cases st) simp_all
    with \<open>st \<in> _\<close> show "om_state ?m = Ota_Slot.Healthy" by (intro healthy_stays) simp
  next
    assume "om_state ?m = Ota_Slot.Healthy"
    with states_climb [of ops] show "subseq [0, 1, 2, 3, 4, 5] (state_codes (ota_states ota_new ops))"
      unfolding six by simp
  qed
  also have "\<dots> \<longleftrightarrow> boot_slot ?m = SLOT_B"
    using active_slot_run [of ops] boot_slot_active [OF ota_inv_run [OF ota_inv_new], of ops]
    by (auto simp: SLOT_A_def SLOT_B_def)
  finally show ?thesis .
qed


subsection \<open>Heartbeats and the mode\<close>



subsection \<open>The binary and the harness\<close>

text \<open>No kind of a validation error has a closing bracket.\<close>

lemma validation_kind_plain:
  assumes "validate_scenario sc = Some (Inl e)"
  shows "CHR '']'' \<notin> set (ve_kind e)"
proof -
  have "ve_kind e \<in> actor_kinds \<union> {''unknown-firmware'', ''missing-gateway'', ''duplicate-bus-node'',
      ''drive-without-powertrain''}"
    using assms validate_stages [of sc]
    by (auto simp: validate_scenario_def decides_def verror_def vok_def vbind_def)
  then show ?thesis by (auto simp: actor_kinds_def)
qed

text \<open>The exit status the operating system reports of a program that ended.\<close>

definition exit_status_of :: "outcome \<Rightarrow> exit_status option" where
  "exit_status_of r =
     (case r of Exit code out err \<Rightarrow> Some \<lparr>es_success = (code = 0), es_code = Some (ucast code)\<rparr> | _ \<Rightarrow> None)"

text \<open>
  Claim C40. The harness understands the binary's errors. When a scenario loads but fails validation
  and the child's standard error delivers what the binary prints, the case of the TOML zoo passes
  exactly when its corpus file expects the kind the validation reports, and the printed line does
  not contain the word that the runner takes for a panic.
\<close>

theorem zoo_accepts_validation_errors:
  assumes "\<not> starts_with path ''--''" "sim_from_file sim path = Inr sc"
    "validate_scenario sc = Some (Inl e)"
    "os_stderr os s = Some (map Some (err_lines (main z sim [path])))"
  shows "cs_passed (evaluate_case c
      (collect_run os name start (exit_status_of (main z sim [path])) False s)) \<longleftrightarrow>
    tz_expected_kind c = ve_kind e \<and>
    \<not> contains (''microcar: error ['' @ ve_kind e @ '']: '' @ ve_message e) ''panicked''"
proof -
  let ?line = "''microcar: error ['' @ ve_kind e @ '']: '' @ ve_message e"
  have flags: "path \<noteq> ''--trace-v2''" "path \<noteq> ''--step''" using assms(1) by auto
  have main: "main z sim [path] = Exit 2 [] [?line]"
    using assms(1-3) flags by (simp add: main_def no_args_def)
  let ?run = "collect_run os name start (exit_status_of (main z sim [path])) False s"
  have run: "rn_exit_code ?run = Some 2" "rn_stderr_tail ?run = [?line]"
    "rn_status ?run = RPanic \<longleftrightarrow> contains ?line ''panicked''"
    using assms(4) unfolding main
    by (simp_all add: collect_run_def Let_def exit_status_of_def joined_def tail_def TAIL_LINES_def classify_def
        del: append_Cons append_assoc contains.simps)
  have "parse_error_kind ?run = Some (ve_kind e)"
    unfolding parse_error_kind_def run(2)
    using error_kind_line_printed [OF validation_kind_plain [OF assms(3)], of "ve_message e"]
    by (simp del: append_Cons)
  then show ?thesis unfolding evaluate_case_passed run(1,3) by auto
qed

text \<open>A scenario with a machine on its bus twice, and a child that printed one line.\<close>

definition twice_on_bus :: scenario where
  "twice_on_bus =
     \<lparr>sc_name = ''bad'', sc_machine = [],
      sc_bus = [[\<lparr>bn_bus = ''b'', bn_machine = ''m''\<rparr>, \<lparr>bn_bus = ''b'', bn_machine = ''m''\<rparr>]],
      sc_input = [], sc_bus_inject = [], sc_plant = None, sc_duration_ms = None\<rparr>"

definition printed :: "string list \<Rightarrow> nat os" where
  "printed ls = stuck_child\<lparr>os_stderr := (\<lambda>s. Some (map Some ls))\<rparr>"

theorem zoo_accepts_validation_errors_witness:
  "cs_passed (evaluate_case \<lparr>tz_name = ''a'', tz_path = ''a.toml'', tz_expected_kind = ''duplicate-bus-node''\<rparr>
     (collect_run (printed (err_lines (main False (ticking\<lparr>sim_from_file := \<lambda>p. Inr twice_on_bus\<rparr>) [''a.toml''])))
        ''a'' 0 (exit_status_of (main False (ticking\<lparr>sim_from_file := \<lambda>p. Inr twice_on_bus\<rparr>) [''a.toml''])) False 0))"
proof -
  let ?sim = "ticking\<lparr>sim_from_file := \<lambda>p. Inr twice_on_bus\<rparr>"
  obtain e where e: "validate_scenario twice_on_bus = Some (Inl e)" "ve_kind e = ''duplicate-bus-node''"
      "\<not> contains (''microcar: error ['' @ ve_kind e @ '']: '' @ ve_message e) ''panicked''"
    by (simp add: validate_scenario_def twice_on_bus_def check_gateway_def check_duplicate_nodes_def vbind_def
        vok_def verror_def quoted_def)
  have "sim_from_file ?sim ''a.toml'' = Inr twice_on_bus" by simp
  from zoo_accepts_validation_errors [of "''a.toml''" ?sim, OF _ this e(1), of
      "printed (err_lines (main False ?sim [''a.toml'']))" 0 False]
  show ?thesis using e(2,3) by (simp add: printed_def)
qed

end
